(* ===== verification/Prelude.thy ===== *)
theory Prelude
  imports Complex_Main "HOL-Library.Signed_Division"
begin

text \<open>
  Shared vocabulary of the EnvoyTrade development: the Go base types (machine integers, byte
  strings, time stamps, errors, results), the parts of Go's standard library the sources use
  on them, the third-party decimal package as a parameter, and the generic lemmas and
  theorem collections the component theories build on.
\<close>

named_theorems go_string \<open>evaluation of the string functions\<close>
named_theorems go_int \<open>range facts about wrapped machine integers\<close>
named_theorems store_frame \<open>what a store operation leaves unchanged\<close>

section \<open>Machine integers\<close>

text \<open>
  Go's \<open>int\<close> and \<open>int64\<close> are 64-bit two's complement values, \<open>int32\<close> and \<open>int16\<close> the 32-
  and 16-bit ones. They are integers kept in range by an explicit wrap-around at every
  operation that can leave the range.
\<close>

definition wrap64 :: "int \<Rightarrow> int" where
  "wrap64 k = (k + 2 ^ 63) mod 2 ^ 64 - 2 ^ 63"

definition wrap32 :: "int \<Rightarrow> int" where
  "wrap32 k = (k + 2 ^ 31) mod 2 ^ 32 - 2 ^ 31"

definition in64 :: "int \<Rightarrow> bool" where
  "in64 k \<longleftrightarrow> - (2 ^ 63) \<le> k \<and> k < 2 ^ 63"

definition in32 :: "int \<Rightarrow> bool" where
  "in32 k \<longleftrightarrow> - (2 ^ 31) \<le> k \<and> k < 2 ^ 31"

lemma wrap64_id [go_int]: "in64 k \<Longrightarrow> wrap64 k = k"
  by (simp add: wrap64_def in64_def)

lemma wrap32_id [go_int]: "in32 k \<Longrightarrow> wrap32 k = k"
  by (simp add: wrap32_def in32_def)

lemma in64_wrap64 [go_int]: "in64 (wrap64 k)"
proof -
  have "0 \<le> (k + 2 ^ 63) mod 2 ^ 64" and "(k + 2 ^ 63) mod 2 ^ 64 < (2::int) ^ 64"
    by simp_all
  then show ?thesis by (simp add: wrap64_def in64_def)
qed

lemma in32_wrap32 [go_int]: "in32 (wrap32 k)"
proof -
  have "0 \<le> (k + 2 ^ 31) mod 2 ^ 32" and "(k + 2 ^ 31) mod 2 ^ 32 < (2::int) ^ 32"
    by simp_all
  then show ?thesis by (simp add: wrap32_def in32_def)
qed

lemma wrap32_0 [simp]: "wrap32 0 = 0" and wrap64_0 [simp]: "wrap64 0 = 0"
  by (simp_all add: wrap32_def wrap64_def)

text \<open>The package-local helper \<open>abs\<close> of squareoff and rebalance: negation wraps at the minimum.\<close>

definition go_abs :: "int \<Rightarrow> int" where
  "go_abs x = (if x < 0 then wrap64 (- x) else x)"

lemma go_abs_eq: "in64 x \<Longrightarrow> x \<noteq> - (2 ^ 63) \<Longrightarrow> go_abs x = \<bar>x\<bar>"
  by (auto simp: go_abs_def in64_def intro!: wrap64_id)

section \<open>Byte strings\<close>

text \<open>
  Strings are byte lists. \<open>strings.ToLower\<close>, \<open>ToUpper\<close>, \<open>TrimSpace\<close> and \<open>EqualFold\<close> are
  modelled on ASCII text, which is what broker identifiers, symbols, statuses and the
  messages compared against in the sources consist of.
\<close>

definition lower_char :: "char \<Rightarrow> char" where
  "lower_char c = (let n = of_char c :: nat in if 65 \<le> n \<and> n \<le> 90 then char_of (n + 32) else c)"

definition upper_char :: "char \<Rightarrow> char" where
  "upper_char c = (let n = of_char c :: nat in if 97 \<le> n \<and> n \<le> 122 then char_of (n - 32) else c)"

definition ToLower :: "string \<Rightarrow> string" where
  "ToLower s = map lower_char s"

definition ToUpper :: "string \<Rightarrow> string" where
  "ToUpper s = map upper_char s"

definition is_space :: "char \<Rightarrow> bool" where
  "is_space c \<longleftrightarrow> (let n = of_char c :: nat in 9 \<le> n \<and> n \<le> 13 \<or> n = 32)"

definition TrimSpace :: "string \<Rightarrow> string" where
  "TrimSpace s = rev (dropWhile is_space (rev (dropWhile is_space s)))"

definition HasPrefix :: "string \<Rightarrow> string \<Rightarrow> bool" where
  "HasPrefix s p \<longleftrightarrow> take (length p) s = p"

fun Contains :: "string \<Rightarrow> string \<Rightarrow> bool" where
  "Contains [] p \<longleftrightarrow> p = []"
| "Contains (c # s) p \<longleftrightarrow> HasPrefix (c # s) p \<or> Contains s p"

definition EqualFold :: "string \<Rightarrow> string \<Rightarrow> bool" where
  "EqualFold s t \<longleftrightarrow> ToLower s = ToLower t"

definition TrimSuffix :: "string \<Rightarrow> string \<Rightarrow> string" where
  "TrimSuffix s p = (if length p \<le> length s \<and> drop (length s - length p) s = p
     then take (length s - length p) s else s)"

text \<open>\<open>strings.Split(s, sep)\<close> for a one-byte separator, and \<open>strings.Join\<close>.\<close>

fun Split :: "string \<Rightarrow> char \<Rightarrow> string list" where
  "Split [] sep = [[]]"
| "Split (c # s) sep =
     (if c = sep then [] # Split s sep
      else (case Split s sep of [] \<Rightarrow> [[c]] | p # ps \<Rightarrow> (c # p) # ps))"

fun Join :: "string list \<Rightarrow> string \<Rightarrow> string" where
  "Join [] sep = []"
| "Join [s] sep = s"
| "Join (s # t # ss) sep = s @ sep @ Join (t # ss) sep"

lemma lower_char_idem [simp]: "lower_char (lower_char c) = lower_char c"
  by (simp add: lower_char_def Let_def)

lemma ToLower_idem [simp]: "ToLower (ToLower s) = ToLower s"
  by (simp add: ToLower_def)

lemma ToLower_append: "ToLower (s @ t) = ToLower s @ ToLower t"
  by (simp add: ToLower_def)

lemma ToLower_Nil [simp]: "ToLower [] = []"
  by (simp add: ToLower_def)

lemma ToLower_eq_Nil [simp]: "ToLower s = [] \<longleftrightarrow> s = []"
  by (simp add: ToLower_def)

lemma HasPrefix_Nil [simp]: "HasPrefix s []"
  by (simp add: HasPrefix_def)

lemma HasPrefix_append [simp]: "HasPrefix (p @ s) p"
  by (simp add: HasPrefix_def)

lemma TrimSpace_Nil [simp]: "TrimSpace [] = []"
  by (simp add: TrimSpace_def)

lemma dropWhile_idem: "dropWhile P (dropWhile P xs) = dropWhile P xs"
  by (induction xs) auto

lemma dropWhile_rev_hd:
  assumes "dropWhile P xs = xs"
  shows "dropWhile P (rev (dropWhile P (rev xs))) = rev (dropWhile P (rev xs))"
proof (cases xs)
  case Nil
  then show ?thesis by simp
next
  case (Cons x ys)
  then have "\<not> P x" using assms by (metis dropWhile.simps(2) dropWhile_eq_Cons_conv)
  then have "rev (dropWhile P (rev xs)) = x # rev (dropWhile P (rev ys))"
    using Cons by (simp add: dropWhile_append3)
  with \<open>\<not> P x\<close> show ?thesis by simp
qed

lemma TrimSpace_idem [simp]: "TrimSpace (TrimSpace s) = TrimSpace s"
  unfolding TrimSpace_def
  by (simp add: dropWhile_rev_hd dropWhile_idem)

text \<open>Decimal rendering of integers, the verb \<open>%d\<close> of package fmt.\<close>

fun show_nat :: "nat \<Rightarrow> string" where
  "show_nat n = (if n < 10 then [char_of (48 + n)] else show_nat (n div 10) @ [char_of (48 + n mod 10)])"

declare show_nat.simps [simp del]

definition show_int :: "int \<Rightarrow> string" where
  "show_int k = (if k < 0 then CHR ''-'' # show_nat (nat (- k)) else show_nat (nat k))"

text \<open>The verb \<open>%07d\<close> on a non-negative number: zero padding to seven digits.\<close>

definition pad7 :: "int \<Rightarrow> string" where
  "pad7 k = (let s = show_int k in replicate (7 - length s) CHR ''0'' @ s)"

text \<open>
  The verb \<open>%q\<close> (\<open>strconv.Quote\<close>): quotes and backslashes are escaped, control characters
  become \<open>\n\<close>-like or \<open>\x..\<close> escapes. The payloads built with it are JSON only if no escape
  outside JSON's is needed, which \<open>json_quotable\<close> tests.
\<close>

definition hex_nibble :: "nat \<Rightarrow> char" where
  "hex_nibble n = char_of (if n < 10 then 48 + n else 87 + n)"

definition quote_char :: "char \<Rightarrow> string" where
  "quote_char c = (let n = of_char c :: nat; bs = char_of (92::nat) in
     if n = 34 \<or> n = 92 then [bs, c]
     else if n = 7 then [bs, CHR ''a''] else if n = 8 then [bs, CHR ''b'']
     else if n = 9 then [bs, CHR ''t''] else if n = 10 then [bs, CHR ''n'']
     else if n = 11 then [bs, CHR ''v''] else if n = 12 then [bs, CHR ''f'']
     else if n = 13 then [bs, CHR ''r'']
     else if n < 32 \<or> n = 127 then [bs, CHR ''x'', hex_nibble (n div 16), hex_nibble (n mod 16)]
     else [c])"

definition Quote :: "string \<Rightarrow> string" where
  "Quote s = [char_of (34::nat)] @ concat (map quote_char s) @ [char_of (34::nat)]"

definition json_quotable :: "string \<Rightarrow> bool" where
  "json_quotable s = list_all (\<lambda>c. let n = of_char c :: nat in
     n \<in> {8, 9, 10, 12, 13} \<or> 32 \<le> n \<and> n \<noteq> 127) s"

section \<open>Identifiers, time stamps\<close>

text \<open>
  A \<open>uuid.UUID\<close> is represented by its canonical text, the value of its \<open>String\<close> method.
  A \<open>time.Time\<close> is a number of nanoseconds since Go's zero time, so that \<open>IsZero\<close> is
  equality with 0; \<open>time.Duration\<close> is a number of nanoseconds.
\<close>

type_synonym uuid = string
type_synonym gotime = int
type_synonym duration = int

definition uuid_Nil :: uuid where
  "uuid_Nil = ''00000000-0000-0000-0000-000000000000''"

definition IsZero :: "gotime \<Rightarrow> bool" where
  [simp]: "IsZero t \<longleftrightarrow> t = 0"

definition Millisecond :: duration where "Millisecond = 1000000"
definition Second :: duration where "Second = 1000 * Millisecond"
definition Minute :: duration where "Minute = 60 * Second"
definition Hour :: duration where "Hour = 60 * Minute"

lemmas durations = Millisecond_def Second_def Minute_def Hour_def

section \<open>The decimal package\<close>

text \<open>
  \<open>shopspring/decimal\<close> is not part of the sources. A \<open>decimal.Decimal\<close> denotes a rational
  number; addition, multiplication, comparison, \<open>Sign\<close>, \<open>Equal\<close>, \<open>IsZero\<close> and \<open>Floor\<close> are
  documented to be exact and are the operations on \<open>rat\<close>. The three operations whose result
  the documentation determines only up to rounding or range are parameters, collected in
  a record; \<open>decimal_doc\<close> states their documentation: a quotient has at most 16 decimal
  places and is rounded to nearest, and \<open>IntPart\<close> of an integral value that fits an
  \<open>int64\<close> is that value.
\<close>

type_synonym decimal = rat
type_synonym float64 = rat

record decimal_pkg =
  dec_Div :: "decimal \<Rightarrow> decimal \<Rightarrow> decimal"
  dec_IntPart :: "decimal \<Rightarrow> int"
  dec_Float64 :: "decimal \<Rightarrow> float64"

definition decimal_doc :: "decimal_pkg \<Rightarrow> bool" where
  "decimal_doc P \<longleftrightarrow>
     (\<forall>a b. b \<noteq> 0 \<longrightarrow> dec_Div P a b * 10 ^ 16 \<in> \<int> \<and> \<bar>dec_Div P a b - a / b\<bar> * (2 * 10 ^ 16) \<le> 1)
     \<and> (\<forall>k. in64 k \<longrightarrow> dec_IntPart P (of_int k) = k)"

text \<open>An instance of the documented behaviour, used to evaluate the model on concrete inputs.\<close>

definition round_half_away :: "rat \<Rightarrow> int" where
  "round_half_away x = (if 0 \<le> x then \<lfloor>x + 1 / 2\<rfloor> else - \<lfloor>- x + 1 / 2\<rfloor>)"

definition dec16 :: decimal_pkg where
  "dec16 = \<lparr> dec_Div = (\<lambda>a b. of_int (round_half_away (a / b * 10 ^ 16)) / 10 ^ 16),
            dec_IntPart = (\<lambda>a. wrap64 (if 0 \<le> a then \<lfloor>a\<rfloor> else - \<lfloor>- a\<rfloor>)),
            dec_Float64 = (\<lambda>a. a) \<rparr>"

lemma round_half_away_close: "\<bar>of_int (round_half_away x) - x\<bar> * 2 \<le> 1"
proof -
  have "of_int \<lfloor>x + 1 / 2\<rfloor> \<le> x + 1 / 2" and "x + 1 / 2 < of_int \<lfloor>x + 1 / 2\<rfloor> + 1"
    and "of_int \<lfloor>- x + 1 / 2\<rfloor> \<le> - x + 1 / 2" and "- x + 1 / 2 < of_int \<lfloor>- x + 1 / 2\<rfloor> + 1"
    by linarith+
  then show ?thesis
    by (cases "0 \<le> x") (simp_all add: round_half_away_def abs_if algebra_simps, linarith+)
qed

lemma decimal_doc_dec16: "decimal_doc dec16"
proof -
  have "\<bar>of_int (round_half_away (a / b * 10 ^ 16)) / 10 ^ 16 - a / b\<bar> * (2 * 10 ^ 16) \<le> (1::rat)" for a b
  proof -
    let ?x = "a / b * 10 ^ 16" and ?r = "rat_of_int (round_half_away (a / b * 10 ^ 16))"
    have "\<bar>?r / 10 ^ 16 - a / b\<bar> * 10 ^ 16 = \<bar>(?r / 10 ^ 16 - a / b) * 10 ^ 16\<bar>"
      by (simp only: abs_mult) simp
    also have "(?r / 10 ^ 16 - a / b) * 10 ^ 16 = ?r - ?x"
      by (simp add: left_diff_distrib)
    finally have "\<bar>?r / 10 ^ 16 - a / b\<bar> * (2 * 10 ^ 16) = \<bar>?r - ?x\<bar> * 2" by simp
    then show ?thesis using round_half_away_close[of ?x] by simp
  qed
  then show ?thesis
    by (auto simp: decimal_doc_def dec16_def wrap64_id floor_minus)
qed

section \<open>Errors and results\<close>

text \<open>
  The errors the sources distinguish: the sentinels of package domain and of memchan,
  account status and the broker registry, the context errors, a network error whose
  \<open>Timeout()\<close> is true, a PostgreSQL error by its code, any other error by its text, and
  \<open>fmt.Errorf\<close> with one \<open>%w\<close>, which keeps the wrapped error for \<open>errors.Is\<close>.
\<close>

datatype go_error =
    ErrDuplicate | ErrNotFound | ErrConflict | ErrBrokerUnreachable | ErrAuthExpired
  | ErrMasterHasOpenPositions | ErrUnproxiedNotAllowed | ErrIPRequired | ErrAccountDisabled
  | ErrIPAlreadyAssigned | ErrInvalidAccountStatus | ErrFull | ErrUnsupportedBroker
  | CtxCanceled | CtxDeadlineExceeded
  | NetTimeout string
  | PgError string string
  | Plain string
  | Wrapf string go_error string

fun errors_Is :: "go_error \<Rightarrow> go_error \<Rightarrow> bool" where
  "errors_Is (Wrapf pre e post) target \<longleftrightarrow> errors_Is e target"
| "errors_Is e target \<longleftrightarrow> e = target"

fun err_Error :: "go_error \<Rightarrow> string" where
  "err_Error ErrDuplicate = ''domain: duplicate''"
| "err_Error ErrNotFound = ''domain: not found''"
| "err_Error ErrConflict = ''domain: conflict''"
| "err_Error ErrBrokerUnreachable = ''domain: broker is not reachable''"
| "err_Error ErrAuthExpired = ''domain: broker account login has expired''"
| "err_Error ErrMasterHasOpenPositions = ''domain: master has open positions''"
| "err_Error ErrUnproxiedNotAllowed =
     ''domain: unproxied order routing is not allowed: IP needs to be set for this operation''"
| "err_Error ErrIPRequired = ''domain: IP address is required for follower accounts''"
| "err_Error ErrAccountDisabled = ''domain: follower account is disabled''"
| "err_Error ErrIPAlreadyAssigned = ''domain: IP address is already assigned to another account''"
| "err_Error ErrInvalidAccountStatus =
     (let q = [CHR 0x27] in ''invalid account status: must be '' @ q @ ''active'' @ q @ '', '' @ q @ ''ok''
        @ q @ '', '' @ q @ ''pending'' @ q @ '', or '' @ q @ ''error'' @ q)"
| "err_Error ErrFull = ''memchan: queue full''"
| "err_Error ErrUnsupportedBroker = ''unsupported broker''"
| "err_Error CtxCanceled = ''context canceled''"
| "err_Error CtxDeadlineExceeded = ''context deadline exceeded''"
| "err_Error (NetTimeout m) = m"
| "err_Error (PgError code m) = m"
| "err_Error (Plain m) = m"
| "err_Error (Wrapf pre e post) = pre @ err_Error e @ post"

type_synonym 'a result = "go_error + 'a"

text \<open>\<open>fmt.Errorf("ctx: %w", err)\<close>\<close>

abbreviation errorf :: "string \<Rightarrow> go_error \<Rightarrow> go_error" where
  "errorf ctx e \<equiv> Wrapf (ctx @ '': '') e []"

section \<open>Generic lemmas\<close>

lemma floor_rat_numeral [simp]: "\<lfloor>numeral a / numeral b :: rat\<rfloor> = numeral a div numeral b"
  by (metis floor_divide_of_int_eq of_int_numeral)

lemma distinct_map_filter: "distinct (map f xs) \<Longrightarrow> distinct (map f (filter P xs))"
  by (induction xs) auto

lemma map_of_zip_map: "map_of (map (\<lambda>x. (f x, g x)) xs) k =
   map_option g (find (\<lambda>x. f x = k) xs)"
  by (induction xs) auto

lemma find_Some_mem: "find P xs = Some x \<Longrightarrow> x \<in> set xs \<and> P x"
  by (induction xs) (auto split: if_splits)

lemma find_None_iff_ex: "find P xs = None \<longleftrightarrow> (\<forall>x\<in>set xs. \<not> P x)"
  by (induction xs) auto

end
