(* ===== verification/Sizing.thy ===== *)
theory Sizing
  imports Prelude
begin

text \<open>
  Order sizing (\<open>internal/domain/sizing.go\<close>): the quantity a follower places for a master
  fill. The model follows the code's decimal arithmetic, including the rounding of the
  decimal package's division and the wrap-around of the final integer product; the lemmas
  show when that arithmetic equals the exact rational specification and where it does not.
\<close>

section \<open>Definitions\<close>

datatype SizingReason =
    ReasonOK | ReasonBelowOneLot | ReasonCapped | ReasonBadInstrument | ReasonInvalidRatio
  | ReasonFollowerInError | ReasonFollowerPending

fun SizingReason_String :: "SizingReason \<Rightarrow> string" where
  "SizingReason_String ReasonOK = ''ok''"
| "SizingReason_String ReasonBelowOneLot = ''below_one_lot''"
| "SizingReason_String ReasonCapped = ''capped''"
| "SizingReason_String ReasonBadInstrument = ''bad_instrument''"
| "SizingReason_String ReasonInvalidRatio = ''invalid_ratio''"
| "SizingReason_String ReasonFollowerInError = ''follower_in_error''"
| "SizingReason_String ReasonFollowerPending = ''follower_pending''"

definition SizeOrder :: "decimal_pkg \<Rightarrow> int \<Rightarrow> decimal \<Rightarrow> int \<Rightarrow> int \<Rightarrow> int \<times> SizingReason" where
  "SizeOrder P masterQty ratio lotSize maxQty =
     (if lotSize \<le> 0 then (0, ReasonBadInstrument)
      else if sgn ratio \<le> 0 then (0, ReasonInvalidRatio)
      else
        let lot = of_int lotSize;
            raw = of_int masterQty * ratio;
            lots = dec_IntPart P (of_int \<lfloor>dec_Div P raw lot\<rfloor>);
            qty = wrap64 (lots * lotSize)
        in if maxQty > 0 \<and> qty > maxQty then
             let capped = maxQty - maxQty smod lotSize
             in if capped = 0 then (0, ReasonBelowOneLot) else (capped, ReasonCapped)
           else if qty = 0 then (0, ReasonBelowOneLot)
           else (qty, ReasonOK))"

section \<open>Specification\<close>

text \<open>
  What the sizing promises: the exact product is floored to a multiple of the lot, then the
  cap is floored to a multiple of the lot.
\<close>

definition lot_floor :: "rat \<Rightarrow> int \<Rightarrow> int" where
  "lot_floor x lot = \<lfloor>x / of_int lot\<rfloor> * lot"

definition size_spec :: "int \<Rightarrow> decimal \<Rightarrow> int \<Rightarrow> int \<Rightarrow> int \<times> SizingReason" where
  "size_spec m r lot cap =
     (if lot \<le> 0 then (0, ReasonBadInstrument)
      else if r \<le> 0 then (0, ReasonInvalidRatio)
      else
        let q = lot_floor (of_int m * r) lot
        in if 0 < cap \<and> cap < q then
             (if cap < lot then (0, ReasonBelowOneLot) else (lot_floor (of_int cap) lot, ReasonCapped))
           else if q = 0 then (0, ReasonBelowOneLot) else (q, ReasonOK))"

text \<open>
  The inputs of the running system: quantities from the broker, a clone factor from a
  \<open>numeric(10,6)\<close> column, a lot size from an \<open>integer\<close> column, an intended quantity that an
  \<open>int64\<close> can hold.
\<close>

definition sizing_input :: "int \<Rightarrow> decimal \<Rightarrow> int \<Rightarrow> bool" where
  "sizing_input m r lot \<longleftrightarrow> 0 \<le> m \<and> r * 10 ^ 6 \<in> \<int> \<and> lot < 2 ^ 31 \<and> of_int m * r < 2 ^ 63"

section \<open>The rounded division does not change the floor\<close>

lemma floor_of_scaled:
  assumes "0 < (n::rat)" and "q * n \<in> \<int>" and "n \<in> \<int>"
  shows "q \<le> of_int \<lfloor>q\<rfloor> + 1 - 1 / n"
proof -
  obtain a where a: "q * n = of_int a" using assms(2) by (auto elim: Ints_cases)
  obtain b where b: "n = of_int b" using assms(3) by (auto elim: Ints_cases)
  have "0 < b" using assms(1) b by simp
  have "q * n < (of_int \<lfloor>q\<rfloor> + 1) * n"
    using assms(1) by (intro mult_strict_right_mono) linarith+
  then have "of_int a < (of_int ((\<lfloor>q\<rfloor> + 1) * b) :: rat)" using a b by simp
  then have "a < (\<lfloor>q\<rfloor> + 1) * b" by (simp only: of_int_less_iff)
  then have "a + 1 \<le> (\<lfloor>q\<rfloor> + 1) * b" by simp
  then have "of_int (a + 1) \<le> (of_int ((\<lfloor>q\<rfloor> + 1) * b) :: rat)" by (simp only: of_int_le_iff)
  then have "q * n + 1 \<le> (of_int \<lfloor>q\<rfloor> + 1) * n" using a b by simp
  then have "q + 1 / n \<le> of_int \<lfloor>q\<rfloor> + 1"
    using assms(1) by (simp add: field_simps)
  then show ?thesis by simp
qed

lemma floor_of_rounded:
  fixes d q :: rat
  assumes near: "\<bar>d - q\<bar> * (2 * 10 ^ 16) \<le> 1" and grid: "d * 10 ^ 16 \<in> \<int>"
    and below: "q \<le> of_int \<lfloor>q\<rfloor> + 1 - e" and e: "1 < e * (2 * 10 ^ 16)"
  shows "\<lfloor>d\<rfloor> = \<lfloor>q\<rfloor>"
proof -
  let ?k = "of_int \<lfloor>q\<rfloor> :: rat"
  obtain z where z: "d * 10 ^ 16 = of_int z" using grid by (auto elim: Ints_cases)
  have le: "(q - d) * (2 * 10 ^ 16) \<le> 1" and ge: "(d - q) * (2 * 10 ^ 16) \<le> 1"
    using near by (auto simp: abs_if split: if_splits)
  have "?k \<le> d"
  proof (rule ccontr)
    assume "\<not> ?k \<le> d"
    then have "d * 10 ^ 16 < ?k * 10 ^ 16" by simp
    then have "of_int z < (of_int (\<lfloor>q\<rfloor> * 10 ^ 16) :: rat)" using z by simp
    then have "z < \<lfloor>q\<rfloor> * 10 ^ 16" by (simp only: of_int_less_iff)
    then have "z + 1 \<le> \<lfloor>q\<rfloor> * 10 ^ 16" by simp
    then have "of_int (z + 1) \<le> (of_int (\<lfloor>q\<rfloor> * 10 ^ 16) :: rat)" by (simp only: of_int_le_iff)
    then have "d * 10 ^ 16 + 1 \<le> ?k * 10 ^ 16" using z by simp
    also have "\<dots> \<le> q * 10 ^ 16" by (intro mult_right_mono) auto
    finally have "2 \<le> (q - d) * (2 * 10 ^ 16)" by (simp add: algebra_simps)
    with le show False by simp
  qed
  moreover have "d < ?k + 1"
  proof -
    have "d * (2 * 10 ^ 16) \<le> q * (2 * 10 ^ 16) + 1" using ge by (simp add: algebra_simps)
    also have "\<dots> < q * (2 * 10 ^ 16) + e * (2 * 10 ^ 16)" using e by simp
    also have "\<dots> = (q + e) * (2 * 10 ^ 16)" by (simp add: algebra_simps)
    also have "\<dots> \<le> (?k + 1) * (2 * 10 ^ 16)" using below by (intro mult_right_mono) auto
    finally show ?thesis by simp
  qed
  ultimately show ?thesis by (simp add: floor_eq_iff)
qed

lemma rounded_lots:
  assumes doc: "decimal_doc P" and inp: "sizing_input m r lot" and lot: "0 < lot"
  shows "\<lfloor>dec_Div P (of_int m * r) (of_int lot)\<rfloor> = \<lfloor>of_int m * r / of_int lot\<rfloor>"
proof -
  let ?q = "of_int m * r / of_int lot :: rat" and ?n = "10 ^ 6 * of_int lot :: rat"
  have n: "0 < ?n" "?n \<in> \<int>" using lot by simp_all
  have "of_int m * (r * 10 ^ 6) \<in> \<int>"
    using inp Ints_mult[OF Ints_of_int, of "r * 10 ^ 6" m] unfolding sizing_input_def by blast
  then have "?q * ?n \<in> \<int>" using lot by simp
  then have below: "?q \<le> of_int \<lfloor>?q\<rfloor> + 1 - 1 / ?n"
    using n by (intro floor_of_scaled)
  have "rat_of_int lot < rat_of_int (2 ^ 31)"
    using inp unfolding sizing_input_def by (subst of_int_less_iff) simp
  then have e: "1 < 1 / ?n * (2 * 10 ^ 16)" using lot by (simp add: field_simps)
  from doc lot have "dec_Div P (of_int m * r) (of_int lot) * 10 ^ 16 \<in> \<int>"
    and "\<bar>dec_Div P (of_int m * r) (of_int lot) - ?q\<bar> * (2 * 10 ^ 16) \<le> 1"
    by (auto simp: decimal_doc_def)
  then show ?thesis using below e by (intro floor_of_rounded)
qed

section \<open>Facts about the specification\<close>

lemma lot_floor_le: "0 < lot \<Longrightarrow> of_int (lot_floor x lot) \<le> x"
proof -
  assume lot: "0 < lot"
  have "of_int \<lfloor>x / of_int lot\<rfloor> * rat_of_int lot \<le> x / of_int lot * of_int lot"
    using lot by (intro mult_right_mono) auto
  then show ?thesis using lot by (simp add: lot_floor_def)
qed

lemma lot_floor_greater: "0 < lot \<Longrightarrow> x < of_int (lot_floor x lot + lot)"
proof -
  assume lot: "0 < lot"
  have "x / of_int lot * of_int lot < (of_int \<lfloor>x / of_int lot\<rfloor> + 1) * rat_of_int lot"
    using lot by (intro mult_strict_right_mono) (linarith, simp)
  then show ?thesis using lot by (simp add: lot_floor_def algebra_simps)
qed

lemma lot_floor_nonneg: "0 \<le> x \<Longrightarrow> 0 < lot \<Longrightarrow> 0 \<le> lot_floor x lot"
  by (simp add: lot_floor_def)

lemma lot_floor_dvd [simp]: "lot dvd lot_floor x lot"
  by (simp add: lot_floor_def)

lemma lot_floor_int: "0 < lot \<Longrightarrow> lot_floor (of_int c) lot = c - c mod lot"
proof -
  assume "0 < lot"
  have "lot_floor (of_int c) lot = c div lot * lot"
    by (simp add: lot_floor_def floor_divide_of_int_eq)
  then show ?thesis by (simp add: minus_mod_eq_div_mult)
qed

lemma lot_floor_in64:
  assumes "sizing_input m r lot" and "0 < lot" and "0 < r"
  shows "in64 (lot_floor (of_int m * r) lot)" and "in64 \<lfloor>of_int m * r / of_int lot\<rfloor>"
proof -
  let ?x = "of_int m * r"
  have nn: "0 \<le> ?x" and lim: "?x < of_int (2 ^ 63)"
    using assms by (auto simp: sizing_input_def)
  have "rat_of_int (lot_floor ?x lot) < of_int (2 ^ 63)"
    using lot_floor_le[of lot ?x] assms(2) lim by linarith
  then have "lot_floor ?x lot < 2 ^ 63" by (simp only: of_int_less_iff)
  moreover have "0 \<le> lot_floor ?x lot" using nn assms(2) by (rule lot_floor_nonneg)
  ultimately show "in64 (lot_floor ?x lot)" by (simp add: in64_def)
  have "?x * 1 \<le> ?x * of_int lot" using nn assms(2) by (intro mult_left_mono) auto
  then have "?x / of_int lot \<le> ?x" using assms(2) by (simp add: divide_le_eq)
  then have "rat_of_int \<lfloor>?x / of_int lot\<rfloor> < of_int (2 ^ 63)" using lim by linarith
  then have "\<lfloor>?x / of_int lot\<rfloor> < 2 ^ 63" by (simp only: of_int_less_iff)
  moreover have "0 \<le> \<lfloor>?x / of_int lot\<rfloor>" using nn assms(2) by simp
  ultimately show "in64 \<lfloor>?x / of_int lot\<rfloor>" by (simp add: in64_def)
qed

lemma smod_pos: "0 \<le> c \<Longrightarrow> 0 < lot \<Longrightarrow> c smod lot = c mod (lot::int)"
  by (simp add: signed_modulo_int_def signed_divide_int_def minus_div_mult_eq_mod sgn_if)

lemma SizeOrder_eq_spec:
  assumes doc: "decimal_doc P" and inp: "sizing_input m r lot"
  shows "SizeOrder P m r lot cap = size_spec m r lot cap"
proof (cases "0 < lot \<and> 0 < r")
  case False
  then show ?thesis by (auto simp: SizeOrder_def size_spec_def sgn_if)
next
  case True
  then have lot: "0 < lot" and r: "0 < r" by auto
  have "dec_IntPart P (of_int \<lfloor>dec_Div P (of_int m * r) (of_int lot)\<rfloor>) = \<lfloor>of_int m * r / of_int lot\<rfloor>"
    using doc lot_floor_in64(2)[OF inp lot r] rounded_lots[OF doc inp lot] by (simp add: decimal_doc_def)
  moreover have "wrap64 (\<lfloor>of_int m * r / of_int lot\<rfloor> * lot) = lot_floor (of_int m * r) lot"
    using lot_floor_in64(1)[OF inp lot r] by (simp add: wrap64_id lot_floor_def)
  moreover have "cap - cap mod lot = 0 \<longleftrightarrow> cap < lot" if "0 < cap"
  proof
    assume "cap - cap mod lot = 0"
    then have "cap mod lot = cap" by simp
    then show "cap < lot" using pos_mod_bound[OF lot, of cap] by simp
  qed (use that in simp)
  ultimately show ?thesis
    using lot r by (auto simp: SizeOrder_def size_spec_def Let_def smod_pos lot_floor_int)
qed

lemma size_order_bounds:
  assumes "decimal_doc P" and "sizing_input m r lot" and "SizeOrder P m r lot cap = (q, reason)"
    and "0 < r"
  shows "0 \<le> q \<and> (0 < lot \<longrightarrow> lot dvd q) \<and> of_int q \<le> of_int m * r \<and> (0 < cap \<longrightarrow> q \<le> cap)"
proof -
  have nn: "0 \<le> of_int m * r" using assms(2,4) by (simp add: sizing_input_def)
  have q: "size_spec m r lot cap = (q, reason)" using assms SizeOrder_eq_spec by metis
  show ?thesis
  proof (cases "0 < lot")
    case False
    then show ?thesis using q nn by (auto simp: size_spec_def)
  next
    case True
    note facts = lot_floor_le[OF True, of "of_int m * r"] lot_floor_nonneg[OF nn True]
      lot_floor_le[OF True, of "of_int cap"] lot_floor_nonneg[OF _ True, of "of_int cap"]
    have trans: "rat_of_int (lot_floor (of_int cap) lot) \<le> of_int m * r"
      if "cap < lot_floor (of_int m * r) lot"
    proof -
      have "rat_of_int (lot_floor (of_int cap) lot) \<le> of_int (lot_floor (of_int m * r) lot)"
        using facts(3) that by (meson dual_order.trans less_imp_le of_int_le_iff)
      with facts(1) show ?thesis by linarith
    qed
    show ?thesis
      using q True assms(4) facts nn trans
      by (auto simp: size_spec_def Let_def split: if_splits)
  qed
qed

section \<open>Properties\<close>

text \<open>
  C4 Sizing implements its exact specification: for every package that behaves as the
  decimal documentation says, and every input of the running system, the code's rounded
  division, integer part, 64-bit product and truncated remainder give the quantity and the
  reason of the exact rational calculation.
\<close>
theorem SizeOrder_refines_spec:
  assumes "decimal_doc P" and "sizing_input m r lot"
  shows "SizeOrder P m r lot cap = size_spec m r lot cap"
  using assms by (rule SizeOrder_eq_spec)

theorem SizeOrder_refines_spec_witness:
  "SizeOrder dec16 150 (3 / 4) 25 0 = size_spec 150 (3 / 4) 25 0"
  by (rule SizeOrder_refines_spec [OF decimal_doc_dec16]) (simp add: sizing_input_def)

text \<open>
  A sized order never exceeds the master's intent or the cap and is a whole number of
  lots: the quantity is a non-negative multiple of the lot size, at most the master quantity
  times the clone factor, and at most the per-order cap when one is set.
\<close>
theorem SizeOrder_bounds:
  assumes "decimal_doc P" and "sizing_input m r lot" and "SizeOrder P m r lot cap = (q, reason)"
    and "0 < r"
  shows "0 \<le> q \<and> (0 < lot \<longrightarrow> lot dvd q) \<and> of_int q \<le> of_int m * r \<and> (0 < cap \<longrightarrow> q \<le> cap)"
  using assms by (rule size_order_bounds)

theorem SizeOrder_bounds_witness:
  "SizeOrder dec16 200 (3 / 4) 25 80 = (75, ReasonCapped) \<and> 25 dvd (75::int)
     \<and> (of_int 75 :: rat) \<le> of_int 200 * (3 / 4) \<and> (75::int) \<le> 80"
proof -
  have "SizeOrder dec16 200 (3 / 4) 25 80 = (75, ReasonCapped)"
    by (simp add: SizeOrder_eq_spec decimal_doc_dec16 sizing_input_def size_spec_def lot_floor_def Let_def)
  with SizeOrder_bounds [OF decimal_doc_dec16 _ this] show ?thesis
    by (simp add: sizing_input_def)
qed

text \<open>
  Sizing loses less than one lot: an order with reason OK is the largest lot multiple
  within the master's intent, a capped order is the largest lot multiple within the cap, and
  an order skipped as below one lot had an intent or a cap below one lot.
\<close>
theorem SizeOrder_maximal:
  assumes "decimal_doc P" and "sizing_input m r lot" and "SizeOrder P m r lot cap = (q, reason)"
    and "0 < lot" and "0 < r"
  shows "case reason of
      ReasonOK \<Rightarrow> of_int m * r < of_int (q + lot) \<and> 0 < q
    | ReasonCapped \<Rightarrow> cap < q + lot \<and> 0 < q
    | ReasonBelowOneLot \<Rightarrow> q = 0 \<and> (of_int m * r < of_int lot \<or> 0 < cap \<and> cap < lot)
    | _ \<Rightarrow> False"
proof -
  have nn: "0 \<le> of_int m * r" using assms(2,5) by (simp add: sizing_input_def)
  have q: "size_spec m r lot cap = (q, reason)" using assms SizeOrder_eq_spec by metis
  have capped: "\<not> cap < lot \<Longrightarrow> cap mod lot < cap"
    using assms(4) pos_mod_bound[of lot cap] by linarith
  show ?thesis
    using q assms(4,5) lot_floor_greater[OF assms(4), of "of_int m * r"] lot_floor_nonneg[OF nn assms(4)]
      pos_mod_bound[OF assms(4), of cap]
    by (auto simp: size_spec_def Let_def lot_floor_int capped split: if_splits)
qed

theorem SizeOrder_maximal_witness:
  "(of_int 110 :: rat) * (1 / 2) < of_int (50 + 25) \<and> 0 < (50::int)"
proof -
  have "SizeOrder dec16 110 (1 / 2) 25 0 = (50, ReasonOK)"
    by (simp add: SizeOrder_eq_spec decimal_doc_dec16 sizing_input_def size_spec_def lot_floor_def Let_def)
  from SizeOrder_maximal [OF decimal_doc_dec16 _ this] show ?thesis
    by (simp add: sizing_input_def)
qed

text \<open>
  The bound on the sized quantity needs the clone factor's six decimal places: with a factor of seventeen
  nines the quotient is rounded up to the next integer before it is floored, and the sized
  quantity exceeds the master's intent.
\<close>
theorem SizeOrder_exceeds_intent:
  "SizeOrder dec16 1 (1 - 1 / 10 ^ 17) 1 0 = (1, ReasonOK) \<and> of_int 1 * (1 - 1 / 10 ^ 17) < (of_int 1 :: rat)"
  by (simp add: SizeOrder_def dec16_def round_half_away_def wrap64_def Let_def sgn_if)

end
