(* ===== verification/Orders.thy ===== *)
theory Orders
  imports Sizing
begin

text \<open>
  The data of the copy-trade pipeline (\<open>internal/domain/types.go\<close>, \<open>proxy.go\<close>,
  \<open>status.go\<close>): master fills, follow links, follower orders, order updates, jobs, audit
  events, accounts and groups, and the reports of square-off and rebalance. Every record
  field has the name of the Go field behind a short prefix.
\<close>

section \<open>Raw payloads\<close>

text \<open>
  A raw payload is a byte slice the sources only test for emptiness, pass on, and hand to
  \<open>encoding/json\<close>. It is represented by what the JSON decoder sees: no bytes, bytes that do
  not parse, or a JSON value. \<open>JDecStr\<close> and \<open>JTimeStr\<close> are the JSON strings that the
  \<open>MarshalJSON\<close> methods of \<open>decimal.Decimal\<close> and \<open>time.Time\<close> write for a value.
\<close>

datatype json =
    JNull | JBool bool | JNum rat | JStr string | JDecStr decimal | JTimeStr gotime
  | JArr "json list" | JObj "(string \<times> json) list"

datatype raw_payload = RawEmpty | RawInvalid | RawJson json

text \<open>
  \<open>json.Unmarshal\<close> of one \<open>float64\<close> field: keys match case-insensitively and the last one
  wins, an absent key or \<open>null\<close> leaves the zero value, any other JSON type is an error.
\<close>

definition json_field :: "string \<Rightarrow> (string \<times> json) list \<Rightarrow> json option" where
  "json_field k kvs = map_option snd (find (\<lambda>kv. EqualFold (fst kv) k) (rev kvs))"

fun json_float :: "json option \<Rightarrow> float64 option" where
  "json_float None = Some 0"
| "json_float (Some JNull) = Some 0"
| "json_float (Some (JNum x)) = Some x"
| "json_float (Some _) = None"

section \<open>Dispatch states, order statuses\<close>

type_synonym DispatchState = string

abbreviation DispatchPending :: DispatchState where "DispatchPending \<equiv> ''pending''"
abbreviation DispatchDispatched :: DispatchState where "DispatchDispatched \<equiv> ''dispatched''"
abbreviation DispatchDead :: DispatchState where "DispatchDead \<equiv> ''dead''"

abbreviation TerminalComplete :: string where "TerminalComplete \<equiv> ''COMPLETE''"
abbreviation TerminalRejected :: string where "TerminalRejected \<equiv> ''REJECTED''"
abbreviation TerminalCancelled :: string where "TerminalCancelled \<equiv> ''CANCELLED''"
abbreviation TerminalDeadLettered :: string where "TerminalDeadLettered \<equiv> ''DEAD_LETTERED''"

definition IsTerminal :: "string \<Rightarrow> bool" where
  "IsTerminal status \<longleftrightarrow> status \<in> {TerminalComplete, TerminalRejected, TerminalCancelled}"

section \<open>Signals, links, orders\<close>

record MasterFill =
  mf_ID :: int
  mf_MasterID :: uuid
  mf_BrokerOrderID :: string
  mf_Exchange :: string
  mf_Tradingsymbol :: string
  mf_InstrumentToken :: int
  mf_TransactionType :: string
  mf_Product :: string
  mf_OrderType :: string
  mf_FilledQuantity :: int
  mf_Price :: decimal
  mf_TriggerPrice :: decimal
  mf_AveragePrice :: decimal
  mf_Status :: string
  mf_OrderTimestamp :: gotime
  mf_RawPayload :: raw_payload
  mf_Tag :: string
  mf_ReceivedAt :: gotime
  mf_DispatchState :: DispatchState
  mf_DispatchedAt :: "gotime option"

record FollowLink =
  fl_FollowerID :: uuid
  fl_GroupID :: uuid
  fl_MasterID :: uuid
  fl_CloneFactor :: decimal
  fl_MaxQtyPerOrder :: int
  fl_Enabled :: bool
  fl_EffectiveFrom :: gotime
  fl_Status :: string
  fl_AuthStatus :: string

record FollowerOrder =
  fo_ID :: int
  fo_MasterFillID :: int
  fo_FollowerID :: uuid
  fo_IdempotencyTag :: string
  fo_IntendedQty :: int
  fo_LotSize :: int
  fo_SizingReason :: SizingReason
  fo_PlacedQty :: "int option"
  fo_BrokerOrderID :: string
  fo_TerminalStatus :: string
  fo_FilledQty :: int
  fo_AveragePrice :: decimal
  fo_AttemptCount :: int
  fo_LastError :: string
  fo_Origin :: string
  fo_Tradingsymbol :: string
  fo_Exchange :: string
  fo_Product :: string
  fo_TransactionType :: string
  fo_OrderType :: string
  fo_CreatedAt :: gotime
  fo_UpdatedAt :: gotime

text \<open>The zero value of the struct, from which composite literals set some fields.\<close>

definition FollowerOrder_zero :: FollowerOrder where
  "FollowerOrder_zero = \<lparr> fo_ID = 0, fo_MasterFillID = 0, fo_FollowerID = uuid_Nil,
     fo_IdempotencyTag = [], fo_IntendedQty = 0, fo_LotSize = 0, fo_SizingReason = ReasonOK,
     fo_PlacedQty = None, fo_BrokerOrderID = [], fo_TerminalStatus = [], fo_FilledQty = 0,
     fo_AveragePrice = 0, fo_AttemptCount = 0, fo_LastError = [], fo_Origin = [],
     fo_Tradingsymbol = [], fo_Exchange = [], fo_Product = [], fo_TransactionType = [],
     fo_OrderType = [], fo_CreatedAt = 0, fo_UpdatedAt = 0 \<rparr>"

record OrderUpdate =
  ou_FollowerID :: uuid
  ou_BrokerOrderID :: string
  ou_Tradingsymbol :: string
  ou_Exchange :: string
  ou_Product :: string
  ou_TransactionType :: string
  ou_OrderType :: string
  ou_Quantity :: int
  ou_Status :: string
  ou_FilledQuantity :: int
  ou_AveragePrice :: decimal
  ou_OrderTimestamp :: gotime
  ou_Tag :: string
  ou_RawPayload :: raw_payload

record Job =
  job_FollowerOrderID :: int
  job_FollowerID :: uuid
  job_MasterFillID :: int
  job_IdempotencyTag :: string
  job_Exchange :: string
  job_Tradingsymbol :: string
  job_TransactionType :: string
  job_Product :: string
  job_OrderType :: string
  job_Quantity :: int
  job_Price :: float64
  job_TriggerPrice :: float64

record OrderEvent =
  oe_FollowerOrderID :: "int option"
  oe_MasterFillID :: "int option"
  oe_AccountID :: uuid
  oe_EventType :: string
  oe_Payload :: raw_payload

record ExecutionEvent =
  xe_Tradingsymbol :: string
  xe_Exchange :: string
  xe_TransactionType :: string
  xe_MasterQty :: int
  xe_Price :: float64
  xe_FollowersCount :: int
  xe_SkippedCount :: int

record KillSwitchStatus =
  ks_Engaged :: bool
  ks_EngagedAt :: "gotime option"
  ks_EngagedBy :: string
  ks_Reason :: string

section \<open>Accounts and groups\<close>

record Account =
  acc_ID :: uuid
  acc_Name :: string
  acc_Role :: string
  acc_Broker :: string
  acc_BrokerAccountID :: string
  acc_ApiKey :: string
  acc_ApiSecret :: string
  acc_Active :: bool
  acc_Status :: string
  acc_IPAddress :: string
  acc_AuthStatus :: string
  acc_AuthError :: string
  acc_GroupID :: "uuid option"
  acc_GroupName :: "string option"
  acc_MasterID :: "uuid option"
  acc_CloneFactor :: "decimal option"
  acc_MaxQtyPerOrder :: "int option"
  acc_Enabled :: bool

definition Account_zero :: Account where
  "Account_zero = \<lparr> acc_ID = uuid_Nil, acc_Name = [], acc_Role = [], acc_Broker = [],
     acc_BrokerAccountID = [], acc_ApiKey = [], acc_ApiSecret = [], acc_Active = False,
     acc_Status = [], acc_IPAddress = [], acc_AuthStatus = [], acc_AuthError = [],
     acc_GroupID = None, acc_GroupName = None, acc_MasterID = None, acc_CloneFactor = None,
     acc_MaxQtyPerOrder = None, acc_Enabled = False \<rparr>"

text \<open>The identifying part of a group card; the portfolio metrics are display data.\<close>

record GroupFollower =
  gf_AccountID :: uuid
  gf_Name :: string
  gf_BrokerAccountID :: string
  gf_Enabled :: bool

record GroupDetail =
  gd_GroupID :: uuid
  gd_GroupName :: string
  gd_MasterID :: uuid
  gd_MasterActive :: bool
  gd_HasImbalance :: bool
  gd_Followers :: "GroupFollower list"

section \<open>Square-off and rebalance reports\<close>

record SquareOffOrder =
  so_AccountID :: uuid
  so_Role :: string
  so_BrokerOrderID :: string
  so_Exchange :: string
  so_Tradingsymbol :: string
  so_Product :: string
  so_Side :: string
  so_Quantity :: int
  so_Status :: string

record SquareOffResult =
  sr_Action :: string
  sr_Status :: string
  sr_GroupID :: "uuid option"
  sr_AccountID :: "uuid option"
  sr_Role :: string
  sr_FollowersAffected :: int
  sr_CancelledOrders :: int
  sr_PositionsSquaredOff :: int
  sr_Orders :: "SquareOffOrder list"
  sr_Errors :: "string list"

record SymbolDrift =
  sd_Exchange :: string
  sd_Tradingsymbol :: string
  sd_Product :: string
  sd_LotSize :: int
  sd_MasterQty :: int
  sd_TargetQty :: int
  sd_FollowerQty :: int
  sd_DriftQty :: int
  sd_Action :: string

record FollowerDrift =
  fd_AccountID :: uuid
  fd_AccountName :: string
  fd_BrokerAccountID :: string
  fd_Enabled :: bool
  fd_CloneFactor :: decimal
  fd_Symbols :: "SymbolDrift list"

record GroupRebalanceDiff =
  gr_GroupID :: uuid
  gr_MasterID :: uuid
  gr_FollowersEvaluated :: int
  gr_FollowersWithDrift :: int
  gr_Drifts :: "FollowerDrift list"

record RebalanceOrder =
  ro_AccountID :: uuid
  ro_Role :: string
  ro_BrokerOrderID :: string
  ro_Exchange :: string
  ro_Tradingsymbol :: string
  ro_Product :: string
  ro_Side :: string
  ro_Quantity :: int
  ro_Status :: string

record RebalanceResult =
  rr_Action :: string
  rr_Status :: string
  rr_GroupID :: "uuid option"
  rr_AccountID :: "uuid option"
  rr_FollowersAffected :: int
  rr_CancelledOrders :: int
  rr_OrdersPlaced :: int
  rr_Orders :: "RebalanceOrder list"
  rr_Errors :: "string list"

lemma IsTerminal_cases:
  "IsTerminal s \<longleftrightarrow> s = TerminalComplete \<or> s = TerminalRejected \<or> s = TerminalCancelled"
  by (simp add: IsTerminal_def)

end
