(* ===== verification/Broker.thy ===== *)
theory Broker
  imports Orders
begin

text \<open>
  The broker abstraction (\<open>internal/broker\<close>): the broker-agnostic order and position types
  and their conversions, the registry of broker factories, and the per-account broker cache.
  A broker handle is of an arbitrary type \<open>'b\<close>; a factory or resolver is a function of the
  state it reads.
\<close>

section \<open>Types\<close>

record OrderParams =
  op_Exchange :: string
  op_Tradingsymbol :: string
  op_TransactionType :: string
  op_Product :: string
  op_OrderType :: string
  op_Quantity :: int
  op_Price :: float64
  op_TriggerPrice :: float64
  op_Tag :: string

record OrderResponse =
  or_OrderID :: string

record Position =
  ps_Exchange :: string
  ps_Tradingsymbol :: string
  ps_Product :: string
  ps_Quantity :: int
  ps_AveragePrice :: float64
  ps_LastPrice :: float64
  ps_M2M :: float64
  ps_PnL :: float64

record Order =
  bo_OrderID :: string
  bo_Exchange :: string
  bo_Tradingsymbol :: string
  bo_TransactionType :: string
  bo_Product :: string
  bo_OrderType :: string
  bo_Status :: string
  bo_StatusMessage :: string
  bo_Quantity :: int
  bo_FilledQuantity :: int
  bo_Price :: decimal
  bo_TriggerPrice :: decimal
  bo_AveragePrice :: decimal
  bo_OrderTimestamp :: gotime
  bo_Tag :: string
  bo_RawPayload :: raw_payload

text \<open>\<open>json.Marshal\<close> of an order without a raw payload; fields marked \<open>omitempty\<close> are left out.\<close>

definition Order_json :: "Order \<Rightarrow> json" where
  "Order_json o1 = JObj (
     [(''order_id'', JStr (bo_OrderID o1)), (''exchange'', JStr (bo_Exchange o1)),
      (''tradingsymbol'', JStr (bo_Tradingsymbol o1)), (''transaction_type'', JStr (bo_TransactionType o1)),
      (''product'', JStr (bo_Product o1)), (''order_type'', JStr (bo_OrderType o1)),
      (''status'', JStr (bo_Status o1))]
     @ (if bo_StatusMessage o1 = [] then [] else [(''status_message'', JStr (bo_StatusMessage o1))])
     @ [(''quantity'', JNum (of_int (bo_Quantity o1))), (''filled_quantity'', JNum (of_int (bo_FilledQuantity o1))),
        (''price'', JDecStr (bo_Price o1)), (''trigger_price'', JDecStr (bo_TriggerPrice o1)),
        (''average_price'', JDecStr (bo_AveragePrice o1)), (''order_timestamp'', JTimeStr (bo_OrderTimestamp o1))]
     @ (if bo_Tag o1 = [] then [] else [(''tag'', JStr (bo_Tag o1))]))"

definition order_raw :: "Order \<Rightarrow> raw_payload" where
  "order_raw o1 = (if bo_RawPayload o1 = RawEmpty then RawJson (Order_json o1) else bo_RawPayload o1)"

definition ToMasterFill :: "Order \<Rightarrow> uuid \<Rightarrow> MasterFill" where
  "ToMasterFill o1 masterID =
     (let price = (if bo_OrderType o1 = ''LIMIT'' \<and> bo_Price o1 = 0 \<and> bo_AveragePrice o1 > 0
                   then bo_AveragePrice o1 else bo_Price o1)
      in \<lparr> mf_ID = 0, mf_MasterID = masterID, mf_BrokerOrderID = bo_OrderID o1,
           mf_Exchange = bo_Exchange o1, mf_Tradingsymbol = bo_Tradingsymbol o1, mf_InstrumentToken = 0,
           mf_TransactionType = bo_TransactionType o1, mf_Product = bo_Product o1,
           mf_OrderType = bo_OrderType o1, mf_FilledQuantity = bo_FilledQuantity o1,
           mf_Price = price, mf_TriggerPrice = bo_TriggerPrice o1, mf_AveragePrice = bo_AveragePrice o1,
           mf_Status = bo_Status o1, mf_OrderTimestamp = bo_OrderTimestamp o1,
           mf_RawPayload = order_raw o1, mf_Tag = bo_Tag o1, mf_ReceivedAt = 0,
           mf_DispatchState = [], mf_DispatchedAt = None \<rparr>)"

definition ToOrderUpdate :: "Order \<Rightarrow> uuid \<Rightarrow> OrderUpdate" where
  "ToOrderUpdate o1 followerID =
     \<lparr> ou_FollowerID = followerID, ou_BrokerOrderID = bo_OrderID o1,
       ou_Tradingsymbol = bo_Tradingsymbol o1, ou_Exchange = bo_Exchange o1,
       ou_Product = bo_Product o1, ou_TransactionType = bo_TransactionType o1,
       ou_OrderType = bo_OrderType o1, ou_Quantity = bo_Quantity o1, ou_Status = bo_Status o1,
       ou_FilledQuantity = bo_FilledQuantity o1, ou_AveragePrice = bo_AveragePrice o1,
       ou_OrderTimestamp = bo_OrderTimestamp o1, ou_Tag = bo_Tag o1, ou_RawPayload = order_raw o1 \<rparr>"

section \<open>Registry\<close>

record BrokerAccount =
  ba_ID :: string
  ba_Role :: string
  ba_Broker :: string
  ba_BrokerAccountID :: string
  ba_ApiKey :: string
  ba_ApiSecret :: string
  ba_AccessToken :: string
  ba_IPAddress :: string
  ba_ProxyHost :: string
  ba_ProxyPort :: int
  ba_ProxyUsername :: string
  ba_ProxyPassword :: string

type_synonym ('b, 's) Factory = "BrokerAccount \<Rightarrow> 's \<Rightarrow> 'b result \<times> 's"

record ('b, 's) Registry =
  factories :: "string \<rightharpoonup> ('b, 's) Factory"

definition NewRegistry :: "('b, 's) Registry" where
  "NewRegistry = \<lparr> factories = Map.empty \<rparr>"

definition Registry_Register :: "string \<Rightarrow> ('b, 's) Factory \<Rightarrow> ('b, 's) Registry \<Rightarrow> ('b, 's) Registry" where
  "Registry_Register name f r =
     (let key = ToLower (TrimSpace name) in r\<lparr> factories := (factories r)(key \<mapsto> f) \<rparr>)"

definition Registry_Create :: "('b, 's) Registry \<Rightarrow> BrokerAccount \<Rightarrow> 's \<Rightarrow> 'b result \<times> 's" where
  "Registry_Create r account s =
     (let name0 = ToLower (TrimSpace (ba_Broker account));
          name = (if name0 = [] then ''zerodha'' else name0)
      in case factories r name of
           None \<Rightarrow> (Inl (Wrapf [] ErrUnsupportedBroker ('': '' @ Quote (ba_Broker account))), s)
         | Some factory \<Rightarrow> factory account s)"

section \<open>Account pool\<close>

record 'b AccountPool =
  ap_brokers :: "uuid \<rightharpoonup> 'b"

definition NewAccountPool :: "'b AccountPool" where
  "NewAccountPool = \<lparr> ap_brokers = Map.empty \<rparr>"

definition ResolveBroker ::
  "(uuid \<Rightarrow> 's \<Rightarrow> 'b result \<times> 's) \<Rightarrow> uuid \<Rightarrow> 'b AccountPool \<Rightarrow> 's \<Rightarrow> 'b result \<times> 'b AccountPool \<times> 's" where
  "ResolveBroker resolver accountID p s = (case ap_brokers p accountID of
      Some b \<Rightarrow> (Inr b, p, s)
    | None \<Rightarrow> (case resolver accountID s of
          (Inl err, s') \<Rightarrow> (Inl err, p, s')
        | (Inr fresh, s') \<Rightarrow> (Inr fresh, p\<lparr> ap_brokers := (ap_brokers p)(accountID \<mapsto> fresh) \<rparr>, s')))"

definition Evict :: "uuid \<Rightarrow> 'b AccountPool \<Rightarrow> 'b AccountPool" where
  "Evict accountID p = p\<lparr> ap_brokers := (ap_brokers p)(accountID := None) \<rparr>"

definition EvictAll :: "'b AccountPool \<Rightarrow> 'b AccountPool" where
  "EvictAll p = p\<lparr> ap_brokers := Map.empty \<rparr>"

section \<open>Properties\<close>

lemma ResolveBroker_ok:
  "ResolveBroker resolver a p s = (Inr b, p', s') \<Longrightarrow> ap_brokers p' a = Some b"
  by (auto simp: ResolveBroker_def split: option.splits prod.splits sum.splits)

lemma ResolveBroker_frame:
  "ResolveBroker resolver a p s = (r, p', s') \<Longrightarrow> a' \<noteq> a \<Longrightarrow> ap_brokers p' a' = ap_brokers p a'"
  by (auto simp: ResolveBroker_def split: option.splits prod.splits sum.splits)

text \<open>
  The account pool builds a broker once per account and forgets it on eviction: after a
  successful resolve the same broker is returned for the account, without another call of the
  resolver, whatever other accounts are resolved or evicted in between; after evicting the
  account the resolver decides again.
\<close>
theorem AccountPool_caches:
  assumes "ResolveBroker resolver a p s = (Inr b, p1, s1)"
    and "a' \<noteq> a" and "ResolveBroker resolver a' p1 s1 = (r, p2, s2)"
  shows "ResolveBroker resolver a (Evict a' p2) s2 = (Inr b, Evict a' p2, s2)
    \<and> fst (ResolveBroker resolver a (Evict a p2) s2) = fst (resolver a s2)"
  using ResolveBroker_ok[OF assms(1)] ResolveBroker_frame[OF assms(3)] assms(2)
  by (auto simp: ResolveBroker_def Evict_def split: prod.splits sum.splits)

theorem AccountPool_caches_witness:
  "let resolver = (\<lambda>a (n::int). (Inr (a, n), n + 1));
       (_, p1, s1) = ResolveBroker resolver ''a'' NewAccountPool 0;
       (_, p2, s2) = ResolveBroker resolver ''b'' p1 s1
   in ResolveBroker resolver ''a'' (Evict ''b'' p2) s2 = (Inr (''a'', 0), Evict ''b'' p2, s2)"
proof -
  let ?res = "\<lambda>a (n::int). (Inr (a, n), n + 1)"
  have 1: "ResolveBroker ?res ''a'' NewAccountPool 0 = (Inr (''a'', 0), \<lparr> ap_brokers = [''a'' \<mapsto> (''a'', 0)] \<rparr>, 1)"
    and 2: "ResolveBroker ?res ''b'' \<lparr> ap_brokers = [''a'' \<mapsto> (''a'', 0)] \<rparr> 1
      = (Inr (''b'', 1), \<lparr> ap_brokers = [''a'' \<mapsto> (''a'', 0), ''b'' \<mapsto> (''b'', 1)] \<rparr>, 2)"
    by (simp_all add: ResolveBroker_def NewAccountPool_def)
  from AccountPool_caches[OF 1 _ 2] show ?thesis using 1 2 by simp
qed

text \<open>
  Broker names are matched regardless of case and surrounding blanks, the empty name means
  Zerodha, and an account of an unregistered broker is refused with the sentinel error.
\<close>
theorem Registry_Create_lookup:
  "let key = ToLower (TrimSpace name); want = ToLower (TrimSpace (ba_Broker account));
       want' = (if want = [] then ''zerodha'' else want)
   in (key = want' \<longrightarrow> Registry_Create (Registry_Register name f r) account s = f account s)
      \<and> (key \<noteq> want' \<longrightarrow> Registry_Create (Registry_Register name f r) account s = Registry_Create r account s)
      \<and> (factories r want' = None \<longrightarrow>
           (\<exists>err. Registry_Create r account s = (Inl err, s) \<and> errors_Is err ErrUnsupportedBroker))"
  by (simp add: Registry_Create_def Registry_Register_def Let_def)

definition ex_broker_account :: BrokerAccount where
  "ex_broker_account = \<lparr> ba_ID = ''1'', ba_Role = ''follower'', ba_Broker = ''KITE '', ba_BrokerAccountID = ''AB1234'',
     ba_ApiKey = ''k'', ba_ApiSecret = ''s'', ba_AccessToken = ''t'', ba_IPAddress = [], ba_ProxyHost = [],
     ba_ProxyPort = 0, ba_ProxyUsername = [], ba_ProxyPassword = [] \<rparr>"

theorem Registry_Create_lookup_witness:
  "Registry_Create (Registry_Register ''Kite'' (\<lambda>a (n::int). (Inr (ba_ID a), n)) NewRegistry) ex_broker_account 0
   = (Inr ''1'', 0)"
proof -
  have key: "ToLower (TrimSpace ''Kite'') = ''kite''" "ToLower (TrimSpace (ba_Broker ex_broker_account)) = ''kite''"
    by code_simp+
  have "ba_ID ex_broker_account = ''1''" by (simp add: ex_broker_account_def)
  then show ?thesis
    using Registry_Create_lookup[of "''Kite''" ex_broker_account "\<lambda>a n. (Inr (ba_ID a), n)" NewRegistry "0::int"] key
    by (simp add: Let_def)
qed

end
