(* ===== verification/Store.thy ===== *)
theory Store
  imports Orders
begin

text \<open>
  The PostgreSQL store of the order pipeline (\<open>internal/store/postgres/store.go\<close> and the
  schema \<open>migrations/0001_init.sql\<close>). The database is a record of tables, each a list of
  rows in insertion order. Every method is one transaction: it either fails and leaves the
  tables as they were, or applies all of its statements. Which transactions fail for reasons
  outside the tables (a lost connection, a cancelled context) is decided by the list
  \<open>faults\<close>: each transaction takes the next entry, \<open>Some e\<close> fails it with the error \<open>e\<close>.
  Theorems quantify over all such lists. Unique indexes, foreign keys and the not-null
  and JSON checks of the schema are written out in the statements they guard.
\<close>

section \<open>Tables\<close>

record mf_row =
  mr_id :: int
  mr_master_id :: uuid
  mr_broker_order_id :: string
  mr_exchange :: string
  mr_tradingsymbol :: string
  mr_instrument_token :: int
  mr_transaction_type :: string
  mr_product :: string
  mr_order_type :: string
  mr_filled_quantity :: int
  mr_average_price :: decimal
  mr_status :: string
  mr_order_timestamp :: gotime
  mr_raw_payload :: raw_payload
  mr_received_at :: gotime
  mr_dispatch_state :: string
  mr_dispatched_at :: "gotime option"

record fo_row =
  fr_id :: int
  fr_master_fill_id :: "int option"
  fr_follower_id :: uuid
  fr_idempotency_tag :: string
  fr_intended_qty :: int
  fr_lot_size :: int
  fr_sizing_reason :: SizingReason
  fr_placed_qty :: "int option"
  fr_broker_order_id :: "string option"
  fr_terminal_status :: "string option"
  fr_filled_qty :: int
  fr_average_price :: "decimal option"
  fr_attempt_count :: int
  fr_last_error :: "string option"
  fr_origin :: string
  fr_tradingsymbol :: string
  fr_exchange :: string
  fr_product :: string
  fr_transaction_type :: string
  fr_order_type :: string
  fr_created_at :: gotime
  fr_updated_at :: gotime

record ev_row =
  er_id :: int
  er_follower_order_id :: "int option"
  er_master_fill_id :: "int option"
  er_account_id :: uuid
  er_event_type :: string
  er_payload :: raw_payload
  er_occurred_at :: gotime

record pu_row =
  pu_broker_order_id :: string
  pu_status :: string
  pu_filled_quantity :: int
  pu_average_price :: decimal
  pu_raw_payload :: raw_payload
  pu_received_at :: gotime

record account_row =
  ar_id :: uuid
  ar_user_id :: "uuid option"
  ar_role :: string
  ar_broker :: string
  ar_broker_user_id :: string
  ar_name :: string
  ar_api_key :: string
  ar_api_secret :: string
  ar_ip_address :: string
  ar_status :: string
  ar_active :: bool
  ar_token_expires_at :: "gotime option"
  ar_auth_status :: string
  ar_auth_error :: string
  ar_deleted_at :: "gotime option"
  ar_encrypted_password :: string
  ar_encrypted_totp_secret :: string
  ar_access_token :: string

record group_row =
  gp_id :: uuid
  gp_user_id :: "uuid option"
  gp_name :: string
  gp_master_id :: uuid
  gp_has_imbalance :: bool

record link_row =
  lk_follower_id :: uuid
  lk_group_id :: uuid
  lk_clone_factor :: decimal
  lk_max_qty_per_order :: "int option"
  lk_enabled :: bool
  lk_effective_from :: gotime

record instr_row =
  in_instrument_token :: int
  in_broker :: string
  in_exchange :: string
  in_tradingsymbol :: string
  in_lot_size :: int
  in_tick_size :: rat
  in_segment :: "string option"
  in_security_id :: "string option"
  in_exchange_segment :: "string option"
  in_expiry :: "int option"

text \<open>Positions as the portfolio sync stores them; the price columns are display data.\<close>

record position_row =
  ap_account_id :: uuid
  ap_product :: string
  ap_instrument :: string
  ap_quantity :: int

record db =
  master_fills :: "mf_row list"
  follower_orders :: "fo_row list"
  order_events :: "ev_row list"
  pending_order_updates :: "pu_row list"
  accounts :: "account_row list"
  groups :: "group_row list"
  follow_links :: "link_row list"
  instruments :: "instr_row list"
  account_positions :: "position_row list"
  mf_next :: int
  fo_next :: int
  ev_next :: int
  db_now :: gotime
  faults :: "go_error option list"

section \<open>Transactions, errors, columns\<close>

definition db_call :: "(db \<Rightarrow> 'a result \<times> db) \<Rightarrow> db \<Rightarrow> 'a result \<times> db" where
  "db_call body d = (case faults d of
      [] \<Rightarrow> body d
    | None # fs \<Rightarrow> body (d\<lparr> faults := fs \<rparr>)
    | Some e # fs \<Rightarrow> (Inl e, d\<lparr> faults := fs \<rparr>))"

definition pg_unique :: go_error where
  "pg_unique = PgError ''23505'' ''duplicate key value violates unique constraint''"
definition pg_foreign :: go_error where
  "pg_foreign = PgError ''23503'' ''insert or update violates foreign key constraint''"
definition pg_json :: go_error where
  "pg_json = PgError ''22P02'' ''invalid input syntax for type json''"
definition pg_check :: go_error where
  "pg_check = PgError ''23514'' ''new row violates check constraint''"
definition err_no_rows :: go_error where
  "err_no_rows = Plain ''no rows in result set''"

lemmas pg_errors = pg_unique_def pg_foreign_def pg_json_def pg_check_def err_no_rows_def

text \<open>A \<open>jsonb NOT NULL\<close> column takes a payload only if it is JSON.\<close>

fun is_json :: "raw_payload \<Rightarrow> bool" where
  "is_json (RawJson j) \<longleftrightarrow> True"
| "is_json _ \<longleftrightarrow> False"

text \<open>Columns of type \<open>numeric(18,4)\<close> and \<open>numeric(10,6)\<close> round what is stored in them.\<close>

definition numeric4 :: "decimal \<Rightarrow> decimal" where
  "numeric4 x = of_int (round_half_away (x * 10 ^ 4)) / 10 ^ 4"

definition numeric6 :: "decimal \<Rightarrow> decimal" where
  "numeric6 x = of_int (round_half_away (x * 10 ^ 6)) / 10 ^ 6"

text \<open>\<open>UPDATE ... SET f WHERE P\<close>\<close>

definition update_where :: "('r \<Rightarrow> bool) \<Rightarrow> ('r \<Rightarrow> 'r) \<Rightarrow> 'r list \<Rightarrow> 'r list" where
  "update_where P f rows = map (\<lambda>r. if P r then f r else r) rows"

definition nonempty :: "string \<Rightarrow> string option" where
  "nonempty s = (if s = [] then None else Some s)"

definition account_exists :: "db \<Rightarrow> uuid \<Rightarrow> bool" where
  "account_exists d a \<longleftrightarrow> a \<in> set (map ar_id (accounts d))"

section \<open>Master fills\<close>

definition fill_key :: "mf_row \<Rightarrow> uuid \<times> string \<times> int \<times> string" where
  "fill_key r = (mr_master_id r, mr_broker_order_id r, mr_filled_quantity r, mr_status r)"

definition fill_row :: "MasterFill \<Rightarrow> db \<Rightarrow> mf_row" where
  "fill_row f d = \<lparr> mr_id = mf_next d, mr_master_id = mf_MasterID f,
     mr_broker_order_id = mf_BrokerOrderID f, mr_exchange = mf_Exchange f,
     mr_tradingsymbol = mf_Tradingsymbol f, mr_instrument_token = mf_InstrumentToken f,
     mr_transaction_type = mf_TransactionType f, mr_product = mf_Product f,
     mr_order_type = mf_OrderType f, mr_filled_quantity = wrap32 (mf_FilledQuantity f),
     mr_average_price = numeric4 (mf_AveragePrice f), mr_status = mf_Status f,
     mr_order_timestamp = mf_OrderTimestamp f, mr_raw_payload = mf_RawPayload f,
     mr_received_at = db_now d, mr_dispatch_state = DispatchPending, mr_dispatched_at = None \<rparr>"

definition InsertMasterFill :: "MasterFill \<Rightarrow> db \<Rightarrow> int result \<times> db" where
  "InsertMasterFill f = db_call (\<lambda>d.
     let row = fill_row f d in
     if \<not> is_json (mf_RawPayload f) then (Inl pg_json, d)
     else if fill_key row \<in> set (map fill_key (master_fills d)) then (Inl ErrDuplicate, d)
     else if \<not> account_exists d (mf_MasterID f) then (Inl pg_foreign, d)
     else (Inr (mf_next d), d\<lparr> master_fills := master_fills d @ [row], mf_next := mf_next d + 1 \<rparr>))"

definition MasterFillExists :: "uuid \<Rightarrow> string \<Rightarrow> int \<Rightarrow> string \<Rightarrow> db \<Rightarrow> bool result \<times> db" where
  "MasterFillExists masterID brokerOrderID filledQty status = db_call (\<lambda>d.
     (Inr ((masterID, brokerOrderID, wrap32 filledQty, status) \<in> set (map fill_key (master_fills d))), d))"

definition SetMasterFillDispatchState :: "int \<Rightarrow> DispatchState \<Rightarrow> db \<Rightarrow> unit result \<times> db" where
  "SetMasterFillDispatchState i st = db_call (\<lambda>d.
     (Inr (), d\<lparr> master_fills := update_where (\<lambda>r. mr_id r = i)
        (\<lambda>r. r\<lparr> mr_dispatch_state := st,
                 mr_dispatched_at := (if st = DispatchDispatched then Some (db_now d) else mr_dispatched_at r) \<rparr>)
        (master_fills d) \<rparr>))"

section \<open>Follower orders\<close>

definition fo_pair :: "fo_row \<Rightarrow> (int \<times> uuid) option" where
  "fo_pair r = map_option (\<lambda>m. (m, fr_follower_id r)) (fr_master_fill_id r)"

definition fo_broker_key :: "fo_row \<Rightarrow> (uuid \<times> string) option" where
  "fo_broker_key r = map_option (\<lambda>b. (fr_follower_id r, b)) (fr_broker_order_id r)"

definition order_row :: "int option \<Rightarrow> FollowerOrder \<Rightarrow> db \<Rightarrow> fo_row" where
  "order_row m o1 d = \<lparr> fr_id = fo_next d, fr_master_fill_id = m, fr_follower_id = fo_FollowerID o1,
     fr_idempotency_tag = fo_IdempotencyTag o1, fr_intended_qty = wrap32 (fo_IntendedQty o1),
     fr_lot_size = wrap32 (fo_LotSize o1), fr_sizing_reason = fo_SizingReason o1,
     fr_placed_qty = None, fr_broker_order_id = None, fr_terminal_status = None,
     fr_filled_qty = 0, fr_average_price = None, fr_attempt_count = 0, fr_last_error = None,
     fr_origin = (if fo_Origin o1 = [] then ''copy_trade'' else fo_Origin o1),
     fr_tradingsymbol = fo_Tradingsymbol o1, fr_exchange = fo_Exchange o1,
     fr_product = fo_Product o1, fr_transaction_type = fo_TransactionType o1,
     fr_order_type = fo_OrderType o1, fr_created_at = db_now d, fr_updated_at = db_now d \<rparr>"

definition add_order :: "fo_row \<Rightarrow> db \<Rightarrow> db" where
  "add_order row d = d\<lparr> follower_orders := follower_orders d @ [row], fo_next := fo_next d + 1 \<rparr>"

definition tag_taken :: "db \<Rightarrow> string \<Rightarrow> bool" where
  "tag_taken d t \<longleftrightarrow> t \<in> set (map fr_idempotency_tag (follower_orders d))"

definition pair_taken :: "db \<Rightarrow> (int \<times> uuid) option \<Rightarrow> bool" where
  "pair_taken d p \<longleftrightarrow> p \<noteq> None \<and> p \<in> set (map fo_pair (follower_orders d))"

definition order_refs_ok :: "db \<Rightarrow> fo_row \<Rightarrow> bool" where
  "order_refs_ok d row \<longleftrightarrow> account_exists d (fr_follower_id row)
     \<and> (fr_master_fill_id row = None \<or> fr_master_fill_id row \<in> Some ` set (map mr_id (master_fills d)))"

definition InsertFollowerOrder :: "FollowerOrder \<Rightarrow> db \<Rightarrow> int result \<times> db" where
  "InsertFollowerOrder o1 = db_call (\<lambda>d.
     let masterFillID = (if fo_MasterFillID o1 \<noteq> 0 then Some (fo_MasterFillID o1) else None);
         row = order_row masterFillID o1 d
     in if tag_taken d (fo_IdempotencyTag o1) \<or> pair_taken d (fo_pair row) then (Inl ErrDuplicate, d)
        else if \<not> order_refs_ok d row then (Inl pg_foreign, d)
        else (Inr (fo_next d), add_order row d))"

text \<open>
  The batch insert: rows are inserted in order, one whose tag is taken (also by an earlier row
  of the batch) is skipped; any other constraint violation fails the whole statement.
\<close>

fun insert_batch :: "FollowerOrder list \<Rightarrow> db \<Rightarrow> (string \<times> int) list result \<times> db" where
  "insert_batch [] d = (Inr [], d)"
| "insert_batch (o1 # os) d =
     (let row = order_row (Some (fo_MasterFillID o1)) o1 d in
      if tag_taken d (fo_IdempotencyTag o1) then insert_batch os d
      else if pair_taken d (fo_pair row) then (Inl pg_unique, d)
      else if \<not> order_refs_ok d row then (Inl pg_foreign, d)
      else (case insert_batch os (add_order row d) of
              (Inl e, d') \<Rightarrow> (Inl e, d')
            | (Inr m, d') \<Rightarrow> (Inr ((fo_IdempotencyTag o1, fo_next d) # m), d')))"

definition InsertFollowerOrdersBatch ::
  "FollowerOrder list \<Rightarrow> db \<Rightarrow> (string \<rightharpoonup> int) result \<times> db" where
  "InsertFollowerOrdersBatch orders d =
     (if orders = [] then (Inr Map.empty, d)
      else db_call (\<lambda>d. case insert_batch orders d of
              (Inl e, d') \<Rightarrow> (Inl (errorf ''iterate follower orders batch result'' e), d)
            | (Inr m, d') \<Rightarrow> (Inr (map_of m), d')) d)"

definition direct_origin :: "string \<Rightarrow> string" where
  "direct_origin tag = (if HasPrefix tag ''sqoff-'' then ''square_off''
     else if HasPrefix tag ''rebal-'' then ''rebalance'' else ''manual'')"

definition null_price :: "decimal \<Rightarrow> decimal option" where
  "null_price p = (if p = 0 then None else Some (numeric4 p))"

definition direct_row :: "OrderUpdate \<Rightarrow> db \<Rightarrow> fo_row" where
  "direct_row upd d =
     (let tag = (if ou_Tag upd = [] then ''ext-'' @ ou_BrokerOrderID upd else ou_Tag upd);
          qty = (if ou_Quantity upd \<le> 0 then ou_FilledQuantity upd else ou_Quantity upd)
      in \<lparr> fr_id = fo_next d, fr_master_fill_id = None, fr_follower_id = ou_FollowerID upd,
           fr_idempotency_tag = tag, fr_intended_qty = wrap32 qty, fr_lot_size = 1,
           fr_sizing_reason = ReasonOK, fr_placed_qty = Some (wrap32 qty),
           fr_broker_order_id = nonempty (ou_BrokerOrderID upd),
           fr_terminal_status = nonempty (ou_Status upd),
           fr_filled_qty = wrap32 (ou_FilledQuantity upd),
           fr_average_price = null_price (ou_AveragePrice upd), fr_attempt_count = 0,
           fr_last_error = None, fr_origin = direct_origin tag,
           fr_tradingsymbol = ou_Tradingsymbol upd, fr_exchange = ou_Exchange upd,
           fr_product = ou_Product upd, fr_transaction_type = ou_TransactionType upd,
           fr_order_type = ou_OrderType upd, fr_created_at = db_now d, fr_updated_at = db_now d \<rparr>)"

definition InsertDirectFollowerOrder :: "OrderUpdate \<Rightarrow> db \<Rightarrow> int result \<times> db" where
  "InsertDirectFollowerOrder upd = db_call (\<lambda>d.
     let row = direct_row upd d
     in case find (\<lambda>r. fo_broker_key r \<noteq> None \<and> fo_broker_key r = fo_broker_key row) (follower_orders d) of
          Some old \<Rightarrow> (Inr (fr_id old), d\<lparr> follower_orders :=
             update_where (\<lambda>r. fr_id r = fr_id old)
               (\<lambda>r. r\<lparr> fr_terminal_status := fr_terminal_status row, fr_filled_qty := fr_filled_qty row,
                        fr_average_price := fr_average_price row, fr_updated_at := db_now d \<rparr>)
               (follower_orders d) \<rparr>)
        | None \<Rightarrow>
            if tag_taken d (fr_idempotency_tag row) then (Inl ErrDuplicate, d)
            else if \<not> order_refs_ok d row then (Inl pg_foreign, d)
            else (Inr (fo_next d), add_order row d))"

text \<open>Another row of the same follower already carries the broker order id.\<close>

definition broker_id_taken :: "db \<Rightarrow> int \<Rightarrow> uuid \<Rightarrow> string option \<Rightarrow> bool" where
  "broker_id_taken d i f b \<longleftrightarrow> b \<noteq> None \<and>
     (\<exists>r \<in> set (follower_orders d). fr_id r \<noteq> i \<and> fr_follower_id r = f \<and> fr_broker_order_id r = b)"

definition UpdateFollowerOrderByTag ::
  "uuid \<Rightarrow> string \<Rightarrow> string \<Rightarrow> string \<Rightarrow> int \<Rightarrow> decimal \<Rightarrow> db \<Rightarrow> int result \<times> db" where
  "UpdateFollowerOrderByTag followerID tag brokerOrderID status filledQty avgPrice = db_call (\<lambda>d.
     case find (\<lambda>r. fr_follower_id r = followerID \<and> fr_idempotency_tag r = tag) (follower_orders d) of
       None \<Rightarrow> (Inl ErrNotFound, d)
     | Some old \<Rightarrow>
         if broker_id_taken d (fr_id old) followerID (nonempty brokerOrderID) then (Inl pg_unique, d)
         else (Inr (fr_id old), d\<lparr> follower_orders := update_where (\<lambda>r. fr_id r = fr_id old)
            (\<lambda>r. r\<lparr> fr_broker_order_id := nonempty brokerOrderID, fr_terminal_status := nonempty status,
                     fr_filled_qty := wrap32 filledQty, fr_average_price := null_price avgPrice,
                     fr_updated_at := db_now d \<rparr>)
            (follower_orders d) \<rparr>))"

definition FollowerOrderTerminalExists :: "uuid \<Rightarrow> string \<Rightarrow> db \<Rightarrow> bool result \<times> db" where
  "FollowerOrderTerminalExists followerID brokerOrderID = db_call (\<lambda>d.
     (Inr (\<exists>r \<in> set (follower_orders d). fr_follower_id r = followerID
         \<and> fr_broker_order_id r = Some brokerOrderID \<and> fr_terminal_status r \<noteq> None), d))"

definition toFollowerOrder :: "fo_row \<Rightarrow> FollowerOrder" where
  "toFollowerOrder r = \<lparr> fo_ID = fr_id r,
     fo_MasterFillID = (case fr_master_fill_id r of None \<Rightarrow> 0 | Some m \<Rightarrow> m),
     fo_FollowerID = fr_follower_id r, fo_IdempotencyTag = fr_idempotency_tag r,
     fo_IntendedQty = fr_intended_qty r, fo_LotSize = fr_lot_size r,
     fo_SizingReason = fr_sizing_reason r, fo_PlacedQty = fr_placed_qty r,
     fo_BrokerOrderID = (case fr_broker_order_id r of None \<Rightarrow> [] | Some b \<Rightarrow> b),
     fo_TerminalStatus = (case fr_terminal_status r of None \<Rightarrow> [] | Some t \<Rightarrow> t),
     fo_FilledQty = fr_filled_qty r,
     fo_AveragePrice = (case fr_average_price r of None \<Rightarrow> 0 | Some p \<Rightarrow> p),
     fo_AttemptCount = fr_attempt_count r,
     fo_LastError = (case fr_last_error r of None \<Rightarrow> [] | Some e \<Rightarrow> e),
     fo_Origin = fr_origin r, fo_Tradingsymbol = fr_tradingsymbol r, fo_Exchange = fr_exchange r,
     fo_Product = fr_product r, fo_TransactionType = fr_transaction_type r,
     fo_OrderType = fr_order_type r, fo_CreatedAt = fr_created_at r, fo_UpdatedAt = fr_updated_at r \<rparr>"

definition GetFollowerOrder :: "int \<Rightarrow> db \<Rightarrow> FollowerOrder result \<times> db" where
  "GetFollowerOrder i = db_call (\<lambda>d.
     case find (\<lambda>r. fr_id r = i) (follower_orders d) of
       None \<Rightarrow> (Inl err_no_rows, d)
     | Some r \<Rightarrow> (Inr (toFollowerOrder r), d))"

definition FollowerOrdersByMasterFill :: "int \<Rightarrow> db \<Rightarrow> FollowerOrder list result \<times> db" where
  "FollowerOrdersByMasterFill m = db_call (\<lambda>d.
     (Inr (map (\<lambda>r. FollowerOrder_zero\<lparr> fo_ID := fr_id r, fo_FollowerID := fr_follower_id r \<rparr>)
        (sort_key fr_id (filter (\<lambda>r. fr_master_fill_id r = Some m) (follower_orders d)))), d))"

definition StashPendingOrderUpdate ::
  "string \<Rightarrow> string \<Rightarrow> int \<Rightarrow> decimal \<Rightarrow> raw_payload \<Rightarrow> db \<Rightarrow> unit result \<times> db" where
  "StashPendingOrderUpdate brokerOrderID status filledQty avgPrice raw = db_call (\<lambda>d.
     let row = \<lparr> pu_broker_order_id = brokerOrderID, pu_status = status, pu_filled_quantity = filledQty,
                 pu_average_price = numeric4 avgPrice, pu_raw_payload = raw, pu_received_at = db_now d \<rparr>
     in if \<not> in32 filledQty then (Inl (Plain ''value is out of range for int4''), d)
        else if \<not> is_json raw then (Inl pg_json, d)
        else if brokerOrderID \<in> set (map pu_broker_order_id (pending_order_updates d))
        then (Inr (), d\<lparr> pending_order_updates :=
               update_where (\<lambda>r. pu_broker_order_id r = brokerOrderID) (\<lambda>_. row) (pending_order_updates d) \<rparr>)
        else (Inr (), d\<lparr> pending_order_updates := pending_order_updates d @ [row] \<rparr>))"

definition add_event :: "OrderEvent \<Rightarrow> db \<Rightarrow> db" where
  "add_event ev d = d\<lparr> order_events := order_events d @ [\<lparr> er_id = ev_next d,
       er_follower_order_id = oe_FollowerOrderID ev, er_master_fill_id = oe_MasterFillID ev,
       er_account_id = oe_AccountID ev, er_event_type = oe_EventType ev, er_payload = oe_Payload ev,
       er_occurred_at = db_now d \<rparr>], ev_next := ev_next d + 1 \<rparr>"

definition UpdateFollowerOrderPlaced :: "int \<Rightarrow> string \<Rightarrow> int \<Rightarrow> db \<Rightarrow> unit result \<times> db" where
  "UpdateFollowerOrderPlaced i brokerOrderID placedQty = db_call (\<lambda>d.
     case find (\<lambda>r. fr_id r = i) (follower_orders d) of
       Some old \<Rightarrow>
         if broker_id_taken d i (fr_follower_id old) (Some brokerOrderID)
         then (Inl (errorf ''update follower_orders placed'' pg_unique), d)
         else
           let d1 = d\<lparr> follower_orders := update_where (\<lambda>r. fr_id r = i)
                 (\<lambda>r. r\<lparr> fr_broker_order_id := Some brokerOrderID, fr_placed_qty := Some (wrap32 placedQty),
                          fr_attempt_count := fr_attempt_count r + 1, fr_updated_at := db_now d \<rparr>)
                 (follower_orders d) \<rparr>
           in (case find (\<lambda>p. pu_broker_order_id p = brokerOrderID) (pending_order_updates d1) of
                 None \<Rightarrow> (Inr (), d1)
               | Some p \<Rightarrow>
                   let d2 = d1\<lparr> pending_order_updates :=
                              filter (\<lambda>q. pu_broker_order_id q \<noteq> brokerOrderID) (pending_order_updates d1),
                            follower_orders := update_where (\<lambda>r. fr_id r = i)
                              (\<lambda>r. r\<lparr> fr_terminal_status := Some (pu_status p),
                                       fr_filled_qty := pu_filled_quantity p,
                                       fr_average_price := Some (pu_average_price p),
                                       fr_updated_at := db_now d \<rparr>)
                              (follower_orders d1) \<rparr>
                   in (case fr_master_fill_id old of
                         None \<Rightarrow> (Inr (), d2)
                       | Some m \<Rightarrow> (Inr (), add_event \<lparr> oe_FollowerOrderID = Some i, oe_MasterFillID = Some m,
                            oe_AccountID = fr_follower_id old, oe_EventType = ''status_update'',
                            oe_Payload = pu_raw_payload p \<rparr> d2)))
     | None \<Rightarrow>
         (Inr (), d\<lparr> pending_order_updates :=
            filter (\<lambda>q. pu_broker_order_id q \<noteq> brokerOrderID) (pending_order_updates d) \<rparr>))"

definition SweepPendingOrderUpdates :: "gotime \<Rightarrow> db \<Rightarrow> string list result \<times> db" where
  "SweepPendingOrderUpdates cutoff = db_call (\<lambda>d.
     (Inr (map pu_broker_order_id (filter (\<lambda>p. pu_received_at p < cutoff) (pending_order_updates d))),
      d\<lparr> pending_order_updates := filter (\<lambda>p. \<not> pu_received_at p < cutoff) (pending_order_updates d) \<rparr>))"

definition UpdateFollowerOrderFailed :: "int \<Rightarrow> string \<Rightarrow> string \<Rightarrow> db \<Rightarrow> unit result \<times> db" where
  "UpdateFollowerOrderFailed i terminalStatus errMsg = db_call (\<lambda>d.
     (Inr (), d\<lparr> follower_orders := update_where (\<lambda>r. fr_id r = i)
        (\<lambda>r. r\<lparr> fr_terminal_status := Some terminalStatus, fr_last_error := Some errMsg,
                 fr_attempt_count := fr_attempt_count r + 1, fr_updated_at := db_now d \<rparr>)
        (follower_orders d) \<rparr>))"

definition UpdateFollowerOrderStatus :: "string \<Rightarrow> string \<Rightarrow> int \<Rightarrow> decimal \<Rightarrow> db \<Rightarrow> int result \<times> db" where
  "UpdateFollowerOrderStatus brokerOrderID status filledQty averagePrice = db_call (\<lambda>d.
     case find (\<lambda>r. fr_broker_order_id r = Some brokerOrderID) (follower_orders d) of
       None \<Rightarrow> (Inl ErrNotFound, d)
     | Some r0 \<Rightarrow> (Inr (fr_id r0), d\<lparr> follower_orders :=
          update_where (\<lambda>r. fr_broker_order_id r = Some brokerOrderID)
            (\<lambda>r. r\<lparr> fr_terminal_status := Some status, fr_filled_qty := wrap32 filledQty,
                     fr_average_price := Some (numeric4 averagePrice), fr_updated_at := db_now d \<rparr>)
            (follower_orders d) \<rparr>))"

definition event_refs_ok :: "db \<Rightarrow> OrderEvent \<Rightarrow> bool" where
  "event_refs_ok d ev \<longleftrightarrow> account_exists d (oe_AccountID ev)
     \<and> (oe_FollowerOrderID ev = None \<or> oe_FollowerOrderID ev \<in> Some ` set (map fr_id (follower_orders d)))
     \<and> (oe_MasterFillID ev = None \<or> oe_MasterFillID ev \<in> Some ` set (map mr_id (master_fills d)))"

definition AppendOrderEvent :: "OrderEvent \<Rightarrow> db \<Rightarrow> unit result \<times> db" where
  "AppendOrderEvent ev = db_call (\<lambda>d.
     if \<not> is_json (oe_Payload ev) then (Inl pg_json, d)
     else if \<not> event_refs_ok d ev then (Inl pg_foreign, d)
     else (Inr (), add_event ev d))"

definition OrderEventsByFollowerOrder :: "int \<Rightarrow> db \<Rightarrow> ev_row list result \<times> db" where
  "OrderEventsByFollowerOrder i = db_call (\<lambda>d.
     (Inr (sort_key er_id (filter (\<lambda>e. er_follower_order_id e = Some i) (order_events d))), d))"

definition PendingFollowerOrders :: "gotime \<Rightarrow> db \<Rightarrow> FollowerOrder list result \<times> db" where
  "PendingFollowerOrders cutoff = db_call (\<lambda>d.
     (Inr (map toFollowerOrder (sort_key fr_id (filter (\<lambda>r. fr_terminal_status r = None
         \<and> 0 < fr_intended_qty r \<and> fr_created_at r < cutoff) (follower_orders d)))), d))"

section \<open>Instruments\<close>

definition instr_matches :: "string \<Rightarrow> string \<Rightarrow> instr_row \<Rightarrow> bool" where
  "instr_matches ex symb r \<longleftrightarrow>
     (in_exchange r = ex
      \<or> ex = ''NFO'' \<and> in_exchange r = ''NSE''
          \<and> (in_segment r \<in> {Some ''D'', Some ''NFO'', Some ''NSE_FNO''} \<or> in_exchange_segment r = Some ''NSE_FNO'')
      \<or> ex = ''NSE'' \<and> in_exchange r = ''NFO''
      \<or> ex = ''BFO'' \<and> in_exchange r = ''BSE''
          \<and> (in_segment r \<in> {Some ''D'', Some ''BFO'', Some ''BSE_FNO''} \<or> in_exchange_segment r = Some ''BSE_FNO'')
      \<or> ex = ''BSE'' \<and> in_exchange r = ''BFO'')
     \<and> (in_tradingsymbol r = symb \<or> ToUpper (in_tradingsymbol r) = ToUpper symb)"

text \<open>\<open>ORDER BY CASE WHEN expiry >= CURRENT_DATE THEN 0 ELSE 1 END, expiry ASC NULLS LAST\<close>, with dates as day
  numbers of the session's time zone.\<close>

definition ist_day :: "gotime \<Rightarrow> int" where
  "ist_day t = (t + 5 * Hour + 30 * Minute) div (24 * Hour)"

definition expiry_before :: "int \<Rightarrow> int option \<Rightarrow> int option \<Rightarrow> bool" where
  "expiry_before today a b = (case (a, b) of
      (Some x, Some y) \<Rightarrow>
        if (today \<le> x) = (today \<le> y) then x < y else today \<le> x
    | (Some x, None) \<Rightarrow> True
    | (None, _) \<Rightarrow> False)"

fun first_by :: "('r \<Rightarrow> 'r \<Rightarrow> bool) \<Rightarrow> 'r list \<Rightarrow> 'r option" where
  "first_by lt [] = None"
| "first_by lt (r # rs) = (case first_by lt rs of
      None \<Rightarrow> Some r | Some m \<Rightarrow> Some (if lt m r then m else r))"

definition InstrumentLotSize :: "string \<Rightarrow> string \<Rightarrow> db \<Rightarrow> int result \<times> db" where
  "InstrumentLotSize ex symb = db_call (\<lambda>d.
     case first_by (\<lambda>a b. expiry_before (ist_day (db_now d)) (in_expiry a) (in_expiry b))
            (filter (instr_matches ex symb) (instruments d)) of
       None \<Rightarrow> (Inl ErrNotFound, d)
     | Some r \<Rightarrow> (Inr (in_lot_size r), d))"

end
