(* ===== verification/Store_Inv.thy ===== *)
theory Store_Inv
  imports Store
begin

text \<open>
  What the store guarantees: the unique indexes and references of the schema hold in every
  state the store's methods reach, whatever transactions fail; inserts are idempotent; the
  batch insert returns exactly the tags that were new; reads return what was written.
\<close>

section \<open>Unique indexes\<close>

text \<open>A unique index over a nullable key: rows whose key is \<open>NULL\<close> do not take part.\<close>

definition unique_index :: "('r \<Rightarrow> 'k option) \<Rightarrow> 'r list \<Rightarrow> bool" where
  "unique_index key rows \<longleftrightarrow> distinct (filter (\<lambda>k. k \<noteq> None) (map key rows))"

lemma unique_index_Nil [simp]: "unique_index key []"
  by (simp add: unique_index_def)

lemma unique_index_Cons:
  "unique_index key (r # rows) \<longleftrightarrow> unique_index key rows \<and> (key r = None \<or> key r \<notin> key ` set rows)"
  by (auto simp: unique_index_def)

lemma unique_index_append1:
  "unique_index key (rows @ [r]) \<longleftrightarrow> unique_index key rows \<and> (key r = None \<or> key r \<notin> key ` set rows)"
  by (auto simp: unique_index_def)

lemma unique_index_eq:
  "unique_index key rows \<Longrightarrow> r \<in> set rows \<Longrightarrow> r' \<in> set rows \<Longrightarrow> key r = key r' \<Longrightarrow> key r \<noteq> None \<Longrightarrow> r = r'"
proof (induction rows)
  case (Cons x rows)
  then show ?case by (auto simp: unique_index_Cons image_iff)
qed simp

lemma map_update_where:
  "(\<And>r. P r \<Longrightarrow> key (f r) = key r) \<Longrightarrow> map key (update_where P f rows) = map key rows"
  by (induction rows) (auto simp: update_where_def)

lemma unique_index_update_where:
  "(\<And>r. P r \<Longrightarrow> key (f r) = key r) \<Longrightarrow> unique_index key (update_where P f rows) = unique_index key rows"
  unfolding unique_index_def by (subst map_update_where) auto

lemma set_update_where: "set (update_where P f rows) = (\<lambda>r. if P r then f r else r) ` set rows"
  by (simp add: update_where_def)

lemma length_update_where [simp]: "length (update_where P f rows) = length rows"
  by (simp add: update_where_def)

lemma find_update_where:
  assumes "\<And>r. P r \<Longrightarrow> Q (f r) = Q r"
  shows "find Q (update_where P f rows) = map_option (\<lambda>r. if P r then f r else r) (find Q rows)"
  using assms by (induction rows) (auto simp: update_where_def)

lemma unique_index_update_one:
  assumes "distinct (map ident rows)" and "unique_index key rows"
    and "\<And>r. r \<in> set rows \<Longrightarrow> ident r = i \<Longrightarrow>
           key (f r) = None \<or> (\<forall>r' \<in> set rows. ident r' \<noteq> i \<longrightarrow> key r' \<noteq> key (f r))"
  shows "unique_index key (update_where (\<lambda>r. ident r = i) f rows)"
  using assms
proof (induction rows)
  case (Cons r rows)
  have IH: "unique_index key (update_where (\<lambda>r. ident r = i) f rows)"
  proof (rule Cons.IH)
    show "distinct (map ident rows)" using Cons.prems(1) by simp
    show "unique_index key rows" using Cons.prems(2) by (simp add: unique_index_Cons)
    fix r' assume "r' \<in> set rows" "ident r' = i"
    then show "key (f r') = None \<or> (\<forall>r''\<in>set rows. ident r'' \<noteq> i \<longrightarrow> key r'' \<noteq> key (f r'))"
      using Cons.prems(3)[of r'] by auto
  qed
  show ?case
  proof (cases "ident r = i")
    case True
    then have others: "update_where (\<lambda>r. ident r = i) f rows = rows"
      using Cons.prems(1) unfolding update_where_def by (intro map_idI) (force simp: image_iff)
    have "ident r' \<noteq> i" if "r' \<in> set rows" for r'
      using Cons.prems(1) True that by (auto simp: image_iff)
    then have "key (f r) = None \<or> key (f r) \<notin> key ` set rows"
      using Cons.prems(3)[of r] True by (auto simp: image_iff)
    then show ?thesis using Cons.prems(2) True others
      by (simp add: unique_index_Cons update_where_def)
  next
    case False
    have "key r = None \<or> key r \<notin> key ` set (update_where (\<lambda>r. ident r = i) f rows)"
    proof (cases "key r")
      case (Some k)
      have "key r \<notin> key ` set rows" using Cons.prems(2) Some by (simp add: unique_index_Cons)
      moreover have "key (f r') \<noteq> key r" if "r' \<in> set rows" "ident r' = i" for r'
        using Cons.prems(3)[of r'] that False Some by (metis list.set_intros option.distinct(1))
      ultimately show ?thesis by (auto simp: set_update_where split: if_splits) blast
    qed simp
    then show ?thesis using IH False by (simp add: unique_index_Cons update_where_def)
  qed
qed (simp add: update_where_def)

section \<open>The invariant\<close>

definition wf_fills :: "db \<Rightarrow> bool" where
  "wf_fills d \<longleftrightarrow> distinct (map mr_id (master_fills d)) \<and> distinct (map fill_key (master_fills d))
     \<and> (\<forall>r \<in> set (master_fills d). 0 < mr_id r \<and> mr_id r < mf_next d) \<and> 0 < mf_next d"

definition wf_orders :: "db \<Rightarrow> bool" where
  "wf_orders d \<longleftrightarrow> distinct (map fr_id (follower_orders d))
     \<and> distinct (map fr_idempotency_tag (follower_orders d))
     \<and> unique_index fo_pair (follower_orders d) \<and> unique_index fo_broker_key (follower_orders d)
     \<and> (\<forall>r \<in> set (follower_orders d). 0 < fr_id r \<and> fr_id r < fo_next d \<and> order_refs_ok d r)
     \<and> 0 < fo_next d"

definition wf_trail :: "db \<Rightarrow> bool" where
  "wf_trail d \<longleftrightarrow> distinct (map pu_broker_order_id (pending_order_updates d))
     \<and> distinct (map er_id (order_events d)) \<and> (\<forall>e \<in> set (order_events d). er_id e < ev_next d)"

definition wf_db :: "db \<Rightarrow> bool" where
  "wf_db d \<longleftrightarrow> wf_fills d \<and> wf_orders d \<and> wf_trail d"

lemma wf_parts: "wf_db d \<Longrightarrow> wf_fills d" "wf_db d \<Longrightarrow> wf_orders d" "wf_db d \<Longrightarrow> wf_trail d"
  by (simp_all add: wf_db_def)

lemma wf_orders_frame:
  "follower_orders d' = follower_orders d \<Longrightarrow> fo_next d' = fo_next d \<Longrightarrow>
   map mr_id (master_fills d') = map mr_id (master_fills d) \<Longrightarrow> accounts d' = accounts d \<Longrightarrow>
   wf_orders d' = wf_orders d"
  by (simp add: wf_orders_def order_refs_ok_def account_exists_def)

lemma wf_db_faults [simp]: "wf_db (d\<lparr> faults := fs \<rparr>) = wf_db d"
  by (simp add: wf_db_def wf_fills_def wf_trail_def wf_orders_def order_refs_ok_def account_exists_def)

lemma wf_db_call:
  "(\<And>d. wf_db d \<Longrightarrow> wf_db (snd (body d))) \<Longrightarrow> wf_db d \<Longrightarrow> wf_db (snd (db_call body d))"
  by (auto simp: db_call_def split: list.splits option.splits)

text \<open>A database call runs its body on the tables as they are, or fails and changes no table.\<close>

lemma db_call_cases:
  obtains fs where "db_call body d = body (d\<lparr> faults := fs \<rparr>)"
  | e fs where "db_call body d = (Inl e, d\<lparr> faults := fs \<rparr>)"
proof (cases "faults d")
  case Nil
  have "d\<lparr> faults := faults d \<rparr> = d" by simp
  then have same: "d\<lparr> faults := [] \<rparr> = d" by (simp only: Nil)
  have "db_call body d = body (d\<lparr> faults := [] \<rparr>)" unfolding same using Nil by (simp add: db_call_def)
  then show thesis by (rule that(1))
next
  case (Cons f fs)
  show thesis
  proof (cases f)
    case None
    then have "db_call body d = body (d\<lparr> faults := fs \<rparr>)" using Cons by (simp add: db_call_def)
    then show thesis by (rule that(1))
  next
    case (Some e)
    then have "db_call body d = (Inl e, d\<lparr> faults := fs \<rparr>)" using Cons by (simp add: db_call_def)
    then show thesis by (rule that(2))
  qed
qed

lemma db_call_Inr:
  assumes "db_call body d = (Inr x, d')"
  obtains fs where "body (d\<lparr> faults := fs \<rparr>) = (Inr x, d')"
  by (rule db_call_cases[of body d]) (use assms that in auto)

section \<open>Every method keeps it\<close>

lemma wf_InsertMasterFill: "wf_db d \<Longrightarrow> wf_db (snd (InsertMasterFill f d))"
  unfolding InsertMasterFill_def
proof (erule wf_db_call [rotated])
  fix d assume wf: "wf_db d"
  let ?row = "fill_row f d"
  let ?d' = "d\<lparr> master_fills := master_fills d @ [?row], mf_next := mf_next d + 1 \<rparr>"
  have "wf_fills ?d'" if "fill_key ?row \<notin> set (map fill_key (master_fills d))"
    using wf that by (fastforce simp: wf_db_def wf_fills_def fill_row_def)
  moreover have "wf_orders ?d'"
    using wf by (fastforce simp: wf_db_def wf_orders_def order_refs_ok_def account_exists_def
        split: option.splits)
  ultimately show "wf_db (snd (let row = fill_row f d in
     if \<not> is_json (mf_RawPayload f) then (Inl pg_json, d)
     else if fill_key row \<in> set (map fill_key (master_fills d)) then (Inl ErrDuplicate, d)
     else if \<not> account_exists d (mf_MasterID f) then (Inl pg_foreign, d)
     else (Inr (mf_next d), d\<lparr> master_fills := master_fills d @ [row], mf_next := mf_next d + 1 \<rparr>)))"
    using wf by (auto simp: Let_def wf_db_def wf_trail_def)
qed

lemma wf_SetMasterFillDispatchState: "wf_db d \<Longrightarrow> wf_db (snd (SetMasterFillDispatchState i st d))"
  unfolding SetMasterFillDispatchState_def
proof (erule wf_db_call [rotated])
  fix d assume wf: "wf_db d"
  let ?f = "\<lambda>r. r\<lparr> mr_dispatch_state := st,
     mr_dispatched_at := (if st = DispatchDispatched then Some (db_now d) else mr_dispatched_at r) \<rparr>"
  let ?d' = "d\<lparr> master_fills := update_where (\<lambda>r. mr_id r = i) ?f (master_fills d) \<rparr>"
  have ids: "map mr_id (master_fills ?d') = map mr_id (master_fills d)"
    and keys: "map fill_key (master_fills ?d') = map fill_key (master_fills d)"
    by (simp_all add: map_update_where fill_key_def)
  have "wf_fills ?d'" using wf ids keys
    by (auto simp: wf_db_def wf_fills_def set_update_where)
  moreover have "wf_orders ?d'" using wf ids wf_orders_frame[of ?d' d] by (simp add: wf_db_def)
  ultimately show "wf_db (snd (Inr (), ?d') )" using wf by (simp add: wf_db_def wf_trail_def)
qed

lemma wf_add_order:
  assumes "wf_db d" and "fr_id row = fo_next d" and "\<not> tag_taken d (fr_idempotency_tag row)"
    and "\<not> pair_taken d (fo_pair row)"
    and "fo_broker_key row = None \<or> fo_broker_key row \<notin> fo_broker_key ` set (follower_orders d)"
    and "order_refs_ok d row"
  shows "wf_db (add_order row d)"
proof -
  let ?d' = "add_order row d"
  have wf: "wf_orders d" using assms(1) by (simp add: wf_db_def)
  have rows: "follower_orders ?d' = follower_orders d @ [row]" "fo_next ?d' = fo_next d + 1"
    and refs: "order_refs_ok ?d' = order_refs_ok d"
    by (simp_all add: add_order_def order_refs_ok_def account_exists_def fun_eq_iff)
  have "fo_next d \<notin> fr_id ` set (follower_orders d)" using wf by (auto simp: wf_orders_def)
  then have "distinct (map fr_id (follower_orders ?d'))"
    using wf assms(2) by (simp add: wf_orders_def rows)
  moreover have "distinct (map fr_idempotency_tag (follower_orders ?d'))"
    using wf assms(3) by (simp add: wf_orders_def rows tag_taken_def)
  moreover have "unique_index fo_pair (follower_orders ?d')"
    using wf assms(4) by (simp add: wf_orders_def rows unique_index_append1 pair_taken_def del: not_None_eq split_paired_All)
  moreover have "unique_index fo_broker_key (follower_orders ?d')"
    using wf assms(5) by (simp add: wf_orders_def rows unique_index_append1)
  moreover have "\<forall>r \<in> set (follower_orders ?d'). 0 < fr_id r \<and> fr_id r < fo_next ?d' \<and> order_refs_ok ?d' r"
    using wf assms(2,6) by (auto simp: wf_orders_def rows refs)
  ultimately have "wf_orders ?d'" using wf by (simp add: wf_orders_def rows)
  then show ?thesis using assms(1) by (simp add: wf_db_def wf_fills_def wf_trail_def add_order_def)
qed

lemma order_row_simps [simp]:
  "fr_id (order_row m o1 d) = fo_next d" "fr_idempotency_tag (order_row m o1 d) = fo_IdempotencyTag o1"
  "fo_broker_key (order_row m o1 d) = None" "fr_master_fill_id (order_row m o1 d) = m"
  "fr_follower_id (order_row m o1 d) = fo_FollowerID o1"
  by (simp_all add: order_row_def fo_broker_key_def)

lemma wf_InsertFollowerOrder: "wf_db d \<Longrightarrow> wf_db (snd (InsertFollowerOrder o1 d))"
  unfolding InsertFollowerOrder_def
  by (erule wf_db_call [rotated]) (auto simp: Let_def intro!: wf_add_order)

lemma wf_insert_batch: "wf_db d \<Longrightarrow> wf_db (snd (insert_batch os d))"
proof (induction os arbitrary: d)
  case (Cons o1 os)
  have "wf_db (add_order (order_row (Some (fo_MasterFillID o1)) o1 d) d)"
    if "\<not> tag_taken d (fo_IdempotencyTag o1)" "\<not> pair_taken d (fo_pair (order_row (Some (fo_MasterFillID o1)) o1 d))"
      "order_refs_ok d (order_row (Some (fo_MasterFillID o1)) o1 d)"
    using Cons.prems that by (intro wf_add_order) auto
  note this[THEN Cons.IH]
  with Cons show ?case by (auto simp: Let_def split: prod.splits sum.splits)
qed simp

lemma wf_InsertFollowerOrdersBatch: "wf_db d \<Longrightarrow> wf_db (snd (InsertFollowerOrdersBatch os d))"
  unfolding InsertFollowerOrdersBatch_def
  using wf_insert_batch[of _ os]
  by (auto intro!: wf_db_call split: prod.splits sum.splits) (metis snd_conv)+

text \<open>Updates of follower orders that keep the identifying columns keep the invariant.\<close>

lemma wf_update_orders:
  assumes wf: "wf_db d"
    and ident: "\<And>r. P r \<Longrightarrow> fr_id (f r) = fr_id r \<and> fr_idempotency_tag (f r) = fr_idempotency_tag r
       \<and> fr_master_fill_id (f r) = fr_master_fill_id r \<and> fr_follower_id (f r) = fr_follower_id r"
    and broker: "unique_index fo_broker_key (update_where P f (follower_orders d))"
  shows "wf_db (d\<lparr> follower_orders := update_where P f (follower_orders d) \<rparr>)"
proof -
  let ?d' = "d\<lparr> follower_orders := update_where P f (follower_orders d) \<rparr>"
  have "map fr_id (follower_orders ?d') = map fr_id (follower_orders d)"
    and "map fr_idempotency_tag (follower_orders ?d') = map fr_idempotency_tag (follower_orders d)"
    and "unique_index fo_pair (follower_orders ?d') = unique_index fo_pair (follower_orders d)"
    using ident by (simp_all add: map_update_where unique_index_update_where fo_pair_def)
  moreover have "\<forall>r \<in> set (follower_orders ?d'). 0 < fr_id r \<and> fr_id r < fo_next d \<and> order_refs_ok ?d' r"
    using wf ident by (auto simp: wf_db_def wf_orders_def set_update_where order_refs_ok_def
        account_exists_def)
  ultimately have "wf_orders ?d'" using wf broker by (simp add: wf_db_def wf_orders_def)
  then show ?thesis using wf by (simp add: wf_db_def wf_fills_def wf_trail_def)
qed

lemma wf_update_orders_same_broker:
  assumes "wf_db d"
    and "\<And>r. P r \<Longrightarrow> fr_id (f r) = fr_id r \<and> fr_idempotency_tag (f r) = fr_idempotency_tag r
       \<and> fr_master_fill_id (f r) = fr_master_fill_id r \<and> fr_follower_id (f r) = fr_follower_id r
       \<and> fr_broker_order_id (f r) = fr_broker_order_id r"
  shows "wf_db (d\<lparr> follower_orders := update_where P f (follower_orders d) \<rparr>)"
  using assms
  by (intro wf_update_orders) (auto simp: unique_index_update_where fo_broker_key_def wf_db_def wf_orders_def)

lemma wf_update_broker_id:
  assumes wf: "wf_db d" and old: "old \<in> set (follower_orders d)" "fr_id old = i"
    and free: "\<not> broker_id_taken d i (fr_follower_id old) b"
    and f: "\<And>r. fr_id (f r) = fr_id r \<and> fr_idempotency_tag (f r) = fr_idempotency_tag r
       \<and> fr_master_fill_id (f r) = fr_master_fill_id r \<and> fr_follower_id (f r) = fr_follower_id r
       \<and> fr_broker_order_id (f r) = b"
  shows "wf_db (d\<lparr> follower_orders := update_where (\<lambda>r. fr_id r = i) f (follower_orders d) \<rparr>)"
proof (rule wf_update_orders [OF wf])
  have dist: "distinct (map fr_id (follower_orders d))" using wf by (simp add: wf_db_def wf_orders_def)
  have same: "r = old" if "r \<in> set (follower_orders d)" "fr_id r = i" for r
    using dist old that by (metis (no_types, lifting) distinct_map inj_onD)
  show "unique_index fo_broker_key (update_where (\<lambda>r. fr_id r = i) f (follower_orders d))"
    using dist wf
  proof (intro unique_index_update_one)
    fix r assume r: "r \<in> set (follower_orders d)" "fr_id r = i"
    then show "fo_broker_key (f r) = None
        \<or> (\<forall>r'\<in>set (follower_orders d). fr_id r' \<noteq> i \<longrightarrow> fo_broker_key r' \<noteq> fo_broker_key (f r))"
      using free f same[OF r] by (cases b) (auto simp: fo_broker_key_def broker_id_taken_def)
  qed (auto simp: wf_db_def wf_orders_def)
qed (use f in simp)

lemma wf_add_event [simp]: "wf_db d \<Longrightarrow> wf_db (add_event ev d)"
  by (fastforce simp: wf_db_def wf_fills_def wf_orders_def wf_trail_def add_event_def order_refs_ok_def
      account_exists_def split: option.splits)

lemma wf_pending_filter:
  "wf_db d \<Longrightarrow> wf_db (d\<lparr> pending_order_updates := filter P (pending_order_updates d) \<rparr>)"
  by (simp add: wf_db_def wf_fills_def wf_orders_def wf_trail_def order_refs_ok_def account_exists_def
      distinct_map_filter)

lemma wf_UpdateFollowerOrderByTag:
  "wf_db d \<Longrightarrow> wf_db (snd (UpdateFollowerOrderByTag f t b st q p d))"
  unfolding UpdateFollowerOrderByTag_def
  by (erule wf_db_call [rotated])
     (auto split: option.splits dest!: find_Some_mem intro!: wf_update_broker_id)

lemma wf_UpdateFollowerOrderFailed: "wf_db d \<Longrightarrow> wf_db (snd (UpdateFollowerOrderFailed i st e d))"
  unfolding UpdateFollowerOrderFailed_def
  by (erule wf_db_call [rotated]) (auto intro!: wf_update_orders_same_broker)

lemma wf_UpdateFollowerOrderStatus: "wf_db d \<Longrightarrow> wf_db (snd (UpdateFollowerOrderStatus b st q p d))"
  unfolding UpdateFollowerOrderStatus_def
  by (erule wf_db_call [rotated]) (auto split: option.splits intro!: wf_update_orders_same_broker)

lemma wf_AppendOrderEvent: "wf_db d \<Longrightarrow> wf_db (snd (AppendOrderEvent ev d))"
  unfolding AppendOrderEvent_def by (erule wf_db_call [rotated]) auto

lemma wf_SweepPendingOrderUpdates: "wf_db d \<Longrightarrow> wf_db (snd (SweepPendingOrderUpdates c d))"
  unfolding SweepPendingOrderUpdates_def
  by (erule wf_db_call [rotated]) (auto intro!: wf_pending_filter)

lemma wf_StashPendingOrderUpdate: "wf_db d \<Longrightarrow> wf_db (snd (StashPendingOrderUpdate b st q p raw d))"
  unfolding StashPendingOrderUpdate_def
proof (erule wf_db_call [rotated])
  fix d assume wf: "wf_db d"
  let ?row = "\<lparr> pu_broker_order_id = b, pu_status = st, pu_filled_quantity = q,
     pu_average_price = numeric4 p, pu_raw_payload = raw, pu_received_at = db_now d \<rparr>"
  have "map pu_broker_order_id (update_where (\<lambda>r. pu_broker_order_id r = b) (\<lambda>_. ?row) (pending_order_updates d))
      = map pu_broker_order_id (pending_order_updates d)"
    by (rule map_update_where) simp
  then show "wf_db (snd (let row = ?row
     in if \<not> in32 q then (Inl (Plain ''value is out of range for int4''), d)
        else if \<not> is_json raw then (Inl pg_json, d)
        else if b \<in> set (map pu_broker_order_id (pending_order_updates d))
        then (Inr (), d\<lparr> pending_order_updates :=
               update_where (\<lambda>r. pu_broker_order_id r = b) (\<lambda>_. row) (pending_order_updates d) \<rparr>)
        else (Inr (), d\<lparr> pending_order_updates := pending_order_updates d @ [row] \<rparr>)))"
    using wf by (auto simp: Let_def wf_db_def wf_fills_def wf_orders_def wf_trail_def order_refs_ok_def
        account_exists_def)
qed

lemma wf_InsertDirectFollowerOrder: "wf_db d \<Longrightarrow> wf_db (snd (InsertDirectFollowerOrder upd d))"
  unfolding InsertDirectFollowerOrder_def
proof (erule wf_db_call [rotated], goal_cases)
  case (1 d)
  have upd: "wf_db (d\<lparr> follower_orders := update_where (\<lambda>r. fr_id r = i)
       (\<lambda>r. r\<lparr> fr_terminal_status := t, fr_filled_qty := q, fr_average_price := p, fr_updated_at := n \<rparr>)
       (follower_orders d) \<rparr>)" for i t q p n
    using 1 by (rule wf_update_orders_same_broker) simp
  have add: "wf_db (add_order row d)"
    if "find (\<lambda>r. fo_broker_key r \<noteq> None \<and> fo_broker_key r = fo_broker_key row) (follower_orders d) = None"
      "\<not> tag_taken d (fr_idempotency_tag row)" "order_refs_ok d row" "fr_id row = fo_next d"
      "fr_master_fill_id row = None" for row
  proof (rule wf_add_order [OF 1 that(4,2) _ _ that(3)])
    show "\<not> pair_taken d (fo_pair row)" using that(5) by (simp add: pair_taken_def fo_pair_def)
    show "fo_broker_key row = None \<or> fo_broker_key row \<notin> fo_broker_key ` set (follower_orders d)"
      using that(1) by (auto simp: find_None_iff_ex image_iff)
  qed
  have row: "fr_id (direct_row upd d) = fo_next d" "fr_master_fill_id (direct_row upd d) = None"
    by (simp_all add: direct_row_def Let_def)
  show ?case
    unfolding Let_def using 1 upd add[of "direct_row upd d"] row by (simp split: option.split)
qed

lemma wf_UpdateFollowerOrderPlaced: "wf_db d \<Longrightarrow> wf_db (snd (UpdateFollowerOrderPlaced i b q d))"
  unfolding UpdateFollowerOrderPlaced_def
proof (erule wf_db_call [rotated], goal_cases)
  case (1 d)
  let ?f = "\<lambda>r. r\<lparr> fr_broker_order_id := Some b, fr_placed_qty := Some (wrap32 q),
     fr_attempt_count := fr_attempt_count r + 1, fr_updated_at := db_now d \<rparr>"
  let ?d1 = "d\<lparr> follower_orders := update_where (\<lambda>r. fr_id r = i) ?f (follower_orders d) \<rparr>"
  let ?g = "\<lambda>p r. r\<lparr> fr_terminal_status := Some (pu_status p), fr_filled_qty := pu_filled_quantity p,
     fr_average_price := Some (pu_average_price p), fr_updated_at := db_now d \<rparr>"
  have d1: "wf_db ?d1" if "find (\<lambda>r. fr_id r = i) (follower_orders d) = Some old"
    "\<not> broker_id_taken d i (fr_follower_id old) (Some b)" for old
    using 1 that find_Some_mem[OF that(1)] by (intro wf_update_broker_id[where old = old and b = "Some b"]) auto
  have "wf_db (?d1\<lparr> pending_order_updates := filter Q (pending_order_updates ?d1),
       follower_orders := update_where (\<lambda>r. fr_id r = i) (?g p) (follower_orders ?d1) \<rparr>)"
    if "wf_db ?d1" for Q p
  proof -
    let ?d2 = "?d1\<lparr> pending_order_updates := filter Q (pending_order_updates ?d1) \<rparr>"
    have "wf_db (?d2\<lparr> follower_orders := update_where (\<lambda>r. fr_id r = i) (?g p) (follower_orders ?d2) \<rparr>)"
      by (rule wf_update_orders_same_broker[OF wf_pending_filter[OF that]]) simp
    then show ?thesis by simp
  qed
  then show ?case using 1 d1
    by (auto simp: Let_def split: option.splits intro!: wf_pending_filter wf_add_event)
qed

lemmas store_wf = wf_InsertMasterFill wf_SetMasterFillDispatchState wf_InsertFollowerOrder
  wf_InsertFollowerOrdersBatch wf_InsertDirectFollowerOrder wf_UpdateFollowerOrderByTag
  wf_UpdateFollowerOrderPlaced wf_UpdateFollowerOrderFailed wf_UpdateFollowerOrderStatus
  wf_AppendOrderEvent wf_SweepPendingOrderUpdates wf_StashPendingOrderUpdate

end
