(* ===== verification/Store_Thms.thy ===== *)
theory Store_Thms
  imports Store_Inv
begin

text \<open>
  The contracts of the store's methods, over histories in which any transaction may fail:
  uniqueness in every reachable state, idempotence of the fill insert, the meaning of the batch
  insert's result, the insert and read round trip, and the hand-over of a status update that
  arrives before the order's placement is recorded.
\<close>

section \<open>Histories\<close>

inductive store_step :: "db \<Rightarrow> db \<Rightarrow> bool" where
  step_fill: "store_step d (snd (InsertMasterFill f d))"
| step_dispatch: "store_step d (snd (SetMasterFillDispatchState i st d))"
| step_order: "store_step d (snd (InsertFollowerOrder o1 d))"
| step_batch: "store_step d (snd (InsertFollowerOrdersBatch os d))"
| step_direct: "store_step d (snd (InsertDirectFollowerOrder upd d))"
| step_tag: "store_step d (snd (UpdateFollowerOrderByTag a t b st q p d))"
| step_placed: "store_step d (snd (UpdateFollowerOrderPlaced i b q d))"
| step_failed: "store_step d (snd (UpdateFollowerOrderFailed i st e d))"
| step_status: "store_step d (snd (UpdateFollowerOrderStatus b st q p d))"
| step_event: "store_step d (snd (AppendOrderEvent ev d))"
| step_stash: "store_step d (snd (StashPendingOrderUpdate b st q p raw d))"
| step_sweep: "store_step d (snd (SweepPendingOrderUpdates c d))"
| step_clock: "store_step d (d\<lparr> db_now := t \<rparr>)"
| step_fault: "store_step d (d\<lparr> faults := fs \<rparr>)"

abbreviation store_run :: "db \<Rightarrow> db \<Rightarrow> bool" where
  "store_run \<equiv> store_step\<^sup>*\<^sup>*"

definition empty_db :: "account_row list \<Rightarrow> instr_row list \<Rightarrow> db" where
  "empty_db accs instrs = \<lparr> master_fills = [], follower_orders = [], order_events = [],
     pending_order_updates = [], accounts = accs, groups = [], follow_links = [],
     instruments = instrs, account_positions = [], mf_next = 1, fo_next = 1, ev_next = 1, db_now = 1, faults = [] \<rparr>"

lemma wf_empty_db [simp]: "wf_db (empty_db accs instrs)"
  by (simp add: empty_db_def wf_db_def wf_fills_def wf_orders_def wf_trail_def)

lemma wf_clock: "wf_db (d\<lparr> db_now := t \<rparr>) = wf_db d"
  by (simp add: wf_db_def wf_fills_def wf_orders_def wf_trail_def order_refs_ok_def account_exists_def)

lemma wf_store_step: "store_step d d' \<Longrightarrow> wf_db d \<Longrightarrow> wf_db d'"
  by (induction rule: store_step.induct) (simp_all add: store_wf wf_clock)

lemma wf_store_run: "store_run d d' \<Longrightarrow> wf_db d \<Longrightarrow> wf_db d'"
  by (induction rule: rtranclp_induct) (auto intro: wf_store_step)

section \<open>What no method forgets\<close>

text \<open>Fill keys and tags, once stored, stay stored.\<close>

definition keeps :: "db \<Rightarrow> db \<Rightarrow> bool" where
  "keeps d d' \<longleftrightarrow> set (map fill_key (master_fills d)) \<subseteq> set (map fill_key (master_fills d'))
     \<and> set (map (\<lambda>r. (fr_idempotency_tag r, fr_id r)) (follower_orders d))
        \<subseteq> set (map (\<lambda>r. (fr_idempotency_tag r, fr_id r)) (follower_orders d'))"

lemma keeps_refl [simp]: "keeps d d"
  by (simp add: keeps_def)

lemma keeps_trans: "keeps d d' \<Longrightarrow> keeps d' d'' \<Longrightarrow> keeps d d''"
  unfolding keeps_def by (meson subset_trans)

lemma keeps_faults [simp]: "keeps (d\<lparr> faults := fs \<rparr>) d' = keeps d d'" "keeps d (d'\<lparr> faults := fs \<rparr>) = keeps d d'"
  by (simp_all add: keeps_def)

lemma keeps_call: "(\<And>d. keeps d (snd (body d))) \<Longrightarrow> keeps d (snd (db_call body d))"
  unfolding db_call_def
  by (auto split: list.splits option.splits) (metis keeps_faults(1))

lemma keeps_orders:
  "master_fills d' = master_fills d \<Longrightarrow>
   map (\<lambda>r. (fr_idempotency_tag r, fr_id r)) (follower_orders d')
     = map (\<lambda>r. (fr_idempotency_tag r, fr_id r)) (follower_orders d) \<Longrightarrow> keeps d d'"
  by (simp add: keeps_def)

lemma keeps_update_orders:
  assumes "\<And>r. P r \<Longrightarrow> fr_idempotency_tag (f r) = fr_idempotency_tag r \<and> fr_id (f r) = fr_id r"
  shows "keeps d (d\<lparr> follower_orders := update_where P f (follower_orders d) \<rparr>)"
  using assms by (intro keeps_orders) (simp_all add: map_update_where)

lemma keeps_add_order [simp]: "keeps d (add_order row d)"
  by (auto simp: keeps_def add_order_def)

lemma keeps_insert_batch: "keeps d (snd (insert_batch os d))"
proof (induction os arbitrary: d)
  case (Cons o1 os)
  then show ?case
    using keeps_trans[OF keeps_add_order Cons.IH]
    by (auto simp: Let_def split: prod.splits sum.splits) (metis snd_conv)+
qed simp

lemma keeps_step: "store_step d d' \<Longrightarrow> keeps d d'"
proof (induction rule: store_step.induct)
  case (step_fill d f)
  then show ?case unfolding InsertMasterFill_def by (rule keeps_call) (auto simp: Let_def keeps_def)
next
  case (step_dispatch d i st)
  then show ?case unfolding SetMasterFillDispatchState_def
    by (rule keeps_call) (auto simp: keeps_def update_where_def fill_key_def image_iff)
next
  case (step_order d o1)
  then show ?case unfolding InsertFollowerOrder_def by (rule keeps_call) (simp add: Let_def)
next
  case (step_batch d os)
  have "keeps d (snd (case insert_batch os d of
      (Inl e, d') \<Rightarrow> (Inl (errorf ''iterate follower orders batch result'' e), d)
    | (Inr m, d') \<Rightarrow> (Inr (map_of m), d')))" for d
    using keeps_insert_batch[of d os] by (auto split: prod.splits sum.splits)
  then show ?case unfolding InsertFollowerOrdersBatch_def by (auto intro: keeps_call)
next
  case (step_direct d upd)
  then show ?case unfolding InsertDirectFollowerOrder_def
    by (rule keeps_call) (auto simp: Let_def split: option.splits intro!: keeps_update_orders)
next
  case (step_tag d a t b st q p)
  then show ?case unfolding UpdateFollowerOrderByTag_def
    by (rule keeps_call) (auto split: option.splits intro!: keeps_update_orders)
next
  case (step_placed d i b q)
  then show ?case unfolding UpdateFollowerOrderPlaced_def
    by (rule keeps_call)
       (auto simp: Let_def add_event_def map_update_where split: option.splits intro!: keeps_orders)
next
  case (step_failed d i st e)
  then show ?case unfolding UpdateFollowerOrderFailed_def
    by (rule keeps_call) (auto intro!: keeps_update_orders)
next
  case (step_status d b st q p)
  then show ?case unfolding UpdateFollowerOrderStatus_def
    by (rule keeps_call) (auto split: option.splits intro!: keeps_update_orders)
next
  case (step_event d ev)
  then show ?case unfolding AppendOrderEvent_def
    by (rule keeps_call) (auto simp: add_event_def keeps_def)
next
  case (step_stash d b st q p raw)
  then show ?case unfolding StashPendingOrderUpdate_def
    by (rule keeps_call) (auto simp: Let_def keeps_def)
next
  case (step_sweep d c)
  then show ?case unfolding SweepPendingOrderUpdates_def by (rule keeps_call) (simp add: keeps_def)
qed (simp_all add: keeps_def)

lemma keeps_run: "store_run d d' \<Longrightarrow> keeps d d'"
  by (induction rule: rtranclp_induct) (auto intro: keeps_step keeps_trans)

section \<open>Uniqueness in every reachable state\<close>

text \<open>
  C6 Whatever the order of calls and whatever transactions fail, a follower has at most one
  stored order for a master fill, a tag belongs to at most one order, and a broker order id
  to at most one order of a follower.
\<close>
theorem store_unique_orders:
  assumes "store_run (empty_db accs instrs) d"
    and "r \<in> set (follower_orders d)" "r' \<in> set (follower_orders d)"
    and "fr_idempotency_tag r = fr_idempotency_tag r'
      \<or> fr_follower_id r = fr_follower_id r' \<and>
          (fr_master_fill_id r \<noteq> None \<and> fr_master_fill_id r = fr_master_fill_id r'
           \<or> fr_broker_order_id r \<noteq> None \<and> fr_broker_order_id r = fr_broker_order_id r')"
  shows "r = r'"
proof -
  have wf: "wf_orders d" by (rule wf_parts(2)[OF wf_store_run[OF assms(1) wf_empty_db]])
  have "inj_on fr_idempotency_tag (set (follower_orders d))"
    using wf by (simp add: wf_orders_def distinct_map)
  then have tag: "fr_idempotency_tag r = fr_idempotency_tag r' \<Longrightarrow> r = r'"
    using assms(2,3) by (auto dest: inj_onD)
  have pair: "r = r'" if "fo_pair r = fo_pair r'" "fo_pair r \<noteq> None"
    using wf assms(2,3) that unfolding wf_orders_def by (metis unique_index_eq)
  have key: "r = r'" if "fo_broker_key r = fo_broker_key r'" "fo_broker_key r \<noteq> None"
    using wf assms(2,3) that unfolding wf_orders_def by (metis unique_index_eq)
  show ?thesis
    using assms(4) tag pair key by (elim disjE conjE) (simp_all add: fo_pair_def fo_broker_key_def)
qed

section \<open>Fills are stored once\<close>

lemma InsertMasterFill_ok:
  "InsertMasterFill f d = (Inr i, d') \<Longrightarrow>
   i = mf_next d \<and> fill_key (fill_row f d) \<in> set (map fill_key (master_fills d'))"
  by (auto simp: InsertMasterFill_def db_call_def Let_def fill_key_def fill_row_def
      split: list.splits option.splits if_splits)

lemma InsertMasterFill_again:
  assumes "faults d = []" "is_json (mf_RawPayload g)" "fill_key (fill_row g d) \<in> set (map fill_key (master_fills d))"
  shows "InsertMasterFill g d = (Inl ErrDuplicate, d)"
  using assms by (simp add: InsertMasterFill_def db_call_def Let_def)

text \<open>
  A fill is stored once: after it has been inserted, every later insert of a fill of the same
  master, broker order, filled quantity and status, in whatever state the store has reached
  by then, reports a duplicate and changes nothing, unless the transaction itself fails.
\<close>
theorem InsertMasterFill_idempotent:
  assumes "InsertMasterFill f d = (Inr i, d1)" and "store_run d1 d2"
    and "faults d2 = []" and "is_json (mf_RawPayload g)"
    and "mf_MasterID g = mf_MasterID f" "mf_BrokerOrderID g = mf_BrokerOrderID f"
      "mf_FilledQuantity g = mf_FilledQuantity f" "mf_Status g = mf_Status f"
  shows "InsertMasterFill g d2 = (Inl ErrDuplicate, d2)"
proof (rule InsertMasterFill_again [OF assms(3,4)])
  have "fill_key (fill_row g d2) = fill_key (fill_row f d)"
    using assms(5-8) by (simp add: fill_key_def fill_row_def)
  also have "\<dots> \<in> set (map fill_key (master_fills d1))" using InsertMasterFill_ok[OF assms(1)] by simp
  finally show "fill_key (fill_row g d2) \<in> set (map fill_key (master_fills d2))"
    using keeps_run[OF assms(2)] unfolding keeps_def by blast
qed

section \<open>The batch insert\<close>

definition batch_tags :: "FollowerOrder list \<Rightarrow> string set" where
  "batch_tags os = fo_IdempotencyTag ` set os"

definition tags_of :: "db \<Rightarrow> string set" where
  "tags_of d = fr_idempotency_tag ` set (follower_orders d)"

lemma insert_batch_ok:
  "insert_batch os d = (Inr m, d') \<Longrightarrow>
     fst ` set m = batch_tags os - tags_of d \<and> distinct (map fst m)
     \<and> (\<exists>new. follower_orders d' = follower_orders d @ new
          \<and> map (\<lambda>r. (fr_idempotency_tag r, fr_id r)) new = m
          \<and> (\<forall>r \<in> set new. fr_terminal_status r = None \<and> fr_broker_order_id r = None))"
proof (induction os arbitrary: d m)
  case (Cons o1 os)
  let ?row = "order_row (Some (fo_MasterFillID o1)) o1 d"
  show ?case
  proof (cases "tag_taken d (fo_IdempotencyTag o1)")
    case True
    then show ?thesis
      using Cons by (auto simp: Let_def batch_tags_def tags_of_def tag_taken_def)
  next
    case False
    then obtain m' where m': "insert_batch os (add_order ?row d) = (Inr m', d')"
        "m = (fo_IdempotencyTag o1, fo_next d) # m'"
      using Cons.prems by (auto simp: Let_def split: if_splits prod.splits sum.splits)
    have tags: "tags_of (add_order ?row d) = insert (fo_IdempotencyTag o1) (tags_of d)"
      by (auto simp: tags_of_def add_order_def)
    from Cons.IH[OF m'(1)] obtain new where new: "follower_orders d' = (follower_orders d @ [?row]) @ new"
        "map (\<lambda>r. (fr_idempotency_tag r, fr_id r)) new = m'"
        "\<forall>r \<in> set new. fr_terminal_status r = None \<and> fr_broker_order_id r = None"
      by (auto simp: add_order_def)
    have fst: "fst ` set m' = batch_tags os - insert (fo_IdempotencyTag o1) (tags_of d)" "distinct (map fst m')"
      using Cons.IH[OF m'(1)] tags by auto
    have "fo_IdempotencyTag o1 \<notin> tags_of d" using False by (simp add: tag_taken_def tags_of_def)
    then have "fst ` set m = batch_tags (o1 # os) - tags_of d" "distinct (map fst m)"
      using fst m'(2) by (auto simp: batch_tags_def)
    moreover have "fr_terminal_status ?row = None \<and> fr_broker_order_id ?row = None"
      by (simp add: order_row_def)
    ultimately show ?thesis using new m'(2) by (intro conjI exI[of _ "?row # new"]) auto
  qed
qed (auto simp: batch_tags_def)

lemma batch_ok:
  assumes "InsertFollowerOrdersBatch os d = (Inr m, d')"
  shows "dom m = batch_tags os - tags_of d" and "tags_of d' = tags_of d \<union> batch_tags os"
    and "\<And>t i. m t = Some i \<Longrightarrow> \<exists>r \<in> set (follower_orders d'). fr_idempotency_tag r = t \<and> fr_id r = i"
    and "\<exists>new. follower_orders d' = follower_orders d @ new"
proof -
  have "\<exists>e ps d2. insert_batch os e = (Inr ps, d2) \<and> m = map_of ps \<and> follower_orders e = follower_orders d
      \<and> follower_orders d' = follower_orders d2"
    using assms
    by (auto simp: InsertFollowerOrdersBatch_def db_call_def split: if_splits list.splits option.splits
        prod.splits sum.splits intro: exI[of _ d]) (metis db.select_convs(2) db.surjective db.update_convs(14))+
  then obtain e ps d2 where b: "insert_batch os e = (Inr ps, d2)" "m = map_of ps"
      "follower_orders e = follower_orders d" "follower_orders d' = follower_orders d2" by blast
  from insert_batch_ok[OF b(1)] b(3,4) obtain new where new: "follower_orders d' = follower_orders d @ new"
      "map (\<lambda>r. (fr_idempotency_tag r, fr_id r)) new = ps" "distinct (map fst ps)"
      "fst ` set ps = batch_tags os - tags_of d" by (auto simp: tags_of_def)
  show "dom m = batch_tags os - tags_of d" using b(2) new(4) by (simp add: dom_map_of_conv_image_fst)
  have "fr_idempotency_tag ` set new = fst ` set ps" using new(2) by force
  then show "tags_of d' = tags_of d \<union> batch_tags os" using new(1,4) by (auto simp: tags_of_def)
  show "\<exists>new. follower_orders d' = follower_orders d @ new" using new(1) by blast
  fix t i assume "m t = Some i"
  then have "(t, i) \<in> set ps" using b(2) by (auto dest: map_of_SomeD)
  then show "\<exists>r \<in> set (follower_orders d'). fr_idempotency_tag r = t \<and> fr_id r = i"
    using new(1,2) by auto
qed

text \<open>
  The batch insert tells the caller exactly which orders are new: the returned map is defined
  on the batch's tags that were not stored before, it gives each the id of the stored row,
  afterwards all of the batch's tags are stored, and rows that were stored before are
  unchanged.
\<close>
theorem InsertFollowerOrdersBatch_new_tags:
  assumes "InsertFollowerOrdersBatch os d = (Inr m, d')"
  shows "dom m = batch_tags os - tags_of d \<and> tags_of d' = tags_of d \<union> batch_tags os
    \<and> (\<forall>t i. m t = Some i \<longrightarrow> (\<exists>r \<in> set (follower_orders d'). fr_idempotency_tag r = t \<and> fr_id r = i))
    \<and> (\<exists>new. follower_orders d' = follower_orders d @ new)"
  using batch_ok[OF assms] by simp

section \<open>Reading back an inserted order\<close>

lemma find_append_fresh:
  "(\<And>x. x \<in> set xs \<Longrightarrow> \<not> P x) \<Longrightarrow> P y \<Longrightarrow> find P (xs @ [y]) = Some y"
  by (induction xs) auto

lemma InsertFollowerOrder_ok:
  assumes "InsertFollowerOrder o1 d = (Inr i, d')"
  shows "i = fo_next d"
    and "follower_orders d' = follower_orders d
       @ [order_row (if fo_MasterFillID o1 \<noteq> 0 then Some (fo_MasterFillID o1) else None) o1 d]"
  using assms
  by (auto simp: InsertFollowerOrder_def db_call_def Let_def add_order_def order_row_def
      split: list.splits option.splits if_splits)

text \<open>
  An inserted order reads back as it was written: the row found under the returned id has the
  caller's fields, with the id, the time stamps and the default origin filled in and the
  progress fields empty.
\<close>
theorem InsertFollowerOrder_roundtrip:
  assumes "wf_db d" and "InsertFollowerOrder o1 d = (Inr i, d')" and "faults d' = []"
    and "in32 (fo_IntendedQty o1)" "in32 (fo_LotSize o1)" and "fo_Origin o1 \<noteq> []"
  shows "GetFollowerOrder i d' = (Inr (o1\<lparr> fo_ID := i, fo_PlacedQty := None, fo_BrokerOrderID := [],
     fo_TerminalStatus := [], fo_FilledQty := 0, fo_AveragePrice := 0, fo_AttemptCount := 0,
     fo_LastError := [], fo_CreatedAt := db_now d, fo_UpdatedAt := db_now d \<rparr>), d')"
proof -
  note ok = InsertFollowerOrder_ok[OF assms(2)]
  have "fr_id r \<noteq> fo_next d" if "r \<in> set (follower_orders d)" for r
    using assms(1) that by (fastforce simp: wf_db_def wf_orders_def)
  then have "find (\<lambda>r. fr_id r = i) (follower_orders d') = Some (order_row
      (if fo_MasterFillID o1 \<noteq> 0 then Some (fo_MasterFillID o1) else None) o1 d)"
    unfolding ok by (intro find_append_fresh) (auto simp: ok(1))
  then show ?thesis
    using assms(3-) ok(1)
    by (cases o1) (simp add: GetFollowerOrder_def db_call_def toFollowerOrder_def order_row_def wrap32_id)
qed

section \<open>A status update that overtakes the placement\<close>

definition progress :: "int \<Rightarrow> db \<Rightarrow> (string option \<times> string option \<times> int \<times> decimal option) list" where
  "progress i d = map (\<lambda>r. (fr_broker_order_id r, fr_terminal_status r, fr_filled_qty r, fr_average_price r))
     (filter (\<lambda>r. fr_id r = i) (follower_orders d))"

definition unplaced :: "int \<Rightarrow> string \<Rightarrow> db \<Rightarrow> bool" where
  "unplaced i b d \<longleftrightarrow> i \<in> set (map fr_id (follower_orders d))
     \<and> Some b \<notin> set (map fr_broker_order_id (follower_orders d))
     \<and> b \<notin> set (map pu_broker_order_id (pending_order_updates d)) \<and> faults d = []"

lemma filter_update_where:
  "(\<And>r. P r \<Longrightarrow> Q (f r) = Q r) \<Longrightarrow> filter Q (update_where P f rows) = update_where P f (filter Q rows)"
  by (induction rows) (auto simp: update_where_def)

lemma unplacedE:
  assumes "unplaced i b d"
  obtains old where "find (\<lambda>r. fr_id r = i) (follower_orders d) = Some old"
    "\<not> broker_id_taken d i (fr_follower_id old) (Some b)" "faults d = []"
    "find (\<lambda>r. fr_broker_order_id r = Some b) (follower_orders d) = None"
    "find (\<lambda>p. pu_broker_order_id p = b) (pending_order_updates d) = None"
proof -
  have "find (\<lambda>r. fr_id r = i) (follower_orders d) \<noteq> None"
    using assms by (auto simp: unplaced_def find_None_iff)
  moreover have "find (\<lambda>r. fr_broker_order_id r = Some b) (follower_orders d) = None"
    and "find (\<lambda>p. pu_broker_order_id p = b) (pending_order_updates d) = None"
    and "\<not> broker_id_taken d i f (Some b)" for f
    using assms by (auto simp: unplaced_def find_None_iff broker_id_taken_def image_iff)
  ultimately show thesis using that assms by (auto simp: unplaced_def)
qed

text \<open>Placing with no stashed update, and what a status update then does to the placed row.\<close>

lemma Placed_plain:
  assumes "unplaced i b d"
  shows "UpdateFollowerOrderPlaced i b q d = (Inr (), d\<lparr> follower_orders := update_where (\<lambda>r. fr_id r = i)
     (\<lambda>r. r\<lparr> fr_broker_order_id := Some b, fr_placed_qty := Some (wrap32 q),
              fr_attempt_count := fr_attempt_count r + 1, fr_updated_at := db_now d \<rparr>) (follower_orders d) \<rparr>)"
  using assms by (elim unplacedE) (simp add: UpdateFollowerOrderPlaced_def db_call_def Let_def)

lemma Stash_plain:
  assumes "unplaced i b d" "is_json raw" "in32 fq"
  shows "StashPendingOrderUpdate b st fq p raw d = (Inr (), d\<lparr> pending_order_updates :=
     pending_order_updates d @ [\<lparr> pu_broker_order_id = b, pu_status = st, pu_filled_quantity = fq,
       pu_average_price = numeric4 p, pu_raw_payload = raw, pu_received_at = db_now d \<rparr>] \<rparr>)"
  using assms by (auto simp: StashPendingOrderUpdate_def unplaced_def db_call_def Let_def)

text \<open>
  C7 A status update may arrive before the placement is recorded: stashing it and recording the
  placement leaves the order with the same broker order id, status, filled quantity and average
  price as recording the placement first and applying the update afterwards.
\<close>
theorem status_update_race:
  assumes "unplaced i b d" and "is_json raw" and "in32 fq"
  shows "let (_, a1) = UpdateFollowerOrderPlaced i b q d; (_, a2) = UpdateFollowerOrderStatus b st fq p a1;
             (e, b1) = UpdateFollowerOrderStatus b st fq p d; (_, b2) = StashPendingOrderUpdate b st fq p raw b1;
             (_, b3) = UpdateFollowerOrderPlaced i b q b2
         in e = Inl ErrNotFound \<and> progress i a2 = progress i b3 \<and> progress i d \<noteq> []
            \<and> progress i b3 = replicate (length (progress i d)) (Some b, Some st, fq, Some (numeric4 p))"
proof -
  obtain old where old: "find (\<lambda>r. fr_id r = i) (follower_orders d) = Some old"
    "\<not> broker_id_taken d i (fr_follower_id old) (Some b)" "faults d = []"
    "find (\<lambda>r. fr_broker_order_id r = Some b) (follower_orders d) = None"
    "find (\<lambda>p. pu_broker_order_id p = b) (pending_order_updates d) = None"
    using assms(1) by (rule unplacedE)
  note mem = find_Some_mem[OF old(1)]
  let ?rows = "filter (\<lambda>r. fr_id r = i) (follower_orders d)"
  let ?fin = "map (\<lambda>_. (Some b, Some st, fq, Some (numeric4 p))) ?rows"
  let ?f = "\<lambda>r. r\<lparr> fr_broker_order_id := Some b, fr_placed_qty := Some (wrap32 q),
     fr_attempt_count := fr_attempt_count r + 1, fr_updated_at := db_now d \<rparr>"
  let ?a1 = "d\<lparr> follower_orders := update_where (\<lambda>r. fr_id r = i) ?f (follower_orders d) \<rparr>"
  have "find (\<lambda>r. fr_broker_order_id r = Some b) (follower_orders ?a1) \<noteq> None"
    using mem by (auto simp: find_None_iff_ex set_update_where intro!: rev_bexI[of "?f old"])
  then obtain r0 where r0: "find (\<lambda>r. fr_broker_order_id r = Some b) (follower_orders ?a1) = Some r0" by blast
  have A: "progress i (snd (UpdateFollowerOrderStatus b st fq p ?a1)) = ?fin"
    using old(3) assms(3) r0 unfolding UpdateFollowerOrderStatus_def progress_def db_call_def
    by (simp add: filter_update_where) (simp add: update_where_def wrap32_id)
  have st: "UpdateFollowerOrderStatus b st fq p d = (Inl ErrNotFound, d)"
    using old by (simp add: UpdateFollowerOrderStatus_def db_call_def)
  let ?b2 = "snd (StashPendingOrderUpdate b st fq p raw d)"
  have stash: "find (\<lambda>p. pu_broker_order_id p = b) (pending_order_updates ?b2) = Some
      \<lparr> pu_broker_order_id = b, pu_status = st, pu_filled_quantity = fq,
        pu_average_price = numeric4 p, pu_raw_payload = raw, pu_received_at = db_now d \<rparr>"
    unfolding Stash_plain[OF assms] using old(5)
    by (simp add: find_None_iff_ex) (rule find_append_fresh; simp)
  have same: "follower_orders ?b2 = follower_orders d" "faults ?b2 = []" "db_now ?b2 = db_now d"
    unfolding Stash_plain[OF assms] using old(3) by simp_all
  have free: "\<not> broker_id_taken ?b2 i (fr_follower_id old) (Some b)"
    using old(2) same(1) by (simp add: broker_id_taken_def)
  have B: "progress i (snd (UpdateFollowerOrderPlaced i b q ?b2)) = ?fin"
    using old(1) free same stash
    unfolding UpdateFollowerOrderPlaced_def progress_def db_call_def
    by (simp add: Let_def add_event_def filter_update_where split: option.split)
       (simp add: update_where_def)
  have "?rows \<noteq> []" "length ?rows = length (progress i d)" "progress i d = [] \<longleftrightarrow> ?rows = []"
    using mem by (auto simp: filter_empty_conv progress_def)
  moreover from this have "?fin = replicate (length (progress i d)) (Some b, Some st, fq, Some (numeric4 p))"
    by (simp add: map_replicate_const)
  ultimately show ?thesis
    using A B unfolding Placed_plain[OF assms(1)] st by (simp add: Let_def case_prod_beta)
qed

section \<open>Witnesses\<close>

definition ex_account :: "uuid \<Rightarrow> string \<Rightarrow> account_row" where
  "ex_account a role = \<lparr> ar_id = a, ar_user_id = None, ar_role = role, ar_broker = ''kite'',
     ar_broker_user_id = a, ar_name = a, ar_api_key = ''k'', ar_api_secret = ''s'', ar_ip_address = [],
     ar_status = ''active'', ar_active = True, ar_token_expires_at = None, ar_auth_status = ''ok'',
     ar_auth_error = [], ar_deleted_at = None, ar_encrypted_password = [], ar_encrypted_totp_secret = [],
     ar_access_token = [] \<rparr>"

definition ex_fill :: MasterFill where
  "ex_fill = \<lparr> mf_ID = 0, mf_MasterID = ''m'', mf_BrokerOrderID = ''b1'', mf_Exchange = ''NSE'',
     mf_Tradingsymbol = ''INFY'', mf_InstrumentToken = 0, mf_TransactionType = ''BUY'', mf_Product = ''MIS'',
     mf_OrderType = ''MARKET'', mf_FilledQuantity = 10, mf_Price = 0, mf_TriggerPrice = 0,
     mf_AveragePrice = 100, mf_Status = ''COMPLETE'', mf_OrderTimestamp = 5,
     mf_RawPayload = RawJson (JObj []), mf_Tag = [], mf_ReceivedAt = 0, mf_DispatchState = [],
     mf_DispatchedAt = None \<rparr>"

definition ex_order :: "uuid \<Rightarrow> string \<Rightarrow> FollowerOrder" where
  "ex_order f t = FollowerOrder_zero\<lparr> fo_MasterFillID := 1, fo_FollowerID := f, fo_IdempotencyTag := t,
     fo_IntendedQty := 10, fo_LotSize := 1, fo_Origin := ''copy_trade'' \<rparr>"

definition ex_db :: db where
  "ex_db = empty_db [ex_account ''m'' ''master'', ex_account ''f'' ''follower'', ex_account ''g'' ''follower''] []"

definition ex_db1 :: db where "ex_db1 = snd (InsertMasterFill ex_fill ex_db)"

definition ex_db2 :: db where "ex_db2 = snd (InsertFollowerOrdersBatch [ex_order ''f'' ''t1'', ex_order ''g'' ''t2''] ex_db1)"

lemmas ex_defs = ex_db_def ex_account_def ex_fill_def ex_order_def empty_db_def FollowerOrder_zero_def

lemma ex_db_simps [simp]:
  "master_fills ex_db = []" "follower_orders ex_db = []" "pending_order_updates ex_db = []"
  "mf_next ex_db = 1" "fo_next ex_db = 1" "faults ex_db = []" "db_now ex_db = 1"
  "account_exists ex_db ''m''" "account_exists ex_db ''f''" "account_exists ex_db ''g''"
  by (simp_all add: ex_defs account_exists_def)

lemma ex_db1_eq: "InsertMasterFill ex_fill ex_db = (Inr 1, ex_db1)"
  "ex_db1 = ex_db\<lparr> master_fills := [fill_row ex_fill ex_db], mf_next := 2 \<rparr>"
  by (simp_all add: ex_db1_def InsertMasterFill_def db_call_def Let_def ex_fill_def)

lemma ex_db1_run: "store_run (empty_db (accounts ex_db) []) ex_db1"
proof -
  have "empty_db (accounts ex_db) [] = ex_db" by (simp add: ex_db_def empty_db_def)
  then show ?thesis unfolding ex_db1_def by (auto intro: store_step.intros)
qed

lemma ex_db2_eq: "InsertFollowerOrdersBatch [ex_order ''f'' ''t1'', ex_order ''g'' ''t2''] ex_db1
    = (Inr [''t1'' \<mapsto> 1, ''t2'' \<mapsto> 2], ex_db2)"
  "follower_orders ex_db2 = [order_row (Some 1) (ex_order ''f'' ''t1'') ex_db1,
     (order_row (Some 1) (ex_order ''g'' ''t2'') ex_db1)\<lparr> fr_id := 2 \<rparr>]"
  "pending_order_updates ex_db2 = []" "faults ex_db2 = []"
  by (simp_all add: ex_db2_def ex_db1_eq InsertFollowerOrdersBatch_def db_call_def Let_def ex_order_def
      order_refs_ok_def account_exists_def tag_taken_def pair_taken_def add_order_def order_row_def fo_pair_def
      fill_row_def FollowerOrder_zero_def ex_db_def ex_account_def empty_db_def ex_fill_def fun_eq_iff)

theorem store_unique_orders_witness:
  "store_run (empty_db (accounts ex_db) []) ex_db2
   \<and> hd (follower_orders ex_db2) = last (take 1 (follower_orders ex_db2))"
proof -
  have run: "store_run (empty_db (accounts ex_db) []) ex_db2"
    unfolding ex_db2_def using ex_db1_run step_batch by (rule rtranclp.rtrancl_into_rtrancl)
  have "hd (follower_orders ex_db2) = last (take 1 (follower_orders ex_db2))"
    by (rule store_unique_orders[OF run]) (simp_all add: ex_db2_eq)
  with run show ?thesis by simp
qed

theorem InsertMasterFill_idempotent_witness:
  "InsertMasterFill (ex_fill\<lparr> mf_Price := 7 \<rparr>) ex_db2 = (Inl ErrDuplicate, ex_db2)"
proof (rule InsertMasterFill_idempotent[OF ex_db1_eq(1)])
  show "store_run ex_db1 ex_db2" unfolding ex_db2_def by (auto intro: store_step.intros)
qed (simp_all add: ex_db2_eq ex_fill_def)

theorem InsertFollowerOrdersBatch_new_tags_witness:
  "dom [''t1'' \<mapsto> 1::int, ''t2'' \<mapsto> 2]
     = batch_tags [ex_order ''f'' ''t1'', ex_order ''g'' ''t2''] - tags_of ex_db1"
  using InsertFollowerOrdersBatch_new_tags[OF ex_db2_eq(1)] by blast

theorem InsertFollowerOrder_roundtrip_witness:
  "fst (GetFollowerOrder 1 (snd (InsertFollowerOrder (ex_order ''f'' ''t1'') ex_db1)))
   = Inr ((ex_order ''f'' ''t1'')\<lparr> fo_ID := 1, fo_CreatedAt := 1, fo_UpdatedAt := 1 \<rparr>)"
proof -
  have wf: "wf_db ex_db1" by (rule wf_store_run[OF ex_db1_run wf_empty_db])
  have ins: "InsertFollowerOrder (ex_order ''f'' ''t1'') ex_db1
      = (Inr 1, snd (InsertFollowerOrder (ex_order ''f'' ''t1'') ex_db1))"
    and fl: "faults (snd (InsertFollowerOrder (ex_order ''f'' ''t1'') ex_db1)) = []"
    by (simp_all add: InsertFollowerOrder_def db_call_def ex_db1_eq Let_def tag_taken_def pair_taken_def
        order_refs_ok_def account_exists_def fill_row_def ex_defs add_order_def order_row_def fo_pair_def)
  show ?thesis
    using InsertFollowerOrder_roundtrip[OF wf ins fl]
    by (simp add: in32_def ex_db1_eq) (simp add: ex_order_def FollowerOrder_zero_def)
qed

theorem status_update_race_witness:
  "progress 1 (snd (UpdateFollowerOrderPlaced 1 ''o1'' 10
     (snd (StashPendingOrderUpdate ''o1'' ''COMPLETE'' 10 100 (RawJson JNull)
       (snd (UpdateFollowerOrderStatus ''o1'' ''COMPLETE'' 10 100 ex_db2))))))
   = [(Some ''o1'', Some ''COMPLETE'', 10, Some (numeric4 100))]"
proof -
  have "unplaced 1 ''o1'' ex_db2" by (simp add: unplaced_def ex_db2_eq ex_db1_eq(2) order_row_def)
  note race = status_update_race[OF this, of "RawJson JNull" 10 10 "''COMPLETE''" 100]
  have "length (progress 1 ex_db2) = 1" by (simp add: progress_def ex_db2_eq ex_db1_eq(2) order_row_def)
  with race show ?thesis by (simp add: Let_def in32_def case_prod_beta)
qed

end
