(* ===== verification/Status.thy ===== *)
theory Status
  imports Orders
begin

text \<open>
  Account statuses and the sanitising of authentication errors
  (\<open>internal/domain/status.go\<close>), and the context user (\<open>internal/domain/auth.go\<close>).
\<close>

section \<open>Definitions\<close>

type_synonym AccountStatus = string

abbreviation AccountStatusActive :: AccountStatus where "AccountStatusActive \<equiv> ''active''"
abbreviation AccountStatusError :: AccountStatus where "AccountStatusError \<equiv> ''error''"
abbreviation AccountStatusPending :: AccountStatus where "AccountStatusPending \<equiv> ''pending''"

definition ParseAccountStatus :: "string \<Rightarrow> AccountStatus result" where
  "ParseAccountStatus s = (let t = ToLower (TrimSpace s) in
     if t = ''active'' \<or> t = ''ok'' then Inr AccountStatusActive
     else if t = ''pending'' then Inr AccountStatusPending
     else if t = ''error'' then Inr AccountStatusError
     else Inl ErrInvalidAccountStatus)"

definition IsValid :: "AccountStatus \<Rightarrow> bool" where
  "IsValid s \<longleftrightarrow> s = AccountStatusActive \<or> s = AccountStatusError \<or> s = AccountStatusPending"

definition ToAPI :: "AccountStatus \<Rightarrow> string" where
  "ToAPI s = (if s = AccountStatusActive then ''ok''
     else if s = AccountStatusPending then ''pending'' else ''error'')"

definition RequiresDailySession :: "string \<Rightarrow> bool" where
  "RequiresDailySession broker \<longleftrightarrow> (let b = ToLower (TrimSpace broker) in b = ''zerodha'' \<or> b = ''kite'')"

definition contains_any :: "string \<Rightarrow> string list \<Rightarrow> bool" where
  "contains_any s ps \<longleftrightarrow> list_ex (Contains s) ps"

definition backend_traces :: "string list" where
  "backend_traces = [''http://'', ''https://'', ''post '', ''get '', ''/api/'', ''connect/login'',
     ''session/token'', ''sess_id'', ''dial tcp'', ''get dhan'', ''dhan api error'', ''kite web login'',
     ''dhan sync failed'', ''connect login'', ''kite login error'', ''kite 2fa error'']"

definition SanitizeAuthError :: "string \<Rightarrow> string" where
  "SanitizeAuthError raw0 =
     (let raw = TrimSpace raw0; lower = ToLower raw in
      if raw = [] then []
      else if \<not> contains_any lower backend_traces then raw
      else if contains_any lower [''401'', ''unauthorized'', ''token expired'', ''invalid token'', ''token revoked'']
        then ''Broker session expired or token invalid''
      else if contains_any lower [''totp'', ''2fa'', ''twofa'', ''external totp'']
        then ''Invalid 2FA TOTP code or external TOTP not enabled''
      else if contains_any lower [''password'', ''credentials'', ''user id'', ''user_id'', ''login error'']
        then ''Invalid broker credentials or password''
      else if contains_any lower [''500'', ''502'', ''503'', ''504'', ''gateway'', ''timeout'', ''dial'',
             ''connection refused'', ''econnrefused'', ''dh-1111'', ''server error'', ''service unavailable'']
        then ''Broker server temporarily unavailable''
      else if contains_any lower [''429'', ''rate limit'', ''too many requests'']
        then ''Broker rate limit exceeded''
      else if contains_any lower [''missing'', ''required''] then ''Missing broker API key or credentials''
      else ''Authentication failed with broker'')"

section \<open>Properties\<close>

definition sanitized_messages :: "string list" where
  "sanitized_messages = [''Broker session expired or token invalid'',
     ''Invalid 2FA TOTP code or external TOTP not enabled'', ''Invalid broker credentials or password'',
     ''Broker server temporarily unavailable'', ''Broker rate limit exceeded'',
     ''Missing broker API key or credentials'', ''Authentication failed with broker'']"

lemma sanitized_messages_clean:
  "list_all (\<lambda>m. \<not> contains_any (ToLower m) backend_traces \<and> TrimSpace m = m) sanitized_messages"
  by code_simp

lemma SanitizeAuthError_cases:
  "SanitizeAuthError s = [] \<or> SanitizeAuthError s \<in> set sanitized_messages
   \<or> SanitizeAuthError s = TrimSpace s \<and> \<not> contains_any (ToLower (TrimSpace s)) backend_traces"
  by (simp add: SanitizeAuthError_def sanitized_messages_def Let_def)

lemma contains_any_Nil: "\<not> contains_any [] backend_traces"
  by code_simp

lemma sanitize_clean:
  "\<not> contains_any (ToLower (SanitizeAuthError s)) backend_traces" "TrimSpace (SanitizeAuthError s) = SanitizeAuthError s"
  using SanitizeAuthError_cases[of s] sanitized_messages_clean contains_any_Nil
  by (auto simp: list_all_iff)

text \<open>
  No backend trace reaches the user: for every raw error text, the sanitised message
  contains no URL, HTTP method, API path, session id or other trace the code looks for, in any
  capitalisation, and sanitising again changes nothing.
\<close>
theorem SanitizeAuthError_clean:
  "\<not> contains_any (ToLower (SanitizeAuthError s)) backend_traces
   \<and> SanitizeAuthError (SanitizeAuthError s) = SanitizeAuthError s"
proof -
  let ?m = "SanitizeAuthError s"
  have "SanitizeAuthError ?m = ?m"
    using sanitize_clean[of s] unfolding SanitizeAuthError_def[of ?m] by (simp add: Let_def)
  with sanitize_clean[of s] show ?thesis by simp
qed

text \<open>
  Parsing accepts exactly the API's and the store's spellings of a status: a parsed status is
  valid, its API spelling parses back to it, and every valid status parses to itself.
\<close>
theorem ParseAccountStatus_roundtrip:
  "(case ParseAccountStatus s of
      Inr st \<Rightarrow> IsValid st \<and> ParseAccountStatus (ToAPI st) = Inr st \<and> ParseAccountStatus st = Inr st
    | Inl e \<Rightarrow> e = ErrInvalidAccountStatus \<and> \<not> IsValid (ToLower (TrimSpace s)))"
proof -
  have "ParseAccountStatus ''ok'' = Inr ''active''" "ParseAccountStatus ''active'' = Inr ''active''"
    "ParseAccountStatus ''pending'' = Inr ''pending''" "ParseAccountStatus ''error'' = Inr ''error''"
    by code_simp+
  then show ?thesis
    by (auto simp: ParseAccountStatus_def[of s] Let_def IsValid_def ToAPI_def)
qed

end
