(* ===== verification/Accounts_Store.thy ===== *)
theory Accounts_Store
  imports Store_Thms Status
begin

text \<open>
  Accounts, groups and follow links in the store (\<open>internal/store/postgres/store.go\<close> and
  \<open>groups.go\<close>, queries \<open>accounts.sql\<close>, \<open>groups.sql\<close>, \<open>follow_links.sql\<close>). Methods that
  make several database calls chain them with \<open>db_then\<close>, so that each call can fail on its own
  and leave the earlier ones done. The user of the request context is an argument.
\<close>

section \<open>Helpers\<close>

definition db_then :: "'a result \<times> db \<Rightarrow> ('a \<Rightarrow> db \<Rightarrow> 'b result \<times> db) \<Rightarrow> 'b result \<times> db" where
  "db_then r k = (case r of (Inl e, d) \<Rightarrow> (Inl e, d) | (Inr x, d) \<Rightarrow> k x d)"

definition live :: "account_row \<Rightarrow> bool" where
  "live a \<longleftrightarrow> ar_deleted_at a = None"

definition find_account :: "uuid \<Rightarrow> db \<Rightarrow> account_row option" where
  "find_account i d = find (\<lambda>a. ar_id a = i) (accounts d)"

definition upd_account :: "uuid \<Rightarrow> (account_row \<Rightarrow> account_row) \<Rightarrow> db \<Rightarrow> db" where
  "upd_account i f d = d\<lparr> accounts := update_where (\<lambda>a. ar_id a = i) f (accounts d) \<rparr>"

text \<open>An \<open>UPDATE\<close> of one account whose zero affected rows is reported as not found.\<close>

definition set_account :: "uuid \<Rightarrow> (account_row \<Rightarrow> account_row) \<Rightarrow> db \<Rightarrow> unit result \<times> db" where
  "set_account i f = db_call (\<lambda>d. if find_account i d = None then (Inl ErrNotFound, d)
     else (Inr (), upd_account i f d))"

definition ip_taken :: "db \<Rightarrow> uuid \<Rightarrow> string \<Rightarrow> bool" where
  "ip_taken d i ip \<longleftrightarrow> ip \<noteq> [] \<and> (\<exists>a \<in> set (accounts d). ar_id a \<noteq> i \<and> ar_ip_address a = ip)"

definition valid_role :: "string \<Rightarrow> bool" where
  "valid_role r \<longleftrightarrow> r = ''master'' \<or> r = ''follower''"

definition pg_enum :: go_error where
  "pg_enum = PgError ''22P02'' ''invalid input value for enum account_role''"

section \<open>Accounts\<close>

text \<open>API keys and encrypted credentials, opaque to the store.\<close>

type_synonym secret = string

definition new_account ::
  "uuid option \<Rightarrow> uuid \<Rightarrow> string \<Rightarrow> string \<Rightarrow> string \<Rightarrow> string \<Rightarrow> secret \<Rightarrow> secret \<Rightarrow> string
     \<Rightarrow> secret \<Rightarrow> secret \<Rightarrow> account_row" where
  "new_account u i name role broker brokerUserID apiKey apiSecret ip encPassword encTotpSecret =
     \<lparr> ar_id = i, ar_user_id = u, ar_role = role, ar_broker = broker, ar_broker_user_id = brokerUserID,
       ar_name = name, ar_api_key = apiKey, ar_api_secret = apiSecret, ar_ip_address = ip,
       ar_status = ''active'', ar_active = True, ar_token_expires_at = None,
       ar_auth_status = ''unauthenticated'', ar_auth_error = [], ar_deleted_at = None,
       ar_encrypted_password = encPassword, ar_encrypted_totp_secret = encTotpSecret, ar_access_token = [] \<rparr>"

definition reactivated ::
  "string \<Rightarrow> string \<Rightarrow> secret \<Rightarrow> secret \<Rightarrow> string \<Rightarrow> secret \<Rightarrow> secret \<Rightarrow> account_row \<Rightarrow> account_row" where
  "reactivated name role apiKey apiSecret ip encPassword encTotpSecret a =
     a\<lparr> ar_deleted_at := None, ar_name := name, ar_role := role, ar_api_key := apiKey,
        ar_api_secret := apiSecret, ar_ip_address := ip, ar_encrypted_password := encPassword,
        ar_encrypted_totp_secret := encTotpSecret, ar_active := True, ar_status := ''active'',
        ar_auth_status := ''unauthenticated'', ar_auth_error := [] \<rparr>"

definition CreateAccountWithCredentials ::
  "uuid option \<Rightarrow> uuid \<Rightarrow> string \<Rightarrow> string \<Rightarrow> string \<Rightarrow> string \<Rightarrow> secret \<Rightarrow> secret \<Rightarrow> string
     \<Rightarrow> secret \<Rightarrow> secret \<Rightarrow> db \<Rightarrow> uuid result \<times> db" where
  "CreateAccountWithCredentials u i name role broker brokerUserID apiKey apiSecret ip encPassword encTotpSecret d0 =
     (case db_call (\<lambda>d. (Inr (find (\<lambda>a. ar_broker a = broker \<and> ar_broker_user_id a = brokerUserID) (accounts d)), d)) d0 of
        (Inl err, d1) \<Rightarrow> (Inl (errorf ''check existing account'' err), d1)
      | (Inr (Some existing), d1) \<Rightarrow>
          if live existing then (Inl ErrDuplicate, d1)
          else if u \<noteq> None \<and> ar_user_id existing \<noteq> None \<and> ar_user_id existing \<noteq> u then (Inl ErrDuplicate, d1)
          else db_call (\<lambda>d.
            if \<not> valid_role role then (Inl pg_enum, d)
            else if \<not> list_ex (\<lambda>a. ar_id a = ar_id existing \<and> \<not> live a) (accounts d) then (Inl err_no_rows, d)
            else if ip_taken d (ar_id existing) ip then (Inl ErrIPAlreadyAssigned, d)
            else (Inr (ar_id existing), upd_account (ar_id existing)
                   (reactivated name role apiKey apiSecret ip encPassword encTotpSecret) d)) d1
      | (Inr None, d1) \<Rightarrow>
          db_call (\<lambda>d.
            if \<not> valid_role role then (Inl pg_enum, d)
            else if account_exists d i then (Inl ErrDuplicate, d)
            else if list_ex (\<lambda>a. ar_broker a = broker \<and> ar_broker_user_id a = brokerUserID) (accounts d)
              then (Inl ErrDuplicate, d)
            else if ip_taken d i ip then (Inl ErrIPAlreadyAssigned, d)
            else (Inr i, d\<lparr> accounts := accounts d
              @ [new_account u i name role broker brokerUserID apiKey apiSecret ip encPassword encTotpSecret] \<rparr>)) d1)"

definition CreateAccount ::
  "uuid option \<Rightarrow> uuid \<Rightarrow> string \<Rightarrow> string \<Rightarrow> string \<Rightarrow> string \<Rightarrow> secret \<Rightarrow> secret \<Rightarrow> string \<Rightarrow> db \<Rightarrow> unit result \<times> db" where
  "CreateAccount u i name role broker brokerUserID apiKey apiSecret ip d =
     db_then (CreateAccountWithCredentials u i name role broker brokerUserID apiKey apiSecret ip [] [] d)
       (\<lambda>_ d. (Inr (), d))"

definition SetAccountEncryptedCredentials :: "uuid \<Rightarrow> string \<Rightarrow> string \<Rightarrow> db \<Rightarrow> unit result \<times> db" where
  "SetAccountEncryptedCredentials i encPassword encTotpSecret = set_account i (\<lambda>a.
     a\<lparr> ar_encrypted_password := (if encPassword \<noteq> [] then encPassword else ar_encrypted_password a),
        ar_encrypted_totp_secret := (if encTotpSecret \<noteq> [] then encTotpSecret else ar_encrypted_totp_secret a) \<rparr>)"

definition SetAccountAccessToken ::
  "uuid \<Rightarrow> string \<Rightarrow> gotime option \<Rightarrow> string \<Rightarrow> string \<Rightarrow> db \<Rightarrow> unit result \<times> db" where
  "SetAccountAccessToken i token expiresAt authStatus authError = set_account i (\<lambda>a.
     a\<lparr> ar_access_token := token, ar_token_expires_at := expiresAt, ar_auth_status := authStatus,
        ar_auth_error := authError \<rparr>)"

definition AccountAuthInfo :: "uuid \<Rightarrow> db \<Rightarrow> account_row result \<times> db" where
  "AccountAuthInfo i = db_call (\<lambda>d. case find (\<lambda>a. ar_id a = i \<and> live a) (accounts d) of
      None \<Rightarrow> (Inl ErrNotFound, d) | Some a \<Rightarrow> (Inr a, d))"

definition AccountByBrokerUserID :: "string \<Rightarrow> db \<Rightarrow> (uuid \<times> string \<times> string) result \<times> db" where
  "AccountByBrokerUserID b = db_call (\<lambda>d. case find (\<lambda>a. ar_broker_user_id a = b \<and> live a) (accounts d) of
      None \<Rightarrow> (Inl ErrNotFound, d) | Some a \<Rightarrow> (Inr (ar_id a, ar_role a, ar_api_secret a), d))"

definition AccountByBrokerAndUserID :: "string \<Rightarrow> string \<Rightarrow> db \<Rightarrow> (uuid \<times> string \<times> string) result \<times> db" where
  "AccountByBrokerAndUserID broker b d0 =
     (case db_call (\<lambda>d. case find (\<lambda>a. ToLower (ar_broker a) = ToLower broker \<and> ar_broker_user_id a = b \<and> live a)
             (accounts d) of
         None \<Rightarrow> (Inl err_no_rows, d) | Some a \<Rightarrow> (Inr (ar_id a, ar_role a, ar_api_secret a), d)) d0 of
        (Inl e, d) \<Rightarrow> (Inl (if e = err_no_rows then ErrNotFound
                           else errorf ''lookup account by broker and user id'' e), d)
      | (Inr r, d) \<Rightarrow> (Inr r, d))"

definition AccountRole :: "uuid \<Rightarrow> db \<Rightarrow> string result \<times> db" where
  "AccountRole i = db_call (\<lambda>d. case find (\<lambda>a. ar_id a = i \<and> live a) (accounts d) of
      None \<Rightarrow> (Inl ErrNotFound, d) | Some a \<Rightarrow> (Inr (ar_role a), d))"

definition SetAccountName :: "uuid \<Rightarrow> string \<Rightarrow> db \<Rightarrow> unit result \<times> db" where
  "SetAccountName i name = set_account i (\<lambda>a. a\<lparr> ar_name := name \<rparr>)"

definition SetAccountAPIKey :: "uuid \<Rightarrow> string \<Rightarrow> db \<Rightarrow> unit result \<times> db" where
  "SetAccountAPIKey i apiKey = set_account i (\<lambda>a. a\<lparr> ar_api_key := apiKey \<rparr>)"

definition SetAccountAPISecret :: "uuid \<Rightarrow> string \<Rightarrow> db \<Rightarrow> unit result \<times> db" where
  "SetAccountAPISecret i apiSecret = set_account i (\<lambda>a. a\<lparr> ar_api_secret := apiSecret \<rparr>)"

definition SetAccountIPAddress :: "uuid \<Rightarrow> string \<Rightarrow> db \<Rightarrow> unit result \<times> db" where
  "SetAccountIPAddress i ip = db_call (\<lambda>d.
     if find_account i d = None then (Inl ErrNotFound, d)
     else if ip_taken d i ip then (Inl ErrIPAlreadyAssigned, d)
     else (Inr (), upd_account i (\<lambda>a. a\<lparr> ar_ip_address := ip \<rparr>) d))"

text \<open>The column's \<open>CHECK\<close> constraint admits fewer statuses than \<open>IsValid\<close>.\<close>

definition status_check :: "string \<Rightarrow> bool" where
  "status_check s \<longleftrightarrow> s = ''active'' \<or> s = ''error''"

definition SetAccountStatus :: "uuid \<Rightarrow> AccountStatus \<Rightarrow> db \<Rightarrow> unit result \<times> db" where
  "SetAccountStatus i status d0 =
     (if \<not> IsValid status then (Inl ErrInvalidAccountStatus, d0)
      else db_call (\<lambda>d. if find_account i d = None then (Inl ErrNotFound, d)
        else if \<not> status_check status then (Inl pg_check, d)
        else (Inr (), upd_account i (\<lambda>a. a\<lparr> ar_status := status \<rparr>) d)) d0)"

definition SetAccountActive :: "uuid \<Rightarrow> bool \<Rightarrow> db \<Rightarrow> unit result \<times> db" where
  "SetAccountActive i active = db_call (\<lambda>d.
     if find_account i d = None then (Inl ErrNotFound, d)
     else let d1 = upd_account i (\<lambda>a. a\<lparr> ar_active := active \<rparr>) d
          in (Inr (), if active then d1
               else d1\<lparr> follow_links := update_where (\<lambda>l. lk_follower_id l = i) (\<lambda>l. l\<lparr> lk_enabled := False \<rparr>)
                          (follow_links d1) \<rparr>))"

definition MasterActive :: "uuid \<Rightarrow> db \<Rightarrow> bool result \<times> db" where
  "MasterActive m = db_call (\<lambda>d.
     case find (\<lambda>a. ar_id a = m \<and> ar_role a = ''master'' \<and> live a) (accounts d) of
       None \<Rightarrow> (Inl ErrNotFound, d) | Some a \<Rightarrow> (Inr (ar_active a), d))"

definition DeleteAccount :: "uuid \<Rightarrow> db \<Rightarrow> unit result \<times> db" where
  "DeleteAccount i = db_call (\<lambda>d.
     case find (\<lambda>a. ar_id a = i \<and> live a) (accounts d) of
       None \<Rightarrow> (Inl ErrNotFound, d)
     | Some acc \<Rightarrow>
         let mine = map gp_id (filter (\<lambda>g. gp_master_id g = i) (groups d));
             clear = (\<lambda>d. upd_account i (\<lambda>a. if live a then a\<lparr> ar_deleted_at := Some (db_now d), ar_ip_address := [],
                                        ar_active := False \<rparr> else a)
                       (d\<lparr> account_positions := filter (\<lambda>p. ap_account_id p \<noteq> i) (account_positions d) \<rparr>))
         in if ar_role acc = ''master'' then
              if list_ex (\<lambda>l. lk_group_id l \<in> set mine) (follow_links d) then (Inl ErrConflict, d)
              else (Inr (), clear (d\<lparr> groups := filter (\<lambda>g. gp_master_id g \<noteq> i) (groups d) \<rparr>))
            else if list_ex (\<lambda>l. lk_follower_id l = i) (follow_links d) then (Inl ErrConflict, d)
            else (Inr (), clear d))"

section \<open>Follow links\<close>

definition nullableMaxQty :: "int \<Rightarrow> int option" where
  "nullableMaxQty v = (if v \<le> 0 then None else Some (wrap32 v))"

definition nullableMaxQtyPtr :: "int option \<Rightarrow> int option" where
  "nullableMaxQtyPtr v = map_option wrap32 v"

definition group_of_master :: "uuid \<Rightarrow> db \<Rightarrow> group_row option" where
  "group_of_master m d = find (\<lambda>g. gp_master_id g = m) (groups d)"

definition CreateFollowLink :: "FollowLink \<Rightarrow> db \<Rightarrow> unit result \<times> db" where
  "CreateFollowLink link d0 =
     (let insert_link = (\<lambda>groupID. db_call (\<lambda>d.
            if \<not> 0 < numeric6 (fl_CloneFactor link) then (Inl pg_check, d)
            else if fl_FollowerID link \<in> set (map lk_follower_id (follow_links d)) then (Inl ErrDuplicate, d)
            else if \<not> account_exists d (fl_FollowerID link) \<or> groupID \<notin> set (map gp_id (groups d))
              then (Inl ErrConflict, d)
            else (Inr (), d\<lparr> follow_links := follow_links d @ [\<lparr> lk_follower_id = fl_FollowerID link,
                    lk_group_id = groupID, lk_clone_factor = numeric6 (fl_CloneFactor link),
                    lk_max_qty_per_order = nullableMaxQty (fl_MaxQtyPerOrder link),
                    lk_enabled = fl_Enabled link, lk_effective_from = db_now d \<rparr>] \<rparr>)))
      in if fl_GroupID link = uuid_Nil then
           if fl_MasterID link \<noteq> uuid_Nil then
             (case db_call (\<lambda>d. (case group_of_master (fl_MasterID link) d of
                      None \<Rightarrow> Inl err_no_rows | Some g \<Rightarrow> Inr (gp_id g), d)) d0 of
                (Inl e, d1) \<Rightarrow> (Inl ErrNotFound, d1)
              | (Inr groupID, d1) \<Rightarrow> insert_link groupID d1)
           else (Inl ErrNotFound, d0)
         else insert_link (fl_GroupID link) d0)"

text \<open>The join of follow links, groups and accounts, in the order of the link rows.\<close>

definition enabled_link :: "db \<Rightarrow> uuid \<Rightarrow> link_row \<Rightarrow> FollowLink option" where
  "enabled_link d masterID l =
     (case (find (\<lambda>g. gp_id g = lk_group_id l) (groups d), find_account (lk_follower_id l) d) of
        (Some g, Some a) \<Rightarrow>
          if gp_master_id g = masterID \<and> lk_enabled l \<and> ar_active a \<and> live a then
            Some \<lparr> fl_FollowerID = lk_follower_id l, fl_GroupID = gp_id g, fl_MasterID = gp_master_id g,
                   fl_CloneFactor = lk_clone_factor l,
                   fl_MaxQtyPerOrder = (case lk_max_qty_per_order l of None \<Rightarrow> 0 | Some q \<Rightarrow> q),
                   fl_Enabled = lk_enabled l, fl_EffectiveFrom = lk_effective_from l,
                   fl_Status = ar_status a, fl_AuthStatus = ar_auth_status a \<rparr>
          else None
      | _ \<Rightarrow> None)"

definition EnabledFollowLinks :: "uuid \<Rightarrow> db \<Rightarrow> FollowLink list result \<times> db" where
  "EnabledFollowLinks masterID = db_call (\<lambda>d. (Inr (List.map_filter (enabled_link d masterID) (follow_links d)), d))"

definition UpdateFollowLinkTerms :: "uuid \<Rightarrow> decimal \<Rightarrow> int option \<Rightarrow> db \<Rightarrow> unit result \<times> db" where
  "UpdateFollowLinkTerms followerID cloneFactor maxQty = db_call (\<lambda>d.
     if followerID \<notin> set (map lk_follower_id (follow_links d)) then (Inl ErrNotFound, d)
     else if \<not> 0 < numeric6 cloneFactor then (Inl pg_check, d)
     else (Inr (), d\<lparr> follow_links := update_where (\<lambda>l. lk_follower_id l = followerID)
       (\<lambda>l. l\<lparr> lk_clone_factor := numeric6 cloneFactor, lk_max_qty_per_order := nullableMaxQtyPtr maxQty \<rparr>)
       (follow_links d) \<rparr>))"

definition DeleteFollowLink :: "uuid \<Rightarrow> db \<Rightarrow> unit result \<times> db" where
  "DeleteFollowLink followerID = db_call (\<lambda>d.
     if followerID \<notin> set (map lk_follower_id (follow_links d)) then (Inl ErrNotFound, d)
     else (Inr (), d\<lparr> follow_links := filter (\<lambda>l. lk_follower_id l \<noteq> followerID) (follow_links d) \<rparr>))"

definition SetFollowLinkEnabled :: "uuid \<Rightarrow> bool \<Rightarrow> db \<Rightarrow> unit result \<times> db" where
  "SetFollowLinkEnabled followerID enabled = db_call (\<lambda>d.
     if followerID \<notin> set (map lk_follower_id (follow_links d)) then (Inl ErrNotFound, d)
     else let d1 = d\<lparr> follow_links := update_where (\<lambda>l. lk_follower_id l = followerID)
                        (\<lambda>l. l\<lparr> lk_enabled := enabled \<rparr>) (follow_links d) \<rparr>
          in (Inr (), if enabled then upd_account followerID (\<lambda>a. a\<lparr> ar_active := True \<rparr>) d1 else d1))"

definition GroupIDForFollower :: "uuid \<Rightarrow> db \<Rightarrow> uuid result \<times> db" where
  "GroupIDForFollower followerID = db_call (\<lambda>d.
     case find (\<lambda>l. lk_follower_id l = followerID) (follow_links d) of
       None \<Rightarrow> (Inl ErrNotFound, d) | Some l \<Rightarrow> (Inr (lk_group_id l), d))"

definition master_for_follower :: "uuid \<Rightarrow> db \<Rightarrow> uuid option" where
  "master_for_follower i d = (case find (\<lambda>l. lk_follower_id l = i) (follow_links d) of
      None \<Rightarrow> None
    | Some l \<Rightarrow> map_option gp_master_id (find (\<lambda>g. gp_id g = lk_group_id l) (groups d)))"

definition ResolveMasterID :: "uuid \<Rightarrow> db \<Rightarrow> uuid result \<times> db" where
  "ResolveMasterID i d0 =
     (case db_call (\<lambda>d. (Inr (map_option ar_role (find (\<lambda>a. ar_id a = i \<and> live a) (accounts d))), d)) d0 of
        (Inl e, d1) \<Rightarrow> (Inl e, d1)
      | (Inr role, d1) \<Rightarrow>
          if role = Some ''master'' then (Inr i, d1)
          else db_call (\<lambda>d. case master_for_follower i d of
                 None \<Rightarrow> (Inl ErrNotFound, d) | Some m \<Rightarrow> (Inr m, d)) d1)"

section \<open>Groups\<close>

definition CreateGroup :: "uuid option \<Rightarrow> uuid \<Rightarrow> string \<Rightarrow> uuid \<Rightarrow> db \<Rightarrow> unit result \<times> db" where
  "CreateGroup u i name masterID = db_call (\<lambda>d.
     if i \<in> set (map gp_id (groups d)) then (Inl ErrDuplicate, d)
     else if \<not> account_exists d masterID then (Inl ErrNotFound, d)
     else if masterID \<in> set (map gp_master_id (groups d)) then (Inl ErrDuplicate, d)
     else (Inr (), d\<lparr> groups := groups d @ [\<lparr> gp_id = i, gp_user_id = u, gp_name = name,
             gp_master_id = masterID, gp_has_imbalance = False \<rparr>] \<rparr>))"

text \<open>\<open>GroupInfo\<close>: by group id or master id, with a live master, within the user's groups.\<close>

definition group_info :: "uuid option \<Rightarrow> uuid \<Rightarrow> db \<Rightarrow> group_row option" where
  "group_info u i d = find (\<lambda>g. (gp_id g = i \<or> gp_master_id g = i)
     \<and> (case find_account (gp_master_id g) d of None \<Rightarrow> False | Some a \<Rightarrow> live a)
     \<and> (u = None \<or> gp_user_id g = u)) (groups d)"

definition open_positions :: "uuid \<Rightarrow> db \<Rightarrow> nat" where
  "open_positions i d = length (filter (\<lambda>p. ap_account_id p = i \<and> ap_quantity p \<noteq> 0) (account_positions d))"

definition upd_group_master :: "uuid \<Rightarrow> uuid \<Rightarrow> db \<Rightarrow> db" where
  "upd_group_master i m d = d\<lparr> groups := update_where (\<lambda>g. gp_id g = i) (\<lambda>g. g\<lparr> gp_master_id := m \<rparr>) (groups d) \<rparr>"

text \<open>The swap's transaction: both updates, with the unique index on the master checked at commit.\<close>

definition swap_masters :: "uuid \<Rightarrow> uuid \<Rightarrow> uuid \<Rightarrow> uuid \<Rightarrow> db \<Rightarrow> unit result \<times> db" where
  "swap_masters groupID masterID otherID currentMasterID = db_call (\<lambda>d.
     let d1 = upd_group_master groupID masterID d; d2 = upd_group_master otherID currentMasterID d1
     in if groupID \<notin> set (map gp_id (groups d)) \<or> otherID \<notin> set (map gp_id (groups d)) then (Inl ErrNotFound, d)
        else if \<not> distinct (map gp_master_id (groups d2)) then (Inl pg_unique, d)
        else (Inr (), d2))"

definition set_master :: "uuid \<Rightarrow> uuid \<Rightarrow> db \<Rightarrow> unit result \<times> db" where
  "set_master groupID masterID = db_call (\<lambda>d.
     let d1 = upd_group_master groupID masterID d
     in if groupID \<notin> set (map gp_id (groups d)) then (Inl ErrNotFound, d)
        else if \<not> account_exists d masterID then (Inl ErrNotFound, d)
        else if \<not> distinct (map gp_master_id (groups d1)) then (Inl ErrDuplicate, d)
        else (Inr (), d1))"

definition rename_group :: "uuid \<Rightarrow> string \<Rightarrow> db \<Rightarrow> unit result \<times> db" where
  "rename_group groupID name = db_call (\<lambda>d.
     if groupID \<notin> set (map gp_id (groups d)) then (Inl ErrNotFound, d)
     else (Inr (), d\<lparr> groups := update_where (\<lambda>g. gp_id g = groupID) (\<lambda>g. g\<lparr> gp_name := name \<rparr>) (groups d) \<rparr>))"

definition change_master :: "uuid \<Rightarrow> uuid \<Rightarrow> uuid \<Rightarrow> db \<Rightarrow> unit result \<times> db" where
  "change_master groupID currentMasterID masterID d0 =
     db_then (db_call (\<lambda>d. (Inr (open_positions currentMasterID d), d)) d0) (\<lambda>openCount d1.
       if openCount > 0 then (Inl ErrMasterHasOpenPositions, d1)
       else db_then (db_call (\<lambda>d. (Inr (open_positions masterID d), d)) d1) (\<lambda>targetOpenCount d2.
         if targetOpenCount > 0 then (Inl ErrMasterHasOpenPositions, d2)
         else db_then (db_call (\<lambda>d. (Inr (group_of_master masterID d), d)) d2) (\<lambda>other d3.
           case other of
             Some g \<Rightarrow> swap_masters groupID masterID (gp_id g) currentMasterID d3
           | None \<Rightarrow> set_master groupID masterID d3)))"

definition UpdateGroup :: "uuid option \<Rightarrow> uuid \<Rightarrow> string option \<Rightarrow> uuid option \<Rightarrow> db \<Rightarrow> unit result \<times> db" where
  "UpdateGroup u i name masterID d0 =
     db_then (db_call (\<lambda>d. (case group_info u i d of None \<Rightarrow> Inl ErrNotFound | Some g \<Rightarrow> Inr g, d)) d0)
       (\<lambda>info d1.
         db_then (case name of None \<Rightarrow> (Inr (), d1) | Some n \<Rightarrow> rename_group (gp_id info) n d1) (\<lambda>_ d2.
           case masterID of
             None \<Rightarrow> (Inr (), d2)
           | Some m \<Rightarrow> if m = gp_master_id info then (Inr (), d2)
                      else change_master (gp_id info) (gp_master_id info) m d2))"

definition DeleteGroup :: "uuid \<Rightarrow> db \<Rightarrow> unit result \<times> db" where
  "DeleteGroup i = db_call (\<lambda>d.
     if list_ex (\<lambda>l. lk_group_id l = i) (follow_links d) then (Inl ErrConflict, d)
     else if i \<notin> set (map gp_id (groups d)) then (Inl ErrNotFound, d)
     else (Inr (), d\<lparr> groups := filter (\<lambda>g. gp_id g \<noteq> i) (groups d) \<rparr>))"

definition GroupByMasterID :: "uuid \<Rightarrow> db \<Rightarrow> group_row result \<times> db" where
  "GroupByMasterID m = db_call (\<lambda>d. case group_of_master m d of
      None \<Rightarrow> (Inl ErrNotFound, d) | Some g \<Rightarrow> (Inr g, d))"

definition SetGroupImbalance :: "uuid \<Rightarrow> bool \<Rightarrow> db \<Rightarrow> unit result \<times> db" where
  "SetGroupImbalance i b = db_call (\<lambda>d. (Inr (), d\<lparr> groups := update_where (\<lambda>g. gp_id g = i \<or> gp_master_id g = i)
     (\<lambda>g. g\<lparr> gp_has_imbalance := b \<rparr>) (groups d) \<rparr>))"

end
