(* ===== verification/Accounts_View.thy ===== *)
theory Accounts_View
  imports Accounts_Store
begin

text \<open>
  The account and group views of the store: \<open>Accounts\<close>, \<open>AccountsByUserID\<close> and
  \<open>accountFromRow\<close> (\<open>internal/store/postgres/store.go\<close>, query \<open>Accounts\<close>), with accounts joined
  with their follow link and group and the session evaluated at the time of the call, and
  \<open>Groups\<close> and \<open>GroupDetail\<close> (\<open>groups.go\<close>), the latter without its portfolio figures. An
  \<open>ORDER BY\<close> depends on the database's collation and is an argument.
\<close>

section \<open>The joined rows\<close>

record AccountsRow =
  avr_ID :: uuid
  avr_Name :: string
  avr_Role :: string
  avr_Broker :: string
  avr_BrokerUserID :: string
  avr_ApiKey :: string
  avr_ApiSecret :: string
  avr_Active :: bool
  avr_Status :: string
  avr_IpAddress :: string
  avr_AuthStatus :: string
  avr_AuthError :: string
  avr_TokenExpiresAt :: "gotime option"
  avr_GroupID :: "uuid option"
  avr_GroupName :: "string option"
  avr_MasterID :: "uuid option"
  avr_CloneFactor :: "decimal option"
  avr_MaxQtyPerOrder :: "int option"
  avr_Enabled :: bool

text \<open>A left join: the matching rows, or one missing row.\<close>

definition left_join :: "('b \<Rightarrow> bool) \<Rightarrow> 'b list \<Rightarrow> 'b option list" where
  "left_join P bs = (case filter P bs of [] \<Rightarrow> [None] | b # bs' \<Rightarrow> map Some (b # bs'))"

definition accounts_row :: "account_row \<Rightarrow> link_row option \<Rightarrow> group_row option \<Rightarrow> AccountsRow" where
  "accounts_row a f g = \<lparr> avr_ID = ar_id a, avr_Name = ar_name a, avr_Role = ar_role a, avr_Broker = ar_broker a,
     avr_BrokerUserID = ar_broker_user_id a, avr_ApiKey = ar_api_key a, avr_ApiSecret = ar_api_secret a,
     avr_Active = ar_active a, avr_Status = ar_status a, avr_IpAddress = ar_ip_address a,
     avr_AuthStatus = ar_auth_status a, avr_AuthError = ar_auth_error a, avr_TokenExpiresAt = ar_token_expires_at a,
     avr_GroupID = map_option gp_id g, avr_GroupName = map_option gp_name g, avr_MasterID = map_option gp_master_id g,
     avr_CloneFactor = map_option lk_clone_factor f, avr_MaxQtyPerOrder = Option.bind f lk_max_qty_per_order,
     avr_Enabled = (case f of None \<Rightarrow> True | Some l \<Rightarrow> lk_enabled l) \<rparr>"

definition account_rows :: "uuid list option \<Rightarrow> uuid option \<Rightarrow> db \<Rightarrow> AccountsRow list" where
  "account_rows ids u d = concat (map (\<lambda>a.
       concat (map (\<lambda>f.
         map (accounts_row a f)
           (left_join (\<lambda>g. (case f of None \<Rightarrow> False | Some l \<Rightarrow> gp_id g = lk_group_id l)
                            \<or> ar_role a = ''master'' \<and> gp_master_id g = ar_id a) (groups d)))
         (left_join (\<lambda>l. lk_follower_id l = ar_id a) (follow_links d))))
     (filter (\<lambda>a. live a \<and> (case ids of None \<Rightarrow> True | Some is \<Rightarrow> ar_id a \<in> set is)
                  \<and> (u = None \<or> ar_user_id a = u)) (accounts d)))"

section \<open>Status and session\<close>

definition statusFromAccountStatus :: "string \<Rightarrow> string" where
  "statusFromAccountStatus accountStatus =
     (case ParseAccountStatus accountStatus of Inl _ \<Rightarrow> ''error'' | Inr status \<Rightarrow> ToAPI status)"

text \<open>The layout \<open>15:04 IST\<close> of a time in the zone five and a half hours east of Greenwich.\<close>

definition format_hm_ist :: "gotime \<Rightarrow> string" where
  "format_hm_ist t =
     (let m = ((t + 5 * Hour + 30 * Minute) div Minute) mod 1440;
          two = (\<lambda>n. [char_of (48 + n div 10), char_of (48 + n mod 10)])
      in two (m div 60) @ '':'' @ two (m mod 60) @ '' IST'')"

definition token_expired :: "AccountsRow \<Rightarrow> gotime \<Rightarrow> bool" where
  "token_expired r now = (case avr_TokenExpiresAt r of
      Some t \<Rightarrow> \<not> t > now
    | None \<Rightarrow> RequiresDailySession (avr_Broker r))"

definition row_auth :: "AccountsRow \<Rightarrow> gotime \<Rightarrow> string \<times> string" where
  "row_auth r now =
     (let (authStatus, authError) =
        (if avr_AuthStatus r = ''authenticated'' \<and> token_expired r now
         then (''error'',
               if avr_AuthError r = [] then
                 (case avr_TokenExpiresAt r of
                    Some t \<Rightarrow> ''Token expired at '' @ format_hm_ist t
                  | None \<Rightarrow> ''Token expired / session inactive'')
               else avr_AuthError r)
         else (avr_AuthStatus r, avr_AuthError r))
      in (authStatus, if authError \<noteq> [] then SanitizeAuthError authError else authError))"

definition row_status :: "AccountsRow \<Rightarrow> string \<Rightarrow> string" where
  "row_status r authStatus =
     (if authStatus = ''error'' \<or> avr_Status r = ''error'' then ''error''
      else if authStatus = ''pending'' \<or> avr_Status r = ''pending''
        \<or> authStatus = ''unauthenticated'' \<and> RequiresDailySession (avr_Broker r) \<and> avr_TokenExpiresAt r = None
      then ''pending''
      else statusFromAccountStatus (avr_Status r))"

definition accountFromRow :: "AccountsRow \<Rightarrow> gotime \<Rightarrow> Account" where
  "accountFromRow r now =
     (let (authStatus, authError) = row_auth r now
      in \<lparr> acc_ID = avr_ID r, acc_Name = avr_Name r, acc_Role = avr_Role r, acc_Broker = avr_Broker r,
           acc_BrokerAccountID = avr_BrokerUserID r, acc_ApiKey = avr_ApiKey r, acc_ApiSecret = avr_ApiSecret r,
           acc_Active = avr_Active r, acc_Status = row_status r authStatus, acc_IPAddress = avr_IpAddress r,
           acc_AuthStatus = authStatus, acc_AuthError = authError, acc_GroupID = avr_GroupID r,
           acc_GroupName = avr_GroupName r,
           acc_MasterID = (if avr_Role r = ''follower'' then avr_MasterID r else None),
           acc_CloneFactor = avr_CloneFactor r, acc_MaxQtyPerOrder = avr_MaxQtyPerOrder r,
           acc_Enabled = avr_Enabled r \<rparr>)"

section \<open>The methods\<close>

type_synonym row_order = "AccountsRow list \<Rightarrow> AccountsRow list"

definition Accounts :: "row_order \<Rightarrow> uuid option \<Rightarrow> uuid list option \<Rightarrow> db \<Rightarrow> Account list result \<times> db" where
  "Accounts order_by u ids = db_call (\<lambda>d.
     (Inr (map (\<lambda>r. accountFromRow r (db_now d)) (order_by (account_rows ids u d))), d))"

definition AccountsByUserID :: "row_order \<Rightarrow> uuid \<Rightarrow> db \<Rightarrow> Account list result \<times> db" where
  "AccountsByUserID order_by u = Accounts order_by (Some u) None"

section \<open>Groups\<close>

record GroupSummary =
  gs_ID :: uuid
  gs_Name :: string
  gs_MasterID :: uuid
  gs_MasterAccountID :: string
  gs_MasterName :: string
  gs_Broker :: string
  gs_FollowerCount :: int
  gs_Status :: string
  gs_Active :: bool
  gs_HasImbalance :: bool

definition group_summary :: "db \<Rightarrow> group_row \<Rightarrow> GroupSummary option" where
  "group_summary d g = (case find (\<lambda>a. ar_id a = gp_master_id g \<and> live a) (accounts d) of
      None \<Rightarrow> None
    | Some a \<Rightarrow> Some \<lparr> gs_ID = gp_id g, gs_Name = (if gp_name g = [] then ar_broker_user_id a else gp_name g),
        gs_MasterID = gp_master_id g, gs_MasterAccountID = ar_broker_user_id a, gs_MasterName = ar_name a,
        gs_Broker = ar_broker a,
        gs_FollowerCount = int (length (filter (\<lambda>l. lk_group_id l = gp_id g) (follow_links d))),
        gs_Status = statusFromAccountStatus (ar_status a), gs_Active = ar_active a,
        gs_HasImbalance = gp_has_imbalance g \<rparr>)"

definition Groups :: "(group_row list \<Rightarrow> group_row list) \<Rightarrow> uuid option \<Rightarrow> db \<Rightarrow> GroupSummary list result \<times> db" where
  "Groups order_by u = db_call (\<lambda>d.
     (Inr (List.map_filter (group_summary d) (order_by (filter (\<lambda>g. u = None \<or> gp_user_id g = u) (groups d)))), d))"

text \<open>The join of a group's links with the live accounts of its followers.\<close>

definition group_follower_rows :: "uuid \<Rightarrow> db \<Rightarrow> GroupFollower list" where
  "group_follower_rows groupID d = List.map_filter (\<lambda>l.
     case find (\<lambda>a. ar_id a = lk_follower_id l \<and> live a) (accounts d) of
       None \<Rightarrow> None
     | Some a \<Rightarrow> Some \<lparr> gf_AccountID = ar_id a, gf_Name = ar_name a, gf_BrokerAccountID = ar_broker_user_id a,
         gf_Enabled = lk_enabled l \<rparr>)
     (filter (\<lambda>l. lk_group_id l = groupID) (follow_links d))"

text \<open>Three queries; the last one reads the portfolio figures, of which only its failure shows here.\<close>

definition GroupDetail_of ::
  "(GroupFollower list \<Rightarrow> GroupFollower list) \<Rightarrow> uuid option \<Rightarrow> uuid \<Rightarrow> db \<Rightarrow> GroupDetail result \<times> db" where
  "GroupDetail_of order_by u i d0 =
     db_then (db_call (\<lambda>d. (case group_info u i d of None \<Rightarrow> Inl ErrNotFound | Some g \<Rightarrow> Inr (g, find_account (gp_master_id g) d), d)) d0)
       (\<lambda>(g, m) d1. db_then (db_call (\<lambda>d. (Inr (order_by (group_follower_rows (gp_id g) d)), d)) d1)
         (\<lambda>rows d2. db_then (db_call (\<lambda>d. (Inr (), d)) d2) (\<lambda>_ d3.
            (Inr \<lparr> gd_GroupID = gp_id g,
               gd_GroupName = (if gp_name g = [] then (case m of None \<Rightarrow> [] | Some a \<Rightarrow> ar_broker_user_id a) else gp_name g),
               gd_MasterID = gp_master_id g, gd_MasterActive = (case m of None \<Rightarrow> False | Some a \<Rightarrow> ar_active a),
               gd_HasImbalance = gp_has_imbalance g, gd_Followers = rows \<rparr>, d3))))"

section \<open>What the account list shows\<close>

text \<open>
  An account whose session has expired is never shown as usable: an authenticated account with an
  expired or missing daily token is listed with an authentication error and the status error,
  no account with an authentication error is listed as ok, and no listed authentication
  error carries a trace of the backend.
\<close>
theorem accountFromRow_session:
  assumes "a = accountFromRow r now"
  shows "(token_expired r now \<and> avr_AuthStatus r = ''authenticated'' \<longrightarrow>
            acc_AuthStatus a = ''error'' \<and> acc_Status a = ''error'')
    \<and> (acc_AuthStatus a = ''error'' \<longrightarrow> acc_Status a = ''error'')
    \<and> (acc_AuthStatus a = ''authenticated'' \<longrightarrow> \<not> token_expired r now)
    \<and> \<not> contains_any (ToLower (acc_AuthError a)) backend_traces"
proof -
  obtain st err where auth: "row_auth r now = (st, err)" by fastforce
  have a: "acc_AuthStatus a = st" "acc_AuthError a = err" "acc_Status a = row_status r st"
    using assms auth by (simp_all add: accountFromRow_def)
  have clean: "\<not> contains_any (ToLower err) backend_traces"
    using auth sanitize_clean(1) contains_any_Nil by (auto simp: row_auth_def Let_def split: if_splits)
  have "st = ''error''" if "token_expired r now" "avr_AuthStatus r = ''authenticated''"
    using auth that by (auto simp: row_auth_def Let_def)
  moreover have "\<not> token_expired r now" if "st = ''authenticated''"
    using auth that by (auto simp: row_auth_def Let_def split: if_splits)
  ultimately show ?thesis using clean by (auto simp: a row_status_def)
qed

definition ex_expired :: AccountsRow where
  "ex_expired = accounts_row (new_account None ''f'' ''f'' ''follower'' ''zerodha'' ''f'' ''k'' ''s'' [] [] []
     \<lparr> ar_auth_status := ''authenticated'' \<rparr>) None None"

theorem accountFromRow_session_witness:
  "acc_Status (accountFromRow ex_expired 5) = ''error''"
proof -
  have "token_expired ex_expired 5" "avr_AuthStatus ex_expired = ''authenticated''"
    by (simp_all add: ex_expired_def accounts_row_def new_account_def token_expired_def, code_simp)
  then show ?thesis using accountFromRow_session[OF refl, of ex_expired 5] by blast
qed

end
