(* ===== verification/Accounts_Inv.thy ===== *)
theory Accounts_Inv
  imports Accounts_Store
begin

text \<open>
  What the account and group methods guarantee: the schema's unique indexes and references hold
  in every reachable state, follower orders keep their references, copying reaches exactly the
  enabled followers, and changing a group's master swaps masters without losing one.
\<close>

section \<open>The invariant\<close>

definition account_key :: "account_row \<Rightarrow> string \<times> string" where
  "account_key a = (ar_broker a, ar_broker_user_id a)"

definition account_ip :: "account_row \<Rightarrow> string option" where
  "account_ip a = nonempty (ar_ip_address a)"

definition wf_accounts :: "db \<Rightarrow> bool" where
  "wf_accounts d \<longleftrightarrow> distinct (map ar_id (accounts d)) \<and> distinct (map account_key (accounts d))
     \<and> unique_index account_ip (accounts d) \<and> list_all (\<lambda>a. status_check (ar_status a)) (accounts d)"

definition wf_groups :: "db \<Rightarrow> bool" where
  "wf_groups d \<longleftrightarrow> distinct (map gp_id (groups d)) \<and> distinct (map gp_master_id (groups d))
     \<and> set (map gp_master_id (groups d)) \<subseteq> set (map ar_id (accounts d))"

definition wf_links :: "db \<Rightarrow> bool" where
  "wf_links d \<longleftrightarrow> distinct (map lk_follower_id (follow_links d))
     \<and> set (map lk_follower_id (follow_links d)) \<subseteq> set (map ar_id (accounts d))
     \<and> set (map lk_group_id (follow_links d)) \<subseteq> set (map gp_id (groups d))
     \<and> list_all (\<lambda>l. 0 < lk_clone_factor l) (follow_links d)"

definition wf_admin :: "db \<Rightarrow> bool" where
  "wf_admin d \<longleftrightarrow> wf_accounts d \<and> wf_groups d \<and> wf_links d"

lemmas wf_admin_defs = wf_admin_def wf_accounts_def wf_groups_def wf_links_def

lemma wf_admin_call:
  "(\<And>d. wf_admin d \<Longrightarrow> wf_admin (snd (body d))) \<Longrightarrow> wf_admin d \<Longrightarrow> wf_admin (snd (db_call body d))"
proof -
  assume body: "\<And>d. wf_admin d \<Longrightarrow> wf_admin (snd (body d))" and wf: "wf_admin d"
  have flt: "wf_admin (d\<lparr> faults := fs \<rparr>)" for fs using wf by (simp add: wf_admin_defs)
  show ?thesis using wf body[OF wf] body[OF flt] flt
    by (auto simp: db_call_def split: list.splits option.splits)
qed

lemma wf_admin_faults [simp]: "wf_admin (d\<lparr> faults := fs \<rparr>) = wf_admin d"
  by (simp add: wf_admin_defs)

lemma wf_admin_call_at:
  "(\<And>fs. wf_admin (snd (body (d\<lparr> faults := fs \<rparr>)))) \<Longrightarrow> wf_admin d \<Longrightarrow> wf_admin (snd (db_call body d))"
  by (rule db_call_cases[of body d]) auto

lemma wf_admin_then:
  "wf_admin (snd r) \<Longrightarrow> (\<And>x d. r = (Inr x, d) \<Longrightarrow> wf_admin (snd (k x d))) \<Longrightarrow> wf_admin (snd (db_then r k))"
  by (cases r) (auto simp: db_then_def split: sum.splits)

lemma wf_admin_query [simp]:
  "wf_admin d \<Longrightarrow> wf_admin (snd (db_call (\<lambda>d. (f d, d)) d))"
  by (rule wf_admin_call) auto

lemma wf_admin_query_eq: "db_call (\<lambda>d. (f d, d)) d = (r, d') \<Longrightarrow> wf_admin d \<Longrightarrow> wf_admin d'"
  using wf_admin_query[of d f] by simp

text \<open>Updates of one account that keep its id, its broker key and an admissible status.\<close>

lemma wf_upd_account:
  assumes wf: "wf_admin d"
    and keep: "\<And>a. ar_id (f a) = ar_id a \<and> account_key (f a) = account_key a"
    and status: "\<And>a. status_check (ar_status a) \<Longrightarrow> status_check (ar_status (f a))"
    and ip: "\<And>a. account_ip (f a) = None \<or> account_ip (f a) = account_ip a \<or> account_ip (f a) = nonempty ip"
    and free: "\<not> ip_taken d i ip"
  shows "wf_admin (upd_account i f d)"
proof -
  let ?rows = "update_where (\<lambda>a. ar_id a = i) f (accounts d)"
  have ids: "map ar_id ?rows = map ar_id (accounts d)" "map account_key ?rows = map account_key (accounts d)"
    using keep by (simp_all add: map_update_where)
  have dist: "distinct (map ar_id (accounts d))" and uniq: "unique_index account_ip (accounts d)"
    using wf by (simp_all add: wf_admin_defs)
  have "unique_index account_ip ?rows"
  proof (rule unique_index_update_one[OF dist uniq])
    fix a assume a: "a \<in> set (accounts d)" "ar_id a = i"
    have "account_ip b \<noteq> account_ip a" if "b \<in> set (accounts d)" "ar_id b \<noteq> i" "account_ip a \<noteq> None" for b
      using unique_index_eq[OF uniq that(1) a(1)] that a by metis
    moreover have "account_ip b \<noteq> nonempty ip" if "b \<in> set (accounts d)" "ar_id b \<noteq> i" "ip \<noteq> []" for b
      using free that by (auto simp: ip_taken_def account_ip_def nonempty_def split: if_splits)
    moreover have "nonempty ip = None \<longleftrightarrow> ip = []" by (simp add: nonempty_def)
    ultimately show "account_ip (f a) = None
        \<or> (\<forall>b\<in>set (accounts d). ar_id b \<noteq> i \<longrightarrow> account_ip b \<noteq> account_ip (f a))"
      using ip[of a] by metis
  qed
  moreover have "list_all (\<lambda>a. status_check (ar_status a)) ?rows"
    using wf status by (auto simp: wf_admin_defs list_all_iff set_update_where)
  ultimately show ?thesis
    using wf ids by (auto simp: wf_admin_defs upd_account_def simp del: set_map simp flip: set_map)
qed

lemma not_ip_taken_Nil [simp]: "\<not> ip_taken d i []"
  by (simp add: ip_taken_def)

lemma wf_set_account:
  assumes "\<And>a. ar_id (f a) = ar_id a \<and> account_key (f a) = account_key a"
    and "\<And>a. ar_status (f a) = ar_status a" "\<And>a. ar_ip_address (f a) = ar_ip_address a"
  shows "wf_admin d \<Longrightarrow> wf_admin (snd (set_account i f d))"
  unfolding set_account_def
  by (erule wf_admin_call [rotated]) (use assms in \<open>auto simp: account_ip_def intro!: wf_upd_account[where ip = "[]"]\<close>)

lemma wf_account_setters:
  "wf_admin d \<Longrightarrow> wf_admin (snd (SetAccountEncryptedCredentials i p t d))"
  "wf_admin d \<Longrightarrow> wf_admin (snd (SetAccountAccessToken i tok ex st er d))"
  "wf_admin d \<Longrightarrow> wf_admin (snd (SetAccountName i n d))"
  "wf_admin d \<Longrightarrow> wf_admin (snd (SetAccountAPIKey i n d))"
  "wf_admin d \<Longrightarrow> wf_admin (snd (SetAccountAPISecret i n d))"
  by (auto simp: SetAccountEncryptedCredentials_def SetAccountAccessToken_def SetAccountName_def
      SetAccountAPIKey_def SetAccountAPISecret_def account_key_def intro!: wf_set_account)

lemma wf_SetAccountIPAddress: "wf_admin d \<Longrightarrow> wf_admin (snd (SetAccountIPAddress i ip d))"
  unfolding SetAccountIPAddress_def
  by (erule wf_admin_call [rotated])
     (auto simp: account_ip_def account_key_def intro!: wf_upd_account[where ip = ip])

lemma wf_SetAccountStatus: "wf_admin d \<Longrightarrow> wf_admin (snd (SetAccountStatus i st d))"
  unfolding SetAccountStatus_def
  by (auto simp: account_ip_def account_key_def intro!: wf_admin_call wf_upd_account[where ip = "[]"])

lemma wf_links_update:
  assumes "wf_admin d" "\<And>l. lk_follower_id (f l) = lk_follower_id l \<and> lk_group_id (f l) = lk_group_id l"
    "\<And>l. 0 < lk_clone_factor l \<Longrightarrow> 0 < lk_clone_factor (f l)"
  shows "wf_admin (d\<lparr> follow_links := update_where P f (follow_links d) \<rparr>)"
proof -
  have "map lk_follower_id (update_where P f (follow_links d)) = map lk_follower_id (follow_links d)"
    "map lk_group_id (update_where P f (follow_links d)) = map lk_group_id (follow_links d)"
    using assms(2) by (simp_all add: map_update_where)
  moreover have "list_all (\<lambda>l. 0 < lk_clone_factor l) (update_where P f (follow_links d))"
    using assms(1,3) by (auto simp: wf_admin_defs list_all_iff set_update_where)
  ultimately show ?thesis using assms(1) by (simp add: wf_admin_defs del: set_map)
qed

lemma wf_SetAccountActive: "wf_admin d \<Longrightarrow> wf_admin (snd (SetAccountActive i b d))"
  unfolding SetAccountActive_def
proof (erule wf_admin_call [rotated], goal_cases)
  case (1 d)
  have "wf_admin (upd_account i (\<lambda>a. a\<lparr> ar_active := b \<rparr>) d)"
    using 1 by (intro wf_upd_account[where ip = "[]"]) (auto simp: account_ip_def account_key_def)
  then show ?case using 1 by (auto simp: Let_def intro!: wf_links_update)
qed

lemma wf_SetFollowLinkEnabled: "wf_admin d \<Longrightarrow> wf_admin (snd (SetFollowLinkEnabled f b d))"
  unfolding SetFollowLinkEnabled_def
  by (erule wf_admin_call [rotated])
     (auto simp: Let_def account_ip_def account_key_def
       intro!: wf_links_update wf_upd_account[where ip = "[]"])

lemma wf_UpdateFollowLinkTerms: "wf_admin d \<Longrightarrow> wf_admin (snd (UpdateFollowLinkTerms f c q d))"
  unfolding UpdateFollowLinkTerms_def
  by (erule wf_admin_call [rotated]) (auto intro!: wf_links_update)

lemma wf_DeleteFollowLink: "wf_admin d \<Longrightarrow> wf_admin (snd (DeleteFollowLink f d))"
  unfolding DeleteFollowLink_def
  by (erule wf_admin_call [rotated]) (auto simp: wf_admin_defs list_all_iff distinct_map_filter)

lemma wf_CreateFollowLink: "wf_admin d \<Longrightarrow> wf_admin (snd (CreateFollowLink l d))"
proof -
  assume wf: "wf_admin d"
  have ins: "wf_admin (d\<lparr> follow_links := follow_links d @ [\<lparr> lk_follower_id = f, lk_group_id = g,
      lk_clone_factor = c, lk_max_qty_per_order = q, lk_enabled = e, lk_effective_from = t \<rparr>] \<rparr>)"
    if "wf_admin d" "0 < c" "f \<notin> set (map lk_follower_id (follow_links d))" "account_exists d f"
      "g \<in> set (map gp_id (groups d))" for d f g c q e t
    using that by (auto simp: wf_admin_defs account_exists_def)
  show ?thesis
    unfolding CreateFollowLink_def Let_def using wf
    by (auto split: prod.splits sum.splits dest: wf_admin_query_eq intro!: wf_admin_call ins)
qed

lemma wf_CreateGroup: "wf_admin d \<Longrightarrow> wf_admin (snd (CreateGroup u i n m d))"
  unfolding CreateGroup_def
  by (erule wf_admin_call [rotated]) (auto simp: wf_admin_defs account_exists_def)

lemma wf_groups_update:
  assumes "wf_admin d" "\<And>g. gp_id (f g) = gp_id g \<and> gp_master_id (f g) = gp_master_id g"
  shows "wf_admin (d\<lparr> groups := update_where P f (groups d) \<rparr>)"
proof -
  have "map gp_id (update_where P f (groups d)) = map gp_id (groups d)"
    "map gp_master_id (update_where P f (groups d)) = map gp_master_id (groups d)"
    using assms(2) by (simp_all add: map_update_where)
  then show ?thesis using assms(1) by (simp add: wf_admin_defs del: set_map)
qed

lemma wf_remove_groups:
  assumes "wf_admin d" "\<And>g l. g \<in> set (groups d) \<Longrightarrow> \<not> P g \<Longrightarrow> l \<in> set (follow_links d) \<Longrightarrow> lk_group_id l \<noteq> gp_id g"
  shows "wf_admin (d\<lparr> groups := filter P (groups d) \<rparr>)"
proof -
  have "set (map lk_group_id (follow_links d)) \<subseteq> set (map gp_id (filter P (groups d)))"
  proof
    fix x assume "x \<in> set (map lk_group_id (follow_links d))"
    then obtain l where l: "l \<in> set (follow_links d)" "x = lk_group_id l" by auto
    then have "x \<in> gp_id ` set (groups d)" using assms(1) by (auto simp: wf_admin_defs)
    then obtain g where g: "g \<in> set (groups d)" "x = gp_id g" by blast
    then have "P g" using l assms(2)[of g l] by auto
    with g show "x \<in> set (map gp_id (filter P (groups d)))" by simp
  qed
  moreover have "set (map gp_master_id (filter P (groups d))) \<subseteq> set (map gp_master_id (groups d))" by auto
  ultimately show ?thesis
    using assms(1) by (auto simp: wf_admin_defs distinct_map_filter simp del: set_map)
qed

lemma wf_DeleteGroup: "wf_admin d \<Longrightarrow> wf_admin (snd (DeleteGroup i d))"
  unfolding DeleteGroup_def
  by (erule wf_admin_call [rotated]) (auto simp: list_ex_iff intro!: wf_remove_groups)

lemma wf_SetGroupImbalance: "wf_admin d \<Longrightarrow> wf_admin (snd (SetGroupImbalance i b d))"
  unfolding SetGroupImbalance_def by (erule wf_admin_call [rotated]) (auto intro!: wf_groups_update)

lemma wf_rename_group: "wf_admin d \<Longrightarrow> wf_admin (snd (rename_group i n d))"
  unfolding rename_group_def by (erule wf_admin_call [rotated]) (auto intro!: wf_groups_update)

lemma upd_group_master_simps [simp]:
  "map gp_id (groups (upd_group_master i m d)) = map gp_id (groups d)"
  "accounts (upd_group_master i m d) = accounts d" "follow_links (upd_group_master i m d) = follow_links d"
  by (simp_all add: upd_group_master_def map_update_where)

lemma set_upd_group_master:
  "set (map gp_master_id (groups (upd_group_master i m d))) \<subseteq> insert m (set (map gp_master_id (groups d)))"
  by (auto simp: upd_group_master_def set_update_where)

lemma wf_upd_masters:
  assumes "wf_admin d" "groups d' = groups (upd_group_master i m e)" "map gp_id (groups e) = map gp_id (groups d)"
    "set (map gp_master_id (groups e)) \<subseteq> set (map ar_id (accounts d))" "account_exists d m"
    "accounts d' = accounts d" "follow_links d' = follow_links d" "distinct (map gp_master_id (groups d'))"
  shows "wf_admin d'"
proof -
  have "map gp_id (groups d') = map gp_id (groups d)" using assms(2,3) by simp
  moreover have "set (map gp_master_id (groups d')) \<subseteq> set (map ar_id (accounts d))"
    using assms(2,4,5) set_upd_group_master[of i m e] unfolding account_exists_def assms(2) by blast
  ultimately show ?thesis using assms(1,6-8) by (simp add: wf_admin_defs del: set_map)
qed

lemma wf_set_master: "wf_admin d \<Longrightarrow> wf_admin (snd (set_master i m d))"
  unfolding set_master_def
proof (erule wf_admin_call [rotated], goal_cases)
  case (1 d)
  have "set (map gp_master_id (groups d)) \<subseteq> set (map ar_id (accounts d))"
    using 1 unfolding wf_admin_defs by blast
  note * = wf_upd_masters[OF 1 refl refl this]
  show ?case using 1 by (auto simp: Let_def intro: *)
qed

lemma wf_swap_masters:
  assumes "wf_admin d" "account_exists d m" "account_exists d c"
  shows "wf_admin (snd (swap_masters i m j c d))"
proof -
  have step: "wf_admin (upd_group_master j c (upd_group_master i m d))"
    if "wf_admin d" "account_exists d m" "account_exists d c"
      "distinct (map gp_master_id (groups (upd_group_master j c (upd_group_master i m d))))" for d
  proof (rule wf_upd_masters[OF that(1) refl _ _ that(3) _ _ that(4)])
    show "set (map gp_master_id (groups (upd_group_master i m d))) \<subseteq> set (map ar_id (accounts d))"
      using that(1,2) set_upd_group_master[of i m d] unfolding wf_admin_defs account_exists_def by blast
  qed simp_all
  have "wf_admin (d\<lparr> faults := fs \<rparr>)" "account_exists (d\<lparr> faults := fs \<rparr>) m"
    "account_exists (d\<lparr> faults := fs \<rparr>) c" for fs
    using assms by (simp_all add: account_exists_def)
  note * = step[OF this]
  show ?thesis
    unfolding swap_masters_def using assms(1) * by (intro wf_admin_call_at) (simp_all add: Let_def)
qed

lemma group_info_master:
  "wf_admin d \<Longrightarrow> group_info u i d = Some g \<Longrightarrow> account_exists d (gp_master_id g)"
  by (auto simp: wf_admin_defs account_exists_def group_info_def dest!: find_Some_mem)

lemma group_of_master_exists:
  "wf_admin d \<Longrightarrow> group_of_master m d = Some g \<Longrightarrow> account_exists d m"
  by (auto simp: wf_admin_defs account_exists_def group_of_master_def dest!: find_Some_mem)

text \<open>A step that reads \<open>f\<close> of the tables and goes on with \<open>k\<close>.\<close>

lemma wf_read_then:
  assumes "wf_admin d" "\<And>fs. f (d\<lparr> faults := fs \<rparr>) = f d"
    "\<And>fs x. f d = Inr x \<Longrightarrow> wf_admin (snd (k x (d\<lparr> faults := fs \<rparr>)))"
  shows "wf_admin (snd (db_then (db_call (\<lambda>d. (f d, d)) d) k))"
  by (rule db_call_cases[of "\<lambda>d. (f d, d)" d])
     (use assms in \<open>auto simp: db_then_def split: sum.split\<close>)

lemma faults_frame [simp]:
  "open_positions i (d\<lparr> faults := fs \<rparr>) = open_positions i d" "group_of_master i (d\<lparr> faults := fs \<rparr>) = group_of_master i d"
  "group_info u i (d\<lparr> faults := fs \<rparr>) = group_info u i d" "find_account i (d\<lparr> faults := fs \<rparr>) = find_account i d"
  "account_exists (d\<lparr> faults := fs \<rparr>) i = account_exists d i"
  by (simp_all add: open_positions_def group_of_master_def group_info_def find_account_def account_exists_def)

lemma wf_change_master:
  assumes "wf_admin d" "account_exists d c"
  shows "wf_admin (snd (change_master i c m d))"
proof -
  have swap: "wf_admin (snd (swap_masters i m j c (d\<lparr> faults := fs \<rparr>)))"
    if "group_of_master m d = Some g" for fs g j
    using assms that group_of_master_exists by (intro wf_swap_masters) auto
  show ?thesis
    unfolding change_master_def using assms swap
    by (auto intro!: wf_read_then wf_set_master split: option.split)
qed

lemma rename_group_accounts: "rename_group i n d = (r, d') \<Longrightarrow> accounts d' = accounts d"
  by (auto simp: rename_group_def db_call_def split: list.splits option.splits if_splits)

lemma wf_UpdateGroup: "wf_admin d \<Longrightarrow> wf_admin (snd (UpdateGroup u i n m d))"
  unfolding UpdateGroup_def
proof (rule wf_read_then, goal_cases)
  case (3 fs info)
  then have master: "account_exists d (gp_master_id info)" "wf_admin (d\<lparr> faults := fs \<rparr>)"
    by (auto split: option.splits intro: group_info_master)
  define r where "r = (case n of None \<Rightarrow> (Inr (), d\<lparr> faults := fs \<rparr>)
    | Some n \<Rightarrow> rename_group (gp_id info) n (d\<lparr> faults := fs \<rparr>))"
  have wf: "wf_admin (snd r)" using master(2) wf_rename_group by (simp add: r_def split: option.split)
  have "accounts (snd r) = accounts d"
    using rename_group_accounts[of "gp_id info" _ "d\<lparr> faults := fs \<rparr>"]
    by (auto simp: r_def split: option.splits) (metis db.select_convs(5) db.surjective db.update_convs(14) prod.collapse)
  then have "account_exists (snd r) (gp_master_id info)" using master(1) by (simp add: account_exists_def)
  then show ?case
    unfolding r_def[symmetric] using wf
    by (intro wf_admin_then) (auto split: option.split intro!: wf_change_master)
qed auto

lemma wf_DeleteAccount: "wf_admin d \<Longrightarrow> wf_admin (snd (DeleteAccount i d))"
  unfolding DeleteAccount_def
proof (erule wf_admin_call [rotated], goal_cases)
  case (1 d)
  let ?del = "\<lambda>d. upd_account i (\<lambda>a. if live a then a\<lparr> ar_deleted_at := Some (db_now d), ar_ip_address := [],
      ar_active := False \<rparr> else a) (d\<lparr> account_positions := filter (\<lambda>p. ap_account_id p \<noteq> i) (account_positions d) \<rparr>)"
  have del: "wf_admin (?del d)" if "wf_admin d" for d
    using that by (intro wf_upd_account[where ip = "[]"])
      (auto simp: account_ip_def account_key_def nonempty_def wf_admin_defs)
  have grp: "wf_admin (d\<lparr> groups := filter (\<lambda>g. gp_master_id g \<noteq> i) (groups d) \<rparr>)"
    if "\<not> list_ex (\<lambda>l. lk_group_id l \<in> set (map gp_id (filter (\<lambda>g. gp_master_id g = i) (groups d)))) (follow_links d)"
    using 1 by (rule wf_remove_groups) (use that in \<open>auto simp: list_ex_iff\<close>)
  show ?case using 1 del[OF 1] del[OF grp] by (auto simp: Let_def split: option.split)
qed

lemma wf_CreateAccountWithCredentials:
  "wf_admin d \<Longrightarrow> wf_admin (snd (CreateAccountWithCredentials u i n r b bu k sec ip pw tp d))"
proof -
  assume wf: "wf_admin d"
  have add: "wf_admin (d\<lparr> accounts := accounts d @ [new_account u i n r b bu k sec ip pw tp] \<rparr>)"
    if "wf_admin d" "\<not> account_exists d i" "\<not> ip_taken d i ip"
      "\<not> list_ex (\<lambda>a. ar_broker a = b \<and> ar_broker_user_id a = bu) (accounts d)" for d
  proof -
    have "account_ip (new_account u i n r b bu k sec ip pw tp) = None
        \<or> account_ip (new_account u i n r b bu k sec ip pw tp) \<notin> account_ip ` set (accounts d)"
      using that(2,3) by (auto simp: account_ip_def new_account_def nonempty_def ip_taken_def account_exists_def
          split: if_splits)
    then show ?thesis
      using that by (auto simp: wf_admin_defs unique_index_append1 account_exists_def list_ex_iff new_account_def
          account_key_def status_check_def)
  qed
  have upd: "wf_admin (upd_account j (reactivated n r k sec ip pw tp) d)"
    if "wf_admin d" "\<not> ip_taken d j ip" for d j
    using that by (intro wf_upd_account[where ip = ip])
      (auto simp: reactivated_def account_key_def account_ip_def status_check_def)
  show ?thesis
    unfolding CreateAccountWithCredentials_def using wf
    by (auto split: prod.splits sum.splits option.splits dest: wf_admin_query_eq intro!: wf_admin_call add upd)
qed

lemma wf_CreateAccount: "wf_admin d \<Longrightarrow> wf_admin (snd (CreateAccount u i n r b bu k sec ip d))"
  unfolding CreateAccount_def
  by (rule wf_admin_then) (auto dest: wf_CreateAccountWithCredentials, metis snd_conv wf_CreateAccountWithCredentials)

section \<open>Histories\<close>

inductive admin_step :: "db \<Rightarrow> db \<Rightarrow> bool" where
  a_create: "admin_step d (snd (CreateAccountWithCredentials u i n r b bu k sec ip pw tp d))"
| a_creds: "admin_step d (snd (SetAccountEncryptedCredentials i p t d))"
| a_token: "admin_step d (snd (SetAccountAccessToken i tok ex st er d))"
| a_name: "admin_step d (snd (SetAccountName i n d))"
| a_key: "admin_step d (snd (SetAccountAPIKey i n d))"
| a_secret: "admin_step d (snd (SetAccountAPISecret i n d))"
| a_ip: "admin_step d (snd (SetAccountIPAddress i ip d))"
| a_status: "admin_step d (snd (SetAccountStatus i st d))"
| a_active: "admin_step d (snd (SetAccountActive i b d))"
| a_delete: "admin_step d (snd (DeleteAccount i d))"
| a_link: "admin_step d (snd (CreateFollowLink l d))"
| a_terms: "admin_step d (snd (UpdateFollowLinkTerms f c q d))"
| a_unlink: "admin_step d (snd (DeleteFollowLink f d))"
| a_enable: "admin_step d (snd (SetFollowLinkEnabled f b d))"
| a_group: "admin_step d (snd (CreateGroup u i n m d))"
| a_update: "admin_step d (snd (UpdateGroup u i no mo d))"
| a_ungroup: "admin_step d (snd (DeleteGroup i d))"
| a_imbalance: "admin_step d (snd (SetGroupImbalance i b d))"
| a_fault: "admin_step d (d\<lparr> faults := fs \<rparr>)"
| a_clock: "admin_step d (d\<lparr> db_now := t \<rparr>)"

lemma wf_admin_clock: "wf_admin (d\<lparr> db_now := t \<rparr>) = wf_admin d"
  by (simp add: wf_admin_defs)

lemma wf_admin_step: "admin_step d d' \<Longrightarrow> wf_admin d \<Longrightarrow> wf_admin d'"
  by (induction rule: admin_step.induct)
     (simp_all add: wf_CreateAccountWithCredentials wf_account_setters wf_SetAccountIPAddress wf_SetAccountStatus
       wf_SetAccountActive wf_DeleteAccount wf_CreateFollowLink wf_UpdateFollowLinkTerms wf_DeleteFollowLink
       wf_SetFollowLinkEnabled wf_CreateGroup wf_UpdateGroup wf_DeleteGroup wf_SetGroupImbalance wf_admin_clock)

lemma wf_admin_empty [simp]: "wf_admin (empty_db [] instrs)"
  by (simp add: wf_admin_defs empty_db_def)

lemma wf_admin_run: "admin_step\<^sup>*\<^sup>* d d' \<Longrightarrow> wf_admin d \<Longrightarrow> wf_admin d'"
  by (induction rule: rtranclp_induct) (auto intro: wf_admin_step)

section \<open>Properties\<close>

text \<open>
  C9 Administration keeps accounts apart: whatever the order of account, group and link
  operations and whatever calls fail, no two accounts share an id, a broker login or an egress
  address, an account is master of at most one group, and a follower is attached to at most
  one group, which exists.
\<close>
theorem admin_invariant:
  assumes "admin_step\<^sup>*\<^sup>* (empty_db [] instrs) d"
  shows "inj_on ar_id (set (accounts d)) \<and> inj_on account_key (set (accounts d))
    \<and> inj_on ar_ip_address {a \<in> set (accounts d). ar_ip_address a \<noteq> []}
    \<and> inj_on gp_master_id (set (groups d)) \<and> inj_on lk_follower_id (set (follow_links d))
    \<and> lk_group_id ` set (follow_links d) \<subseteq> gp_id ` set (groups d)
    \<and> gp_master_id ` set (groups d) \<subseteq> ar_id ` set (accounts d)"
proof -
  have wf: "wf_admin d" by (rule wf_admin_run[OF assms wf_admin_empty])
  have "inj_on ar_ip_address {a \<in> set (accounts d). ar_ip_address a \<noteq> []}"
  proof (rule inj_onI)
    fix a b assume ab: "a \<in> {a \<in> set (accounts d). ar_ip_address a \<noteq> []}"
      "b \<in> {a \<in> set (accounts d). ar_ip_address a \<noteq> []}" "ar_ip_address a = ar_ip_address b"
    have "unique_index account_ip (accounts d)" using wf by (simp add: wf_admin_defs)
    from unique_index_eq[OF this, of a b] ab show "a = b" by (auto simp: account_ip_def nonempty_def)
  qed
  then show ?thesis using wf by (simp add: wf_admin_defs distinct_map)
qed

lemma map_filter_sub: "set (List.map_filter f xs) = {y. \<exists>x \<in> set xs. f x = Some y}"
  by (induction xs) (auto simp: List.map_filter_simps split: option.splits)

lemma distinct_map_filter_key:
  "distinct (map key xs) \<Longrightarrow> (\<And>x y. f x = Some y \<Longrightarrow> key' y = key x) \<Longrightarrow> distinct (map key' (List.map_filter f xs))"
proof (induction xs)
  case (Cons x xs)
  then show ?case
    by (auto simp: List.map_filter_simps map_filter_sub image_iff split: option.splits)
qed (simp add: List.map_filter_simps)

lemma enabled_link_follower: "enabled_link d m l = Some k \<Longrightarrow> fl_FollowerID k = lk_follower_id l"
  by (auto simp: enabled_link_def split: option.splits if_splits)

lemma enabled_link_faults [simp]: "enabled_link (d\<lparr> faults := fs \<rparr>) m = enabled_link d m"
  by (simp add: enabled_link_def fun_eq_iff)

lemma EnabledFollowLinks_ok:
  "EnabledFollowLinks m d = (Inr ls, d') \<Longrightarrow>
   ls = List.map_filter (enabled_link d m) (follow_links d) \<and> (\<exists>fs. d' = d\<lparr> faults := fs \<rparr>)"
  unfolding EnabledFollowLinks_def
  by (rule db_call_cases[of "\<lambda>d. (Inr (List.map_filter (enabled_link d m) (follow_links d)), d)" d])
     auto

lemma find_id:
  "distinct (map key xs) \<Longrightarrow> find (\<lambda>x. key x = k) xs = Some y \<longleftrightarrow> y \<in> set xs \<and> key y = k"
  by (induction xs) auto

lemma EnabledFollowLinks_distinct:
  "wf_admin d \<Longrightarrow> EnabledFollowLinks m d = (Inr ls, d') \<Longrightarrow> distinct (map fl_FollowerID ls)"
  by (auto dest!: EnabledFollowLinks_ok simp: wf_admin_defs
      intro!: distinct_map_filter_key[where key = lk_follower_id] enabled_link_follower)

text \<open>
  A master's fills are copied to exactly the followers that should get them: the follow links
  the engine loads are those of the enabled, active, not deleted followers attached to the
  master's group, each once.
\<close>
theorem EnabledFollowLinks_exact:
  assumes "wf_admin d" and "EnabledFollowLinks m d = (Inr ls, d')"
  shows "distinct (map fl_FollowerID ls)
    \<and> (\<forall>f. f \<in> fl_FollowerID ` set ls \<longleftrightarrow>
          (\<exists>l a g. l \<in> set (follow_links d) \<and> lk_follower_id l = f \<and> lk_enabled l
             \<and> a \<in> set (accounts d) \<and> ar_id a = f \<and> ar_active a \<and> ar_deleted_at a = None
             \<and> g \<in> set (groups d) \<and> gp_id g = lk_group_id l \<and> gp_master_id g = m))"
proof -
  have ls: "ls = List.map_filter (enabled_link d m) (follow_links d)"
    using EnabledFollowLinks_ok[OF assms(2)] by simp
  have dist: "distinct (map ar_id (accounts d))" "distinct (map gp_id (groups d))"
    using assms(1) by (simp_all add: wf_admin_defs)
  have "(\<exists>k. enabled_link d m l = Some k) \<longleftrightarrow> lk_enabled l
      \<and> (\<exists>a g. find (\<lambda>a. ar_id a = lk_follower_id l) (accounts d) = Some a \<and> ar_active a \<and> ar_deleted_at a = None
           \<and> find (\<lambda>g. gp_id g = lk_group_id l) (groups d) = Some g \<and> gp_master_id g = m)" for l
    by (auto simp: enabled_link_def find_account_def live_def split: option.splits)
  then have link: "(\<exists>k. enabled_link d m l = Some k) \<longleftrightarrow> lk_enabled l
      \<and> (\<exists>a g. a \<in> set (accounts d) \<and> ar_id a = lk_follower_id l \<and> ar_active a \<and> ar_deleted_at a = None
           \<and> g \<in> set (groups d) \<and> gp_id g = lk_group_id l \<and> gp_master_id g = m)" for l
    unfolding find_id[OF dist(1)] find_id[OF dist(2)] by blast
  have "f \<in> fl_FollowerID ` set ls \<longleftrightarrow> (\<exists>l \<in> set (follow_links d). lk_follower_id l = f \<and> (\<exists>k. enabled_link d m l = Some k))" for f
    unfolding ls map_filter_sub using enabled_link_follower by (force simp: image_iff)
  then have "f \<in> fl_FollowerID ` set ls \<longleftrightarrow>
        (\<exists>l a g. l \<in> set (follow_links d) \<and> lk_follower_id l = f \<and> lk_enabled l
           \<and> a \<in> set (accounts d) \<and> ar_id a = f \<and> ar_active a \<and> ar_deleted_at a = None
           \<and> g \<in> set (groups d) \<and> gp_id g = lk_group_id l \<and> gp_master_id g = m)" for f
    unfolding link by auto
  then show ?thesis using EnabledFollowLinks_distinct[OF assms] by (intro conjI allI)
qed

text \<open>
  The status pending is a valid account status for the domain package, but the accounts table
  rejects it: storing it never succeeds, whatever the state of the store.
\<close>
theorem SetAccountStatus_pending_rejected:
  "IsValid AccountStatusPending \<and> fst (SetAccountStatus i AccountStatusPending d) \<noteq> Inr ()"
  by (auto simp: SetAccountStatus_def IsValid_def status_check_def db_call_def pg_check_def
      split: list.splits option.splits)

section \<open>Witnesses\<close>

definition ex_acct :: "uuid \<Rightarrow> string \<Rightarrow> account_row" where
  "ex_acct i role = new_account None i i role ''zerodha'' i ''k'' ''s'' [] [] []"

definition ex_link :: "uuid \<Rightarrow> FollowLink" where
  "ex_link f = \<lparr> fl_FollowerID = f, fl_GroupID = ''g'', fl_MasterID = uuid_Nil, fl_CloneFactor = 1,
     fl_MaxQtyPerOrder = 0, fl_Enabled = True, fl_EffectiveFrom = 0, fl_Status = [], fl_AuthStatus = [] \<rparr>"

definition ex_admin_db :: db where
  "ex_admin_db =
     snd (CreateFollowLink (ex_link ''f'')
      (snd (CreateGroup None ''g'' ''G'' ''m''
       (snd (CreateAccountWithCredentials None ''f'' ''f'' ''follower'' ''zerodha'' ''f'' ''k'' ''s'' [] [] []
        (snd (CreateAccountWithCredentials None ''m'' ''m'' ''master'' ''zerodha'' ''m'' ''k'' ''s'' [] [] []
         (empty_db [] []))))))))"

lemma ex_admin_run: "admin_step\<^sup>*\<^sup>* (empty_db [] []) ex_admin_db"
proof -
  note step = rtranclp.rtrancl_into_rtrancl[where r = admin_step and a = "empty_db [] []"]
  show ?thesis
    unfolding ex_admin_db_def
    by (rule step [OF step [OF step [OF step [OF rtranclp.rtrancl_refl a_create] a_create] a_group] a_link])
qed

lemma numeric6_1 [simp]: "numeric6 1 = 1"
  by (simp add: numeric6_def round_half_away_def)

lemma ex_admin_eq:
  "accounts ex_admin_db = [ex_acct ''m'' ''master'', ex_acct ''f'' ''follower'']"
  "groups ex_admin_db = [\<lparr> gp_id = ''g'', gp_user_id = None, gp_name = ''G'', gp_master_id = ''m'', gp_has_imbalance = False \<rparr>]"
  "follow_links ex_admin_db = [\<lparr> lk_follower_id = ''f'', lk_group_id = ''g'', lk_clone_factor = 1,
     lk_max_qty_per_order = None, lk_enabled = True, lk_effective_from = 1 \<rparr>]"
  "faults ex_admin_db = []"
  by (simp_all add: ex_admin_db_def CreateAccountWithCredentials_def CreateGroup_def CreateFollowLink_def
      db_call_def empty_db_def ex_link_def ex_acct_def new_account_def valid_role_def account_exists_def
      ip_taken_def uuid_Nil_def nullableMaxQty_def)

theorem admin_invariant_witness:
  "inj_on gp_master_id (set (groups ex_admin_db)) \<and> lk_group_id ` set (follow_links ex_admin_db) = {''g''}"
  using admin_invariant[OF ex_admin_run] by (simp add: ex_admin_eq)

theorem EnabledFollowLinks_exact_witness:
  "\<exists>ls. EnabledFollowLinks ''m'' ex_admin_db = (Inr ls, ex_admin_db) \<and> ''f'' \<in> fl_FollowerID ` set ls
     \<and> ''m'' \<notin> fl_FollowerID ` set ls"
proof -
  have run: "EnabledFollowLinks ''m'' ex_admin_db
      = (Inr (List.map_filter (enabled_link ex_admin_db ''m'') (follow_links ex_admin_db)), ex_admin_db)"
    by (simp add: EnabledFollowLinks_def db_call_def ex_admin_eq)
  note * = EnabledFollowLinks_exact[OF wf_admin_run[OF ex_admin_run wf_admin_empty] run]
  from * have iff: "f \<in> fl_FollowerID ` set (List.map_filter (enabled_link ex_admin_db ''m'') (follow_links ex_admin_db)) \<longleftrightarrow>
      (\<exists>l a g. l \<in> set (follow_links ex_admin_db) \<and> lk_follower_id l = f \<and> lk_enabled l
         \<and> a \<in> set (accounts ex_admin_db) \<and> ar_id a = f \<and> ar_active a \<and> ar_deleted_at a = None
         \<and> g \<in> set (groups ex_admin_db) \<and> gp_id g = lk_group_id l \<and> gp_master_id g = ''m'')" for f by blast
  have "''m'' \<notin> fl_FollowerID ` set (List.map_filter (enabled_link ex_admin_db ''m'') (follow_links ex_admin_db))"
    unfolding iff by (simp add: ex_admin_eq)
  moreover have "''f'' \<in> fl_FollowerID ` set (List.map_filter (enabled_link ex_admin_db ''m'') (follow_links ex_admin_db))"
    unfolding iff
    by (rule exI[of _ "hd (follow_links ex_admin_db)"], rule exI[of _ "ex_acct ''f'' ''follower''"],
        rule exI[of _ "hd (groups ex_admin_db)"]) (simp add: ex_admin_eq ex_acct_def new_account_def)
  ultimately show ?thesis using run by blast
qed

end
