(* ===== verification/Squareoff.thy ===== *)
theory Squareoff
  imports Broker Accounts_View Accounts_Inv
begin

text \<open>
  The square-off service (\<open>internal/squareoff/service.go\<close>): cancel the open orders of an account
  and close its positions with opposite market orders, for one account or a whole group. The
  service is stated over records of operations on a state \<open>'s\<close>; a broker handle is the record
  of its operations. The clock is read from the state.
\<close>

section \<open>Interfaces\<close>

record 's BrokerOps =
  bk_PlaceOrder :: "string \<Rightarrow> OrderParams \<Rightarrow> 's \<Rightarrow> OrderResponse result \<times> 's"
  bk_GetPositions :: "'s \<Rightarrow> Position list result \<times> 's"
  bk_GetOpenOrders :: "'s \<Rightarrow> Order list result \<times> 's"
  bk_GetOrders :: "'s \<Rightarrow> Order list result \<times> 's"
  bk_GetOrderHistory :: "string \<Rightarrow> 's \<Rightarrow> Order list result \<times> 's"
  bk_CancelOrder :: "string \<Rightarrow> string \<Rightarrow> 's \<Rightarrow> OrderResponse result \<times> 's"

record 's SquareStore =
  ss_AccountRole :: "uuid \<Rightarrow> 's \<Rightarrow> string result \<times> 's"
  ss_GroupDetail :: "uuid \<Rightarrow> 's \<Rightarrow> GroupDetail result \<times> 's"
  ss_Accounts :: "uuid list option \<Rightarrow> 's \<Rightarrow> Account list result \<times> 's"
  ss_InsertFollowerOrder :: "FollowerOrder \<Rightarrow> 's \<Rightarrow> int result \<times> 's"
  ss_UpdateFollowerOrderPlaced :: "int \<Rightarrow> string \<Rightarrow> int \<Rightarrow> 's \<Rightarrow> unit result \<times> 's"
  ss_UpdateFollowerOrderFailed :: "int \<Rightarrow> string \<Rightarrow> string \<Rightarrow> 's \<Rightarrow> unit result \<times> 's"
  ss_SetGroupImbalance :: "uuid \<Rightarrow> bool \<Rightarrow> 's \<Rightarrow> unit result \<times> 's"

record 's TradeService =
  ts_store :: "'s SquareStore"
  ts_ResolveBroker :: "uuid \<Rightarrow> 's \<Rightarrow> 's BrokerOps result \<times> 's"
  ts_Syncer :: "(uuid \<Rightarrow> 's \<Rightarrow> unit result \<times> 's) option"
  ts_Now :: "'s \<Rightarrow> gotime"

section \<open>Helpers\<close>

definition matchSymbol :: "string \<Rightarrow> string list \<Rightarrow> bool" where
  "matchSymbol symb selectedSymbols \<longleftrightarrow> selectedSymbols = []
     \<or> list_ex (\<lambda>s. EqualFold (TrimSpace s) (TrimSpace symb)) selectedSymbols"

definition isAuthError :: "go_error \<Rightarrow> bool" where
  "isAuthError err \<longleftrightarrow> (let msg = ToLower (err_Error err) in
     Contains msg ''tokenexception'' \<or> Contains msg ''incorrect `api_key` or `access_token`''
     \<or> Contains msg ''incorrect api_key or access_token'' \<or> Contains msg ''invalid token'')"

text \<open>The seconds since 1970 of an instant counted from year 1.\<close>

definition Unix :: "gotime \<Rightarrow> int" where
  "Unix t = t div Second - 62135596800"

definition short_id :: "uuid \<Rightarrow> string" where
  "short_id accountID = take 4 (filter (\<lambda>c. c \<noteq> CHR ''-'') accountID)"

definition square_tag :: "string \<Rightarrow> uuid \<Rightarrow> gotime \<Rightarrow> string" where
  "square_tag role accountID now =
     take 20 (''sqoff-'' @ (if role = [] then ''a'' else ToLower (take 1 role)) @ ''-'' @ short_id accountID
       @ ''-'' @ pad7 (Unix now mod 10000000))"

section \<open>One account\<close>

text \<open>Cancelling open orders: the number of cancelled orders.\<close>

fun cancel_open :: "'s BrokerOps \<Rightarrow> string list \<Rightarrow> Order list \<Rightarrow> int \<Rightarrow> 's \<Rightarrow> int \<times> 's" where
  "cancel_open b symbols [] n s = (n, s)"
| "cancel_open b symbols (o1 # os) n s =
     (if matchSymbol (bo_Tradingsymbol o1) symbols then
        (case bk_CancelOrder b ''regular'' (bo_OrderID o1) s of
           (Inl err, s1) \<Rightarrow> cancel_open b symbols os n s1
         | (Inr resp, s1) \<Rightarrow> cancel_open b symbols os (n + 1) s1)
      else cancel_open b symbols os n s)"

text \<open>The positions, with one retry after a portfolio sync when the session was rejected.\<close>

definition positions_with_retry ::
  "'s TradeService \<Rightarrow> uuid \<Rightarrow> 's BrokerOps \<Rightarrow> 's \<Rightarrow> Position list result \<times> 's BrokerOps \<times> 's" where
  "positions_with_retry S accountID b s = (case bk_GetPositions b s of
      (Inr ps, s1) \<Rightarrow> (Inr ps, b, s1)
    | (Inl err, s1) \<Rightarrow>
        (case ts_Syncer S of
           None \<Rightarrow> (Inl err, b, s1)
         | Some sync \<Rightarrow>
             if \<not> isAuthError err then (Inl err, b, s1)
             else (case sync accountID s1 of
                 (Inl syncErr, s2) \<Rightarrow> (Inl err, b, s2)
               | (Inr u, s2) \<Rightarrow> (case ts_ResolveBroker S accountID s2 of
                     (Inl rErr, s3) \<Rightarrow> (Inl err, b, s3)
                   | (Inr b', s3) \<Rightarrow> (case bk_GetPositions b' s3 of (r, s4) \<Rightarrow> (r, b', s4))))))"

definition counter_side :: "Position \<Rightarrow> string" where
  "counter_side p = (if ps_Quantity p < 0 then ''BUY'' else ''SELL'')"

definition counter_params :: "Position \<Rightarrow> string \<Rightarrow> OrderParams" where
  "counter_params p tag = \<lparr> op_Exchange = ps_Exchange p, op_Tradingsymbol = ps_Tradingsymbol p,
     op_TransactionType = counter_side p, op_Product = ps_Product p, op_OrderType = ''MARKET'',
     op_Quantity = go_abs (ps_Quantity p), op_Price = 0, op_TriggerPrice = 0, op_Tag = tag \<rparr>"

definition counter_order :: "uuid \<Rightarrow> Position \<Rightarrow> string \<Rightarrow> FollowerOrder" where
  "counter_order accountID p tag = FollowerOrder_zero\<lparr> fo_FollowerID := accountID, fo_IdempotencyTag := tag,
     fo_IntendedQty := go_abs (ps_Quantity p), fo_Origin := ''square_off'',
     fo_Tradingsymbol := ps_Tradingsymbol p, fo_Exchange := ps_Exchange p, fo_Product := ps_Product p,
     fo_TransactionType := counter_side p, fo_OrderType := ''MARKET'' \<rparr>"

definition placed_order :: "uuid \<Rightarrow> string \<Rightarrow> Position \<Rightarrow> string \<Rightarrow> SquareOffOrder" where
  "placed_order accountID role p orderID = \<lparr> so_AccountID = accountID, so_Role = role, so_BrokerOrderID = orderID,
     so_Exchange = ps_Exchange p, so_Tradingsymbol = ps_Tradingsymbol p, so_Product = ps_Product p,
     so_Side = counter_side p, so_Quantity = go_abs (ps_Quantity p), so_Status = ''placed'' \<rparr>"

text \<open>Closing one position: the pre-inserted row of a follower, the market order, its outcome.\<close>

definition close_position ::
  "'s TradeService \<Rightarrow> uuid \<Rightarrow> string \<Rightarrow> 's BrokerOps \<Rightarrow> Position \<Rightarrow> SquareOffResult \<Rightarrow> 's \<Rightarrow> SquareOffResult \<times> 's" where
  "close_position S accountID role b p res s =
     (let tag = square_tag role accountID (ts_Now S s);
          (followerOrderID, s1) = (if role = ''follower'' then
             (case ss_InsertFollowerOrder (ts_store S) (counter_order accountID p tag) s of
                (Inl err, s1) \<Rightarrow> (0, s1) | (Inr i, s1) \<Rightarrow> (i, s1))
             else (0, s))
      in case bk_PlaceOrder b ''regular'' (counter_params p tag) s1 of
           (Inl err, s2) \<Rightarrow>
             (res\<lparr> sr_Errors := sr_Errors res @ [''account '' @ accountID @ '' square off '' @ ps_Tradingsymbol p @ '': '' @ err_Error err],
                   sr_Status := ''partial'' \<rparr>,
              if followerOrderID > 0
              then snd (ss_UpdateFollowerOrderFailed (ts_store S) followerOrderID ''REJECTED'' (err_Error err) s2) else s2)
         | (Inr resp, s2) \<Rightarrow>
             (res\<lparr> sr_PositionsSquaredOff := sr_PositionsSquaredOff res + 1,
                   sr_Orders := sr_Orders res @ [placed_order accountID role p (or_OrderID resp)] \<rparr>,
              if followerOrderID > 0
              then snd (ss_UpdateFollowerOrderPlaced (ts_store S) followerOrderID (or_OrderID resp) (go_abs (ps_Quantity p)) s2)
              else s2))"

fun close_positions ::
  "'s TradeService \<Rightarrow> uuid \<Rightarrow> string \<Rightarrow> string list \<Rightarrow> 's BrokerOps \<Rightarrow> Position list \<Rightarrow> SquareOffResult \<Rightarrow> 's
     \<Rightarrow> SquareOffResult \<times> 's" where
  "close_positions S accountID role symbols b [] res s = (res, s)"
| "close_positions S accountID role symbols b (p # ps) res s =
     (if ps_Quantity p = 0 \<or> \<not> matchSymbol (ps_Tradingsymbol p) symbols
      then close_positions S accountID role symbols b ps res s
      else (case close_position S accountID role b p res s of
              (res1, s1) \<Rightarrow> close_positions S accountID role symbols b ps res1 s1))"

text \<open>The check of a follower before anything is sent.\<close>

definition follower_check :: "'s TradeService \<Rightarrow> uuid \<Rightarrow> string \<Rightarrow> 's \<Rightarrow> unit result \<times> 's" where
  "follower_check S accountID role s =
     (if role \<noteq> ''follower'' then (Inr (), s)
      else case ss_Accounts (ts_store S) (Some [accountID]) s of
        (Inl err, s1) \<Rightarrow> (Inl (errorf ''load account'' err), s1)
      | (Inr [], s1) \<Rightarrow> (Inl ErrNotFound, s1)
      | (Inr (a # as), s1) \<Rightarrow>
          if \<not> acc_Enabled a then (Inl (errorf (''follower '' @ accountID) ErrAccountDisabled), s1) else (Inr (), s1))"

definition new_square_result :: "uuid \<Rightarrow> string \<Rightarrow> SquareOffResult" where
  "new_square_result accountID role = \<lparr> sr_Action = ''square_off'', sr_Status = ''completed'', sr_GroupID = None,
     sr_AccountID = Some accountID, sr_Role = role, sr_FollowersAffected = 1, sr_CancelledOrders = 0,
     sr_PositionsSquaredOff = 0, sr_Orders = [], sr_Errors = [] \<rparr>"

text \<open>The part after the broker is resolved.\<close>

definition square_off_with ::
  "'s TradeService \<Rightarrow> uuid \<Rightarrow> string \<Rightarrow> string list \<Rightarrow> 's BrokerOps \<Rightarrow> 's \<Rightarrow> SquareOffResult result \<times> 's" where
  "square_off_with S accountID role symbols b s =
     (let (cancelled, s1) = (case bk_GetOpenOrders b s of
             (Inl err, s1) \<Rightarrow> (0, s1) | (Inr os, s1) \<Rightarrow> cancel_open b symbols os 0 s1)
      in case positions_with_retry S accountID b s1 of
           (Inl err, b', s2) \<Rightarrow> (Inl (errorf ''fetch positions'' err), s2)
         | (Inr ps, b', s2) \<Rightarrow>
             (case close_positions S accountID role symbols b' ps
                     ((new_square_result accountID role)\<lparr> sr_CancelledOrders := cancelled \<rparr>) s2 of
                (res, s3) \<Rightarrow> (Inr (if sr_PositionsSquaredOff res = 0 \<and> sr_Errors res = []
                                then res\<lparr> sr_Status := ''completed'' \<rparr> else res), case ts_Syncer S of None \<Rightarrow> s3 | Some sync \<Rightarrow> snd (sync accountID s3))))"

definition SquareOffAccount ::
  "'s TradeService \<Rightarrow> uuid \<Rightarrow> string list \<Rightarrow> 's \<Rightarrow> SquareOffResult result \<times> 's" where
  "SquareOffAccount S accountID symbols s = (case ss_AccountRole (ts_store S) accountID s of
      (Inl err, s1) \<Rightarrow> (Inl (errorf ''check account role'' err), s1)
    | (Inr role, s1) \<Rightarrow> (case follower_check S accountID role s1 of
          (Inl err, s2) \<Rightarrow> (Inl err, s2)
        | (Inr u, s2) \<Rightarrow> (case ts_ResolveBroker S accountID s2 of
              (Inl err, s3) \<Rightarrow> (Inl (errorf ''resolve broker'' err), s3)
            | (Inr b, s3) \<Rightarrow> square_off_with S accountID role symbols b s3)))"

section \<open>A whole group\<close>

text \<open>Folding one account's outcome into the group's result; \<open>who\<close> is \<open>master\<close> or \<open>follower\<close>.\<close>

definition merge_square :: "string \<Rightarrow> uuid \<Rightarrow> SquareOffResult result \<Rightarrow> SquareOffResult \<Rightarrow> SquareOffResult" where
  "merge_square who accountID r res = (case r of
      Inl err \<Rightarrow> res\<lparr> sr_Errors := sr_Errors res @ [who @ '' '' @ accountID @ '': '' @ err_Error err], sr_Status := ''partial'' \<rparr>
    | Inr f \<Rightarrow> res\<lparr> sr_CancelledOrders := sr_CancelledOrders res + sr_CancelledOrders f,
        sr_PositionsSquaredOff := sr_PositionsSquaredOff res + sr_PositionsSquaredOff f,
        sr_Orders := sr_Orders res @ sr_Orders f, sr_Errors := sr_Errors res @ sr_Errors f,
        sr_Status := (if sr_Errors f \<noteq> [] then ''partial'' else sr_Status res) \<rparr>)"

fun square_followers ::
  "'s TradeService \<Rightarrow> string list \<Rightarrow> uuid list \<Rightarrow> SquareOffResult \<Rightarrow> 's \<Rightarrow> SquareOffResult \<times> 's" where
  "square_followers S symbols [] res s = (res, s)"
| "square_followers S symbols (f # fs) res s =
     (case SquareOffAccount S f symbols s of
        (r, s1) \<Rightarrow> square_followers S symbols fs (merge_square ''follower'' f r res) s1)"

text \<open>
  The followers run in goroutines; \<open>sched\<close> is the order in which they finish. Calls of different
  accounts do not interleave in the model: each account's calls go to its own broker.
\<close>

definition SquareOffGroup ::
  "(uuid list \<Rightarrow> uuid list) \<Rightarrow> 's TradeService \<Rightarrow> uuid \<Rightarrow> string list \<Rightarrow> 's \<Rightarrow> SquareOffResult result \<times> 's" where
  "SquareOffGroup sched S groupID symbols s = (case ss_GroupDetail (ts_store S) groupID s of
      (Inl err, s1) \<Rightarrow> (Inl (errorf ''load group detail'' err), s1)
    | (Inr detail, s1) \<Rightarrow>
        let enabled = map gf_AccountID (filter gf_Enabled (gd_Followers detail));
            res0 = \<lparr> sr_Action = ''square_off'', sr_Status = ''completed'', sr_GroupID = Some groupID,
              sr_AccountID = Some (gd_MasterID detail), sr_Role = ''master'',
              sr_FollowersAffected = int (length enabled), sr_CancelledOrders = 0, sr_PositionsSquaredOff = 0,
              sr_Orders = [], sr_Errors = [] \<rparr>
        in case SquareOffAccount S (gd_MasterID detail) symbols s1 of
             (mr, s2) \<Rightarrow> (case square_followers S symbols (sched enabled)
                               (merge_square ''master'' (gd_MasterID detail) mr res0) s2 of
                (res, s3) \<Rightarrow> (Inr res,
                   if symbols = [] \<and> sr_Errors res = [] \<and> sr_Status res = ''completed''
                   then snd (ss_SetGroupImbalance (ts_store S) groupID False s3) else s3)))"

section \<open>The contract of a trading desk\<close>

text \<open>
  What the services rely on. \<open>mine a b\<close> says that \<open>b\<close> is a broker of account \<open>a\<close>. The calls of
  \<open>desk_reads\<close> leave an observation of the state alone; on a trading desk the observation is the log
  of order requests, and an order request is logged under the account whose broker it is sent to.
\<close>

locale desk_reads =
  fixes S :: "'s TradeService" and obs :: "'s \<Rightarrow> 'o" and mine :: "uuid \<Rightarrow> 's BrokerOps \<Rightarrow> bool"
  assumes resolve: "ts_ResolveBroker S a s = (r, s') \<Longrightarrow>
      obs s' = obs s \<and> (case r of Inl _ \<Rightarrow> True | Inr b \<Rightarrow> mine a b)"
    and read_positions: "mine a b \<Longrightarrow> bk_GetPositions b s = (rp, s') \<Longrightarrow> obs s' = obs s"
    and read_open: "mine a b \<Longrightarrow> bk_GetOpenOrders b s = (rr, s') \<Longrightarrow> obs s' = obs s"
    and cancel_order: "mine a b \<Longrightarrow> bk_CancelOrder b v i s = (ro, s') \<Longrightarrow> obs s' = obs s"
    and sync: "ts_Syncer S = Some f \<Longrightarrow> f a s = (ru, s') \<Longrightarrow> obs s' = obs s"
    and role: "ss_AccountRole (ts_store S) a s = (rt, s') \<Longrightarrow> obs s' = obs s"
    and accounts: "ss_Accounts (ts_store S) ids s = (ra, s') \<Longrightarrow> obs s' = obs s"

context desk_reads begin

lemma cancel_frame:
  "cancel_open b symbols os n s = (n', s') \<Longrightarrow> mine a b \<Longrightarrow> obs s' = obs s"
proof (induction os arbitrary: n s)
  case (Cons o1 os)
  then show ?case
    using cancel_order[of a b "''regular''" "bo_OrderID o1" s] by (fastforce split: if_splits prod.splits sum.splits)
qed simp

lemma retry_frame:
  assumes "positions_with_retry S a b s = (r, b', s')" "mine a b"
  shows "obs s' = obs s \<and> mine a b' \<and> ((\<exists>e. r = Inl e) \<or> (\<exists>s0 s1. bk_GetPositions b' s0 = (r, s1)))"
proof -
  obtain g s1 where g: "bk_GetPositions b s = (g, s1)" by (rule prod.exhaust)
  note s1 = read_positions[OF assms(2) g]
  show ?thesis
  proof (cases "\<exists>err f. g = Inl err \<and> ts_Syncer S = Some f \<and> isAuthError err")
    case True
    then obtain err f where f: "g = Inl err" "ts_Syncer S = Some f" "isAuthError err" by blast
    obtain y s2 where y: "f a s1 = (y, s2)" by (rule prod.exhaust)
    note s2 = sync[OF f(2) y]
    obtain w s3 where w: "ts_ResolveBroker S a s2 = (w, s3)" by (rule prod.exhaust)
    note s3 = resolve[OF w]
    show ?thesis
    proof (cases "\<exists>u b2. y = Inr u \<and> w = Inr b2")
      case True
      then obtain u b2 where b2: "y = Inr u" "w = Inr b2" by blast
      obtain g2 s4 where g2: "bk_GetPositions b2 s3 = (g2, s4)" by (rule prod.exhaust)
      have "mine a b2" using s3 b2 by simp
      note s4 = read_positions[OF this g2]
      have "r = g2" "b' = b2" "s' = s4" using assms(1) g f y w b2 g2 by (simp_all add: positions_with_retry_def)
      then show ?thesis using \<open>mine a b2\<close> s1 s2 s3 s4 g2 by auto
    next
      case False
      then have "(\<exists>e. r = Inl e) \<and> b' = b \<and> (s' = s2 \<or> s' = s3)"
        using assms(1) g f y w by (auto simp: positions_with_retry_def split: sum.splits)
      then show ?thesis using s1 s2 s3 assms(2) by auto
    qed
  next
    case False
    then have "r = g" "b' = b" "s' = s1"
      using assms(1) g by (auto simp: positions_with_retry_def split: sum.splits option.splits)
    then show ?thesis using s1 g assms(2) by auto
  qed
qed

lemma follower_check_frame: "follower_check S a role s = (r, s') \<Longrightarrow> obs s' = obs s"
  using accounts[of "Some [a]" s] by (auto simp: follower_check_def split: if_splits prod.splits sum.splits list.splits)

lemma sync_frame: "obs (case ts_Syncer S of None \<Rightarrow> s | Some f \<Rightarrow> snd (f a s)) = obs s"
  using sync[OF _ prod.collapse[symmetric]] by (simp split: option.split)


end

locale trading_desk = desk_reads S placed mine
  for S :: "'s TradeService" and placed :: "'s \<Rightarrow> (uuid \<times> OrderParams) list" and mine :: "uuid \<Rightarrow> 's BrokerOps \<Rightarrow> bool" +
  assumes place: "mine a b \<Longrightarrow> bk_PlaceOrder b v q s = (ro, s') \<Longrightarrow> placed s' = placed s @ [(a, q)]"
    and insert_order: "ss_InsertFollowerOrder (ts_store S) fo s = (ri, s') \<Longrightarrow> placed s' = placed s"
    and set_placed: "ss_UpdateFollowerOrderPlaced (ts_store S) k b' n s = (ru, s') \<Longrightarrow> placed s' = placed s"
    and set_failed: "ss_UpdateFollowerOrderFailed (ts_store S) k st msg s = (ru, s') \<Longrightarrow> placed s' = placed s"

text \<open>What an order request does to a position, and what would close one.\<close>

definition order_effect :: "OrderParams \<Rightarrow> string \<times> string \<times> string \<times> int" where
  "order_effect q = (op_Exchange q, op_Tradingsymbol q, op_Product q,
     if op_TransactionType q = ''BUY'' then op_Quantity q else - op_Quantity q)"

definition closing_effect :: "Position \<Rightarrow> string \<times> string \<times> string \<times> int" where
  "closing_effect p = (ps_Exchange p, ps_Tradingsymbol p, ps_Product p, - ps_Quantity p)"

definition market_order :: "OrderParams \<Rightarrow> bool" where
  "market_order q \<longleftrightarrow> op_OrderType q = ''MARKET'' \<and> op_Price q = 0 \<and> op_TriggerPrice q = 0"

definition to_close :: "string list \<Rightarrow> Position list \<Rightarrow> Position list" where
  "to_close symbols ps = filter (\<lambda>p. ps_Quantity p \<noteq> 0 \<and> matchSymbol (ps_Tradingsymbol p) symbols) ps"

definition position_ok :: "Position \<Rightarrow> bool" where
  "position_ok p \<longleftrightarrow> in64 (ps_Quantity p) \<and> ps_Quantity p \<noteq> - (2 ^ 63)"

lemma counter_effect: "position_ok p \<Longrightarrow> order_effect (counter_params p tag) = closing_effect p"
  by (simp add: order_effect_def closing_effect_def counter_params_def counter_side_def position_ok_def go_abs_eq)

lemma counter_market [simp]: "market_order (counter_params p tag)"
  by (simp add: market_order_def counter_params_def)

definition attempts :: "SquareOffResult \<Rightarrow> nat" where
  "attempts res = length (sr_Orders res) + length (sr_Errors res)"

context trading_desk begin

lemma close_one:
  assumes "close_position S a role b p res s = (res', s')" "mine a b" "position_ok p"
  shows "\<exists>q. placed s' = placed s @ [(a, q)] \<and> market_order q \<and> order_effect q = closing_effect p
    \<and> attempts res' = attempts res + 1"
proof -
  let ?tag = "square_tag role a (ts_Now S s)"
  obtain i s1 where i: "(if role = ''follower'' then (case ss_InsertFollowerOrder (ts_store S) (counter_order a p ?tag) s of
                (Inl err, s1) \<Rightarrow> (0, s1) | (Inr i, s1) \<Rightarrow> (i, s1)) else (0, s)) = (i, s1)" by (rule prod.exhaust)
  have s1: "placed s1 = placed s"
    using i insert_order[of "counter_order a p ?tag" s] by (auto split: if_splits prod.splits sum.splits)
  obtain r s2 where r: "bk_PlaceOrder b ''regular'' (counter_params p ?tag) s1 = (r, s2)" by (rule prod.exhaust)
  have s2: "placed s2 = placed s @ [(a, counter_params p ?tag)]" using place[OF assms(2) r] s1 by simp
  have "placed s' = placed s2"
    using assms(1) i r set_failed[OF prod.collapse[symmetric]] set_placed[OF prod.collapse[symmetric]]
    by (cases r) (auto simp: close_position_def Let_def split: if_splits)
  moreover have "attempts res' = attempts res + 1"
    using assms(1) i r by (cases r) (auto simp: close_position_def Let_def attempts_def)
  ultimately show ?thesis using s2 counter_effect[OF assms(3)] by auto
qed

lemma close_all:
  "close_positions S a role symbols b ps res s = (res', s') \<Longrightarrow> mine a b \<Longrightarrow> list_all position_ok ps \<Longrightarrow>
   \<exists>qs. placed s' = placed s @ map (Pair a) qs \<and> list_all market_order qs \<and> map order_effect qs = map closing_effect (to_close symbols ps)
     \<and> attempts res' = attempts res + length (to_close symbols ps)"
proof (induction ps arbitrary: res s)
  case Nil
  then show ?case by (auto simp: to_close_def)
next
  case (Cons p ps)
  show ?case
  proof (cases "ps_Quantity p = 0 \<or> \<not> matchSymbol (ps_Tradingsymbol p) symbols")
    case True
    then show ?thesis using Cons.prems Cons.IH[of res s] by (auto simp: to_close_def)
  next
    case False
    obtain res1 s1 where c: "close_position S a role b p res s = (res1, s1)" by (rule prod.exhaust)
    have "position_ok p" using Cons.prems(3) by simp
    then obtain q where q: "placed s1 = placed s @ [(a, q)]" "market_order q" "order_effect q = closing_effect p"
        "attempts res1 = attempts res + 1"
      using close_one[OF c Cons.prems(2)] by blast
    have "close_positions S a role symbols b ps res1 s1 = (res', s')" using Cons.prems(1) False c by simp
    then obtain qs where "placed s' = placed s1 @ map (Pair a) qs" "list_all market_order qs" "map order_effect qs = map closing_effect (to_close symbols ps)"
        "attempts res' = attempts res1 + length (to_close symbols ps)"
      using Cons.IH Cons.prems(2,3) by fastforce
    then show ?thesis using q False by (intro exI[of _ "q # qs"]) (simp add: to_close_def)
  qed
qed

end

text \<open>A desk on which an account's positions are those of a given book.\<close>

locale booked_desk = trading_desk S placed mine
  for S :: "'s TradeService" and placed :: "'s \<Rightarrow> (uuid \<times> OrderParams) list" and mine :: "uuid \<Rightarrow> 's BrokerOps \<Rightarrow> bool" +
  fixes book :: "uuid \<Rightarrow> Position list result"
  assumes positions_of: "mine a b \<Longrightarrow> bk_GetPositions b s = (rp, s') \<Longrightarrow> rp = book a"

context booked_desk begin

definition closes :: "uuid \<Rightarrow> string list \<Rightarrow> Position list \<Rightarrow> SquareOffResult result \<Rightarrow> 's \<Rightarrow> 's \<Rightarrow> bool" where
  "closes a symbols ps r s s' \<longleftrightarrow> (case r of
      Inl _ \<Rightarrow> placed s' = placed s
    | Inr res \<Rightarrow> attempts res = length (to_close symbols ps) \<and> (\<exists>qs. placed s' = placed s @ map (Pair a) qs
        \<and> list_all market_order qs \<and> map order_effect qs = map closing_effect (to_close symbols ps)))"

lemma square_off_with_closes:
  assumes "square_off_with S a role symbols b s = (r, s')" "mine a b" "book a = Inr ps" "list_all position_ok ps"
  shows "closes a symbols ps r s s'"
proof -
  obtain go t where g: "bk_GetOpenOrders b s = (go, t)" by (rule prod.exhaust)
  obtain n s1 where n: "(case go of Inl err \<Rightarrow> (0, t) | Inr os \<Rightarrow> cancel_open b symbols os 0 t) = (n, s1)" by (rule prod.exhaust)
  have s1: "placed s1 = placed s"
    using read_open[OF assms(2) g] n cancel_frame[OF _ assms(2)] by (fastforce split: sum.splits)
  obtain rp b' s2 where p: "positions_with_retry S a b s1 = (rp, b', s2)" by (metis prod_cases3)
  note s2 = retry_frame[OF p assms(2)]
  have shape: "square_off_with S a role symbols b s = (case positions_with_retry S a b s1 of
           (Inl err, b', s2) \<Rightarrow> (Inl (errorf ''fetch positions'' err), s2)
         | (Inr ps, b', s2) \<Rightarrow>
             (case close_positions S a role symbols b' ps ((new_square_result a role)\<lparr> sr_CancelledOrders := n \<rparr>) s2 of
                (res, s3) \<Rightarrow> (Inr (if sr_PositionsSquaredOff res = 0 \<and> sr_Errors res = []
                                then res\<lparr> sr_Status := ''completed'' \<rparr> else res),
                              case ts_Syncer S of None \<Rightarrow> s3 | Some sync \<Rightarrow> snd (sync a s3))))"
    using g n by (cases go) (auto simp: square_off_with_def Let_def)
  show ?thesis
  proof (cases rp)
    case (Inl err)
    then show ?thesis using assms(1) shape p s1 s2 by (auto simp: closes_def)
  next
    case (Inr ps')
    then have "ps' = ps" using s2 positions_of[of a b'] assms(3) by fastforce
    obtain res s3 where c: "close_positions S a role symbols b' ps ((new_square_result a role)\<lparr> sr_CancelledOrders := n \<rparr>) s2 = (res, s3)"
      by (rule prod.exhaust)
    have "attempts ((new_square_result a role)\<lparr> sr_CancelledOrders := n \<rparr>) = 0" by (simp add: attempts_def new_square_result_def)
    moreover have "attempts (res\<lparr> sr_Status := ''completed'' \<rparr>) = attempts res" by (simp add: attempts_def)
    ultimately show ?thesis
      using close_all[OF c _ assms(4)] s1 s2 assms(1) shape p Inr \<open>ps' = ps\<close> c sync_frame by (auto simp: closes_def)
  qed
qed

lemma account_closes:
  assumes "SquareOffAccount S a symbols s = (r, s')" "book a = Inr ps" "list_all position_ok ps"
  shows "closes a symbols ps r s s'"
proof -
  obtain ro s1 where ro: "ss_AccountRole (ts_store S) a s = (ro, s1)" by (rule prod.exhaust)
  note s1 = role[OF ro]
  show ?thesis
  proof (cases ro)
    case (Inl e)
    then show ?thesis using assms(1) ro s1 by (auto simp: SquareOffAccount_def closes_def)
  next
    case (Inr rl)
    obtain c s2 where c: "follower_check S a rl s1 = (c, s2)" by (rule prod.exhaust)
    note s2 = follower_check_frame[OF c]
    obtain w s3 where w: "ts_ResolveBroker S a s2 = (w, s3)" by (rule prod.exhaust)
    note s3 = resolve[OF w]
    show ?thesis
    proof (cases "\<exists>u b. c = Inr u \<and> w = Inr b")
      case True
      then obtain u b where b: "c = Inr u" "w = Inr b" by blast
      then have "square_off_with S a rl symbols b s3 = (r, s')" using assms(1) ro Inr c w by (simp add: SquareOffAccount_def)
      from square_off_with_closes[OF this _ assms(2,3)] s1 s2 s3 b show ?thesis by (auto simp: closes_def split: sum.splits)
    next
      case False
      then have "(\<exists>e. r = Inl e) \<and> (s' = s2 \<or> s' = s3)"
        using assms(1) ro Inr c w by (auto simp: SquareOffAccount_def split: sum.splits)
      then show ?thesis using s1 s2 s3 by (auto simp: closes_def)
    qed
  qed
qed

end

section \<open>The desk on the store\<close>

text \<open>
  The services with the store's methods and the brokers of the accounts: order requests and
  cancellations are logged, the replies to order requests come from a script that can be
  anything, and the positions and open orders of an account are given.
\<close>

record desk =
  dk_db :: db
  dk_placed :: "(uuid \<times> OrderParams) list"
  dk_cancelled :: "(uuid \<times> string) list"
  dk_replies :: "OrderResponse result list"

definition on_desk :: "(db \<Rightarrow> 'a \<times> db) \<Rightarrow> desk \<Rightarrow> 'a \<times> desk" where
  "on_desk f k = (case f (dk_db k) of (x, d) \<Rightarrow> (x, k\<lparr> dk_db := d \<rparr>))"

definition next_reply :: "desk \<Rightarrow> OrderResponse result" where
  "next_reply k = (case dk_replies k of [] \<Rightarrow> Inl (Plain ''broker unreachable'') | r # rs \<Rightarrow> r)"

definition desk_broker ::
  "(uuid \<Rightarrow> Position list result) \<Rightarrow> (uuid \<Rightarrow> Order list result) \<Rightarrow> uuid \<Rightarrow> desk BrokerOps" where
  "desk_broker book opens a = \<lparr>
     bk_PlaceOrder = (\<lambda>v q k. (next_reply k, k\<lparr> dk_placed := dk_placed k @ [(a, q)], dk_replies := tl (dk_replies k) \<rparr>)),
     bk_GetPositions = (\<lambda>k. (book a, k)), bk_GetOpenOrders = (\<lambda>k. (opens a, k)), bk_GetOrders = (\<lambda>k. (opens a, k)),
     bk_GetOrderHistory = (\<lambda>i k. (opens a, k)),
     bk_CancelOrder = (\<lambda>v i k. (Inr \<lparr> or_OrderID = i \<rparr>, k\<lparr> dk_cancelled := dk_cancelled k @ [(a, i)] \<rparr>)) \<rparr>"

definition desk_store :: "row_order \<Rightarrow> uuid option \<Rightarrow> desk SquareStore" where
  "desk_store order_by u = \<lparr> ss_AccountRole = (\<lambda>i. on_desk (AccountRole i)),
     ss_GroupDetail = (\<lambda>g. on_desk (GroupDetail_of id u g)), ss_Accounts = (\<lambda>ids. on_desk (Accounts order_by u ids)),
     ss_InsertFollowerOrder = (\<lambda>fo. on_desk (InsertFollowerOrder fo)),
     ss_UpdateFollowerOrderPlaced = (\<lambda>i b q. on_desk (UpdateFollowerOrderPlaced i b q)),
     ss_UpdateFollowerOrderFailed = (\<lambda>i st m. on_desk (UpdateFollowerOrderFailed i st m)),
     ss_SetGroupImbalance = (\<lambda>g b. on_desk (SetGroupImbalance g b)) \<rparr>"

definition desk_service ::
  "row_order \<Rightarrow> uuid option \<Rightarrow> (uuid \<Rightarrow> Position list result) \<Rightarrow> (uuid \<Rightarrow> Order list result) \<Rightarrow> desk TradeService" where
  "desk_service order_by u book opens = \<lparr> ts_store = desk_store order_by u,
     ts_ResolveBroker = (\<lambda>a k. (Inr (desk_broker book opens a), k)), ts_Syncer = None,
     ts_Now = (\<lambda>k. db_now (dk_db k)) \<rparr>"

lemma on_desk_frame: "on_desk f k = (r, k') \<Longrightarrow> dk_placed k' = dk_placed k"
  by (auto simp: on_desk_def split: prod.splits)

interpretation sq: booked_desk "desk_service order_by u book opens" dk_placed "\<lambda>a b. b = desk_broker book opens a" book
  by unfold_locales (auto simp: desk_service_def desk_store_def desk_broker_def dest: on_desk_frame)

text \<open>A follower that is not enabled is refused before its broker is resolved.\<close>

lemma disabled_follower_refused:
  assumes "SquareOffAccount S a symbols k = (r, k')" "ss_AccountRole (ts_store S) a k = (Inr ''follower'', k1)"
    "ss_Accounts (ts_store S) (Some [a]) k1 = (Inr (acc # accs), k2)" "\<not> acc_Enabled acc"
  shows "\<exists>e. r = Inl e \<and> errors_Is e ErrAccountDisabled"
  using assms by (auto simp: SquareOffAccount_def follower_check_def)

text \<open>
  C19 Square-off closes exactly the chosen positions: when squaring off an account returns a result,
  the order requests sent to its broker are, in order, one market order for each open position
  with a chosen symbol, on the opposite side and of the position's whole size, and the result
  counts as many placed orders and errors together; when it returns an error, nothing was sent.
  A follower whose loaded account is disabled is refused with the disabled-account error.
\<close>
theorem square_off_closes_positions:
  assumes "book a = Inr ps" and "list_all position_ok ps"
    and "SquareOffAccount (desk_service order_by u book opens) a symbols k = (r, k')"
  shows "(case r of
      Inl _ \<Rightarrow> dk_placed k' = dk_placed k
    | Inr res \<Rightarrow> length (sr_Orders res) + length (sr_Errors res) = length (to_close symbols ps)
        \<and> (\<exists>qs. dk_placed k' = dk_placed k @ map (Pair a) qs
              \<and> list_all (\<lambda>q. op_OrderType q = ''MARKET'' \<and> op_Price q = 0 \<and> op_TriggerPrice q = 0) qs
              \<and> map order_effect qs = map closing_effect (to_close symbols ps)))
    \<and> (\<forall>d1 acc accs d2. AccountRole a (dk_db k) = (Inr ''follower'', d1) \<and>
         Accounts order_by u (Some [a]) d1 = (Inr (acc # accs), d2) \<and> \<not> acc_Enabled acc \<longrightarrow>
         (\<exists>e. r = Inl e \<and> errors_Is e ErrAccountDisabled))"
proof (intro conjI allI impI)
  show "case r of
      Inl _ \<Rightarrow> dk_placed k' = dk_placed k
    | Inr res \<Rightarrow> length (sr_Orders res) + length (sr_Errors res) = length (to_close symbols ps)
        \<and> (\<exists>qs. dk_placed k' = dk_placed k @ map (Pair a) qs
              \<and> list_all (\<lambda>q. op_OrderType q = ''MARKET'' \<and> op_Price q = 0 \<and> op_TriggerPrice q = 0) qs
              \<and> map order_effect qs = map closing_effect (to_close symbols ps))"
    using sq.account_closes[OF assms(3,1,2)] unfolding sq.closes_def attempts_def market_order_def .
next
  fix d1 acc accs d2
  assume "AccountRole a (dk_db k) = (Inr ''follower'', d1) \<and> Accounts order_by u (Some [a]) d1 = (Inr (acc # accs), d2) \<and> \<not> acc_Enabled acc"
  then show "\<exists>e. r = Inl e \<and> errors_Is e ErrAccountDisabled"
    using disabled_follower_refused[OF assms(3), of "k\<lparr> dk_db := d1 \<rparr>" acc accs "k\<lparr> dk_db := d2 \<rparr>"]
    by (simp add: desk_service_def desk_store_def on_desk_def)
qed

section \<open>Examples\<close>

definition ex_position :: "string \<Rightarrow> int \<Rightarrow> Position" where
  "ex_position symb q = \<lparr> ps_Exchange = ''NSE'', ps_Tradingsymbol = symb, ps_Product = ''MIS'', ps_Quantity = q,
     ps_AveragePrice = 100, ps_LastPrice = 100, ps_M2M = 0, ps_PnL = 0 \<rparr>"

definition ex_book :: "uuid \<Rightarrow> Position list result" where
  "ex_book a = Inr [ex_position ''INFY'' 10, ex_position ''TCS'' (- 5)]"

definition ex_desk :: desk where
  "ex_desk = \<lparr> dk_db = ex_admin_db, dk_placed = [], dk_cancelled = [],
     dk_replies = [Inr \<lparr> or_OrderID = ''o1'' \<rparr>, Inr \<lparr> or_OrderID = ''o2'' \<rparr>] \<rparr>"

lemma ex_desk_db:
  "accounts ex_admin_db = [ex_acct ''m'' ''master'', ex_acct ''f'' ''follower'']"
  "follow_links ex_admin_db = [\<lparr> lk_follower_id = ''f'', lk_group_id = ''g'', lk_clone_factor = 1,
     lk_max_qty_per_order = None, lk_enabled = True, lk_effective_from = 1 \<rparr>]"
  "faults ex_admin_db = []" "follower_orders ex_admin_db = []" "fo_next ex_admin_db = 1" "pending_order_updates ex_admin_db = []"
  "db_now ex_admin_db = 1"
  by (simp_all add: ex_admin_eq) (simp_all add: ex_admin_db_def CreateAccountWithCredentials_def CreateGroup_def CreateFollowLink_def
      db_call_def empty_db_def ex_link_def new_account_def valid_role_def account_exists_def ip_taken_def uuid_Nil_def)

lemma acc_Enabled_row: "acc_Enabled (accountFromRow r now) = avr_Enabled r"
  by (simp add: accountFromRow_def case_prod_beta)

text \<open>The account is an enabled follower.\<close>

lemma ex_follower_check:
  "follower_check (desk_service id None ex_book opens) ''f'' ''follower'' ex_desk = (Inr (), ex_desk)"
proof -
  have "account_rows (Some [''f'']) None ex_admin_db = [accounts_row (ex_acct ''f'' ''follower'') (Some (hd (follow_links ex_admin_db)))
      (Some (hd (groups ex_admin_db)))]"
    by (simp add: account_rows_def ex_admin_eq ex_acct_def new_account_def live_def left_join_def)
  moreover have "avr_Enabled (accounts_row (ex_acct ''f'' ''follower'') (Some (hd (follow_links ex_admin_db)))
      (Some (hd (groups ex_admin_db))))" by (simp add: accounts_row_def ex_admin_eq)
  ultimately show ?thesis
    by (simp add: follower_check_def desk_service_def desk_store_def on_desk_def Accounts_def db_call_def ex_desk_def ex_desk_db
        acc_Enabled_row)
qed

lemma ex_square:
  "SquareOffAccount (desk_service id None ex_book (\<lambda>_. Inr [])) ''f'' [] ex_desk
   = square_off_with (desk_service id None ex_book (\<lambda>_. Inr [])) ''f'' ''follower'' [] (desk_broker ex_book (\<lambda>_. Inr []) ''f'') ex_desk"
proof -
  have "ss_AccountRole (ts_store (desk_service id None ex_book (\<lambda>_. Inr []))) ''f'' ex_desk = (Inr ''follower'', ex_desk)"
    by (simp add: desk_service_def desk_store_def on_desk_def AccountRole_def db_call_def ex_desk_def ex_desk_db
        ex_acct_def new_account_def live_def)
  then show ?thesis using ex_follower_check by (simp add: SquareOffAccount_def) (simp add: desk_service_def)
qed

theorem square_off_closes_positions_witness:
  "\<exists>qs. dk_placed (snd (SquareOffAccount (desk_service id None ex_book (\<lambda>_. Inr [])) ''f'' [] ex_desk)) = map (Pair ''f'') qs
     \<and> list_all (\<lambda>q. op_OrderType q = ''MARKET'') qs
     \<and> map order_effect qs = [(''NSE'', ''INFY'', ''MIS'', - 10), (''NSE'', ''TCS'', ''MIS'', 5)]"
proof -
  let ?r = "SquareOffAccount (desk_service id None ex_book (\<lambda>_. Inr [])) ''f'' [] ex_desk"
  let ?ps = "[ex_position ''INFY'' 10, ex_position ''TCS'' (- 5)]"
  have "\<exists>res. fst ?r = Inr res"
    unfolding ex_square
    by (simp add: square_off_with_def desk_service_def desk_broker_def positions_with_retry_def ex_book_def Let_def
        case_prod_beta)
  then obtain res where "?r = (Inr res, snd ?r)" by (metis prod.collapse)
  moreover have "ex_book ''f'' = Inr ?ps" "list_all position_ok ?ps" "to_close [] ?ps = ?ps"
    by (simp_all add: ex_book_def position_ok_def ex_position_def in64_def to_close_def matchSymbol_def)
  ultimately show ?thesis
    using square_off_closes_positions[of ex_book "''f''" ?ps id None "\<lambda>_. Inr []" "[]" ex_desk "Inr res" "snd ?r", THEN conjunct1]
    by (auto simp: ex_desk_def closing_effect_def ex_position_def list_all_iff)
qed

text \<open>
  Two positions closed within one second share a tag: a follower with two open positions gets two
  market orders with the same tag, but only the first has a stored order; the second order has
  no row of its own, and its first status update by tag takes over the first order's row.
\<close>
theorem square_off_orders_share_tag:
  "let (r, k) = SquareOffAccount (desk_service id None ex_book (\<lambda>_. Inr [])) ''f'' [] ex_desk;
       t = square_tag ''follower'' ''f'' 1
   in map (op_Tag \<circ> snd) (dk_placed k) = [t, t]
      \<and> map (\<lambda>x. (fr_idempotency_tag x, fr_tradingsymbol x, fr_broker_order_id x)) (follower_orders (dk_db k)) = [(t, ''INFY'', Some ''o1'')]
      \<and> map (\<lambda>x. (fr_tradingsymbol x, fr_broker_order_id x))
          (follower_orders (snd (UpdateFollowerOrderByTag ''f'' t ''o2'' ''COMPLETE'' 5 100 (dk_db k)))) = [(''INFY'', Some ''o2'')]"
  unfolding ex_square
  by (simp add: square_off_with_def desk_service_def desk_broker_def positions_with_retry_def ex_book_def Let_def
      close_position_def desk_store_def on_desk_def InsertFollowerOrder_def UpdateFollowerOrderPlaced_def
      UpdateFollowerOrderByTag_def db_call_def ex_desk_def ex_desk_db ex_position_def matchSymbol_def next_reply_def
      counter_order_def counter_params_def FollowerOrder_zero_def tag_taken_def pair_taken_def fo_pair_def order_row_def
      order_refs_ok_def account_exists_def ex_acct_def new_account_def add_order_def update_where_def broker_id_taken_def
      fo_broker_key_def nonempty_def null_price_def)

end
