(* ===== verification/Rebalance.thy ===== *)
theory Rebalance
  imports Squareoff
begin

text \<open>
  The rebalance service (\<open>internal/rebalance/service.go\<close>): the drift of a follower's positions
  from the target that sizing gives for the master's positions, and the market orders that remove
  it, for one follower or a group. The service is the square-off's record of operations with the
  lot-size lookup. The order in which Go ranges over a map is an argument.
\<close>

section \<open>Service and errors\<close>

record 's RebalanceService =
  rb_base :: "'s TradeService"
  rb_InstrumentLotSize :: "string \<Rightarrow> string \<Rightarrow> 's \<Rightarrow> int result \<times> 's"

definition isBrokerUnreachableError :: "go_error \<Rightarrow> bool" where
  "isBrokerUnreachableError err \<longleftrightarrow> contains_any (ToLower (err_Error err))
     [''connection refused'', ''timeout'', ''deadline exceeded'', ''no such host'', ''502'', ''503'', ''504'',
      ''network'', ''broker is not reachable'']"

definition wrapBrokerError :: "string \<Rightarrow> go_error \<Rightarrow> go_error" where
  "wrapBrokerError prefix err =
     (if isAuthError err then Wrapf (prefix @ '': '') ErrAuthExpired ('' ('' @ err_Error err @ '')'')
      else Wrapf (prefix @ '': '') ErrBrokerUnreachable ('' ('' @ err_Error err @ '')''))"

definition getPositionsWithRetry ::
  "'s RebalanceService \<Rightarrow> 's BrokerOps \<Rightarrow> uuid \<Rightarrow> 's \<Rightarrow> Position list result \<times> 's BrokerOps \<times> 's" where
  "getPositionsWithRetry R b accountID = positions_with_retry (rb_base R) accountID b"

section \<open>Drift\<close>

type_synonym posKey = "string \<times> string"

definition pos_key :: "Position \<Rightarrow> posKey" where
  "pos_key p = (ps_Exchange p, ps_Tradingsymbol p)"

text \<open>The index of the open positions: a later position with the same key replaces an earlier one.\<close>

definition put_pos :: "Position \<Rightarrow> (posKey \<rightharpoonup> Position) \<Rightarrow> (posKey \<rightharpoonup> Position)" where
  "put_pos p m = (if ps_Quantity p \<noteq> 0 then m(pos_key p \<mapsto> p) else m)"

definition pos_index :: "Position list \<Rightarrow> posKey \<rightharpoonup> Position" where
  "pos_index ps = fold put_pos ps Map.empty"

definition open_keys :: "Position list \<Rightarrow> posKey list" where
  "open_keys ps = map pos_key (filter (\<lambda>p. ps_Quantity p \<noteq> 0) ps)"

definition all_keys :: "Position list \<Rightarrow> Position list \<Rightarrow> posKey list" where
  "all_keys mps fps = remdups (open_keys mps @ open_keys fps)"

definition Position_zero :: Position where
  "Position_zero = \<lparr> ps_Exchange = [], ps_Tradingsymbol = [], ps_Product = [], ps_Quantity = 0,
     ps_AveragePrice = 0, ps_LastPrice = 0, ps_M2M = 0, ps_PnL = 0 \<rparr>"

definition pos_at :: "(posKey \<rightharpoonup> Position) \<Rightarrow> posKey \<Rightarrow> Position" where
  "pos_at m k = (case m k of None \<Rightarrow> Position_zero | Some p \<Rightarrow> p)"

definition targetQty :: "decimal_pkg \<Rightarrow> decimal \<Rightarrow> int \<Rightarrow> int \<Rightarrow> int \<Rightarrow> int" where
  "targetQty P cloneFactor maxQty lotSize masterQty =
     (if masterQty = 0 then 0
      else case SizeOrder P (go_abs masterQty) cloneFactor lotSize maxQty of
        (absTarget, reason) \<Rightarrow>
          if reason = ReasonOK \<or> reason = ReasonCapped
          then (if masterQty > 0 then absTarget else wrap64 (- absTarget)) else 0)"

definition symbol_drift ::
  "decimal_pkg \<Rightarrow> decimal \<Rightarrow> int \<Rightarrow> int \<Rightarrow> posKey \<Rightarrow> Position \<Rightarrow> Position \<Rightarrow> SymbolDrift option" where
  "symbol_drift P cloneFactor maxQty lotSize key mPos fPos =
     (let product = (if ps_Product mPos \<noteq> [] then ps_Product mPos
                     else if ps_Product fPos \<noteq> [] then ps_Product fPos else ''CNC'');
          target = targetQty P cloneFactor maxQty lotSize (ps_Quantity mPos);
          drift = wrap64 (target - ps_Quantity fPos)
      in if drift = 0 then None
         else Some \<lparr> sd_Exchange = fst key, sd_Tradingsymbol = snd key, sd_Product = product, sd_LotSize = lotSize,
                sd_MasterQty = ps_Quantity mPos, sd_TargetQty = target, sd_FollowerQty = ps_Quantity fPos,
                sd_DriftQty = drift, sd_Action = (if drift < 0 then ''SELL'' else ''BUY'') \<rparr>)"

definition drift_lot :: "'s RebalanceService \<Rightarrow> posKey \<Rightarrow> 's \<Rightarrow> int \<times> 's" where
  "drift_lot R key s = (case rb_InstrumentLotSize R (fst key) (snd key) s of
      (Inl err, s1) \<Rightarrow> (1, s1) | (Inr l, s1) \<Rightarrow> (if l \<le> 0 then 1 else l, s1))"

fun drift_loop ::
  "decimal_pkg \<Rightarrow> 's RebalanceService \<Rightarrow> decimal \<Rightarrow> int \<Rightarrow> (posKey \<rightharpoonup> Position) \<Rightarrow> (posKey \<rightharpoonup> Position)
     \<Rightarrow> posKey list \<Rightarrow> 's \<Rightarrow> SymbolDrift list \<times> 's" where
  "drift_loop P R cf maxQty mm fm [] s = ([], s)"
| "drift_loop P R cf maxQty mm fm (key # ks) s =
     (case drift_lot R key s of (lotSize, s1) \<Rightarrow>
        (case drift_loop P R cf maxQty mm fm ks s1 of (ds, s2) \<Rightarrow>
           (case symbol_drift P cf maxQty lotSize key (pos_at mm key) (pos_at fm key) of None \<Rightarrow> ds | Some d \<Rightarrow> d # ds, s2)))"

type_synonym key_order = "posKey list \<Rightarrow> posKey list"

definition calculateFollowerDrift ::
  "decimal_pkg \<Rightarrow> key_order \<Rightarrow> 's RebalanceService \<Rightarrow> Account \<Rightarrow> Position list \<Rightarrow> Position list \<Rightarrow> 's
     \<Rightarrow> FollowerDrift result \<times> 's" where
  "calculateFollowerDrift P ord R acc masterPositions followerPositions s =
     (let cloneFactor = (case acc_CloneFactor acc of None \<Rightarrow> 1 | Some c \<Rightarrow> if 0 < c then c else 1);
          maxQty = (case acc_MaxQtyPerOrder acc of None \<Rightarrow> 0 | Some q \<Rightarrow> q)
      in case drift_loop P R cloneFactor maxQty (pos_index masterPositions) (pos_index followerPositions)
                (ord (all_keys masterPositions followerPositions)) s of
           (ds, s1) \<Rightarrow> (Inr \<lparr> fd_AccountID = acc_ID acc, fd_AccountName = acc_Name acc,
              fd_BrokerAccountID = acc_BrokerAccountID acc, fd_Enabled = acc_Enabled acc,
              fd_CloneFactor = cloneFactor, fd_Symbols = ds \<rparr>, s1))"

section \<open>Diffs\<close>

definition ComputeAccountDiff ::
  "decimal_pkg \<Rightarrow> key_order \<Rightarrow> 's RebalanceService \<Rightarrow> uuid \<Rightarrow> 's \<Rightarrow> FollowerDrift result \<times> 's" where
  "ComputeAccountDiff P ord R followerID s =
     (case ss_Accounts (ts_store (rb_base R)) (Some [followerID]) s of
        (Inl err, s1) \<Rightarrow> (Inl (errorf ''load follower account'' err), s1)
      | (Inr [], s1) \<Rightarrow> (Inl ErrNotFound, s1)
      | (Inr (acc # accs), s1) \<Rightarrow>
          (case (if acc_Role acc = ''follower'' then acc_MasterID acc else None) of
             None \<Rightarrow> (Inl (errorf (''account '' @ followerID @ '' is not a linked follower'') ErrNotFound), s1)
           | Some masterID \<Rightarrow>
               (case ts_ResolveBroker (rb_base R) masterID s1 of
                  (Inl err, s2) \<Rightarrow> (Inl (wrapBrokerError ''resolve master broker'' err), s2)
                | (Inr bMaster, s2) \<Rightarrow>
                    (case ts_ResolveBroker (rb_base R) followerID s2 of
                       (Inl err, s3) \<Rightarrow> (Inl (wrapBrokerError ''resolve follower broker'' err), s3)
                     | (Inr bFollower, s3) \<Rightarrow>
                         (case getPositionsWithRetry R bMaster masterID s3 of
                            (Inl err, b1, s4) \<Rightarrow> (Inl (wrapBrokerError ''fetch master positions'' err), s4)
                          | (Inr mps, b1, s4) \<Rightarrow>
                              (case getPositionsWithRetry R bFollower followerID s4 of
                                 (Inl err, b2, s5) \<Rightarrow> (Inl (wrapBrokerError ''fetch follower positions'' err), s5)
                               | (Inr fps, b2, s5) \<Rightarrow> calculateFollowerDrift P ord R acc mps fps s5))))))"

text \<open>The loop over the followers of a group, which stops at the first error.\<close>

fun group_drifts ::
  "decimal_pkg \<Rightarrow> key_order \<Rightarrow> 's RebalanceService \<Rightarrow> (uuid \<rightharpoonup> Account) \<Rightarrow> Position list \<Rightarrow> GroupFollower list \<Rightarrow> 's
     \<Rightarrow> FollowerDrift list result \<times> 's" where
  "group_drifts P ord R accMap mps [] s = (Inr [], s)"
| "group_drifts P ord R accMap mps (gf # gfs) s =
     (let acc = (case accMap (gf_AccountID gf) of
                   Some a \<Rightarrow> a
                 | None \<Rightarrow> Account_zero\<lparr> acc_ID := gf_AccountID gf, acc_Name := gf_Name gf,
                             acc_BrokerAccountID := gf_BrokerAccountID gf, acc_Enabled := gf_Enabled gf \<rparr>);
          displayName = (if gf_Name gf = [] then gf_BrokerAccountID gf else gf_Name gf)
      in case ts_ResolveBroker (rb_base R) (gf_AccountID gf) s of
           (Inl err, s1) \<Rightarrow> (Inl (wrapBrokerError (''resolve follower '' @ displayName @ '' broker'') err), s1)
         | (Inr b, s1) \<Rightarrow>
             (case getPositionsWithRetry R b (gf_AccountID gf) s1 of
                (Inl err, b', s2) \<Rightarrow> (Inl (wrapBrokerError (''fetch follower '' @ displayName @ '' positions'') err), s2)
              | (Inr fps, b', s2) \<Rightarrow>
                  (case calculateFollowerDrift P ord R acc mps fps s2 of
                     (Inl err, s3) \<Rightarrow> (Inl (errorf (''calculate follower '' @ displayName @ '' drift'') err), s3)
                   | (Inr fd, s3) \<Rightarrow>
                       (case group_drifts P ord R accMap mps gfs s3 of
                          (Inl err, s4) \<Rightarrow> (Inl err, s4)
                        | (Inr fds, s4) \<Rightarrow> (Inr (if fd_Symbols fd = [] then fds else fd # fds), s4)))))"

definition ComputeGroupDiff ::
  "decimal_pkg \<Rightarrow> key_order \<Rightarrow> 's RebalanceService \<Rightarrow> uuid \<Rightarrow> 's \<Rightarrow> GroupRebalanceDiff result \<times> 's" where
  "ComputeGroupDiff P ord R groupID s =
     (case ss_GroupDetail (ts_store (rb_base R)) groupID s of
        (Inl err, s1) \<Rightarrow> (Inl (errorf ''load group detail'' err), s1)
      | (Inr detail, s1) \<Rightarrow>
          (case ts_ResolveBroker (rb_base R) (gd_MasterID detail) s1 of
             (Inl err, s2) \<Rightarrow> (Inl (wrapBrokerError ''resolve master broker'' err), s2)
           | (Inr bMaster, s2) \<Rightarrow>
               (case getPositionsWithRetry R bMaster (gd_MasterID detail) s2 of
                  (Inl err, b1, s3) \<Rightarrow> (Inl (wrapBrokerError ''fetch master positions'' err), s3)
                | (Inr mps, b1, s3) \<Rightarrow>
                    (case ss_Accounts (ts_store (rb_base R)) (Some (map gf_AccountID (gd_Followers detail))) s3 of
                       (Inl err, s4) \<Rightarrow> (Inl (errorf ''load follower accounts'' err), s4)
                     | (Inr accs, s4) \<Rightarrow>
                         (case group_drifts P ord R (map_of (rev (map (\<lambda>a. (acc_ID a, a)) accs))) mps (gd_Followers detail) s4 of
                            (Inl err, s5) \<Rightarrow> (Inl err, s5)
                          | (Inr fds, s5) \<Rightarrow>
                              let target = (if gd_GroupID detail = uuid_Nil then groupID else gd_GroupID detail);
                                  (_, s6) = ss_SetGroupImbalance (ts_store (rb_base R)) target (list_ex fd_Enabled fds) s5
                              in (Inr \<lparr> gr_GroupID = groupID, gr_MasterID = gd_MasterID detail,
                                    gr_FollowersEvaluated = int (length (gd_Followers detail)),
                                    gr_FollowersWithDrift = int (length fds), gr_Drifts = fds \<rparr>, s6))))))"

section \<open>Rebalancing one follower\<close>

fun cancel_drifting :: "'s BrokerOps \<Rightarrow> string list \<Rightarrow> Order list \<Rightarrow> int \<Rightarrow> 's \<Rightarrow> int \<times> 's" where
  "cancel_drifting b symbols [] n s = (n, s)"
| "cancel_drifting b symbols (o1 # os) n s =
     (if list_ex (EqualFold (bo_Tradingsymbol o1)) symbols then
        (case bk_CancelOrder b ''regular'' (bo_OrderID o1) s of
           (Inl err, s1) \<Rightarrow> cancel_drifting b symbols os n s1
         | (Inr resp, s1) \<Rightarrow> cancel_drifting b symbols os (n + 1) s1)
      else cancel_drifting b symbols os n s)"

definition rebal_tag :: "uuid \<Rightarrow> gotime \<Rightarrow> string" where
  "rebal_tag followerID now = take 20 (''rebal-f-'' @ short_id followerID @ ''-'' @ pad7 (Unix now mod 10000000))"

definition drift_params :: "SymbolDrift \<Rightarrow> string \<Rightarrow> OrderParams" where
  "drift_params d tag = \<lparr> op_Exchange = sd_Exchange d, op_Tradingsymbol = sd_Tradingsymbol d,
     op_TransactionType = sd_Action d, op_Product = sd_Product d, op_OrderType = ''MARKET'',
     op_Quantity = go_abs (sd_DriftQty d), op_Price = 0, op_TriggerPrice = 0, op_Tag = tag \<rparr>"

definition drift_order :: "uuid \<Rightarrow> SymbolDrift \<Rightarrow> string \<Rightarrow> FollowerOrder" where
  "drift_order followerID d tag = FollowerOrder_zero\<lparr> fo_FollowerID := followerID, fo_IdempotencyTag := tag,
     fo_IntendedQty := go_abs (sd_DriftQty d), fo_Origin := ''rebalance'',
     fo_Tradingsymbol := sd_Tradingsymbol d, fo_Exchange := sd_Exchange d, fo_Product := sd_Product d,
     fo_TransactionType := sd_Action d, fo_OrderType := ''MARKET'' \<rparr>"

definition place_drift ::
  "'s RebalanceService \<Rightarrow> uuid \<Rightarrow> 's BrokerOps \<Rightarrow> SymbolDrift \<Rightarrow> RebalanceResult \<Rightarrow> 's \<Rightarrow> RebalanceResult \<times> 's" where
  "place_drift R followerID b d res s =
     (let store = ts_store (rb_base R); tag = rebal_tag followerID (ts_Now (rb_base R) s);
          (followerOrderID, s1) = (case ss_InsertFollowerOrder store (drift_order followerID d tag) s of
             (Inl err, s1) \<Rightarrow> (0, s1) | (Inr i, s1) \<Rightarrow> (i, s1))
      in case bk_PlaceOrder b ''regular'' (drift_params d tag) s1 of
           (Inl err, s2) \<Rightarrow>
             (res\<lparr> rr_Errors := rr_Errors res @ [''follower '' @ followerID @ '' rebalance '' @ sd_Action d @ '' ''
                                 @ sd_Tradingsymbol d @ '': '' @ err_Error err], rr_Status := ''partial'' \<rparr>,
              if followerOrderID > 0
              then snd (ss_UpdateFollowerOrderFailed store followerOrderID ''REJECTED'' (err_Error err) s2) else s2)
         | (Inr resp, s2) \<Rightarrow>
             (res\<lparr> rr_OrdersPlaced := rr_OrdersPlaced res + 1,
                   rr_Orders := rr_Orders res @ [\<lparr> ro_AccountID = followerID, ro_Role = ''follower'',
                     ro_BrokerOrderID = or_OrderID resp, ro_Exchange = sd_Exchange d, ro_Tradingsymbol = sd_Tradingsymbol d,
                     ro_Product = sd_Product d, ro_Side = sd_Action d, ro_Quantity = go_abs (sd_DriftQty d),
                     ro_Status = ''placed'' \<rparr>] \<rparr>,
              if followerOrderID > 0
              then snd (ss_UpdateFollowerOrderPlaced store followerOrderID (or_OrderID resp) (go_abs (sd_DriftQty d)) s2)
              else s2))"

fun place_drifts ::
  "'s RebalanceService \<Rightarrow> uuid \<Rightarrow> 's BrokerOps \<Rightarrow> SymbolDrift list \<Rightarrow> RebalanceResult \<Rightarrow> 's \<Rightarrow> RebalanceResult \<times> 's" where
  "place_drifts R followerID b [] res s = (res, s)"
| "place_drifts R followerID b (d # ds) res s =
     (if go_abs (sd_DriftQty d) = 0 then place_drifts R followerID b ds res s
      else (case place_drift R followerID b d res s of (res1, s1) \<Rightarrow> place_drifts R followerID b ds res1 s1))"

definition new_rebalance_result :: "uuid option \<Rightarrow> uuid option \<Rightarrow> int \<Rightarrow> RebalanceResult" where
  "new_rebalance_result groupID accountID affected = \<lparr> rr_Action = ''rebalance'', rr_Status = ''completed'',
     rr_GroupID = groupID, rr_AccountID = accountID, rr_FollowersAffected = affected, rr_CancelledOrders = 0,
     rr_OrdersPlaced = 0, rr_Orders = [], rr_Errors = [] \<rparr>"

text \<open>The part after the drift is computed and the follower found enabled.\<close>

definition rebalance_with ::
  "'s RebalanceService \<Rightarrow> uuid \<Rightarrow> SymbolDrift list \<Rightarrow> 's \<Rightarrow> RebalanceResult result \<times> 's" where
  "rebalance_with R followerID ds s =
     (if ds = [] then (Inr (new_rebalance_result None (Some followerID) 1), s)
      else case ts_ResolveBroker (rb_base R) followerID s of
        (Inl err, s1) \<Rightarrow> (Inl (errorf ''resolve follower broker'' err), s1)
      | (Inr b, s1) \<Rightarrow>
          let (cancelled, s2) = (case bk_GetOpenOrders b s1 of
                (Inl err, s2) \<Rightarrow> (0, s2) | (Inr os, s2) \<Rightarrow> cancel_drifting b (map sd_Tradingsymbol ds) os 0 s2)
          in case place_drifts R followerID b ds
                    ((new_rebalance_result None (Some followerID) 1)\<lparr> rr_CancelledOrders := cancelled \<rparr>) s2 of
               (res, s3) \<Rightarrow> (Inr res,
                  case ts_Syncer (rb_base R) of None \<Rightarrow> s3 | Some sync \<Rightarrow> snd (sync followerID s3)))"

definition RebalanceAccount ::
  "decimal_pkg \<Rightarrow> key_order \<Rightarrow> 's RebalanceService \<Rightarrow> uuid \<Rightarrow> 's \<Rightarrow> RebalanceResult result \<times> 's" where
  "RebalanceAccount P ord R followerID s = (case ComputeAccountDiff P ord R followerID s of
      (Inl err, s1) \<Rightarrow> (Inl err, s1)
    | (Inr drift, s1) \<Rightarrow>
        if \<not> fd_Enabled drift then (Inl (errorf (''follower '' @ followerID) ErrAccountDisabled), s1)
        else rebalance_with R followerID (fd_Symbols drift) s1)"

section \<open>Rebalancing a group\<close>

definition merge_rebalance :: "uuid \<Rightarrow> RebalanceResult result \<Rightarrow> RebalanceResult \<Rightarrow> RebalanceResult" where
  "merge_rebalance followerID r res = (case r of
      Inl err \<Rightarrow> res\<lparr> rr_Errors := rr_Errors res @ [''follower '' @ followerID @ '': '' @ err_Error err],
        rr_Status := ''partial'' \<rparr>
    | Inr f \<Rightarrow> res\<lparr> rr_CancelledOrders := rr_CancelledOrders res + rr_CancelledOrders f,
        rr_OrdersPlaced := rr_OrdersPlaced res + rr_OrdersPlaced f, rr_Orders := rr_Orders res @ rr_Orders f,
        rr_Errors := rr_Errors res @ rr_Errors f,
        rr_Status := (if rr_Errors f \<noteq> [] then ''partial'' else rr_Status res) \<rparr>)"

fun rebalance_followers ::
  "decimal_pkg \<Rightarrow> key_order \<Rightarrow> 's RebalanceService \<Rightarrow> uuid list \<Rightarrow> RebalanceResult \<Rightarrow> 's \<Rightarrow> RebalanceResult \<times> 's" where
  "rebalance_followers P ord R [] res s = (res, s)"
| "rebalance_followers P ord R (f # fs) res s =
     (case RebalanceAccount P ord R f s of (r, s1) \<Rightarrow> rebalance_followers P ord R fs (merge_rebalance f r res) s1)"

text \<open>As for the square-off, \<open>sched\<close> is the order in which the goroutines finish.\<close>

definition RebalanceGroup ::
  "(uuid list \<Rightarrow> uuid list) \<Rightarrow> decimal_pkg \<Rightarrow> key_order \<Rightarrow> 's RebalanceService \<Rightarrow> uuid \<Rightarrow> uuid list \<Rightarrow> 's
     \<Rightarrow> RebalanceResult result \<times> 's" where
  "RebalanceGroup sched P ord R groupID followerIDs s = (case ComputeGroupDiff P ord R groupID s of
      (Inl err, s1) \<Rightarrow> (Inl err, s1)
    | (Inr diff, s1) \<Rightarrow>
        let targets = filter (\<lambda>d. fd_Enabled d \<and> (followerIDs = [] \<or> fd_AccountID d \<in> set followerIDs)) (gr_Drifts diff);
            res0 = new_rebalance_result (Some groupID) None (int (length targets))
        in if targets = [] then (Inr res0, s1)
           else case rebalance_followers P ord R (sched (map fd_AccountID targets)) res0 s1 of
             (res, s2) \<Rightarrow>
               let active = length (filter fd_Enabled (gr_Drifts diff));
                   target = (if gr_GroupID diff \<noteq> uuid_Nil then gr_GroupID diff else groupID)
               in (Inr res, if active > 0 \<and> length targets = active \<and> rr_Errors res = [] \<and> rr_Status res = ''completed''
                     then snd (ss_SetGroupImbalance (ts_store (rb_base R)) target False s2) else s2))"

section \<open>Specification\<close>

text \<open>
  The net quantity of an instrument in a list of positions, and the quantity a follower should
  hold: the sized copy of the master's, on the master's side.
\<close>

definition net_qty :: "Position list \<Rightarrow> posKey \<Rightarrow> int" where
  "net_qty ps k = sum_list (map ps_Quantity (filter (\<lambda>p. pos_key p = k) ps))"

definition target_spec :: "decimal \<Rightarrow> int \<Rightarrow> int \<Rightarrow> int \<Rightarrow> int" where
  "target_spec cf cap lot m = sgn m * fst (size_spec \<bar>m\<bar> cf lot cap)"

definition drift_key :: "SymbolDrift \<Rightarrow> posKey" where
  "drift_key d = (sd_Exchange d, sd_Tradingsymbol d)"

definition net_drift :: "SymbolDrift list \<Rightarrow> posKey \<Rightarrow> int" where
  "net_drift ds k = sum_list (map sd_DriftQty (filter (\<lambda>d. drift_key d = k) ds))"

definition net_ordered :: "OrderParams list \<Rightarrow> posKey \<Rightarrow> int" where
  "net_ordered qs k = sum_list (map (\<lambda>(e, y, p, n). n) (filter (\<lambda>(e, y, p, n). (e, y) = k) (map order_effect qs)))"

text \<open>Quantities of which no difference overflows, and one open position per instrument.\<close>

definition copy_ok :: "decimal \<Rightarrow> int \<Rightarrow> bool" where
  "copy_ok cf m \<longleftrightarrow> \<bar>m\<bar> < 2 ^ 62 \<and> of_int \<bar>m\<bar> * cf < 2 ^ 62"

definition books_ok :: "decimal \<Rightarrow> Position list \<Rightarrow> Position list \<Rightarrow> bool" where
  "books_ok cf mps fps \<longleftrightarrow> list_all (\<lambda>p. copy_ok cf (ps_Quantity p)) mps \<and> list_all (\<lambda>p. \<bar>ps_Quantity p\<bar> < 2 ^ 62) fps
     \<and> distinct (open_keys mps) \<and> distinct (open_keys fps)"

text \<open>An order of iteration visits every key of the map once.\<close>

definition enumerates :: "key_order \<Rightarrow> bool" where
  "enumerates ord \<longleftrightarrow> (\<forall>ks. distinct ks \<longrightarrow> distinct (ord ks) \<and> set (ord ks) = set ks)"

definition clone_factor_of :: "Account \<Rightarrow> decimal" where
  "clone_factor_of acc = (case acc_CloneFactor acc of None \<Rightarrow> 1 | Some c \<Rightarrow> if 0 < c then c else 1)"

definition max_qty_of :: "Account \<Rightarrow> int" where
  "max_qty_of acc = (case acc_MaxQtyPerOrder acc of None \<Rightarrow> 0 | Some q \<Rightarrow> q)"

section \<open>The index of positions\<close>

lemma open_keys_simps [simp]:
  "open_keys [] = []"
  "open_keys (p # ps) = (if ps_Quantity p \<noteq> 0 then pos_key p # open_keys ps else open_keys ps)"
  by (simp_all add: open_keys_def)

lemma net_qty_simps [simp]:
  "net_qty [] k = 0" "net_qty (p # ps) k = (if pos_key p = k then ps_Quantity p else 0) + net_qty ps k"
  by (simp_all add: net_qty_def)

lemma net_qty_closed: "k \<notin> set (open_keys ps) \<Longrightarrow> net_qty ps k = 0"
  by (induction ps) (auto split: if_splits)

lemma pos_at_empty [simp]: "pos_at Map.empty k = Position_zero"
  by (simp add: pos_at_def)

lemma pos_at_put: "pos_at (put_pos p m) k = (if ps_Quantity p \<noteq> 0 \<and> pos_key p = k then p else pos_at m k)"
  by (simp add: pos_at_def put_pos_def)

lemma pos_index_fold:
  "distinct (open_keys ps) \<Longrightarrow> k \<in> set (open_keys ps) \<longrightarrow> ps_Quantity (pos_at m k) = 0 \<Longrightarrow>
   ps_Quantity (pos_at (fold put_pos ps m) k) = ps_Quantity (pos_at m k) + net_qty ps k"
proof (induction ps arbitrary: m)
  case (Cons p ps)
  then show ?case using Cons.IH[of "put_pos p m"] net_qty_closed[of k ps]
    by (cases "ps_Quantity p = 0"; cases "pos_key p = k") (auto simp: pos_at_put)
qed simp

lemma pos_index_net: "distinct (open_keys ps) \<Longrightarrow> ps_Quantity (pos_at (pos_index ps) k) = net_qty ps k"
  using pos_index_fold[of ps k Map.empty] by (simp add: pos_index_def Position_zero_def)

lemma pos_index_all:
  assumes "list_all Q ps" "Q Position_zero"
  shows "Q (pos_at (pos_index ps) k)"
proof -
  have "Q (pos_at m k) \<Longrightarrow> Q (pos_at (fold put_pos ps m) k)" for m
    using assms(1) by (induction ps arbitrary: m) (simp_all add: pos_at_put)
  from this[of Map.empty] assms(2) show ?thesis by (simp add: pos_index_def)
qed

section \<open>One instrument\<close>

lemma targetQty_spec:
  assumes "decimal_doc P" "cf * 10 ^ 6 \<in> \<int>" "0 < cf" "0 < lot" "lot < 2 ^ 31" "copy_ok cf m"
  shows "targetQty P cf cap lot m = target_spec cf cap lot m" and "\<bar>target_spec cf cap lot m\<bar> < 2 ^ 62"
proof -
  have inp: "sizing_input \<bar>m\<bar> cf lot" using assms by (auto simp: sizing_input_def copy_ok_def)
  obtain q reason where q: "SizeOrder P \<bar>m\<bar> cf lot cap = (q, reason)" by (rule prod.exhaust)
  have spec: "size_spec \<bar>m\<bar> cf lot cap = (q, reason)" using SizeOrder_eq_spec[OF assms(1) inp] q by simp
  have b: "0 \<le> q" "of_int q \<le> of_int \<bar>m\<bar> * cf" using size_order_bounds[OF assms(1) inp q assms(3)] by auto
  then have "(of_int q :: rat) < of_int (2 ^ 62)" using assms(6) by (simp add: copy_ok_def)
  then have q62: "q < 2 ^ 62" by (simp only: of_int_less_iff)
  have "reason \<noteq> ReasonOK \<Longrightarrow> reason \<noteq> ReasonCapped \<Longrightarrow> q = 0"
    using spec by (auto simp: size_spec_def Let_def split: if_splits)
  moreover have "go_abs m = \<bar>m\<bar>" using assms(6) by (intro go_abs_eq) (auto simp: copy_ok_def in64_def)
  moreover have "wrap64 (- q) = - q" using b q62 by (intro wrap64_id) (simp add: in64_def)
  ultimately show "targetQty P cf cap lot m = target_spec cf cap lot m"
    using q spec by (auto simp: targetQty_def target_spec_def sgn_if)
  show "\<bar>target_spec cf cap lot m\<bar> < 2 ^ 62" using spec b q62 by (simp add: target_spec_def sgn_if)
qed

definition drift_ok :: "SymbolDrift \<Rightarrow> bool" where
  "drift_ok d \<longleftrightarrow> sd_DriftQty d \<noteq> 0 \<and> \<bar>sd_DriftQty d\<bar> < 2 ^ 63 \<and> sd_Action d = (if sd_DriftQty d < 0 then ''SELL'' else ''BUY'')"

lemma symbol_drift_spec:
  assumes "decimal_doc P" "cf * 10 ^ 6 \<in> \<int>" "0 < cf" "0 < lot" "lot < 2 ^ 31" "copy_ok cf (ps_Quantity mPos)"
    and "\<bar>ps_Quantity fPos\<bar> < 2 ^ 62"
  shows "case symbol_drift P cf cap lot k mPos fPos of
      None \<Rightarrow> ps_Quantity fPos = target_spec cf cap lot (ps_Quantity mPos)
    | Some d \<Rightarrow> drift_key d = k \<and> drift_ok d \<and> ps_Quantity fPos + sd_DriftQty d = target_spec cf cap lot (ps_Quantity mPos)"
proof -
  let ?t = "target_spec cf cap lot (ps_Quantity mPos)"
  note t = targetQty_spec[OF assms(1-6), of cap]
  have "in64 (?t - ps_Quantity fPos)" "\<bar>?t - ps_Quantity fPos\<bar> < 2 ^ 63" using t(2) assms(7) by (auto simp: in64_def)
  then show ?thesis using t(1) by (auto simp: symbol_drift_def Let_def drift_key_def drift_ok_def wrap64_id)
qed

section \<open>The service on a trading desk\<close>

text \<open>A desk with a table of lot sizes that the calls before the first order leave alone.\<close>

locale rebalance_desk = booked_desk "rb_base R" placed mine book + lt: desk_reads "rb_base R" lots mine
  for R :: "'s RebalanceService" and placed :: "'s \<Rightarrow> (uuid \<times> OrderParams) list" and mine :: "uuid \<Rightarrow> 's BrokerOps \<Rightarrow> bool"
    and book :: "uuid \<Rightarrow> Position list result" and lots :: "'s \<Rightarrow> posKey \<Rightarrow> int set" +
  assumes lot_lookup: "rb_InstrumentLotSize R e y s = (rl, s') \<Longrightarrow>
      placed s' = placed s \<and> lots s' = lots s \<and> (case rl of Inl _ \<Rightarrow> True | Inr l \<Rightarrow> l \<in> lots s (e, y))"

definition lot_ok :: "(posKey \<Rightarrow> int set) \<Rightarrow> posKey \<Rightarrow> int \<Rightarrow> bool" where
  "lot_ok L k lot \<longleftrightarrow> 0 < lot \<and> lot < 2 ^ 31 \<and> (lot = 1 \<or> lot \<in> L k)"

definition small_lots :: "(posKey \<Rightarrow> int set) \<Rightarrow> bool" where
  "small_lots L \<longleftrightarrow> (\<forall>k. \<forall>l\<in>L k. l < 2 ^ 31)"

definition on_target :: "(posKey \<Rightarrow> int set) \<Rightarrow> decimal \<Rightarrow> int \<Rightarrow> posKey \<Rightarrow> int \<Rightarrow> int \<Rightarrow> bool" where
  "on_target L cf cap k m f \<longleftrightarrow> (\<exists>lot. lot_ok L k lot \<and> f = target_spec cf cap lot m)"

lemma on_target_flat: "on_target L cf cap k 0 0"
  unfolding on_target_def by (rule exI[of _ 1]) (simp add: lot_ok_def target_spec_def)

lemma net_drift_simps [simp]:
  "net_drift [] k = 0" "net_drift (d # ds) k = (if drift_key d = k then sd_DriftQty d else 0) + net_drift ds k"
  by (simp_all add: net_drift_def)

lemma net_drift_other: "k \<notin> drift_key ` set ds \<Longrightarrow> net_drift ds k = 0"
  by (induction ds) auto

text \<open>What an order for a drift does.\<close>

definition drift_effect :: "SymbolDrift \<Rightarrow> string \<times> string \<times> string \<times> int" where
  "drift_effect d = (sd_Exchange d, sd_Tradingsymbol d, sd_Product d, sd_DriftQty d)"

lemma drift_params_effect: "drift_ok d \<Longrightarrow> order_effect (drift_params d tag) = drift_effect d"
proof -
  assume d: "drift_ok d"
  then have "go_abs (sd_DriftQty d) = \<bar>sd_DriftQty d\<bar>" by (intro go_abs_eq) (auto simp: drift_ok_def in64_def)
  with d show ?thesis by (auto simp: order_effect_def drift_effect_def drift_params_def drift_ok_def)
qed

lemma net_ordered_drift:
  assumes "map order_effect qs = map drift_effect ds"
  shows "net_ordered qs k = net_drift ds k"
proof -
  have "sum_list (map (\<lambda>(e, y, p, n). n) (filter (\<lambda>(e, y, p, n). (e, y) = k) (map drift_effect ds))) = net_drift ds k"
    by (induction ds) (auto simp: drift_effect_def drift_key_def)
  with assms show ?thesis by (simp add: net_ordered_def)
qed

definition tried :: "RebalanceResult \<Rightarrow> nat" where
  "tried res = length (rr_Orders res) + length (rr_Errors res)"

context rebalance_desk begin

lemma drift_lot_ok:
  assumes "drift_lot R k s = (lot, s')" "small_lots (lots s)"
  shows "lot_ok (lots s) k lot \<and> placed s' = placed s \<and> lots s' = lots s"
proof -
  obtain r t where r: "rb_InstrumentLotSize R (fst k) (snd k) s = (r, t)" by (rule prod.exhaust)
  with lot_lookup[OF this] assms show ?thesis by (cases r; cases k) (auto simp: drift_lot_def lot_ok_def small_lots_def split: if_splits)
qed

lemma drift_loop_spec:
  assumes "decimal_doc P" "cf * 10 ^ 6 \<in> \<int>" "0 < cf"
    and "\<And>k. copy_ok cf (ps_Quantity (pos_at mm k))" "\<And>k. \<bar>ps_Quantity (pos_at fm k)\<bar> < 2 ^ 62"
  shows "drift_loop P R cf cap mm fm ks s = (ds, s') \<Longrightarrow> distinct ks \<Longrightarrow> small_lots (lots s) \<Longrightarrow>
    placed s' = placed s \<and> lots s' = lots s \<and> list_all drift_ok ds \<and> drift_key ` set ds \<subseteq> set ks
    \<and> (\<forall>k\<in>set ks. on_target (lots s) cf cap k (ps_Quantity (pos_at mm k)) (ps_Quantity (pos_at fm k) + net_drift ds k))"
proof (induction ks arbitrary: s ds s')
  case (Cons k ks)
  obtain lot s1 where l: "drift_lot R k s = (lot, s1)" by (rule prod.exhaust)
  note s1 = drift_lot_ok[OF l]
  obtain ds1 s2 where d: "drift_loop P R cf cap mm fm ks s1 = (ds1, s2)" by (rule prod.exhaust)
  have fin: "s' = s2" "ds = (case symbol_drift P cf cap lot k (pos_at mm k) (pos_at fm k) of None \<Rightarrow> ds1 | Some d \<Rightarrow> d # ds1)"
    using Cons.prems(1) l d by (simp_all)
  have lot: "0 < lot" "lot < 2 ^ 31" "lot_ok (lots s) k lot" using s1 Cons.prems(3) by (auto simp: lot_ok_def)
  note one = symbol_drift_spec[OF assms(1-3) lot(1,2) assms(4)[of k] assms(5)[of k], of cap k]
  have IH: "placed s2 = placed s1 \<and> lots s2 = lots s1 \<and> list_all drift_ok ds1 \<and> drift_key ` set ds1 \<subseteq> set ks
    \<and> (\<forall>k\<in>set ks. on_target (lots s1) cf cap k (ps_Quantity (pos_at mm k)) (ps_Quantity (pos_at fm k) + net_drift ds1 k))"
    using Cons.IH[OF d] Cons.prems(2,3) s1 by auto
  then have other: "net_drift ds1 k = 0" using Cons.prems(2) net_drift_other[of k ds1] by auto
  show ?case
    using IH Cons.prems(2,3) s1 one lot(3) other fin
    by (auto simp: on_target_def split: option.splits)
qed simp

lemma calculateFollowerDrift_spec:
  assumes "calculateFollowerDrift P ord R acc mps fps s = (r, s')" "decimal_doc P" "enumerates ord"
    and "clone_factor_of acc * 10 ^ 6 \<in> \<int>" "books_ok (clone_factor_of acc) mps fps" "small_lots (lots s)"
  shows "\<exists>fd. r = Inr fd \<and> fd_Enabled fd = acc_Enabled acc \<and> placed s' = placed s \<and> lots s' = lots s
    \<and> list_all drift_ok (fd_Symbols fd)
    \<and> (\<forall>k. on_target (lots s) (clone_factor_of acc) (max_qty_of acc) k (net_qty mps k) (net_qty fps k + net_drift (fd_Symbols fd) k))"
proof -
  let ?cf = "clone_factor_of acc" and ?ks = "ord (all_keys mps fps)"
  obtain ds s1 where d: "drift_loop P R ?cf (max_qty_of acc) (pos_index mps) (pos_index fps) ?ks s = (ds, s1)"
    by (rule prod.exhaust)
  have ks: "distinct ?ks" "set ?ks = set (open_keys mps) \<union> set (open_keys fps)"
    using assms(3) by (simp_all add: enumerates_def all_keys_def)
  have cf: "0 < ?cf" by (simp add: clone_factor_of_def split: option.split)
  have bounds: "copy_ok ?cf (ps_Quantity (pos_at (pos_index mps) k))" "\<bar>ps_Quantity (pos_at (pos_index fps) k)\<bar> < 2 ^ 62" for k
    using assms(5) pos_index_all[of "\<lambda>p. copy_ok ?cf (ps_Quantity p)" mps k] pos_index_all[of "\<lambda>p. \<bar>ps_Quantity p\<bar> < 2 ^ 62" fps k]
    by (simp_all add: books_ok_def copy_ok_def Position_zero_def)
  note net = pos_index_net[of mps] pos_index_net[of fps]
  note spec = drift_loop_spec[OF assms(2,4) cf bounds d ks(1) assms(6)]
  have "on_target (lots s) ?cf (max_qty_of acc) k (net_qty mps k) (net_qty fps k + net_drift ds k)" for k
  proof (cases "k \<in> set ?ks")
    case True
    then show ?thesis using spec net assms(5) by (auto simp: books_ok_def)
  next
    case False
    then have "k \<notin> drift_key ` set ds" using spec by blast
    then show ?thesis using False ks(2) by (simp add: net_qty_closed net_drift_other on_target_flat)
  qed
  moreover have "calculateFollowerDrift P ord R acc mps fps s = (Inr \<lparr> fd_AccountID = acc_ID acc, fd_AccountName = acc_Name acc,
              fd_BrokerAccountID = acc_BrokerAccountID acc, fd_Enabled = acc_Enabled acc,
              fd_CloneFactor = ?cf, fd_Symbols = ds \<rparr>, s1)"
    using d by (simp add: calculateFollowerDrift_def clone_factor_of_def max_qty_of_def)
  ultimately show ?thesis using spec assms(1) by auto
qed

lemma account_diff_spec:
  assumes "ComputeAccountDiff P ord R f s = (r, s')" "decimal_doc P" "enumerates ord" "small_lots (lots s)"
    and "fst (ss_Accounts (ts_store (rb_base R)) (Some [f]) s) = Inr (acc # accs)" "acc_MasterID acc = Some m"
    and "book m = Inr mps" "book f = Inr fps" "clone_factor_of acc * 10 ^ 6 \<in> \<int>" "books_ok (clone_factor_of acc) mps fps"
  shows "placed s' = placed s \<and> lots s' = lots s \<and> (case r of Inl _ \<Rightarrow> True | Inr fd \<Rightarrow>
    fd_Enabled fd = acc_Enabled acc \<and> list_all drift_ok (fd_Symbols fd)
    \<and> (\<forall>k. on_target (lots s) (clone_factor_of acc) (max_qty_of acc) k (net_qty mps k) (net_qty fps k + net_drift (fd_Symbols fd) k)))"
proof -
  let ?rb = "rb_base R"
  obtain s1 where a: "ss_Accounts (ts_store ?rb) (Some [f]) s = (Inr (acc # accs), s1)" using assms(5) by (metis prod.collapse)
  obtain wm s2 where wm: "ts_ResolveBroker ?rb m s1 = (wm, s2)" by (rule prod.exhaust)
  obtain wf s3 where wf: "ts_ResolveBroker ?rb f s2 = (wf, s3)" by (rule prod.exhaust)
  note frames = accounts[OF a] lt.accounts[OF a] resolve[OF wm] lt.resolve[OF wm] resolve[OF wf] lt.resolve[OF wf]
  show ?thesis
  proof (cases "acc_Role acc = ''follower'' \<and> (\<exists>bm bf. wm = Inr bm \<and> wf = Inr bf)")
    case False
    then show ?thesis using assms(1,6) a wm wf frames by (auto simp: ComputeAccountDiff_def split: if_splits sum.splits)
  next
    case True
    then obtain bm bf where b: "wm = Inr bm" "wf = Inr bf" by blast
    then have mine: "mine m bm" "mine f bf" using frames by auto
    obtain pm b1 s4 where pm: "positions_with_retry ?rb m bm s3 = (pm, b1, s4)" by (metis prod_cases3)
    obtain pf b2 s5 where pf: "positions_with_retry ?rb f bf s4 = (pf, b2, s5)" by (metis prod_cases3)
    note pos = retry_frame[OF pm mine(1)] lt.retry_frame[OF pm mine(1)] retry_frame[OF pf mine(2)] lt.retry_frame[OF pf mine(2)]
    have books: "pm = Inr x \<Longrightarrow> x = mps" "pf = Inr x \<Longrightarrow> x = fps" for x
      using pos positions_of[of m b1] positions_of[of f b2] assms(7,8) by fastforce+
    show ?thesis
    proof (cases "\<exists>x y. pm = Inr x \<and> pf = Inr y")
      case False
      then show ?thesis using assms(1,6) True a wm wf b pm pf frames pos
        by (auto simp: ComputeAccountDiff_def getPositionsWithRetry_def split: sum.splits)
    next
      case found: True
      then have "calculateFollowerDrift P ord R acc mps fps s5 = (r, s')"
        using assms(1,6) True a wm wf b pm pf books by (auto simp: ComputeAccountDiff_def getPositionsWithRetry_def)
      moreover have "placed s5 = placed s" "lots s5 = lots s" using frames pos by simp_all
      ultimately show ?thesis using calculateFollowerDrift_spec[of P ord acc mps fps s5 r s'] assms(2-4,9,10) by fastforce
    qed
  qed
qed

lemma place_one:
  assumes "place_drift R a b d res s = (res', s')" "mine a b" "drift_ok d"
  shows "\<exists>q. placed s' = placed s @ [(a, q)] \<and> order_effect q = drift_effect d \<and> tried res' = tried res + 1"
proof -
  let ?tag = "rebal_tag a (ts_Now (rb_base R) s)" and ?store = "ts_store (rb_base R)"
  obtain i s1 where i: "(case ss_InsertFollowerOrder ?store (drift_order a d ?tag) s of
                (Inl err, s1) \<Rightarrow> (0, s1) | (Inr i, s1) \<Rightarrow> (i, s1)) = (i, s1)" by (rule prod.exhaust)
  have s1: "placed s1 = placed s"
    using i insert_order[of "drift_order a d ?tag" s] by (auto split: prod.splits sum.splits)
  obtain r s2 where r: "bk_PlaceOrder b ''regular'' (drift_params d ?tag) s1 = (r, s2)" by (rule prod.exhaust)
  have s2: "placed s2 = placed s @ [(a, drift_params d ?tag)]" using place[OF assms(2) r] s1 by simp
  have "placed s' = placed s2"
    using assms(1) i r set_failed[OF prod.collapse[symmetric]] set_placed[OF prod.collapse[symmetric]]
    by (cases r) (auto simp: place_drift_def Let_def split: if_splits)
  moreover have "tried res' = tried res + 1"
    using assms(1) i r by (cases r) (auto simp: place_drift_def Let_def tried_def)
  ultimately show ?thesis using s2 drift_params_effect[OF assms(3)] by auto
qed

lemma place_all:
  "place_drifts R a b ds res s = (res', s') \<Longrightarrow> mine a b \<Longrightarrow> list_all drift_ok ds \<Longrightarrow>
   \<exists>qs. placed s' = placed s @ map (Pair a) qs \<and> map order_effect qs = map drift_effect ds \<and> tried res' = tried res + length ds"
proof (induction ds arbitrary: res s)
  case (Cons d ds)
  obtain res1 s1 where c: "place_drift R a b d res s = (res1, s1)" by (rule prod.exhaust)
  have d: "drift_ok d" using Cons.prems(3) by simp
  then have "go_abs (sd_DriftQty d) \<noteq> 0" by (subst go_abs_eq) (auto simp: drift_ok_def in64_def)
  then have "place_drifts R a b ds res1 s1 = (res', s')" using Cons.prems(1) c by simp
  then obtain qs where "placed s' = placed s1 @ map (Pair a) qs" "map order_effect qs = map drift_effect ds"
      "tried res' = tried res1 + length ds"
    using Cons.IH Cons.prems(2,3) by fastforce
  moreover obtain q where "placed s1 = placed s @ [(a, q)]" "order_effect q = drift_effect d" "tried res1 = tried res + 1"
    using place_one[OF c Cons.prems(2) d] by blast
  ultimately show ?case by (intro exI[of _ "q # qs"]) simp
qed simp

lemma cancel_drifting_frame:
  "cancel_drifting b symbols os n s = (n', s') \<Longrightarrow> mine a b \<Longrightarrow> placed s' = placed s"
proof (induction os arbitrary: n s)
  case (Cons o1 os)
  then show ?case
    using cancel_order[of a b "''regular''" "bo_OrderID o1" s] by (fastforce split: if_splits prod.splits sum.splits)
qed simp

definition orders_drifts :: "uuid \<Rightarrow> SymbolDrift list \<Rightarrow> RebalanceResult result \<Rightarrow> 's \<Rightarrow> 's \<Rightarrow> bool" where
  "orders_drifts a ds r s s' \<longleftrightarrow> (case r of
      Inl _ \<Rightarrow> placed s' = placed s
    | Inr res \<Rightarrow> \<exists>qs. placed s' = placed s @ map (Pair a) qs \<and> map order_effect qs = map drift_effect ds \<and> tried res = length qs)"

lemma rebalance_with_orders:
  assumes "rebalance_with R a ds s = (r, s')" "list_all drift_ok ds"
  shows "orders_drifts a ds r s s'"
proof -
  obtain w s1 where w: "ts_ResolveBroker (rb_base R) a s = (w, s1)" by (rule prod.exhaust)
  note s1 = resolve[OF w]
  show ?thesis
  proof (cases "ds \<noteq> [] \<and> (\<exists>b. w = Inr b)")
    case False
    then show ?thesis using assms(1) w s1
      by (auto simp: rebalance_with_def orders_drifts_def tried_def new_rebalance_result_def split: sum.splits if_splits)
  next
    case True
    then obtain b where b: "w = Inr b" "mine a b" using s1 by auto
    obtain go t where g: "bk_GetOpenOrders b s1 = (go, t)" by (rule prod.exhaust)
    obtain n s2 where n: "(case go of Inl err \<Rightarrow> (0, t) | Inr os \<Rightarrow> cancel_drifting b (map sd_Tradingsymbol ds) os 0 t) = (n, s2)"
      by (rule prod.exhaust)
    have s2: "placed s2 = placed s1"
      using read_open[OF b(2) g] n cancel_drifting_frame[OF _ b(2)] by (fastforce split: sum.splits)
    let ?res0 = "(new_rebalance_result None (Some a) 1)\<lparr> rr_CancelledOrders := n \<rparr>"
    obtain res s3 where c: "place_drifts R a b ds ?res0 s2 = (res, s3)" by (rule prod.exhaust)
    have "r = Inr res" "s' = (case ts_Syncer (rb_base R) of None \<Rightarrow> s3 | Some sync \<Rightarrow> snd (sync a s3))"
      using assms(1) True w b g n c by (cases go; simp add: rebalance_with_def Let_def)+
    moreover have "tried ?res0 = 0" by (simp add: tried_def new_rebalance_result_def)
    moreover have "length qs = length ds" if "map order_effect qs = map drift_effect ds" for qs
      using arg_cong[OF that, of length] by simp
    ultimately show ?thesis using place_all[OF c b(2) assms(2)] sync_frame[of s3 a] s1 s2 by (auto simp: orders_drifts_def)
  qed
qed

lemma account_rebalanced:
  assumes "RebalanceAccount P ord R f s = (r, s')" "decimal_doc P" "enumerates ord" "small_lots (lots s)"
    and "fst (ss_Accounts (ts_store (rb_base R)) (Some [f]) s) = Inr (acc # accs)" "acc_MasterID acc = Some m"
    and "book m = Inr mps" "book f = Inr fps" "clone_factor_of acc * 10 ^ 6 \<in> \<int>" "books_ok (clone_factor_of acc) mps fps"
  shows "case r of
      Inl _ \<Rightarrow> placed s' = placed s
    | Inr res \<Rightarrow> acc_Enabled acc \<and> (\<exists>qs. placed s' = placed s @ map (Pair f) qs \<and> tried res = length qs
        \<and> (\<forall>k. on_target (lots s) (clone_factor_of acc) (max_qty_of acc) k (net_qty mps k) (net_qty fps k + net_ordered qs k)))"
proof -
  obtain rd s1 where d: "ComputeAccountDiff P ord R f s = (rd, s1)" by (rule prod.exhaust)
  note diff = account_diff_spec[OF d assms(2-)]
  show ?thesis
  proof (cases "\<exists>fd. rd = Inr fd \<and> fd_Enabled fd")
    case False
    then show ?thesis using assms(1) d diff by (auto simp: RebalanceAccount_def split: sum.splits if_splits)
  next
    case True
    then obtain fd where fd: "rd = Inr fd" "fd_Enabled fd" by blast
    then have "rebalance_with R f (fd_Symbols fd) s1 = (r, s')" using assms(1) d by (simp add: RebalanceAccount_def)
    from rebalance_with_orders[OF this] show ?thesis
      using diff fd net_ordered_drift by (fastforce simp: orders_drifts_def split: sum.splits)
  qed
qed

end

section \<open>The service on the store\<close>

definition rebalance_service ::
  "row_order \<Rightarrow> uuid option \<Rightarrow> (uuid \<Rightarrow> Position list result) \<Rightarrow> (uuid \<Rightarrow> Order list result) \<Rightarrow> desk RebalanceService" where
  "rebalance_service order_by u book opens = \<lparr> rb_base = desk_service order_by u book opens,
     rb_InstrumentLotSize = (\<lambda>e y. on_desk (InstrumentLotSize e y)) \<rparr>"

definition lot_sizes :: "db \<Rightarrow> posKey \<Rightarrow> int set" where
  "lot_sizes d k = in_lot_size ` {i \<in> set (instruments d). instr_matches (fst k) (snd k) i}"

lemma lot_sizes_cong: "instruments d' = instruments d \<Longrightarrow> lot_sizes d' = lot_sizes d"
  by (simp add: lot_sizes_def fun_eq_iff)

lemma first_by_mem: "first_by lt xs = Some x \<Longrightarrow> x \<in> set xs"
  by (induction xs arbitrary: x) (auto split: option.splits if_splits)

lemma lookup_lot_sizes:
  "InstrumentLotSize e y d = (r, d') \<Longrightarrow>
   instruments d' = instruments d \<and> (case r of Inl _ \<Rightarrow> True | Inr l \<Rightarrow> l \<in> lot_sizes d (e, y))"
  by (auto simp: InstrumentLotSize_def db_call_def lot_sizes_def split: list.splits option.splits dest!: first_by_mem)

lemma reads_keep_instruments:
  "AccountRole i d = (rr, d') \<Longrightarrow> instruments d' = instruments d"
  "Accounts order_by u ids d = (ra, d') \<Longrightarrow> instruments d' = instruments d"
  by (auto simp: AccountRole_def Accounts_def db_call_def split: list.splits option.splits)

interpretation rb: rebalance_desk "rebalance_service order_by u book opens" dk_placed "\<lambda>a b. b = desk_broker book opens a" book
  "\<lambda>k. lot_sizes (dk_db k)"
  by unfold_locales (auto simp: rebalance_service_def desk_service_def desk_store_def desk_broker_def on_desk_def
      split: prod.splits sum.splits dest!: lookup_lot_sizes reads_keep_instruments intro!: lot_sizes_cong)

text \<open>
  C18 Rebalancing puts a follower on target: when rebalancing a follower returns a result, the follower
  is enabled and the order requests sent to its broker, each either placed or reported as an error,
  bring its net quantity of every instrument to the master's quantity sized by the follower's clone
  factor and cap, on the master's side; the lot is one of the instrument's lot sizes, or 1. When it
  returns an error, nothing was sent. The master and the follower have one open position per
  instrument, and Go may visit the instruments in any order.
\<close>
theorem rebalance_reaches_target:
  assumes "decimal_doc P" and "enumerates ord" and "small_lots (lot_sizes (dk_db k))"
    and "fst (Accounts order_by u (Some [f]) (dk_db k)) = Inr (acc # accs)" and "acc_MasterID acc = Some m"
    and "book m = Inr mps" and "book f = Inr fps"
    and "clone_factor_of acc * 10 ^ 6 \<in> \<int>" and "books_ok (clone_factor_of acc) mps fps"
    and "RebalanceAccount P ord (rebalance_service order_by u book opens) f k = (r, k')"
  shows "case r of
      Inl _ \<Rightarrow> dk_placed k' = dk_placed k
    | Inr res \<Rightarrow> acc_Enabled acc \<and> (\<exists>qs. dk_placed k' = dk_placed k @ map (Pair f) qs
        \<and> length (rr_Orders res) + length (rr_Errors res) = length qs
        \<and> (\<forall>i. \<exists>lot. lot_ok (lot_sizes (dk_db k)) i lot \<and> net_qty fps i + net_ordered qs i
              = target_spec (clone_factor_of acc) (max_qty_of acc) lot (net_qty mps i)))"
proof -
  have "fst (ss_Accounts (ts_store (rb_base (rebalance_service order_by u book opens))) (Some [f]) k) = Inr (acc # accs)"
    using assms(4) by (simp add: rebalance_service_def desk_service_def desk_store_def on_desk_def case_prod_beta)
  from rb.account_rebalanced[OF assms(10,1-3) this assms(5-9)]
  show ?thesis unfolding tried_def on_target_def .
qed

section \<open>Examples\<close>

definition ex_books :: "uuid \<Rightarrow> Position list result" where
  "ex_books a = Inr (if a = ''m'' then [ex_position ''INFY'' 10, ex_position ''TCS'' (- 5)] else [ex_position ''INFY'' 4])"

definition ex_follower :: Account where
  "ex_follower = accountFromRow (accounts_row (ex_acct ''f'' ''follower'') (Some (hd (follow_links ex_admin_db)))
     (Some (hd (groups ex_admin_db)))) 1"

lemma ex_follower_sel:
  "acc_Enabled ex_follower" "acc_Role ex_follower = ''follower''" "acc_MasterID ex_follower = Some ''m''"
  "acc_CloneFactor ex_follower = Some 1" "acc_MaxQtyPerOrder ex_follower = None"
  by (simp_all add: ex_follower_def accountFromRow_def case_prod_beta accounts_row_def ex_admin_eq ex_acct_def new_account_def)

lemma ex_follower_read: "Accounts id None (Some [''f'']) ex_admin_db = (Inr [ex_follower], ex_admin_db)"
proof -
  have "account_rows (Some [''f'']) None ex_admin_db = [accounts_row (ex_acct ''f'' ''follower'') (Some (hd (follow_links ex_admin_db)))
      (Some (hd (groups ex_admin_db)))]"
    by (simp add: account_rows_def ex_admin_eq ex_acct_def new_account_def live_def left_join_def)
  then show ?thesis by (simp add: Accounts_def db_call_def ex_desk_db ex_follower_def)
qed

lemma ex_no_instruments: "instruments ex_admin_db = []"
  by (simp add: ex_admin_db_def CreateAccountWithCredentials_def CreateGroup_def CreateFollowLink_def
      db_call_def empty_db_def ex_link_def new_account_def valid_role_def account_exists_def ip_taken_def uuid_Nil_def)

lemma ex_rebalance_returns:
  "\<exists>res. fst (RebalanceAccount dec16 id (rebalance_service id None ex_books (\<lambda>_. Inr [])) ''f'' ex_desk) = Inr res"
  by (simp add: RebalanceAccount_def ComputeAccountDiff_def rebalance_service_def desk_service_def desk_store_def on_desk_def
      ex_desk_def ex_follower_read ex_follower_sel getPositionsWithRetry_def positions_with_retry_def desk_broker_def ex_books_def
      calculateFollowerDrift_def case_prod_beta rebalance_with_def Let_def)

lemma lot_ok_none: "lot_ok (\<lambda>_. {}) i lot \<longleftrightarrow> lot = 1"
  by (auto simp: lot_ok_def)

theorem rebalance_reaches_target_witness:
  "\<exists>qs. dk_placed (snd (RebalanceAccount dec16 id (rebalance_service id None ex_books (\<lambda>_. Inr [])) ''f'' ex_desk)) = map (Pair ''f'') qs
     \<and> net_ordered qs (''NSE'', ''INFY'') = 6 \<and> net_ordered qs (''NSE'', ''TCS'') = - 5"
proof -
  let ?r = "RebalanceAccount dec16 id (rebalance_service id None ex_books (\<lambda>_. Inr [])) ''f'' ex_desk"
  let ?ms = "[ex_position ''INFY'' 10, ex_position ''TCS'' (- 5)]" and ?fs = "[ex_position ''INFY'' 4]"
  obtain res where r: "?r = (Inr res, snd ?r)" using ex_rebalance_returns by (metis prod.collapse)
  have cf: "clone_factor_of ex_follower = 1" "max_qty_of ex_follower = 0"
    by (simp_all add: clone_factor_of_def max_qty_of_def ex_follower_sel)
  have lots: "lot_sizes ex_admin_db = (\<lambda>_. {})" by (simp add: lot_sizes_def ex_no_instruments fun_eq_iff)
  have ok: "enumerates id" "books_ok 1 ?ms ?fs" by (simp_all add: enumerates_def books_ok_def copy_ok_def ex_position_def pos_key_def)
  have "\<exists>qs. dk_placed (snd ?r) = map (Pair ''f'') qs \<and> (\<forall>i. net_qty ?fs i + net_ordered qs i = target_spec 1 0 1 (net_qty ?ms i))"
    using rebalance_reaches_target[OF decimal_doc_dec16 ok(1), where k = ex_desk and r = "Inr res" and k' = "snd ?r" and m = "''m''"
        and mps = ?ms and fps = ?fs and f = "''f''" and acc = ex_follower and order_by = id and u = None and book = ex_books
        and opens = "\<lambda>_. Inr []" and accs = "[]"] r ok(2)
    by (auto simp: ex_desk_def ex_follower_read ex_follower_sel cf lots small_lots_def lot_ok_none ex_books_def
        simp del: net_qty_simps split_paired_All)
  then obtain qs where "dk_placed (snd ?r) = map (Pair ''f'') qs"
    "net_qty ?fs i + net_ordered qs i = target_spec 1 0 1 (net_qty ?ms i)" for i by blast
  from this(1) this(2)[of "(''NSE'', ''INFY'')"] this(2)[of "(''NSE'', ''TCS'')"] show ?thesis
    by (intro exI[of _ qs]) (simp add: ex_position_def pos_key_def target_spec_def size_spec_def lot_floor_def Let_def)
qed

text \<open>
  Positions are indexed without their product: a master holding an instrument in two products is
  read as holding only the last one, so a follower that lacks the other position has no drift and
  rebalancing sends it nothing.
\<close>
theorem rebalance_ignores_product:
  "let master = [(ex_position ''INFY'' 10)\<lparr> ps_Product := ''CNC'' \<rparr>, ex_position ''INFY'' 4]; follower = [ex_position ''INFY'' 4];
       R = rebalance_service id None (\<lambda>a. Inr (if a = ''m'' then master else follower)) (\<lambda>_. Inr [])
   in net_qty master (''NSE'', ''INFY'') = 14 \<and> net_qty follower (''NSE'', ''INFY'') = 4
      \<and> map_sum id fd_Symbols (fst (ComputeAccountDiff dec16 id R ''f'' ex_desk)) = Inr []"
proof -
  have "targetQty dec16 1 0 1 4 = 4"
    by (simp add: targetQty_def SizeOrder_def dec16_def round_half_away_def wrap64_def go_abs_def Let_def)
  then show ?thesis
    by (simp add: ComputeAccountDiff_def rebalance_service_def desk_service_def desk_store_def on_desk_def
      ex_desk_def ex_follower_read ex_follower_sel getPositionsWithRetry_def positions_with_retry_def desk_broker_def
      calculateFollowerDrift_def Let_def pos_key_def ex_position_def all_keys_def drift_lot_def InstrumentLotSize_def
      db_call_def ex_desk_db ex_no_instruments pos_index_def put_pos_def pos_at_def symbol_drift_def)
qed

end
