(* ===== verification/Idempotency.thy ===== *)
theory Idempotency
  imports Prelude "HOL-Library.Word"
begin

unbundle bit_operations_syntax

text \<open>
  The idempotency tag of a copied order (\<open>internal/domain/idempotency.go\<close>): the first
  twenty characters of the hexadecimal SHA-256 digest of \<open>"fillID:followerID"\<close>. The hash is
  the one of Go's standard library, given here as an executable function on 32-bit words.
\<close>

section \<open>SHA-256\<close>

definition sha_K :: "32 word list" where
  "sha_K = [
     1116352408, 1899447441, 3049323471, 3921009573, 961987163, 1508970993,
     2453635748, 2870763221, 3624381080, 310598401, 607225278, 1426881987,
     1925078388, 2162078206, 2614888103, 3248222580, 3835390401, 4022224774,
     264347078, 604807628, 770255983, 1249150122, 1555081692, 1996064986,
     2554220882, 2821834349, 2952996808, 3210313671, 3336571891, 3584528711,
     113926993, 338241895, 666307205, 773529912, 1294757372, 1396182291,
     1695183700, 1986661051, 2177026350, 2456956037, 2730485921, 2820302411,
     3259730800, 3345764771, 3516065817, 3600352804, 4094571909, 275423344,
     430227734, 506948616, 659060556, 883997877, 958139571, 1322822218,
     1537002063, 1747873779, 1955562222, 2024104815, 2227730452, 2361852424,
     2428436474, 2756734187, 3204031479, 3329325298]"

definition sha_H0 :: "32 word list" where
  "sha_H0 = [
     1779033703, 3144134277, 1013904242, 2773480762, 1359893119, 2600822924,
     528734635, 1541459225]"

definition sha_ch :: "32 word \<Rightarrow> 32 word \<Rightarrow> 32 word \<Rightarrow> 32 word" where
  "sha_ch e f g = (e AND f) XOR ((NOT e) AND g)"

definition sha_maj :: "32 word \<Rightarrow> 32 word \<Rightarrow> 32 word \<Rightarrow> 32 word" where
  "sha_maj a b c = (a AND b) XOR (a AND c) XOR (b AND c)"

definition sha_rotr :: "nat \<Rightarrow> 32 word \<Rightarrow> 32 word" where
  "sha_rotr n w = (drop_bit n w) OR (push_bit (32 - n) w)"

definition sha_S0 :: "32 word \<Rightarrow> 32 word" where
  "sha_S0 a = sha_rotr 2 a XOR sha_rotr 13 a XOR sha_rotr 22 a"

definition sha_S1 :: "32 word \<Rightarrow> 32 word" where
  "sha_S1 e = sha_rotr 6 e XOR sha_rotr 11 e XOR sha_rotr 25 e"

definition sha_s0 :: "32 word \<Rightarrow> 32 word" where
  "sha_s0 w = sha_rotr 7 w XOR sha_rotr 18 w XOR drop_bit 3 w"

definition sha_s1 :: "32 word \<Rightarrow> 32 word" where
  "sha_s1 w = sha_rotr 17 w XOR sha_rotr 19 w XOR drop_bit 10 w"

text \<open>The message schedule, newest word first: each step reads the words 16, 15, 7 and 2 back.\<close>

fun sha_extend :: "nat \<Rightarrow> 32 word list \<Rightarrow> 32 word list" where
  "sha_extend 0 ws = ws"
| "sha_extend (Suc n) ws =
     sha_extend n ((sha_s1 (ws ! 1) + ws ! 6 + sha_s0 (ws ! 14) + ws ! 15) # ws)"

fun sha_round :: "32 word list \<Rightarrow> (32 word \<times> 32 word) \<Rightarrow> 32 word list" where
  "sha_round [a, b, c, d, e, f, g, h] (k, w) =
     (let t1 = h + sha_S1 e + sha_ch e f g + k + w;
          t2 = sha_S0 a + sha_maj a b c
      in [t1 + t2, a, b, c, d + t1, e, f, g])"
| "sha_round st kw = st"

definition sha_block :: "32 word list \<Rightarrow> 32 word list \<Rightarrow> 32 word list" where
  "sha_block st ws =
     map2 (+) st (foldl sha_round st (zip sha_K (rev (sha_extend 48 (rev ws)))))"

fun be_bytes :: "nat \<Rightarrow> int \<Rightarrow> int list" where
  "be_bytes 0 n = []"
| "be_bytes (Suc k) n = be_bytes k (n div 256) @ [n mod 256]"

definition sha_pad :: "int list \<Rightarrow> int list" where
  "sha_pad m = m @ [128] @ replicate ((119 - length m mod 64) mod 64) 0 @ be_bytes 8 (8 * int (length m))"

fun be_words :: "int list \<Rightarrow> 32 word list" where
  "be_words (a # b # c # d # bs) = of_int (((a * 256 + b) * 256 + c) * 256 + d) # be_words bs"
| "be_words bs = []"

fun sha_blocks :: "nat \<Rightarrow> 32 word list \<Rightarrow> 32 word list \<Rightarrow> 32 word list" where
  "sha_blocks 0 st ws = st"
| "sha_blocks (Suc n) st ws = sha_blocks n (sha_block st (take 16 ws)) (drop 16 ws)"

definition Sum256 :: "string \<Rightarrow> int list" where
  "Sum256 s =
     (let ws = be_words (sha_pad (map of_char s))
      in concat (map (\<lambda>w. be_bytes 4 (uint w)) (sha_blocks (length ws div 16) sha_H0 ws)))"

definition hex_digit :: "int \<Rightarrow> char" where
  "hex_digit n = (if n < 10 then char_of (48 + n) else char_of (87 + n))"

text \<open>The verb \<open>%x\<close> on a byte array.\<close>

definition hex_bytes :: "int list \<Rightarrow> string" where
  "hex_bytes bs = concat (map (\<lambda>b. [hex_digit (b div 16), hex_digit (b mod 16)]) bs)"

section \<open>The tag\<close>

definition idempotencyTagLen :: nat where
  "idempotencyTagLen = 20"

definition IdempotencyTag :: "int \<Rightarrow> uuid \<Rightarrow> string" where
  "IdempotencyTag masterFillID followerID =
     take idempotencyTagLen (hex_bytes (Sum256 (show_int masterFillID @ '':'' @ followerID)))"

section \<open>Shape of the digest\<close>

lemma length_sha_round: "length st = 8 \<Longrightarrow> length (sha_round st kw) = 8"
  by (induction st kw rule: sha_round.induct) (simp_all add: Let_def)

lemma length_sha_rounds: "length st = 8 \<Longrightarrow> length (foldl sha_round st kws) = 8"
  by (induction kws arbitrary: st) (simp_all add: length_sha_round)

lemma length_sha_block: "length st = 8 \<Longrightarrow> length (sha_block st ws) = 8"
  by (simp add: sha_block_def length_sha_rounds)

lemma length_sha_blocks: "length st = 8 \<Longrightarrow> length (sha_blocks n st ws) = 8"
  by (induction n arbitrary: st ws) (simp_all add: length_sha_block)

lemma length_be_bytes [simp]: "length (be_bytes k n) = k"
  by (induction k arbitrary: n) simp_all

lemma be_bytes_bytes: "\<forall>b \<in> set (be_bytes k n). 0 \<le> b \<and> b < 256"
  by (induction k arbitrary: n) auto

lemma length_Sum256: "length (Sum256 s) = 32"
proof -
  have "length (sha_blocks n sha_H0 ws) = 8" for n ws
    by (rule length_sha_blocks) (simp add: sha_H0_def)
  then show ?thesis
    by (simp add: Sum256_def Let_def length_concat comp_def sum_list_triv)
qed

lemma Sum256_bytes: "\<forall>b \<in> set (Sum256 s). 0 \<le> b \<and> b < 256"
  using be_bytes_bytes by (fastforce simp: Sum256_def Let_def)

lemma hex_digit_range: "0 \<le> n \<Longrightarrow> n < 16 \<Longrightarrow> hex_digit n \<in> set ''0123456789abcdef''"
proof -
  assume "0 \<le> n" and "n < 16"
  then have "n \<in> set [0..15]" by simp
  then show ?thesis
    by (simp only: upto_rec1 upto_Nil list.set insert_iff empty_iff atomize_imp)
       (auto simp: hex_digit_def char_of_def upto.simps)
qed

lemma hex_bytes_length [simp]: "length (hex_bytes bs) = 2 * length bs"
  by (induction bs) (simp_all add: hex_bytes_def)

lemma hex_bytes_range: "\<forall>b \<in> set bs. 0 \<le> b \<and> b < 256 \<Longrightarrow> set (hex_bytes bs) \<subseteq> set ''0123456789abcdef''"
proof
  fix c
  assume bs: "\<forall>b \<in> set bs. 0 \<le> b \<and> b < 256" and "c \<in> set (hex_bytes bs)"
  then obtain b where b: "b \<in> set bs" and "c = hex_digit (b div 16) \<or> c = hex_digit (b mod 16)"
    by (auto simp: hex_bytes_def)
  moreover have "0 \<le> b div 16" "b div 16 < 16" "0 \<le> b mod 16" "b mod 16 < 16" using bs b by auto
  ultimately show "c \<in> set ''0123456789abcdef''" using hex_digit_range by metis
qed

section \<open>Properties\<close>

text \<open>
  C13 An idempotency tag is acceptable to the broker: for every fill and every follower it
  has exactly twenty characters, all lower-case hexadecimal digits.
\<close>
theorem IdempotencyTag_wellformed:
  "length (IdempotencyTag mf f) = 20 \<and> set (IdempotencyTag mf f) \<subseteq> set ''0123456789abcdef''"
proof -
  have "set (take 20 (hex_bytes bs)) \<subseteq> set (hex_bytes bs)" for bs by (rule set_take_subset)
  then show ?thesis
    using hex_bytes_range[OF Sum256_bytes]
    by (fastforce simp: IdempotencyTag_def idempotencyTagLen_def length_Sum256 simp del: set_simps)
qed

end
