(* ===== verification/Engine.thy ===== *)
theory Engine
  imports Broker Idempotency Store_Thms
begin

text \<open>
  The fan-out engine (\<open>internal/engine/engine.go\<close>): one master fill becomes a sized, idempotent
  follower order per enabled follower, handed to that follower's worker. The engine's interfaces
  (store, dispatcher, recorder, lot-size resolver) are records of operations on a state \<open>'s\<close>;
  the locale \<open>fanout\<close> states the laws the engine relies on, and its lemmas are what the engine
  guarantees of every call. The interpretation on the store and the worker pool is in theory
  \<open>Server\<close>.
\<close>

section \<open>Interfaces\<close>

record 's EngineStore =
  es_MasterActive :: "uuid \<Rightarrow> 's \<Rightarrow> bool result \<times> 's"
  es_EnabledFollowLinks :: "uuid \<Rightarrow> 's \<Rightarrow> FollowLink list result \<times> 's"
  es_InstrumentLotSize :: "string \<Rightarrow> string \<Rightarrow> 's \<Rightarrow> int result \<times> 's"
  es_InsertFollowerOrdersBatch :: "FollowerOrder list \<Rightarrow> 's \<Rightarrow> (string \<rightharpoonup> int) result \<times> 's"
  es_SetMasterFillDispatchState :: "int \<Rightarrow> DispatchState \<Rightarrow> 's \<Rightarrow> unit result \<times> 's"
  es_UpdateFollowerOrderFailed :: "int \<Rightarrow> string \<Rightarrow> string \<Rightarrow> 's \<Rightarrow> unit result \<times> 's"

record 's EngineDeps =
  ed_store :: "'s EngineStore"
  ed_Dispatch :: "uuid \<Rightarrow> Job \<Rightarrow> 's \<Rightarrow> bool \<times> 's"
  ed_Record :: "(ExecutionEvent \<Rightarrow> 's \<Rightarrow> 's) option"
  ed_ResolveLotSize :: "(string \<Rightarrow> string \<Rightarrow> 's \<Rightarrow> int result \<times> 's) option"

record Engine =
  e_lotSizeCache :: "string \<rightharpoonup> int"
  e_killSwitch :: bool
  e_killSwitchStatus :: "KillSwitchStatus option"

definition Engine_New :: Engine where
  "Engine_New = \<lparr> e_lotSizeCache = Map.empty, e_killSwitch = False, e_killSwitchStatus = None \<rparr>"

section \<open>Kill switch and lot sizes\<close>

definition IsKillSwitchEngaged :: "Engine \<Rightarrow> bool" where
  "IsKillSwitchEngaged e = e_killSwitch e"

definition Engine_KillSwitchStatus :: "Engine \<Rightarrow> KillSwitchStatus" where
  "Engine_KillSwitchStatus e = (case e_killSwitchStatus e of
      None \<Rightarrow> \<lparr> ks_Engaged = False, ks_EngagedAt = None, ks_EngagedBy = [], ks_Reason = [] \<rparr>
    | Some st \<Rightarrow> st)"

definition SetKillSwitch :: "bool \<Rightarrow> string \<Rightarrow> string \<Rightarrow> gotime \<Rightarrow> Engine \<Rightarrow> Engine" where
  "SetKillSwitch engaged reason engagedBy now e = e\<lparr> e_killSwitch := engaged,
     e_killSwitchStatus := Some (if engaged
       then \<lparr> ks_Engaged = True, ks_EngagedAt = Some now, ks_EngagedBy = engagedBy, ks_Reason = reason \<rparr>
       else \<lparr> ks_Engaged = False, ks_EngagedAt = None, ks_EngagedBy = [], ks_Reason = [] \<rparr>) \<rparr>"

definition ClearLotSizeCache :: "Engine \<Rightarrow> Engine" where
  "ClearLotSizeCache e = e\<lparr> e_lotSizeCache := Map.empty \<rparr>"

definition resolveLotSize ::
  "'s EngineDeps \<Rightarrow> string \<Rightarrow> string \<Rightarrow> Engine \<Rightarrow> 's \<Rightarrow> int result \<times> Engine \<times> 's" where
  "resolveLotSize D ex symb e s = (case ed_ResolveLotSize D of
      Some resolver \<Rightarrow> (case resolver ex symb s of (r, s') \<Rightarrow> (r, e, s'))
    | None \<Rightarrow>
        let key = ex @ '':'' @ symb in
        (case e_lotSizeCache e key of
           Some val \<Rightarrow> (Inr val, e, s)
         | None \<Rightarrow> (case es_InstrumentLotSize (ed_store D) ex symb s of
             (Inl err, s') \<Rightarrow>
               if errors_Is err ErrNotFound
               then (Inr 0, e\<lparr> e_lotSizeCache := (e_lotSizeCache e)(key \<mapsto> 0) \<rparr>, s')
               else (Inl err, e, s')
           | (Inr lotSize, s') \<Rightarrow>
               (Inr lotSize, e\<lparr> e_lotSizeCache := (e_lotSizeCache e)(key \<mapsto> lotSize) \<rparr>, s'))))"

section \<open>Sizing one follower\<close>

text \<open>\<open>json.Unmarshal\<close> of the raw payload into the two price fields: \<open>None\<close> is an error.\<close>

definition raw_prices :: "raw_payload \<Rightarrow> (float64 \<times> float64) option" where
  "raw_prices r = (case r of
      RawJson (JObj kvs) \<Rightarrow>
        (case (json_float (json_field ''price'' kvs), json_float (json_field ''trigger_price'' kvs)) of
           (Some p, Some t) \<Rightarrow> Some (p, t) | _ \<Rightarrow> None)
    | RawJson JNull \<Rightarrow> Some (0, 0)
    | _ \<Rightarrow> None)"

definition resolveExecutionPrices :: "decimal_pkg \<Rightarrow> MasterFill \<Rightarrow> float64 \<times> float64" where
  "resolveExecutionPrices P fill =
     (let price0 = dec_Float64 P (mf_Price fill);
          trigger0 = dec_Float64 P (mf_TriggerPrice fill);
          (price1, trigger1) =
            (if (price0 \<le> 0 \<or> trigger0 \<le> 0) \<and> mf_RawPayload fill \<noteq> RawEmpty then
               (case raw_prices (mf_RawPayload fill) of
                  None \<Rightarrow> (price0, trigger0)
                | Some (p, t) \<Rightarrow> (if price0 \<le> 0 \<and> p > 0 then p else price0,
                                  if trigger0 \<le> 0 \<and> t > 0 then t else trigger0))
             else (price0, trigger0));
          price2 = (if mf_OrderType fill = ''LIMIT'' \<and> price1 \<le> 0
                    then dec_Float64 P (mf_AveragePrice fill) else price1)
      in (price2, trigger1))"

definition follower_qty :: "decimal_pkg \<Rightarrow> MasterFill \<Rightarrow> int \<Rightarrow> FollowLink \<Rightarrow> int \<times> SizingReason" where
  "follower_qty P fill lotSize link =
     (if fl_Status link = ''error'' \<or> fl_AuthStatus link = ''error'' then (0, ReasonFollowerInError)
      else if fl_Status link = ''pending'' \<or> fl_AuthStatus link = ''pending'' then (0, ReasonFollowerPending)
      else if fl_CloneFactor link = 1 then
        (let qty = mf_FilledQuantity fill
         in if fl_MaxQtyPerOrder link > 0 \<and> qty > fl_MaxQtyPerOrder link
            then (fl_MaxQtyPerOrder link, ReasonCapped) else (qty, ReasonOK))
      else SizeOrder P (mf_FilledQuantity fill) (fl_CloneFactor link) lotSize (fl_MaxQtyPerOrder link))"

record candidateJob =
  cj_followerID :: uuid
  cj_tag :: string
  cj_qty :: int
  cj_reason :: SizingReason

definition candidate :: "decimal_pkg \<Rightarrow> MasterFill \<Rightarrow> int \<Rightarrow> FollowLink \<Rightarrow> candidateJob" where
  "candidate P fill lotSize link =
     (let (qty, reason) = follower_qty P fill lotSize link
      in \<lparr> cj_followerID = fl_FollowerID link, cj_tag = IdempotencyTag (mf_ID fill) (fl_FollowerID link),
           cj_qty = qty, cj_reason = reason \<rparr>)"

definition candidate_order :: "MasterFill \<Rightarrow> int \<Rightarrow> candidateJob \<Rightarrow> FollowerOrder" where
  "candidate_order fill lotSize c = FollowerOrder_zero\<lparr> fo_MasterFillID := mf_ID fill,
     fo_FollowerID := cj_followerID c, fo_IdempotencyTag := cj_tag c, fo_IntendedQty := cj_qty c,
     fo_LotSize := lotSize, fo_SizingReason := cj_reason c, fo_Origin := ''copy_trade'',
     fo_Tradingsymbol := mf_Tradingsymbol fill, fo_Exchange := mf_Exchange fill,
     fo_Product := mf_Product fill, fo_TransactionType := mf_TransactionType fill,
     fo_OrderType := mf_OrderType fill \<rparr>"

definition candidate_job :: "MasterFill \<Rightarrow> float64 \<Rightarrow> float64 \<Rightarrow> int \<Rightarrow> candidateJob \<Rightarrow> Job" where
  "candidate_job fill price triggerPrice orderID c =
     \<lparr> job_FollowerOrderID = orderID, job_FollowerID = cj_followerID c, job_MasterFillID = mf_ID fill,
       job_IdempotencyTag = cj_tag c, job_Exchange = mf_Exchange fill, job_Tradingsymbol = mf_Tradingsymbol fill,
       job_TransactionType = mf_TransactionType fill, job_Product = mf_Product fill,
       job_OrderType = mf_OrderType fill, job_Quantity = cj_qty c, job_Price = price,
       job_TriggerPrice = triggerPrice \<rparr>"

section \<open>Handling a master fill\<close>

definition channel_full_msg :: string where
  "channel_full_msg = ''worker channel full: fan-out could not hand off in time''"

text \<open>The dispatch loop: the counts of dispatched and skipped orders, and the state.\<close>

fun dispatch_loop ::
  "'s EngineDeps \<Rightarrow> MasterFill \<Rightarrow> float64 \<Rightarrow> float64 \<Rightarrow> (string \<rightharpoonup> int) \<Rightarrow> candidateJob list \<Rightarrow> int \<Rightarrow> int \<Rightarrow> 's
     \<Rightarrow> int \<times> int \<times> 's" where
  "dispatch_loop D fill price trg m [] dispatched skipped s = (dispatched, skipped, s)"
| "dispatch_loop D fill price trg m (c # cs) dispatched skipped s =
     (case m (cj_tag c) of
        None \<Rightarrow> dispatch_loop D fill price trg m cs dispatched skipped s
      | Some orderID \<Rightarrow>
          if cj_qty c = 0 then
            (let (_, s1) = es_UpdateFollowerOrderFailed (ed_store D) orderID ''SKIPPED''
                             (SizingReason_String (cj_reason c)) s
             in dispatch_loop D fill price trg m cs dispatched (skipped + 1) s1)
          else
            (case ed_Dispatch D (cj_followerID c) (candidate_job fill price trg orderID c) s of
               (False, s1) \<Rightarrow>
                 (let (_, s2) = es_UpdateFollowerOrderFailed (ed_store D) orderID TerminalDeadLettered
                                  channel_full_msg s1
                  in dispatch_loop D fill price trg m cs dispatched skipped s2)
             | (True, s1) \<Rightarrow> dispatch_loop D fill price trg m cs (dispatched + 1) skipped s1))"

definition record_execution ::
  "'s EngineDeps \<Rightarrow> MasterFill \<Rightarrow> float64 \<Rightarrow> int \<Rightarrow> int \<Rightarrow> 's \<Rightarrow> 's" where
  "record_execution D fill price followers skipped s = (case ed_Record D of
      None \<Rightarrow> s
    | Some rec \<Rightarrow> rec \<lparr> xe_Tradingsymbol = mf_Tradingsymbol fill, xe_Exchange = mf_Exchange fill,
        xe_TransactionType = mf_TransactionType fill, xe_MasterQty = mf_FilledQuantity fill,
        xe_Price = price, xe_FollowersCount = followers, xe_SkippedCount = skipped \<rparr> s)"

definition set_state :: "'s EngineDeps \<Rightarrow> int \<Rightarrow> DispatchState \<Rightarrow> Engine \<Rightarrow> 's \<Rightarrow> unit result \<times> Engine \<times> 's" where
  "set_state D i st e s = (case es_SetMasterFillDispatchState (ed_store D) i st s of (r, s') \<Rightarrow> (r, e, s'))"

text \<open>The branches that drop the fan-out set the state only of a stored fill and ignore errors.\<close>

definition drop_fill :: "'s EngineDeps \<Rightarrow> int \<Rightarrow> DispatchState \<Rightarrow> Engine \<Rightarrow> 's \<Rightarrow> unit result \<times> Engine \<times> 's" where
  "drop_fill D i st e s = (if i > 0 then (Inr (), e, snd (es_SetMasterFillDispatchState (ed_store D) i st s))
     else (Inr (), e, s))"

definition fan_out ::
  "decimal_pkg \<Rightarrow> 's EngineDeps \<Rightarrow> MasterFill \<Rightarrow> FollowLink list \<Rightarrow> int \<Rightarrow> Engine \<Rightarrow> 's \<Rightarrow> unit result \<times> Engine \<times> 's" where
  "fan_out P D fill links lotSize e s =
     (let (price, trg) = resolveExecutionPrices P fill;
          cands = map (candidate P fill lotSize) links
      in case es_InsertFollowerOrdersBatch (ed_store D) (map (candidate_order fill lotSize) cands) s of
           (Inl err, s1) \<Rightarrow> (Inl (errorf ''bulk insert follower orders'' err), e, s1)
         | (Inr m, s1) \<Rightarrow>
             (case dispatch_loop D fill price trg m cands 0 0 s1 of
                (dispatched, skipped, s2) \<Rightarrow>
                  let execPrice = (if price \<le> 0 then dec_Float64 P (mf_AveragePrice fill) else price)
                  in set_state D (mf_ID fill) DispatchDispatched e
                       (record_execution D fill execPrice dispatched skipped s2)))"

definition HandleMasterFill ::
  "decimal_pkg \<Rightarrow> 's EngineDeps \<Rightarrow> MasterFill \<Rightarrow> Engine \<Rightarrow> 's \<Rightarrow> unit result \<times> Engine \<times> 's" where
  "HandleMasterFill P D fill e s =
     (if IsKillSwitchEngaged e then drop_fill D (mf_ID fill) DispatchDispatched e s
      else if mf_Status fill \<noteq> [] \<and> mf_Status fill \<noteq> TerminalComplete then drop_fill D (mf_ID fill) DispatchDead e s
      else if HasPrefix (mf_Tag fill) ''sqoff'' then drop_fill D (mf_ID fill) DispatchDispatched e s
      else case es_MasterActive (ed_store D) (mf_MasterID fill) s of
        (Inl err, s1) \<Rightarrow> (Inl (errorf ''check master active'' err), e, s1)
      | (Inr False, s1) \<Rightarrow> (Inr (), e, s1)
      | (Inr True, s1) \<Rightarrow>
          (case es_EnabledFollowLinks (ed_store D) (mf_MasterID fill) s1 of
             (Inl err, s2) \<Rightarrow> (Inl (errorf ''load follow links'' err), e, s2)
           | (Inr [], s2) \<Rightarrow>
               let execPrice = (if dec_Float64 P (mf_Price fill) \<le> 0 then dec_Float64 P (mf_AveragePrice fill)
                                else dec_Float64 P (mf_Price fill))
               in set_state D (mf_ID fill) DispatchDispatched e (record_execution D fill execPrice 0 0 s2)
           | (Inr (link # links), s2) \<Rightarrow>
               if list_ex (\<lambda>l. fl_CloneFactor l \<noteq> 1) (link # links) then
                 (case resolveLotSize D (mf_Exchange fill) (mf_Tradingsymbol fill) e s2 of
                    (Inl err, e1, s3) \<Rightarrow> (Inl (errorf ''lookup instrument lot size'' err), e1, s3)
                  | (Inr lotSize, e1, s3) \<Rightarrow> fan_out P D fill (link # links) lotSize e1 s3)
               else fan_out P D fill (link # links) 0 e s2))"

text \<open>The fills that are dropped without a look at the store.\<close>

definition dropped :: "Engine \<Rightarrow> MasterFill \<Rightarrow> bool" where
  "dropped e fill \<longleftrightarrow> IsKillSwitchEngaged e \<or> (mf_Status fill \<noteq> [] \<and> mf_Status fill \<noteq> TerminalComplete)
     \<or> HasPrefix (mf_Tag fill) ''sqoff''"

section \<open>The contract\<close>

text \<open>What the calls of the engine leave in the world, oldest first.\<close>

datatype outcome = Dispatched Job | Failed int string string

definition jobs_of :: "outcome list \<Rightarrow> Job list" where
  "jobs_of os = List.map_filter (\<lambda>x. case x of Dispatched job \<Rightarrow> Some job | _ \<Rightarrow> None) os"

text \<open>
  The laws. \<open>tags\<close> are the tags of the stored orders and \<open>outs\<close> the outcomes so far; \<open>inv\<close> is
  the provider's invariant. Reading changes neither; the batch insert adds its tags and returns
  exactly the new ones, or fails and adds none; a hand-off is an outcome if it is accepted.
\<close>

locale fanout =
  fixes D :: "'s EngineDeps" and inv :: "'s \<Rightarrow> bool" and tags :: "'s \<Rightarrow> string set" and outs :: "'s \<Rightarrow> outcome list"
  assumes read_active: "es_MasterActive (ed_store D) m s = (r, s') \<Longrightarrow> inv s \<Longrightarrow> inv s' \<and> tags s' = tags s \<and> outs s' = outs s"
    and read_links: "es_EnabledFollowLinks (ed_store D) m s = (rk, s') \<Longrightarrow> inv s \<Longrightarrow>
      inv s' \<and> tags s' = tags s \<and> outs s' = outs s \<and> (case rk of Inl _ \<Rightarrow> True | Inr ls \<Rightarrow> distinct (map fl_FollowerID ls))"
    and read_lot: "es_InstrumentLotSize (ed_store D) ex symb s = (rl, s') \<Longrightarrow> inv s \<Longrightarrow>
      inv s' \<and> tags s' = tags s \<and> outs s' = outs s"
    and read_resolver: "ed_ResolveLotSize D = Some rs \<Longrightarrow> rs ex symb s = (rl, s') \<Longrightarrow> inv s \<Longrightarrow>
      inv s' \<and> tags s' = tags s \<and> outs s' = outs s"
    and set_dispatch: "es_SetMasterFillDispatchState (ed_store D) i st s = (ru, s') \<Longrightarrow> inv s \<Longrightarrow>
      inv s' \<and> tags s' = tags s \<and> outs s' = outs s"
    and record_exec: "ed_Record D = Some g \<Longrightarrow> inv s \<Longrightarrow> inv (g ev s) \<and> tags (g ev s) = tags s \<and> outs (g ev s) = outs s"
    and fail_order: "es_UpdateFollowerOrderFailed (ed_store D) i st msg s = (ru, s') \<Longrightarrow> inv s \<Longrightarrow>
      inv s' \<and> tags s' = tags s \<and> outs s' = outs s @ [Failed i st msg]"
    and dispatch: "ed_Dispatch D f job s = (ok, s') \<Longrightarrow> job_FollowerID job = f \<Longrightarrow> inv s \<Longrightarrow>
      inv s' \<and> tags s' = tags s \<and> outs s' = (if ok then outs s @ [Dispatched job] else outs s)"
    and batch_new: "es_InsertFollowerOrdersBatch (ed_store D) os s = (Inr ids, s') \<Longrightarrow> inv s \<Longrightarrow>
      inv s' \<and> outs s' = outs s \<and> dom ids = batch_tags os - tags s \<and> tags s' = tags s \<union> batch_tags os"
    and batch_err: "es_InsertFollowerOrdersBatch (ed_store D) os s = (Inl err, s') \<Longrightarrow> inv s \<Longrightarrow>
      inv s' \<and> outs s' = outs s \<and> tags s' = tags s"

lemma jobs_of_simps [simp]:
  "jobs_of [] = []" "jobs_of (Dispatched job # os) = job # jobs_of os" "jobs_of (Failed i st m # os) = jobs_of os"
  "jobs_of (os @ os') = jobs_of os @ jobs_of os'"
  by (simp_all add: jobs_of_def List.map_filter_def)

lemma candidate_simps [simp]:
  "cj_followerID (candidate P fill lot link) = fl_FollowerID link"
  "cj_tag (candidate P fill lot link) = IdempotencyTag (mf_ID fill) (fl_FollowerID link)"
  by (simp_all add: candidate_def Let_def case_prod_beta)

lemma candidate_job_simps [simp]:
  "job_FollowerOrderID (candidate_job fill p t i c) = i" "job_FollowerID (candidate_job fill p t i c) = cj_followerID c"
  "job_MasterFillID (candidate_job fill p t i c) = mf_ID fill" "job_IdempotencyTag (candidate_job fill p t i c) = cj_tag c"
  "job_Quantity (candidate_job fill p t i c) = cj_qty c"
  by (simp_all add: candidate_job_def)

lemma batch_tags_candidates:
  "batch_tags (map (candidate_order fill lot) cs) = cj_tag ` set cs"
  by (auto simp: batch_tags_def candidate_order_def image_iff)

text \<open>
  What one call added: one outcome per candidate with a new tag, in candidate order. A candidate
  without quantity is failed as skipped, any other is handed over or failed as dead-lettered.
\<close>

definition outcome_for ::
  "MasterFill \<Rightarrow> float64 \<Rightarrow> float64 \<Rightarrow> (string \<rightharpoonup> int) \<Rightarrow> candidateJob \<Rightarrow> outcome \<Rightarrow> bool" where
  "outcome_for fill p t m c out \<longleftrightarrow> (\<exists>i. m (cj_tag c) = Some i \<and>
     (if cj_qty c = 0 then out = Failed i ''SKIPPED'' (SizingReason_String (cj_reason c))
      else out = Dispatched (candidate_job fill p t i c) \<or> out = Failed i TerminalDeadLettered channel_full_msg))"

definition loop_result ::
  "MasterFill \<Rightarrow> float64 \<Rightarrow> float64 \<Rightarrow> (string \<rightharpoonup> int) \<Rightarrow> candidateJob list \<Rightarrow> outcome list \<Rightarrow> bool" where
  "loop_result fill p t m cs new \<longleftrightarrow> list_all2 (outcome_for fill p t m) (filter (\<lambda>c. cj_tag c \<in> dom m) cs) new
     \<and> (\<forall>job \<in> set (jobs_of new). \<exists>c \<in> set cs. \<exists>i. m (cj_tag c) = Some i \<and> cj_qty c \<noteq> 0
            \<and> job = candidate_job fill p t i c)
     \<and> (distinct (map cj_followerID cs) \<longrightarrow> distinct (map job_FollowerID (jobs_of new)))"

lemma loop_result_Nil [simp]: "loop_result fill p t m [] []"
  by (simp add: loop_result_def)

lemma loop_result_skip: "m (cj_tag c) = None \<Longrightarrow> loop_result fill p t m cs new \<Longrightarrow> loop_result fill p t m (c # cs) new"
  by (auto simp: loop_result_def domIff)

lemma loop_result_fail:
  assumes "m (cj_tag c) = Some i" "outcome_for fill p t m c (Failed i st msg)" "loop_result fill p t m cs new"
  shows "loop_result fill p t m (c # cs) (Failed i st msg # new)"
  using assms by (auto simp: loop_result_def domIff)

lemma loop_result_job:
  assumes "m (cj_tag c) = Some i" "cj_qty c \<noteq> 0" "loop_result fill p t m cs new"
  shows "loop_result fill p t m (c # cs) (Dispatched (candidate_job fill p t i c) # new)"
  using assms by (fastforce simp: loop_result_def outcome_for_def domIff)

text \<open>
  Jobs of one call: for the fill handled, at most one per follower, with the tag that identifies
  the pair and that was not stored before the call and is stored after it.
\<close>

definition new_jobs :: "MasterFill \<Rightarrow> string set \<Rightarrow> string set \<Rightarrow> Job list \<Rightarrow> bool" where
  "new_jobs fill T T' js \<longleftrightarrow> distinct (map job_FollowerID js) \<and> (\<forall>j \<in> set js. job_MasterFillID j = mf_ID fill
     \<and> job_IdempotencyTag j = IdempotencyTag (mf_ID fill) (job_FollowerID j) \<and> job_Quantity j \<noteq> 0
     \<and> job_IdempotencyTag j \<in> T' - T)"

lemma new_jobs_Nil: "new_jobs fill T T' []"
  by (simp add: new_jobs_def)

context fanout begin

lemma loop_outcomes:
  "dispatch_loop D fill p t m cs a b s = (a', b', s') \<Longrightarrow> inv s \<Longrightarrow>
   inv s' \<and> tags s' = tags s \<and> (\<exists>new. outs s' = outs s @ new \<and> loop_result fill p t m cs new)"
proof (induction cs arbitrary: a b s)
  case (Cons c cs)
  show ?case
  proof (cases "m (cj_tag c)")
    case None
    then show ?thesis using Cons loop_result_skip[of m c, OF None] by fastforce
  next
    case (Some i)
    obtain ru s1 where f: "es_UpdateFollowerOrderFailed (ed_store D) i ''SKIPPED'' (SizingReason_String (cj_reason c)) s = (ru, s1)"
      by fastforce
    obtain ok s2 where d: "ed_Dispatch D (cj_followerID c) (candidate_job fill p t i c) s = (ok, s2)" by fastforce
    obtain rv s3 where g: "es_UpdateFollowerOrderFailed (ed_store D) i TerminalDeadLettered channel_full_msg s2 = (rv, s3)"
      by fastforce
    note F = fail_order[OF f Cons.prems(2)]
    note Dp = dispatch[OF d _ Cons.prems(2)]
    consider "cj_qty c = 0" | "cj_qty c \<noteq> 0" "ok" | "cj_qty c \<noteq> 0" "\<not> ok" by blast
    then show ?thesis
    proof cases
      case 1
      then have "dispatch_loop D fill p t m cs a (b + 1) s1 = (a', b', s')" using Cons.prems(1) Some f by simp
      moreover have "outcome_for fill p t m c (Failed i ''SKIPPED'' (SizingReason_String (cj_reason c)))"
        using 1 Some by (simp add: outcome_for_def)
      ultimately show ?thesis using Cons.IH F loop_result_fail[of m c, OF Some] by fastforce
    next
      case 2
      then have "dispatch_loop D fill p t m cs (a + 1) b s2 = (a', b', s')" using Cons.prems(1) Some d by simp
      from Cons.IH[OF this] Dp 2 show ?thesis using loop_result_job[of m c, OF Some 2(1)] by fastforce
    next
      case 3
      then have "dispatch_loop D fill p t m cs a b s3 = (a', b', s')" using Cons.prems(1) Some d g by simp
      moreover have "inv s2" "tags s2 = tags s" "outs s2 = outs s" using Dp 3 by simp_all
      moreover note fail_order[OF g \<open>inv s2\<close>]
      moreover have "outcome_for fill p t m c (Failed i TerminalDeadLettered channel_full_msg)"
        using 3 Some by (simp add: outcome_for_def)
      ultimately show ?thesis using Cons.IH[of a b s3] loop_result_fail[of m c, OF Some] by fastforce
    qed
  qed
qed simp

lemma record_frame:
  "inv s \<Longrightarrow> inv (record_execution D fill x a b s) \<and> tags (record_execution D fill x a b s) = tags s
     \<and> outs (record_execution D fill x a b s) = outs s"
  using record_exec by (simp add: record_execution_def split: option.split)

lemma set_state_frame:
  "set_state D i st e s = (r, e', s') \<Longrightarrow> inv s \<Longrightarrow> e' = e \<and> inv s' \<and> tags s' = tags s \<and> outs s' = outs s"
  using set_dispatch by (fastforce simp: set_state_def split: prod.splits)

lemma drop_frame:
  "drop_fill D i st e s = (r, e', s') \<Longrightarrow> inv s \<Longrightarrow> r = Inr () \<and> e' = e \<and> inv s' \<and> tags s' = tags s \<and> outs s' = outs s"
  using set_dispatch[of i st s] by (cases "es_SetMasterFillDispatchState (ed_store D) i st s")
    (auto simp: drop_fill_def split: if_splits)

lemma lot_frame:
  "resolveLotSize D ex symb e s = (r, e', s') \<Longrightarrow> inv s \<Longrightarrow>
   inv s' \<and> tags s' = tags s \<and> outs s' = outs s \<and> e_killSwitch e' = e_killSwitch e"
  using read_lot[of ex symb s] read_resolver[of _ ex symb s]
  by (fastforce simp: resolveLotSize_def Let_def split: option.splits prod.splits sum.splits if_splits)

text \<open>One fan-out: what it adds to the outcomes.\<close>

lemma fan_out_outcomes:
  assumes "fan_out P D fill links lot e s = (r, e', s')" and "inv s"
  shows "inv s' \<and> e' = e \<and> tags s \<subseteq> tags s' \<and> (\<exists>new. outs s' = outs s @ new
     \<and> (new = [] \<and> tags s' = tags s \<and> r \<noteq> Inr () \<or>
        (\<exists>m. dom m = (\<lambda>l. IdempotencyTag (mf_ID fill) (fl_FollowerID l)) ` set links - tags s
           \<and> tags s' = tags s \<union> (\<lambda>l. IdempotencyTag (mf_ID fill) (fl_FollowerID l)) ` set links
           \<and> loop_result fill (fst (resolveExecutionPrices P fill)) (snd (resolveExecutionPrices P fill)) m
               (map (candidate P fill lot) links) new)))"
proof -
  let ?cs = "map (candidate P fill lot) links"
  obtain rb s1 where b: "es_InsertFollowerOrdersBatch (ed_store D) (map (candidate_order fill lot) ?cs) s = (rb, s1)"
    by fastforce
  have tags: "batch_tags (map (candidate_order fill lot) ?cs)
      = (\<lambda>l. IdempotencyTag (mf_ID fill) (fl_FollowerID l)) ` set links"
    unfolding batch_tags_candidates by (auto simp: image_iff)
  show ?thesis
  proof (cases rb)
    case (Inl err)
    then show ?thesis
      using assms b batch_err[OF b[unfolded Inl] assms(2)]
      by (auto simp: fan_out_def Let_def case_prod_beta)
  next
    case (Inr m)
    note new = batch_new[OF b[unfolded Inr] assms(2), unfolded tags]
    obtain x y s2 where l: "dispatch_loop D fill (fst (resolveExecutionPrices P fill))
        (snd (resolveExecutionPrices P fill)) m ?cs 0 0 s1 = (x, y, s2)" by (metis prod_cases3)
    note loop = loop_outcomes[OF l conjunct1[OF new]]
    let ?x = "if fst (resolveExecutionPrices P fill) \<le> 0 then dec_Float64 P (mf_AveragePrice fill)
      else fst (resolveExecutionPrices P fill)"
    let ?s3 = "record_execution D fill ?x x y s2"
    have "set_state D (mf_ID fill) DispatchDispatched e ?s3 = (r, e', s')"
      using assms(1) b Inr l by (simp add: fan_out_def Let_def case_prod_beta)
    from set_state_frame[OF this] record_frame[OF conjunct1[OF loop]] loop new
    show ?thesis by fastforce
  qed
qed

lemma fan_out_jobs:
  assumes "fan_out P D fill links lot e s = (r, e', s')" "inv s" "distinct (map fl_FollowerID links)"
  shows "\<exists>new. outs s' = outs s @ new \<and> new_jobs fill (tags s) (tags s') (jobs_of new)"
proof -
  obtain new where new: "outs s' = outs s @ new" "new = [] \<or>
        (\<exists>m. dom m = (\<lambda>l. IdempotencyTag (mf_ID fill) (fl_FollowerID l)) ` set links - tags s
           \<and> tags s' = tags s \<union> (\<lambda>l. IdempotencyTag (mf_ID fill) (fl_FollowerID l)) ` set links
           \<and> loop_result fill (fst (resolveExecutionPrices P fill)) (snd (resolveExecutionPrices P fill)) m
               (map (candidate P fill lot) links) new)"
    using fan_out_outcomes[OF assms(1,2)] by blast
  show ?thesis
  proof (cases "new = []")
    case True
    then show ?thesis using new(1) new_jobs_Nil by (intro exI[of _ "[]"]) simp
  next
    case False
    then obtain m where m: "dom m = (\<lambda>l. IdempotencyTag (mf_ID fill) (fl_FollowerID l)) ` set links - tags s"
        "tags s' = tags s \<union> (\<lambda>l. IdempotencyTag (mf_ID fill) (fl_FollowerID l)) ` set links"
        "loop_result fill (fst (resolveExecutionPrices P fill)) (snd (resolveExecutionPrices P fill)) m
               (map (candidate P fill lot) links) new" using new(2) by blast
    have "distinct (map job_FollowerID (jobs_of new))"
      using m(3) assms(3) by (simp add: loop_result_def comp_def)
    moreover have "job_MasterFillID j = mf_ID fill \<and> job_IdempotencyTag j = IdempotencyTag (mf_ID fill) (job_FollowerID j)
        \<and> job_Quantity j \<noteq> 0 \<and> job_IdempotencyTag j \<in> tags s' - tags s" if j: "j \<in> set (jobs_of new)" for j
    proof -
      obtain l i where l: "l \<in> set links" "m (IdempotencyTag (mf_ID fill) (fl_FollowerID l)) = Some i"
          "cj_qty (candidate P fill lot l) \<noteq> 0"
          "j = candidate_job fill (fst (resolveExecutionPrices P fill)) (snd (resolveExecutionPrices P fill)) i
                 (candidate P fill lot l)"
        using m(3) j by (fastforce simp: loop_result_def)
      moreover have "IdempotencyTag (mf_ID fill) (fl_FollowerID l) \<in> dom m" using l(2) by blast
      ultimately show ?thesis using m(1,2) by auto
    qed
    ultimately show ?thesis using new(1) unfolding new_jobs_def by blast
  qed
qed

text \<open>A call either adds nothing, or is a fan-out from a state with the same tags and outcomes.\<close>

definition quiet :: "'s \<Rightarrow> 's \<Rightarrow> bool" where
  "quiet s s' \<longleftrightarrow> inv s' \<and> tags s' = tags s \<and> outs s' = outs s"

lemma links_shape:
  assumes "es_EnabledFollowLinks (ed_store D) (mf_MasterID fill) s1 = (Inr links, s2)" "quiet s s2"
    "HandleMasterFill P D fill e s = (r, e', s')" "es_MasterActive (ed_store D) (mf_MasterID fill) s = (Inr True, s1)"
    "\<not> dropped e fill"
  shows "quiet s s' \<or> (\<exists>lot e1 s3. fan_out P D fill links lot e1 s3 = (r, e', s') \<and> quiet s s3)"
proof -
  have s2: "inv s2" "tags s2 = tags s" "outs s2 = outs s" using assms(2) by (simp_all add: quiet_def)
  note unf = assms(1,3,4) assms(5)[unfolded dropped_def]
  consider "links = []" | "links \<noteq> []" "list_ex (\<lambda>l. fl_CloneFactor l \<noteq> 1) links"
    | "links \<noteq> []" "\<not> list_ex (\<lambda>l. fl_CloneFactor l \<noteq> 1) links" by blast
  then show ?thesis
  proof cases
    case 1
    then obtain x where "set_state D (mf_ID fill) DispatchDispatched e (record_execution D fill x 0 0 s2) = (r, e', s')"
      using unf by (auto simp: HandleMasterFill_def Let_def)
    from set_state_frame[OF this] record_frame[OF s2(1), of fill x 0 0] s2 show ?thesis by (simp add: quiet_def)
  next
    case 2
    obtain rl e1 s3 where l: "resolveLotSize D (mf_Exchange fill) (mf_Tradingsymbol fill) e s2 = (rl, e1, s3)"
      by (metis prod_cases3)
    have "quiet s s3" using lot_frame[OF l s2(1)] s2 by (simp add: quiet_def)
    moreover have "s' = s3 \<or> (\<exists>lot. fan_out P D fill links lot e1 s3 = (r, e', s'))"
      using unf l 2 by (cases links; cases rl) (auto simp: HandleMasterFill_def)
    ultimately show ?thesis by blast
  next
    case 3
    then have "fan_out P D fill links 0 e s2 = (r, e', s')"
      using unf by (cases links) (auto simp: HandleMasterFill_def)
    then show ?thesis using assms(2) by blast
  qed
qed

lemma handle_shape:
  assumes "HandleMasterFill P D fill e s = (r, e', s')" and "inv s"
  shows "quiet s s' \<or> \<not> dropped e fill \<and> (\<exists>links lot e1 s1. fan_out P D fill links lot e1 s1 = (r, e', s')
     \<and> quiet s s1 \<and> distinct (map fl_FollowerID links))"
proof (cases "dropped e fill")
  case True
  then have "\<exists>st. drop_fill D (mf_ID fill) st e s = (r, e', s')"
    using assms(1) by (auto simp: HandleMasterFill_def dropped_def split: if_splits)
  then show ?thesis using drop_frame assms(2) by (auto simp: quiet_def)
next
  case go: False
  obtain ra s1 where a: "es_MasterActive (ed_store D) (mf_MasterID fill) s = (ra, s1)" by fastforce
  note A = read_active[OF a assms(2)]
  obtain rk s2 where k: "es_EnabledFollowLinks (ed_store D) (mf_MasterID fill) s1 = (rk, s2)" by fastforce
  note K = read_links[OF k conjunct1[OF A]]
  have quiet: "quiet s s1" "quiet s s2" using A K by (simp_all add: quiet_def)
  show ?thesis
  proof (cases "ra = Inr True \<and> (\<exists>links. rk = Inr links)")
    case True
    then obtain links where links: "ra = Inr True" "rk = Inr links" by blast
    then have "distinct (map fl_FollowerID links)" using K by simp
    with links_shape[OF k[unfolded links] quiet(2) assms(1) a[unfolded links] go] go show ?thesis by blast
  next
    case False
    then have "s' = s1 \<or> s' = s2"
      using assms(1) go a k by (cases ra; cases rk) (auto simp: HandleMasterFill_def dropped_def split: bool.splits)
    then show ?thesis using quiet by blast
  qed
qed

lemma handle_jobs:
  assumes "HandleMasterFill P D fill e s = (r, e', s')" and "inv s"
  shows "inv s' \<and> tags s \<subseteq> tags s' \<and> (\<exists>new. outs s' = outs s @ new \<and> new_jobs fill (tags s) (tags s') (jobs_of new))"
  using handle_shape[OF assms]
proof (elim disjE conjE exE)
  assume "quiet s s'"
  then show ?thesis using new_jobs_Nil[of fill "tags s" "tags s'"] by (auto simp: quiet_def intro!: exI[of _ "[]"])
next
  fix links lot e1 s1
  assume "fan_out P D fill links lot e1 s1 = (r, e', s')" "quiet s s1" "distinct (map fl_FollowerID links)"
  then show ?thesis
    using fan_out_outcomes[of P fill links lot e1 s1] fan_out_jobs[of P fill links lot e1 s1]
    by (auto simp: quiet_def)
qed

text \<open>
  A call that succeeds for an active master fans out to all its links, with the lot size that the
  resolver answers when a link needs one; only a master without links adds nothing.
\<close>

lemma handle_fans_out:
  assumes "HandleMasterFill P D fill e s = (Inr (), e', s')" and "inv s" and "\<not> dropped e fill"
    and "es_MasterActive (ed_store D) (mf_MasterID fill) s = (Inr True, s1)"
    and "es_EnabledFollowLinks (ed_store D) (mf_MasterID fill) s1 = (Inr links, s2)"
  shows "links = [] \<and> quiet s s' \<or> (\<exists>lot e1 s3. fan_out P D fill links lot e1 s3 = (Inr (), e', s') \<and> quiet s s3
     \<and> (list_ex (\<lambda>l. fl_CloneFactor l \<noteq> 1) links \<longrightarrow>
          fst (resolveLotSize D (mf_Exchange fill) (mf_Tradingsymbol fill) e s2) = Inr lot))"
proof -
  note A = read_active[OF assms(4,2)]
  note K = read_links[OF assms(5) conjunct1[OF A]]
  have s2: "quiet s s2" using A K by (simp add: quiet_def)
  note go = assms(1,4,5) assms(3)[unfolded dropped_def]
  consider "links = []" | "links \<noteq> []" "list_ex (\<lambda>l. fl_CloneFactor l \<noteq> 1) links"
    | "links \<noteq> []" "\<not> list_ex (\<lambda>l. fl_CloneFactor l \<noteq> 1) links" by blast
  then show ?thesis
  proof cases
    case 1
    then obtain x where "set_state D (mf_ID fill) DispatchDispatched e (record_execution D fill x 0 0 s2) = (Inr (), e', s')"
      using go by (auto simp: HandleMasterFill_def Let_def)
    from set_state_frame[OF this] record_frame[of s2 fill x 0 0] s2 1 show ?thesis by (simp add: quiet_def)
  next
    case 2
    obtain rl e1 s3 where l: "resolveLotSize D (mf_Exchange fill) (mf_Tradingsymbol fill) e s2 = (rl, e1, s3)"
      by (metis prod_cases3)
    have "quiet s s3" using lot_frame[OF l] s2 by (simp add: quiet_def)
    moreover have "\<exists>lot. rl = Inr lot \<and> fan_out P D fill links lot e1 s3 = (Inr (), e', s')"
      using go l 2 by (cases links; cases rl) (auto simp: HandleMasterFill_def)
    ultimately show ?thesis using l by auto
  next
    case 3
    then have "fan_out P D fill links 0 e s2 = (Inr (), e', s')"
      using go by (cases links) (auto simp: HandleMasterFill_def)
    then show ?thesis using s2 3 by blast
  qed
qed

text \<open>Every job in the history is the only one of its fill and follower.\<close>

definition once :: "'s \<Rightarrow> bool" where
  "once s \<longleftrightarrow> distinct (map (\<lambda>j. (job_MasterFillID j, job_FollowerID j)) (jobs_of (outs s)))
     \<and> (\<forall>j \<in> set (jobs_of (outs s)). IdempotencyTag (job_MasterFillID j) (job_FollowerID j) \<in> tags s)"

lemma handle_once:
  assumes "HandleMasterFill P D fill e s = (r, e', s')" "inv s" "once s"
  shows "inv s' \<and> once s'"
proof -
  obtain new where new: "inv s'" "tags s \<subseteq> tags s'" "outs s' = outs s @ new"
      "new_jobs fill (tags s) (tags s') (jobs_of new)"
    using handle_jobs[OF assms(1,2)] by blast
  have fill: "job_MasterFillID j = mf_ID fill" "IdempotencyTag (mf_ID fill) (job_FollowerID j) \<in> tags s' - tags s"
    if "j \<in> set (jobs_of new)" for j
    using new(4) that by (auto simp: new_jobs_def)
  have "map (\<lambda>j. (job_MasterFillID j, job_FollowerID j)) (jobs_of new) = map (Pair (mf_ID fill)) (map job_FollowerID (jobs_of new))"
    using fill(1) by simp
  then have "distinct (map (\<lambda>j. (job_MasterFillID j, job_FollowerID j)) (jobs_of new))"
    using new(4) by (simp add: new_jobs_def distinct_map inj_on_def)
  moreover have "(job_MasterFillID j, job_FollowerID j) \<noteq> (job_MasterFillID j', job_FollowerID j')"
    if "j \<in> set (jobs_of (outs s))" "j' \<in> set (jobs_of new)" for j j'
    using assms(3) fill[OF that(2)] that(1) by (auto simp: once_def)
  ultimately have "distinct (map (\<lambda>j. (job_MasterFillID j, job_FollowerID j)) (jobs_of (outs s')))"
    using assms(3) new(3) by (auto simp: once_def)
  moreover have "IdempotencyTag (job_MasterFillID j) (job_FollowerID j) \<in> tags s'" if "j \<in> set (jobs_of (outs s'))" for j
    using that assms(3) fill[of j] new(2,3) by (auto simp: once_def)
  ultimately show ?thesis using new(1) by (simp add: once_def)
qed

end

section \<open>Properties of the sizing decision\<close>

text \<open>
  C11 A follower never copies more than its share: for every link with a positive clone factor of
  six decimals, the quantity is not negative, at most the master's filled quantity times the
  clone factor, and at most the link's cap when one is set; a follower in error or pending gets
  quantity zero.
\<close>
theorem follower_qty_bounds:
  assumes "decimal_doc P" and "sizing_input (mf_FilledQuantity fill) (fl_CloneFactor link) lot"
    and "0 < fl_CloneFactor link" and "follower_qty P fill lot link = (q, reason)"
  shows "0 \<le> q \<and> of_int q \<le> of_int (mf_FilledQuantity fill) * fl_CloneFactor link
    \<and> (fl_MaxQtyPerOrder link \<le> 0 \<or> q \<le> fl_MaxQtyPerOrder link)
    \<and> (fl_Status link \<notin> {''error'', ''pending''} \<and> fl_AuthStatus link \<notin> {''error'', ''pending''} \<or> q = 0)"
proof -
  have m: "0 \<le> mf_FilledQuantity fill" using assms(2) by (simp add: sizing_input_def)
  have "0 \<le> q \<and> of_int q \<le> of_int (mf_FilledQuantity fill) * fl_CloneFactor link
      \<and> (0 < fl_MaxQtyPerOrder link \<longrightarrow> q \<le> fl_MaxQtyPerOrder link)"
    if "SizeOrder P (mf_FilledQuantity fill) (fl_CloneFactor link) lot (fl_MaxQtyPerOrder link) = (q, reason)"
    using size_order_bounds[OF assms(1,2) that assms(3)] by blast
  then show ?thesis
    using assms(3,4) m by (auto simp: follower_qty_def Let_def not_less split: if_splits)
qed

definition ex_follow :: "decimal \<Rightarrow> int \<Rightarrow> FollowLink" where
  "ex_follow factor cap = \<lparr> fl_FollowerID = ''f'', fl_GroupID = ''g'', fl_MasterID = ''m'', fl_CloneFactor = factor,
     fl_MaxQtyPerOrder = cap, fl_Enabled = True, fl_EffectiveFrom = 0, fl_Status = ''active'', fl_AuthStatus = ''authenticated'' \<rparr>"

theorem follower_qty_bounds_witness:
  "(0::int) \<le> 10 \<and> (of_int 10 :: rat) \<le> of_int (mf_FilledQuantity ex_fill) * fl_CloneFactor (ex_follow 1 0)"
proof -
  have "follower_qty dec16 ex_fill 1 (ex_follow 1 0) = (10, ReasonOK)"
    by (simp add: follower_qty_def ex_follow_def ex_fill_def)
  from follower_qty_bounds[OF decimal_doc_dec16 _ _ this] show ?thesis
    by (simp add: sizing_input_def ex_follow_def ex_fill_def)
qed

text \<open>
  With clone factor one the cap is applied without the lot size: a fill of 150 with a cap of 70
  is copied as 70, whatever the lot size, so for a lot of 50 the capped quantity is not a whole
  number of lots, while the general sizing gives 50.
\<close>
theorem clone_factor_one_cap_not_lot_multiple:
  "follower_qty P (ex_fill\<lparr> mf_FilledQuantity := 150 \<rparr>) 50 (ex_follow 1 70) = (70, ReasonCapped)
   \<and> \<not> (50::int) dvd 70 \<and> SizeOrder dec16 150 1 50 70 = (50, ReasonCapped)"
proof -
  have "SizeOrder dec16 150 1 50 70 = (50, ReasonCapped)"
    by (simp add: SizeOrder_eq_spec decimal_doc_dec16 sizing_input_def size_spec_def lot_floor_def Let_def)
  then show ?thesis by (simp add: follower_qty_def ex_follow_def)
qed

end
