(* ===== verification/Listener.thy ===== *)
theory Listener
  imports Engine
begin

text \<open>
  The queue consumers (\<open>internal/listener/listener.go\<close>): a queued master fill is stored and
  fanned out, a queued follower update is applied to the order it belongs to. Both are stated
  over records of operations; the follower consumer is instantiated with the store's methods
  here, the master consumer with the whole server in theory \<open>Server\<close>. A portfolio sync that
  the code starts in a goroutine is the call of \<open>Syncer\<close>, if there is one.
\<close>

section \<open>Master fills\<close>

record 's MasterFillConsumer =
  mc_InsertMasterFill :: "MasterFill \<Rightarrow> 's \<Rightarrow> int result \<times> 's"
  mc_HandleMasterFill :: "MasterFill \<Rightarrow> 's \<Rightarrow> unit result \<times> 's"
  mc_Syncer :: "(uuid \<Rightarrow> 's \<Rightarrow> 's) option"

definition start_sync :: "(uuid \<Rightarrow> 's \<Rightarrow> 's) option \<Rightarrow> uuid \<Rightarrow> 's \<Rightarrow> 's" where
  "start_sync syncer a s = (case syncer of None \<Rightarrow> s | Some sync \<Rightarrow> sync a s)"

definition MasterFillConsumer_Handle :: "'s MasterFillConsumer \<Rightarrow> MasterFill \<Rightarrow> 's \<Rightarrow> unit result \<times> 's" where
  "MasterFillConsumer_Handle C fill s = (case mc_InsertMasterFill C fill s of
      (Inl err, s1) \<Rightarrow> if errors_Is err ErrDuplicate then (Inr (), s1) else (Inl err, s1)
    | (Inr i, s1) \<Rightarrow> (case mc_HandleMasterFill C (fill\<lparr> mf_ID := i \<rparr>) s1 of
          (Inl err, s2) \<Rightarrow> (Inl err, s2)
        | (Inr u, s2) \<Rightarrow> (Inr (), start_sync (mc_Syncer C) (mf_MasterID fill) s2)))"

section \<open>Follower order updates\<close>

record 's FollowerStatusStore =
  fs_UpdateFollowerOrderStatus :: "string \<Rightarrow> string \<Rightarrow> int \<Rightarrow> decimal \<Rightarrow> 's \<Rightarrow> int result \<times> 's"
  fs_UpdateFollowerOrderByTag :: "uuid \<Rightarrow> string \<Rightarrow> string \<Rightarrow> string \<Rightarrow> int \<Rightarrow> decimal \<Rightarrow> 's \<Rightarrow> int result \<times> 's"
  fs_InsertDirectFollowerOrder :: "OrderUpdate \<Rightarrow> 's \<Rightarrow> int result \<times> 's"
  fs_StashPendingOrderUpdate :: "string \<Rightarrow> string \<Rightarrow> int \<Rightarrow> decimal \<Rightarrow> raw_payload \<Rightarrow> 's \<Rightarrow> unit result \<times> 's"
  fs_GetFollowerOrder :: "int \<Rightarrow> 's \<Rightarrow> FollowerOrder result \<times> 's"
  fs_AppendOrderEvent :: "OrderEvent \<Rightarrow> 's \<Rightarrow> unit result \<times> 's"

definition result_id :: "int result \<Rightarrow> int" where
  "result_id r = (case r of Inl _ \<Rightarrow> 0 | Inr i \<Rightarrow> i)"

definition is_not_found :: "'a result \<Rightarrow> bool" where
  "is_not_found r = (case r of Inl err \<Rightarrow> errors_Is err ErrNotFound | Inr _ \<Rightarrow> False)"

text \<open>
  Steps 1 to 3 of \<open>Handle\<close>: find or create the row. \<open>None\<close> is the early return with no error
  for a duplicate direct order.
\<close>

definition locate_order :: "'s FollowerStatusStore \<Rightarrow> OrderUpdate \<Rightarrow> 's \<Rightarrow> int result option \<times> 's" where
  "locate_order S upd s =
     (case fs_UpdateFollowerOrderStatus S (ou_BrokerOrderID upd) (ou_Status upd) (ou_FilledQuantity upd)
             (ou_AveragePrice upd) s of
        (r1, s1) \<Rightarrow>
          if \<not> is_not_found r1 then (Some r1, s1)
          else
            (case (if ou_Tag upd \<noteq> [] then fs_UpdateFollowerOrderByTag S (ou_FollowerID upd) (ou_Tag upd)
                      (ou_BrokerOrderID upd) (ou_Status upd) (ou_FilledQuantity upd) (ou_AveragePrice upd) s1
                   else (r1, s1)) of
               (r2, s2) \<Rightarrow>
                 if is_not_found r2 \<or> result_id r2 = 0 then
                   (case fs_InsertDirectFollowerOrder S upd s2 of
                      (Inl err, s3) \<Rightarrow>
                        if errors_Is err ErrDuplicate then (None, s3)
                        else (Some (Inl err), snd (fs_StashPendingOrderUpdate S (ou_BrokerOrderID upd) (ou_Status upd)
                               (ou_FilledQuantity upd) (ou_AveragePrice upd) (ou_RawPayload upd) s3))
                    | (Inr i, s3) \<Rightarrow> (Some (Inr i), s3))
                 else (Some r2, s2)))"

definition FollowerStatusConsumer_Handle ::
  "'s FollowerStatusStore \<Rightarrow> (uuid \<Rightarrow> 's \<Rightarrow> 's) option \<Rightarrow> OrderUpdate \<Rightarrow> 's \<Rightarrow> unit result \<times> 's" where
  "FollowerStatusConsumer_Handle S syncer upd s =
     (case locate_order S upd s of
        (None, s1) \<Rightarrow> (Inr (), s1)
      | (Some (Inl err), s1) \<Rightarrow> (Inl err, s1)
      | (Some (Inr i), s1) \<Rightarrow>
          (case fs_GetFollowerOrder S i s1 of
             (Inl err, s2) \<Rightarrow> (Inl err, s2)
           | (Inr order, s2) \<Rightarrow>
               let followerID = (if fo_FollowerID order = uuid_Nil then ou_FollowerID upd else fo_FollowerID order);
                   s3 = (if ou_Status upd = TerminalComplete then start_sync syncer followerID s2 else s2)
               in fs_AppendOrderEvent S \<lparr> oe_FollowerOrderID = Some i, oe_MasterFillID = None,
                    oe_AccountID = followerID, oe_EventType = ''status_update'',
                    oe_Payload = ou_RawPayload upd \<rparr> s3))"

text \<open>The store's methods provide the interface.\<close>

definition pg_status_store :: "db FollowerStatusStore" where
  "pg_status_store = \<lparr> fs_UpdateFollowerOrderStatus = UpdateFollowerOrderStatus,
     fs_UpdateFollowerOrderByTag = UpdateFollowerOrderByTag,
     fs_InsertDirectFollowerOrder = InsertDirectFollowerOrder,
     fs_StashPendingOrderUpdate = StashPendingOrderUpdate,
     fs_GetFollowerOrder = GetFollowerOrder, fs_AppendOrderEvent = AppendOrderEvent \<rparr>"

section \<open>Every applied update is on an order row\<close>

definition applied :: "OrderUpdate \<Rightarrow> db \<Rightarrow> bool" where
  "applied upd d \<longleftrightarrow> (\<exists>r \<in> set (follower_orders d). fr_broker_order_id r = Some (ou_BrokerOrderID upd)
     \<and> fr_terminal_status r = nonempty (ou_Status upd) \<and> fr_filled_qty r = wrap32 (ou_FilledQuantity upd))"

lemma applied_update_where:
  assumes "r \<in> set rows" "P r" "fr_broker_order_id (f r) = Some (ou_BrokerOrderID upd)"
    "fr_terminal_status (f r) = nonempty (ou_Status upd)" "fr_filled_qty (f r) = wrap32 (ou_FilledQuantity upd)"
  shows "applied upd (d\<lparr> follower_orders := update_where P f rows \<rparr>)"
proof -
  have "f r \<in> set (update_where P f rows)" unfolding set_update_where using assms(1,2) by force
  then show ?thesis using assms(3-) by (auto simp: applied_def)
qed

lemma UpdateStatus_applied:
  assumes "UpdateFollowerOrderStatus (ou_BrokerOrderID upd) (ou_Status upd) (ou_FilledQuantity upd) p d = (Inr i, d')"
    and "ou_Status upd \<noteq> []"
  shows "applied upd d'"
  using assms(1) unfolding UpdateFollowerOrderStatus_def
  by (rule db_call_Inr)
     (use assms(2) in \<open>auto simp: nonempty_def split: option.splits dest!: find_Some_mem
        intro!: applied_update_where\<close>)

lemma UpdateByTag_applied:
  assumes "UpdateFollowerOrderByTag f t (ou_BrokerOrderID upd) (ou_Status upd) (ou_FilledQuantity upd) p d = (Inr i, d')"
    and "ou_BrokerOrderID upd \<noteq> []"
  shows "applied upd d'"
  using assms(1) unfolding UpdateFollowerOrderByTag_def
  by (rule db_call_Inr)
     (use assms(2) in \<open>auto simp: nonempty_def split: option.splits if_splits dest!: find_Some_mem
        intro!: applied_update_where\<close>)

lemma direct_row_simps [simp]:
  "fr_broker_order_id (direct_row upd d) = nonempty (ou_BrokerOrderID upd)"
  "fr_terminal_status (direct_row upd d) = nonempty (ou_Status upd)"
  "fr_filled_qty (direct_row upd d) = wrap32 (ou_FilledQuantity upd)"
  "fr_follower_id (direct_row upd d) = ou_FollowerID upd"
  by (simp_all add: direct_row_def Let_def)

lemma InsertDirect_applied:
  assumes "InsertDirectFollowerOrder upd d = (Inr i, d')" and "ou_BrokerOrderID upd \<noteq> []"
  shows "applied upd d'"
  using assms(1) unfolding InsertDirectFollowerOrder_def
proof (rule db_call_Inr, goal_cases)
  case (1 fs)
  let ?row = "direct_row upd (d\<lparr> faults := fs \<rparr>)"
  show ?case
  proof (cases "find (\<lambda>r. fo_broker_key r \<noteq> None \<and> fo_broker_key r = fo_broker_key ?row) (follower_orders d)")
    case None
    then have "follower_orders d' = follower_orders d @ [?row]"
      using 1 by (auto simp: Let_def add_order_def split: if_splits)
    then show ?thesis using assms(2) by (auto simp: applied_def nonempty_def)
  next
    case (Some old)
    with find_Some_mem[OF this] 1 assms(2) show ?thesis
      by (auto simp: Let_def fo_broker_key_def nonempty_def intro!: applied_update_where[where r = old])
  qed
qed

text \<open>Failures from outside the tables are not unique violations.\<close>

fun not_duplicate :: "go_error option \<Rightarrow> bool" where
  "not_duplicate None \<longleftrightarrow> True"
| "not_duplicate (Some e) \<longleftrightarrow> \<not> errors_Is e ErrDuplicate"

definition no_duplicate_faults :: "db \<Rightarrow> bool" where
  "no_duplicate_faults d \<longleftrightarrow> list_all not_duplicate (faults d)"

definition update_tag :: "OrderUpdate \<Rightarrow> string" where
  "update_tag upd = (if ou_Tag upd = [] then ''ext-'' @ ou_BrokerOrderID upd else ou_Tag upd)"

lemma InsertDirect_duplicate:
  assumes "InsertDirectFollowerOrder upd d = (Inl err, d')" "errors_Is err ErrDuplicate" "no_duplicate_faults d"
  shows "follower_orders d' = follower_orders d \<and> (\<exists>r \<in> set (follower_orders d). fr_idempotency_tag r = update_tag upd)
    \<and> (\<forall>r \<in> set (follower_orders d). fr_broker_order_id r = Some (ou_BrokerOrderID upd) \<longrightarrow> ou_BrokerOrderID upd \<noteq> [] \<longrightarrow>
         fr_follower_id r \<noteq> ou_FollowerID upd)"
  using assms
  by (auto simp: InsertDirectFollowerOrder_def db_call_def Let_def direct_row_def tag_taken_def pg_foreign_def
      no_duplicate_faults_def update_tag_def find_None_iff fo_broker_key_def nonempty_def
      split: list.splits option.splits if_splits)

text \<open>A failed or missed update of a row leaves the rows as they are; a miss by tag without a failure is a miss.\<close>

lemma UpdateStatus_missed:
  "UpdateFollowerOrderStatus b st q p d = (Inl err, d') \<Longrightarrow> follower_orders d' = follower_orders d
   \<and> (faults d = [] \<longrightarrow> faults d' = [])"
  by (auto simp: UpdateFollowerOrderStatus_def db_call_def split: list.splits option.splits)

lemma UpdateByTag_missed:
  assumes "UpdateFollowerOrderByTag f t b st q p d = (Inl err, d')"
  shows "follower_orders d' = follower_orders d"
    and "faults d = [] \<Longrightarrow> \<forall>r \<in> set (follower_orders d). fr_broker_order_id r = Some b \<longrightarrow> fr_follower_id r \<noteq> f \<Longrightarrow> b \<noteq> [] \<Longrightarrow>
      \<forall>r \<in> set (follower_orders d). fr_idempotency_tag r = t \<longrightarrow> fr_follower_id r \<noteq> f"
  using assms
  by (auto simp: UpdateFollowerOrderByTag_def db_call_def find_None_iff broker_id_taken_def nonempty_def
      split: list.splits option.splits if_splits)

lemma UpdateByTag_broker_key:
  assumes "UpdateFollowerOrderByTag f t b st q p d = (Inr i, d')" "b \<noteq> []"
  shows "\<exists>r \<in> set (follower_orders d'). fr_broker_order_id r = Some b \<and> fr_follower_id r = f"
  using assms(1) unfolding UpdateFollowerOrderByTag_def
proof (rule db_call_Inr, goal_cases)
  case (1 fs)
  let ?upd = "\<lambda>r. r\<lparr> fr_broker_order_id := nonempty b, fr_terminal_status := nonempty st, fr_filled_qty := wrap32 q,
    fr_average_price := null_price p, fr_updated_at := db_now d \<rparr>"
  obtain old where old: "old \<in> set (follower_orders d)" "fr_follower_id old = f"
      "follower_orders d' = update_where (\<lambda>r. fr_id r = fr_id old) ?upd (follower_orders d)"
    using 1 by (auto split: option.splits if_splits dest!: find_Some_mem)
  then have "?upd old \<in> set (follower_orders d')" unfolding old(3) set_update_where by force
  then show ?case using assms(2) old(2) by (intro bexI[of _ "?upd old"]) (simp_all add: nonempty_def)
qed

lemma update_faults:
  "UpdateFollowerOrderStatus b st q p d = (r, d') \<Longrightarrow> no_duplicate_faults d \<Longrightarrow> no_duplicate_faults d'"
  "UpdateFollowerOrderByTag f t b st q p d = (r, d') \<Longrightarrow> no_duplicate_faults d \<Longrightarrow> no_duplicate_faults d'"
  by (auto simp: UpdateFollowerOrderStatus_def UpdateFollowerOrderByTag_def db_call_def no_duplicate_faults_def
      split: list.splits option.splits if_splits)

text \<open>An update is set aside as a duplicate: the rows are as before, and the tag is on one of them.\<close>

definition set_aside :: "OrderUpdate \<Rightarrow> db \<Rightarrow> db \<Rightarrow> bool" where
  "set_aside upd d d' \<longleftrightarrow> follower_orders d' = follower_orders d \<and> (\<exists>r \<in> set (follower_orders d).
     fr_idempotency_tag r = update_tag upd
     \<and> (faults d = [] \<and> ou_Tag upd \<noteq> [] \<longrightarrow> fr_follower_id r \<noteq> ou_FollowerID upd))"

lemma locate_duplicate:
  assumes "locate_order pg_status_store upd d = (None, d')" "no_duplicate_faults d" "ou_BrokerOrderID upd \<noteq> []"
  shows "set_aside upd d d'"
proof -
  obtain r1 d1 where r1: "UpdateFollowerOrderStatus (ou_BrokerOrderID upd) (ou_Status upd) (ou_FilledQuantity upd)
      (ou_AveragePrice upd) d = (r1, d1)" by fastforce
  then obtain e1 where e1: "r1 = Inl e1"
    using assms(1) by (cases r1) (auto simp: locate_order_def pg_status_store_def is_not_found_def)
  note d1 = UpdateStatus_missed[OF r1[unfolded e1]] update_faults(1)[OF r1 assms(2)]
  show ?thesis
  proof (cases "ou_Tag upd = []")
    case True
    then obtain e3 where "InsertDirectFollowerOrder upd d1 = (Inl e3, d')" "errors_Is e3 ErrDuplicate"
      using assms(1) r1 e1 by (auto simp: locate_order_def pg_status_store_def split: prod.splits sum.splits if_splits)
    from InsertDirect_duplicate[OF this d1(2)] d1 True show ?thesis by (auto simp: set_aside_def)
  next
    case False
    obtain r2 d2 where r2: "UpdateFollowerOrderByTag (ou_FollowerID upd) (ou_Tag upd) (ou_BrokerOrderID upd) (ou_Status upd)
        (ou_FilledQuantity upd) (ou_AveragePrice upd) d1 = (r2, d2)" by fastforce
    then obtain e3 where e3: "InsertDirectFollowerOrder upd d2 = (Inl e3, d')" "errors_Is e3 ErrDuplicate"
      using assms(1) r1 e1 False by (auto simp: locate_order_def pg_status_store_def split: prod.splits sum.splits if_splits)
    note dup = InsertDirect_duplicate[OF e3 update_faults(2)[OF r2 d1(2)]]
    then obtain e2 where e2: "r2 = Inl e2" using UpdateByTag_broker_key[of "ou_FollowerID upd"] r2 assms(3) by (cases r2) blast+
    note miss = UpdateByTag_missed[OF r2[unfolded e2]]
    have "\<forall>r \<in> set (follower_orders d). fr_idempotency_tag r = ou_Tag upd \<longrightarrow> fr_follower_id r \<noteq> ou_FollowerID upd" if "faults d = []"
      using miss dup d1(1) that assms(3) by auto
    then show ?thesis using dup miss(1) d1(1) False by (auto simp: set_aside_def update_tag_def)
  qed
qed

text \<open>The calls that follow the update of the row leave the rows as they are.\<close>

lemma GetFollowerOrder_frame: "GetFollowerOrder i d = (r, d') \<Longrightarrow> follower_orders d' = follower_orders d"
  by (auto simp: GetFollowerOrder_def db_call_def split: list.splits option.splits)

lemma AppendOrderEvent_frame: "AppendOrderEvent ev d = (r, d') \<Longrightarrow> follower_orders d' = follower_orders d"
  by (auto simp: AppendOrderEvent_def db_call_def add_event_def split: list.splits option.splits if_splits)

lemma locate_applied:
  assumes "locate_order pg_status_store upd d = (Some (Inr i), d')" "ou_BrokerOrderID upd \<noteq> []" "ou_Status upd \<noteq> []"
  shows "applied upd d'"
  using assms UpdateStatus_applied UpdateByTag_applied InsertDirect_applied
  by (fastforce simp: locate_order_def pg_status_store_def is_not_found_def result_id_def
      split: prod.splits sum.splits if_splits)

text \<open>
  C10 No order update is lost: when handling an update of a named order with a status succeeds, a
  follower order with that broker order id carries the update's status and filled quantity
  afterwards, whether the order was known by its id, found by its tag, or new. The one exception is
  an update set aside as a duplicate: all rows stay as they were, and the update's tag was on a
  stored order before; without a failing transaction a tagged update is set aside only when that
  order belongs to another follower. (When the transaction that looks an order up by its tag
  fails, the update of the follower's own order can be set aside too.) This holds for every state
  of the store and every pattern of failing transactions.
\<close>
theorem follower_update_recorded:
  assumes "FollowerStatusConsumer_Handle pg_status_store None upd d = (Inr (), d')"
    and "ou_BrokerOrderID upd \<noteq> []" and "ou_Status upd \<noteq> []" and "no_duplicate_faults d"
  shows "(\<exists>r \<in> set (follower_orders d'). fr_broker_order_id r = Some (ou_BrokerOrderID upd)
        \<and> fr_terminal_status r = Some (ou_Status upd) \<and> fr_filled_qty r = wrap32 (ou_FilledQuantity upd))
    \<or> follower_orders d' = follower_orders d \<and> (\<exists>r \<in> set (follower_orders d). fr_idempotency_tag r = update_tag upd
        \<and> (faults d = [] \<and> ou_Tag upd \<noteq> [] \<longrightarrow> fr_follower_id r \<noteq> ou_FollowerID upd))"
proof -
  obtain l d1 where l: "locate_order pg_status_store upd d = (l, d1)" by fastforce
  have "applied upd d' \<or> set_aside upd d d'"
  proof (cases l)
    case None
    then show ?thesis
      using l assms(1) locate_duplicate[of upd d d1] assms(2,4) by (simp add: FollowerStatusConsumer_Handle_def)
  next
    case (Some r)
    then obtain i where r: "r = Inr i" using assms(1) l by (cases r) (auto simp: FollowerStatusConsumer_Handle_def)
    then have "applied upd d1" using l Some locate_applied[OF _ assms(2,3)] by simp
    moreover have "follower_orders d' = follower_orders d1"
      using assms(1) l Some r GetFollowerOrder_frame AppendOrderEvent_frame
      by (fastforce simp: FollowerStatusConsumer_Handle_def pg_status_store_def Let_def start_sync_def
          split: prod.splits sum.splits if_splits)
    ultimately show ?thesis by (simp add: applied_def)
  qed
  then show ?thesis using assms(3) by (simp add: applied_def set_aside_def nonempty_def)
qed

definition ex_update :: "string \<Rightarrow> OrderUpdate" where
  "ex_update tag = \<lparr> ou_FollowerID = ''f'', ou_BrokerOrderID = ''o1'', ou_Tradingsymbol = ''INFY'', ou_Exchange = ''NSE'',
     ou_Product = ''MIS'', ou_TransactionType = ''BUY'', ou_OrderType = ''MARKET'', ou_Quantity = 10,
     ou_Status = ''COMPLETE'', ou_FilledQuantity = 10, ou_AveragePrice = 100, ou_OrderTimestamp = 5, ou_Tag = tag,
     ou_RawPayload = RawJson (JObj []) \<rparr>"

lemma ex_db2_more:
  "fo_next ex_db2 = 3" "ev_next ex_db2 = 1" "db_now ex_db2 = 1" "accounts ex_db2 = accounts ex_db"
  "master_fills ex_db2 = [fill_row ex_fill ex_db]"
  by (simp_all add: ex_db2_def ex_db1_eq InsertFollowerOrdersBatch_def db_call_def Let_def ex_order_def
      order_refs_ok_def account_exists_def tag_taken_def pair_taken_def add_order_def order_row_def fo_pair_def
      fill_row_def FollowerOrder_zero_def ex_db_def ex_account_def empty_db_def ex_fill_def)

lemmas ex_eval = ex_db2_eq ex_db2_more ex_db1_eq(2) order_row_def ex_order_def FollowerOrder_zero_def
  nonempty_def broker_id_taken_def db_call_def Let_def

lemma ex_update_run:
  "FollowerStatusConsumer_Handle pg_status_store None (ex_update ''t1'') ex_db2
   = (Inr (), snd (FollowerStatusConsumer_Handle pg_status_store None (ex_update ''t1'') ex_db2))"
  by (simp add: FollowerStatusConsumer_Handle_def locate_order_def pg_status_store_def ex_update_def
      UpdateFollowerOrderStatus_def UpdateFollowerOrderByTag_def GetFollowerOrder_def AppendOrderEvent_def
      ex_eval is_not_found_def result_id_def update_where_def toFollowerOrder_def event_refs_ok_def
      account_exists_def ex_db_def ex_account_def empty_db_def uuid_Nil_def start_sync_def)

theorem follower_update_recorded_witness:
  "let d' = snd (FollowerStatusConsumer_Handle pg_status_store None (ex_update ''t1'') ex_db2)
   in \<exists>r \<in> set (follower_orders d'). fr_broker_order_id r = Some ''o1''
        \<and> fr_terminal_status r = Some ''COMPLETE'' \<and> fr_filled_qty r = wrap32 10"
  using follower_update_recorded[OF ex_update_run]
  by (auto simp: ex_update_def no_duplicate_faults_def update_tag_def ex_eval)

text \<open>
  An early update without a tag splits an order in two: when it arrives before the placement is
  recorded, it is stored as a separate direct order, and recording the placement then fails on
  the unique broker order id, so that the copied order keeps no broker order id and no status.
\<close>
theorem untagged_early_update_splits_order:
  "let (r, d') = FollowerStatusConsumer_Handle pg_status_store None (ex_update []) ex_db2;
       (r', d'') = UpdateFollowerOrderPlaced 1 ''o1'' 10 d'
   in r = Inr () \<and> r' = Inl (errorf ''update follower_orders placed'' pg_unique)
      \<and> map (\<lambda>x. (fr_id x, fr_broker_order_id x, fr_terminal_status x)) (follower_orders d'')
        = [(1, None, None), (2, None, None), (3, Some ''o1'', Some ''COMPLETE'')]"
  by (simp add: FollowerStatusConsumer_Handle_def locate_order_def pg_status_store_def ex_update_def
      UpdateFollowerOrderStatus_def InsertDirectFollowerOrder_def direct_row_def GetFollowerOrder_def AppendOrderEvent_def
      UpdateFollowerOrderPlaced_def ex_eval is_not_found_def result_id_def toFollowerOrder_def event_refs_ok_def
      account_exists_def ex_db_def ex_account_def empty_db_def uuid_Nil_def start_sync_def fo_broker_key_def
      tag_taken_def order_refs_ok_def add_order_def add_event_def)

end
