(* ===== verification/Queues.thy ===== *)
theory Queues
  imports Prelude
begin

text \<open>
  Buffered channels and the in-memory dispatch queue (\<open>internal/queue/memchan/memchan.go\<close>).
  A channel is its buffer and its capacity; a non-blocking \<open>select\<close> with a \<open>default\<close> branch
  sends exactly when the buffer has room. The interface \<open>bounded_queue\<close> collects what every
  user of such a channel relies on; it is interpreted for the memchan queue here and for the
  worker pool's per-follower channels in theory \<open>Worker\<close>.
\<close>

section \<open>Channels\<close>

record 'a chan =
  ch_buf :: "'a list"
  ch_cap :: nat

definition make_chan :: "nat \<Rightarrow> 'a chan" where
  "make_chan n = \<lparr> ch_buf = [], ch_cap = n \<rparr>"

text \<open>\<open>select { case ch <- x: ... default: ... }\<close>\<close>

definition chan_send :: "'a \<Rightarrow> 'a chan \<Rightarrow> bool \<times> 'a chan" where
  "chan_send x c = (if length (ch_buf c) < ch_cap c
     then (True, c\<lparr> ch_buf := ch_buf c @ [x] \<rparr>) else (False, c))"

text \<open>A receive that is ready: \<open>None\<close> is a receive that would block.\<close>

definition chan_recv :: "'a chan \<Rightarrow> ('a \<times> 'a chan) option" where
  "chan_recv c = (case ch_buf c of [] \<Rightarrow> None | x # xs \<Rightarrow> Some (x, c\<lparr> ch_buf := xs \<rparr>))"

section \<open>memchan\<close>

record 'a Queue =
  q_ch :: "'a chan"

definition Queue_New :: "nat \<Rightarrow> 'a Queue" where
  "Queue_New capacity = \<lparr> q_ch = make_chan capacity \<rparr>"

definition Publish :: "'a \<Rightarrow> 'a Queue \<Rightarrow> go_error option \<times> 'a Queue" where
  "Publish ev q = (case chan_send ev (q_ch q) of
      (True, c) \<Rightarrow> (None, q\<lparr> q_ch := c \<rparr>)
    | (False, c) \<Rightarrow> (Some ErrFull, q\<lparr> q_ch := c \<rparr>))"

definition Queue_recv :: "'a Queue \<Rightarrow> ('a \<times> 'a Queue) option" where
  "Queue_recv q = (case chan_recv (q_ch q) of None \<Rightarrow> None | Some (x, c) \<Rightarrow> Some (x, q\<lparr> q_ch := c \<rparr>))"

definition Queue_Len :: "'a Queue \<Rightarrow> nat" where
  "Queue_Len q = length (ch_buf (q_ch q))"

definition Queue_Cap :: "'a Queue \<Rightarrow> nat" where
  "Queue_Cap q = ch_cap (q_ch q)"

text \<open>
  \<open>Consume\<close> is a loop around a \<open>select\<close> that either sees the cancelled context and returns, or
  receives an event and hands it to \<open>fn\<close>, whose error is dropped. Which branch runs when both
  are ready is not determined, so the loop is a relation between the queue and handler state
  at its start and at its return.
\<close>

inductive Consume :: "('a \<Rightarrow> 's \<Rightarrow> go_error option \<times> 's) \<Rightarrow> 'a Queue \<Rightarrow> 's \<Rightarrow> 'a Queue \<Rightarrow> 's \<Rightarrow> bool"
  for fn where
  ctx_done: "Consume fn q s q s"
| event: "Queue_recv q = Some (ev, q') \<Longrightarrow> Consume fn q' (snd (fn ev s)) q'' s'' \<Longrightarrow> Consume fn q s q'' s''"

inductive_cases ConsumeE: "Consume fn q s q' s'"

section \<open>The bounded queue interface\<close>

locale bounded_queue =
  fixes send :: "'a \<Rightarrow> 'q \<Rightarrow> bool \<times> 'q"
    and recv :: "'q \<Rightarrow> ('a \<times> 'q) option"
    and content :: "'q \<Rightarrow> 'a list"
    and capacity :: "'q \<Rightarrow> nat"
  assumes send_room: "length (content q) < capacity q \<Longrightarrow>
      fst (send x q) \<and> content (snd (send x q)) = content q @ [x] \<and> capacity (snd (send x q)) = capacity q"
    and send_full: "\<not> length (content q) < capacity q \<Longrightarrow> send x q = (False, q)"
    and recv_empty: "content q = [] \<Longrightarrow> recv q = None"
    and recv_head: "content q = x # xs \<Longrightarrow>
      \<exists>q'. recv q = Some (x, q') \<and> content q' = xs \<and> capacity q' = capacity q"

text \<open>A history of the queue: sends that may be refused, and receives that may block.\<close>

datatype 'a qop = QSend 'a | QRecv

fun queue_run ::
  "('a \<Rightarrow> 'q \<Rightarrow> bool \<times> 'q) \<Rightarrow> ('q \<Rightarrow> ('a \<times> 'q) option) \<Rightarrow> 'a qop list \<Rightarrow> 'q
     \<Rightarrow> 'a list \<times> 'a list \<times> 'q" where
  "queue_run send recv [] q = ([], [], q)"
| "queue_run send recv (QSend x # ops) q =
     (case send x q of (ok, q') \<Rightarrow>
        case queue_run send recv ops q' of (acc, rcv, q'') \<Rightarrow>
          (if ok then x # acc else acc, rcv, q''))"
| "queue_run send recv (QRecv # ops) q =
     (case recv q of
        None \<Rightarrow> queue_run send recv ops q
      | Some (x, q') \<Rightarrow> case queue_run send recv ops q' of (acc, rcv, q'') \<Rightarrow> (acc, x # rcv, q''))"

context bounded_queue begin

lemma run_inv:
  "queue_run send recv ops q = (acc, rcv, q') \<Longrightarrow>
     rcv @ content q' = content q @ acc \<and> capacity q' = capacity q
     \<and> (length (content q) \<le> capacity q \<longrightarrow> length (content q') \<le> capacity q')"
proof (induction ops arbitrary: q acc rcv q')
  case (Cons op ops)
  show ?case
  proof (cases op)
    case (QSend x)
    with Cons show ?thesis
      using send_room[of q x] send_full[of q x]
      by (cases "length (content q) < capacity q") (fastforce split: prod.splits)+
  next
    case QRecv
    with Cons show ?thesis
      using recv_empty[of q] recv_head[of q]
      by (cases "content q") (fastforce split: prod.splits)+
  qed
qed simp

lemmas run_fifo = run_inv [THEN conjunct1]
lemmas run_capacity = run_inv [THEN conjunct2, THEN conjunct1]
lemmas run_bounded = run_inv [THEN conjunct2, THEN conjunct2, rule_format]

end

lemmas chan_defs = make_chan_def chan_send_def chan_recv_def

text \<open>memchan provides the interface: \<open>Publish\<close> succeeds exactly when there is room.\<close>

definition Publish_ok :: "'a \<Rightarrow> 'a Queue \<Rightarrow> bool \<times> 'a Queue" where
  "Publish_ok ev q = (fst (Publish ev q) = None, snd (Publish ev q))"

interpretation memchan: bounded_queue Publish_ok Queue_recv "\<lambda>q. ch_buf (q_ch q)" Queue_Cap
  by unfold_locales
     (auto simp: Publish_ok_def Publish_def Queue_recv_def Queue_Cap_def chan_defs)

section \<open>Properties\<close>

lemma Consume_prefix:
  "Consume fn q s q' s' \<Longrightarrow> \<exists>k \<le> Queue_Len q. ch_buf (q_ch q') = drop k (ch_buf (q_ch q))
     \<and> s' = fold (\<lambda>ev s. snd (fn ev s)) (take k (ch_buf (q_ch q))) s"
proof (induction rule: Consume.induct)
  case (ctx_done q s)
  show ?case by (rule exI[of _ 0]) simp
next
  case (event q ev q' s q'' s'')
  from event.hyps(1) have buf: "ch_buf (q_ch q) = ev # ch_buf (q_ch q')"
    by (auto simp: Queue_recv_def chan_defs split: option.splits list.splits)
  from event.IH obtain k where k: "k \<le> Queue_Len q'"
    "ch_buf (q_ch q'') = drop k (ch_buf (q_ch q'))"
    "s'' = fold (\<lambda>ev s. snd (fn ev s)) (take k (ch_buf (q_ch q'))) (snd (fn ev s))"
    by auto
  then show ?case using buf by (intro exI[of _ "Suc k"]) (simp add: Queue_Len_def)
qed

text \<open>
  C12 The dispatch queue is a bounded FIFO: over any history of publishes and receives from a
  new queue, the events received, followed by the events still buffered, are exactly the
  accepted events in publish order, and the buffer never exceeds its capacity.
\<close>
theorem memchan_fifo:
  assumes "queue_run Publish_ok Queue_recv ops (Queue_New n) = (acc, rcv, q)"
  shows "rcv @ ch_buf (q_ch q) = acc \<and> Queue_Len q \<le> n"
  using memchan.run_fifo[OF assms] memchan.run_bounded[OF assms] memchan.run_capacity[OF assms]
  by (simp add: Queue_New_def Queue_Cap_def Queue_Len_def make_chan_def)

theorem memchan_fifo_witness:
  "queue_run Publish_ok Queue_recv [QSend (1::int), QSend 2, QSend 3, QRecv, QSend 4] (Queue_New 2)
      = ([1, 2, 4], [1], \<lparr> q_ch = \<lparr> ch_buf = [2, 4], ch_cap = 2 \<rparr> \<rparr>)
   \<and> [1] @ [2, 4] = [1, 2, 4::int]"
proof -
  have run: "queue_run Publish_ok Queue_recv [QSend (1::int), QSend 2, QSend 3, QRecv, QSend 4] (Queue_New 2)
      = ([1, 2, 4], [1], \<lparr> q_ch = \<lparr> ch_buf = [2, 4], ch_cap = 2 \<rparr> \<rparr>)"
    by (simp add: Publish_ok_def Publish_def Queue_recv_def Queue_New_def chan_defs)
  from memchan_fifo[OF run] show ?thesis using run by simp
qed

text \<open>
  The consumer loop hands over every event at most once and in order, whatever the handler
  returns: when it stops it has applied the handler to a prefix of the buffered events, and
  the rest is still buffered.
\<close>
theorem Consume_in_order:
  assumes "Consume fn q s q' s'"
  shows "\<exists>k \<le> Queue_Len q. ch_buf (q_ch q') = drop k (ch_buf (q_ch q))
     \<and> s' = fold (\<lambda>ev s. snd (fn ev s)) (take k (ch_buf (q_ch q))) s"
  using assms by (rule Consume_prefix)

theorem Consume_in_order_witness:
  "\<exists>k \<le> Queue_Len \<lparr> q_ch = \<lparr> ch_buf = [5, 6::int], ch_cap = 3 \<rparr> \<rparr>.
     [6] = drop k [5, 6::int] \<and> [5] = fold (\<lambda>ev s. s @ [ev]) (take k [5, 6::int]) []"
proof -
  have "Consume (\<lambda>ev s. (Some ErrConflict, s @ [ev])) \<lparr> q_ch = \<lparr> ch_buf = [5, 6::int], ch_cap = 3 \<rparr> \<rparr> []
      \<lparr> q_ch = \<lparr> ch_buf = [6], ch_cap = 3 \<rparr> \<rparr> [5]"
    by (rule Consume.event[where ev = 5 and q' = "\<lparr> q_ch = \<lparr> ch_buf = [6], ch_cap = 3 \<rparr> \<rparr>"])
       (auto simp: Queue_recv_def chan_defs intro: Consume.ctx_done)
  from Consume_in_order[OF this] show ?thesis by simp
qed

end
