(* ===== verification/Worker.thy ===== *)
theory Worker
  imports Broker Queues Store_Thms
begin

text \<open>
  The worker pool (\<open>internal/worker/pool.go\<close>): one goroutine and one bounded channel per
  follower. \<open>place\<close> is the whole placement of one job: the broker call with its retries, and
  the recording of exactly one outcome. Go's interfaces become records of operations on a state
  \<open>'s\<close>; which branch a \<open>select\<close> on a timer and two done channels takes, and what the broker
  answers, is up to that state. The goroutines are a step relation on the pool.
\<close>

section \<open>Interfaces\<close>

datatype place_reply = PlaceReply "OrderResponse result" | PlacePanic string

datatype wake = Elapsed | CtxDone go_error | PoolDone

record 's WorkerStore =
  ws_UpdateFollowerOrderPlaced :: "int \<Rightarrow> string \<Rightarrow> int \<Rightarrow> 's \<Rightarrow> unit result \<times> 's"
  ws_UpdateFollowerOrderFailed :: "int \<Rightarrow> string \<Rightarrow> string \<Rightarrow> 's \<Rightarrow> unit result \<times> 's"
  ws_AppendOrderEvent :: "OrderEvent \<Rightarrow> 's \<Rightarrow> unit result \<times> 's"

record 's WorkerBroker =
  wb_PlaceOrder :: "string \<Rightarrow> OrderParams \<Rightarrow> 's \<Rightarrow> place_reply \<times> 's"

text \<open>
  The pool's settings, with the environment of its \<open>select\<close> statements (\<open>pc_select\<close>) and
  the optional portfolio syncer, whose goroutine is started by \<open>pc_Syncer\<close>.
\<close>

record 's PoolConfig =
  pc_RateLimitInterval :: duration
  pc_MaxRetries :: int
  pc_InitialBackoff :: duration
  pc_select :: "duration \<Rightarrow> 's \<Rightarrow> wake \<times> 's"
  pc_Syncer :: "(uuid \<Rightarrow> 's \<Rightarrow> 's) option"

definition NewPoolConfig :: "(duration \<Rightarrow> 's \<Rightarrow> wake \<times> 's) \<Rightarrow> 's PoolConfig" where
  "NewPoolConfig sel = \<lparr> pc_RateLimitInterval = 100 * Millisecond, pc_MaxRetries = 3,
     pc_InitialBackoff = 50 * Millisecond, pc_select = sel, pc_Syncer = None \<rparr>"

section \<open>Placing one job\<close>

fun net_timeout :: "go_error \<Rightarrow> bool" where
  "net_timeout (NetTimeout m) \<longleftrightarrow> True"
| "net_timeout (Wrapf pre e post) \<longleftrightarrow> net_timeout e"
| "net_timeout e \<longleftrightarrow> False"

definition isTimeout :: "go_error \<Rightarrow> bool" where
  "isTimeout err \<longleftrightarrow> errors_Is err CtxDeadlineExceeded \<or> net_timeout err
     \<or> (let msg = ToLower (err_Error err) in Contains msg ''timeout'' \<or> Contains msg ''deadline exceeded'')"

definition job_params :: "Job \<Rightarrow> OrderParams" where
  "job_params job = \<lparr> op_Exchange = job_Exchange job, op_Tradingsymbol = job_Tradingsymbol job,
     op_TransactionType = job_TransactionType job, op_Product = job_Product job,
     op_OrderType = job_OrderType job, op_Quantity = job_Quantity job, op_Price = job_Price job,
     op_TriggerPrice = job_TriggerPrice job, op_Tag = job_IdempotencyTag job \<rparr>"

definition api_event :: "Job \<Rightarrow> raw_payload \<Rightarrow> OrderEvent" where
  "api_event job payload = \<lparr> oe_FollowerOrderID = Some (job_FollowerOrderID job),
     oe_MasterFillID = Some (job_MasterFillID job), oe_AccountID = job_FollowerID job,
     oe_EventType = ''api_response'', oe_Payload = payload \<rparr>"

definition placed_payload :: "string \<Rightarrow> int \<Rightarrow> raw_payload" where
  "placed_payload orderID qty = (if json_quotable orderID
     then RawJson (JObj [(''broker_order_id'', JStr orderID), (''quantity'', JNum (of_int qty))]) else RawInvalid)"

definition error_payload :: "go_error \<Rightarrow> raw_payload" where
  "error_payload cause = (if json_quotable (err_Error cause)
     then RawJson (JObj [(''error'', JStr (err_Error cause))]) else RawInvalid)"

definition failure_status :: "go_error \<Rightarrow> string" where
  "failure_status cause =
     (if errors_Is cause CtxCanceled \<or> errors_Is cause CtxDeadlineExceeded
         \<or> Contains (err_Error cause) ''pool shutdown''
      then TerminalDeadLettered else TerminalRejected)"

definition recordFailure :: "'s WorkerStore \<Rightarrow> Job \<Rightarrow> go_error \<Rightarrow> 's \<Rightarrow> 's" where
  "recordFailure store job cause s =
     (let (_, s1) = ws_UpdateFollowerOrderFailed store (job_FollowerOrderID job) (failure_status cause)
                      (err_Error cause) s;
          (_, s2) = ws_AppendOrderEvent store (api_event job (error_payload cause)) s1
      in s2)"

definition recordPlaced :: "'s PoolConfig \<Rightarrow> 's WorkerStore \<Rightarrow> Job \<Rightarrow> OrderResponse \<Rightarrow> 's \<Rightarrow> 's" where
  "recordPlaced cfg store job resp s =
     (let (_, s1) = ws_UpdateFollowerOrderPlaced store (job_FollowerOrderID job) (or_OrderID resp)
                      (job_Quantity job) s;
          (_, s2) = ws_AppendOrderEvent store
                      (api_event job (placed_payload (or_OrderID resp) (job_Quantity job))) s1
      in case pc_Syncer cfg of None \<Rightarrow> s2 | Some sync \<Rightarrow> sync (job_FollowerID job) s2)"

definition err_pool_shutdown :: go_error where
  "err_pool_shutdown = Plain ''pool shutdown''"

text \<open>
  The retry loop. Its first component is the message of a panic that escaped the loop; the
  deferred recovery of \<open>place\<close> turns it into a recorded failure.
\<close>

function place_loop ::
  "'s PoolConfig \<Rightarrow> 's WorkerBroker \<Rightarrow> 's WorkerStore \<Rightarrow> Job \<Rightarrow> int \<Rightarrow> int \<Rightarrow> duration \<Rightarrow> 's
     \<Rightarrow> string option \<times> 's" where
  "place_loop cfg b store job maxAttempts attempt backoff s =
     (if maxAttempts < attempt then (None, s)
      else case wb_PlaceOrder b ''regular'' (job_params job) s of
        (PlacePanic r, s1) \<Rightarrow> (Some r, s1)
      | (PlaceReply (Inr resp), s1) \<Rightarrow> (None, recordPlaced cfg store job resp s1)
      | (PlaceReply (Inl err), s1) \<Rightarrow>
          if \<not> isTimeout err then (None, recordFailure store job err s1)
          else if attempt = maxAttempts then (None, recordFailure store job err s1)
          else (case pc_select cfg backoff s1 of
                  (Elapsed, s2) \<Rightarrow>
                    place_loop cfg b store job maxAttempts (attempt + 1) (wrap64 (backoff * 2)) s2
                | (CtxDone e, s2) \<Rightarrow> (None, recordFailure store job e s2)
                | (PoolDone, s2) \<Rightarrow> (None, recordFailure store job err_pool_shutdown s2)))"
  by pat_completeness auto
termination
  by (relation "measure (\<lambda>(cfg, b, store, job, maxAttempts, attempt, backoff, s). nat (maxAttempts + 1 - attempt))")
     auto

declare place_loop.simps [simp del]

definition panic_error :: "string \<Rightarrow> go_error" where
  "panic_error r = Plain (''panic placing order: '' @ r)"

text \<open>The deferred \<open>recover()\<close> of \<open>place\<close>.\<close>

definition recovered :: "'s WorkerStore \<Rightarrow> Job \<Rightarrow> string option \<times> 's \<Rightarrow> 's" where
  "recovered store job r = (case r of
      (None, s) \<Rightarrow> s
    | (Some m, s) \<Rightarrow> recordFailure store job (panic_error m) s)"

definition place :: "'s PoolConfig \<Rightarrow> 's WorkerBroker \<Rightarrow> 's WorkerStore \<Rightarrow> Job \<Rightarrow> 's \<Rightarrow> 's" where
  "place cfg b store job s =
     (let maxAttempts = (if pc_MaxRetries cfg < 1 then 1 else pc_MaxRetries cfg);
          backoff = (if pc_InitialBackoff cfg \<le> 0 then 10 * Millisecond else pc_InitialBackoff cfg)
      in recovered store job (place_loop cfg b store job maxAttempts 1 backoff s))"

section \<open>What a placement does, as a log of calls\<close>

datatype worker_act =
    ActPlace string OrderParams place_reply
  | ActPlaced int string int
  | ActFailed int string string
  | ActEvent OrderEvent

text \<open>
  The interface of a placement: a view \<open>acts\<close> of the state lists the calls made so far, every
  call of the broker and the store adds itself, waiting and syncing add nothing.
\<close>

locale placement_log =
  fixes cfg :: "'s PoolConfig" and b :: "'s WorkerBroker" and store :: "'s WorkerStore"
    and acts :: "'s \<Rightarrow> worker_act list"
  assumes acts_place: "wb_PlaceOrder b v p s = (r, s') \<Longrightarrow> acts s' = acts s @ [ActPlace v p r]"
    and acts_placed: "acts (snd (ws_UpdateFollowerOrderPlaced store i oid q s)) = acts s @ [ActPlaced i oid q]"
    and acts_failed: "acts (snd (ws_UpdateFollowerOrderFailed store i st m s)) = acts s @ [ActFailed i st m]"
    and acts_event: "acts (snd (ws_AppendOrderEvent store ev s)) = acts s @ [ActEvent ev]"
    and acts_select: "pc_select cfg t s = (w, s') \<Longrightarrow> acts s' = acts s"
    and acts_sync: "pc_Syncer cfg = Some sync \<Longrightarrow> acts (sync f s) = acts s"

text \<open>
  The calls of a placement with at most \<open>n\<close> broker calls: the broker is called with the job's
  parameters until a reply is not a timeout, then one outcome and one audit event follow. The
  outcome is the placement for an order id, and a failure otherwise, with the error's text
  unless the wait before a retry was interrupted.
\<close>

inductive placement_trace :: "Job \<Rightarrow> nat \<Rightarrow> worker_act list \<Rightarrow> bool" for job where
  trace_placed: "placement_trace job (Suc n) [ActPlace ''regular'' (job_params job) (PlaceReply (Inr resp)),
     ActPlaced (job_FollowerOrderID job) (or_OrderID resp) (job_Quantity job),
     ActEvent (api_event job (placed_payload (or_OrderID resp) (job_Quantity job)))]"
| trace_failed: "\<not> isTimeout err \<or> n = 0 \<Longrightarrow>
     placement_trace job (Suc n) [ActPlace ''regular'' (job_params job) (PlaceReply (Inl err)),
     ActFailed (job_FollowerOrderID job) (failure_status err) (err_Error err),
     ActEvent (api_event job (error_payload err))]"
| trace_panic: "placement_trace job (Suc n) [ActPlace ''regular'' (job_params job) (PlacePanic r),
     ActFailed (job_FollowerOrderID job) (failure_status (panic_error r)) (err_Error (panic_error r)),
     ActEvent (api_event job (error_payload (panic_error r)))]"
| trace_interrupted: "isTimeout err \<Longrightarrow>
     placement_trace job (Suc (Suc n)) [ActPlace ''regular'' (job_params job) (PlaceReply (Inl err)),
     ActFailed (job_FollowerOrderID job) (failure_status cause) (err_Error cause),
     ActEvent (api_event job (error_payload cause))]"
| trace_retry: "isTimeout err \<Longrightarrow> placement_trace job (Suc n) tr \<Longrightarrow>
     placement_trace job (Suc (Suc n)) (ActPlace ''regular'' (job_params job) (PlaceReply (Inl err)) # tr)"

inductive_cases placement_traceE: "placement_trace job n tr"

context placement_log begin

lemma acts_recordFailure:
  "acts (recordFailure store job cause s) = acts s
     @ [ActFailed (job_FollowerOrderID job) (failure_status cause) (err_Error cause),
        ActEvent (api_event job (error_payload cause))]"
  by (simp add: recordFailure_def case_prod_beta acts_event acts_failed)

lemma acts_recordPlaced:
  "acts (recordPlaced cfg store job resp s) = acts s
     @ [ActPlaced (job_FollowerOrderID job) (or_OrderID resp) (job_Quantity job),
        ActEvent (api_event job (placed_payload (or_OrderID resp) (job_Quantity job)))]"
  by (auto simp: recordPlaced_def case_prod_beta acts_event acts_placed acts_sync split: option.split)

lemma loop_trace:
  assumes "attempt \<le> maxAttempts"
  shows "\<exists>tr. acts (recovered store job (place_loop cfg b store job maxAttempts attempt backoff s)) = acts s @ tr
     \<and> placement_trace job (Suc (nat (maxAttempts - attempt))) tr"
  using assms
proof (induction "nat (maxAttempts - attempt)" arbitrary: attempt backoff s)
  case (0 attempt backoff s)
  then have [simp]: "attempt = maxAttempts" by simp
  obtain r s1 where r: "wb_PlaceOrder b ''regular'' (job_params job) s = (r, s1)" by fastforce
  note acts_place[OF r]
  then show ?case
    by (cases r; cases "case r of PlaceReply x \<Rightarrow> x | _ \<Rightarrow> Inl ErrFull")
       (auto simp: place_loop.simps r recovered_def acts_recordFailure acts_recordPlaced
         intro: placement_trace.intros)
next
  case (Suc n attempt backoff s)
  obtain r s1 where r: "wb_PlaceOrder b ''regular'' (job_params job) s = (r, s1)" by fastforce
  note place = acts_place[OF r]
  obtain w s2 where w: "pc_select cfg backoff s1 = (w, s2)" by fastforce
  note sel = acts_select[OF w]
  have n: "nat (maxAttempts - attempt) = Suc n" "n = nat (maxAttempts - (attempt + 1))"
    "attempt < maxAttempts" "attempt + 1 \<le> maxAttempts" using Suc.hyps(2) by auto
  show ?case
  proof (cases "\<exists>err. r = PlaceReply (Inl err) \<and> isTimeout err \<and> w = Elapsed")
    case True
    then obtain err where err: "r = PlaceReply (Inl err)" "isTimeout err" "w = Elapsed" by blast
    obtain tr where tr: "acts (recovered store job (place_loop cfg b store job maxAttempts (attempt + 1)
        (wrap64 (backoff * 2)) s2)) = acts s2 @ tr" "placement_trace job (Suc n) tr"
      using Suc.hyps(1)[OF n(2,4)] n(2) by metis
    have "place_loop cfg b store job maxAttempts attempt backoff s
        = place_loop cfg b store job maxAttempts (attempt + 1) (wrap64 (backoff * 2)) s2"
      using n(3) by (subst place_loop.simps) (simp add: r err w[unfolded err(3)])
    then show ?thesis
      using tr err place sel n(1) by (auto intro: placement_trace.intros)
  next
    case False
    then show ?thesis
      using n(1,3) place sel
      by (cases r; cases "case r of PlaceReply x \<Rightarrow> x | _ \<Rightarrow> Inl ErrFull"; cases w)
         (auto simp: place_loop.simps[of cfg b store job maxAttempts attempt backoff s] r w recovered_def
           acts_recordFailure acts_recordPlaced intro: placement_trace.intros)
  qed
qed

lemma place_trace:
  "\<exists>tr. acts (place cfg b store job s) = acts s @ tr
     \<and> placement_trace job (nat (max 1 (pc_MaxRetries cfg))) tr"
proof -
  let ?max = "if pc_MaxRetries cfg < 1 then 1 else pc_MaxRetries cfg"
  have "Suc (nat (?max - 1)) = nat (max 1 (pc_MaxRetries cfg))" by auto
  then show ?thesis using loop_trace[of 1 ?max] by (auto simp: place_def Let_def)
qed

end

section \<open>The traces\<close>

fun is_place :: "worker_act \<Rightarrow> bool" where
  "is_place (ActPlace v p r) \<longleftrightarrow> True"
| "is_place _ \<longleftrightarrow> False"

fun is_outcome :: "Job \<Rightarrow> worker_act \<Rightarrow> bool" where
  "is_outcome job (ActPlaced i oid q) \<longleftrightarrow> i = job_FollowerOrderID job \<and> q = job_Quantity job"
| "is_outcome job (ActFailed i st m) \<longleftrightarrow> i = job_FollowerOrderID job"
| "is_outcome job _ \<longleftrightarrow> False"

fun timeout_reply :: "place_reply \<Rightarrow> bool" where
  "timeout_reply (PlaceReply (Inl err)) \<longleftrightarrow> isTimeout err"
| "timeout_reply _ \<longleftrightarrow> False"

lemma trace_shape:
  "placement_trace job n tr \<Longrightarrow> \<exists>rs o1 ev. tr = map (ActPlace ''regular'' (job_params job)) rs @ [o1, ActEvent ev]
     \<and> rs \<noteq> [] \<and> length rs \<le> n \<and> is_outcome job o1
     \<and> list_all timeout_reply (butlast rs)
     \<and> ((\<exists>oid. o1 = ActPlaced (job_FollowerOrderID job) oid (job_Quantity job))
          \<longleftrightarrow> (\<exists>resp. last rs = PlaceReply (Inr resp)))"
proof (induction rule: placement_trace.induct)
  case (trace_retry err n tr)
  then obtain rs o1 ev where rs: "tr = map (ActPlace ''regular'' (job_params job)) rs @ [o1, ActEvent ev]"
    "rs \<noteq> []" "length rs \<le> Suc n" "is_outcome job o1"
    "list_all timeout_reply (butlast rs)"
    "(\<exists>oid. o1 = ActPlaced (job_FollowerOrderID job) oid (job_Quantity job))
       \<longleftrightarrow> (\<exists>resp. last rs = PlaceReply (Inr resp))" by blast
  show ?case
    by (rule exI[of _ "PlaceReply (Inl err) # rs"], rule exI[of _ o1], rule exI[of _ ev])
       (use rs trace_retry.hyps(1) in simp)
qed (rule exI[of _ "[_]"]; auto)+

section \<open>The system's state\<close>

text \<open>
  The state the wired system runs a placement in: the database, and what the outside world does:
  the broker's replies and the wake-ups of the waiting worker, in order (after the last given
  reply the broker is unreachable), and the log of calls.
\<close>

record world =
  w_db :: db
  w_replies :: "place_reply list"
  w_wakes :: "wake list"
  w_acts :: "worker_act list"

definition log_act :: "worker_act \<Rightarrow> world \<Rightarrow> world" where
  "log_act a w = w\<lparr> w_acts := w_acts w @ [a] \<rparr>"

definition on_db :: "worker_act \<Rightarrow> (db \<Rightarrow> 'a \<times> db) \<Rightarrow> world \<Rightarrow> 'a \<times> world" where
  "on_db a f w = (case f (w_db w) of (x, d) \<Rightarrow> (x, log_act a (w\<lparr> w_db := d \<rparr>)))"

definition world_store :: "world WorkerStore" where
  "world_store = \<lparr>
     ws_UpdateFollowerOrderPlaced = (\<lambda>i oid q. on_db (ActPlaced i oid q) (UpdateFollowerOrderPlaced i oid q)),
     ws_UpdateFollowerOrderFailed = (\<lambda>i st m. on_db (ActFailed i st m) (UpdateFollowerOrderFailed i st m)),
     ws_AppendOrderEvent = (\<lambda>ev. on_db (ActEvent ev) (AppendOrderEvent ev)) \<rparr>"

definition world_broker :: "world WorkerBroker" where
  "world_broker = \<lparr> wb_PlaceOrder = (\<lambda>v p w. case w_replies w of
       [] \<Rightarrow> let r = PlaceReply (Inl ErrBrokerUnreachable) in (r, log_act (ActPlace v p r) w)
     | r # rs \<Rightarrow> (r, log_act (ActPlace v p r) (w\<lparr> w_replies := rs \<rparr>))) \<rparr>"

definition world_select :: "duration \<Rightarrow> world \<Rightarrow> wake \<times> world" where
  "world_select t w = (case w_wakes w of [] \<Rightarrow> (Elapsed, w) | x # xs \<Rightarrow> (x, w\<lparr> w_wakes := xs \<rparr>))"

definition world_config :: "int \<Rightarrow> duration \<Rightarrow> duration \<Rightarrow> world PoolConfig" where
  "world_config retries backoff interval = \<lparr> pc_RateLimitInterval = interval, pc_MaxRetries = retries,
     pc_InitialBackoff = backoff, pc_select = world_select, pc_Syncer = None \<rparr>"

lemmas world_defs = world_store_def world_broker_def world_select_def world_config_def on_db_def log_act_def

interpretation wired: placement_log "world_config retries backoff interval" world_broker world_store w_acts
  by unfold_locales (auto simp: world_defs Let_def case_prod_beta split: list.splits)

text \<open>
  C5 A placement calls the broker at least once and at most the configured number of times,
  always with the job's parameters and its idempotency tag, repeats a call only after a
  timeout, and records exactly one outcome and one audit event for the order: a placement if
  and only if the last reply carried an order id. This holds for every sequence of broker
  replies, panics and interruptions, and whatever the store answers.
\<close>
theorem place_one_outcome:
  "\<exists>rs o1 ev. w_acts (place (world_config retries backoff interval) world_broker world_store job w)
       = w_acts w @ map (ActPlace ''regular'' (job_params job)) rs @ [o1, ActEvent ev]
     \<and> rs \<noteq> [] \<and> int (length rs) \<le> max 1 retries \<and> is_outcome job o1
     \<and> list_all timeout_reply (butlast rs)
     \<and> ((\<exists>oid. o1 = ActPlaced (job_FollowerOrderID job) oid (job_Quantity job))
          \<longleftrightarrow> (\<exists>resp. last rs = PlaceReply (Inr resp)))"
proof -
  obtain tr where tr: "w_acts (place (world_config retries backoff interval) world_broker world_store job w)
      = w_acts w @ tr" "placement_trace job (nat (max 1 retries)) tr"
    using wired.place_trace[of retries backoff interval job w] by (auto simp: world_config_def)
  from trace_shape[OF tr(2)] obtain rs o1 ev where
    "tr = map (ActPlace ''regular'' (job_params job)) rs @ [o1, ActEvent ev]"
    "rs \<noteq> []" "length rs \<le> nat (max 1 retries)" "is_outcome job o1"
    "list_all timeout_reply (butlast rs)"
    "(\<exists>oid. o1 = ActPlaced (job_FollowerOrderID job) oid (job_Quantity job))
       \<longleftrightarrow> (\<exists>resp. last rs = PlaceReply (Inr resp))" by blast
  then show ?thesis using tr(1) by (intro exI[of _ rs] exI[of _ o1] exI[of _ ev]) auto
qed

text \<open>
  A rejection is final: when the broker's first reply is an error that is not a timeout, the
  placement makes no further call, and the order is stored with the terminal status REJECTED
  (DEAD_LETTERED for a cancelled context) and the error's text.
\<close>
theorem place_rejection_final:
  assumes "w_replies w = PlaceReply (Inl err) # rs" and "\<not> isTimeout err" and "faults (w_db w) = []"
  shows "let w' = place (world_config retries backoff interval) world_broker world_store job w
         in w_replies w' = rs
            \<and> map (\<lambda>r. (fr_id r, fr_terminal_status r, fr_last_error r)) (follower_orders (w_db w'))
              = map (\<lambda>r. if fr_id r = job_FollowerOrderID job
                    then (fr_id r, Some (failure_status err), Some (err_Error err))
                    else (fr_id r, fr_terminal_status r, fr_last_error r)) (follower_orders (w_db w))"
proof -
  let ?w1 = "log_act (ActPlace ''regular'' (job_params job) (PlaceReply (Inl err))) (w\<lparr> w_replies := rs \<rparr>)"
  have loop: "place_loop (world_config retries backoff interval) world_broker world_store job m 1 t w
      = (None, recordFailure world_store job err ?w1)" if "1 \<le> m" for m t
    using that assms(1,2) by (subst place_loop.simps) (simp add: world_broker_def)
  have "place (world_config retries backoff interval) world_broker world_store job w
      = recordFailure world_store job err ?w1"
    unfolding place_def Let_def by (subst loop) (simp_all add: recovered_def)
  then show ?thesis
    using assms(3)
    by (auto simp: recordFailure_def world_store_def on_db_def log_act_def AppendOrderEvent_def
        UpdateFollowerOrderFailed_def db_call_def add_event_def update_where_def Let_def)
qed

definition ex_job :: Job where
  "ex_job = \<lparr> job_FollowerOrderID = 1, job_FollowerID = ''f'', job_MasterFillID = 1, job_IdempotencyTag = ''t1'',
     job_Exchange = ''NSE'', job_Tradingsymbol = ''INFY'', job_TransactionType = ''BUY'', job_Product = ''MIS'',
     job_OrderType = ''MARKET'', job_Quantity = 10, job_Price = 0, job_TriggerPrice = 0 \<rparr>"

definition ex_world :: "place_reply list \<Rightarrow> world" where
  "ex_world rs = \<lparr> w_db = ex_db2, w_replies = rs, w_wakes = [], w_acts = [] \<rparr>"

theorem place_rejection_final_witness:
  "w_replies (place (world_config 3 (50 * Millisecond) (100 * Millisecond)) world_broker world_store ex_job
     (ex_world [PlaceReply (Inl (Plain ''margin'')), PlaceReply (Inr \<lparr> or_OrderID = ''x'' \<rparr>)]))
   = [PlaceReply (Inr \<lparr> or_OrderID = ''x'' \<rparr>)]"
proof -
  have "\<not> isTimeout (Plain ''margin'')" by code_simp
  then show ?thesis
    using place_rejection_final[of "ex_world [PlaceReply (Inl (Plain ''margin'')), PlaceReply (Inr \<lparr> or_OrderID = ''x'' \<rparr>)]"
        "Plain ''margin''" "[PlaceReply (Inr \<lparr> or_OrderID = ''x'' \<rparr>)]"]
    by (simp add: ex_world_def ex_db2_eq Let_def)
qed

end
