(* ===== verification/WorkerPool.thy ===== *)
theory WorkerPool
  imports Worker
begin

text \<open>
  The pool of workers (\<open>internal/worker/pool.go\<close>): registration, the non-blocking hand-off, and
  the goroutines as a step relation. A goroutine and the channel it reads have the same index in
  the pool, so that the channel shared between \<open>Dispatch\<close> and \<open>run\<close> is one piece of state.
  The history fields record which jobs a channel accepted and which were placed, and when.
\<close>

section \<open>The pool\<close>

record goroutine =
  g_follower :: uuid
  g_ch :: "Job chan"
  g_cancelled :: bool
  g_exited :: bool
  g_lastCall :: gotime
  h_accepted :: "Job list"
  h_placed :: "(gotime \<times> Job) list"

record Pool =
  p_workers :: "uuid \<rightharpoonup> nat"
  p_gs :: "goroutine list"
  p_done :: bool

definition NewPool :: Pool where
  "NewPool = \<lparr> p_workers = Map.empty, p_gs = [], p_done = False \<rparr>"

definition upd_g :: "nat \<Rightarrow> (goroutine \<Rightarrow> goroutine) \<Rightarrow> Pool \<Rightarrow> Pool" where
  "upd_g i f p = (if i < length (p_gs p) then p\<lparr> p_gs := (p_gs p)[i := f (p_gs p ! i)] \<rparr> else p)"

definition cancel :: "nat \<Rightarrow> Pool \<Rightarrow> Pool" where
  "cancel i = upd_g i (\<lambda>g. g\<lparr> g_cancelled := True \<rparr>)"

definition new_goroutine :: "uuid \<Rightarrow> nat \<Rightarrow> goroutine" where
  "new_goroutine followerID bufferSize = \<lparr> g_follower = followerID, g_ch = make_chan bufferSize,
     g_cancelled = False, g_exited = False, g_lastCall = 0, h_accepted = [], h_placed = [] \<rparr>"

definition Register :: "uuid \<Rightarrow> nat \<Rightarrow> Pool \<Rightarrow> Pool" where
  "Register followerID bufferSize p =
     (let p1 = (case p_workers p followerID of None \<Rightarrow> p | Some old \<Rightarrow> cancel old p)
      in p1\<lparr> p_workers := (p_workers p1)(followerID \<mapsto> length (p_gs p1)),
             p_gs := p_gs p1 @ [new_goroutine followerID bufferSize] \<rparr>)"

definition Unregister :: "uuid \<Rightarrow> Pool \<Rightarrow> Pool" where
  "Unregister followerID p = (case p_workers p followerID of
      None \<Rightarrow> p
    | Some old \<Rightarrow> let p1 = cancel old p in p1\<lparr> p_workers := (p_workers p1)(followerID := None) \<rparr>)"

definition Dispatch :: "uuid \<Rightarrow> Job \<Rightarrow> Pool \<Rightarrow> bool \<times> Pool" where
  "Dispatch followerID job p = (case p_workers p followerID of
      None \<Rightarrow> (False, p)
    | Some i \<Rightarrow> (case chan_send job (g_ch (p_gs p ! i)) of
          (True, c) \<Rightarrow> (True, upd_g i (\<lambda>g. g\<lparr> g_ch := c, h_accepted := h_accepted g @ [job] \<rparr>) p)
        | (False, c) \<Rightarrow> (False, p)))"

definition Pool_Count :: "Pool \<Rightarrow> nat" where
  "Pool_Count p = card (dom (p_workers p))"

definition Shutdown :: "Pool \<Rightarrow> Pool" where
  "Shutdown p = p\<lparr> p_done := True \<rparr>"

text \<open>The worker channels provide the bounded queue interface.\<close>

interpretation worker_ch: bounded_queue chan_send chan_recv ch_buf ch_cap
  by unfold_locales (auto simp: chan_defs)

section \<open>The goroutines\<close>

text \<open>
  The instant at which \<open>run\<close> calls the broker for a job received at time \<open>t\<close>: at once, or when
  the rest of the rate-limit interval has passed.
\<close>

definition earliest_call :: "duration \<Rightarrow> gotime \<Rightarrow> gotime \<Rightarrow> gotime" where
  "earliest_call interval lastCall t =
     (if interval > 0 \<and> \<not> IsZero lastCall \<and> t - lastCall < interval then lastCall + interval else t)"

record 's sys =
  y_pool :: Pool
  y_now :: gotime
  y_state :: 's

inductive sys_step :: "'s PoolConfig \<Rightarrow> 's WorkerBroker \<Rightarrow> 's WorkerStore \<Rightarrow> 's sys \<Rightarrow> 's sys \<Rightarrow> bool"
  for cfg b store where
  run_exit: "i < length (p_gs (y_pool y)) \<Longrightarrow> \<not> g_exited (p_gs (y_pool y) ! i) \<Longrightarrow>
     g_cancelled (p_gs (y_pool y) ! i) \<or> p_done (y_pool y) \<Longrightarrow>
     sys_step cfg b store y (y\<lparr> y_pool := upd_g i (\<lambda>g. g\<lparr> g_exited := True \<rparr>) (y_pool y) \<rparr>)"
| run_job: "i < length (p_gs (y_pool y)) \<Longrightarrow> \<not> g_exited (p_gs (y_pool y) ! i) \<Longrightarrow>
     chan_recv (g_ch (p_gs (y_pool y) ! i)) = Some (job, c) \<Longrightarrow> y_now y \<le> t \<Longrightarrow>
     earliest_call (pc_RateLimitInterval cfg) (g_lastCall (p_gs (y_pool y) ! i)) t \<le> t' \<Longrightarrow> t \<le> t' \<Longrightarrow>
     sys_step cfg b store y (y\<lparr> y_pool := upd_g i (\<lambda>g. g\<lparr> g_ch := c, g_lastCall := t',
         h_placed := h_placed g @ [(t', job)] \<rparr>) (y_pool y),
       y_now := t', y_state := place cfg b store job (y_state y) \<rparr>)"
| run_interrupted: "i < length (p_gs (y_pool y)) \<Longrightarrow> \<not> g_exited (p_gs (y_pool y) ! i) \<Longrightarrow>
     chan_recv (g_ch (p_gs (y_pool y) ! i)) = Some (job, c) \<Longrightarrow>
     g_cancelled (p_gs (y_pool y) ! i) \<or> p_done (y_pool y) \<Longrightarrow> y_now y \<le> t \<Longrightarrow>
     earliest_call (pc_RateLimitInterval cfg) (g_lastCall (p_gs (y_pool y) ! i)) t \<noteq> t \<Longrightarrow>
     sys_step cfg b store y (y\<lparr> y_pool := upd_g i (\<lambda>g. g\<lparr> g_ch := c, g_exited := True \<rparr>) (y_pool y),
       y_now := t \<rparr>)"
| do_register: "sys_step cfg b store y (y\<lparr> y_pool := Register f n (y_pool y) \<rparr>)"
| do_unregister: "sys_step cfg b store y (y\<lparr> y_pool := Unregister f (y_pool y) \<rparr>)"
| do_dispatch: "job_FollowerID job = f \<Longrightarrow>
     sys_step cfg b store y (y\<lparr> y_pool := snd (Dispatch f job (y_pool y)) \<rparr>)"
| do_shutdown: "sys_step cfg b store y (y\<lparr> y_pool := Shutdown (y_pool y) \<rparr>)"
| ctx_cancel: "sys_step cfg b store y (y\<lparr> y_pool := cancel i (y_pool y) \<rparr>)"
| clock: "y_now y \<le> t \<Longrightarrow> sys_step cfg b store y (y\<lparr> y_now := t \<rparr>)"
| others: "sys_step cfg b store y (y\<lparr> y_state := s \<rparr>)"

definition new_sys :: "gotime \<Rightarrow> 's \<Rightarrow> 's sys" where
  "new_sys t s = \<lparr> y_pool = NewPool, y_now = t, y_state = s \<rparr>"

section \<open>Invariants\<close>

fun spaced :: "duration \<Rightarrow> gotime list \<Rightarrow> bool" where
  "spaced d (a # b # ts) \<longleftrightarrow> a + d \<le> b \<and> spaced d (b # ts)"
| "spaced d _ \<longleftrightarrow> True"

lemma spaced_snoc: "spaced d (ts @ [x]) \<longleftrightarrow> spaced d ts \<and> (ts = [] \<or> last ts + d \<le> x)"
  by (induction d ts rule: spaced.induct) auto

definition wf_goroutine :: "duration \<Rightarrow> goroutine \<Rightarrow> bool" where
  "wf_goroutine interval g \<longleftrightarrow>
     (\<exists>dropped. h_accepted g = map snd (h_placed g) @ dropped @ ch_buf (g_ch g)
        \<and> length dropped \<le> 1 \<and> (dropped \<noteq> [] \<longrightarrow> g_exited g))
     \<and> length (ch_buf (g_ch g)) \<le> ch_cap (g_ch g)
     \<and> list_all (\<lambda>job. job_FollowerID job = g_follower g) (h_accepted g)
     \<and> (0 < interval \<longrightarrow> spaced interval (map fst (h_placed g)))
     \<and> (h_placed g \<noteq> [] \<longrightarrow> g_lastCall g = last (map fst (h_placed g)) \<and> 0 < g_lastCall g)"

definition wf_pool :: "duration \<Rightarrow> Pool \<Rightarrow> bool" where
  "wf_pool interval p \<longleftrightarrow> list_all (wf_goroutine interval) (p_gs p)
     \<and> (\<forall>f i. p_workers p f = Some i \<longrightarrow> i < length (p_gs p) \<and> g_follower (p_gs p ! i) = f)"

lemma wf_pool_upd:
  assumes "wf_pool d p" and "i < length (p_gs p) \<Longrightarrow> wf_goroutine d (p_gs p ! i) \<Longrightarrow> wf_goroutine d (f (p_gs p ! i))"
    and "\<And>g. g_follower (f g) = g_follower g"
  shows "wf_pool d (upd_g i f p)"
  using assms
  by (auto simp: wf_pool_def upd_g_def list_all_length nth_list_update)

lemma wf_cancel: "wf_pool d p \<Longrightarrow> wf_pool d (cancel i p)"
  unfolding cancel_def by (rule wf_pool_upd) (auto simp: wf_goroutine_def)

lemma cancel_simps [simp]:
  "p_workers (cancel i p) = p_workers p" "length (p_gs (cancel i p)) = length (p_gs p)"
  by (simp_all add: cancel_def upd_g_def)

lemma wf_new_goroutine: "wf_goroutine d (new_goroutine f n)"
  by (simp add: wf_goroutine_def new_goroutine_def make_chan_def)

lemma wf_Register: "wf_pool d p \<Longrightarrow> wf_pool d (Register f n p)"
proof -
  assume wf: "wf_pool d p"
  let ?p1 = "case p_workers p f of None \<Rightarrow> p | Some old \<Rightarrow> cancel old p"
  have p1: "wf_pool d ?p1" using wf wf_cancel by (simp split: option.split)
  have "g_follower (new_goroutine f n) = f" by (simp add: new_goroutine_def)
  then show ?thesis
    using p1 wf_new_goroutine[of d f n]
    by (auto simp: Register_def Let_def wf_pool_def nth_append less_Suc_eq)
qed

lemma wf_Unregister: "wf_pool d p \<Longrightarrow> wf_pool d (Unregister f p)"
  using wf_cancel[of d p] by (auto simp: Unregister_def Let_def wf_pool_def split: option.splits)

lemma chan_send_True: "chan_send x c = (True, c') \<longleftrightarrow> length (ch_buf c) < ch_cap c \<and> c' = c\<lparr> ch_buf := ch_buf c @ [x] \<rparr>"
  by (auto simp: chan_send_def)

lemma chan_recv_Some: "chan_recv c = Some (x, c') \<longleftrightarrow> ch_buf c = x # ch_buf c' \<and> ch_cap c' = ch_cap c"
  by (cases c; cases c') (auto simp: chan_recv_def split: list.splits)

lemma wf_Dispatch: "wf_pool d p \<Longrightarrow> job_FollowerID job = f \<Longrightarrow> wf_pool d (snd (Dispatch f job p))"
proof (cases "p_workers p f")
  case (Some i)
  assume wf: "wf_pool d p" and job: "job_FollowerID job = f"
  then have i: "i < length (p_gs p)" "g_follower (p_gs p ! i) = f" using Some by (auto simp: wf_pool_def)
  have "wf_pool d (upd_g i (\<lambda>g. g\<lparr> g_ch := c, h_accepted := h_accepted g @ [job] \<rparr>) p)"
    if "chan_send job (g_ch (p_gs p ! i)) = (True, c)" for c
    using wf
  proof (rule wf_pool_upd)
    assume "wf_goroutine d (p_gs p ! i)"
    then show "wf_goroutine d ((p_gs p ! i)\<lparr> g_ch := c, h_accepted := h_accepted (p_gs p ! i) @ [job] \<rparr>)"
      using that i(2) job by (auto simp: wf_goroutine_def chan_send_True)
  qed simp
  then show ?thesis using wf Some by (simp add: Dispatch_def split: prod.split bool.split)
qed (simp add: Dispatch_def)

lemma wf_run_job:
  assumes "wf_goroutine d g" "chan_recv (g_ch g) = Some (job, c)" "\<not> g_exited g" "0 < now" "now \<le> t" "t \<le> t'"
    "earliest_call d (g_lastCall g) t \<le> t'"
  shows "wf_goroutine d (g\<lparr> g_ch := c, g_lastCall := t', h_placed := h_placed g @ [(t', job)] \<rparr>)"
proof -
  have "spaced d (map fst (h_placed g) @ [t'])" if "0 < d"
  proof (cases "h_placed g = []")
    case False
    then have "spaced d (map fst (h_placed g))" "g_lastCall g = last (map fst (h_placed g))" "0 < g_lastCall g"
      using assms(1) that by (auto simp: wf_goroutine_def)
    then show ?thesis
      using assms(6,7) that unfolding spaced_snoc by (auto simp: earliest_call_def split: if_splits)
  qed simp
  then show ?thesis using assms by (auto simp: wf_goroutine_def chan_recv_Some)
qed

lemma wf_run_interrupted:
  "wf_goroutine d g \<Longrightarrow> \<not> g_exited g \<Longrightarrow> chan_recv (g_ch g) = Some (job, c) \<Longrightarrow>
   wf_goroutine d (g\<lparr> g_ch := c, g_exited := True \<rparr>)"
  by (auto simp: wf_goroutine_def chan_recv_Some intro!: exI[of _ "[job]"])

definition wf_sys :: "duration \<Rightarrow> 's sys \<Rightarrow> bool" where
  "wf_sys d y \<longleftrightarrow> wf_pool d (y_pool y) \<and> 0 < y_now y"

lemma wf_sys_step: "sys_step cfg b store y y' \<Longrightarrow> wf_sys (pc_RateLimitInterval cfg) y \<Longrightarrow>
   wf_sys (pc_RateLimitInterval cfg) y'"
proof (induction rule: sys_step.induct)
  case (run_exit i y)
  then show ?case by (auto simp: wf_sys_def wf_goroutine_def intro!: wf_pool_upd)
next
  case (run_job i y job c t t')
  then show ?case by (auto simp: wf_sys_def intro!: wf_pool_upd wf_run_job)
next
  case (run_interrupted i y job c t)
  then show ?case by (auto simp: wf_sys_def intro!: wf_pool_upd wf_run_interrupted)
next
  case (do_shutdown y)
  then show ?case by (simp add: wf_sys_def Shutdown_def wf_pool_def)
qed (simp_all add: wf_sys_def wf_Register wf_Unregister wf_Dispatch wf_cancel)

lemma wf_new_sys: "0 < t \<Longrightarrow> wf_sys d (new_sys t s)"
  by (simp add: wf_sys_def new_sys_def NewPool_def wf_pool_def)

lemma wf_sys_reach:
  "(sys_step cfg b store)\<^sup>*\<^sup>* (new_sys t s) y \<Longrightarrow> 0 < t \<Longrightarrow> wf_sys (pc_RateLimitInterval cfg) y"
  by (induction rule: rtranclp_induct) (auto intro: wf_sys_step wf_new_sys)

section \<open>Properties\<close>

text \<open>
  C8 A follower's worker places the jobs handed to it in hand-off order, each at most once, and
  only jobs of that follower: at every moment the accepted jobs are the placed ones, followed by
  at most one job a cancelled worker gave up on, followed by the ones still waiting. Two
  placements of a worker are at least the rate-limit interval apart.
\<close>
theorem worker_in_order_rate_limited:
  assumes "(sys_step cfg b store)\<^sup>*\<^sup>* (new_sys t s) y" and "0 < t" and "g \<in> set (p_gs (y_pool y))"
  shows "(\<exists>dropped. h_accepted g = map snd (h_placed g) @ dropped @ ch_buf (g_ch g)
        \<and> length dropped \<le> 1 \<and> (dropped = [] \<or> g_exited g))
     \<and> list_all (\<lambda>job. job_FollowerID job = g_follower g) (h_accepted g)
     \<and> length (ch_buf (g_ch g)) \<le> ch_cap (g_ch g)
     \<and> (pc_RateLimitInterval cfg \<le> 0 \<or> spaced (pc_RateLimitInterval cfg) (map fst (h_placed g)))"
proof -
  have "wf_goroutine (pc_RateLimitInterval cfg) g"
    using wf_sys_reach[OF assms(1,2)] assms(3) by (auto simp: wf_sys_def wf_pool_def list_all_iff)
  then show ?thesis unfolding wf_goroutine_def by (metis linorder_not_le)
qed

text \<open>
  Followers are isolated: handing a job to one follower, whether it is accepted or not,
  changes no other worker and no registration, and it is refused exactly when the
  follower is not registered or its channel is full.
\<close>
theorem Dispatch_isolated:
  assumes "wf_pool d p" and "Dispatch f job p = (ok, p')"
  shows "p_workers p' = p_workers p \<and> length (p_gs p') = length (p_gs p)
    \<and> (\<forall>i < length (p_gs p). g_follower (p_gs p ! i) = f \<or> p_gs p' ! i = p_gs p ! i)
    \<and> (ok \<longleftrightarrow> (\<exists>i. p_workers p f = Some i
          \<and> length (ch_buf (g_ch (p_gs p ! i))) < ch_cap (g_ch (p_gs p ! i))))"
  using assms
  by (auto simp: Dispatch_def wf_pool_def upd_g_def chan_send_def nth_list_update split: option.splits if_splits)

section \<open>Witnesses\<close>

definition ex_cfg :: "world PoolConfig" where
  "ex_cfg = world_config 3 (50 * Millisecond) (100 * Millisecond)"

definition ex_pool :: Pool where
  "ex_pool = snd (Dispatch ''f'' ex_job (Register ''f'' 2 NewPool))"

definition ex_pool_done :: Pool where
  "ex_pool_done = upd_g 0 (\<lambda>g. g\<lparr> g_ch := make_chan 2, g_lastCall := 7, h_placed := h_placed g @ [(7, ex_job)] \<rparr>) ex_pool"

lemma ex_pool_eq: "ex_pool = \<lparr> p_workers = [''f'' \<mapsto> 0], p_gs = [\<lparr> g_follower = ''f'',
    g_ch = \<lparr> ch_buf = [ex_job], ch_cap = 2 \<rparr>, g_cancelled = False, g_exited = False, g_lastCall = 0,
    h_accepted = [ex_job], h_placed = [] \<rparr>], p_done = False \<rparr>"
  by (simp add: ex_pool_def Register_def NewPool_def Dispatch_def new_goroutine_def chan_defs upd_g_def Let_def)

lemma ex_pool_run:
  "(sys_step ex_cfg world_broker world_store)\<^sup>*\<^sup>* (new_sys 1 (ex_world []))
     (\<lparr> y_pool = ex_pool_done, y_now = 7, y_state = place ex_cfg world_broker world_store ex_job (ex_world []) \<rparr>)"
proof -
  let ?y0 = "new_sys 1 (ex_world [])"
  let ?y1 = "?y0\<lparr> y_pool := Register ''f'' 2 NewPool \<rparr>"
  let ?y2 = "?y1\<lparr> y_pool := ex_pool \<rparr>"
  have 1: "sys_step ex_cfg world_broker world_store ?y0 ?y1"
    using do_register[where y = ?y0 and f = "''f''" and n = 2] by (simp add: new_sys_def)
  have 2: "sys_step ex_cfg world_broker world_store ?y1 ?y2"
    using do_dispatch[where y = ?y1 and f = "''f''" and job = ex_job] by (simp add: ex_pool_def ex_job_def)
  have 3: "sys_step ex_cfg world_broker world_store ?y2 (\<lparr> y_pool = ex_pool_done, y_now = 7,
      y_state = place ex_cfg world_broker world_store ex_job (ex_world []) \<rparr>)"
    using run_job[where y = ?y2 and i = 0 and job = ex_job and c = "make_chan 2" and t = 7 and t' = 7 and cfg = ex_cfg]
    by (simp add: ex_pool_done_def ex_pool_eq new_sys_def chan_defs earliest_call_def)
  show ?thesis
    using 1 2 3 by (meson converse_rtranclp_into_rtranclp rtranclp.rtrancl_refl)
qed

theorem worker_in_order_rate_limited_witness:
  "h_accepted (hd (p_gs ex_pool_done)) = [ex_job]
   \<and> list_all (\<lambda>job. job_FollowerID job = ''f'') (h_accepted (hd (p_gs ex_pool_done)))"
proof -
  have g: "hd (p_gs ex_pool_done) \<in> set (p_gs ex_pool_done)" "g_follower (hd (p_gs ex_pool_done)) = ''f''"
    "h_accepted (hd (p_gs ex_pool_done)) = [ex_job]"
    by (simp_all add: ex_pool_done_def upd_g_def ex_pool_eq)
  show ?thesis
    using worker_in_order_rate_limited[OF ex_pool_run, of "hd (p_gs ex_pool_done)"] g by simp
qed

theorem Dispatch_isolated_witness:
  "p_workers (snd (Dispatch ''g'' ex_job ex_pool)) = p_workers ex_pool \<and> \<not> fst (Dispatch ''g'' ex_job ex_pool)"
proof -
  have "job_FollowerID ex_job = ''f''" by (simp add: ex_job_def)
  moreover have "wf_pool 0 NewPool" by (simp add: NewPool_def wf_pool_def)
  ultimately have wf: "wf_pool 0 ex_pool" unfolding ex_pool_def by (intro wf_Dispatch wf_Register)
  have "Dispatch ''g'' ex_job ex_pool = (False, ex_pool)" by (simp add: Dispatch_def ex_pool_eq)
  from Dispatch_isolated[OF wf this] this show ?thesis by simp
qed

end
