(* ===== verification/Server.thy ===== *)
theory Server
  imports Listener WorkerPool Accounts_Inv
begin

text \<open>
  The wired copy-trade server: the engine with the PostgreSQL store and the worker pool behind its
  interfaces, and the master-fill consumer in front of it. The theory interprets the engine's
  contract on these components and states what holds over whole histories of the server, in
  which fills, administration, workers and failures interleave.
\<close>

section \<open>State and wiring\<close>

record server =
  sv_engine :: Engine
  sv_db :: db
  sv_pool :: Pool
  sv_outs :: "outcome list"
  sv_feed :: "ExecutionEvent list"
  sv_syncs :: "uuid list"

text \<open>A store method on the server's state; failed orders are added to the history \<open>sv_outs\<close>.\<close>

definition with_db :: "(db \<Rightarrow> 'a \<times> db) \<Rightarrow> server \<Rightarrow> 'a \<times> server" where
  "with_db f sv = (case f (sv_db sv) of (x, d) \<Rightarrow> (x, sv\<lparr> sv_db := d \<rparr>))"

definition log_out :: "outcome \<Rightarrow> server \<Rightarrow> server" where
  "log_out out sv = sv\<lparr> sv_outs := sv_outs sv @ [out] \<rparr>"

definition server_store :: "server EngineStore" where
  "server_store = \<lparr>
     es_MasterActive = (\<lambda>m. with_db (MasterActive m)),
     es_EnabledFollowLinks = (\<lambda>m. with_db (EnabledFollowLinks m)),
     es_InstrumentLotSize = (\<lambda>ex symb. with_db (InstrumentLotSize ex symb)),
     es_InsertFollowerOrdersBatch = (\<lambda>os. with_db (InsertFollowerOrdersBatch os)),
     es_SetMasterFillDispatchState = (\<lambda>i st. with_db (SetMasterFillDispatchState i st)),
     es_UpdateFollowerOrderFailed = (\<lambda>i st msg sv.
       case with_db (UpdateFollowerOrderFailed i st msg) sv of (r, sv') \<Rightarrow> (r, log_out (Failed i st msg) sv')) \<rparr>"

definition server_dispatch :: "uuid \<Rightarrow> Job \<Rightarrow> server \<Rightarrow> bool \<times> server" where
  "server_dispatch f job sv = (case Dispatch f job (sv_pool sv) of (ok, p) \<Rightarrow>
     let sv' = sv\<lparr> sv_pool := p \<rparr> in (ok, if ok then log_out (Dispatched job) sv' else sv'))"

text \<open>The answers of an external lot-size resolver, when configured, are an argument; \<open>Instruments\<close> models the one of the server.\<close>

definition server_deps :: "(string \<Rightarrow> string \<Rightarrow> int result) option \<Rightarrow> server EngineDeps" where
  "server_deps resolver = \<lparr> ed_store = server_store, ed_Dispatch = server_dispatch,
     ed_Record = Some (\<lambda>ev sv. sv\<lparr> sv_feed := sv_feed sv @ [ev] \<rparr>),
     ed_ResolveLotSize = map_option (\<lambda>f ex symb sv. (f ex symb, sv)) resolver \<rparr>"

definition server_handle ::
  "decimal_pkg \<Rightarrow> (string \<Rightarrow> string \<Rightarrow> int result) option \<Rightarrow> MasterFill \<Rightarrow> server \<Rightarrow> unit result \<times> server" where
  "server_handle P resolver fill sv =
     (case HandleMasterFill P (server_deps resolver) fill (sv_engine sv) sv of
        (r, e, sv') \<Rightarrow> (r, sv'\<lparr> sv_engine := e \<rparr>))"

definition server_consumer ::
  "decimal_pkg \<Rightarrow> (string \<Rightarrow> string \<Rightarrow> int result) option \<Rightarrow> server MasterFillConsumer" where
  "server_consumer P resolver = \<lparr>
     mc_InsertMasterFill = (\<lambda>fill. with_db (InsertMasterFill fill)),
     mc_HandleMasterFill = server_handle P resolver,
     mc_Syncer = Some (\<lambda>a sv. sv\<lparr> sv_syncs := sv_syncs sv @ [a] \<rparr>) \<rparr>"

section \<open>The engine's contract holds of the wired components\<close>

text \<open>The tables a method may not touch.\<close>

definition admin_tables :: "db \<Rightarrow> account_row list \<times> group_row list \<times> link_row list" where
  "admin_tables d = (accounts d, groups d, follow_links d)"

lemma read_frames:
  "MasterActive m d = (r, d') \<Longrightarrow> admin_tables d' = admin_tables d \<and> follower_orders d' = follower_orders d"
  "EnabledFollowLinks m d = (rk, d') \<Longrightarrow> admin_tables d' = admin_tables d \<and> follower_orders d' = follower_orders d"
  "InstrumentLotSize ex symb d = (ri, d') \<Longrightarrow> admin_tables d' = admin_tables d \<and> follower_orders d' = follower_orders d"
  by (auto simp: MasterActive_def EnabledFollowLinks_def InstrumentLotSize_def db_call_def admin_tables_def
      split: list.splits option.splits)

lemma tags_of_frame:
  "map fr_idempotency_tag (follower_orders d') = map fr_idempotency_tag (follower_orders d) \<Longrightarrow> tags_of d' = tags_of d"
  by (metis set_map tags_of_def)

lemma write_frames:
  "SetMasterFillDispatchState i st d = (r, d') \<Longrightarrow> admin_tables d' = admin_tables d \<and> follower_orders d' = follower_orders d"
  "UpdateFollowerOrderFailed i st m d = (r, d') \<Longrightarrow> admin_tables d' = admin_tables d \<and> tags_of d' = tags_of d"
proof -
  assume "SetMasterFillDispatchState i st d = (r, d')"
  then show "admin_tables d' = admin_tables d \<and> follower_orders d' = follower_orders d"
    by (auto simp: SetMasterFillDispatchState_def db_call_def admin_tables_def split: list.splits option.splits)
next
  assume "UpdateFollowerOrderFailed i st m d = (r, d')"
  then show "admin_tables d' = admin_tables d \<and> tags_of d' = tags_of d"
    by (auto simp: UpdateFollowerOrderFailed_def db_call_def admin_tables_def map_update_where intro!: tags_of_frame
        split: list.splits option.splits)
qed

lemma insert_batch_admin: "insert_batch os d = (r, d') \<Longrightarrow> admin_tables d' = admin_tables d"
proof (induction os arbitrary: d r)
  case (Cons o1 os)
  then show ?case
    by (auto simp: Let_def add_order_def admin_tables_def split: if_splits prod.splits sum.splits)
qed simp

lemma batch_frames:
  "InsertFollowerOrdersBatch os d = (r, d') \<Longrightarrow> admin_tables d' = admin_tables d"
  "InsertFollowerOrdersBatch os d = (Inl e, d') \<Longrightarrow> follower_orders d' = follower_orders d"
  by (auto simp: InsertFollowerOrdersBatch_def db_call_def dest: insert_batch_admin
      split: if_splits list.splits option.splits prod.splits sum.splits) (auto simp: admin_tables_def dest!: insert_batch_admin)

text \<open>The invariant also says that nothing stored in \<open>d0\<close> has been forgotten since.\<close>

definition server_inv :: "db \<Rightarrow> server \<Rightarrow> bool" where
  "server_inv d0 sv \<longleftrightarrow> wf_admin (sv_db sv) \<and> keeps d0 (sv_db sv)"

definition server_tags :: "server \<Rightarrow> string set" where
  "server_tags sv = tags_of (sv_db sv)"

lemma wf_admin_tables: "admin_tables d' = admin_tables d \<Longrightarrow> wf_admin d' = wf_admin d"
  by (simp add: admin_tables_def wf_admin_defs)

lemmas server_defs = server_deps_def server_store_def with_db_def server_dispatch_def log_out_def
  server_inv_def server_tags_def Let_def

lemma with_dbE:
  assumes "with_db f s = (r, s')"
  obtains d' where "f (sv_db s) = (r, d')" "s' = s\<lparr> sv_db := d' \<rparr>"
  using assms by (auto simp: with_db_def split: prod.splits)

lemma read_keeps:
  "MasterActive m d = (r, d') \<Longrightarrow> keeps d d'" "EnabledFollowLinks m d = (rk, d') \<Longrightarrow> keeps d d'"
  "InstrumentLotSize ex symb d = (ri, d') \<Longrightarrow> keeps d d'"
  by (auto simp: MasterActive_def EnabledFollowLinks_def InstrumentLotSize_def db_call_def keeps_def
      split: list.splits option.splits)

lemma store_keeps:
  "SetMasterFillDispatchState i st d = (r, d') \<Longrightarrow> keeps d d'" "UpdateFollowerOrderFailed i st' m d = (r, d') \<Longrightarrow> keeps d d'"
  "InsertFollowerOrdersBatch os d = (rb, d') \<Longrightarrow> keeps d d'" "InsertMasterFill f d = (ri, d') \<Longrightarrow> keeps d d'"
  using keeps_step[OF step_dispatch[of d i st]] keeps_step[OF step_failed[of d i st' m]] keeps_step[OF step_batch[of d os]]
    keeps_step[OF step_fill[of d f]] by simp_all

lemma server_frame:
  assumes "with_db f s = (r, s')" "server_inv d0 s"
    "\<And>d'. f (sv_db s) = (r, d') \<Longrightarrow> admin_tables d' = admin_tables (sv_db s) \<and> tags_of d' = tags_of (sv_db s)
      \<and> keeps (sv_db s) d'"
  shows "server_inv d0 s' \<and> server_tags s' = server_tags s \<and> sv_outs s' = sv_outs s"
proof -
  obtain d' where d': "f (sv_db s) = (r, d')" "s' = s\<lparr> sv_db := d' \<rparr>" using assms(1) by (rule with_dbE)
  have "wf_admin d' = wf_admin (sv_db s)" using assms(3)[OF d'(1)] by (intro wf_admin_tables) simp
  moreover have "keeps d0 d'" using assms(2) assms(3)[OF d'(1)] keeps_trans by (auto simp: server_inv_def)
  ultimately show ?thesis using assms(2) assms(3)[OF d'(1)] d'(2) by (simp add: server_inv_def server_tags_def)
qed

lemma server_batch:
  assumes "with_db (InsertFollowerOrdersBatch os) s = (Inr ids, s')" "server_inv d0 s"
  shows "server_inv d0 s' \<and> sv_outs s' = sv_outs s \<and> dom ids = batch_tags os - server_tags s
      \<and> server_tags s' = server_tags s \<union> batch_tags os"
proof -
  obtain d' where d': "InsertFollowerOrdersBatch os (sv_db s) = (Inr ids, d')" "s' = s\<lparr> sv_db := d' \<rparr>"
    using assms(1) by (rule with_dbE)
  have "wf_admin d' = wf_admin (sv_db s)" using batch_frames(1)[OF d'(1)] by (rule wf_admin_tables)
  moreover have "keeps d0 d'" using assms(2) store_keeps(3)[OF d'(1)] keeps_trans by (auto simp: server_inv_def)
  ultimately show ?thesis using assms(2) d'(2) batch_ok[OF d'(1)] by (auto simp: server_inv_def server_tags_def)
qed

lemma server_links:
  assumes "with_db (EnabledFollowLinks m) s = (Inr ls, s')" "server_inv d0 s"
  shows "distinct (map fl_FollowerID ls)"
  using assms EnabledFollowLinks_distinct by (auto simp: server_inv_def elim!: with_dbE)

interpretation srv: fanout "server_deps resolver" "server_inv d0" server_tags sv_outs
proof unfold_locales
  fix m r s s' assume "es_MasterActive (ed_store (server_deps resolver)) m s = (r, s')" "server_inv d0 s"
  then have "with_db (MasterActive m) s = (r, s')" "server_inv d0 s" by (simp_all add: server_deps_def server_store_def)
  then show "server_inv d0 s' \<and> server_tags s' = server_tags s \<and> sv_outs s' = sv_outs s"
    by (rule server_frame) (simp add: read_frames read_keeps tags_of_def)
next
  fix m rk s s' assume "es_EnabledFollowLinks (ed_store (server_deps resolver)) m s = (rk, s')" and inv: "server_inv d0 s"
  then have *: "with_db (EnabledFollowLinks m) s = (rk, s')" by (simp add: server_deps_def server_store_def)
  moreover have "server_inv d0 s' \<and> server_tags s' = server_tags s \<and> sv_outs s' = sv_outs s"
    using * inv by (rule server_frame) (simp add: read_frames read_keeps tags_of_def)
  ultimately show "server_inv d0 s' \<and> server_tags s' = server_tags s \<and> sv_outs s' = sv_outs s
      \<and> (case rk of Inl _ \<Rightarrow> True | Inr ls \<Rightarrow> distinct (map fl_FollowerID ls))"
    using server_links[of m s _ s'] inv by (simp split: sum.split)
next
  fix ex symb rl s s' assume "es_InstrumentLotSize (ed_store (server_deps resolver)) ex symb s = (rl, s')" "server_inv d0 s"
  then have "with_db (InstrumentLotSize ex symb) s = (rl, s')" "server_inv d0 s" by (simp_all add: server_deps_def server_store_def)
  then show "server_inv d0 s' \<and> server_tags s' = server_tags s \<and> sv_outs s' = sv_outs s"
    by (rule server_frame) (simp add: read_frames read_keeps tags_of_def)
next
  fix i st ru s s' assume "es_SetMasterFillDispatchState (ed_store (server_deps resolver)) i st s = (ru, s')" "server_inv d0 s"
  then have "with_db (SetMasterFillDispatchState i st) s = (ru, s')" "server_inv d0 s" by (simp_all add: server_deps_def server_store_def)
  then show "server_inv d0 s' \<and> server_tags s' = server_tags s \<and> sv_outs s' = sv_outs s"
    by (rule server_frame) (simp add: write_frames store_keeps tags_of_def)
next
  fix i st msg ru s s' assume *: "es_UpdateFollowerOrderFailed (ed_store (server_deps resolver)) i st msg s = (ru, s')" "server_inv d0 s"
  then obtain s1 where s1: "with_db (UpdateFollowerOrderFailed i st msg) s = (ru, s1)" "s' = log_out (Failed i st msg) s1"
    by (auto simp: server_deps_def server_store_def split: prod.splits)
  have "server_inv d0 s1 \<and> server_tags s1 = server_tags s \<and> sv_outs s1 = sv_outs s"
    using s1(1) *(2) by (rule server_frame) (simp add: write_frames store_keeps)
  then show "server_inv d0 s' \<and> server_tags s' = server_tags s \<and> sv_outs s' = sv_outs s @ [Failed i st msg]"
    using s1(2) by (simp add: server_inv_def server_tags_def log_out_def)
next
  fix os ids s s' assume "es_InsertFollowerOrdersBatch (ed_store (server_deps resolver)) os s = (Inr ids, s')" "server_inv d0 s"
  then show "server_inv d0 s' \<and> sv_outs s' = sv_outs s \<and> dom ids = batch_tags os - server_tags s
      \<and> server_tags s' = server_tags s \<union> batch_tags os"
    by (intro server_batch) (simp_all add: server_deps_def server_store_def)
next
  fix os err s s' assume "es_InsertFollowerOrdersBatch (ed_store (server_deps resolver)) os s = (Inl err, s')" "server_inv d0 s"
  then have "with_db (InsertFollowerOrdersBatch os) s = (Inl err, s')" "server_inv d0 s" by (simp_all add: server_deps_def server_store_def)
  from server_frame[OF this] batch_frames(1)[of os "sv_db s" "Inl err"] batch_frames(2)[of os "sv_db s" err]
    store_keeps(3)[of os "sv_db s" "Inl err"]
  show "server_inv d0 s' \<and> sv_outs s' = sv_outs s \<and> server_tags s' = server_tags s" by (simp add: tags_of_def)
qed (auto simp: server_defs split: prod.splits if_splits)

section \<open>Frames of the other calls\<close>

text \<open>A view of the database that no transaction body changes is not changed by the call.\<close>

lemma frame_call:
  assumes "\<And>d. F (snd (body d)) = F d" "\<And>d fs. F (d\<lparr> faults := fs \<rparr>) = F d"
  shows "F (snd (db_call body d)) = F d"
  using assms by (auto simp: db_call_def split: list.splits option.splits)

lemma admin_tables_simps [simp]:
  "admin_tables (d\<lparr> faults := fs \<rparr>) = admin_tables d" "admin_tables (d\<lparr> db_now := t \<rparr>) = admin_tables d"
  "admin_tables (d\<lparr> follower_orders := os \<rparr>) = admin_tables d" "admin_tables (d\<lparr> master_fills := ms \<rparr>) = admin_tables d"
  "admin_tables (d\<lparr> pending_order_updates := ps \<rparr>) = admin_tables d" "admin_tables (add_order row d) = admin_tables d"
  "admin_tables (add_event ev d) = admin_tables d" "admin_tables (d\<lparr> mf_next := n \<rparr>) = admin_tables d"
  "admin_tables (d\<lparr> fo_next := n \<rparr>) = admin_tables d"
  by (simp_all add: admin_tables_def add_order_def add_event_def)

lemma store_step_admin: "store_step d d' \<Longrightarrow> admin_tables d' = admin_tables d"
proof (induction rule: store_step.induct)
  case (step_batch d os)
  then show ?case using batch_frames(1)[of os d] by (metis prod.collapse)
next
  case (step_fill d f)
  then show ?case unfolding InsertMasterFill_def by (rule frame_call) (auto simp: Let_def)
next
  case (step_dispatch d i st)
  then show ?case unfolding SetMasterFillDispatchState_def by (rule frame_call) auto
next
  case (step_order d o1)
  then show ?case unfolding InsertFollowerOrder_def by (rule frame_call) (auto simp: Let_def)
next
  case (step_direct d upd)
  then show ?case unfolding InsertDirectFollowerOrder_def by (rule frame_call) (auto simp: Let_def split: option.split)
next
  case (step_tag d a t b st q p)
  then show ?case unfolding UpdateFollowerOrderByTag_def by (rule frame_call) (auto split: option.split)
next
  case (step_placed d i b q)
  then show ?case unfolding UpdateFollowerOrderPlaced_def by (rule frame_call) (auto simp: Let_def split: option.split)
next
  case (step_failed d i st e)
  then show ?case unfolding UpdateFollowerOrderFailed_def by (rule frame_call) auto
next
  case (step_status d b st q p)
  then show ?case unfolding UpdateFollowerOrderStatus_def by (rule frame_call) (auto split: option.split)
next
  case (step_event d ev)
  then show ?case unfolding AppendOrderEvent_def by (rule frame_call) auto
next
  case (step_stash d b st q p raw)
  then show ?case unfolding StashPendingOrderUpdate_def by (rule frame_call) (auto simp: Let_def)
next
  case (step_sweep d c)
  then show ?case unfolding SweepPendingOrderUpdates_def by (rule frame_call) auto
qed simp_all

definition order_tables :: "db \<Rightarrow> mf_row list \<times> fo_row list" where
  "order_tables d = (master_fills d, follower_orders d)"

lemma order_tables_simps [simp]:
  "order_tables (d\<lparr> faults := fs \<rparr>) = order_tables d" "order_tables (d\<lparr> db_now := t \<rparr>) = order_tables d"
  "order_tables (d\<lparr> groups := gs \<rparr>) = order_tables d" "order_tables (d\<lparr> follow_links := ls \<rparr>) = order_tables d"
  "order_tables (d\<lparr> accounts := as \<rparr>) = order_tables d" "order_tables (d\<lparr> account_positions := ps \<rparr>) = order_tables d"
  "order_tables (upd_account i f d) = order_tables d" "order_tables (upd_group_master i m d) = order_tables d"
  by (simp_all add: order_tables_def upd_account_def upd_group_master_def)

lemma order_tables_call: "(\<And>d. order_tables (snd (body d)) = order_tables d) \<Longrightarrow> order_tables (snd (db_call body d)) = order_tables d"
  by (rule frame_call) simp_all

lemma order_tables_then:
  "order_tables (snd r) = t \<Longrightarrow> (\<And>x d. order_tables (snd (k x d)) = order_tables d) \<Longrightarrow> order_tables (snd (db_then r k)) = t"
  by (auto simp: db_then_def split: prod.splits sum.splits)

lemma order_tables_set_account: "order_tables (snd (set_account i f d)) = order_tables d"
  unfolding set_account_def by (rule order_tables_call) simp

lemma order_tables_change_master: "order_tables (snd (change_master g c m d)) = order_tables d"
  unfolding change_master_def swap_masters_def set_master_def
  by (auto intro!: order_tables_then order_tables_call simp: Let_def split: option.split)

lemma order_tables_UpdateGroup: "order_tables (snd (UpdateGroup u i no mo d)) = order_tables d"
  unfolding UpdateGroup_def rename_group_def
  by (auto intro!: order_tables_then order_tables_call simp: order_tables_change_master split: option.split)

lemma order_tables_query: "db_call (\<lambda>d. (f d, d)) d = (q, d1) \<Longrightarrow> order_tables d1 = order_tables d"
  using order_tables_call[of "\<lambda>d. (f d, d)" d] by simp

lemma order_tables_call_at:
  "order_tables d = t \<Longrightarrow> (\<And>d. order_tables (snd (body d)) = order_tables d) \<Longrightarrow> order_tables (snd (db_call body d)) = t"
  using order_tables_call by metis

lemma order_tables_CreateAccount:
  "order_tables (snd (CreateAccountWithCredentials u i n r b bu k sec ip pw tp d)) = order_tables d"
proof -
  obtain q d1 where q: "db_call (\<lambda>d. (Inr (find (\<lambda>a. ar_broker a = b \<and> ar_broker_user_id a = bu) (accounts d)), d)) d = (q, d1)"
    by (rule prod.exhaust)
  then have "order_tables d1 = order_tables d" by (rule order_tables_query)
  then show ?thesis
    unfolding CreateAccountWithCredentials_def q
    by (auto intro!: order_tables_call_at split: sum.split option.split)
qed

lemma order_tables_CreateFollowLink: "order_tables (snd (CreateFollowLink l d)) = order_tables d"
proof -
  obtain q d1 where q: "db_call (\<lambda>d. (case group_of_master (fl_MasterID l) d of None \<Rightarrow> Inl err_no_rows | Some g \<Rightarrow> Inr (gp_id g), d)) d
      = (q, d1)" by (rule prod.exhaust)
  then have "order_tables d1 = order_tables d" by (rule order_tables_query)
  then show ?thesis
    unfolding CreateFollowLink_def Let_def q
    by (auto intro!: order_tables_call_at split: sum.split)
qed

lemmas setter_defs = SetAccountEncryptedCredentials_def SetAccountAccessToken_def SetAccountName_def
  SetAccountAPIKey_def SetAccountAPISecret_def

lemmas admin_call_defs = SetAccountIPAddress_def SetAccountStatus_def
  SetAccountActive_def DeleteAccount_def UpdateFollowLinkTerms_def DeleteFollowLink_def
  SetFollowLinkEnabled_def CreateGroup_def DeleteGroup_def SetGroupImbalance_def

lemma admin_step_orders: "admin_step d d' \<Longrightarrow> order_tables d' = order_tables d"
  by (induction rule: admin_step.induct)
     (simp_all add: order_tables_set_account order_tables_CreateAccount setter_defs
       order_tables_CreateFollowLink order_tables_UpdateGroup,
      auto simp: admin_call_defs Let_def intro!: order_tables_call split: option.split)

section \<open>Histories of the server\<close>

text \<open>
  The steps: a fill comes off the queue, the engine is called with a stored fill, an operator sets
  the kill switch, the lot sizes are refreshed, any other part of the program uses the store or
  administers accounts, groups and links, the instrument master is replaced, a portfolio sync starts, and
  the pool changes in any way (workers take jobs, accounts are registered and unregistered). The answers of
  the lot-size resolver may differ from step to step.
\<close>

inductive server_step :: "decimal_pkg \<Rightarrow> server \<Rightarrow> server \<Rightarrow> bool"
  for P where
  v_fill: "server_step P sv (snd (MasterFillConsumer_Handle (server_consumer P resolver) fill sv))"
| v_handle: "server_step P sv (snd (server_handle P resolver fill sv))"
| v_kill: "server_step P sv (sv\<lparr> sv_engine := SetKillSwitch b reason by now (sv_engine sv) \<rparr>)"
| v_cache: "server_step P sv (sv\<lparr> sv_engine := ClearLotSizeCache (sv_engine sv) \<rparr>)"
| v_store: "store_step (sv_db sv) d \<Longrightarrow> server_step P sv (sv\<lparr> sv_db := d \<rparr>)"
| v_admin: "admin_step (sv_db sv) d \<Longrightarrow> server_step P sv (sv\<lparr> sv_db := d \<rparr>)"
| v_instruments: "server_step P sv (sv\<lparr> sv_db := (sv_db sv)\<lparr> instruments := rows, faults := fs \<rparr> \<rparr>)"
| v_sync: "server_step P sv (sv\<lparr> sv_syncs := as \<rparr>)"
| v_pool: "server_step P sv (sv\<lparr> sv_pool := p \<rparr>)"

definition new_server :: "instr_row list \<Rightarrow> Pool \<Rightarrow> server" where
  "new_server instrs p = \<lparr> sv_engine = Engine_New, sv_db = empty_db [] instrs, sv_pool = p,
     sv_outs = [], sv_feed = [], sv_syncs = [] \<rparr>"

definition copied_once :: "server \<Rightarrow> bool" where
  "copied_once sv \<longleftrightarrow> distinct (map (\<lambda>j. (job_MasterFillID j, job_FollowerID j)) (jobs_of (sv_outs sv)))
     \<and> (\<forall>j \<in> set (jobs_of (sv_outs sv)). IdempotencyTag (job_MasterFillID j) (job_FollowerID j) \<in> server_tags sv)"

lemma server_handle_ok:
  assumes "server_inv d0 sv" "copied_once sv"
  shows "server_inv d0 (snd (server_handle P resolver fill sv)) \<and> copied_once (snd (server_handle P resolver fill sv))"
proof -
  obtain r e sv' where h: "HandleMasterFill P (server_deps resolver) fill (sv_engine sv) sv = (r, e, sv')"
    by (metis prod_cases3)
  have "server_inv d0 sv' \<and> copied_once sv'"
    using srv.handle_once[OF h assms(1)] assms(2) by (simp add: srv.once_def copied_once_def)
  then show ?thesis using h by (simp add: server_handle_def copied_once_def server_inv_def server_tags_def)
qed

lemma copied_once_keeps:
  "copied_once sv \<Longrightarrow> keeps (sv_db sv) d \<Longrightarrow> copied_once (sv\<lparr> sv_db := d \<rparr>)"
  by (auto simp: copied_once_def server_tags_def tags_of_def keeps_def image_iff) blast

lemma server_consumer_simps [simp]:
  "mc_InsertMasterFill (server_consumer P resolver) = (\<lambda>fill. with_db (InsertMasterFill fill))"
  "mc_HandleMasterFill (server_consumer P resolver) = server_handle P resolver"
  by (simp_all add: server_consumer_def)

lemma start_sync_ok:
  "server_inv d0 (start_sync (mc_Syncer (server_consumer P resolver)) a sv) = server_inv d0 sv"
  "copied_once (start_sync (mc_Syncer (server_consumer P resolver)) a sv) = copied_once sv"
  by (simp_all add: start_sync_def server_consumer_def server_inv_def copied_once_def server_tags_def)

lemma server_db_ok:
  assumes "server_inv d0 sv" "copied_once sv" "keeps (sv_db sv) d" "wf_admin d"
  shows "server_inv d0 (sv\<lparr> sv_db := d \<rparr>) \<and> copied_once (sv\<lparr> sv_db := d \<rparr>)"
  using assms copied_once_keeps keeps_trans by (auto simp: server_inv_def)

lemma store_step_ok:
  assumes "store_step (sv_db sv) d" "server_inv d0 sv" "copied_once sv"
  shows "server_inv d0 (sv\<lparr> sv_db := d \<rparr>) \<and> copied_once (sv\<lparr> sv_db := d \<rparr>)"
  using assms(2,3) keeps_step[OF assms(1)] wf_admin_tables[OF store_step_admin[OF assms(1)]]
  by (intro server_db_ok) (simp_all add: server_inv_def)

lemma consumer_ok:
  assumes "server_inv d0 sv" "copied_once sv"
  shows "server_inv d0 (snd (MasterFillConsumer_Handle (server_consumer P resolver) fill sv))
    \<and> copied_once (snd (MasterFillConsumer_Handle (server_consumer P resolver) fill sv))"
proof -
  obtain r d where i: "InsertMasterFill fill (sv_db sv) = (r, d)" by fastforce
  have "store_step (sv_db sv) d" using step_fill[of "sv_db sv" fill] i by simp
  note ok = store_step_ok[OF this assms]
  show ?thesis
  proof (cases r)
    case (Inl e)
    then show ?thesis using i ok by (simp add: MasterFillConsumer_Handle_def with_db_def)
  next
    case (Inr k)
    obtain r2 sv2 where h: "server_handle P resolver (fill\<lparr> mf_ID := k \<rparr>) (sv\<lparr> sv_db := d \<rparr>) = (r2, sv2)" by fastforce
    then have "server_inv d0 sv2 \<and> copied_once sv2"
      using server_handle_ok[of d0 "sv\<lparr> sv_db := d \<rparr>" P resolver "fill\<lparr> mf_ID := k \<rparr>"] ok by simp
    then show ?thesis using i Inr h
      by (simp add: MasterFillConsumer_Handle_def with_db_def start_sync_ok split: sum.split)
  qed
qed

lemma server_step_ok:
  "server_step P sv sv' \<Longrightarrow> server_inv d0 sv \<and> copied_once sv \<Longrightarrow> server_inv d0 sv' \<and> copied_once sv'"
proof (induction rule: server_step.induct)
  case (v_fill sv resolver fill)
  then show ?case using consumer_ok by blast
next
  case (v_handle sv resolver fill)
  then show ?case using server_handle_ok by blast
next
  case (v_store sv d)
  then show ?case using store_step_ok by blast
next
  case (v_admin sv d)
  have "keeps (sv_db sv) d" using admin_step_orders[OF v_admin(1)] by (simp add: order_tables_def keeps_def)
  then show ?case using v_admin wf_admin_step by (intro server_db_ok) (auto simp: server_inv_def)
next
  case (v_instruments sv fs rows)
  have "wf_admin ((sv_db sv)\<lparr> instruments := rows, faults := fs \<rparr>)" "keeps (sv_db sv) ((sv_db sv)\<lparr> instruments := rows, faults := fs \<rparr>)"
    using v_instruments wf_admin_tables[of "(sv_db sv)\<lparr> instruments := rows, faults := fs \<rparr>" "sv_db sv"]
    by (simp_all add: server_inv_def keeps_def admin_tables_def)
  then show ?case using v_instruments by (intro server_db_ok) auto
qed (simp_all add: server_inv_def copied_once_def server_tags_def)

lemma server_run_ok:
  "(server_step P)\<^sup>*\<^sup>* sv sv' \<Longrightarrow> server_inv d0 sv \<and> copied_once sv \<Longrightarrow> server_inv d0 sv' \<and> copied_once sv'"
  by (induction rule: rtranclp_induct) (auto dest: server_step_ok)

lemma new_server_ok: "server_inv (sv_db (new_server instrs p)) (new_server instrs p) \<and> copied_once (new_server instrs p)"
  by (simp add: new_server_def server_inv_def copied_once_def)

section \<open>Properties of whole histories\<close>

text \<open>
  C1 A follower copies a master fill at most once: in every history of the server from an empty
  database, whatever is redelivered, whatever transactions and hand-offs fail and whatever
  accounts, groups and links are changed in between, no two jobs handed to workers are for the
  same fill and follower, and each job's tag is on a stored order.
\<close>
theorem copied_at_most_once:
  assumes "(server_step P)\<^sup>*\<^sup>* (new_server instrs p) sv"
  shows "distinct (map (\<lambda>j. (job_MasterFillID j, job_FollowerID j)) (jobs_of (sv_outs sv)))
    \<and> (\<forall>j \<in> set (jobs_of (sv_outs sv)). \<exists>row \<in> set (follower_orders (sv_db sv)).
          fr_idempotency_tag row = IdempotencyTag (job_MasterFillID j) (job_FollowerID j))"
  using server_run_ok[OF assms new_server_ok] by (auto simp: copied_once_def server_tags_def tags_of_def image_iff) fastforce

text \<open>What an accepted delivery has stored is still there at the end of every later history.\<close>

lemma delivery_keeps:
  assumes "wf_admin (sv_db sv)" "copied_once sv" "InsertMasterFill f (sv_db sv) = (Inr i, d1)"
    and "(server_step P)\<^sup>*\<^sup>* (snd (MasterFillConsumer_Handle (server_consumer P resolver) f sv)) sv2"
  shows "keeps d1 (sv_db sv2)"
proof -
  let ?sv1 = "sv\<lparr> sv_db := d1 \<rparr>"
  have step: "store_step (sv_db sv) d1" using step_fill[of "sv_db sv" f] assms(3) by simp
  have "server_inv d1 ?sv1 \<and> copied_once ?sv1"
    using store_step_ok[OF step, of "sv_db sv"] assms(1,2) by (simp add: server_inv_def)
  then have "server_inv d1 (snd (server_handle P resolver (f\<lparr> mf_ID := i \<rparr>) ?sv1))
      \<and> copied_once (snd (server_handle P resolver (f\<lparr> mf_ID := i \<rparr>) ?sv1))" using server_handle_ok by blast
  then have "server_inv d1 (snd (MasterFillConsumer_Handle (server_consumer P resolver) f sv))
      \<and> copied_once (snd (MasterFillConsumer_Handle (server_consumer P resolver) f sv))"
    using assms(3) start_sync_ok by (auto simp: MasterFillConsumer_Handle_def with_db_def split: prod.split sum.split)
  then show ?thesis using server_run_ok[OF assms(4)] by (simp add: server_inv_def)
qed

text \<open>Two fills that the store takes for the same.\<close>

definition same_fill :: "MasterFill \<Rightarrow> MasterFill \<Rightarrow> bool" where
  "same_fill f g \<longleftrightarrow> mf_MasterID g = mf_MasterID f \<and> mf_BrokerOrderID g = mf_BrokerOrderID f
     \<and> mf_FilledQuantity g = mf_FilledQuantity f \<and> mf_Status g = mf_Status f"

lemma known_fill_not_inserted:
  assumes "fill_key (fill_row g d) \<in> set (map fill_key (master_fills d))"
  shows "\<exists>e fs. InsertMasterFill g d = (Inl e, d\<lparr> faults := fs \<rparr>)"
  using assms by (auto simp: InsertMasterFill_def db_call_def Let_def fill_key_def fill_row_def
      split: list.splits option.splits) (metis db.surjective db.update_convs(14))+

lemma redelivery_changes_nothing:
  assumes "InsertMasterFill f d = (Inr i, d1)" "keeps d1 (sv_db sv2)" "same_fill f g"
  shows "\<exists>r fs. MasterFillConsumer_Handle (server_consumer P resolver) g sv2
       = (r, sv2\<lparr> sv_db := (sv_db sv2)\<lparr> faults := fs \<rparr> \<rparr>)
     \<and> (faults (sv_db sv2) = [] \<and> is_json (mf_RawPayload g) \<longrightarrow> r = Inr () \<and> fs = [])"
proof -
  have key: "fill_key (fill_row g (sv_db sv2)) \<in> set (map fill_key (master_fills (sv_db sv2)))"
    using InsertMasterFill_ok[OF assms(1)] assms(2,3) by (auto simp: keeps_def same_fill_def fill_key_def fill_row_def)
  then obtain e fs where e: "InsertMasterFill g (sv_db sv2) = (Inl e, (sv_db sv2)\<lparr> faults := fs \<rparr>)"
    using known_fill_not_inserted by blast
  have "e = ErrDuplicate \<and> fs = []" if "faults (sv_db sv2) = []" "is_json (mf_RawPayload g)"
    using InsertMasterFill_again[OF that key] e that(1) by (metis Pair_inject db.ext_inject db.surjective db.update_convs(14) sum.inject(1))
  then show ?thesis using e by (auto simp: MasterFillConsumer_Handle_def with_db_def)
qed

text \<open>
  C2 A fill that was stored is never copied again by a delivery: once a fill of a master has been
  inserted, every later delivery of the same broker order, filled quantity and status changes
  nothing in the server (no order, job, engine state, event or portfolio sync), whatever fills,
  administration, workers and failures came in between and whether or not the delivery's own
  transaction fails; without a failure a well-formed one is acknowledged. The histories do not archive:
  archiving deletes old fills, and an archived fill would be taken for a new one.
\<close>
theorem redelivered_fill_ignored:
  assumes "wf_admin (sv_db sv)" and "copied_once sv"
    and "fst (InsertMasterFill f (sv_db sv)) = Inr i"
    and "(server_step P)\<^sup>*\<^sup>* (snd (MasterFillConsumer_Handle (server_consumer P resolver) f sv)) sv2"
    and "mf_MasterID g = mf_MasterID f" "mf_BrokerOrderID g = mf_BrokerOrderID f"
      "mf_FilledQuantity g = mf_FilledQuantity f" "mf_Status g = mf_Status f"
  shows "\<exists>r fs. MasterFillConsumer_Handle (server_consumer P resolver') g sv2
       = (r, sv2\<lparr> sv_db := (sv_db sv2)\<lparr> faults := fs \<rparr> \<rparr>)
     \<and> (faults (sv_db sv2) = [] \<and> is_json (mf_RawPayload g) \<longrightarrow> r = Inr () \<and> fs = [])"
proof -
  have d1: "InsertMasterFill f (sv_db sv) = (Inr i, snd (InsertMasterFill f (sv_db sv)))" using assms(3) by (metis prod.collapse)
  have "same_fill f g" using assms(5-) by (simp add: same_fill_def)
  then show ?thesis by (rule redelivery_changes_nothing[OF d1 delivery_keeps[OF assms(1,2) d1 assms(4)]])
qed

text \<open>
  While the kill switch is engaged nothing is copied: a fill taken from the queue adds no
  order, no tag and no job, whatever the state of the store.
\<close>
theorem kill_switch_blocks:
  assumes "e_killSwitch (sv_engine sv)"
    and "MasterFillConsumer_Handle (server_consumer P resolver) fill sv = (r, sv')"
  shows "sv_outs sv' = sv_outs sv \<and> follower_orders (sv_db sv') = follower_orders (sv_db sv) \<and> sv_pool sv' = sv_pool sv"
proof -
  obtain ri d where i: "InsertMasterFill fill (sv_db sv) = (ri, d)" by fastforce
  have d: "follower_orders d = follower_orders (sv_db sv)"
    using i by (auto simp: InsertMasterFill_def db_call_def Let_def split: list.splits option.splits if_splits)
  show ?thesis
  proof (cases ri)
    case (Inl e)
    then show ?thesis using assms i d by (auto simp: MasterFillConsumer_Handle_def with_db_def split: if_splits)
  next
    case (Inr k)
    obtain rh sv2 where h: "server_handle P resolver (fill\<lparr> mf_ID := k \<rparr>) (sv\<lparr> sv_db := d \<rparr>) = (rh, sv2)" by fastforce
    have "sv_outs sv2 = sv_outs sv \<and> follower_orders (sv_db sv2) = follower_orders d \<and> sv_pool sv2 = sv_pool sv"
      using h assms(1) write_frames(1)[of k DispatchDispatched d]
      by (auto simp: server_handle_def HandleMasterFill_def IsKillSwitchEngaged_def drop_fill_def server_deps_def
          server_store_def with_db_def split: prod.splits if_splits)
    then show ?thesis using assms(2) i Inr h d
      by (auto simp: MasterFillConsumer_Handle_def with_db_def start_sync_def server_consumer_def split: sum.splits)
  qed
qed

text \<open>
  A fan-out that succeeds inserted its batch, and what it stored is still there at the end; the
  outcomes it added are those of the dispatch loop for the ids that the batch returned.
\<close>

lemma server_fan_out:
  assumes "fan_out P (server_deps resolver) fill links lot e s = (Inr (), e', s')" "wf_admin (sv_db s)"
  shows "\<exists>m d1 new. InsertFollowerOrdersBatch (map (candidate_order fill lot) (map (candidate P fill lot) links)) (sv_db s)
         = (Inr m, d1) \<and> keeps d1 (sv_db s') \<and> sv_outs s' = sv_outs s @ new
     \<and> loop_result fill (fst (resolveExecutionPrices P fill)) (snd (resolveExecutionPrices P fill)) m
         (map (candidate P fill lot) links) new"
proof -
  let ?D = "server_deps resolver" and ?cs = "map (candidate P fill lot) links"
  let ?p = "fst (resolveExecutionPrices P fill)" and ?t = "snd (resolveExecutionPrices P fill)"
  obtain rb d1 where rb: "InsertFollowerOrdersBatch (map (candidate_order fill lot) ?cs) (sv_db s) = (rb, d1)" by fastforce
  then have "es_InsertFollowerOrdersBatch (ed_store ?D) (map (candidate_order fill lot) ?cs) s = (rb, s\<lparr> sv_db := d1 \<rparr>)"
    by (simp add: server_deps_def server_store_def with_db_def)
  then obtain m where "rb = Inr m" using assms(1) by (cases rb) (auto simp: fan_out_def Let_def case_prod_beta)
  note m = rb[unfolded this]
  let ?s1 = "s\<lparr> sv_db := d1 \<rparr>"
  have b: "es_InsertFollowerOrdersBatch (ed_store ?D) (map (candidate_order fill lot) ?cs) s = (Inr m, ?s1)"
    using m by (simp add: server_deps_def server_store_def with_db_def)
  have inv: "server_inv d1 ?s1" using wf_admin_tables[OF batch_frames(1)[OF m]] assms(2) by (simp add: server_inv_def)
  obtain x y s2 where l: "dispatch_loop ?D fill ?p ?t m ?cs 0 0 ?s1 = (x, y, s2)" by (metis prod_cases3)
  note loop = srv.loop_outcomes[OF l inv]
  let ?x = "if ?p \<le> 0 then dec_Float64 P (mf_AveragePrice fill) else ?p"
  have "set_state ?D (mf_ID fill) DispatchDispatched e (record_execution ?D fill ?x x y s2) = (Inr (), e', s')"
    using assms(1) b l by (simp add: fan_out_def Let_def case_prod_beta)
  from srv.set_state_frame[OF this] srv.record_frame[OF conjunct1[OF loop]] loop m
  show ?thesis by (fastforce simp: server_inv_def)
qed

text \<open>
  What became of one follower: its order is stored, and the outcome carries that order's id. A
  follower whose decided quantity is zero is failed as skipped with the reason, any other gets a job
  of the decided quantity for the fill's instrument and side, or is failed as dead-lettered.
\<close>

definition settled :: "decimal_pkg \<Rightarrow> MasterFill \<Rightarrow> int \<Rightarrow> fo_row list \<Rightarrow> FollowLink \<Rightarrow> outcome \<Rightarrow> bool" where
  "settled P fill lot rows l out \<longleftrightarrow> (\<exists>row \<in> set rows.
     fr_idempotency_tag row = IdempotencyTag (mf_ID fill) (fl_FollowerID l) \<and>
     (case follower_qty P fill lot l of (q, reason) \<Rightarrow>
        if q = 0 then out = Failed (fr_id row) ''SKIPPED'' (SizingReason_String reason)
        else (case out of
            Dispatched job \<Rightarrow> job_FollowerOrderID job = fr_id row \<and> job_FollowerID job = fl_FollowerID l
              \<and> job_MasterFillID job = mf_ID fill \<and> job_IdempotencyTag job = fr_idempotency_tag row
              \<and> job_Quantity job = q \<and> job_Exchange job = mf_Exchange fill
              \<and> job_Tradingsymbol job = mf_Tradingsymbol fill \<and> job_TransactionType job = mf_TransactionType fill
              \<and> job_Product job = mf_Product fill \<and> job_OrderType job = mf_OrderType fill
          | Failed i st msg \<Rightarrow> i = fr_id row \<and> st = TerminalDeadLettered \<and> msg = channel_full_msg)))"

lemma outcome_settled:
  assumes "outcome_for fill p t m (candidate P fill lot l) out"
    and "\<And>t i. m t = Some i \<Longrightarrow> \<exists>r \<in> set rows. fr_idempotency_tag r = t \<and> fr_id r = i"
  shows "settled P fill lot rows l out"
proof -
  obtain q reason where q: "follower_qty P fill lot l = (q, reason)" by fastforce
  obtain i where i: "m (IdempotencyTag (mf_ID fill) (fl_FollowerID l)) = Some i"
      "if q = 0 then out = Failed i ''SKIPPED'' (SizingReason_String reason)
       else out = Dispatched (candidate_job fill p t i (candidate P fill lot l))
         \<or> out = Failed i TerminalDeadLettered channel_full_msg"
    using assms(1) q by (auto simp: outcome_for_def candidate_def)
  obtain r where "r \<in> set rows" "fr_idempotency_tag r = IdempotencyTag (mf_ID fill) (fl_FollowerID l)" "fr_id r = i"
    using assms(2)[OF i(1)] by blast
  then show ?thesis using i(2) q
    by (intro bexI[of _ r, THEN settled_def[THEN iffD2]])
       (auto simp: candidate_job_def candidate_def split: if_splits)
qed

lemma keeps_tags:
  assumes "keeps d d'"
  shows "tags_of d \<subseteq> tags_of d'"
proof -
  have "tags_of d = fst ` set (map (\<lambda>r. (fr_idempotency_tag r, fr_id r)) (follower_orders d))" for d
    by (simp add: tags_of_def image_image)
  then show ?thesis using assms unfolding keeps_def by (simp only: image_mono)
qed

lemma fan_out_settled:
  assumes "fan_out P (server_deps resolver) fill links lot e s = (Inr (), e', s')" "wf_admin (sv_db s)"
  shows "(\<forall>l \<in> set links. IdempotencyTag (mf_ID fill) (fl_FollowerID l) \<in> tags_of (sv_db s'))
    \<and> (\<exists>new. sv_outs s' = sv_outs s @ new \<and> list_all2 (settled P fill lot (follower_orders (sv_db s')))
         (filter (\<lambda>l. IdempotencyTag (mf_ID fill) (fl_FollowerID l) \<notin> tags_of (sv_db s)) links) new)"
proof -
  let ?tag = "\<lambda>l. IdempotencyTag (mf_ID fill) (fl_FollowerID l)"
  obtain m d1 new where b: "InsertFollowerOrdersBatch (map (candidate_order fill lot) (map (candidate P fill lot) links)) (sv_db s)
         = (Inr m, d1)" and k: "keeps d1 (sv_db s')" and new: "sv_outs s' = sv_outs s @ new"
      "loop_result fill (fst (resolveExecutionPrices P fill)) (snd (resolveExecutionPrices P fill)) m
         (map (candidate P fill lot) links) new"
    using server_fan_out[OF assms] by blast
  have tags: "batch_tags (map (candidate_order fill lot) (map (candidate P fill lot) links)) = ?tag ` set links"
    unfolding batch_tags_candidates by (auto simp: image_iff)
  have rows: "\<exists>r \<in> set (follower_orders (sv_db s')). fr_idempotency_tag r = t \<and> fr_id r = i" if "m t = Some i" for t i
    using batch_ok(3)[OF b that] k by (fastforce simp: keeps_def)
  have "filter (\<lambda>l. ?tag l \<in> dom m) links = filter (\<lambda>l. ?tag l \<notin> tags_of (sv_db s)) links"
    using batch_ok(1)[OF b] unfolding tags by (intro filter_cong) auto
  then have "list_all2 (outcome_for fill (fst (resolveExecutionPrices P fill)) (snd (resolveExecutionPrices P fill)) m)
      (map (candidate P fill lot) (filter (\<lambda>l. ?tag l \<notin> tags_of (sv_db s)) links)) new"
    using new(2) by (simp add: loop_result_def filter_map comp_def)
  then have "list_all2 (settled P fill lot (follower_orders (sv_db s')))
      (filter (\<lambda>l. ?tag l \<notin> tags_of (sv_db s)) links) new"
    unfolding list_all2_map1 by (rule list_all2_mono) (rule outcome_settled[OF _ rows])
  moreover have "?tag l \<in> tags_of (sv_db s')" if "l \<in> set links" for l
    using that batch_ok(2)[OF b] keeps_tags[OF k] unfolding tags by blast
  ultimately show ?thesis using new(1) by blast
qed

text \<open>The same of a whole call of the engine.\<close>

lemma handle_settled:
  assumes "wf_admin (sv_db sv)" "\<not> dropped (sv_engine sv) fill"
    "MasterActive (mf_MasterID fill) (sv_db sv) = (Inr True, d1)" "EnabledFollowLinks (mf_MasterID fill) d1 = (Inr links, d2)"
    "server_handle P resolver fill sv = (Inr (), sv')"
  shows "(\<forall>l \<in> set links. IdempotencyTag (mf_ID fill) (fl_FollowerID l) \<in> tags_of (sv_db sv'))
    \<and> (\<exists>lot new. sv_outs sv' = sv_outs sv @ new
         \<and> (list_ex (\<lambda>l. fl_CloneFactor l \<noteq> 1) links \<longrightarrow> fst (resolveLotSize (server_deps resolver) (mf_Exchange fill)
              (mf_Tradingsymbol fill) (sv_engine sv) (sv\<lparr> sv_db := d2 \<rparr>)) = Inr lot)
         \<and> list_all2 (settled P fill lot (follower_orders (sv_db sv')))
             (filter (\<lambda>l. IdempotencyTag (mf_ID fill) (fl_FollowerID l) \<notin> tags_of (sv_db sv)) links) new)"
proof -
  obtain e s' where h: "HandleMasterFill P (server_deps resolver) fill (sv_engine sv) sv = (Inr (), e, s')"
      "sv' = s'\<lparr> sv_engine := e \<rparr>"
    using assms(5) by (auto simp: server_handle_def split: prod.splits)
  have inv: "server_inv (sv_db sv) sv" using assms(1) by (simp add: server_inv_def)
  have reads: "es_MasterActive (ed_store (server_deps resolver)) (mf_MasterID fill) sv = (Inr True, sv\<lparr> sv_db := d1 \<rparr>)"
      "es_EnabledFollowLinks (ed_store (server_deps resolver)) (mf_MasterID fill) (sv\<lparr> sv_db := d1 \<rparr>) = (Inr links, sv\<lparr> sv_db := d2 \<rparr>)"
    by (simp_all add: server_deps_def server_store_def with_db_def assms(3,4))
  from srv.handle_fans_out[OF h(1) inv assms(2) reads] show ?thesis
  proof (elim disjE conjE exE)
    assume "links = []" "srv.quiet (sv_db sv) sv s'"
    then show ?thesis using h(2) by (simp add: srv.quiet_def)
  next
    fix lot e1 s3
    assume f: "fan_out P (server_deps resolver) fill links lot e1 s3 = (Inr (), e, s')" and q: "srv.quiet (sv_db sv) sv s3"
      and lot: "list_ex (\<lambda>l. fl_CloneFactor l \<noteq> 1) links \<longrightarrow> fst (resolveLotSize (server_deps resolver) (mf_Exchange fill)
              (mf_Tradingsymbol fill) (sv_engine sv) (sv\<lparr> sv_db := d2 \<rparr>)) = Inr lot"
    have "wf_admin (sv_db s3)" "tags_of (sv_db s3) = tags_of (sv_db sv)" "sv_outs s3 = sv_outs sv"
      using q by (simp_all add: srv.quiet_def server_inv_def server_tags_def)
    then show ?thesis using fan_out_settled[OF f] h(2) lot by auto
  qed
qed


text \<open>
  The engine gives up on a fill before it has decided any follower: the check of the master or the
  load of its links fails.
\<close>

definition fan_out_fails :: "uuid \<Rightarrow> db \<Rightarrow> bool" where
  "fan_out_fails m d \<longleftrightarrow> (case MasterActive m d of (Inl _, _) \<Rightarrow> True
     | (Inr active, d') \<Rightarrow> active \<and> (case EnabledFollowLinks m d' of (Inl _, _) \<Rightarrow> True | (Inr _, _) \<Rightarrow> False))"

lemma handle_fails:
  assumes "fan_out_fails (mf_MasterID fill) (sv_db sv)" "\<not> dropped (sv_engine sv) fill"
  shows "\<exists>e d'. server_handle P resolver fill sv = (Inl e, sv\<lparr> sv_db := d' \<rparr>) \<and> order_tables d' = order_tables (sv_db sv)"
proof -
  obtain ra d1 where a: "MasterActive (mf_MasterID fill) (sv_db sv) = (ra, d1)" by fastforce
  obtain rk d2 where k: "EnabledFollowLinks (mf_MasterID fill) d1 = (rk, d2)" by fastforce
  have "order_tables d1 = order_tables (sv_db sv)" "order_tables d2 = order_tables d1"
    using a k by (auto simp: MasterActive_def EnabledFollowLinks_def db_call_def order_tables_def
        split: list.splits option.splits)
  then show ?thesis
    using assms a k
    by (auto simp: fan_out_fails_def server_handle_def HandleMasterFill_def dropped_def server_deps_def server_store_def
        with_db_def split: sum.splits bool.splits)
qed

text \<open>
  C20 A fill whose fan-out fails is lost: when the check of the master or the load of its links
  fails right after a live fill was stored, the delivery reports the error, no follower order, job
  or outcome is added and the fill stays pending; and in every later history each redelivery of the same
  fill changes nothing in the server, so no retry of the delivery ever copies it.
\<close>
theorem failed_fan_out_is_lost:
  assumes "wf_admin (sv_db sv)" and "copied_once sv" and "\<not> dropped (sv_engine sv) f"
    and "InsertMasterFill f (sv_db sv) = (Inr i, d1)" and "fan_out_fails (mf_MasterID f) d1"
    and "MasterFillConsumer_Handle (server_consumer P resolver) f sv = (r, sv1)"
  shows "(\<exists>e. r = Inl e) \<and> follower_orders (sv_db sv1) = follower_orders (sv_db sv) \<and> sv_outs sv1 = sv_outs sv
    \<and> sv_pool sv1 = sv_pool sv
    \<and> (\<exists>row \<in> set (master_fills (sv_db sv1)). mr_id row = i \<and> mr_dispatch_state row = DispatchPending)
    \<and> (\<forall>sv2 g. (server_step P)\<^sup>*\<^sup>* sv1 sv2 \<longrightarrow> mf_MasterID g = mf_MasterID f \<and> mf_BrokerOrderID g = mf_BrokerOrderID f
         \<and> mf_FilledQuantity g = mf_FilledQuantity f \<and> mf_Status g = mf_Status f \<longrightarrow>
         (\<exists>rg fs. MasterFillConsumer_Handle (server_consumer P resolver') g sv2 = (rg, sv2\<lparr> sv_db := (sv_db sv2)\<lparr> faults := fs \<rparr> \<rparr>)))"
proof -
  have "\<not> dropped (sv_engine (sv\<lparr> sv_db := d1 \<rparr>)) (f\<lparr> mf_ID := i \<rparr>)" using assms(3) by (simp add: dropped_def)
  then obtain e d' where h: "server_handle P resolver (f\<lparr> mf_ID := i \<rparr>) (sv\<lparr> sv_db := d1 \<rparr>) = (Inl e, sv\<lparr> sv_db := d' \<rparr>)"
      "order_tables d' = order_tables d1"
    using handle_fails[of "f\<lparr> mf_ID := i \<rparr>" "sv\<lparr> sv_db := d1 \<rparr>" P resolver] assms(5) by auto
  have sv1: "r = Inl e" "sv1 = sv\<lparr> sv_db := d' \<rparr>"
    using assms(4,6) h(1) by (simp_all add: MasterFillConsumer_Handle_def with_db_def)
  have rows: "follower_orders d1 = follower_orders (sv_db sv)"
      "\<exists>row \<in> set (master_fills d1). mr_id row = i \<and> mr_dispatch_state row = DispatchPending"
    using assms(4) by (auto simp: InsertMasterFill_def db_call_def Let_def fill_row_def split: list.splits option.splits if_splits)
  have "\<exists>rg fs. MasterFillConsumer_Handle (server_consumer P resolver') g sv2 = (rg, sv2\<lparr> sv_db := (sv_db sv2)\<lparr> faults := fs \<rparr> \<rparr>)"
    if "(server_step P)\<^sup>*\<^sup>* sv1 sv2" "same_fill f g" for sv2 g
  proof -
    have "keeps d1 (sv_db sv2)"
      by (rule delivery_keeps[OF assms(1,2,4), where P = P and resolver = resolver]) (simp add: assms(6) that(1))
    from redelivery_changes_nothing[OF assms(4) this that(2)] show ?thesis by blast
  qed
  then show ?thesis using sv1 rows h(2) by (auto simp: order_tables_def same_fill_def)
qed

section \<open>Examples\<close>

lemma admin_server_run:
  "admin_step\<^sup>*\<^sup>* (sv_db sv) d \<Longrightarrow> (server_step P)\<^sup>*\<^sup>* sv (sv\<lparr> sv_db := d \<rparr>)"
proof (induction rule: rtranclp_induct)
  case (step d d')
  then show ?case using v_admin[of "sv\<lparr> sv_db := d \<rparr>" d' P] by (simp add: rtranclp.rtrancl_into_rtrancl)
qed simp

definition ex_server :: server where
  "ex_server = (new_server [] (Register ''f'' 5 NewPool))\<lparr> sv_db := ex_admin_db \<rparr>"

lemma ex_server_run: "(server_step P)\<^sup>*\<^sup>* (new_server [] (Register ''f'' 5 NewPool)) ex_server"
  unfolding ex_server_def by (rule admin_server_run) (simp add: new_server_def ex_admin_run)

lemma ex_server_ok: "wf_admin (sv_db ex_server)" "copied_once ex_server"
  using server_run_ok[OF ex_server_run new_server_ok] by (simp_all add: server_inv_def)

definition ex_served_job :: Job where
  "ex_served_job = \<lparr> job_FollowerOrderID = 1, job_FollowerID = ''f'', job_MasterFillID = 1,
     job_IdempotencyTag = IdempotencyTag 1 ''f'', job_Exchange = ''NSE'', job_Tradingsymbol = ''INFY'',
     job_TransactionType = ''BUY'', job_Product = ''MIS'', job_OrderType = ''MARKET'', job_Quantity = 10,
     job_Price = 0, job_TriggerPrice = 0 \<rparr>"

lemma ex_admin_more:
  "master_fills ex_admin_db = []" "follower_orders ex_admin_db = []" "mf_next ex_admin_db = 1" "fo_next ex_admin_db = 1"
  "db_now ex_admin_db = 1" "instruments ex_admin_db = []" "pending_order_updates ex_admin_db = []"
  by (simp_all add: ex_admin_db_def CreateAccountWithCredentials_def CreateGroup_def CreateFollowLink_def
      db_call_def empty_db_def ex_link_def new_account_def valid_role_def account_exists_def
      ip_taken_def uuid_Nil_def)

definition ex_sdb :: db where
  "ex_sdb = ex_admin_db\<lparr> master_fills := [fill_row ex_fill ex_admin_db], mf_next := 2 \<rparr>"

lemma ex_sdb_reads:
  "InsertMasterFill ex_fill ex_admin_db = (Inr 1, ex_sdb)"
  "MasterActive ''m'' ex_sdb = (Inr True, ex_sdb)"
  "EnabledFollowLinks ''m'' ex_sdb = (Inr [\<lparr> fl_FollowerID = ''f'', fl_GroupID = ''g'', fl_MasterID = ''m'',
     fl_CloneFactor = 1, fl_MaxQtyPerOrder = 0, fl_Enabled = True, fl_EffectiveFrom = 1, fl_Status = ''active'',
     fl_AuthStatus = ''unauthenticated'' \<rparr>], ex_sdb)"
  by (simp_all add: ex_sdb_def InsertMasterFill_def MasterActive_def EnabledFollowLinks_def db_call_def Let_def ex_admin_eq
      ex_admin_more ex_acct_def new_account_def live_def account_exists_def ex_fill_def enabled_link_def find_account_def
      List.map_filter_simps)

definition ex_cand :: candidateJob where
  "ex_cand = \<lparr> cj_followerID = ''f'', cj_tag = IdempotencyTag 1 ''f'', cj_qty = 10, cj_reason = ReasonOK \<rparr>"

definition ex_sdb2 :: db where
  "ex_sdb2 = snd (InsertFollowerOrdersBatch [candidate_order (ex_fill\<lparr> mf_ID := 1 \<rparr>) 0 ex_cand] ex_sdb)"

lemma ex_sdb2_eq:
  "InsertFollowerOrdersBatch [candidate_order (ex_fill\<lparr> mf_ID := 1 \<rparr>) 0 ex_cand] ex_sdb
   = (Inr [IdempotencyTag 1 ''f'' \<mapsto> 1], ex_sdb2)"
  "faults ex_sdb2 = []" "mr_id (hd (master_fills ex_sdb2)) = 1"
  by (simp_all add: ex_sdb2_def InsertFollowerOrdersBatch_def db_call_def Let_def candidate_order_def ex_cand_def ex_sdb_def
      ex_admin_eq ex_admin_more order_refs_ok_def account_exists_def ex_acct_def new_account_def FollowerOrder_zero_def
      tag_taken_def pair_taken_def add_order_def order_row_def fill_row_def)

lemma ex_state: "fst (SetMasterFillDispatchState 1 DispatchDispatched ex_sdb2) = Inr ()"
  by (simp add: SetMasterFillDispatchState_def db_call_def ex_sdb2_eq(2))

lemma ex_prices: "resolveExecutionPrices dec16 (ex_fill\<lparr> mf_ID := 1 \<rparr>) = (0, 0)"
  by (simp add: resolveExecutionPrices_def ex_fill_def dec16_def raw_prices_def json_field_def)

lemma ex_served:
  "fst (MasterFillConsumer_Handle (server_consumer dec16 None) ex_fill ex_server) = Inr ()"
  "sv_outs (snd (MasterFillConsumer_Handle (server_consumer dec16 None) ex_fill ex_server)) = [Dispatched ex_served_job]"
proof -
  have cand: "candidate dec16 (ex_fill\<lparr> mf_ID := 1 \<rparr>) 0 \<lparr> fl_FollowerID = ''f'', fl_GroupID = ''g'', fl_MasterID = ''m'',
     fl_CloneFactor = 1, fl_MaxQtyPerOrder = 0, fl_Enabled = True, fl_EffectiveFrom = 1, fl_Status = ''active'',
     fl_AuthStatus = ''unauthenticated'' \<rparr> = ex_cand"
    by (simp add: candidate_def follower_qty_def ex_cand_def ex_fill_def)
  note eval = server_handle_def with_db_def HandleMasterFill_def IsKillSwitchEngaged_def server_deps_def server_store_def
    ex_sdb_reads fan_out_def ex_prices cand ex_sdb2_eq server_dispatch_def Dispatch_def Register_def NewPool_def
    new_server_def ex_server_def Engine_New_def HasPrefix_def record_execution_def set_state_def new_goroutine_def chan_defs
    upd_g_def log_out_def Let_def
  obtain d3 where d3: "SetMasterFillDispatchState 1 DispatchDispatched ex_sdb2 = (Inr (), d3)"
    using ex_state by (metis prod.collapse)
  have fill: "mf_MasterID ex_fill = ''m''" "mf_Status ex_fill = ''COMPLETE''" "mf_Tag ex_fill = []" by (simp_all add: ex_fill_def)
  have job: "candidate_job (ex_fill\<lparr> mf_ID := 1 \<rparr>) 0 0 1 ex_cand = ex_served_job"
    by (simp add: candidate_job_def ex_fill_def ex_cand_def ex_served_job_def)
  have tag: "cj_tag ex_cand = IdempotencyTag 1 ''f''" "cj_qty ex_cand = 10" "cj_followerID ex_cand = ''f''" by (simp_all add: ex_cand_def)
  show "fst (MasterFillConsumer_Handle (server_consumer dec16 None) ex_fill ex_server) = Inr ()"
    "sv_outs (snd (MasterFillConsumer_Handle (server_consumer dec16 None) ex_fill ex_server)) = [Dispatched ex_served_job]"
    unfolding MasterFillConsumer_Handle_def
    by (simp_all add: eval fill job tag d3 start_sync_def server_consumer_def)
qed

definition ex_served_server :: server where
  "ex_served_server = snd (MasterFillConsumer_Handle (server_consumer dec16 None) ex_fill ex_server)"

lemma ex_served_run: "(server_step dec16)\<^sup>*\<^sup>* (new_server [] (Register ''f'' 5 NewPool)) ex_served_server"
  unfolding ex_served_server_def by (rule rtranclp.rtrancl_into_rtrancl[OF ex_server_run v_fill])

theorem copied_at_most_once_witness:
  "jobs_of (sv_outs ex_served_server) = [ex_served_job]
   \<and> (\<exists>row \<in> set (follower_orders (sv_db ex_served_server)). fr_idempotency_tag row = IdempotencyTag 1 ''f'')"
  using copied_at_most_once[OF ex_served_run] by (simp add: ex_served_server_def ex_served ex_served_job_def)

theorem kill_switch_blocks_witness:
  "sv_outs (snd (MasterFillConsumer_Handle (server_consumer dec16 None) ex_fill
     (ex_server\<lparr> sv_engine := SetKillSwitch True ''halt'' ''ops'' 1 Engine_New \<rparr>))) = []"
proof -
  let ?sv = "ex_server\<lparr> sv_engine := SetKillSwitch True ''halt'' ''ops'' 1 Engine_New \<rparr>"
  have "e_killSwitch (sv_engine ?sv)" by (simp add: SetKillSwitch_def)
  from kill_switch_blocks[OF this surjective_pairing] show ?thesis by (simp add: ex_server_def new_server_def)
qed

theorem redelivered_fill_ignored_witness:
  "MasterFillConsumer_Handle (server_consumer dec16 None) ex_fill
     (ex_served_server\<lparr> sv_db := (sv_db ex_served_server)\<lparr> faults := [] \<rparr> \<rparr>)
   = (Inr (), ex_served_server\<lparr> sv_db := (sv_db ex_served_server)\<lparr> faults := [] \<rparr> \<rparr>)"
proof -
  have i: "fst (InsertMasterFill ex_fill (sv_db ex_server)) = Inr 1"
    by (simp add: ex_server_def ex_sdb_reads)
  have run: "(server_step dec16)\<^sup>*\<^sup>* (snd (MasterFillConsumer_Handle (server_consumer dec16 None) ex_fill ex_server))
     (ex_served_server\<lparr> sv_db := (sv_db ex_served_server)\<lparr> faults := [] \<rparr> \<rparr>)"
    unfolding ex_served_server_def[symmetric] by (rule r_into_rtranclp, rule v_store, rule step_fault)
  from redelivered_fill_ignored[OF ex_server_ok i run refl refl refl refl, of None] show ?thesis
    by (auto simp: ex_fill_def)
qed


definition ex_failing :: server where
  "ex_failing = ex_server\<lparr> sv_db := ex_admin_db\<lparr> faults := [None, Some (Plain ''conn closed'')] \<rparr> \<rparr>"

theorem failed_fan_out_is_lost_witness:
  "sv_outs (snd (MasterFillConsumer_Handle (server_consumer dec16 None) ex_fill ex_failing)) = []
   \<and> (\<exists>rg fs. MasterFillConsumer_Handle (server_consumer dec16 None) ex_fill
          (snd (MasterFillConsumer_Handle (server_consumer dec16 None) ex_fill ex_failing))
        = (rg, (snd (MasterFillConsumer_Handle (server_consumer dec16 None) ex_fill ex_failing))
            \<lparr> sv_db := (sv_db (snd (MasterFillConsumer_Handle (server_consumer dec16 None) ex_fill ex_failing)))
                \<lparr> faults := fs \<rparr> \<rparr>))"
proof -
  have wf: "wf_admin (sv_db ex_failing)"
    using ex_server_ok(1) wf_admin_tables[of "sv_db ex_failing" "sv_db ex_server"]
    by (simp add: ex_failing_def ex_server_def)
  have once: "copied_once ex_failing" by (simp add: copied_once_def ex_failing_def ex_server_def new_server_def)
  have live: "\<not> dropped (sv_engine ex_failing) ex_fill"
    by (simp add: ex_fill_def dropped_def IsKillSwitchEngaged_def ex_failing_def ex_server_def new_server_def Engine_New_def HasPrefix_def)
  have i: "InsertMasterFill ex_fill (sv_db ex_failing) = (Inr 1, ex_sdb\<lparr> faults := [Some (Plain ''conn closed'')] \<rparr>)"
    by (simp add: ex_failing_def ex_sdb_def InsertMasterFill_def db_call_def Let_def ex_admin_eq ex_admin_more
        ex_acct_def new_account_def account_exists_def ex_fill_def fill_row_def)
  have fails: "fan_out_fails (mf_MasterID ex_fill) (ex_sdb\<lparr> faults := [Some (Plain ''conn closed'')] \<rparr>)"
    by (simp add: fan_out_fails_def MasterActive_def db_call_def)
  from failed_fan_out_is_lost[OF wf once live i fails surjective_pairing, of dec16 None None] show ?thesis
    by (auto simp: ex_failing_def ex_server_def new_server_def)
qed

end
