(* ===== verification/Recon.thy ===== *)
theory Recon
  imports Server Accounts_View
begin

text \<open>
  The reconciliation poller (\<open>internal/recon/reconciler.go\<close>): the backstop that reads the
  brokers' order books, backfills missed fills and updates through the queue consumers, and
  settles follower orders that stay pending. The poller is stated over records of operations on
  a state \<open>'s\<close>; \<open>server_poller\<close> is the wiring with the server's store and consumers. An alert
  is its message with its details as JSON values; the clock is read from the state.
\<close>

section \<open>Interfaces and configuration\<close>

record 's ReconStore =
  rs_Accounts :: "uuid list option \<Rightarrow> 's \<Rightarrow> Account list result \<times> 's"
  rs_PendingFollowerOrders :: "gotime \<Rightarrow> 's \<Rightarrow> FollowerOrder list result \<times> 's"
  rs_UpdateFollowerOrderStatus :: "string \<Rightarrow> string \<Rightarrow> int \<Rightarrow> decimal \<Rightarrow> 's \<Rightarrow> int result \<times> 's"
  rs_AppendOrderEvent :: "OrderEvent \<Rightarrow> 's \<Rightarrow> unit result \<times> 's"
  rs_SweepPendingOrderUpdates :: "gotime \<Rightarrow> 's \<Rightarrow> string list result \<times> 's"
  rs_MasterFillExists :: "uuid \<Rightarrow> string \<Rightarrow> int \<Rightarrow> string \<Rightarrow> 's \<Rightarrow> bool result \<times> 's"
  rs_FollowerOrderTerminalExists :: "uuid \<Rightarrow> string \<Rightarrow> 's \<Rightarrow> bool result \<times> 's"
  rs_UpdateFollowerOrderFailed :: "int \<Rightarrow> string \<Rightarrow> string \<Rightarrow> 's \<Rightarrow> unit result \<times> 's"

record ReconConfig =
  rc_PollInterval :: duration
  rc_PendingThreshold :: duration
  rc_PollingWindow :: duration

definition DefaultConfig :: ReconConfig where
  "DefaultConfig = \<lparr> rc_PollInterval = 10 * Second, rc_PendingThreshold = 15 * Second, rc_PollingWindow = 15 * Minute \<rparr>"

record 's Poller =
  po_store :: "'s ReconStore"
  po_GetMasterOrders :: "uuid \<Rightarrow> 's \<Rightarrow> Order list result \<times> 's"
  po_GetFollowerOrderHistory :: "uuid \<Rightarrow> string \<Rightarrow> 's \<Rightarrow> Order list result \<times> 's"
  po_GetFollowerOrders :: "uuid \<Rightarrow> 's \<Rightarrow> Order list result \<times> 's"
  po_masterConsumer :: "MasterFill \<Rightarrow> 's \<Rightarrow> unit result \<times> 's"
  po_FollowerConsumer :: "(OrderUpdate \<Rightarrow> 's \<Rightarrow> unit result \<times> 's) option"
  po_Alert :: "string \<Rightarrow> (string \<times> json) list \<Rightarrow> 's \<Rightarrow> 's"
  po_Now :: "'s \<Rightarrow> gotime"
  po_cfg :: ReconConfig

text \<open>\<open>NewPoller\<close> replaces intervals that are not positive.\<close>

definition poller_config :: "ReconConfig \<Rightarrow> ReconConfig" where
  "poller_config cfg = \<lparr>
     rc_PollInterval = (if rc_PollInterval cfg \<le> 0 then 30 * Second else rc_PollInterval cfg),
     rc_PendingThreshold = (if rc_PendingThreshold cfg \<le> 0 then 2 * Minute else rc_PendingThreshold cfg),
     rc_PollingWindow = (if rc_PollingWindow cfg \<le> 0 then 15 * Minute else rc_PollingWindow cfg) \<rparr>"

section \<open>Backfilling one account\<close>

text \<open>An order is looked at when it is terminal and not older than the window.\<close>

definition in_window :: "gotime \<Rightarrow> Order \<Rightarrow> bool" where
  "in_window windowStart o1 \<longleftrightarrow> IsTerminal (bo_Status o1)
     \<and> \<not> (\<not> IsZero (bo_OrderTimestamp o1) \<and> bo_OrderTimestamp o1 < windowStart)"

text \<open>
  The body of both loops: skip the order if the store knows it, else hand it to the consumer
  and alert on an error.
\<close>

definition backfill_one ::
  "(Order \<Rightarrow> 's \<Rightarrow> bool result \<times> 's) \<Rightarrow> (Order \<Rightarrow> 's \<Rightarrow> unit result \<times> 's)
     \<Rightarrow> (Order \<Rightarrow> go_error \<Rightarrow> 's \<Rightarrow> 's) \<Rightarrow> Order \<Rightarrow> 's \<Rightarrow> 's" where
  "backfill_one known handle alert o1 s = (case known o1 s of
      (Inr True, s1) \<Rightarrow> s1
    | (_, s1) \<Rightarrow> (case handle o1 s1 of (Inl err, s2) \<Rightarrow> alert o1 err s2 | (Inr u, s2) \<Rightarrow> s2))"

definition backfill ::
  "gotime \<Rightarrow> (Order \<Rightarrow> 's \<Rightarrow> bool result \<times> 's) \<Rightarrow> (Order \<Rightarrow> 's \<Rightarrow> unit result \<times> 's)
     \<Rightarrow> (Order \<Rightarrow> go_error \<Rightarrow> 's \<Rightarrow> 's) \<Rightarrow> Order list \<Rightarrow> 's \<Rightarrow> 's" where
  "backfill windowStart known handle alert os s =
     fold (backfill_one known handle alert) (filter (in_window windowStart) os) s"

definition ReconcileMaster :: "'s Poller \<Rightarrow> uuid \<Rightarrow> 's \<Rightarrow> unit result \<times> 's" where
  "ReconcileMaster p masterID s =
     (let windowStart = po_Now p s - rc_PollingWindow (po_cfg p)
      in case po_GetMasterOrders p masterID s of
           (Inl err, s1) \<Rightarrow> (Inl err, po_Alert p ''failed to read master orders''
              [(''master_id'', JStr masterID), (''error'', JStr (err_Error err))] s1)
         | (Inr orders, s1) \<Rightarrow> (Inr (), backfill windowStart
              (\<lambda>o1. rs_MasterFillExists (po_store p) masterID (bo_OrderID o1) (bo_FilledQuantity o1) (bo_Status o1))
              (\<lambda>o1. po_masterConsumer p (ToMasterFill o1 masterID))
              (\<lambda>o1 err. po_Alert p ''failed to handle master fill from recon''
                 [(''master_id'', JStr masterID), (''broker_order_id'', JStr (bo_OrderID o1)),
                  (''error'', JStr (err_Error err))])
              orders s1))"

definition ReconcileFollower :: "'s Poller \<Rightarrow> uuid \<Rightarrow> 's \<Rightarrow> unit result \<times> 's" where
  "ReconcileFollower p followerID s = (case po_FollowerConsumer p of
      None \<Rightarrow> (Inr (), s)
    | Some handle \<Rightarrow>
        let windowStart = po_Now p s - rc_PollingWindow (po_cfg p)
        in case po_GetFollowerOrders p followerID s of
             (Inl err, s1) \<Rightarrow> (Inl err, po_Alert p ''failed to read follower orders''
                [(''follower_id'', JStr followerID), (''error'', JStr (err_Error err))] s1)
           | (Inr orders, s1) \<Rightarrow> (Inr (), backfill windowStart
                (\<lambda>o1. rs_FollowerOrderTerminalExists (po_store p) followerID (bo_OrderID o1))
                (\<lambda>o1. handle (ToOrderUpdate o1 followerID))
                (\<lambda>o1 err. po_Alert p ''failed to handle follower order from recon''
                   [(''follower_id'', JStr followerID), (''broker_order_id'', JStr (bo_OrderID o1)),
                    (''error'', JStr (err_Error err))])
                orders s1))"

section \<open>Settling pending orders\<close>

definition order_details :: "FollowerOrder \<Rightarrow> (string \<times> json) list" where
  "order_details fo = [(''follower_order_id'', JNum (of_int (fo_ID fo))), (''follower_id'', JStr (fo_FollowerID fo))]"

text \<open>An order of more than five minutes that cannot be resolved is given up.\<close>

definition give_up :: "'s Poller \<Rightarrow> FollowerOrder \<Rightarrow> string \<Rightarrow> 's \<Rightarrow> 's" where
  "give_up p fo msg s = (if po_Now p s - fo_CreatedAt fo > 5 * Minute
     then snd (rs_UpdateFollowerOrderFailed (po_store p) (fo_ID fo) ''FAILED'' msg s) else s)"

text \<open>
  \<open>json.Marshal\<close> of an order with its raw payload, whose error is ignored: a raw payload that is
  not JSON makes it fail and leaves no bytes.
\<close>

definition marshal_order :: "Order \<Rightarrow> raw_payload" where
  "marshal_order o1 = (case bo_RawPayload o1 of
      RawEmpty \<Rightarrow> RawJson (Order_json o1)
    | RawJson j \<Rightarrow> (case Order_json o1 of JObj kvs \<Rightarrow> RawJson (JObj (kvs @ [(''raw_payload'', j)])) | j' \<Rightarrow> RawJson j')
    | _ \<Rightarrow> RawEmpty)"

definition settle_terminal :: "'s Poller \<Rightarrow> FollowerOrder \<Rightarrow> Order \<Rightarrow> 's \<Rightarrow> 's" where
  "settle_terminal p fo latest s =
     (let s2 = (case rs_UpdateFollowerOrderStatus (po_store p) (fo_BrokerOrderID fo) (bo_Status latest)
                       (bo_FilledQuantity latest) (bo_AveragePrice latest) s of
                  (Inl err, s1) \<Rightarrow> po_Alert p ''failed to update resolved follower order status''
                     [(''follower_order_id'', JNum (of_int (fo_ID fo))), (''broker_order_id'', JStr (fo_BrokerOrderID fo)),
                      (''status'', JStr (bo_Status latest)), (''error'', JStr (err_Error err))] s1
                | (Inr i, s1) \<Rightarrow> snd (rs_AppendOrderEvent (po_store p) \<lparr> oe_FollowerOrderID = Some (fo_ID fo),
                     oe_MasterFillID = None, oe_AccountID = fo_FollowerID fo, oe_EventType = ''reconciled'',
                     oe_Payload = marshal_order latest \<rparr> s1))
      in if bo_Status latest \<noteq> TerminalComplete \<or> bo_FilledQuantity latest \<noteq> fo_IntendedQty fo
         then po_Alert p ''drift detected on follower order''
           (order_details fo @ [(''status'', JStr (bo_Status latest)), (''intended_qty'', JNum (of_int (fo_IntendedQty fo))),
              (''filled_qty'', JNum (of_int (bo_FilledQuantity latest)))]) s2
         else s2)"

definition settle_one :: "'s Poller \<Rightarrow> FollowerOrder \<Rightarrow> 's \<Rightarrow> 's" where
  "settle_one p fo s =
     (if fo_BrokerOrderID fo = [] then
        give_up p fo ''order unplaced without broker_order_id past 5m''
          (po_Alert p ''unresolved follower order: missing broker_order_id past threshold''
             (order_details fo @ [(''master_fill_id'', JNum (of_int (fo_MasterFillID fo))),
                (''created_at'', JTimeStr (fo_CreatedAt fo))]) s)
      else case po_GetFollowerOrderHistory p (fo_FollowerID fo) (fo_BrokerOrderID fo) s of
        (Inl err, s1) \<Rightarrow>
          give_up p fo (''order unresolvable at broker past 5m: '' @ err_Error err)
            (po_Alert p ''failed to read follower order history''
               (order_details fo @ [(''broker_order_id'', JStr (fo_BrokerOrderID fo)), (''error'', JStr (err_Error err))]) s1)
      | (Inr [], s1) \<Rightarrow>
          give_up p fo ''order not found at broker past 5m''
            (po_Alert p ''follower order not found at broker''
               (order_details fo @ [(''broker_order_id'', JStr (fo_BrokerOrderID fo))]) s1)
      | (Inr (h # hs), s1) \<Rightarrow>
          let latest = last (h # hs) in
          if IsTerminal (bo_Status latest) then settle_terminal p fo latest s1
          else give_up p fo (''order remains non-terminal past 5m: '' @ bo_Status latest)
            (po_Alert p ''follower order remains non-terminal past timeout''
               (order_details fo @ [(''broker_order_id'', JStr (fo_BrokerOrderID fo)),
                  (''status'', JStr (bo_Status latest))]) s1))"

section \<open>One pass\<close>

definition sweep_stale :: "'s Poller \<Rightarrow> gotime \<Rightarrow> 's \<Rightarrow> 's" where
  "sweep_stale p now s = (case rs_SweepPendingOrderUpdates (po_store p) (now - 24 * Hour) s of
      (Inl err, s1) \<Rightarrow> s1
    | (Inr swept, s1) \<Rightarrow> if swept = [] then s1
        else po_Alert p ''stale unmatched pending order updates swept''
          [(''count'', JNum (of_nat (length swept))), (''order_ids'', JArr (map JStr swept))] s1)"

definition RunOnce :: "'s Poller \<Rightarrow> 's \<Rightarrow> unit result \<times> 's" where
  "RunOnce p s = (case rs_Accounts (po_store p) None s of
      (Inl err, s1) \<Rightarrow> (Inl (errorf ''recon: list accounts'' err), s1)
    | (Inr accs, s1) \<Rightarrow>
        let masters = filter (\<lambda>a. acc_Active a \<and> acc_Role a = ''master'') accs;
            followers = filter (\<lambda>a. acc_Active a \<and> acc_Role a = ''follower'') accs;
            now = po_Now p s1;
            s2 = fold (\<lambda>m s. snd (ReconcileMaster p (acc_ID m) s)) masters s1;
            s3 = fold (\<lambda>f s. snd (ReconcileFollower p (acc_ID f) s)) followers s2
        in case rs_PendingFollowerOrders (po_store p) (now - rc_PendingThreshold (po_cfg p)) s3 of
             (Inl err, s4) \<Rightarrow> (Inl (errorf ''recon: fetch pending follower orders'' err), s4)
           | (Inr pending, s4) \<Rightarrow> (Inr (), sweep_stale p now (fold (settle_one p) pending s4)))"

section \<open>The poller of the server\<close>

text \<open>
  The wiring in \<open>cmd/server/main.go\<close>: the server's store, its two consumers, and the log as the
  alerter. The readers of the brokers' order books are arguments; the clock is the database's.
\<close>

definition server_status_store :: "server FollowerStatusStore" where
  "server_status_store = \<lparr> fs_UpdateFollowerOrderStatus = (\<lambda>b st q p. with_db (UpdateFollowerOrderStatus b st q p)),
     fs_UpdateFollowerOrderByTag = (\<lambda>f t b st q p. with_db (UpdateFollowerOrderByTag f t b st q p)),
     fs_InsertDirectFollowerOrder = (\<lambda>upd. with_db (InsertDirectFollowerOrder upd)),
     fs_StashPendingOrderUpdate = (\<lambda>b st q p raw. with_db (StashPendingOrderUpdate b st q p raw)),
     fs_GetFollowerOrder = (\<lambda>i. with_db (GetFollowerOrder i)), fs_AppendOrderEvent = (\<lambda>ev. with_db (AppendOrderEvent ev)) \<rparr>"

definition server_syncer :: "uuid \<Rightarrow> server \<Rightarrow> server" where
  "server_syncer a sv = sv\<lparr> sv_syncs := sv_syncs sv @ [a] \<rparr>"

definition server_recon_store :: "row_order \<Rightarrow> server ReconStore" where
  "server_recon_store order_by = \<lparr> rs_Accounts = (\<lambda>ids. with_db (Accounts order_by None ids)),
     rs_PendingFollowerOrders = (\<lambda>t. with_db (PendingFollowerOrders t)),
     rs_UpdateFollowerOrderStatus = (\<lambda>b st q p. with_db (UpdateFollowerOrderStatus b st q p)),
     rs_AppendOrderEvent = (\<lambda>ev. with_db (AppendOrderEvent ev)),
     rs_SweepPendingOrderUpdates = (\<lambda>t. with_db (SweepPendingOrderUpdates t)),
     rs_MasterFillExists = (\<lambda>m b q st. with_db (MasterFillExists m b q st)),
     rs_FollowerOrderTerminalExists = (\<lambda>f b. with_db (FollowerOrderTerminalExists f b)),
     rs_UpdateFollowerOrderFailed = (\<lambda>i st msg. with_db (UpdateFollowerOrderFailed i st msg)) \<rparr>"

record order_readers =
  rd_master :: "uuid \<Rightarrow> server \<Rightarrow> Order list result"
  rd_history :: "uuid \<Rightarrow> string \<Rightarrow> server \<Rightarrow> Order list result"
  rd_follower :: "uuid \<Rightarrow> server \<Rightarrow> Order list result"

definition server_poller ::
  "decimal_pkg \<Rightarrow> (string \<Rightarrow> string \<Rightarrow> int result) option \<Rightarrow> row_order \<Rightarrow> order_readers \<Rightarrow> ReconConfig \<Rightarrow> server Poller" where
  "server_poller P resolver order_by rd cfg = \<lparr> po_store = server_recon_store order_by,
     po_GetMasterOrders = (\<lambda>m sv. (rd_master rd m sv, sv)),
     po_GetFollowerOrderHistory = (\<lambda>f b sv. (rd_history rd f b sv, sv)),
     po_GetFollowerOrders = (\<lambda>f sv. (rd_follower rd f sv, sv)),
     po_masterConsumer = MasterFillConsumer_Handle (server_consumer P resolver),
     po_FollowerConsumer = Some (FollowerStatusConsumer_Handle server_status_store (Some server_syncer)),
     po_Alert = (\<lambda>msg details sv. sv), po_Now = (\<lambda>sv. db_now (sv_db sv)), po_cfg = poller_config cfg \<rparr>"

section \<open>A pass is a history of the server\<close>

abbreviation server_run :: "decimal_pkg \<Rightarrow> server \<Rightarrow> server \<Rightarrow> bool" where
  "server_run P \<equiv> (server_step P)\<^sup>*\<^sup>*"

named_theorems server_runs \<open>calls that are histories of the server\<close>

lemma store_call_run [server_runs]:
  assumes "store_step (sv_db sv) (snd (f (sv_db sv)))"
  shows "server_run P sv (snd (with_db f sv))"
proof -
  have "snd (with_db f sv) = sv\<lparr> sv_db := snd (f (sv_db sv)) \<rparr>" by (simp add: with_db_def case_prod_beta)
  then show ?thesis using v_store[OF assms, of P] by auto
qed

lemma query_run:
  "(\<And>d. \<exists>r. body d = (r, d)) \<Longrightarrow> server_run P sv (snd (with_db (db_call body) sv))"
proof (rule store_call_run)
  assume "\<And>d. \<exists>r. body d = (r, d)"
  then have "\<exists>fs. snd (db_call body (sv_db sv)) = (sv_db sv)\<lparr> faults := fs \<rparr>"
    unfolding db_call_def
    by (auto split: list.split option.split) (metis db.surjective db.update_convs(14) snd_conv)+
  then show "store_step (sv_db sv) (snd (db_call body (sv_db sv)))" using step_fault by metis
qed

lemma query_runs [server_runs]:
  "server_run P sv (snd (with_db (Accounts order_by u ids) sv))"
  "server_run P sv (snd (with_db (PendingFollowerOrders t) sv))"
  "server_run P sv (snd (with_db (MasterFillExists m b q st) sv))"
  "server_run P sv (snd (with_db (FollowerOrderTerminalExists f b) sv))"
  "server_run P sv (snd (with_db (GetFollowerOrder i) sv))"
  unfolding Accounts_def PendingFollowerOrders_def MasterFillExists_def FollowerOrderTerminalExists_def GetFollowerOrder_def
  by (rule query_run; auto split: option.split)+

lemma store_runs [server_runs]:
  "server_run P sv (snd (with_db (UpdateFollowerOrderStatus b st q p) sv))"
  "server_run P sv (snd (with_db (UpdateFollowerOrderByTag f t b st q p) sv))"
  "server_run P sv (snd (with_db (InsertDirectFollowerOrder upd) sv))"
  "server_run P sv (snd (with_db (StashPendingOrderUpdate b st q p raw) sv))"
  "server_run P sv (snd (with_db (AppendOrderEvent ev) sv))"
  "server_run P sv (snd (with_db (UpdateFollowerOrderFailed i st msg) sv))"
  "server_run P sv (snd (with_db (SweepPendingOrderUpdates c) sv))"
  by (rule store_call_run, rule store_step.intros)+

text \<open>The result of a call, its state reached by a history.\<close>

lemma run_call: "server_run P sv (snd x) \<Longrightarrow> x = (r, sv') \<Longrightarrow> server_run P sv sv'"
  by simp

lemma locate_run: "server_run P sv (snd (locate_order server_status_store upd sv))"
proof -
  note R = rtranclp_trans[of "server_step P"]
  obtain r1 s1 where 1: "with_db (UpdateFollowerOrderStatus (ou_BrokerOrderID upd) (ou_Status upd) (ou_FilledQuantity upd)
      (ou_AveragePrice upd)) sv = (r1, s1)" by (rule prod.exhaust)
  have r1: "server_run P sv s1" by (rule run_call[OF store_runs(1) 1])
  obtain r2 s2 where 2: "(if ou_Tag upd \<noteq> [] then with_db (UpdateFollowerOrderByTag (ou_FollowerID upd) (ou_Tag upd)
      (ou_BrokerOrderID upd) (ou_Status upd) (ou_FilledQuantity upd) (ou_AveragePrice upd)) s1 else (r1, s1)) = (r2, s2)"
    by (rule prod.exhaust)
  have r2: "server_run P s1 s2" using 2 run_call[OF store_runs(2)] by (auto split: if_splits)
  obtain r3 s3 where 3: "with_db (InsertDirectFollowerOrder upd) s2 = (r3, s3)" by (rule prod.exhaust)
  have r3: "server_run P s2 s3" by (rule run_call[OF store_runs(3) 3])
  let ?s4 = "snd (with_db (StashPendingOrderUpdate (ou_BrokerOrderID upd) (ou_Status upd) (ou_FilledQuantity upd)
      (ou_AveragePrice upd) (ou_RawPayload upd)) s3)"
  have r4: "server_run P s3 ?s4" by (rule store_runs(4))
  have "snd (locate_order server_status_store upd sv) \<in> {s1, s2, s3, ?s4}"
    using 1 2 3 by (cases "ou_Tag upd = []"; cases r3) (auto simp: locate_order_def server_status_store_def)
  then show ?thesis using R[OF r1 r2] R[OF R[OF r1 r2] r3] R[OF R[OF R[OF r1 r2] r3] r4] r1 by auto
qed

lemma status_store_simps:
  "fs_GetFollowerOrder server_status_store = (\<lambda>i. with_db (GetFollowerOrder i))"
  "fs_AppendOrderEvent server_status_store = (\<lambda>ev. with_db (AppendOrderEvent ev))"
  by (simp_all add: server_status_store_def)

lemma sync_run [server_runs]: "server_run P sv (server_syncer a sv)"
  unfolding server_syncer_def by (rule r_into_rtranclp, rule v_sync)

lemma follower_consumer_run [server_runs]:
  "server_run P sv (snd (FollowerStatusConsumer_Handle server_status_store (Some server_syncer) upd sv))"
proof -
  note R = rtranclp_trans[of "server_step P"]
  obtain l s1 where l: "locate_order server_status_store upd sv = (l, s1)" by (rule prod.exhaust)
  have r1: "server_run P sv s1" by (rule run_call[OF locate_run l])
  show ?thesis
  proof (cases "\<exists>i. l = Some (Inr i)")
    case True
    then obtain i where i: "l = Some (Inr i)" by blast
    obtain g s2 where g: "with_db (GetFollowerOrder i) s1 = (g, s2)" by (rule prod.exhaust)
    have r2: "server_run P sv s2" by (rule R[OF r1 run_call[OF query_runs(5) g]])
    have r3: "server_run P sv (snd (with_db (AppendOrderEvent ev) (server_syncer a s2)))" for ev a
      by (rule R[OF R[OF r2 sync_run] store_runs(5)])
    have r4: "server_run P sv (snd (with_db (AppendOrderEvent ev) s2))" for ev
      by (rule R[OF r2 store_runs(5)])
    show ?thesis
      using l i g r2 r3 r4
      by (cases g) (auto simp: FollowerStatusConsumer_Handle_def Let_def start_sync_def status_store_simps)
  next
    case False
    then have "snd (FollowerStatusConsumer_Handle server_status_store (Some server_syncer) upd sv) = s1"
      using l by (cases l) (auto simp: FollowerStatusConsumer_Handle_def split: sum.split)
    then show ?thesis using r1 by simp
  qed
qed

lemma master_consumer_run [server_runs]:
  "server_run P sv (snd (MasterFillConsumer_Handle (server_consumer P resolver) fill sv))"
  by (rule r_into_rtranclp, rule v_fill)

text \<open>The fields of the server's poller.\<close>

lemma poller_simps:
  fixes P resolver order_by rd cfg
  defines "p \<equiv> server_poller P resolver order_by rd cfg"
  shows "po_store p = server_recon_store order_by" "po_GetMasterOrders p m sv = (rd_master rd m sv, sv)"
    "po_GetFollowerOrderHistory p f b sv = (rd_history rd f b sv, sv)"
    "po_GetFollowerOrders p f sv = (rd_follower rd f sv, sv)"
    "po_masterConsumer p = MasterFillConsumer_Handle (server_consumer P resolver)"
    "po_FollowerConsumer p = Some (FollowerStatusConsumer_Handle server_status_store (Some server_syncer))"
    "po_Alert p msg details = (\<lambda>sv. sv)" "po_Now p sv = db_now (sv_db sv)" "po_cfg p = poller_config cfg"
  by (simp_all add: p_def server_poller_def)

lemma recon_store_simps:
  "rs_Accounts (server_recon_store order_by) = (\<lambda>ids. with_db (Accounts order_by None ids))"
  "rs_PendingFollowerOrders (server_recon_store order_by) = (\<lambda>t. with_db (PendingFollowerOrders t))"
  "rs_UpdateFollowerOrderStatus (server_recon_store order_by) = (\<lambda>b st q p. with_db (UpdateFollowerOrderStatus b st q p))"
  "rs_AppendOrderEvent (server_recon_store order_by) = (\<lambda>ev. with_db (AppendOrderEvent ev))"
  "rs_SweepPendingOrderUpdates (server_recon_store order_by) = (\<lambda>t. with_db (SweepPendingOrderUpdates t))"
  "rs_MasterFillExists (server_recon_store order_by) = (\<lambda>m b q st. with_db (MasterFillExists m b q st))"
  "rs_FollowerOrderTerminalExists (server_recon_store order_by) = (\<lambda>f b. with_db (FollowerOrderTerminalExists f b))"
  "rs_UpdateFollowerOrderFailed (server_recon_store order_by) = (\<lambda>i st msg. with_db (UpdateFollowerOrderFailed i st msg))"
  by (simp_all add: server_recon_store_def)

lemma fold_run: "(\<And>x s. server_run P s (f x s)) \<Longrightarrow> server_run P s (fold f xs s)"
proof (induction xs arbitrary: s)
  case (Cons x xs)
  then show ?case using rtranclp_trans[of "server_step P"] by (metis fold_simps(2))
qed simp

lemma backfill_run:
  assumes "\<And>o1 s. server_run P s (snd (known o1 s))" "\<And>o1 s. server_run P s (snd (handle o1 s))"
  shows "server_run P s (backfill w known handle (\<lambda>o1 err s. s) os s)"
  unfolding backfill_def
proof (rule fold_run)
  fix o1 s
  obtain k s1 where k: "known o1 s = (k, s1)" by (rule prod.exhaust)
  obtain h s2 where h: "handle o1 s1 = (h, s2)" by (rule prod.exhaust)
  have "server_run P s s1" "server_run P s1 s2"
    using run_call[OF assms(1) k] run_call[OF assms(2) h] by simp_all
  moreover have "backfill_one known handle (\<lambda>o1 err s. s) o1 s \<in> {s1, s2}"
    using k h by (auto simp: backfill_one_def split: sum.split bool.split)
  ultimately show "server_run P s (backfill_one known handle (\<lambda>o1 err s. s) o1 s)" by auto
qed

lemma reconcile_runs [server_runs]:
  "server_run P s (snd (ReconcileMaster (server_poller P resolver order_by rd cfg) m s))"
  "server_run P s (snd (ReconcileFollower (server_poller P resolver order_by rd cfg) f s))"
  by (auto simp: ReconcileMaster_def ReconcileFollower_def poller_simps recon_store_simps Let_def
      intro!: backfill_run server_runs split: sum.split)

lemma settle_run [server_runs]:
  "server_run P s (settle_one (server_poller P resolver order_by rd cfg) fo s)"
proof -
  let ?p = "server_poller P resolver order_by rd cfg"
  have give: "server_run P s (give_up ?p fo msg s)" for msg s
    by (simp add: give_up_def poller_simps recon_store_simps server_runs)
  have fin: "server_run P s (settle_terminal ?p fo latest s)" for latest s
  proof -
    obtain u s1 where u: "with_db (UpdateFollowerOrderStatus (fo_BrokerOrderID fo) (bo_Status latest)
        (bo_FilledQuantity latest) (bo_AveragePrice latest)) s = (u, s1)" by (rule prod.exhaust)
    have r1: "server_run P s s1" by (rule run_call[OF store_runs(1) u])
    moreover have "server_run P s (snd (with_db (AppendOrderEvent ev) s1))" for ev
      by (rule rtranclp_trans[OF r1 store_runs(5)])
    ultimately show ?thesis
      using u by (cases u) (auto simp: settle_terminal_def poller_simps recon_store_simps Let_def)
  qed
  show ?thesis
    using give fin
    by (auto simp: settle_one_def poller_simps Let_def split: sum.split list.split)
qed

lemma sweep_run [server_runs]: "server_run P s (sweep_stale (server_poller P resolver order_by rd cfg) now s)"
proof -
  obtain r s1 where r: "with_db (SweepPendingOrderUpdates (now - 24 * Hour)) s = (r, s1)" by (rule prod.exhaust)
  have "server_run P s s1" by (rule run_call[OF store_runs(7) r])
  then show ?thesis using r by (cases r) (auto simp: sweep_stale_def poller_simps recon_store_simps)
qed

lemma RunOnce_run: "server_run P s (snd (RunOnce (server_poller P resolver order_by rd cfg) s))"
proof -
  let ?p = "server_poller P resolver order_by rd cfg"
  note R = rtranclp_trans[of "server_step P"]
  obtain a s1 where a: "with_db (Accounts order_by None None) s = (a, s1)" by (rule prod.exhaust)
  have r1: "server_run P s s1" by (rule run_call[OF query_runs(1) a])
  show ?thesis
  proof (cases a)
    case (Inl e)
    then show ?thesis using a r1 by (simp add: RunOnce_def poller_simps recon_store_simps)
  next
    case (Inr accs)
    define s3 where "s3 = fold (\<lambda>f s. snd (ReconcileFollower ?p (acc_ID f) s))
        (filter (\<lambda>a. acc_Active a \<and> acc_Role a = ''follower'') accs)
        (fold (\<lambda>m s. snd (ReconcileMaster ?p (acc_ID m) s)) (filter (\<lambda>a. acc_Active a \<and> acc_Role a = ''master'') accs) s1)"
    have r3: "server_run P s s3"
      unfolding s3_def by (rule R[OF r1 R[OF fold_run fold_run]]; rule reconcile_runs)
    obtain q s4 where q: "with_db (PendingFollowerOrders (db_now (sv_db s1) - rc_PendingThreshold (poller_config cfg))) s3 = (q, s4)"
      by (rule prod.exhaust)
    have r4: "server_run P s s4" by (rule R[OF r3 run_call[OF query_runs(2) q]])
    have "server_run P s4 (sweep_stale ?p now (fold (settle_one ?p) os s4))" for os now
      by (rule R[OF fold_run[OF settle_run] sweep_run])
    then show ?thesis
      using a Inr q r4 R[OF r4] by (cases q) (auto simp: RunOnce_def poller_simps recon_store_simps Let_def s3_def[symmetric])
  qed
qed

section \<open>Old orders are settled\<close>

text \<open>What settling keeps of an order: its identity, and a terminal status once it has one.\<close>

definition row_same :: "fo_row \<Rightarrow> fo_row \<Rightarrow> bool" where
  "row_same r r' \<longleftrightarrow> fr_id r' = fr_id r \<and> fr_broker_order_id r' = fr_broker_order_id r
     \<and> fr_created_at r' = fr_created_at r \<and> fr_intended_qty r' = fr_intended_qty r
     \<and> (fr_terminal_status r \<noteq> None \<longrightarrow> fr_terminal_status r' \<noteq> None)"

definition settles :: "fo_row set \<Rightarrow> db \<Rightarrow> db \<Rightarrow> bool" where
  "settles A d d' \<longleftrightarrow> faults d' = [] \<and> db_now d' = db_now d
     \<and> (\<forall>r' \<in> set (follower_orders d'). \<exists>r \<in> set (follower_orders d). row_same r r'
          \<and> (r \<in> A \<longrightarrow> fr_terminal_status r' \<noteq> None))"

lemma row_same_refl [simp]: "row_same r r"
  by (simp add: row_same_def)

lemma settles_refl: "faults d = [] \<Longrightarrow> settles {} d d"
  by (auto simp: settles_def intro: row_same_refl)

lemma settles_mono: "settles B d d' \<Longrightarrow> A \<inter> set (follower_orders d) \<subseteq> B \<Longrightarrow> settles A d d'"
  by (fastforce simp: settles_def)

lemma settles_Failed:
  assumes "faults d = []"
  shows "settles {r. fr_id r = i} d (snd (UpdateFollowerOrderFailed i st m d))"
  using assms by (auto simp: settles_def UpdateFollowerOrderFailed_def db_call_def update_where_def row_same_def)

lemma settles_Status:
  assumes "faults d = []"
  shows "settles {r. fr_broker_order_id r = Some b} d (snd (UpdateFollowerOrderStatus b st q p d))"
  using assms
  by (auto simp: settles_def UpdateFollowerOrderStatus_def db_call_def update_where_def row_same_def find_None_iff
      split: option.split)

lemma settles_frame:
  assumes "settles A d d'" "faults d'' = []" "db_now d'' = db_now d'" "follower_orders d'' = follower_orders d'"
  shows "settles A d d''"
  using assms by (simp add: settles_def)

lemma AppendOrderEvent_more:
  "faults d = [] \<Longrightarrow> faults (snd (AppendOrderEvent ev d)) = [] \<and> db_now (snd (AppendOrderEvent ev d)) = db_now d
     \<and> follower_orders (snd (AppendOrderEvent ev d)) = follower_orders d"
  by (simp add: AppendOrderEvent_def db_call_def add_event_def)

lemma settles_trans:
  assumes "settles A d d1" "settles B d1 d2"
    "\<And>r r'. r \<in> set (follower_orders d) \<Longrightarrow> row_same r r' \<Longrightarrow> r \<in> C \<Longrightarrow> r \<in> A \<or> r' \<in> B"
  shows "settles C d d2"
  unfolding settles_def
proof (intro conjI ballI)
  fix r2 assume "r2 \<in> set (follower_orders d2)"
  then obtain r1 where r1: "r1 \<in> set (follower_orders d1)" "row_same r1 r2" "r1 \<in> B \<longrightarrow> fr_terminal_status r2 \<noteq> None"
    using assms(2) by (auto simp: settles_def)
  then obtain r where r: "r \<in> set (follower_orders d)" "row_same r r1" "r \<in> A \<longrightarrow> fr_terminal_status r1 \<noteq> None"
    using assms(1) by (auto simp: settles_def)
  have "row_same r r2" using r(2) r1(2) by (auto simp: row_same_def)
  moreover have "r \<in> C \<longrightarrow> fr_terminal_status r2 \<noteq> None"
    using assms(3)[OF r(1,2)] r(3) r1(2,3) by (auto simp: row_same_def)
  ultimately show "\<exists>r \<in> set (follower_orders d). row_same r r2 \<and> (r \<in> C \<longrightarrow> fr_terminal_status r2 \<noteq> None)"
    using r(1) by blast
qed (use assms(1,2) in \<open>simp_all add: settles_def\<close>)

text \<open>Settling one order; the row it stands for is settled when it is more than five minutes old.\<close>

definition stands_for :: "FollowerOrder \<Rightarrow> fo_row \<Rightarrow> bool" where
  "stands_for fo r \<longleftrightarrow> fr_id r = fo_ID fo \<and> fr_created_at r = fo_CreatedAt fo
     \<and> fo_BrokerOrderID fo = (case fr_broker_order_id r of None \<Rightarrow> [] | Some b \<Rightarrow> b)"

definition old_row :: "gotime \<Rightarrow> fo_row \<Rightarrow> bool" where
  "old_row now r \<longleftrightarrow> 5 * Minute < now - fr_created_at r"

lemma settle_one_settles:
  assumes "faults (sv_db sv) = []"
  shows "settles {r. stands_for fo r \<and> old_row (db_now (sv_db sv)) r}
     (sv_db sv) (sv_db (settle_one (server_poller P resolver order_by rd cfg) fo sv))"
proof -
  let ?p = "server_poller P resolver order_by rd cfg"
  let ?A = "{r. stands_for fo r \<and> old_row (db_now (sv_db sv)) r}"
  have give: "settles ?A (sv_db sv) (sv_db (give_up ?p fo msg sv))" for msg
  proof (cases "5 * Minute < db_now (sv_db sv) - fo_CreatedAt fo")
    case True
    then have "settles {r. fr_id r = fo_ID fo} (sv_db sv) (sv_db (give_up ?p fo msg sv))"
      using settles_Failed[OF assms(1)] by (simp add: give_up_def poller_simps recon_store_simps with_db_def case_prod_beta)
    then show ?thesis by (rule settles_mono) (auto simp: stands_for_def)
  next
    case False
    then have "sv_db (give_up ?p fo msg sv) = sv_db sv" by (simp add: give_up_def poller_simps)
    then have "settles {} (sv_db sv) (sv_db (give_up ?p fo msg sv))" using settles_refl[OF assms] by simp
    then show ?thesis using False by (rule_tac settles_mono) (auto simp: stands_for_def old_row_def)
  qed
  have fin: "settles ?A (sv_db sv) (sv_db (settle_terminal ?p fo latest sv))" if b: "fo_BrokerOrderID fo \<noteq> []" for latest
  proof (rule settles_mono)
    let ?u = "UpdateFollowerOrderStatus (fo_BrokerOrderID fo) (bo_Status latest) (bo_FilledQuantity latest)
        (bo_AveragePrice latest) (sv_db sv)"
    have u: "settles {r. fr_broker_order_id r = Some (fo_BrokerOrderID fo)} (sv_db sv) (snd ?u)"
      by (rule settles_Status[OF assms(1)])
    then have f: "faults (snd ?u) = []" by (simp add: settles_def)
    note e = AppendOrderEvent_more[OF f]
    show "settles {r. fr_broker_order_id r = Some (fo_BrokerOrderID fo)} (sv_db sv) (sv_db (settle_terminal ?p fo latest sv))"
      using u settles_frame[OF u] e
      by (cases ?u; cases "fst ?u")
         (simp_all add: settle_terminal_def poller_simps recon_store_simps with_db_def case_prod_beta Let_def)
    show "?A \<inter> set (follower_orders (sv_db sv)) \<subseteq> {r. fr_broker_order_id r = Some (fo_BrokerOrderID fo)}"
      using b by (auto simp: stands_for_def split: option.splits)
  qed
  show ?thesis
    using give fin by (auto simp: settle_one_def poller_simps Let_def split: sum.split list.split)
qed

lemma settle_fold:
  assumes "faults (sv_db sv) = []"
    and "\<And>fo r. fo \<in> set fos \<Longrightarrow> r \<in> set (follower_orders (sv_db sv)) \<Longrightarrow> fr_id r = fo_ID fo \<Longrightarrow> stands_for fo r"
  shows "settles {r. old_row (db_now (sv_db sv)) r \<and> fr_id r \<in> fo_ID ` set fos} (sv_db sv)
     (sv_db (fold (settle_one (server_poller P resolver order_by rd cfg)) fos sv))"
  using assms
proof (induction fos arbitrary: sv)
  case Nil
  then have "settles {} (sv_db sv) (sv_db sv)" by (intro settles_refl) simp
  then show ?case by simp
next
  case (Cons fo fos)
  let ?sv1 = "settle_one (server_poller P resolver order_by rd cfg) fo sv"
  note one = settle_one_settles[OF Cons.prems(1), of fo P resolver order_by rd cfg]
  have f: "faults (sv_db ?sv1) = []" "db_now (sv_db ?sv1) = db_now (sv_db sv)" using one unfolding settles_def by blast+
  have st: "stands_for fo' r'" if fo': "fo' \<in> set fos" and r': "r' \<in> set (follower_orders (sv_db ?sv1))" "fr_id r' = fo_ID fo'" for fo' r'
  proof -
    obtain r where r: "r \<in> set (follower_orders (sv_db sv))" "row_same r r'" using one r'(1) unfolding settles_def by blast
    have "fr_id r = fo_ID fo'" using r(2) r'(2) unfolding row_same_def by simp
    with Cons.prems(2)[OF _ r(1)] fo' have "stands_for fo' r" by simp
    then show ?thesis using r(2) by (simp add: stands_for_def row_same_def)
  qed
  note IH = Cons.IH[OF f(1) st, unfolded f(2)]
  show ?case
    unfolding fold_simps
  proof (rule settles_trans[OF one IH])
    fix r r' assume r: "r \<in> set (follower_orders (sv_db sv))" "row_same r r'"
      "r \<in> {r. old_row (db_now (sv_db sv)) r \<and> fr_id r \<in> fo_ID ` set (fo # fos)}"
    show "r \<in> {r. stands_for fo r \<and> old_row (db_now (sv_db sv)) r} \<or>
        r' \<in> {r. old_row (db_now (sv_db sv)) r \<and> fr_id r \<in> fo_ID ` set fos}"
    proof (cases "fr_id r = fo_ID fo")
      case True
      then show ?thesis using Cons.prems(2)[of fo r] r by simp
    next
      case False
      then show ?thesis using r by (auto simp: row_same_def old_row_def)
    qed
  qed
qed

text \<open>
  C14 No order is stuck for ever: once the poller has gone through the pending orders, with the
  database answering, every follower order with a quantity that was created more than five
  minutes ago has a terminal status, whatever the brokers answer; the threshold must not
  exceed those five minutes, as in the default configuration.
\<close>
theorem old_orders_settled:
  assumes "distinct (map fr_id (follower_orders (sv_db sv)))" and "faults (sv_db sv) = []"
    and "rc_PendingThreshold (poller_config cfg) \<le> 5 * Minute"
    and "fst (PendingFollowerOrders (db_now (sv_db sv) - rc_PendingThreshold (poller_config cfg)) (sv_db sv)) = Inr pending"
    and "r \<in> set (follower_orders (sv_db (fold (settle_one (server_poller P resolver order_by rd cfg)) pending sv)))"
    and "0 < fr_intended_qty r" and "fr_created_at r < db_now (sv_db sv) - 5 * Minute"
  shows "fr_terminal_status r \<noteq> None"
proof -
  let ?rows = "follower_orders (sv_db sv)"
  have pending: "pending = map toFollowerOrder (sort_key fr_id (filter (\<lambda>r. fr_terminal_status r = None \<and> 0 < fr_intended_qty r
      \<and> fr_created_at r < db_now (sv_db sv) - rc_PendingThreshold (poller_config cfg)) ?rows))"
    using assms(2,4) by (simp add: PendingFollowerOrders_def db_call_def)
  have "stands_for fo r" if fo: "fo \<in> set pending" "r \<in> set ?rows" "fr_id r = fo_ID fo" for fo r
  proof -
    obtain r0 where r0: "r0 \<in> set ?rows" "fo = toFollowerOrder r0" using fo(1) unfolding pending by auto
    then have "r = r0" using fo(2,3) assms(1) by (auto simp: toFollowerOrder_def distinct_map dest: inj_onD)
    then show ?thesis using r0(2) by (simp add: stands_for_def toFollowerOrder_def)
  qed
  note fold = settle_fold[OF assms(2) this, of pending P resolver order_by rd cfg]
  obtain r0 where r0: "r0 \<in> set ?rows" "row_same r0 r"
      "old_row (db_now (sv_db sv)) r0 \<and> fr_id r0 \<in> fo_ID ` set pending \<longrightarrow> fr_terminal_status r \<noteq> None"
    using fold assms(5) unfolding settles_def by blast
  have old: "old_row (db_now (sv_db sv)) r0" "0 < fr_intended_qty r0" using r0(2) assms(6,7) by (auto simp: row_same_def old_row_def)
  have "fr_id r0 \<in> fo_ID ` set pending" if "fr_terminal_status r0 = None"
    using that old r0(1) assms(3) by (auto simp: pending old_row_def image_image toFollowerOrder_def intro!: image_eqI[of _ _ r0])
  then show ?thesis using r0(2,3) old(1) by (auto simp: row_same_def)
qed

text \<open>
  C15 The backstop never copies twice: one reconciliation pass over a reachable server, whatever the
  brokers' order books say and whatever fails in it, is itself a history of the server, so the
  fills it backfills are copied at most once to each follower.
\<close>
theorem RunOnce_copies_once:
  assumes "(server_step P)\<^sup>*\<^sup>* (new_server instrs p) sv"
  shows "(server_step P)\<^sup>*\<^sup>* sv (snd (RunOnce (server_poller P resolver order_by rd cfg) sv))
    \<and> distinct (map (\<lambda>j. (job_MasterFillID j, job_FollowerID j))
        (jobs_of (sv_outs (snd (RunOnce (server_poller P resolver order_by rd cfg) sv)))))"
  using RunOnce_run[of P sv resolver order_by rd cfg] server_run_ok[OF rtranclp_trans[OF assms RunOnce_run] new_server_ok]
  by (simp add: copied_once_def)

section \<open>Witnesses\<close>

definition ex_readers :: order_readers where
  "ex_readers = \<lparr> rd_master = (\<lambda>m sv. Inr []), rd_history = (\<lambda>f b sv. Inr []), rd_follower = (\<lambda>f sv. Inr []) \<rparr>"

theorem RunOnce_copies_once_witness:
  "distinct (map (\<lambda>j. (job_MasterFillID j, job_FollowerID j))
     (jobs_of (sv_outs (snd (RunOnce (server_poller dec16 None id ex_readers DefaultConfig) ex_served_server)))))"
  using RunOnce_copies_once[OF ex_served_run, of None id ex_readers DefaultConfig] by blast

definition ex_stuck :: server where
  "ex_stuck = ex_server\<lparr> sv_db := ex_db2\<lparr> db_now := 10 * Minute \<rparr> \<rparr>"

lemma ex_stuck_eq:
  "faults (sv_db ex_stuck) = []" "db_now (sv_db ex_stuck) = 10 * Minute"
  "follower_orders (sv_db ex_stuck) = follower_orders ex_db2"
  by (simp_all add: ex_stuck_def ex_db2_eq)

lemma ex_rows:
  "follower_orders ex_db2 = [order_row (Some 1) (ex_order ''f'' ''t1'') ex_db1,
     (order_row (Some 1) (ex_order ''g'' ''t2'') ex_db1)\<lparr> fr_id := 2 \<rparr>]"
  "fo_next ex_db1 = 1" "db_now ex_db1 = 1"
  by (simp_all add: ex_db2_eq ex_db1_eq(2))

lemma ex_settled:
  "follower_orders (sv_db (fold (settle_one (server_poller dec16 None id ex_readers DefaultConfig))
     (map toFollowerOrder (follower_orders ex_db2)) ex_stuck))
   = map (\<lambda>r. r\<lparr> fr_terminal_status := Some ''FAILED'', fr_last_error := Some ''order unplaced without broker_order_id past 5m'',
       fr_attempt_count := 1, fr_updated_at := 10 * Minute \<rparr>) (follower_orders ex_db2)"
  by (simp add: ex_rows settle_one_def toFollowerOrder_def poller_simps recon_store_simps give_up_def with_db_def
      UpdateFollowerOrderFailed_def db_call_def ex_stuck_eq ex_stuck_def ex_db2_eq order_row_def ex_order_def
      FollowerOrder_zero_def update_where_def durations)

theorem old_orders_settled_witness:
  "fr_terminal_status (hd (follower_orders (sv_db (fold (settle_one (server_poller dec16 None id ex_readers DefaultConfig))
     (map toFollowerOrder (follower_orders ex_db2)) ex_stuck)))) \<noteq> None"
proof (rule old_orders_settled[where sv = ex_stuck and P = dec16 and resolver = None and order_by = id and rd = ex_readers
    and cfg = DefaultConfig and pending = "map toFollowerOrder (follower_orders ex_db2)"])
  show "fst (PendingFollowerOrders (db_now (sv_db ex_stuck) - rc_PendingThreshold (poller_config DefaultConfig)) (sv_db ex_stuck))
      = Inr (map toFollowerOrder (follower_orders ex_db2))"
    by (simp add: PendingFollowerOrders_def db_call_def ex_stuck_eq ex_rows order_row_def ex_order_def FollowerOrder_zero_def
        poller_config_def DefaultConfig_def durations wrap32_id in32_def)
qed (simp_all only: ex_settled, simp_all add: ex_stuck_eq ex_rows order_row_def ex_order_def FollowerOrder_zero_def
     poller_config_def DefaultConfig_def durations wrap32_id in32_def)

end
