(* ===== verification/Archive.thy ===== *)
theory Archive
  imports Recon "HOL-Library.AList"
begin

text \<open>
  The archive (\<open>internal/archive\<close>): terminal orders, their fills and events are written to one
  Parquet file per table and trading day and then deleted from the database; a restore inserts
  them again. The files are association lists from days to rows; a day is counted from
  the year 1 in the trading time zone, as its \<open>YYYY-MM-DD\<close> names order like the days. A Parquet
  row has the columns of the table row with its times in microseconds; texts of numbers and
  JSON are kept as the values. The event columns that no statement of the store writes
  (\<open>from_status\<close>, \<open>to_status\<close>, \<open>http_status\<close>, \<open>latency_ms\<close>) are always \<open>NULL\<close> and left out.
  File operations take their failures from a script like the database's.
\<close>

section \<open>Times and rows\<close>

definition unix_epoch :: gotime where
  "unix_epoch = 62135596800 * Second"

text \<open>\<open>UnixNano\<close> is an \<open>int64\<close>; the division truncates towards zero.\<close>

definition TimeToMicros :: "gotime \<Rightarrow> int" where
  "TimeToMicros t = wrap64 (t - unix_epoch) sdiv 1000"

definition MicrosToTime :: "int \<Rightarrow> gotime" where
  "MicrosToTime micros = unix_epoch + (micros sdiv 1000000) * Second + (micros smod 1000000) * 1000"

type_synonym MasterFillParquet = mf_row
type_synonym FollowerOrderParquet = fo_row
type_synonym OrderEventParquet = ev_row

definition fill_parquet :: "mf_row \<Rightarrow> MasterFillParquet" where
  "fill_parquet r = r\<lparr> mr_filled_quantity := wrap32 (mr_filled_quantity r),
     mr_order_timestamp := TimeToMicros (mr_order_timestamp r), mr_received_at := TimeToMicros (mr_received_at r),
     mr_dispatched_at := map_option TimeToMicros (mr_dispatched_at r) \<rparr>"

definition order_parquet :: "fo_row \<Rightarrow> FollowerOrderParquet" where
  "order_parquet r = r\<lparr> fr_intended_qty := wrap32 (fr_intended_qty r), fr_lot_size := wrap32 (fr_lot_size r),
     fr_filled_qty := wrap32 (fr_filled_qty r), fr_attempt_count := wrap32 (fr_attempt_count r),
     fr_placed_qty := map_option wrap32 (fr_placed_qty r),
     fr_created_at := TimeToMicros (fr_created_at r), fr_updated_at := TimeToMicros (fr_updated_at r) \<rparr>"

definition event_parquet :: "ev_row \<Rightarrow> OrderEventParquet" where
  "event_parquet r = r\<lparr> er_occurred_at := TimeToMicros (er_occurred_at r) \<rparr>"

definition parquet_fill :: "MasterFillParquet \<Rightarrow> mf_row" where
  "parquet_fill r = r\<lparr> mr_order_timestamp := MicrosToTime (mr_order_timestamp r),
     mr_received_at := MicrosToTime (mr_received_at r), mr_dispatched_at := map_option MicrosToTime (mr_dispatched_at r) \<rparr>"

definition parquet_order :: "FollowerOrderParquet \<Rightarrow> fo_row" where
  "parquet_order r = r\<lparr> fr_created_at := MicrosToTime (fr_created_at r), fr_updated_at := MicrosToTime (fr_updated_at r) \<rparr>"

definition parquet_event :: "OrderEventParquet \<Rightarrow> ev_row" where
  "parquet_event r = r\<lparr> er_occurred_at := MicrosToTime (er_occurred_at r) \<rparr>"

section \<open>Files\<close>

type_synonym 'r partitions = "(int \<times> 'r list) list"

record archive_world =
  aw_db :: db
  aw_fills :: "MasterFillParquet partitions"
  aw_orders :: "FollowerOrderParquet partitions"
  aw_events :: "OrderEventParquet partitions"
  aw_io :: "go_error option list"

fun io_next :: "go_error option list \<Rightarrow> go_error option \<times> go_error option list" where
  "io_next [] = (None, [])"
| "io_next (e # es) = (e, es)"

definition partition_day :: "int \<Rightarrow> int" where
  "partition_day micros = ist_day (MicrosToTime micros)"

definition groupRowsByDate :: "('r \<Rightarrow> int) \<Rightarrow> 'r list \<Rightarrow> int \<Rightarrow> 'r list" where
  "groupRowsByDate timeMicros rows day = filter (\<lambda>r. partition_day (timeMicros r) = day) rows"

text \<open>Of two rows with one id, the later one wins; the result is sorted by id.\<close>

definition by_id :: "('r \<Rightarrow> int) \<Rightarrow> 'r list \<Rightarrow> (int \<rightharpoonup> 'r) \<Rightarrow> (int \<rightharpoonup> 'r)" where
  "by_id ident rows m = fold (\<lambda>r m. m(ident r \<mapsto> r)) rows m"

definition merge_rows :: "('r \<Rightarrow> int) \<Rightarrow> 'r list \<Rightarrow> 'r list \<Rightarrow> 'r list" where
  "merge_rows ident old new =
     (let existingMap = by_id ident new (by_id ident old Map.empty)
      in map (\<lambda>i. the (existingMap i)) (sort (remdups (map ident (old @ new)))))"

text \<open>The temporary file and the rename make the write atomic: a failure leaves the file alone.\<close>

definition writeParquetWithMerge ::
  "('r \<Rightarrow> int) \<Rightarrow> int \<Rightarrow> 'r list \<Rightarrow> 'r partitions \<Rightarrow> go_error option list
     \<Rightarrow> unit result \<times> 'r partitions \<times> go_error option list" where
  "writeParquetWithMerge ident day newRows fs io = (case io_next io of
      (Some e, io1) \<Rightarrow> (Inl e, fs, io1)
    | (None, io1) \<Rightarrow>
        (Inr (), AList.update day (case map_of fs day of None \<Rightarrow> newRows | Some old \<Rightarrow> merge_rows ident old newRows) fs, io1))"

fun write_days ::
  "string \<Rightarrow> ('r \<Rightarrow> int) \<Rightarrow> ('r \<Rightarrow> int) \<Rightarrow> 'r list \<Rightarrow> int list \<Rightarrow> 'r partitions \<Rightarrow> go_error option list
     \<Rightarrow> int list result \<times> 'r partitions \<times> go_error option list" where
  "write_days table timeMicros ident rows [] fs io = (Inr [], fs, io)"
| "write_days table timeMicros ident rows (day # days) fs io =
     (case writeParquetWithMerge ident day (groupRowsByDate timeMicros rows day) fs io of
        (Inl e, fs1, io1) \<Rightarrow> (Inl (errorf (''write '' @ table @ '' parquet'') e), fs1, io1)
      | (Inr u, fs1, io1) \<Rightarrow>
          (case write_days table timeMicros ident rows days fs1 io1 of
             (Inl e, fs2, io2) \<Rightarrow> (Inl e, fs2, io2)
           | (Inr ds, fs2, io2) \<Rightarrow> (Inr (day # ds), fs2, io2)))"

text \<open>\<open>days_order\<close> is the order in which Go ranges over the days.\<close>

definition writeTablePartitions ::
  "(int list \<Rightarrow> int list) \<Rightarrow> string \<Rightarrow> ('r \<Rightarrow> int) \<Rightarrow> ('r \<Rightarrow> int) \<Rightarrow> 'r list \<Rightarrow> 'r partitions
     \<Rightarrow> go_error option list \<Rightarrow> int list result \<times> 'r partitions \<times> go_error option list" where
  "writeTablePartitions days_order table timeMicros ident rows =
     write_days table timeMicros ident rows (days_order (remdups (map (partition_day \<circ> timeMicros) rows)))"

section \<open>Archiving\<close>

record ArchiveSummary =
  as_MasterFillsArchived :: int
  as_FollowerOrdersArchived :: int
  as_OrderEventsArchived :: int
  as_PartitionDates :: "int list"
  as_FilesWritten :: "(string \<times> int) list"

definition terminal_order :: "gotime \<Rightarrow> fo_row \<Rightarrow> bool" where
  "terminal_order cutoff r \<longleftrightarrow> fr_created_at r \<le> cutoff \<and> (fr_terminal_status r \<noteq> None \<or> fr_intended_qty r = 0)"

definition fetchTerminalFollowerOrders :: "gotime \<Rightarrow> db \<Rightarrow> FollowerOrderParquet list result \<times> db" where
  "fetchTerminalFollowerOrders cutoff = db_call (\<lambda>d.
     (Inr (map order_parquet (sort_key fr_id (filter (terminal_order cutoff) (follower_orders d)))), d))"

definition eligible_fill :: "gotime \<Rightarrow> int list \<Rightarrow> db \<Rightarrow> mf_row \<Rightarrow> bool" where
  "eligible_fill cutoff foIDs d r \<longleftrightarrow> mr_received_at r \<le> cutoff
     \<and> (mr_dispatch_state r \<in> {''dispatched'', ''dead''} \<or> mr_status r \<in> {''REJECTED'', ''CANCELLED''})
     \<and> \<not> list_ex (\<lambda>fo. fr_master_fill_id fo = Some (mr_id r) \<and> fr_id fo \<notin> set foIDs) (follower_orders d)"

definition fetchEligibleMasterFills :: "gotime \<Rightarrow> int list \<Rightarrow> db \<Rightarrow> MasterFillParquet list result \<times> db" where
  "fetchEligibleMasterFills cutoff foIDs = db_call (\<lambda>d.
     (Inr (map fill_parquet (sort_key mr_id (filter (eligible_fill cutoff foIDs d) (master_fills d)))), d))"

definition eligible_event :: "int list \<Rightarrow> int list \<Rightarrow> ev_row \<Rightarrow> bool" where
  "eligible_event foIDs mfIDs e \<longleftrightarrow> er_follower_order_id e \<in> Some ` set foIDs
     \<or> er_follower_order_id e = None \<and> er_master_fill_id e \<in> Some ` set mfIDs"

definition fetchEligibleOrderEvents :: "int list \<Rightarrow> int list \<Rightarrow> db \<Rightarrow> OrderEventParquet list result \<times> db" where
  "fetchEligibleOrderEvents foIDs mfIDs d =
     (if foIDs = [] \<and> mfIDs = [] then (Inr [], d)
      else db_call (\<lambda>d. (Inr (map event_parquet (sort_key er_id (filter (eligible_event foIDs mfIDs) (order_events d)))), d)) d)"

text \<open>The rows to archive, as read by the three queries.\<close>

definition archive_plan ::
  "gotime \<Rightarrow> db \<Rightarrow> (FollowerOrderParquet list \<times> MasterFillParquet list \<times> OrderEventParquet list) result \<times> db" where
  "archive_plan cutoff d = (case fetchTerminalFollowerOrders cutoff d of
      (Inl e, d1) \<Rightarrow> (Inl (errorf ''fetch follower orders'' e), d1)
    | (Inr fos, d1) \<Rightarrow>
        (case fetchEligibleMasterFills cutoff (map fr_id fos) d1 of
           (Inl e, d2) \<Rightarrow> (Inl (errorf ''fetch master fills'' e), d2)
         | (Inr mfs, d2) \<Rightarrow>
             (case fetchEligibleOrderEvents (map fr_id fos) (map mr_id mfs) d2 of
                (Inl e, d3) \<Rightarrow> (Inl (errorf ''fetch order events'' e), d3)
              | (Inr oes, d3) \<Rightarrow> (Inr (fos, mfs, oes), d3))))"

definition archive_write ::
  "(int list \<Rightarrow> int list) \<Rightarrow> FollowerOrderParquet list \<Rightarrow> MasterFillParquet list \<Rightarrow> OrderEventParquet list
     \<Rightarrow> archive_world \<Rightarrow> (string \<times> int) list result \<times> archive_world" where
  "archive_write days_order fos mfs oes w =
     (case writeTablePartitions days_order ''follower_orders'' fr_created_at fr_id fos (aw_orders w) (aw_io w) of
        (Inl e, fs, io) \<Rightarrow> (Inl e, w\<lparr> aw_orders := fs, aw_io := io \<rparr>)
      | (Inr d1, fs, io) \<Rightarrow>
          let w1 = w\<lparr> aw_orders := fs, aw_io := io \<rparr>
          in (case writeTablePartitions days_order ''master_fills'' mr_received_at mr_id mfs (aw_fills w1) (aw_io w1) of
                (Inl e, fs, io) \<Rightarrow> (Inl e, w1\<lparr> aw_fills := fs, aw_io := io \<rparr>)
              | (Inr d2, fs, io) \<Rightarrow>
                  let w2 = w1\<lparr> aw_fills := fs, aw_io := io \<rparr>
                  in (case writeTablePartitions days_order ''order_events'' er_occurred_at er_id oes (aw_events w2) (aw_io w2) of
                        (Inl e, fs, io) \<Rightarrow> (Inl e, w2\<lparr> aw_events := fs, aw_io := io \<rparr>)
                      | (Inr d3, fs, io) \<Rightarrow>
                          (Inr (map (Pair ''follower_orders'') d1 @ map (Pair ''master_fills'') d2 @ map (Pair ''order_events'') d3),
                           w2\<lparr> aw_events := fs, aw_io := io \<rparr>))))"

text \<open>
  The deletes in one transaction. A row that another row still refers to cannot be deleted; a
  transaction that fails for an outside reason is reported as its begin.
\<close>

definition delete_events :: "int list \<Rightarrow> db \<Rightarrow> int \<times> db" where
  "delete_events ids d = (int (length (filter (\<lambda>e. er_id e \<in> set ids) (order_events d))),
     d\<lparr> order_events := filter (\<lambda>e. er_id e \<notin> set ids) (order_events d) \<rparr>)"

definition delete_orders :: "int list \<Rightarrow> db \<Rightarrow> int result \<times> db" where
  "delete_orders ids d =
     (let gone = filter (\<lambda>r. fr_id r \<in> set ids) (follower_orders d)
      in if list_ex (\<lambda>e. er_follower_order_id e \<in> Some ` set (map fr_id gone)) (order_events d) then (Inl pg_foreign, d)
         else (Inr (int (length gone)), d\<lparr> follower_orders := filter (\<lambda>r. fr_id r \<notin> set ids) (follower_orders d) \<rparr>))"

definition delete_fills :: "int list \<Rightarrow> db \<Rightarrow> int result \<times> db" where
  "delete_fills ids d =
     (let gone = filter (\<lambda>r. mr_id r \<in> set ids) (master_fills d)
      in if list_ex (\<lambda>e. er_master_fill_id e \<in> Some ` set (map mr_id gone)) (order_events d)
            \<or> list_ex (\<lambda>r. fr_master_fill_id r \<in> Some ` set (map mr_id gone)) (follower_orders d) then (Inl pg_foreign, d)
         else (Inr (int (length gone)), d\<lparr> master_fills := filter (\<lambda>r. mr_id r \<notin> set ids) (master_fills d) \<rparr>))"

definition purge_rows :: "int list \<Rightarrow> int list \<Rightarrow> int list \<Rightarrow> db \<Rightarrow> (int \<times> int \<times> int) result \<times> db" where
  "purge_rows foIDs mfIDs oeIDs d = (case delete_events oeIDs d of
      (n3, d1) \<Rightarrow> (case delete_orders foIDs d1 of
          (Inl e, d2) \<Rightarrow> (Inl (errorf ''delete follower_orders'' e), d)
        | (Inr n1, d2) \<Rightarrow> (case delete_fills mfIDs d2 of
              (Inl e, d3) \<Rightarrow> (Inl (errorf ''delete master_fills'' e), d)
            | (Inr n2, d3) \<Rightarrow> (Inr (n1, n2, n3), d3))))"

definition archive_purge :: "int list \<Rightarrow> int list \<Rightarrow> int list \<Rightarrow> db \<Rightarrow> (int \<times> int \<times> int) result \<times> db" where
  "archive_purge foIDs mfIDs oeIDs d =
     (case db_call (\<lambda>d. case purge_rows foIDs mfIDs oeIDs d of (r, d') \<Rightarrow> (Inr r, d')) d of
        (Inl e, d') \<Rightarrow> (Inl (errorf ''begin transaction'' e), d')
      | (Inr r, d') \<Rightarrow> (r, d'))"

definition Archive :: "(int list \<Rightarrow> int list) \<Rightarrow> gotime \<Rightarrow> archive_world \<Rightarrow> ArchiveSummary result \<times> archive_world" where
  "Archive days_order cutoff w = (case archive_plan cutoff (aw_db w) of
      (Inl e, d1) \<Rightarrow> (Inl e, w\<lparr> aw_db := d1 \<rparr>)
    | (Inr (fos, mfs, oes), d1) \<Rightarrow>
        if fos = [] \<and> mfs = [] \<and> oes = [] then
          (Inr \<lparr> as_MasterFillsArchived = 0, as_FollowerOrdersArchived = 0, as_OrderEventsArchived = 0,
             as_PartitionDates = [], as_FilesWritten = [] \<rparr>, w\<lparr> aw_db := d1 \<rparr>)
        else (case archive_write days_order fos mfs oes (w\<lparr> aw_db := d1 \<rparr>) of
           (Inl e, w1) \<Rightarrow> (Inl e, w1)
         | (Inr files, w1) \<Rightarrow>
             (case archive_purge (map fr_id fos) (map mr_id mfs) (map er_id oes) (aw_db w1) of
                (Inl e, d2) \<Rightarrow> (Inl e, w1\<lparr> aw_db := d2 \<rparr>)
              | (Inr (n1, n2, n3), d2) \<Rightarrow>
                  (Inr \<lparr> as_MasterFillsArchived = n2, as_FollowerOrdersArchived = n1, as_OrderEventsArchived = n3,
                     as_PartitionDates = sort (remdups (map snd files)), as_FilesWritten = files \<rparr>, w1\<lparr> aw_db := d2 \<rparr>))))"

section \<open>Restoring\<close>

record RestoreSummary =
  rsu_MasterFillsRestored :: int
  rsu_FollowerOrdersRestored :: int
  rsu_OrderEventsRestored :: int
  rsu_PartitionsRestored :: "int list"

definition discoverDatePartitions :: "archive_world \<Rightarrow> int option \<Rightarrow> int option \<Rightarrow> int list" where
  "discoverDatePartitions w fromDate uptoDate = sort (remdups (filter
     (\<lambda>d. (case fromDate of None \<Rightarrow> True | Some f \<Rightarrow> f \<le> d) \<and> (case uptoDate of None \<Rightarrow> True | Some u \<Rightarrow> d \<le> u))
     (map fst (aw_fills w) @ map fst (aw_orders w) @ map fst (aw_events w))))"

text \<open>\<open>INSERT ... ON CONFLICT (id) DO NOTHING\<close>: the number of rows inserted, or a violated constraint.\<close>

definition restore_fill :: "MasterFillParquet \<Rightarrow> db \<Rightarrow> int result \<times> db" where
  "restore_fill p d =
     (let r = parquet_fill p
      in if mr_id r \<in> set (map mr_id (master_fills d)) then (Inr 0, d)
         else if \<not> is_json (mr_raw_payload r) then (Inl pg_json, d)
         else if fill_key r \<in> set (map fill_key (master_fills d)) then (Inl pg_unique, d)
         else if \<not> account_exists d (mr_master_id r) then (Inl pg_foreign, d)
         else (Inr 1, d\<lparr> master_fills := master_fills d @ [r] \<rparr>))"

definition restore_order :: "FollowerOrderParquet \<Rightarrow> db \<Rightarrow> int result \<times> db" where
  "restore_order p d =
     (let r = parquet_order p
      in if fr_id r \<in> set (map fr_id (follower_orders d)) then (Inr 0, d)
         else if tag_taken d (fr_idempotency_tag r) \<or> pair_taken d (fo_pair r)
           \<or> broker_id_taken d (fr_id r) (fr_follower_id r) (fr_broker_order_id r) then (Inl pg_unique, d)
         else if \<not> order_refs_ok d r then (Inl pg_foreign, d)
         else (Inr 1, d\<lparr> follower_orders := follower_orders d @ [r] \<rparr>))"

definition event_row_refs_ok :: "db \<Rightarrow> ev_row \<Rightarrow> bool" where
  "event_row_refs_ok d e \<longleftrightarrow> account_exists d (er_account_id e)
     \<and> (er_follower_order_id e = None \<or> er_follower_order_id e \<in> Some ` set (map fr_id (follower_orders d)))
     \<and> (er_master_fill_id e = None \<or> er_master_fill_id e \<in> Some ` set (map mr_id (master_fills d)))"

definition restore_event :: "OrderEventParquet \<Rightarrow> db \<Rightarrow> int result \<times> db" where
  "restore_event p d =
     (let r = parquet_event p
      in if er_id r \<in> set (map er_id (order_events d)) then (Inr 0, d)
         else if \<not> is_json (er_payload r) then (Inl pg_json, d)
         else if \<not> event_row_refs_ok d r then (Inl pg_foreign, d)
         else (Inr 1, d\<lparr> order_events := order_events d @ [r] \<rparr>))"

text \<open>A batch is one implicit transaction.\<close>

fun batch_rows :: "('r \<Rightarrow> db \<Rightarrow> int result \<times> db) \<Rightarrow> 'r list \<Rightarrow> int \<Rightarrow> db \<Rightarrow> int result \<times> db" where
  "batch_rows ins [] tot d = (Inr tot, d)"
| "batch_rows ins (r # rs) tot d = (case ins r d of
      (Inl e, d1) \<Rightarrow> (Inl e, d1)
    | (Inr n, d1) \<Rightarrow> batch_rows ins rs (tot + n) d1)"

definition execBatch :: "string \<Rightarrow> ('r \<Rightarrow> db \<Rightarrow> int result \<times> db) \<Rightarrow> 'r list \<Rightarrow> db \<Rightarrow> int result \<times> db" where
  "execBatch entityName ins rows d0 = (case db_call (\<lambda>d. case batch_rows ins rows 0 d of
        (Inl e, d1) \<Rightarrow> (Inl e, d) | (Inr n, d1) \<Rightarrow> (Inr n, d1)) d0 of
      (Inl e, d') \<Rightarrow> (Inl (errorf (''insert '' @ entityName) e), d')
    | (Inr n, d') \<Rightarrow> (Inr n, d'))"

text \<open>The loop over the days of one table; a day without a file is skipped.\<close>

fun restore_days ::
  "string \<Rightarrow> ('r \<Rightarrow> db \<Rightarrow> int result \<times> db) \<Rightarrow> 'r partitions \<Rightarrow> int list \<Rightarrow> int \<Rightarrow> db \<Rightarrow> go_error option list
     \<Rightarrow> int result \<times> db \<times> go_error option list" where
  "restore_days entityName ins fs [] tot d io = (Inr tot, d, io)"
| "restore_days entityName ins fs (day # days) tot d io = (case io_next io of
      (Some e, io1) \<Rightarrow> (Inl (errorf ''read'' e), d, io1)
    | (None, io1) \<Rightarrow>
        (case map_of fs day of
           None \<Rightarrow> restore_days entityName ins fs days tot d io1
         | Some rows \<Rightarrow>
             if rows = [] then restore_days entityName ins fs days tot d io1
             else (case execBatch entityName ins rows d of
                (Inl e, d1) \<Rightarrow> (Inl e, d1, io1)
              | (Inr n, d1) \<Rightarrow> restore_days entityName ins fs days (tot + n) d1 io1)))"

text \<open>\<open>setval\<close> to the largest id, or to 1.\<close>

definition setval_fills :: "db \<Rightarrow> unit result \<times> db" where
  "setval_fills = db_call (\<lambda>d. (Inr (), d\<lparr> mf_next := fold max (map mr_id (master_fills d)) 1 + 1 \<rparr>))"

definition setval_orders :: "db \<Rightarrow> unit result \<times> db" where
  "setval_orders = db_call (\<lambda>d. (Inr (), d\<lparr> fo_next := fold max (map fr_id (follower_orders d)) 1 + 1 \<rparr>))"

definition setval_events :: "db \<Rightarrow> unit result \<times> db" where
  "setval_events = db_call (\<lambda>d. (Inr (), d\<lparr> ev_next := fold max (map er_id (order_events d)) 1 + 1 \<rparr>))"

fun exec_all :: "(db \<Rightarrow> unit result \<times> db) list \<Rightarrow> db \<Rightarrow> unit result \<times> db" where
  "exec_all [] d = (Inr (), d)"
| "exec_all (q # qs) d = (case q d of (Inl e, d1) \<Rightarrow> (Inl (errorf ''exec'' e), d1) | (Inr u, d1) \<Rightarrow> exec_all qs d1)"

definition resynchronizeSequences :: "db \<Rightarrow> unit result \<times> db" where
  "resynchronizeSequences = exec_all [setval_fills, setval_orders, setval_events]"

lemmas resync_defs = resynchronizeSequences_def setval_fills_def setval_orders_def setval_events_def

text \<open>The restore of the given days, in the order in which the tables refer to each other.\<close>

definition restore_partitions :: "int list \<Rightarrow> archive_world \<Rightarrow> RestoreSummary result \<times> archive_world" where
  "restore_partitions days w =
     (if days = [] then (Inr \<lparr> rsu_MasterFillsRestored = 0, rsu_FollowerOrdersRestored = 0,
        rsu_OrderEventsRestored = 0, rsu_PartitionsRestored = [] \<rparr>, w)
      else (case restore_days ''master fill'' restore_fill (aw_fills w) days 0 (aw_db w) (aw_io w) of
         (Inl e, d1, io1) \<Rightarrow> (Inl (errorf ''restore master_fills'' e), w\<lparr> aw_db := d1, aw_io := io1 \<rparr>)
       | (Inr n1, d1, io1) \<Rightarrow>
           (case restore_days ''follower order'' restore_order (aw_orders w) days 0 d1 io1 of
              (Inl e, d2, io2) \<Rightarrow> (Inl (errorf ''restore follower_orders'' e), w\<lparr> aw_db := d2, aw_io := io2 \<rparr>)
            | (Inr n2, d2, io2) \<Rightarrow>
                (case restore_days ''order event'' restore_event (aw_events w) days 0 d2 io2 of
                   (Inl e, d3, io3) \<Rightarrow> (Inl (errorf ''restore order_events'' e), w\<lparr> aw_db := d3, aw_io := io3 \<rparr>)
                 | (Inr n3, d3, io3) \<Rightarrow>
                     (case resynchronizeSequences d3 of
                        (Inl e, d4) \<Rightarrow> (Inl (errorf ''resynchronize sequences'' e), w\<lparr> aw_db := d4, aw_io := io3 \<rparr>)
                      | (Inr u, d4) \<Rightarrow> (Inr \<lparr> rsu_MasterFillsRestored = n1, rsu_FollowerOrdersRestored = n2,
                           rsu_OrderEventsRestored = n3, rsu_PartitionsRestored = days \<rparr>,
                           w\<lparr> aw_db := d4, aw_io := io3 \<rparr>))))))"

definition Restore :: "gotime option \<Rightarrow> gotime option \<Rightarrow> archive_world \<Rightarrow> RestoreSummary result \<times> archive_world" where
  "Restore fromDate uptoDate w =
     (if (case (fromDate, uptoDate) of (Some f, Some u) \<Rightarrow> u < f | _ \<Rightarrow> False)
      then (Inl (Plain ''invalid date range''), w)
      else (case io_next (aw_io w) of
         (Some e, io) \<Rightarrow> (Inl (errorf ''discover partitions'' e), w\<lparr> aw_io := io \<rparr>)
       | (None, io) \<Rightarrow> restore_partitions (discoverDatePartitions w (map_option ist_day fromDate) (map_option ist_day uptoDate))
            (w\<lparr> aw_io := io \<rparr>)))"

lemma Restore_all: "aw_io w = [] \<Longrightarrow> Restore None None w = restore_partitions (discoverDatePartitions w None None) w"
  by (cases w) (simp add: Restore_def)

section \<open>The schedule\<close>

text \<open>Midnight of a trading day, and the parsed value of \<open>ARCHIVE_CUTOFF\<close>.\<close>

definition ist_midnight :: "int \<Rightarrow> gotime" where
  "ist_midnight day = day * (24 * Hour) - (5 * Hour + 30 * Minute)"

datatype cutoff_env = EnvNone | EnvNow | EnvDate int | EnvTime gotime

fun DefaultCutoff :: "cutoff_env \<Rightarrow> gotime \<Rightarrow> gotime" where
  "DefaultCutoff EnvNow now = now"
| "DefaultCutoff (EnvDate day) now = ist_midnight (day + 1) - 1"
| "DefaultCutoff (EnvTime t) now = t"
| "DefaultCutoff EnvNone now = ist_midnight (ist_day now) - 1"

definition NextRunTime :: "gotime \<Rightarrow> duration \<Rightarrow> gotime" where
  "NextRunTime now interval =
     (if 0 < interval then now + interval
      else let nextRun = ist_midnight (ist_day now) + 1 * Hour in if \<not> now < nextRun then nextRun + 24 * Hour else nextRun)"

definition Routine_RunOnce ::
  "(int list \<Rightarrow> int list) \<Rightarrow> cutoff_env \<Rightarrow> archive_world \<Rightarrow> ArchiveSummary result \<times> archive_world" where
  "Routine_RunOnce days_order env w = Archive days_order (DefaultCutoff env (db_now (aw_db w))) w"

lemma ist_midnight_day: "ist_midnight (ist_day t) \<le> t \<and> t < ist_midnight (ist_day t) + 24 * Hour"
  by (simp add: ist_midnight_def ist_day_def durations) linarith

lemma NextRunTime_soon: "interval \<le> 0 \<Longrightarrow> now < NextRunTime now interval \<and> NextRunTime now interval \<le> now + 24 * Hour"
  using ist_midnight_day[of now] by (auto simp: NextRunTime_def Let_def durations)

lemma DefaultCutoff_before_today: "DefaultCutoff EnvNone now < now \<and> ist_day (DefaultCutoff EnvNone now) = ist_day now - 1"
  using ist_midnight_day[of now] by (simp add: ist_midnight_def ist_day_def durations)

section \<open>What is in the files\<close>

definition filed :: "('r \<Rightarrow> int) \<Rightarrow> 'r partitions \<Rightarrow> 'r \<Rightarrow> bool" where
  "filed timeMicros fs p \<longleftrightarrow> (\<exists>rs. map_of fs (partition_day (timeMicros p)) = Some rs \<and> p \<in> set rs)"

lemma by_id_Cons: "by_id ident (x # rows) m = by_id ident rows (m(ident x \<mapsto> x))"
  by (simp add: by_id_def)

lemma by_id_other: "k \<notin> ident ` set rows \<Longrightarrow> by_id ident rows m k = m k"
  by (induction rows arbitrary: m) (auto simp: by_id_def)

lemma by_id_row: "r \<in> set rows \<Longrightarrow> distinct (map ident rows) \<Longrightarrow> by_id ident rows m (ident r) = Some r"
proof (induction rows arbitrary: m)
  case (Cons x rows)
  show ?case
  proof (cases "r = x")
    case True
    then have "ident r \<notin> ident ` set rows" using Cons.prems(2) by auto
    then show ?thesis unfolding by_id_Cons using True by (simp add: by_id_other)
  next
    case False
    then show ?thesis unfolding by_id_Cons using Cons.prems by (intro Cons.IH) auto
  qed
qed simp

lemma merge_rows_new: "r \<in> set new \<Longrightarrow> distinct (map ident new) \<Longrightarrow> r \<in> set (merge_rows ident old new)"
  by (force simp: merge_rows_def Let_def by_id_row intro: rev_image_eqI[of "ident r"])

lemma write_day_cases:
  assumes "writeParquetWithMerge ident day new fs io = (r, fs', io')"
  shows "case r of Inl _ \<Rightarrow> fs' = fs
    | Inr _ \<Rightarrow> map_of fs' = (map_of fs)(day \<mapsto> case map_of fs day of None \<Rightarrow> new | Some old \<Rightarrow> merge_rows ident old new)"
  using assms by (auto simp: writeParquetWithMerge_def update_conv' split: prod.splits option.splits)

lemma write_day_filed:
  assumes "writeParquetWithMerge ident day (groupRowsByDate tm rows day) fs io = (r, fs', io')" "distinct (map ident rows)" "p \<in> set rows"
  shows "(r = Inr () \<and> partition_day (tm p) = day) \<or> filed tm fs p \<Longrightarrow> filed tm fs' p"
proof -
  let ?new = "groupRowsByDate tm rows day"
  have d: "distinct (map ident ?new)" using assms(2) by (simp add: groupRowsByDate_def distinct_map_filter)
  have in_new: "partition_day (tm p) = day \<Longrightarrow> p \<in> set ?new" using assms(3) by (simp add: groupRowsByDate_def)
  have merged: "partition_day (tm p) = day \<Longrightarrow> p \<in> set (merge_rows ident old ?new)" for old
    using merge_rows_new[OF in_new d] by blast
  show "(r = Inr () \<and> partition_day (tm p) = day) \<or> filed tm fs p \<Longrightarrow> filed tm fs' p"
    using write_day_cases[OF assms(1)] in_new merged
    by (cases r) (auto simp: filed_def split: option.splits)
qed

lemma write_days_filed:
  "write_days table tm ident rows days fs io = (r, fs', io') \<Longrightarrow> distinct (map ident rows) \<Longrightarrow> p \<in> set rows \<Longrightarrow>
   (\<exists>ds. r = Inr ds) \<and> partition_day (tm p) \<in> set days \<or> filed tm fs p \<Longrightarrow> filed tm fs' p"
proof (induction days arbitrary: r fs io fs' io')
  case (Cons day days)
  obtain u fs1 io1 where w: "writeParquetWithMerge ident day (groupRowsByDate tm rows day) fs io = (u, fs1, io1)"
    by (metis prod_cases3)
  note first = write_day_filed[OF w Cons.prems(2,3)]
  show ?case
  proof (cases u)
    case (Inl e)
    then show ?thesis using Cons.prems w first by auto
  next
    case (Inr x)
    obtain v fs2 io2 where rest: "write_days table tm ident rows days fs1 io1 = (v, fs2, io2)" by (metis prod_cases3)
    have "fs' = fs2" "(\<exists>ds. r = Inr ds) \<Longrightarrow> \<exists>ds. v = Inr ds" using Cons.prems(1) w Inr rest by (auto split: sum.splits)
    then show ?thesis using Cons.IH[OF rest Cons.prems(2,3)] Cons.prems(4) first Inr by auto
  qed
qed simp

text \<open>An order of iteration over the days visits every day.\<close>

definition covers :: "(int list \<Rightarrow> int list) \<Rightarrow> bool" where
  "covers days_order \<longleftrightarrow> (\<forall>ds. set (days_order ds) = set ds)"

lemma table_filed:
  assumes "writeTablePartitions days_order table tm ident rows fs io = (Inr ds, fs', io')" "covers days_order"
    and "distinct (map ident rows)" "p \<in> set rows"
  shows "filed tm fs' p"
  using write_days_filed[OF assms(1)[unfolded writeTablePartitions_def] assms(3,4)] assms(2,4) by (auto simp: covers_def)

section \<open>Deleting archived rows\<close>

definition without :: "int list \<Rightarrow> int list \<Rightarrow> int list \<Rightarrow> db \<Rightarrow> db" where
  "without foIDs mfIDs oeIDs d = d\<lparr> order_events := filter (\<lambda>e. er_id e \<notin> set oeIDs) (order_events d),
     follower_orders := filter (\<lambda>r. fr_id r \<notin> set foIDs) (follower_orders d),
     master_fills := filter (\<lambda>r. mr_id r \<notin> set mfIDs) (master_fills d) \<rparr>"

definition unreferenced :: "int list \<Rightarrow> int list \<Rightarrow> int list \<Rightarrow> db \<Rightarrow> bool" where
  "unreferenced foIDs mfIDs oeIDs d \<longleftrightarrow>
     (let events = filter (\<lambda>e. er_id e \<notin> set oeIDs) (order_events d);
          orders = filter (\<lambda>r. fr_id r \<notin> set foIDs) (follower_orders d);
          gone_orders = Some ` set (map fr_id (filter (\<lambda>r. fr_id r \<in> set foIDs) (follower_orders d)));
          gone_fills = Some ` set (map mr_id (filter (\<lambda>r. mr_id r \<in> set mfIDs) (master_fills d)))
      in \<not> list_ex (\<lambda>e. er_follower_order_id e \<in> gone_orders) events
         \<and> \<not> list_ex (\<lambda>e. er_master_fill_id e \<in> gone_fills) events
         \<and> \<not> list_ex (\<lambda>r. fr_master_fill_id r \<in> gone_fills) orders)"

lemma purge_faults [simp]:
  "unreferenced foIDs mfIDs oeIDs (d\<lparr> faults := fs \<rparr>) = unreferenced foIDs mfIDs oeIDs d"
  "without foIDs mfIDs oeIDs (d\<lparr> faults := fs \<rparr>) = (without foIDs mfIDs oeIDs d)\<lparr> faults := fs \<rparr>"
  by (simp_all add: unreferenced_def without_def)

lemma purge_rows_eq:
  "unreferenced foIDs mfIDs oeIDs d \<Longrightarrow> \<exists>n. purge_rows foIDs mfIDs oeIDs d = (Inr n, without foIDs mfIDs oeIDs d)"
  "\<not> unreferenced foIDs mfIDs oeIDs d \<Longrightarrow> \<exists>e. purge_rows foIDs mfIDs oeIDs d = (Inl e, d)"
  by (auto simp add: purge_rows_def delete_events_def delete_orders_def delete_fills_def Let_def without_def unreferenced_def
      simp del: set_map list_ex_iff split: if_splits)

lemma archive_purge_cases:
  assumes "archive_purge foIDs mfIDs oeIDs d = (r, d')"
  obtains (failed) e fs where "r = Inl e" "d' = d\<lparr> faults := fs \<rparr>"
  | (purged) n fs where "r = Inr n" "d' = (without foIDs mfIDs oeIDs d)\<lparr> faults := fs \<rparr>" "unreferenced foIDs mfIDs oeIDs d"
proof -
  let ?body = "\<lambda>d. case purge_rows foIDs mfIDs oeIDs d of (r, d') \<Rightarrow> (Inr r, d')"
  show thesis
  proof (rule db_call_cases[of ?body d])
    fix e fs assume "db_call ?body d = (Inl e, d\<lparr> faults := fs \<rparr>)"
    then show thesis using assms by (intro failed) (auto simp: archive_purge_def)
  next
    fix fs assume c: "db_call ?body d = ?body (d\<lparr> faults := fs \<rparr>)"
    show thesis
    proof (cases "unreferenced foIDs mfIDs oeIDs d")
      case True
      then obtain n where "purge_rows foIDs mfIDs oeIDs (d\<lparr> faults := fs \<rparr>) = (Inr n, without foIDs mfIDs oeIDs (d\<lparr> faults := fs \<rparr>))"
        using purge_rows_eq(1)[of foIDs mfIDs oeIDs "d\<lparr> faults := fs \<rparr>"] by auto
      then show thesis using assms c True by (intro purged[of n fs]) (simp_all add: archive_purge_def)
    next
      case False
      then obtain e where "purge_rows foIDs mfIDs oeIDs (d\<lparr> faults := fs \<rparr>) = (Inl e, d\<lparr> faults := fs \<rparr>)"
        using purge_rows_eq(2)[of foIDs mfIDs oeIDs "d\<lparr> faults := fs \<rparr>"] by auto
      then show thesis using assms c by (intro failed[of e fs]) (simp_all add: archive_purge_def)
    qed
  qed
qed

lemma unique_index_filter: "unique_index key rows \<Longrightarrow> unique_index key (filter P rows)"
  by (induction rows) (auto simp: unique_index_Cons)

lemma wf_without:
  assumes "wf_db d" "unreferenced foIDs mfIDs oeIDs d"
  shows "wf_db (without foIDs mfIDs oeIDs d)"
proof -
  let ?d = "without foIDs mfIDs oeIDs d"
  have refs: "order_refs_ok ?d r" if "r \<in> set (follower_orders ?d)" for r
  proof -
    have r: "r \<in> set (follower_orders d)" "fr_id r \<notin> set foIDs" using that by (auto simp: without_def)
    then have "order_refs_ok d r" using assms(1) by (auto simp: wf_db_def wf_orders_def)
    moreover have "fr_master_fill_id r \<notin> Some ` set (map mr_id (filter (\<lambda>r. mr_id r \<in> set mfIDs) (master_fills d)))"
      using assms(2) r by (auto simp: unreferenced_def list_ex_iff Let_def)
    ultimately show ?thesis by (auto simp: order_refs_ok_def account_exists_def without_def image_iff)
  qed
  have "wf_fills ?d" using assms(1) by (auto simp: wf_db_def wf_fills_def without_def distinct_map_filter)
  moreover have "wf_orders ?d"
    using assms(1) refs by (auto simp: wf_db_def wf_orders_def without_def distinct_map_filter unique_index_filter)
  moreover have "wf_trail ?d" using assms(1) by (auto simp: wf_db_def wf_trail_def without_def distinct_map_filter)
  ultimately show ?thesis by (simp add: wf_db_def)
qed

section \<open>The plan\<close>

definition plan_orders :: "gotime \<Rightarrow> db \<Rightarrow> fo_row list" where
  "plan_orders cutoff d = sort_key fr_id (filter (terminal_order cutoff) (follower_orders d))"

definition plan_fills :: "gotime \<Rightarrow> db \<Rightarrow> mf_row list" where
  "plan_fills cutoff d = sort_key mr_id (filter (eligible_fill cutoff (map fr_id (plan_orders cutoff d)) d) (master_fills d))"

definition plan_events :: "gotime \<Rightarrow> db \<Rightarrow> ev_row list" where
  "plan_events cutoff d = sort_key er_id (filter
     (eligible_event (map fr_id (plan_orders cutoff d)) (map mr_id (plan_fills cutoff d))) (order_events d))"

lemma plan_faults [simp]:
  "plan_orders cutoff (d\<lparr> faults := fs \<rparr>) = plan_orders cutoff d"
  "plan_fills cutoff (d\<lparr> faults := fs \<rparr>) = plan_fills cutoff d"
  "plan_events cutoff (d\<lparr> faults := fs \<rparr>) = plan_events cutoff d"
  by (simp_all add: plan_orders_def plan_fills_def plan_events_def eligible_fill_def[abs_def])

lemma parquet_ids [simp]:
  "fr_id (order_parquet r) = fr_id r" "mr_id (fill_parquet m) = mr_id m" "er_id (event_parquet e) = er_id e"
  "fr_id \<circ> order_parquet = fr_id" "mr_id \<circ> fill_parquet = mr_id" "er_id \<circ> event_parquet = er_id"
  by (simp_all add: order_parquet_def fill_parquet_def event_parquet_def fun_eq_iff)

text \<open>A query returns its rows or an error, and takes one entry of the failure script.\<close>

definition reads :: "'a \<Rightarrow> db \<Rightarrow> 'a result \<times> db \<Rightarrow> bool" where
  "reads x d q \<longleftrightarrow> (\<exists>fs. snd q = d\<lparr> faults := fs \<rparr>) \<and> (fst q = Inr x \<or> (\<exists>e. fst q = Inl e))"

lemma db_call_reads: "(\<And>fs. f (d\<lparr> faults := fs \<rparr>) = f d) \<Longrightarrow> reads (f d) d (db_call (\<lambda>d. (Inr (f d), d)) d)"
  by (rule db_call_cases[of "\<lambda>d. (Inr (f d), d)" d]) (auto simp: reads_def)

lemma fetch_reads:
  "reads (map order_parquet (plan_orders cutoff d)) d (fetchTerminalFollowerOrders cutoff d)"
  "foIDs = map fr_id (plan_orders cutoff d) \<Longrightarrow>
   reads (map fill_parquet (plan_fills cutoff d)) d (fetchEligibleMasterFills cutoff foIDs d)"
  "foIDs = map fr_id (plan_orders cutoff d) \<Longrightarrow> mfIDs = map mr_id (plan_fills cutoff d) \<Longrightarrow>
   reads (map event_parquet (plan_events cutoff d)) d (fetchEligibleOrderEvents foIDs mfIDs d)"
proof -
  show "reads (map order_parquet (plan_orders cutoff d)) d (fetchTerminalFollowerOrders cutoff d)"
    unfolding plan_orders_def fetchTerminalFollowerOrders_def by (rule db_call_reads) simp
  assume fo: "foIDs = map fr_id (plan_orders cutoff d)"
  show "reads (map fill_parquet (plan_fills cutoff d)) d (fetchEligibleMasterFills cutoff foIDs d)"
    unfolding plan_fills_def fetchEligibleMasterFills_def fo[symmetric]
    by (rule db_call_reads) (simp add: eligible_fill_def[abs_def])
  assume mf: "mfIDs = map mr_id (plan_fills cutoff d)"
  have "foIDs = [] \<and> mfIDs = [] \<Longrightarrow> plan_events cutoff d = []"
    by (simp add: plan_events_def eligible_event_def[abs_def] fo mf)
  moreover have "d\<lparr> faults := faults d \<rparr> = d" by simp
  moreover have "reads (map event_parquet (sort_key er_id (filter (eligible_event foIDs mfIDs) (order_events d)))) d
      (db_call (\<lambda>d. (Inr (map event_parquet (sort_key er_id (filter (eligible_event foIDs mfIDs) (order_events d)))), d)) d)"
    by (rule db_call_reads) simp
  ultimately show "reads (map event_parquet (plan_events cutoff d)) d (fetchEligibleOrderEvents foIDs mfIDs d)"
    unfolding fetchEligibleOrderEvents_def plan_events_def fo[symmetric] mf[symmetric]
    by (auto simp: reads_def intro: exI[of _ "faults d"])
qed

lemma reads_frame: "reads x (d\<lparr> faults := fs \<rparr>) q \<Longrightarrow> reads x d q"
  by (auto simp: reads_def)

lemma readsE:
  assumes "reads x d q"
  obtains (read) fs where "q = (Inr x, d\<lparr> faults := fs \<rparr>)" | (failed) e fs where "q = (Inl e, d\<lparr> faults := fs \<rparr>)"
  using assms by (cases q) (auto simp: reads_def)

lemma readsI: "reads x d (Inr x, d\<lparr> faults := fs \<rparr>)" "reads x d (Inl e, d\<lparr> faults := fs \<rparr>)"
  by (auto simp: reads_def)

lemma archive_plan_reads:
  "reads (map order_parquet (plan_orders cutoff d), map fill_parquet (plan_fills cutoff d), map event_parquet (plan_events cutoff d)) d
     (archive_plan cutoff d)"
  using fetch_reads(1)[of cutoff d]
proof (cases rule: readsE)
  case (read fs1)
  note orders = read
  have "reads (map fill_parquet (plan_fills cutoff d)) d
      (fetchEligibleMasterFills cutoff (map fr_id (plan_orders cutoff d)) (d\<lparr> faults := fs1 \<rparr>))"
    using fetch_reads(2)[of "map fr_id (plan_orders cutoff d)" cutoff "d\<lparr> faults := fs1 \<rparr>"] by (auto intro: reads_frame)
  then show ?thesis
  proof (cases rule: readsE)
    case (read fs2)
    note fills = read
    have "reads (map event_parquet (plan_events cutoff d)) d
        (fetchEligibleOrderEvents (map fr_id (plan_orders cutoff d)) (map mr_id (plan_fills cutoff d)) (d\<lparr> faults := fs2 \<rparr>))"
      using fetch_reads(3)[of "map fr_id (plan_orders cutoff d)" cutoff "d\<lparr> faults := fs2 \<rparr>" "map mr_id (plan_fills cutoff d)"]
      by (auto intro: reads_frame)
    then show ?thesis by (cases rule: readsE) (simp_all add: archive_plan_def orders fills readsI)
  qed (simp add: archive_plan_def orders readsI)
qed (simp add: archive_plan_def readsI)

section \<open>Archiving loses nothing\<close>

definition all_filed ::
  "FollowerOrderParquet list \<Rightarrow> MasterFillParquet list \<Rightarrow> OrderEventParquet list \<Rightarrow> archive_world \<Rightarrow> bool" where
  "all_filed fos mfs oes w \<longleftrightarrow> list_all (filed fr_created_at (aw_orders w)) fos
     \<and> list_all (filed mr_received_at (aw_fills w)) mfs \<and> list_all (filed er_occurred_at (aw_events w)) oes"

lemma archive_write_filed:
  assumes "archive_write days_order fos mfs oes w = (r, w')" "covers days_order"
    and "distinct (map fr_id fos)" "distinct (map mr_id mfs)" "distinct (map er_id oes)"
  shows "aw_db w' = aw_db w \<and> (\<forall>x. r = Inr x \<longrightarrow> all_filed fos mfs oes w')"
proof -
  note filed = table_filed[OF _ assms(2,3)] table_filed[OF _ assms(2,4)] table_filed[OF _ assms(2,5)]
  show ?thesis using assms(1) filed
    by (auto simp: archive_write_def Let_def all_filed_def list_all_iff split: prod.splits sum.splits)
qed

lemma plan_distinct:
  assumes "wf_db d"
  shows "distinct (map fr_id (plan_orders cutoff d))" "distinct (map mr_id (plan_fills cutoff d))"
    "distinct (map er_id (plan_events cutoff d))"
  using assms unfolding plan_orders_def plan_fills_def plan_events_def
  by (auto simp: wf_db_def wf_fills_def wf_orders_def wf_trail_def distinct_map)
     (auto simp: inj_on_def)

text \<open>The state after archiving: nothing happened to the tables, or the planned rows are filed and gone.\<close>

lemma archive_cases:
  assumes "Archive days_order cutoff w = (r, w')" "wf_db (aw_db w)" "covers days_order"
  obtains (failed) e fs where "r = Inl e" "aw_db w' = (aw_db w)\<lparr> faults := fs \<rparr>"
  | (idle) x fs where "r = Inr x" "aw_db w' = (aw_db w)\<lparr> faults := fs \<rparr>" "plan_orders cutoff (aw_db w) = []"
      "plan_fills cutoff (aw_db w) = []" "plan_events cutoff (aw_db w) = []"
      "aw_orders w' = aw_orders w" "aw_fills w' = aw_fills w" "aw_events w' = aw_events w"
  | (archived) x fs where "r = Inr x"
      "aw_db w' = (without (map fr_id (plan_orders cutoff (aw_db w))) (map mr_id (plan_fills cutoff (aw_db w)))
         (map er_id (plan_events cutoff (aw_db w))) (aw_db w))\<lparr> faults := fs \<rparr>"
      "unreferenced (map fr_id (plan_orders cutoff (aw_db w))) (map mr_id (plan_fills cutoff (aw_db w)))
         (map er_id (plan_events cutoff (aw_db w))) (aw_db w)"
      "all_filed (map order_parquet (plan_orders cutoff (aw_db w))) (map fill_parquet (plan_fills cutoff (aw_db w)))
         (map event_parquet (plan_events cutoff (aw_db w))) w'"
proof -
  let ?d = "aw_db w"
  let ?fo = "plan_orders cutoff ?d" and ?mf = "plan_fills cutoff ?d" and ?ev = "plan_events cutoff ?d"
  obtain q d1 where q: "archive_plan cutoff ?d = (q, d1)" by (rule prod.exhaust)
  obtain fs where d1: "d1 = ?d\<lparr> faults := fs \<rparr>" using archive_plan_reads[of cutoff ?d] q by (auto simp: reads_def)
  show thesis
  proof (cases q)
    case (Inl e)
    then show thesis using assms(1) q d1 by (intro failed) (auto simp: Archive_def)
  next
    case (Inr x)
    then have x: "q = Inr (map order_parquet ?fo, map fill_parquet ?mf, map event_parquet ?ev)"
      using archive_plan_reads[of cutoff ?d] q by (auto simp: reads_def)
    show thesis
    proof (cases "?fo = [] \<and> ?mf = [] \<and> ?ev = []")
      case True
      then show thesis using assms(1) q x d1 by (intro idle) (auto simp: Archive_def)
    next
      case False
      obtain v w1 where wr: "archive_write days_order (map order_parquet ?fo) (map fill_parquet ?mf) (map event_parquet ?ev)
          (w\<lparr> aw_db := d1 \<rparr>) = (v, w1)" by (rule prod.exhaust)
      have w1: "aw_db w1 = d1" "v = Inr y \<Longrightarrow> all_filed (map order_parquet ?fo) (map fill_parquet ?mf) (map event_parquet ?ev) w1" for y
        using archive_write_filed[OF wr assms(3)] plan_distinct[OF assms(2), of cutoff] by simp_all
      show thesis
      proof (cases v)
        case (Inl e)
        then show thesis using assms(1) q x d1 False wr w1 by (intro failed) (auto simp: Archive_def)
      next
        case (Inr files)
        obtain n d2 where p: "archive_purge (map fr_id ?fo) (map mr_id ?mf) (map er_id ?ev) d1 = (n, d2)" by (rule prod.exhaust)
        have w': "aw_db w' = d2" "aw_orders w' = aw_orders w1" "aw_fills w' = aw_fills w1" "aw_events w' = aw_events w1"
          "(\<exists>e. n = Inl e \<and> r = Inl e) \<or> (\<exists>y z. n = Inr y \<and> r = Inr z)"
          using assms(1) q x False wr w1(1) Inr p by (auto simp: Archive_def split: sum.splits)
        from p show thesis
        proof (cases rule: archive_purge_cases)
          case (failed e fs')
          then show thesis using w' d1 by (intro that(1)) auto
        next
          case (purged m fs')
          moreover obtain z where "r = Inr z" using w'(5) purged(1) by auto
          ultimately show thesis using w'(1-4) d1 w1(2)[OF Inr] by (intro that(3)[of z fs']) (simp_all add: all_filed_def)
        qed
      qed
    qed
  qed
qed

end
