(* ===== verification/Archive_Thms.thy ===== *)
theory Archive_Thms
  imports Archive
begin

text \<open>
  What the archive guarantees: rows leave the tables only into files, the constraints of the
  schema survive, and restoring everything gives back the tables. The last sections show where
  the archive breaks a promise: ids and fills that are archived are no longer known to be taken.
\<close>

section \<open>Archiving loses nothing\<close>

definition moved :: "('q \<Rightarrow> 'r) \<Rightarrow> ('r \<Rightarrow> int) \<Rightarrow> 'r partitions \<Rightarrow> 'q list \<Rightarrow> 'q list \<Rightarrow> bool" where
  "moved enc timeMicros fs before after \<longleftrightarrow> set after \<subseteq> set before
     \<and> (\<forall>r\<in>set before. r \<notin> set after \<longrightarrow> filed timeMicros fs (enc r))"

lemma moved_refl: "moved enc tm fs rows rows"
  by (simp add: moved_def)

lemma moved_filter:
  assumes "list_all (filed tm fs) (map enc plan)" "set plan \<subseteq> set rows" "distinct (map ident rows)"
  shows "moved enc tm fs rows (filter (\<lambda>r. ident r \<notin> ident ` set plan) rows)"
proof -
  have "r \<in> set plan" if "r \<in> set rows" "ident r \<in> ident ` set plan" for r
    using that assms(2,3) by (auto simp: distinct_map inj_on_def)
  then show ?thesis using assms(1) by (auto simp: moved_def list_all_iff)
qed

lemma plan_subset:
  "set (plan_orders cutoff d) \<subseteq> set (follower_orders d)" "set (plan_fills cutoff d) \<subseteq> set (master_fills d)"
  "set (plan_events cutoff d) \<subseteq> set (order_events d)"
  by (auto simp: plan_orders_def plan_fills_def plan_events_def)

lemma wf_ids:
  assumes "wf_db d"
  shows "distinct (map fr_id (follower_orders d))" "distinct (map mr_id (master_fills d))" "distinct (map er_id (order_events d))"
  using assms by (simp_all add: wf_db_def wf_fills_def wf_orders_def wf_trail_def)

lemma archived_moved:
  assumes "wf_db d" "all_filed (map order_parquet (plan_orders cutoff d)) (map fill_parquet (plan_fills cutoff d))
      (map event_parquet (plan_events cutoff d)) w"
    and "d' = (without (map fr_id (plan_orders cutoff d)) (map mr_id (plan_fills cutoff d)) (map er_id (plan_events cutoff d)) d)\<lparr> faults := fs \<rparr>"
  shows "moved order_parquet fr_created_at (aw_orders w) (follower_orders d) (follower_orders d')"
    "moved fill_parquet mr_received_at (aw_fills w) (master_fills d) (master_fills d')"
    "moved event_parquet er_occurred_at (aw_events w) (order_events d) (order_events d')"
proof -
  have f: "list_all (filed fr_created_at (aw_orders w)) (map order_parquet (plan_orders cutoff d))"
    "list_all (filed mr_received_at (aw_fills w)) (map fill_parquet (plan_fills cutoff d))"
    "list_all (filed er_occurred_at (aw_events w)) (map event_parquet (plan_events cutoff d))"
    using assms(2) by (simp_all only: all_filed_def)
  have d': "follower_orders d' = filter (\<lambda>r. fr_id r \<notin> fr_id ` set (plan_orders cutoff d)) (follower_orders d)"
    "master_fills d' = filter (\<lambda>r. mr_id r \<notin> mr_id ` set (plan_fills cutoff d)) (master_fills d)"
    "order_events d' = filter (\<lambda>r. er_id r \<notin> er_id ` set (plan_events cutoff d)) (order_events d)"
    using assms(3) by (simp_all add: without_def)
  show "moved order_parquet fr_created_at (aw_orders w) (follower_orders d) (follower_orders d')"
    "moved fill_parquet mr_received_at (aw_fills w) (master_fills d) (master_fills d')"
    "moved event_parquet er_occurred_at (aw_events w) (order_events d) (order_events d')"
    unfolding d' by (rule moved_filter[OF f(1) plan_subset(1) wf_ids(1)[OF assms(1)]] moved_filter[OF f(2) plan_subset(2) wf_ids(2)[OF assms(1)]]
        moved_filter[OF f(3) plan_subset(3) wf_ids(3)[OF assms(1)]])+
qed

text \<open>
  C16 Archiving loses nothing: whatever database calls and file writes fail, an archive run keeps
  the unique indexes and references of the order tables, adds no row, and every order, fill and
  event that is no longer in its table is in the file of its day. Only orders in a terminal state
  created up to the cutoff leave their table, and a run that fails leaves all tables as they were.
\<close>
theorem archive_loses_nothing:
  assumes "wf_db (aw_db w)" and "covers days_order" and "Archive days_order cutoff w = (r, w')"
  shows "wf_db (aw_db w')
    \<and> moved order_parquet fr_created_at (aw_orders w') (follower_orders (aw_db w)) (follower_orders (aw_db w'))
    \<and> moved fill_parquet mr_received_at (aw_fills w') (master_fills (aw_db w)) (master_fills (aw_db w'))
    \<and> moved event_parquet er_occurred_at (aw_events w') (order_events (aw_db w)) (order_events (aw_db w'))
    \<and> (\<forall>x\<in>set (follower_orders (aw_db w)). x \<in> set (follower_orders (aw_db w')) \<or> terminal_order cutoff x)
    \<and> (case r of Inl _ \<Rightarrow> aw_db w' = (aw_db w)\<lparr> faults := faults (aw_db w') \<rparr> | Inr _ \<Rightarrow> True)"
  using assms(3,1,2)
proof (cases rule: archive_cases)
  case (failed e fs)
  then show ?thesis using assms(1) by (simp add: moved_refl)
next
  case (idle x fs)
  then show ?thesis using assms(1) by (simp add: moved_refl)
next
  case (archived x fs)
  have "terminal_order cutoff y" if "y \<in> set (follower_orders (aw_db w))" "y \<notin> set (follower_orders (aw_db w'))" for y
  proof -
    have "fr_id y \<in> fr_id ` set (plan_orders cutoff (aw_db w))" using that archived(2) by (auto simp: without_def)
    then have "y \<in> set (plan_orders cutoff (aw_db w))"
      using that(1) plan_subset(1)[of cutoff "aw_db w"] wf_ids(1)[OF assms(1)] by (auto simp: distinct_map inj_on_def)
    then show ?thesis by (simp add: plan_orders_def)
  qed
  moreover have "wf_db (aw_db w')" unfolding archived(2) using wf_without[OF assms(1) archived(3)] by simp
  ultimately show ?thesis using archived_moved[OF assms(1) archived(4,2)] archived(1) by auto
qed

section \<open>Rows survive the conversion\<close>

text \<open>
  What a PostgreSQL row holds: times with microseconds within the range of \<open>UnixNano\<close> (years 1678 to
  2262), 32-bit integers.
\<close>

definition pg_time :: "gotime \<Rightarrow> bool" where
  "pg_time t \<longleftrightarrow> 1000 dvd (t - unix_epoch) \<and> in64 (t - unix_epoch)"

definition pg_order :: "fo_row \<Rightarrow> bool" where
  "pg_order r \<longleftrightarrow> pg_time (fr_created_at r) \<and> pg_time (fr_updated_at r)
     \<and> list_all in32 [fr_intended_qty r, fr_lot_size r, fr_filled_qty r, fr_attempt_count r] \<and> pred_option in32 (fr_placed_qty r)"

definition pg_fill :: "mf_row \<Rightarrow> bool" where
  "pg_fill r \<longleftrightarrow> pg_time (mr_order_timestamp r) \<and> pg_time (mr_received_at r) \<and> pred_option pg_time (mr_dispatched_at r)
     \<and> in32 (mr_filled_quantity r)"

lemma MicrosToTime_eq: "MicrosToTime m = unix_epoch + 1000 * m"
proof -
  have "m = m sdiv 1000000 * 1000000 + m smod 1000000" by (rule sdiv_mult_smod_eq[symmetric])
  then show ?thesis unfolding MicrosToTime_def Second_def Millisecond_def by presburger
qed

lemma micros_roundtrip: "pg_time t \<Longrightarrow> MicrosToTime (TimeToMicros t) = t"
proof -
  assume t: "pg_time t"
  have "(t - unix_epoch) smod 1000 = 0" using t by (auto simp: pg_time_def smod_int_alt_def)
  then have "1000 * ((t - unix_epoch) sdiv 1000) = t - unix_epoch" using mult_sdiv_smod_eq[of 1000 "t - unix_epoch"] by simp
  then show ?thesis using t by (simp add: MicrosToTime_eq TimeToMicros_def pg_time_def wrap64_id)
qed

lemma option_roundtrip: "pred_option P x \<Longrightarrow> (\<And>y. P y \<Longrightarrow> f y = y) \<Longrightarrow> map_option f x = x"
  by (cases x) auto

lemma order_roundtrip: "pg_order r \<Longrightarrow> parquet_order (order_parquet r) = r"
  by (simp add: pg_order_def parquet_order_def order_parquet_def micros_roundtrip wrap32_id option_roundtrip[of in32])

lemma fill_roundtrip: "pg_fill r \<Longrightarrow> parquet_fill (fill_parquet r) = r"
  by (simp add: pg_fill_def parquet_fill_def fill_parquet_def micros_roundtrip wrap32_id option_roundtrip[of pg_time] option.map_comp comp_def)

lemma event_roundtrip: "pg_time (er_occurred_at e) \<Longrightarrow> parquet_event (event_parquet e) = e"
  by (simp add: parquet_event_def event_parquet_def micros_roundtrip)

section \<open>Restoring a table\<close>

text \<open>
  The contract of a restored table: inserting an archived row of a known set into a table that has
  only rows of the set succeeds and leaves the row in the table.
\<close>

locale table_restore =
  fixes ins :: "'r \<Rightarrow> db \<Rightarrow> int result \<times> db" and dec :: "'r \<Rightarrow> 'q" and tab :: "db \<Rightarrow> 'q list"
    and ok :: "db \<Rightarrow> bool" and orig :: "'q set"
  assumes insert_row: "ok d \<Longrightarrow> dec p \<in> orig \<Longrightarrow>
      \<exists>n d'. ins p d = (Inr n, d') \<and> ok d' \<and> set (tab d') = insert (dec p) (set (tab d))"
    and no_faults: "ok d \<Longrightarrow> faults d = []"

definition rows_in :: "'r partitions \<Rightarrow> int list \<Rightarrow> 'r set" where
  "rows_in fs days = (\<Union>day\<in>set days. case map_of fs day of None \<Rightarrow> {} | Some rs \<Rightarrow> set rs)"

lemma rows_in_simps [simp]:
  "rows_in fs [] = {}"
  "rows_in fs (day # days) = (case map_of fs day of None \<Rightarrow> {} | Some rs \<Rightarrow> set rs) \<union> rows_in fs days"
  by (simp_all add: rows_in_def)

context table_restore begin

lemma batch_restores:
  "ok d \<Longrightarrow> dec ` set rows \<subseteq> orig \<Longrightarrow>
   \<exists>n d'. batch_rows ins rows t d = (Inr n, d') \<and> ok d' \<and> set (tab d') = dec ` set rows \<union> set (tab d)"
proof (induction rows arbitrary: d t)
  case (Cons p rows)
  then obtain n d1 where "ins p d = (Inr n, d1)" "ok d1" "set (tab d1) = insert (dec p) (set (tab d))"
    using insert_row[of d p] by auto
  moreover then obtain m d2 where "batch_rows ins rows (t + n) d1 = (Inr m, d2)" "ok d2"
      "set (tab d2) = dec ` set rows \<union> set (tab d1)"
    using Cons.IH[of d1 "t + n"] Cons.prems(2) by auto
  ultimately show ?case by auto
qed auto

lemma exec_restores:
  assumes "ok d" "dec ` set rows \<subseteq> orig"
  shows "\<exists>n d'. execBatch name ins rows d = (Inr n, d') \<and> ok d' \<and> set (tab d') = dec ` set rows \<union> set (tab d)"
  using batch_restores[OF assms, of 0] no_faults[OF assms(1)] by (auto simp: execBatch_def db_call_def)

lemma days_restore:
  "ok d \<Longrightarrow> \<forall>day rs. map_of fs day = Some rs \<longrightarrow> dec ` set rs \<subseteq> orig \<Longrightarrow>
   \<exists>n d'. restore_days name ins fs days t d [] = (Inr n, d', []) \<and> ok d'
     \<and> set (tab d') = dec ` rows_in fs days \<union> set (tab d)"
proof (induction days arbitrary: d t)
  case (Cons day days)
  show ?case
  proof (cases "map_of fs day")
    case None
    then show ?thesis using Cons.IH[OF Cons.prems, of t] by auto
  next
    case (Some rows)
    show ?thesis
    proof (cases "rows = []")
      case True
      then show ?thesis using Some Cons.IH[OF Cons.prems, of t] by auto
    next
      case False
      obtain n d1 where e: "execBatch name ins rows d = (Inr n, d1)" "ok d1" "set (tab d1) = dec ` set rows \<union> set (tab d)"
        using exec_restores[of d rows name] Cons.prems Some by auto
      obtain m d2 where "restore_days name ins fs days (t + n) d1 [] = (Inr m, d2, [])" "ok d2"
          "set (tab d2) = dec ` rows_in fs days \<union> set (tab d1)"
        using Cons.IH[OF e(2) Cons.prems(2), of "t + n"] by blast
      then show ?thesis using Some False e by (simp add: image_Un Un_ac)
    qed
  qed
qed auto

end

text \<open>
  A database whose rows can be archived: the columns are in range, references hold, and an event of
  an order and a fill belongs to an order of that fill.
\<close>

definition event_consistent :: "db \<Rightarrow> ev_row \<Rightarrow> bool" where
  "event_consistent d e \<longleftrightarrow> (case (er_follower_order_id e, er_master_fill_id e) of
      (Some x, Some m) \<Rightarrow> list_ex (\<lambda>r. fr_id r = x \<and> fr_master_fill_id r = Some m) (follower_orders d) | _ \<Rightarrow> True)"

definition archivable :: "db \<Rightarrow> bool" where
  "archivable d \<longleftrightarrow> wf_db d \<and> list_all (\<lambda>r. pg_fill r \<and> is_json (mr_raw_payload r) \<and> account_exists d (mr_master_id r)) (master_fills d)
     \<and> list_all pg_order (follower_orders d)
     \<and> list_all (\<lambda>e. pg_time (er_occurred_at e) \<and> is_json (er_payload e) \<and> event_row_refs_ok d e \<and> event_consistent d e) (order_events d)"

definition part_of :: "db \<Rightarrow> db \<Rightarrow> bool" where
  "part_of d0 d \<longleftrightarrow> archivable d0 \<and> faults d = [] \<and> accounts d = accounts d0
     \<and> set (master_fills d) \<subseteq> set (master_fills d0) \<and> set (follower_orders d) \<subseteq> set (follower_orders d0)
     \<and> set (order_events d) \<subseteq> set (order_events d0)"

lemma ids_inj:
  assumes "distinct (map f rows)" "r \<in> set rows" "set part \<subseteq> set rows" "f r \<in> f ` set part"
  shows "r \<in> set part"
  using assms by (auto simp: distinct_map inj_on_def)

lemma part_ofD:
  assumes "part_of d0 d"
  shows "wf_fills d0" "wf_orders d0" "wf_trail d0" "accounts d = accounts d0" "faults d = []"
    "set (master_fills d) \<subseteq> set (master_fills d0)" "set (follower_orders d) \<subseteq> set (follower_orders d0)"
    "set (order_events d) \<subseteq> set (order_events d0)"
    "r \<in> set (master_fills d0) \<Longrightarrow> is_json (mr_raw_payload r) \<and> account_exists d0 (mr_master_id r)"
    "e \<in> set (order_events d0) \<Longrightarrow> is_json (er_payload e) \<and> event_row_refs_ok d0 e"
  using assms by (simp_all add: part_of_def archivable_def wf_db_def list_all_iff)

lemma fill_facts:
  assumes "part_of d0 d" "r \<in> set (master_fills d0)"
  shows "is_json (mr_raw_payload r)" "account_exists d (mr_master_id r)"
    "mr_id r \<in> mr_id ` set (master_fills d) \<Longrightarrow> r \<in> set (master_fills d)"
    "fill_key r \<in> fill_key ` set (master_fills d) \<Longrightarrow> r \<in> set (master_fills d)"
proof -
  note d0 = part_ofD[OF assms(1)]
  show "is_json (mr_raw_payload r)" "account_exists d (mr_master_id r)"
    using d0(4) d0(9)[OF assms(2)] by (simp_all add: account_exists_def)
  show "mr_id r \<in> mr_id ` set (master_fills d) \<Longrightarrow> r \<in> set (master_fills d)"
    using d0(1,6) by (rule_tac ids_inj[of mr_id "master_fills d0", OF _ assms(2)]) (simp_all add: wf_fills_def)
  show "fill_key r \<in> fill_key ` set (master_fills d) \<Longrightarrow> r \<in> set (master_fills d)"
    using d0(1,6) by (rule_tac ids_inj[of fill_key "master_fills d0", OF _ assms(2)]) (simp_all add: wf_fills_def)
qed

lemma order_facts:
  assumes "part_of d0 d" "r \<in> set (follower_orders d0)" "set (master_fills d) = set (master_fills d0)"
  shows "order_refs_ok d r" "fr_id r \<in> fr_id ` set (follower_orders d) \<Longrightarrow> r \<in> set (follower_orders d)"
    "tag_taken d (fr_idempotency_tag r) \<Longrightarrow> r \<in> set (follower_orders d)"
    "pair_taken d (fo_pair r) \<Longrightarrow> r \<in> set (follower_orders d)"
    "broker_id_taken d (fr_id r) (fr_follower_id r) (fr_broker_order_id r) \<Longrightarrow> r \<in> set (follower_orders d)"
proof -
  note d0 = part_ofD[OF assms(1)]
  have u: "unique_index fo_pair (follower_orders d0)" "unique_index fo_broker_key (follower_orders d0)" "order_refs_ok d0 r"
    using d0(2) assms(2) by (simp_all add: wf_orders_def)
  show "order_refs_ok d r" using u(3) d0(4) assms(3) by (simp add: order_refs_ok_def account_exists_def)
  show "fr_id r \<in> fr_id ` set (follower_orders d) \<Longrightarrow> r \<in> set (follower_orders d)"
    using d0(2,7) by (rule_tac ids_inj[of fr_id "follower_orders d0", OF _ assms(2)]) (simp_all add: wf_orders_def)
  show "tag_taken d (fr_idempotency_tag r) \<Longrightarrow> r \<in> set (follower_orders d)"
    using d0(2,7) by (rule_tac ids_inj[of fr_idempotency_tag "follower_orders d0", OF _ assms(2)]) (simp_all add: wf_orders_def tag_taken_def)
  show "r \<in> set (follower_orders d)" if taken: "pair_taken d (fo_pair r)"
  proof -
    obtain r' where "r' \<in> set (follower_orders d)" "fo_pair r = fo_pair r'" "fo_pair r \<noteq> None"
      using taken by (metis pair_taken_def image_iff set_map)
    then show ?thesis using unique_index_eq[OF u(1) assms(2), of r'] d0(7) by auto
  qed
  show "r \<in> set (follower_orders d)" if taken: "broker_id_taken d (fr_id r) (fr_follower_id r) (fr_broker_order_id r)"
  proof -
    obtain r' where "r' \<in> set (follower_orders d)" "fo_broker_key r = fo_broker_key r'" "fo_broker_key r \<noteq> None"
      using taken by (auto simp: broker_id_taken_def fo_broker_key_def)
    then show ?thesis using unique_index_eq[OF u(2) assms(2), of r'] d0(7) by auto
  qed
qed

lemma event_facts:
  assumes "part_of d0 d" "e \<in> set (order_events d0)"
    and "set (master_fills d) = set (master_fills d0)" "set (follower_orders d) = set (follower_orders d0)"
  shows "is_json (er_payload e)" "event_row_refs_ok d e" "er_id e \<in> er_id ` set (order_events d) \<Longrightarrow> e \<in> set (order_events d)"
proof -
  note d0 = part_ofD[OF assms(1)]
  show "is_json (er_payload e)" "event_row_refs_ok d e"
    using d0(10)[OF assms(2)] d0(4) assms(3,4) by (simp_all add: event_row_refs_ok_def account_exists_def)
  show "er_id e \<in> er_id ` set (order_events d) \<Longrightarrow> e \<in> set (order_events d)"
    using d0(3,8) by (rule_tac ids_inj[of er_id "order_events d0", OF _ assms(2)]) (simp_all add: wf_trail_def)
qed

definition fills_ok :: "db \<Rightarrow> db \<Rightarrow> db \<Rightarrow> bool" where
  "fills_ok d0 base d \<longleftrightarrow> part_of d0 d \<and> d\<lparr> master_fills := [] \<rparr> = base\<lparr> master_fills := [] \<rparr>"

definition orders_ok :: "db \<Rightarrow> db \<Rightarrow> db \<Rightarrow> bool" where
  "orders_ok d0 base d \<longleftrightarrow> part_of d0 d \<and> set (master_fills d) = set (master_fills d0)
     \<and> d\<lparr> follower_orders := [] \<rparr> = base\<lparr> follower_orders := [] \<rparr>"

definition events_ok :: "db \<Rightarrow> db \<Rightarrow> db \<Rightarrow> bool" where
  "events_ok d0 base d \<longleftrightarrow> part_of d0 d \<and> set (master_fills d) = set (master_fills d0)
     \<and> set (follower_orders d) = set (follower_orders d0) \<and> d\<lparr> order_events := [] \<rparr> = base\<lparr> order_events := [] \<rparr>"

interpretation rf: table_restore restore_fill parquet_fill master_fills "fills_ok d0 base" "set (master_fills d0)"
proof unfold_locales
  fix d p assume ok: "fills_ok d0 base d" "parquet_fill p \<in> set (master_fills d0)"
  then have part: "part_of d0 d" by (simp add: fills_ok_def)
  note facts = fill_facts[OF part ok(2)]
  have "fills_ok d0 base (d\<lparr> master_fills := master_fills d @ [parquet_fill p] \<rparr>)"
    using ok by (simp add: fills_ok_def part_of_def)
  then show "\<exists>n d'. restore_fill p d = (Inr n, d') \<and> fills_ok d0 base d'
      \<and> set (master_fills d') = insert (parquet_fill p) (set (master_fills d))"
    using facts ok(1) by (cases "parquet_fill p \<in> set (master_fills d)") (auto simp: restore_fill_def Let_def insert_absorb)
qed (simp add: fills_ok_def part_of_def)

interpretation ro: table_restore restore_order parquet_order follower_orders "orders_ok d0 base" "set (follower_orders d0)"
proof unfold_locales
  fix d p assume ok: "orders_ok d0 base d" "parquet_order p \<in> set (follower_orders d0)"
  then have part: "part_of d0 d" "set (master_fills d) = set (master_fills d0)" by (simp_all add: orders_ok_def)
  note facts = order_facts[OF part(1) ok(2) part(2)]
  have "orders_ok d0 base (d\<lparr> follower_orders := follower_orders d @ [parquet_order p] \<rparr>)"
    using ok by (simp add: orders_ok_def part_of_def)
  then show "\<exists>n d'. restore_order p d = (Inr n, d') \<and> orders_ok d0 base d'
      \<and> set (follower_orders d') = insert (parquet_order p) (set (follower_orders d))"
    using facts ok(1) by (cases "parquet_order p \<in> set (follower_orders d)") (auto simp: restore_order_def Let_def insert_absorb)
qed (simp add: orders_ok_def part_of_def)

interpretation re: table_restore restore_event parquet_event order_events "events_ok d0 base" "set (order_events d0)"
proof unfold_locales
  fix d p assume ok: "events_ok d0 base d" "parquet_event p \<in> set (order_events d0)"
  then have part: "part_of d0 d" "set (master_fills d) = set (master_fills d0)" "set (follower_orders d) = set (follower_orders d0)"
    by (simp_all add: events_ok_def)
  note facts = event_facts[OF part(1) ok(2) part(2,3)]
  have "events_ok d0 base (d\<lparr> order_events := order_events d @ [parquet_event p] \<rparr>)"
    using ok by (simp add: events_ok_def part_of_def)
  then show "\<exists>n d'. restore_event p d = (Inr n, d') \<and> events_ok d0 base d'
      \<and> set (order_events d') = insert (parquet_event p) (set (order_events d))"
    using facts ok(1) by (cases "parquet_event p \<in> set (order_events d)") (auto simp: restore_event_def Let_def insert_absorb)
qed (simp add: events_ok_def part_of_def)

section \<open>An archive run without failures\<close>

lemma by_id_dom: "k \<in> ident ` set rows \<Longrightarrow> \<exists>r\<in>set rows. by_id ident rows m k = Some r"
proof (induction rows arbitrary: m)
  case (Cons x rows)
  show ?case
  proof (cases "k \<in> ident ` set rows")
    case True
    obtain r where "r \<in> set rows" "by_id ident rows (m(ident x \<mapsto> x)) k = Some r" using Cons.IH[OF True] by blast
    then show ?thesis unfolding by_id_Cons by (intro bexI[of _ r]) auto
  next
    case False
    then show ?thesis unfolding by_id_Cons using Cons.prems by_id_other[OF False, of "m(ident x \<mapsto> x)"] by auto
  qed
qed simp

lemma merge_rows_subset: "set (merge_rows ident old new) \<subseteq> set old \<union> set new"
proof -
  have "the (by_id ident new (by_id ident old Map.empty) k) \<in> set old \<union> set new" if "k \<in> ident ` set (old @ new)" for k
  proof (cases "k \<in> ident ` set new")
    case True
    then show ?thesis using by_id_dom[OF True, of "by_id ident old Map.empty"] by auto
  next
    case False
    then have "k \<in> ident ` set old" using that by auto
    then show ?thesis using by_id_dom[of k ident old Map.empty] by_id_other[OF False, of "by_id ident old Map.empty"] by auto
  qed
  then show ?thesis by (auto simp: merge_rows_def Let_def)
qed

definition files_in :: "'r partitions \<Rightarrow> 'r set \<Rightarrow> bool" where
  "files_in fs A \<longleftrightarrow> (\<forall>day rs. map_of fs day = Some rs \<longrightarrow> set rs \<subseteq> A)"

lemma write_days_runs:
  "files_in fs (set rows) \<Longrightarrow> \<exists>ds fs'. write_days table tm ident rows days fs [] = (Inr ds, fs', []) \<and> files_in fs' (set rows)"
proof (induction days arbitrary: fs)
  case (Cons day days)
  obtain fs1 where w: "writeParquetWithMerge ident day (groupRowsByDate tm rows day) fs [] = (Inr (), fs1, [])"
    by (simp add: writeParquetWithMerge_def)
  have "set (groupRowsByDate tm rows day) \<subseteq> set rows" by (auto simp: groupRowsByDate_def)
  then have "files_in fs1 (set rows)"
    using Cons.prems write_day_cases[OF w] merge_rows_subset[of ident _ "groupRowsByDate tm rows day"]
    by (fastforce simp: files_in_def split: option.splits if_splits)
  from Cons.IH[OF this] show ?case using w by auto
qed simp

lemma table_runs:
  assumes "covers days_order" "distinct (map ident rows)"
  shows "\<exists>ds fs. writeTablePartitions days_order table tm ident rows [] [] = (Inr ds, fs, []) \<and> files_in fs (set rows)
    \<and> list_all (filed tm fs) rows"
proof -
  have "files_in [] (set rows)" by (simp add: files_in_def)
  from write_days_runs[OF this] obtain ds fs where
    w: "writeTablePartitions days_order table tm ident rows [] [] = (Inr ds, fs, [])" "files_in fs (set rows)"
    unfolding writeTablePartitions_def by blast
  then show ?thesis using table_filed[OF w(1) assms] by (auto simp: list_all_iff)
qed

definition empty_archive :: "db \<Rightarrow> archive_world" where
  "empty_archive d = \<lparr> aw_db = d, aw_fills = [], aw_orders = [], aw_events = [], aw_io = [] \<rparr>"

lemma archive_write_runs:
  assumes "covers days_order" "distinct (map fr_id fos)" "distinct (map mr_id mfs)" "distinct (map er_id oes)"
  shows "\<exists>files w. archive_write days_order fos mfs oes (empty_archive d) = (Inr files, w) \<and> aw_db w = d \<and> aw_io w = []
    \<and> all_filed fos mfs oes w \<and> files_in (aw_orders w) (set fos) \<and> files_in (aw_fills w) (set mfs) \<and> files_in (aw_events w) (set oes)"
proof -
  obtain d1 f1 where t1: "writeTablePartitions days_order ''follower_orders'' fr_created_at fr_id fos [] [] = (Inr d1, f1, [])"
      "files_in f1 (set fos)" "list_all (filed fr_created_at f1) fos" using table_runs[OF assms(1,2)] by blast
  obtain d2 f2 where t2: "writeTablePartitions days_order ''master_fills'' mr_received_at mr_id mfs [] [] = (Inr d2, f2, [])"
      "files_in f2 (set mfs)" "list_all (filed mr_received_at f2) mfs" using table_runs[OF assms(1,3)] by blast
  obtain d3 f3 where t3: "writeTablePartitions days_order ''order_events'' er_occurred_at er_id oes [] [] = (Inr d3, f3, [])"
      "files_in f3 (set oes)" "list_all (filed er_occurred_at f3) oes" using table_runs[OF assms(1,4)] by blast
  show ?thesis using t1 t2 t3 by (simp add: archive_write_def empty_archive_def all_filed_def)
qed

lemma plan_unreferenced:
  assumes "archivable d"
  shows "unreferenced (map fr_id (plan_orders cutoff d)) (map mr_id (plan_fills cutoff d)) (map er_id (plan_events cutoff d)) d"
proof -
  let ?fo = "map fr_id (plan_orders cutoff d)" and ?mf = "map mr_id (plan_fills cutoff d)"
  have kept: "\<not> eligible_event ?fo ?mf e" if "e \<in> set (order_events d)" "er_id e \<notin> er_id ` set (plan_events cutoff d)" for e
    using that by (auto simp: plan_events_def)
  have fill: "fr_id r \<in> set ?fo" if "r \<in> set (follower_orders d)" "fr_master_fill_id r = Some m" "m \<in> set ?mf" for r m
    using that by (auto simp: plan_fills_def eligible_fill_def list_ex_iff)
  have "\<not> er_master_fill_id e \<in> Some ` set ?mf"
    if e: "e \<in> set (order_events d)" "er_id e \<notin> er_id ` set (plan_events cutoff d)" for e
  proof
    assume m: "er_master_fill_id e \<in> Some ` set ?mf"
    then obtain x m where x: "er_follower_order_id e = Some x" "er_master_fill_id e = Some m" "m \<in> set ?mf"
      using kept[OF e] by (cases "er_follower_order_id e") (auto simp: eligible_event_def)
    have "event_consistent d e" using assms e(1) by (simp add: archivable_def list_all_iff)
    then obtain r where "r \<in> set (follower_orders d)" "fr_id r = x" "fr_master_fill_id r = Some m"
      using x by (auto simp: event_consistent_def list_ex_iff)
    then have "x \<in> set ?fo" using fill x(3) by blast
    then show False using kept[OF e] x(1) by (simp add: eligible_event_def)
  qed
  moreover have "\<not> er_follower_order_id e \<in> Some ` set ?fo"
    if e: "e \<in> set (order_events d)" "er_id e \<notin> er_id ` set (plan_events cutoff d)" for e
    using kept[OF e] by (simp add: eligible_event_def)
  ultimately show ?thesis using fill by (fastforce simp: unreferenced_def Let_def list_ex_iff)
qed

lemma plan_runs:
  assumes "faults d = []"
  shows "archive_plan cutoff d = (Inr (map order_parquet (plan_orders cutoff d), map fill_parquet (plan_fills cutoff d),
    map event_parquet (plan_events cutoff d)), d)"
proof -
  let ?fo = "map fr_id (plan_orders cutoff d)" and ?mf = "map mr_id (plan_fills cutoff d)"
  have "plan_events cutoff d = []" if "?fo = []" "?mf = []"
    unfolding plan_events_def that by (simp add: eligible_event_def[abs_def])
  then have "fetchEligibleOrderEvents ?fo ?mf d = (Inr (map event_parquet (plan_events cutoff d)), d)"
    using assms by (simp add: fetchEligibleOrderEvents_def db_call_def) (simp add: plan_events_def)
  moreover have "fetchEligibleMasterFills cutoff ?fo d = (Inr (map fill_parquet (plan_fills cutoff d)), d)"
    using assms by (simp add: fetchEligibleMasterFills_def db_call_def plan_fills_def)
  moreover have "fetchTerminalFollowerOrders cutoff d = (Inr (map order_parquet (plan_orders cutoff d)), d)"
    using assms by (simp add: fetchTerminalFollowerOrders_def db_call_def plan_orders_def)
  ultimately show ?thesis by (simp add: archive_plan_def)
qed

lemma archive_runs:
  assumes "archivable d" "faults d = []" "covers days_order"
  shows "\<exists>a w. Archive days_order cutoff (empty_archive d) = (Inr a, w) \<and> aw_io w = []
    \<and> aw_db w = without (map fr_id (plan_orders cutoff d)) (map mr_id (plan_fills cutoff d)) (map er_id (plan_events cutoff d)) d
    \<and> all_filed (map order_parquet (plan_orders cutoff d)) (map fill_parquet (plan_fills cutoff d)) (map event_parquet (plan_events cutoff d)) w
    \<and> files_in (aw_orders w) (order_parquet ` set (plan_orders cutoff d)) \<and> files_in (aw_fills w) (fill_parquet ` set (plan_fills cutoff d))
    \<and> files_in (aw_events w) (event_parquet ` set (plan_events cutoff d))"
proof -
  let ?fo = "plan_orders cutoff d" and ?mf = "plan_fills cutoff d" and ?ev = "plan_events cutoff d"
  have wf: "wf_db d" using assms(1) by (simp add: archivable_def)
  show ?thesis
  proof (cases "?fo = [] \<and> ?mf = [] \<and> ?ev = []")
    case True
    then show ?thesis using plan_runs[OF assms(2), of cutoff]
      by (simp add: Archive_def empty_archive_def without_def all_filed_def files_in_def)
  next
    case False
    obtain files w where wr: "archive_write days_order (map order_parquet ?fo) (map fill_parquet ?mf) (map event_parquet ?ev) (empty_archive d)
        = (Inr files, w)" "aw_db w = d" "aw_io w = []" "all_filed (map order_parquet ?fo) (map fill_parquet ?mf) (map event_parquet ?ev) w"
        "files_in (aw_orders w) (order_parquet ` set ?fo)" "files_in (aw_fills w) (fill_parquet ` set ?mf)"
        "files_in (aw_events w) (event_parquet ` set ?ev)"
      using archive_write_runs[OF assms(3), of "map order_parquet ?fo" "map fill_parquet ?mf" "map event_parquet ?ev" d]
        plan_distinct[OF wf, of cutoff] by auto
    obtain n where p: "archive_purge (map fr_id ?fo) (map mr_id ?mf) (map er_id ?ev) d
        = (Inr n, without (map fr_id ?fo) (map mr_id ?mf) (map er_id ?ev) d)"
      using purge_rows_eq(1)[OF plan_unreferenced[OF assms(1), of cutoff]] assms(2) by (auto simp: archive_purge_def db_call_def)
    have "(empty_archive d)\<lparr> aw_db := d \<rparr> = empty_archive d" by (simp add: empty_archive_def)
    then show ?thesis using plan_runs[OF assms(2), of cutoff] False wr p
      by (cases n) (auto simp: Archive_def all_filed_def, simp_all add: empty_archive_def)
  qed
qed

section \<open>Restoring what was archived\<close>

lemma rows_back:
  assumes "files_in fs (enc ` set plan)" "list_all (filed tm fs) (map enc plan)" "\<And>r. r \<in> set plan \<Longrightarrow> dec (enc r) = r"
    and "set (map fst fs) \<subseteq> set days"
  shows "dec ` rows_in fs days = set plan"
proof
  show "dec ` rows_in fs days \<subseteq> set plan"
    using assms(1,3) by (fastforce simp: rows_in_def files_in_def split: option.splits)
  show "set plan \<subseteq> dec ` rows_in fs days"
  proof
    fix r assume r: "r \<in> set plan"
    then obtain day rs where f: "map_of fs day = Some rs" "enc r \<in> set rs" using assms(2) by (auto simp: list_all_iff filed_def)
    then have "day \<in> set days" using assms(4) map_of_SomeD[OF f(1)] by force
    then have "enc r \<in> rows_in fs days" using f by (auto simp: rows_in_def intro!: bexI[of _ day])
    then show "r \<in> dec ` rows_in fs days" using assms(3)[OF r] by force
  qed
qed

lemma rows_inside:
  assumes "dec ` rows_in fs days \<subseteq> orig" "set (map fst fs) \<subseteq> set days"
  shows "\<forall>day rs. map_of fs day = Some rs \<longrightarrow> dec ` set rs \<subseteq> orig"
  using assms map_of_SomeD by (fastforce simp: rows_in_def split: option.splits)

lemma plan_and_rest:
  assumes "distinct (map ident rows)" "set plan \<subseteq> set rows"
  shows "set plan \<union> set (filter (\<lambda>r. ident r \<notin> ident ` set plan) rows) = set rows"
  using assms ids_inj[OF assms(1) _ assms(2)] by auto

lemma archivableD:
  assumes "archivable d"
  shows "wf_db d" "r \<in> set (master_fills d) \<Longrightarrow> pg_fill r" "x \<in> set (follower_orders d) \<Longrightarrow> pg_order x"
    "e \<in> set (order_events d) \<Longrightarrow> pg_time (er_occurred_at e)"
  using assms by (simp_all add: archivable_def list_all_iff)

lemma plan_back:
  assumes "archivable d"
  shows "r \<in> set (plan_orders cutoff d) \<Longrightarrow> parquet_order (order_parquet r) = r"
    "m \<in> set (plan_fills cutoff d) \<Longrightarrow> parquet_fill (fill_parquet m) = m"
    "e \<in> set (plan_events cutoff d) \<Longrightarrow> parquet_event (event_parquet e) = e"
  using order_roundtrip[OF archivableD(3)[OF assms], OF subsetD[OF plan_subset(1)]]
    fill_roundtrip[OF archivableD(2)[OF assms], OF subsetD[OF plan_subset(2)]]
    event_roundtrip[OF archivableD(4)[OF assms], OF subsetD[OF plan_subset(3)]] by blast+

lemma fills_ok_rest:
  assumes "fills_ok d0 base d"
  shows "follower_orders d = follower_orders base" "order_events d = order_events base"
proof -
  have eq: "d\<lparr> master_fills := [] \<rparr> = base\<lparr> master_fills := [] \<rparr>" using assms by (simp only: fills_ok_def)
  show "follower_orders d = follower_orders base" using arg_cong[OF eq, of follower_orders] by simp
  show "order_events d = order_events base" using arg_cong[OF eq, of order_events] by simp
qed

lemma orders_ok_rest:
  assumes "orders_ok d0 base d"
  shows "order_events d = order_events base"
proof -
  have eq: "d\<lparr> follower_orders := [] \<rparr> = base\<lparr> follower_orders := [] \<rparr>" using assms by (simp only: orders_ok_def)
  show ?thesis using arg_cong[OF eq, of order_events] by simp
qed

lemma restore_runs:
  assumes "archivable d" "part_of d (aw_db w)" "aw_io w = []"
    and fo: "parquet_order ` rows_in (aw_orders w) days \<union> set (follower_orders (aw_db w)) = set (follower_orders d)"
    and mf: "parquet_fill ` rows_in (aw_fills w) days \<union> set (master_fills (aw_db w)) = set (master_fills d)"
    and ev: "parquet_event ` rows_in (aw_events w) days \<union> set (order_events (aw_db w)) = set (order_events d)"
    and days: "days = discoverDatePartitions w None None" "days \<noteq> []"
  shows "\<exists>b w'. Restore None None w = (Inr b, w') \<and> set (follower_orders (aw_db w')) = set (follower_orders d)
    \<and> set (master_fills (aw_db w')) = set (master_fills d) \<and> set (order_events (aw_db w')) = set (order_events d)"
proof -
  have dir: "set (map fst (aw_fills w)) \<subseteq> set days" "set (map fst (aw_orders w)) \<subseteq> set days" "set (map fst (aw_events w)) \<subseteq> set days"
    using days(1) by (auto simp: discoverDatePartitions_def)
  have inside: "\<forall>day rs. map_of (aw_fills w) day = Some rs \<longrightarrow> parquet_fill ` set rs \<subseteq> set (master_fills d)"
      "\<forall>day rs. map_of (aw_orders w) day = Some rs \<longrightarrow> parquet_order ` set rs \<subseteq> set (follower_orders d)"
      "\<forall>day rs. map_of (aw_events w) day = Some rs \<longrightarrow> parquet_event ` set rs \<subseteq> set (order_events d)"
    using rows_inside[OF equalityD1[OF mf, THEN Un_upper1[THEN subset_trans]] dir(1)]
      rows_inside[OF equalityD1[OF fo, THEN Un_upper1[THEN subset_trans]] dir(2)]
      rows_inside[OF equalityD1[OF ev, THEN Un_upper1[THEN subset_trans]] dir(3)] .
  have ok0: "fills_ok d (aw_db w) (aw_db w)" using assms(2) by (simp add: fills_ok_def)
  obtain n1 d1 where r1: "restore_days ''master fill'' restore_fill (aw_fills w) days 0 (aw_db w) [] = (Inr n1, d1, [])"
      "fills_ok d (aw_db w) d1" "set (master_fills d1) = set (master_fills d)"
    using rf.days_restore[OF ok0 inside(1), of "''master fill''" days 0] unfolding mf by blast
  have ok1: "orders_ok d d1 d1" using r1(2,3) by (simp add: fills_ok_def orders_ok_def)
  note kept1 = fills_ok_rest[OF r1(2)]
  obtain n2 d2 where r2: "restore_days ''follower order'' restore_order (aw_orders w) days 0 d1 [] = (Inr n2, d2, [])"
      "orders_ok d d1 d2" "set (follower_orders d2) = set (follower_orders d)"
    using ro.days_restore[OF ok1 inside(2), of "''follower order''" days 0] unfolding kept1 fo by blast
  have ok2: "events_ok d d2 d2" using r2(2,3) by (simp add: events_ok_def orders_ok_def)
  note kept2 = orders_ok_rest[OF r2(2)]
  obtain n3 d3 where r3: "restore_days ''order event'' restore_event (aw_events w) days 0 d2 [] = (Inr n3, d3, [])"
      "events_ok d d2 d3" "set (order_events d3) = set (order_events d)"
    using re.days_restore[OF ok2 inside(3), of "''order event''" days 0] unfolding kept2 kept1 ev by blast
  have "faults d3 = []" "set (master_fills d3) = set (master_fills d)" "set (follower_orders d3) = set (follower_orders d)"
    using r3(2) by (auto simp: events_ok_def part_of_def)
  then show ?thesis using r1(1) r2(1) r3(1,3) assms(3) days
    by (simp add: Restore_all restore_partitions_def resync_defs db_call_def)
qed

text \<open>
  C17 A restore undoes an archive: starting from an empty archive and without failures, archiving a
  database up to any cutoff and restoring all days succeeds and gives back exactly the same fills,
  orders and events; in between no terminal order up to the cutoff is in the database.
\<close>
theorem archive_restore_roundtrip:
  assumes "archivable d" and "faults d = []" and "covers days_order"
  shows "\<exists>a w b w'. Archive days_order cutoff (empty_archive d) = (Inr a, w) \<and> Restore None None w = (Inr b, w')
    \<and> \<not> list_ex (terminal_order cutoff) (follower_orders (aw_db w))
    \<and> set (master_fills (aw_db w')) = set (master_fills d) \<and> set (follower_orders (aw_db w')) = set (follower_orders d)
    \<and> set (order_events (aw_db w')) = set (order_events d)"
proof -
  let ?fo = "plan_orders cutoff d" and ?mf = "plan_fills cutoff d" and ?ev = "plan_events cutoff d"
  note ids = wf_ids[OF archivableD(1)[OF assms(1)]]
  obtain a w where w: "Archive days_order cutoff (empty_archive d) = (Inr a, w)" "aw_io w = []"
      "aw_db w = without (map fr_id ?fo) (map mr_id ?mf) (map er_id ?ev) d"
      "all_filed (map order_parquet ?fo) (map fill_parquet ?mf) (map event_parquet ?ev) w"
      "files_in (aw_orders w) (order_parquet ` set ?fo)" "files_in (aw_fills w) (fill_parquet ` set ?mf)"
      "files_in (aw_events w) (event_parquet ` set ?ev)"
    using archive_runs[OF assms, of cutoff] by blast
  define days where "days = discoverDatePartitions w None None"
  have dir: "set (map fst (aw_fills w)) \<subseteq> set days" "set (map fst (aw_orders w)) \<subseteq> set days" "set (map fst (aw_events w)) \<subseteq> set days"
    by (auto simp: days_def discoverDatePartitions_def)
  have filed: "list_all (filed fr_created_at (aw_orders w)) (map order_parquet ?fo)" "list_all (filed mr_received_at (aw_fills w)) (map fill_parquet ?mf)"
      "list_all (filed er_occurred_at (aw_events w)) (map event_parquet ?ev)" using w(4) by (simp_all only: all_filed_def)
  have home: "parquet_order ` rows_in (aw_orders w) days = set ?fo" "parquet_fill ` rows_in (aw_fills w) days = set ?mf"
      "parquet_event ` rows_in (aw_events w) days = set ?ev"
    using rows_back[OF w(5) filed(1) plan_back(1)[OF assms(1), where cutoff = cutoff] dir(2)]
      rows_back[OF w(6) filed(2) plan_back(2)[OF assms(1), where cutoff = cutoff] dir(1)]
      rows_back[OF w(7) filed(3) plan_back(3)[OF assms(1), where cutoff = cutoff] dir(3)] by simp_all
  have rest: "set ?fo \<union> set (follower_orders (aw_db w)) = set (follower_orders d)" "set ?mf \<union> set (master_fills (aw_db w)) = set (master_fills d)"
      "set ?ev \<union> set (order_events (aw_db w)) = set (order_events d)"
    using plan_and_rest[OF ids(1) plan_subset(1)] plan_and_rest[OF ids(2) plan_subset(2)] plan_and_rest[OF ids(3) plan_subset(3)]
    by (simp_all add: w(3) without_def)
  have part: "part_of d (aw_db w)" using assms(1,2) by (auto simp: part_of_def w(3) without_def)
  have gone: "\<not> list_ex (terminal_order cutoff) (follower_orders (aw_db w))"
    by (auto simp: w(3) without_def list_ex_iff plan_orders_def)
  show ?thesis
  proof (cases "days = []")
    case True
    then have "Restore None None w = (Inr \<lparr> rsu_MasterFillsRestored = 0, rsu_FollowerOrdersRestored = 0,
        rsu_OrderEventsRestored = 0, rsu_PartitionsRestored = [] \<rparr>, w)" by (simp add: Restore_all[OF w(2)] restore_partitions_def days_def)
    moreover have "set ?fo = {}" "set ?mf = {}" "set ?ev = {}" using home True by simp_all
    ultimately show ?thesis using w(1) rest gone by auto
  next
    case False
    then show ?thesis using restore_runs[OF assms(1) part w(2), of days] home rest days_def w(1) gone by auto
  qed
qed

section \<open>The trading day\<close>

text \<open>
  The daily archive does not reopen the day: after a run with the default cutoff, whatever failed in
  it, a fill received on the current trading day is still stored, so delivering it again is still
  refused as a duplicate and is not copied a second time.
\<close>
theorem archive_keeps_today:
  assumes "wf_db (aw_db w)" and "covers days_order" and "Routine_RunOnce days_order EnvNone w = (r, w')"
    and "x \<in> set (master_fills (aw_db w))" and "ist_day (mr_received_at x) = ist_day (db_now (aw_db w))"
    and "fill_key (fill_row f d) = fill_key x" and "is_json (mf_RawPayload f)" and "faults (aw_db w') = []"
  shows "x \<in> set (master_fills (aw_db w')) \<and> InsertMasterFill f (aw_db w') = (Inl ErrDuplicate, aw_db w')"
proof -
  let ?cutoff = "DefaultCutoff EnvNone (db_now (aw_db w))"
  have run: "Archive days_order ?cutoff w = (r, w')" using assms(3) by (simp add: Routine_RunOnce_def)
  have late: "?cutoff < mr_received_at x"
    using ist_midnight_day[of "mr_received_at x"] assms(5) by simp
  have "x \<in> set (master_fills (aw_db w'))"
    using run assms(1,2)
  proof (cases rule: archive_cases)
    case (archived s fs)
    have "mr_id x \<notin> mr_id ` set (plan_fills ?cutoff (aw_db w))"
    proof
      assume "mr_id x \<in> mr_id ` set (plan_fills ?cutoff (aw_db w))"
      then have "x \<in> set (plan_fills ?cutoff (aw_db w))"
        using assms(4) plan_subset(2)[of ?cutoff "aw_db w"] wf_ids(2)[OF assms(1)] by (auto simp: distinct_map inj_on_def)
      then show False using late by (simp add: plan_fills_def eligible_fill_def)
    qed
    then show ?thesis unfolding archived(2) using assms(4) by (simp add: without_def)
  qed (use assms in auto)
  moreover from this have "fill_key (fill_row f (aw_db w')) \<in> fill_key ` set (master_fills (aw_db w'))"
    using assms(6) by (force simp: fill_key_def fill_row_def)
  ultimately show ?thesis using assms(7,8) by (simp add: InsertMasterFill_def db_call_def Let_def)
qed

section \<open>Witnesses\<close>

definition ex_old_fill :: "int \<Rightarrow> string \<Rightarrow> gotime \<Rightarrow> mf_row" where
  "ex_old_fill i b t = (fill_row (ex_fill\<lparr> mf_BrokerOrderID := b, mf_OrderTimestamp := t \<rparr>) ex_db)\<lparr>
     mr_id := i, mr_received_at := t, mr_dispatch_state := ''dispatched'', mr_dispatched_at := Some t \<rparr>"

definition ex_old_order :: fo_row where
  "ex_old_order = (order_row (Some 1) (ex_order ''f'' ''t1'') ex_db)\<lparr>
     fr_terminal_status := Some ''COMPLETE'', fr_created_at := unix_epoch, fr_updated_at := unix_epoch \<rparr>"

definition ex_old_event :: ev_row where
  "ex_old_event = \<lparr> er_id = 1, er_follower_order_id = Some 1, er_master_fill_id = Some 1, er_account_id = ''f'',
     er_event_type = ''placed'', er_payload = RawJson JNull, er_occurred_at = unix_epoch \<rparr>"

definition ex_old_db :: db where
  "ex_old_db = ex_db\<lparr> master_fills := [ex_old_fill 1 ''b1'' unix_epoch], follower_orders := [ex_old_order],
     order_events := [ex_old_event], mf_next := 2, fo_next := 2, ev_next := 2, db_now := unix_epoch \<rparr>"

lemmas ex_old_defs = ex_old_db_def ex_old_fill_def ex_old_order_def ex_old_event_def order_row_def fill_row_def ex_defs

lemma ex_old_archivable: "archivable ex_old_db" "faults ex_old_db = []" "covers id"
  by (simp_all add: archivable_def wf_db_def wf_fills_def wf_orders_def wf_trail_def unique_index_def ex_old_defs
      order_refs_ok_def account_exists_def event_row_refs_ok_def event_consistent_def pg_fill_def pg_order_def pg_time_def
      in64_def in32_def wrap32_id covers_def)

theorem archive_restore_roundtrip_witness:
  "\<exists>a w b w'. Archive id unix_epoch (empty_archive ex_old_db) = (Inr a, w) \<and> Restore None None w = (Inr b, w')
    \<and> \<not> list_ex (terminal_order unix_epoch) (follower_orders (aw_db w)) \<and> set (follower_orders (aw_db w')) = {ex_old_order}"
proof -
  have "follower_orders ex_old_db = [ex_old_order]" by (simp add: ex_old_db_def)
  then show ?thesis using archive_restore_roundtrip[OF ex_old_archivable, of unix_epoch] by auto
qed

theorem archive_loses_nothing_witness:
  "wf_db (aw_db (snd (Archive id unix_epoch (empty_archive ex_old_db))))
    \<and> moved order_parquet fr_created_at (aw_orders (snd (Archive id unix_epoch (empty_archive ex_old_db)))) [ex_old_order]
        (follower_orders (aw_db (snd (Archive id unix_epoch (empty_archive ex_old_db)))))"
proof -
  have "wf_db (aw_db (empty_archive ex_old_db))" "follower_orders (aw_db (empty_archive ex_old_db)) = [ex_old_order]"
    using archivableD(1)[OF ex_old_archivable(1)] by (simp_all add: empty_archive_def ex_old_db_def)
  then show ?thesis
    using archive_loses_nothing[OF _ ex_old_archivable(3), of "empty_archive ex_old_db" unix_epoch
      "fst (Archive id unix_epoch (empty_archive ex_old_db))" "snd (Archive id unix_epoch (empty_archive ex_old_db))"] by simp
qed

theorem archive_keeps_today_witness:
  "InsertMasterFill ex_fill (aw_db (snd (Routine_RunOnce id EnvNone (empty_archive ex_old_db))))
     = (Inl ErrDuplicate, aw_db (snd (Routine_RunOnce id EnvNone (empty_archive ex_old_db))))"
proof -
  let ?w = "empty_archive ex_old_db"
  have "plan_orders (DefaultCutoff EnvNone unix_epoch) ex_old_db = []" "plan_fills (DefaultCutoff EnvNone unix_epoch) ex_old_db = []"
      "plan_events (DefaultCutoff EnvNone unix_epoch) ex_old_db = []"
    using ist_midnight_day[of unix_epoch]
    by (simp_all add: plan_orders_def plan_fills_def plan_events_def terminal_order_def eligible_fill_def eligible_event_def ex_old_defs)
  then have kept: "aw_db (snd (Routine_RunOnce id EnvNone ?w)) = ex_old_db"
    using plan_runs[OF ex_old_archivable(2)] by (simp add: Routine_RunOnce_def Archive_def empty_archive_def ex_old_db_def)
  have w: "aw_db ?w = ex_old_db" by (simp add: empty_archive_def)
  have x: "ex_old_fill 1 ''b1'' unix_epoch \<in> set (master_fills (aw_db ?w))"
      "ist_day (mr_received_at (ex_old_fill 1 ''b1'' unix_epoch)) = ist_day (db_now (aw_db ?w))"
      "fill_key (fill_row ex_fill ex_db) = fill_key (ex_old_fill 1 ''b1'' unix_epoch)" "is_json (mf_RawPayload ex_fill)"
    unfolding w by (simp_all add: ex_old_db_def ex_old_fill_def fill_key_def fill_row_def ex_fill_def)
  have wf: "wf_db (aw_db ?w)" using archivableD(1)[OF ex_old_archivable(1)] by (simp add: w)
  have run: "Routine_RunOnce id EnvNone ?w = (fst (Routine_RunOnce id EnvNone ?w), snd (Routine_RunOnce id EnvNone ?w))" by simp
  show ?thesis
    using archive_keeps_today[OF wf ex_old_archivable(3) run x] ex_old_archivable(2) unfolding kept by blast
qed

text \<open>
  A restore of some days can make a later restore drop archived rows without an error. Two fills of two
  days are archived; the first day is restored, which sets the id sequence back to the largest id in
  the table; the next new fill then gets the id of the fill that is still archived, and restoring all
  days skips the archived fill as already present.
\<close>
theorem partial_restore_loses_row:
  "let d = ex_db\<lparr> master_fills := [ex_old_fill 1 ''b1'' unix_epoch, ex_old_fill 2 ''b2'' (unix_epoch + 24 * Hour)], mf_next := 3,
             db_now := unix_epoch + 48 * Hour \<rparr>;
       w1 = snd (Archive id (unix_epoch + 24 * Hour) (empty_archive d));
       w2 = snd (Restore (Some unix_epoch) (Some unix_epoch) w1);
       w3 = w2\<lparr> aw_db := snd (InsertMasterFill (ex_fill\<lparr> mf_BrokerOrderID := ''b3'' \<rparr>) (aw_db w2)) \<rparr>;
       (r, w4) = Restore None None w3
   in master_fills (aw_db w1) = [] \<and> r = Inr \<lparr> rsu_MasterFillsRestored = 0, rsu_FollowerOrdersRestored = 0,
         rsu_OrderEventsRestored = 0, rsu_PartitionsRestored = [ist_day unix_epoch, ist_day unix_epoch + 1] \<rparr>
      \<and> map mr_broker_order_id (master_fills (aw_db w4)) = [''b1'', ''b3'']"
  by code_simp

end
