(* ===== verification/Site.thy ===== *)
theory Site
  imports Accounts_View
begin

text \<open>
  Users, sessions and account quotas in the store (\<open>internal/store/postgres/auth.go\<close>, queries
  \<open>auth.sql\<close>). A \<open>site\<close> is the database of the other theories with the tables the
  HTTP API adds: users, sessions and the pool of proxy addresses. Its statements use the
  clock and the failure script of that database. A row of \<open>users\<close> has the columns of
  \<open>domain.User\<close>, a row of \<open>sessions\<close> those of \<open>domain.Session\<close>. The JSON column of broker limits
  is an association list.
\<close>

section \<open>Tables\<close>

record User =
  u_ID :: uuid
  u_Email :: string
  u_Username :: string
  u_Name :: string
  u_Phone :: string
  u_Address :: string
  u_GSTNumber :: string
  u_PasswordHash :: string
  u_Role :: string
  u_Active :: bool
  u_MaxIPs :: int
  u_BrokerIPLimits :: "(string \<times> int) list"
  u_TotpSecret :: "string option"
  u_TotpEnabled :: bool
  u_CreatedAt :: gotime
  u_UpdatedAt :: gotime

record Session =
  ss_ID :: int
  ss_TokenHash :: string
  ss_UserID :: uuid
  ss_IPAddress :: "string option"
  ss_UserAgent :: "string option"
  ss_ExpiresAt :: gotime
  ss_CreatedAt :: gotime
  ss_LastSeenAt :: gotime

record SessionWithUser =
  swu_Session :: Session
  swu_User :: User

record proxy_row =
  px_ip_address :: string
  px_ip_type :: string
  px_host :: string
  px_port :: int
  px_username :: string
  px_password :: string
  px_whitelisted_brokers :: string
  px_valid_from :: gotime
  px_valid_until :: gotime
  px_plan :: string
  px_created_at :: gotime

record site =
  si_db :: db
  si_users :: "User list"
  si_sessions :: "Session list"
  si_next_session :: int
  si_proxies :: "proxy_row list"

definition site_call :: "(site \<Rightarrow> 'a result \<times> site) \<Rightarrow> site \<Rightarrow> 'a result \<times> site" where
  "site_call body s = (case faults (si_db s) of
      [] \<Rightarrow> body s
    | None # fs \<Rightarrow> body (s\<lparr> si_db := (si_db s)\<lparr> faults := fs \<rparr> \<rparr>)
    | Some e # fs \<Rightarrow> (Inl e, s\<lparr> si_db := (si_db s)\<lparr> faults := fs \<rparr> \<rparr>))"

definition site_now :: "site \<Rightarrow> gotime" where
  "site_now s = db_now (si_db s)"

text \<open>An operation of the other tables, run on the database of the site.\<close>

definition on_db :: "(db \<Rightarrow> 'a result \<times> db) \<Rightarrow> site \<Rightarrow> 'a result \<times> site" where
  "on_db f s = (case f (si_db s) of (r, d) \<Rightarrow> (r, s\<lparr> si_db := d \<rparr>))"

section \<open>Users\<close>

definition RoleAdmin :: string where "RoleAdmin = ''admin''"
definition RoleUser :: string where "RoleUser = ''user''"

definition ErrAccountQuotaExceeded :: go_error where
  "ErrAccountQuotaExceeded = Plain ''domain: account quota exceeded''"

definition ErrBrokerAccountQuotaExceeded :: go_error where
  "ErrBrokerAccountQuotaExceeded = Plain ''domain: broker account quota exceeded''"

definition find_user :: "uuid \<Rightarrow> site \<Rightarrow> User option" where
  "find_user i s = find (\<lambda>u. u_ID u = i) (si_users s)"

definition upd_user :: "uuid \<Rightarrow> (User \<Rightarrow> User) \<Rightarrow> site \<Rightarrow> site" where
  "upd_user i f s = s\<lparr> si_users := update_where (\<lambda>u. u_ID u = i) f (si_users s) \<rparr>"

text \<open>The unique indexes on the lower-case email and user name.\<close>

definition login_taken :: "uuid \<Rightarrow> string \<Rightarrow> string \<Rightarrow> site \<Rightarrow> bool" where
  "login_taken i email username s \<longleftrightarrow>
     list_ex (\<lambda>u. u_ID u \<noteq> i \<and> (ToLower (u_Email u) = ToLower email \<or> ToLower (u_Username u) = ToLower username)) (si_users s)"

definition new_user :: "uuid \<Rightarrow> string \<Rightarrow> string \<Rightarrow> string \<Rightarrow> secret \<Rightarrow> string \<Rightarrow> gotime \<Rightarrow> User" where
  "new_user i email username name passwordHash role now =
     \<lparr> u_ID = i, u_Email = email, u_Username = username, u_Name = name, u_Phone = [], u_Address = [], u_GSTNumber = [],
       u_PasswordHash = passwordHash, u_Role = role, u_Active = True, u_MaxIPs = 0, u_BrokerIPLimits = [],
       u_TotpSecret = None, u_TotpEnabled = False, u_CreatedAt = now, u_UpdatedAt = now \<rparr>"

definition CreateUser ::
  "uuid \<Rightarrow> string \<Rightarrow> string \<Rightarrow> string \<Rightarrow> secret \<Rightarrow> string \<Rightarrow> site \<Rightarrow> unit result \<times> site" where
  "CreateUser i email username name passwordHash role = site_call (\<lambda>s.
     if find_user i s \<noteq> None \<or> login_taken i email username s then (Inl ErrDuplicate, s)
     else (Inr (), s\<lparr> si_users := si_users s @ [new_user i email username name passwordHash role (site_now s)] \<rparr>))"

text \<open>The two lookups by login do not select the quota columns.\<close>

definition without_quota :: "User \<Rightarrow> User" where
  "without_quota u = u\<lparr> u_MaxIPs := 0, u_BrokerIPLimits := [] \<rparr>"

definition GetUserByEmail :: "string \<Rightarrow> site \<Rightarrow> User result \<times> site" where
  "GetUserByEmail email = site_call (\<lambda>s. (case find (\<lambda>u. ToLower (u_Email u) = ToLower email) (si_users s) of
      None \<Rightarrow> Inl ErrNotFound | Some u \<Rightarrow> Inr (without_quota u), s))"

definition GetUserByUsername :: "string \<Rightarrow> site \<Rightarrow> User result \<times> site" where
  "GetUserByUsername username = site_call (\<lambda>s. (case find (\<lambda>u. ToLower (u_Username u) = ToLower username) (si_users s) of
      None \<Rightarrow> Inl ErrNotFound | Some u \<Rightarrow> Inr (without_quota u), s))"

definition GetUserByID :: "uuid \<Rightarrow> site \<Rightarrow> User result \<times> site" where
  "GetUserByID i = site_call (\<lambda>s. (case find_user i s of None \<Rightarrow> Inl ErrNotFound | Some u \<Rightarrow> Inr u, s))"

definition UpdateUserProfile ::
  "uuid \<Rightarrow> string \<Rightarrow> string \<Rightarrow> string \<Rightarrow> string \<Rightarrow> string \<Rightarrow> string \<Rightarrow> site \<Rightarrow> unit result \<times> site" where
  "UpdateUserProfile i email username name phone address gstNumber = site_call (\<lambda>s.
     if find_user i s \<noteq> None \<and> login_taken i email username s then (Inl ErrDuplicate, s)
     else (Inr (), upd_user i (\<lambda>u. u\<lparr> u_Email := email, u_Username := username, u_Name := name, u_Phone := phone,
            u_Address := address, u_GSTNumber := gstNumber, u_UpdatedAt := site_now s \<rparr>) s))"

definition UpdateUserPassword :: "uuid \<Rightarrow> secret \<Rightarrow> site \<Rightarrow> unit result \<times> site" where
  "UpdateUserPassword i passwordHash = site_call (\<lambda>s.
     (Inr (), upd_user i (\<lambda>u. u\<lparr> u_PasswordHash := passwordHash, u_UpdatedAt := site_now s \<rparr>) s))"

definition CountUsers :: "site \<Rightarrow> int result \<times> site" where
  "CountUsers = site_call (\<lambda>s. (Inr (int (length (si_users s))), s))"

definition pg_int4 :: go_error where
  "pg_int4 = Plain ''value is out of range for int4''"

definition UpdateUserRoleAndStatus ::
  "uuid \<Rightarrow> string \<Rightarrow> bool option \<Rightarrow> int option \<Rightarrow> (string \<times> int) list option \<Rightarrow> site \<Rightarrow> unit result \<times> site" where
  "UpdateUserRoleAndStatus i role active maxIPs brokerIPLimits = site_call (\<lambda>s.
     if \<not> pred_option in32 maxIPs then (Inl pg_int4, s)
     else if find_user i s = None then (Inl ErrNotFound, s)
     else (Inr (), upd_user i (\<lambda>u. u\<lparr> u_Role := (if role \<noteq> [] then role else u_Role u),
            u_Active := (case active of None \<Rightarrow> u_Active u | Some b \<Rightarrow> b),
            u_MaxIPs := (case maxIPs of None \<Rightarrow> u_MaxIPs u | Some n \<Rightarrow> n),
            u_BrokerIPLimits := (case brokerIPLimits of None \<Rightarrow> u_BrokerIPLimits u | Some l \<Rightarrow> l),
            u_UpdatedAt := site_now s \<rparr>) s))"

section \<open>Sessions\<close>

definition CreateSession :: "secret \<Rightarrow> uuid \<Rightarrow> string \<Rightarrow> string \<Rightarrow> gotime \<Rightarrow> site \<Rightarrow> unit result \<times> site" where
  "CreateSession tokenHash userID ip userAgent expiresAt = site_call (\<lambda>s.
     if list_ex (\<lambda>x. ss_TokenHash x = tokenHash) (si_sessions s) then (Inl pg_unique, s)
     else if find_user userID s = None then (Inl pg_foreign, s)
     else (Inr (), s\<lparr> si_next_session := si_next_session s + 1, si_sessions := si_sessions s @
            [\<lparr> ss_ID = si_next_session s, ss_TokenHash = tokenHash, ss_UserID = userID, ss_IPAddress = nonempty ip,
               ss_UserAgent = nonempty userAgent, ss_ExpiresAt = expiresAt, ss_CreatedAt = site_now s,
               ss_LastSeenAt = site_now s \<rparr>] \<rparr>))"

text \<open>The columns of the user that the join of a session with its user selects.\<close>

definition session_user :: "User \<Rightarrow> User" where
  "session_user u = (without_quota u)\<lparr> u_PasswordHash := [], u_TotpSecret := None, u_CreatedAt := 0, u_UpdatedAt := 0 \<rparr>"

definition GetSessionWithUser :: "secret \<Rightarrow> site \<Rightarrow> SessionWithUser result \<times> site" where
  "GetSessionWithUser tokenHash = site_call (\<lambda>s.
     (case find (\<lambda>x. ss_TokenHash x = tokenHash \<and> ss_ExpiresAt x > site_now s \<and> find_user (ss_UserID x) s \<noteq> None) (si_sessions s) of
        None \<Rightarrow> Inl ErrNotFound
      | Some x \<Rightarrow> Inr \<lparr> swu_Session = x, swu_User = session_user (the (find_user (ss_UserID x) s)) \<rparr>, s))"

definition TouchSession :: "secret \<Rightarrow> gotime \<Rightarrow> site \<Rightarrow> unit result \<times> site" where
  "TouchSession tokenHash newExpiry = site_call (\<lambda>s.
     (Inr (), s\<lparr> si_sessions := update_where (\<lambda>x. ss_TokenHash x = tokenHash)
        (\<lambda>x. x\<lparr> ss_LastSeenAt := site_now s, ss_ExpiresAt := newExpiry \<rparr>) (si_sessions s) \<rparr>))"

definition drop_sessions :: "(Session \<Rightarrow> bool) \<Rightarrow> site \<Rightarrow> int \<times> site" where
  "drop_sessions P s = (int (length (filter P (si_sessions s))), s\<lparr> si_sessions := filter (\<lambda>x. \<not> P x) (si_sessions s) \<rparr>)"

definition DeleteSession :: "secret \<Rightarrow> site \<Rightarrow> unit result \<times> site" where
  "DeleteSession tokenHash = site_call (\<lambda>s. (Inr (), snd (drop_sessions (\<lambda>x. ss_TokenHash x = tokenHash) s)))"

definition DeleteOtherSessions :: "uuid \<Rightarrow> secret \<Rightarrow> site \<Rightarrow> unit result \<times> site" where
  "DeleteOtherSessions userID tokenHash = site_call (\<lambda>s.
     (Inr (), snd (drop_sessions (\<lambda>x. ss_UserID x = userID \<and> ss_TokenHash x \<noteq> tokenHash) s)))"

definition DeleteExpiredSessions :: "site \<Rightarrow> int result \<times> site" where
  "DeleteExpiredSessions = site_call (\<lambda>s. case drop_sessions (\<lambda>x. ss_ExpiresAt x \<le> site_now s) s of (n, s') \<Rightarrow> (Inr n, s'))"

definition RevokeAllUserSessions :: "uuid \<Rightarrow> site \<Rightarrow> int result \<times> site" where
  "RevokeAllUserSessions userID = site_call (\<lambda>s. case drop_sessions (\<lambda>x. ss_UserID x = userID) s of (n, s') \<Rightarrow> (Inr n, s'))"

definition ListUserSessions :: "uuid \<Rightarrow> site \<Rightarrow> Session list result \<times> site" where
  "ListUserSessions userID = site_call (\<lambda>s. (Inr (rev (sort_key ss_LastSeenAt
     (filter (\<lambda>x. ss_UserID x = userID \<and> ss_ExpiresAt x > site_now s) (si_sessions s)))), s))"

record UserSummary =
  usm_User :: User
  usm_AccountCount :: int
  usm_SessionCount :: int

definition user_summary :: "site \<Rightarrow> User \<Rightarrow> UserSummary" where
  "user_summary s u = \<lparr> usm_User = u\<lparr> u_PasswordHash := [], u_TotpSecret := None, u_TotpEnabled := False, u_Address := [], u_GSTNumber := [] \<rparr>,
     usm_AccountCount = int (length (filter (\<lambda>a. ar_user_id a = Some (u_ID u) \<and> live a) (accounts (si_db s)))),
     usm_SessionCount = int (length (filter (\<lambda>x. ss_UserID x = u_ID u \<and> ss_ExpiresAt x > site_now s) (si_sessions s))) \<rparr>"

definition page_limit :: "int \<Rightarrow> int" where
  "page_limit l = (let l1 = (if l \<le> 0 then 20 else l) in if l1 > 50 then 50 else l1)"

definition page_offset :: "int \<Rightarrow> int" where
  "page_offset n = (if n < 0 then 0 else n)"

text \<open>The count and the page are two statements.\<close>

definition ListUsers :: "int \<Rightarrow> int \<Rightarrow> site \<Rightarrow> (UserSummary list \<times> int) result \<times> site" where
  "ListUsers limit1 offset s = (case site_call (\<lambda>s. (Inr (int (length (si_users s))), s)) s of
      (Inl e, s1) \<Rightarrow> (Inl e, s1)
    | (Inr tot, s1) \<Rightarrow> site_call (\<lambda>s. (Inr (take (nat (page_limit limit1)) (drop (nat (page_offset offset))
        (map (user_summary s) (rev (sort_key u_CreatedAt (si_users s))))), tot), s)) s1)"

section \<open>Account quota\<close>

definition owned :: "uuid \<Rightarrow> site \<Rightarrow> account_row list" where
  "owned userID s = filter (\<lambda>a. ar_user_id a = Some userID \<and> live a) (accounts (si_db s))"

definition limit_of :: "(string \<times> int) list \<Rightarrow> string \<Rightarrow> int" where
  "limit_of limits b = (case map_of limits b of None \<Rightarrow> 0 | Some n \<Rightarrow> n)"

definition target_broker :: "string \<Rightarrow> string" where
  "target_broker broker = (let b = ToLower (TrimSpace broker) in if b = [] then ''kite'' else b)"

text \<open>The rows of the grouping query: one count per broker of the live accounts.\<close>

definition broker_counts :: "account_row list \<Rightarrow> (string \<times> int) list" where
  "broker_counts rows = map (\<lambda>b. (b, int (length (filter (\<lambda>a. ToLower (ar_broker a) = b) rows))))
     (remdups (map (ToLower \<circ> ar_broker) rows))"

definition excess_used :: "(string \<times> int) list \<Rightarrow> (string \<times> int) list \<Rightarrow> int" where
  "excess_used limits counts = sum_list (map (\<lambda>(b, n). if n > limit_of limits b then n - limit_of limits b else 0) counts)"

definition CheckAccountQuota :: "uuid \<Rightarrow> string \<Rightarrow> site \<Rightarrow> unit result \<times> site" where
  "CheckAccountQuota userID broker s =
     (case site_call (\<lambda>s. (Inr (map_option (\<lambda>u. (u_MaxIPs u, u_BrokerIPLimits u, int (length (owned userID s)))) (find_user userID s)), s)) s of
        (Inl e, s1) \<Rightarrow> (Inl e, s1)
      | (Inr None, s1) \<Rightarrow> (Inr (), s1)
      | (Inr (Some (maxIPs, limits, totalUsed)), s1) \<Rightarrow>
          if maxIPs = -1 then (Inr (), s1)
          else if totalUsed \<ge> maxIPs then (Inl ErrAccountQuotaExceeded, s1)
          else
            let targetBroker = target_broker broker; brokerLimit = limit_of limits targetBroker; generalLimit = limit_of limits ''general''
            in if brokerLimit \<le> 0 \<and> generalLimit \<le> 0 then (Inl ErrBrokerAccountQuotaExceeded, s1)
               else (case site_call (\<lambda>s. (Inr (broker_counts (owned userID s)), s)) s1 of
                  (Inl e, s2) \<Rightarrow> (Inl e, s2)
                | (Inr counts, s2) \<Rightarrow>
                    if limit_of counts targetBroker < brokerLimit then (Inr (), s2)
                    else if excess_used limits counts \<ge> generalLimit then (Inl ErrBrokerAccountQuotaExceeded, s2)
                    else (Inr (), s2)))"

end
