(* ===== verification/Calendar.thy ===== *)
theory Calendar
  imports Prelude
begin

text \<open>
  Dates for the times of the program: the calendar arithmetic that \<open>time.Time\<close> does, the
  layout \<open>2006-01-02 15:04:05\<close> in Indian Standard Time and \<open>domain.ParseIST\<close>, for which
  \<open>time.ParseInLocation\<close> is an argument.
\<close>

section \<open>Dates\<close>

text \<open>The proleptic Gregorian calendar; day 0 is the first of January of the year 1, as for a zero time.\<close>

definition is_leap :: "int \<Rightarrow> bool" where
  "is_leap y \<longleftrightarrow> 4 dvd y \<and> (\<not> 100 dvd y \<or> 400 dvd y)"

definition days_before_year :: "int \<Rightarrow> int" where
  "days_before_year y = 365 * (y - 1) + (y - 1) div 4 - (y - 1) div 100 + (y - 1) div 400"

definition month_days :: "int \<Rightarrow> int list" where
  "month_days y = [31, if is_leap y then 29 else 28, 31, 30, 31, 30, 31, 31, 30, 31, 30, 31]"

definition days_before_month :: "int \<Rightarrow> nat \<Rightarrow> int" where
  "days_before_month y m = sum_list (take (m - 1) (month_days y))"

definition date_days :: "int \<Rightarrow> nat \<Rightarrow> int \<Rightarrow> int" where
  "date_days y m d = days_before_year y + days_before_month y m + (d - 1)"

definition year_of :: "int \<Rightarrow> int" where
  "year_of n =
     (let y = n * 400 div 146097 + 1
      in if days_before_year y > n then y - 1 else if days_before_year (y + 1) \<le> n then y + 1 else y)"

definition month_of :: "int \<Rightarrow> int \<Rightarrow> nat" where
  "month_of y r = length (filter (\<lambda>m. days_before_month y m \<le> r) [1..<13])"

text \<open>\<open>t.AddDate(0, 3, 0)\<close> in a location with the given offset: a day that the month lacks runs over.\<close>

definition AddThreeMonths :: "duration \<Rightarrow> gotime \<Rightarrow> gotime" where
  "AddThreeMonths zone t =
     (let local = t + zone; n = local div (24 * Hour); y = year_of n; m = month_of y (n - days_before_year y);
          d = n - days_before_year y - days_before_month y m + 1
      in (if m \<le> 9 then date_days y (m + 3) d else date_days (y + 1) (m - 9) d) * (24 * Hour) + local mod (24 * Hour) - zone)"

section \<open>Indian Standard Time (domain/time.go)\<close>

definition ist_offset :: duration where
  "ist_offset = 5 * Hour + 30 * Minute"

text \<open>A number with leading zeros, as many digits as asked for.\<close>

definition pad_zeros :: "nat \<Rightarrow> int \<Rightarrow> string" where
  "pad_zeros n k = (let s = show_int k in replicate (n - length s) (CHR ''0'') @ s)"

definition format_date_time :: "gotime \<Rightarrow> string" where
  "format_date_time local =
     (let n = local div (24 * Hour); y = year_of n; r = n - days_before_year y; m = month_of y r; d = r - days_before_month y m + 1;
          sec = local mod (24 * Hour) div Second
      in pad_zeros 4 y @ ''-'' @ pad_zeros 2 (int m) @ ''-'' @ pad_zeros 2 d @ '' ''
         @ pad_zeros 2 (sec div 3600) @ '':'' @ pad_zeros 2 (sec div 60 mod 60) @ '':'' @ pad_zeros 2 (sec mod 60))"

text \<open>\<open>t.In(IST).Format("2006-01-02 15:04:05")\<close>\<close>

definition format_ist :: "gotime \<Rightarrow> string" where
  "format_ist t = format_date_time (t + ist_offset)"

fun first_Some :: "('a \<Rightarrow> 'b option) \<Rightarrow> 'a list \<Rightarrow> 'b option" where
  "first_Some f [] = None"
| "first_Some f (x # xs) = (case f x of Some y \<Rightarrow> Some y | None \<Rightarrow> first_Some f xs)"

type_synonym time_parser = "string \<Rightarrow> string \<Rightarrow> gotime option"

definition istLayouts :: "string list" where
  "istLayouts = [''2006-01-02 15:04:05.999999999'', ''2006-01-02 15:04:05'', ''2006-01-02T15:04:05.999999999'', ''2006-01-02T15:04:05'',
     ''2006-01-02T15:04:05.999999999Z07:00'', ''2006-01-02T15:04:05Z07:00'', ''2006-01-02'']"

definition ParseIST :: "time_parser \<Rightarrow> string \<Rightarrow> gotime" where
  "ParseIST parse raw =
     (let s = TrimSpace raw
      in if s = [] \<or> s = ''null'' then 0
         else (case first_Some (\<lambda>layout. parse layout s) istLayouts of Some t \<Rightarrow> t | None \<Rightarrow> 0))"

end
