(* ===== verification/Proxy_Pool.thy ===== *)
theory Proxy_Pool
  imports Site Calendar
begin

text \<open>
  The pool of static proxy addresses: the rules of \<open>internal/domain/proxy.go\<close> (expiry, broker whitelist,
  validation of imports, statistics) and the store operations of \<open>internal/store/postgres/proxy_ips.go\<close>.
  Days are computed exactly; \<open>float64(hours)/24\<close> differs from that only within microseconds of a day
  boundary more than a year away. The time parsers, the address parser and the offset of the
  location of a time are arguments.
\<close>

section \<open>Expiry\<close>

type_synonym ExpiryStatus = string

definition ExpiryActive :: ExpiryStatus where "ExpiryActive = ''active''"
definition ExpiryExpiringSoon :: ExpiryStatus where "ExpiryExpiringSoon = ''expiring_soon''"
definition ExpiryExpired :: ExpiryStatus where "ExpiryExpired = ''expired''"

text \<open>\<open>Time.Sub\<close> saturates at the range of a \<open>Duration\<close>.\<close>

definition time_Sub :: "gotime \<Rightarrow> gotime \<Rightarrow> duration" where
  "time_Sub a b = max (- (2 ^ 63)) (min (2 ^ 63 - 1) (a - b))"

definition ComputeExpiry :: "gotime \<Rightarrow> gotime \<Rightarrow> int \<times> ExpiryStatus" where
  "ComputeExpiry validUntil now =
     (if validUntil = 0 then (0, ExpiryExpired)
      else
        let diff = time_Sub validUntil now; days = diff sdiv (24 * Hour)
        in if diff < 0 then (days, ExpiryExpired)
           else if days \<le> 15 then (days, ExpiryExpiringSoon)
           else (days, ExpiryActive))"

record ProxyIP =
  pi_IPAddress :: string
  pi_IPType :: string
  pi_Host :: string
  pi_Port :: int
  pi_Username :: string
  pi_Password :: string
  pi_WhitelistedBrokers :: string
  pi_ValidFrom :: gotime
  pi_ValidUntil :: gotime
  pi_Plan :: string
  pi_CreatedAt :: gotime
  pi_IsAssigned :: bool
  pi_AssignedAccountID :: "uuid option"
  pi_AssignedAccountName :: "string option"
  pi_DaysRemaining :: int
  pi_ExpiryStatus :: ExpiryStatus

record ProxyIPStats =
  ps_TotalCount :: int
  ps_AssignedCount :: int
  ps_AvailableCount :: int
  ps_IPv4Count :: int
  ps_IPv6Count :: int
  ps_ExpiringSoonCount :: int
  ps_ExpiredCount :: int
  ps_AssignedExpiring :: int

definition bump :: "bool \<Rightarrow> int \<Rightarrow> int" where
  "bump b n = (if b then n + 1 else n)"

definition stats_add :: "gotime \<Rightarrow> ProxyIP \<Rightarrow> ProxyIPStats \<Rightarrow> ProxyIPStats" where
  "stats_add now ip st =
     (let cleanType = ToLower (TrimSpace (pi_IPType ip));
          status = (if pi_ExpiryStatus ip = [] \<and> pi_ValidUntil ip \<noteq> 0 then snd (ComputeExpiry (pi_ValidUntil ip) now) else pi_ExpiryStatus ip)
      in st\<lparr> ps_AssignedCount := bump (pi_IsAssigned ip) (ps_AssignedCount st),
             ps_AvailableCount := bump (\<not> pi_IsAssigned ip) (ps_AvailableCount st),
             ps_IPv4Count := bump (cleanType = ''ipv4'') (ps_IPv4Count st),
             ps_IPv6Count := bump (cleanType = ''ipv6'') (ps_IPv6Count st),
             ps_ExpiringSoonCount := bump (status = ExpiryExpiringSoon) (ps_ExpiringSoonCount st),
             ps_ExpiredCount := bump (status = ExpiryExpired) (ps_ExpiredCount st),
             ps_AssignedExpiring := bump (pi_IsAssigned ip \<and> (status = ExpiryExpiringSoon \<or> status = ExpiryExpired)) (ps_AssignedExpiring st) \<rparr>)"

definition ComputeProxyIPStats :: "ProxyIP list \<Rightarrow> gotime \<Rightarrow> ProxyIPStats" where
  "ComputeProxyIPStats ips now = fold (stats_add now) ips
     \<lparr> ps_TotalCount = int (length ips), ps_AssignedCount = 0, ps_AvailableCount = 0, ps_IPv4Count = 0, ps_IPv6Count = 0,
       ps_ExpiringSoonCount = 0, ps_ExpiredCount = 0, ps_AssignedExpiring = 0 \<rparr>"

section \<open>Broker whitelist\<close>

definition normal_broker :: "string \<Rightarrow> string" where
  "normal_broker item =
     (let lower = ToLower item
      in if lower = ''zerodha'' \<or> lower = ''kite'' then ''Zerodha''
         else if lower = ''dhan'' then ''Dhan''
         else if lower = ''testbroker'' \<or> lower = ''test_broker'' then ''TestBroker''
         else item)"

definition NormalizeWhitelistedBrokers :: "string \<Rightarrow> string" where
  "NormalizeWhitelistedBrokers raw =
     (let trimmed = TrimSpace raw
      in if trimmed = [] then []
         else Join (map normal_broker (filter (\<lambda>item. item \<noteq> []) (map TrimSpace (Split trimmed (CHR '',''))))) '', '')"

definition canonical_broker :: "string \<Rightarrow> string" where
  "canonical_broker b =
     (let target = ToLower (TrimSpace b)
      in if target = ''kite'' then ''zerodha'' else if target = ''test_broker'' then ''testbroker'' else target)"

definition MatchesBroker :: "ProxyIP \<Rightarrow> string \<Rightarrow> bool" where
  "MatchesBroker p broker \<longleftrightarrow> TrimSpace (pi_WhitelistedBrokers p) = []
     \<or> list_ex (\<lambda>part. canonical_broker part = canonical_broker broker) (Split (pi_WhitelistedBrokers p) (CHR '',''))"

definition BrokerPriority :: "ProxyIP \<Rightarrow> string \<Rightarrow> int" where
  "BrokerPriority p broker =
     (if \<not> MatchesBroker p broker then 0 else if TrimSpace (pi_WhitelistedBrokers p) \<noteq> [] then 1 else 2)"

section \<open>Import\<close>

record ProxyIPInput =
  pin_IP :: string
  pin_Host :: string
  pin_Port :: int
  pin_UserID :: string
  pin_Username :: string
  pin_Password :: string
  pin_WhitelistedBrokers :: string
  pin_WhitelistedBrokersCamel :: string
  pin_ValidFrom :: string
  pin_ValidUntil :: string
  pin_Plan :: string
  pin_Type :: string

record proxy_libs =
  pl_ParseIP :: "string \<Rightarrow> bool"
  pl_ParseIST :: "string \<Rightarrow> string \<Rightarrow> gotime option"
  pl_Parse :: "string \<Rightarrow> string \<Rightarrow> gotime option"
  pl_zone :: duration

text \<open>The verb \<open>%q\<close> for a printable text without quotes.\<close>

definition quoted :: "string \<Rightarrow> string" where
  "quoted s = CHR 0x22 # s @ [CHR 0x22]"

definition ParseProxyTimestamp :: "proxy_libs \<Rightarrow> string \<Rightarrow> gotime result" where
  "ParseProxyTimestamp L raw =
     (let trimmed = TrimSpace raw
      in if trimmed = [] then Inr 0
         else
           let clean = TrimSpace (TrimSuffix (TrimSuffix trimmed '' (IST)'') ''(IST)'')
           in (case first_Some (\<lambda>l. pl_ParseIST L l clean) [''2006-01-02 15:04:05'', ''2006-01-02 15:04'', ''2006-01-02''] of
                 Some t \<Rightarrow> Inr t
               | None \<Rightarrow>
                   (case first_Some (\<lambda>l. pl_Parse L l trimmed) [''2006-01-02T15:04:05Z07:00'', ''2006-01-02T15:04:05.999999999Z07:00''] of
                      Some t \<Rightarrow> Inr t
                    | None \<Rightarrow> Inl (Plain (''unrecognized timestamp format '' @ quoted raw)))))"

definition type_of_address :: "string \<Rightarrow> string" where
  "type_of_address ip = (if Contains ip '':'' then ''ipv6'' else ''ipv4'')"

definition ParseAndValidateProxyIP :: "proxy_libs \<Rightarrow> ProxyIPInput \<Rightarrow> gotime \<Rightarrow> ProxyIP result" where
  "ParseAndValidateProxyIP L input now =
     (let ipStr = TrimSpace (pin_IP input); ty0 = ToLower (TrimSpace (pin_Type input));
          ipType = (if ty0 = [] then type_of_address ipStr else ty0); host = TrimSpace (pin_Host input);
          username = (if TrimSpace (pin_UserID input) = [] then TrimSpace (pin_Username input) else TrimSpace (pin_UserID input));
          plan0 = ToUpper (TrimSpace (pin_Plan input));
          rawBrokers = (if TrimSpace (pin_WhitelistedBrokers input) = [] then TrimSpace (pin_WhitelistedBrokersCamel input)
                        else TrimSpace (pin_WhitelistedBrokers input))
      in if ipStr = [] then Inl (Plain ''IP address is required'')
         else if \<not> pl_ParseIP L ipStr then Inl (Plain (''invalid IP address format '' @ quoted ipStr))
         else if ipType \<noteq> ''ipv4'' \<and> ipType \<noteq> ''ipv6'' then Inl (Plain (''invalid IP type '' @ quoted (pin_Type input) @ '', must be ipv4 or ipv6''))
         else if host = [] then Inl (Plain ''host is required'')
         else (case ParseProxyTimestamp L (pin_ValidFrom input) of
            Inl e \<Rightarrow> Inl (errorf ''invalid valid_from'' e)
          | Inr from0 \<Rightarrow>
              let validFrom = (if from0 = 0 then now else from0)
              in (case ParseProxyTimestamp L (pin_ValidUntil input) of
                    Inl e \<Rightarrow> Inl (errorf ''invalid valid_until'' e)
                  | Inr until0 \<Rightarrow>
                      let validUntil = (if until0 = 0 then AddThreeMonths (pl_zone L) validFrom else until0);
                          exp1 = ComputeExpiry validUntil now
                      in Inr \<lparr> pi_IPAddress = ipStr, pi_IPType = ipType, pi_Host = host,
                           pi_Port = (if pin_Port input \<le> 0 then 443 else pin_Port input), pi_Username = username,
                           pi_Password = TrimSpace (pin_Password input), pi_WhitelistedBrokers = NormalizeWhitelistedBrokers rawBrokers,
                           pi_ValidFrom = validFrom, pi_ValidUntil = validUntil, pi_Plan = (if plan0 = [] then ''QUARTERLY'' else plan0),
                           pi_CreatedAt = now, pi_IsAssigned = False, pi_AssignedAccountID = None, pi_AssignedAccountName = None,
                           pi_DaysRemaining = fst exp1, pi_ExpiryStatus = snd exp1 \<rparr>)))"

section \<open>Store\<close>

text \<open>A \<open>timestamptz\<close> holds microseconds; the checks of the table are its address types and the 32-bit port.\<close>

definition pg_timestamp :: "gotime \<Rightarrow> gotime" where
  "pg_timestamp t = t - t mod 1000"

definition proxy_check :: "string \<Rightarrow> int \<Rightarrow> unit result" where
  "proxy_check ty port =
     (if ty \<noteq> ''ipv4'' \<and> ty \<noteq> ''ipv6'' then Inl pg_check
      else if port < - (2 ^ 31) \<or> 2 ^ 31 - 1 < port then Inl (Plain ''integer out of range'') else Inr ())"

text \<open>The columns of an upsert, with the defaults for an absent port, plan, period and type.\<close>

definition upsert_columns :: "duration \<Rightarrow> gotime \<Rightarrow> ProxyIP \<Rightarrow> proxy_row" where
  "upsert_columns zone now p =
     (let validFrom = (if pi_ValidFrom p = 0 then now else pi_ValidFrom p);
          validUntil = (if pi_ValidUntil p = 0 then AddThreeMonths zone validFrom else pi_ValidUntil p)
      in \<lparr> px_ip_address = pi_IPAddress p, px_ip_type = (if pi_IPType p = [] then type_of_address (pi_IPAddress p) else pi_IPType p),
           px_host = pi_Host p, px_port = (if pi_Port p = 0 then 443 else pi_Port p), px_username = pi_Username p,
           px_password = pi_Password p, px_whitelisted_brokers = pi_WhitelistedBrokers p,
           px_valid_from = pg_timestamp validFrom, px_valid_until = pg_timestamp validUntil,
           px_plan = (if pi_Plan p = [] then ''QUARTERLY'' else pi_Plan p), px_created_at = now \<rparr>)"

definition find_proxy :: "string \<Rightarrow> site \<Rightarrow> proxy_row option" where
  "find_proxy ip s = find (\<lambda>r. px_ip_address r = ip) (si_proxies s)"

definition upd_proxy :: "string \<Rightarrow> (proxy_row \<Rightarrow> proxy_row) \<Rightarrow> site \<Rightarrow> site" where
  "upd_proxy ip f s = s\<lparr> si_proxies := update_where (\<lambda>r. px_ip_address r = ip) f (si_proxies s) \<rparr>"

definition upsert_row :: "proxy_row \<Rightarrow> site \<Rightarrow> unit result \<times> site" where
  "upsert_row r s = (case proxy_check (px_ip_type r) (px_port r) of
      Inl e \<Rightarrow> (Inl e, s)
    | Inr _ \<Rightarrow>
        (Inr (), if find_proxy (px_ip_address r) s = None then s\<lparr> si_proxies := si_proxies s @ [r\<lparr> px_created_at := site_now s \<rparr>] \<rparr>
                 else upd_proxy (px_ip_address r) (\<lambda>old. r\<lparr> px_created_at := px_created_at old \<rparr>) s))"

definition UpsertProxyIP :: "duration \<Rightarrow> gotime \<Rightarrow> ProxyIP \<Rightarrow> site \<Rightarrow> unit result \<times> site" where
  "UpsertProxyIP zone now p = site_call (upsert_row (upsert_columns zone now p))"

record BulkUploadResult =
  bu_Total :: int
  bu_Inserted :: int
  bu_Updated :: int
  bu_Errors :: "string list"

fun upsert_all :: "duration \<Rightarrow> gotime \<Rightarrow> ProxyIP list \<Rightarrow> BulkUploadResult \<Rightarrow> site \<Rightarrow> BulkUploadResult result \<times> site" where
  "upsert_all zone now [] res s = (Inr res, s)"
| "upsert_all zone now (p # ps) res s =
     (let isExisting = find_proxy (pi_IPAddress p) s \<noteq> None
      in (case upsert_row (upsert_columns zone now p) s of
            (Inl e, s') \<Rightarrow> (Inl e, s')
          | (Inr _, s') \<Rightarrow> upsert_all zone now ps
              (if isExisting then res\<lparr> bu_Updated := bu_Updated res + 1 \<rparr> else res\<lparr> bu_Inserted := bu_Inserted res + 1 \<rparr>) s'))"

text \<open>The whole batch is one transaction: an error rolls every row back.\<close>

definition UpsertProxyIPsBatch :: "duration \<Rightarrow> gotime \<Rightarrow> ProxyIP list \<Rightarrow> site \<Rightarrow> BulkUploadResult result \<times> site" where
  "UpsertProxyIPsBatch zone now ips s =
     (let result = \<lparr> bu_Total = int (length ips), bu_Inserted = 0, bu_Updated = 0, bu_Errors = [] \<rparr>
      in if ips = [] then (Inr result, s)
         else site_call (\<lambda>s. case upsert_all zone now ips result s of (Inl e, _) \<Rightarrow> (Inl e, s) | (Inr res, s') \<Rightarrow> (Inr res, s')) s)"

text \<open>\<open>proxy_ips LEFT JOIN accounts\<close> on the address and a further condition.\<close>

definition join_accounts :: "(account_row \<Rightarrow> bool) \<Rightarrow> site \<Rightarrow> (proxy_row \<times> account_row option) list" where
  "join_accounts on s = concat (map (\<lambda>r.
     (case filter (\<lambda>a. ar_ip_address a = px_ip_address r \<and> on a) (accounts (si_db s)) of
        [] \<Rightarrow> [(r, None)] | as \<Rightarrow> map (\<lambda>a. (r, Some a)) as)) (si_proxies s))"

definition proxy_of_row :: "proxy_row \<Rightarrow> ProxyIP" where
  "proxy_of_row r = \<lparr> pi_IPAddress = px_ip_address r, pi_IPType = px_ip_type r, pi_Host = px_host r, pi_Port = px_port r,
     pi_Username = px_username r, pi_Password = px_password r, pi_WhitelistedBrokers = px_whitelisted_brokers r,
     pi_ValidFrom = px_valid_from r, pi_ValidUntil = px_valid_until r, pi_Plan = px_plan r, pi_CreatedAt = px_created_at r,
     pi_IsAssigned = False, pi_AssignedAccountID = None, pi_AssignedAccountName = None, pi_DaysRemaining = 0, pi_ExpiryStatus = [] \<rparr>"

text \<open>The listing does not select the password and joins deleted accounts too.\<close>

definition listed_proxy :: "gotime \<Rightarrow> proxy_row \<times> account_row option \<Rightarrow> ProxyIP" where
  "listed_proxy now = (\<lambda>(r, a).
     let expiry = ComputeExpiry (px_valid_until r) now
     in (proxy_of_row r)\<lparr> pi_Password := [], pi_AssignedAccountID := map_option ar_id a, pi_AssignedAccountName := map_option ar_name a,
          pi_IsAssigned := (a \<noteq> None), pi_DaysRemaining := fst expiry, pi_ExpiryStatus := snd expiry \<rparr>)"

type_synonym proxy_order = "(proxy_row \<times> account_row option) list \<Rightarrow> (proxy_row \<times> account_row option) list"

definition ListProxyIPs :: "proxy_order \<Rightarrow> gotime \<Rightarrow> site \<Rightarrow> ProxyIP list result \<times> site" where
  "ListProxyIPs order_by now = site_call (\<lambda>s. (Inr (map (listed_proxy now) (order_by (join_accounts (\<lambda>_. True) s))), s))"

definition AvailableProxyIPs :: "proxy_order \<Rightarrow> string \<Rightarrow> uuid option \<Rightarrow> site \<Rightarrow> ProxyIP list result \<times> site" where
  "AvailableProxyIPs order_by ipType excludeAccountID = site_call (\<lambda>s.
     (Inr (map (\<lambda>(r, _). (proxy_of_row r)\<lparr> pi_Username := [], pi_Password := [] \<rparr>) (order_by (filter (\<lambda>(r, a).
        (case a of None \<Rightarrow> True | Some acc \<Rightarrow> excludeAccountID = Some (ar_id acc)) \<and> (ipType = [] \<or> px_ip_type r = ipType))
        (join_accounts (\<lambda>_. True) s)))), s))"

definition ProxyIPByAddress :: "string \<Rightarrow> site \<Rightarrow> ProxyIP result \<times> site" where
  "ProxyIPByAddress ip = site_call (\<lambda>s. (case find_proxy ip s of None \<Rightarrow> Inl ErrNotFound | Some r \<Rightarrow> Inr (proxy_of_row r), s))"

definition UpdateProxyIP :: "string \<Rightarrow> gotime \<Rightarrow> string \<Rightarrow> string \<Rightarrow> site \<Rightarrow> unit result \<times> site" where
  "UpdateProxyIP ip validUntil password plan = site_call (\<lambda>s.
     if find_proxy ip s = None then (Inl ErrNotFound, s)
     else (Inr (), upd_proxy ip (\<lambda>r. r\<lparr> px_valid_until := (if validUntil \<noteq> 0 then pg_timestamp validUntil else px_valid_until r),
             px_password := (if password \<noteq> [] then password else px_password r),
             px_plan := (if plan \<noteq> [] then plan else px_plan r) \<rparr>) s))"

definition UpdateProxyIPFull :: "duration \<Rightarrow> gotime \<Rightarrow> ProxyIP \<Rightarrow> site \<Rightarrow> unit result \<times> site" where
  "UpdateProxyIPFull zone now p = site_call (\<lambda>s.
     let r = upsert_columns zone now (p\<lparr> pi_Port := (if pi_Port p \<le> 0 then 443 else pi_Port p) \<rparr>)
     in if px_port r > 2 ^ 31 - 1 then (Inl (Plain ''integer out of range''), s)
        else if find_proxy (pi_IPAddress p) s = None then (Inl ErrNotFound, s)
        else (case proxy_check (px_ip_type r) (px_port r) of
                Inl e \<Rightarrow> (Inl e, s)
              | Inr _ \<Rightarrow> (Inr (), upd_proxy (pi_IPAddress p) (\<lambda>old. r\<lparr> px_created_at := px_created_at old,
                    px_password := (if pi_Password p \<noteq> [] then pi_Password p else px_password old) \<rparr>) s)))"

text \<open>Two statements without a transaction around them: the check of the assignment, then the delete.\<close>

definition DeleteProxyIP :: "string \<Rightarrow> site \<Rightarrow> unit result \<times> site" where
  "DeleteProxyIP ip s =
     (case site_call (\<lambda>s. (Inr (list_ex (\<lambda>a. ar_ip_address a = ip \<and> live a) (accounts (si_db s))), s)) s of
        (Inl e, s1) \<Rightarrow> (Inl e, s1)
      | (Inr assigned, s1) \<Rightarrow>
          if assigned then (Inl ErrConflict, s1)
          else site_call (\<lambda>s.
            if find_proxy ip s = None then (Inl ErrNotFound, s)
            else (Inr (), s\<lparr> si_proxies := filter (\<lambda>r. px_ip_address r \<noteq> ip) (si_proxies s) \<rparr>)) s1)"

text \<open>The statistics as one query: the database counts the joined rows by its own clock.\<close>

definition count_rows :: "('a \<Rightarrow> bool) \<Rightarrow> 'a list \<Rightarrow> int" where
  "count_rows P rows = int (length (filter P rows))"

definition query_stats :: "gotime \<Rightarrow> (proxy_row \<times> account_row option) list \<Rightarrow> ProxyIPStats" where
  "query_stats now rows =
     (let soon = now + 15 * (24 * Hour)
      in \<lparr> ps_TotalCount = int (length rows), ps_AssignedCount = count_rows (\<lambda>(_, a). a \<noteq> None) rows,
           ps_AvailableCount = int (length rows) - count_rows (\<lambda>(_, a). a \<noteq> None) rows,
           ps_IPv4Count = count_rows (\<lambda>(r, _). px_ip_type r = ''ipv4'') rows,
           ps_IPv6Count = count_rows (\<lambda>(r, _). px_ip_type r = ''ipv6'') rows,
           ps_ExpiringSoonCount = count_rows (\<lambda>(r, _). now \<le> px_valid_until r \<and> px_valid_until r \<le> soon) rows,
           ps_ExpiredCount = count_rows (\<lambda>(r, _). px_valid_until r < now) rows,
           ps_AssignedExpiring = count_rows (\<lambda>(r, a). a \<noteq> None \<and> px_valid_until r \<le> soon) rows \<rparr>)"

definition StoreProxyIPStats :: "site \<Rightarrow> ProxyIPStats result \<times> site" where
  "StoreProxyIPStats = site_call (\<lambda>s. (Inr (query_stats (site_now s) (join_accounts live s)), s))"

end
