(* ===== verification/Http.thy ===== *)
theory Http
  imports Proxy_Pool
begin

text \<open>
  Requests and responses of the HTTP API. A response has a status, a body and the session cookie it
  sets; a body keeps the Go value that the handler encodes. The \<open>http_env\<close> of a call holds what
  comes from outside the program.
\<close>

section \<open>Requests and responses\<close>

record bcrypt_pkg =
  bc_Generate :: "string \<Rightarrow> secret result"
  bc_Compare :: "secret \<Rightarrow> string \<Rightarrow> bool"

record http_env =
  he_bcrypt :: bcrypt_pkg
  he_mail_ok :: "string \<Rightarrow> bool"
  he_rand :: "int list result"
  he_uuid :: uuid
  he_cookie_secure :: bool

record http_request =
  rq_path :: string
  rq_cookie :: "string option"
  rq_authorization :: string
  rq_forwarded_for :: string
  rq_real_ip :: string
  rq_remote_addr :: string
  rq_forwarded_proto :: string
  rq_tls :: bool
  rq_user_agent :: string

record userResponse =
  ur_ID :: uuid
  ur_Email :: string
  ur_Username :: string
  ur_Name :: string
  ur_Phone :: string
  ur_Address :: string
  ur_GSTNumber :: string
  ur_Role :: string
  ur_Active :: bool
  ur_MaxIPs :: int
  ur_BrokerIPLimits :: "(string \<times> int) list"

record accountResponse =
  are_ID :: uuid
  are_Name :: string
  are_Role :: string
  are_Broker :: string
  are_BrokerAccountID :: string
  are_ApiKey :: "string option"
  are_ApiSecret :: "string option"
  are_IP :: "string option"
  are_GroupID :: "uuid option"
  are_GroupName :: "string option"
  are_MasterID :: "uuid option"
  are_CloneFactor :: "decimal option"
  are_MaxQtyPerOrder :: "int option"
  are_Enabled :: bool
  are_Active :: bool
  are_Status :: string
  are_AuthStatus :: "string option"
  are_AuthError :: "string option"

record ProxyTestResult =
  ptr_IPAddress :: string
  ptr_Success :: bool
  ptr_LatencyMs :: int
  ptr_EgressIP :: string
  ptr_Error :: string

record BulkProxyTestSummary =
  bt_TotalTested :: int
  bt_SuccessCount :: int
  bt_FailureCount :: int
  bt_AvgLatencyMs :: int
  bt_Results :: "ProxyTestResult list"

record proxyIPResponse =
  pir_IPAddress :: string
  pir_IPType :: string
  pir_Host :: string
  pir_Port :: int
  pir_ValidFrom :: gotime
  pir_ValidUntil :: gotime
  pir_Plan :: string
  pir_IsAssigned :: bool
  pir_AssignedAccountID :: "uuid option"
  pir_AssignedAccountName :: "string option"

record availableIPResponse =
  air_IPAddress :: string
  air_IPType :: string
  air_Host :: string
  air_Port :: int
  air_WhitelistedBrokers :: string
  air_ValidFrom :: gotime
  air_ValidUntil :: gotime
  air_Plan :: string

text \<open>The fields of an object built as a \<open>map[string]any\<close>, the last write of a key first.\<close>

datatype field = FString string | FBool bool | FInt int | FDecimal decimal | FNull

datatype http_body =
    JError string
  | JStatus string
  | JUser userResponse
  | JUserToken userResponse string
  | JUserID uuid
  | JRevoked int
  | JSessions "Session list"
  | JUsers "UserSummary list" int int int
  | JProxyIPs "ProxyIP list" ProxyIPStats
  | JBulkUpload BulkUploadResult
  | JProxyIP ProxyIP
  | JPoolIPs "proxyIPResponse list"
  | JAvailable "availableIPResponse list" "availableIPResponse list"
  | JProxyTest ProxyTestResult
  | JProxyTests BulkProxyTestSummary
  | JAccounts "accountResponse list"
  | JAccount accountResponse
  | JGroups "GroupSummary list"
  | JGroup GroupDetail
  | JFields "(string \<times> field) list"
  | JNoContent

record cookie =
  ck_Value :: string
  ck_MaxAge :: int
  ck_Secure :: bool

record http_response =
  rp_status :: int
  rp_body :: http_body
  rp_cookie :: "cookie option"

definition writeJSON :: "int \<Rightarrow> http_body \<Rightarrow> http_response" where
  "writeJSON status v = \<lparr> rp_status = status, rp_body = v, rp_cookie = None \<rparr>"

definition writeError :: "int \<Rightarrow> string \<Rightarrow> http_response" where
  "writeError status msg = writeJSON status (JError msg)"

end
