(* ===== verification/Auth_Api.thy ===== *)
theory Auth_Api
  imports Http Idempotency
begin

text \<open>
  Authentication of the HTTP API: session tokens and passwords (\<open>internal/auth\<close>), the handlers of
  \<open>httpapi/auth.go\<close> and \<open>admin_users.go\<close> and the two middlewares of \<open>middleware_auth.go\<close>. A handler maps
  the decoded body (\<open>None\<close> when the JSON does not decode), the user of the request context and
  the request to a response and the new site. The \<open>http_env\<close> of a call holds what comes from
  outside: the bcrypt package, the address parsers, the random bytes, the new identifier and
  the environment variable.
\<close>

section \<open>User objects\<close>

definition toUserResponse :: "User \<Rightarrow> userResponse" where
  "toUserResponse u = \<lparr> ur_ID = u_ID u, ur_Email = u_Email u, ur_Username = u_Username u, ur_Name = u_Name u,
     ur_Phone = u_Phone u, ur_Address = u_Address u, ur_GSTNumber = u_GSTNumber u, ur_Role = u_Role u,
     ur_Active = u_Active u, ur_MaxIPs = u_MaxIPs u, ur_BrokerIPLimits = u_BrokerIPLimits u \<rparr>"

section \<open>Tokens, passwords, client address\<close>

definition HashSessionToken :: "string \<Rightarrow> secret" where
  "HashSessionToken plainToken = hex_bytes (Sum256 plainToken)"

definition GenerateSessionToken :: "http_env \<Rightarrow> (string \<times> secret) result" where
  "GenerateSessionToken E = (case he_rand E of
      Inl e \<Rightarrow> Inl e | Inr bytes \<Rightarrow> Inr (hex_bytes bytes, HashSessionToken (hex_bytes bytes)))"

definition HashPassword :: "http_env \<Rightarrow> string \<Rightarrow> secret result" where
  "HashPassword E password = (if password = [] then Inl (Plain ''password cannot be empty'') else bc_Generate (he_bcrypt E) password)"

definition CheckPassword :: "http_env \<Rightarrow> string \<Rightarrow> secret \<Rightarrow> bool" where
  "CheckPassword E password hash \<longleftrightarrow> password \<noteq> [] \<and> hash \<noteq> [] \<and> bc_Compare (he_bcrypt E) hash password"

definition sessionDuration :: duration where "sessionDuration = 3 * 24 * Hour"
definition maxSessionDuration :: duration where "maxSessionDuration = 7 * 24 * Hour"
definition sessionTouchWindow :: duration where "sessionTouchWindow = 1 * Hour"

definition isSecureRequest :: "http_env \<Rightarrow> http_request \<Rightarrow> bool" where
  "isSecureRequest E r \<longleftrightarrow> rq_tls r \<or> EqualFold (rq_forwarded_proto r) ''https'' \<or> he_cookie_secure E"

definition setSessionCookie :: "http_env \<Rightarrow> http_request \<Rightarrow> string \<Rightarrow> duration \<Rightarrow> http_response \<Rightarrow> http_response" where
  "setSessionCookie E r token dur w = w\<lparr> rp_cookie := Some \<lparr> ck_Value = token, ck_MaxAge = dur div Second, ck_Secure = isSecureRequest E r \<rparr> \<rparr>"

definition clearSessionCookie :: "http_env \<Rightarrow> http_request \<Rightarrow> http_response \<Rightarrow> http_response" where
  "clearSessionCookie E r w = w\<lparr> rp_cookie := Some \<lparr> ck_Value = [], ck_MaxAge = -1, ck_Secure = isSecureRequest E r \<rparr> \<rparr>"

definition extractToken :: "http_request \<Rightarrow> string" where
  "extractToken r = (case rq_cookie r of
      Some v \<Rightarrow> if v \<noteq> [] then v
               else if HasPrefix (ToLower (rq_authorization r)) ''bearer '' then TrimSpace (drop 7 (rq_authorization r)) else []
    | None \<Rightarrow> if HasPrefix (ToLower (rq_authorization r)) ''bearer '' then TrimSpace (drop 7 (rq_authorization r)) else [])"

text \<open>The host part that \<open>net.SplitHostPort\<close> returns, \<open>None\<close> for its errors.\<close>

fun index_of :: "char \<Rightarrow> string \<Rightarrow> nat option" where
  "index_of c [] = None"
| "index_of c (x # xs) = (if x = c then Some 0 else map_option Suc (index_of c xs))"

definition last_index_of :: "char \<Rightarrow> string \<Rightarrow> nat option" where
  "last_index_of c s = map_option (\<lambda>i. length s - 1 - i) (index_of c (rev s))"

definition SplitHost :: "string \<Rightarrow> string option" where
  "SplitHost hostport = (case last_index_of (CHR '':'') hostport of
      None \<Rightarrow> None
    | Some i \<Rightarrow>
        if hd hostport = CHR ''['' then
          (case index_of (CHR '']'') hostport of
             None \<Rightarrow> None
           | Some fin \<Rightarrow>
               if fin + 1 \<noteq> i then None
               else if CHR ''['' \<in> set (drop 1 hostport) \<or> CHR '']'' \<in> set (drop (fin + 1) hostport) then None
               else Some (take (fin - 1) (drop 1 hostport)))
        else if CHR '':'' \<in> set (take i hostport) \<or> CHR ''['' \<in> set hostport \<or> CHR '']'' \<in> set hostport then None
        else Some (take i hostport))"

definition clientIP :: "http_request \<Rightarrow> string" where
  "clientIP r =
     (let first = TrimSpace (hd (Split (rq_forwarded_for r) (CHR '','')))
      in if rq_forwarded_for r \<noteq> [] \<and> first \<noteq> [] then first
         else if TrimSpace (rq_real_ip r) \<noteq> [] then TrimSpace (rq_real_ip r)
         else (case SplitHost (rq_remote_addr r) of
            Some host \<Rightarrow> if host \<noteq> [] then host else TrimSpace (rq_remote_addr r)
          | None \<Rightarrow> TrimSpace (rq_remote_addr r)))"

section \<open>Registering, logging in and out\<close>

record registerRequest =
  rr_Email :: string
  rr_Username :: string
  rr_Password :: string
  rr_Name :: string

text \<open>The common end of registration and login: a token, its session and the cookie.\<close>

definition start_session :: "http_env \<Rightarrow> http_request \<Rightarrow> int \<Rightarrow> User \<Rightarrow> site \<Rightarrow> http_response \<times> site" where
  "start_session E r status u s = (case GenerateSessionToken E of
      Inl e \<Rightarrow> (writeError 500 ''failed to generate session'', s)
    | Inr (plainToken, tokenHash) \<Rightarrow>
        (case CreateSession tokenHash (u_ID u) (clientIP r) (rq_user_agent r) (site_now s + sessionDuration) s of
           (Inl e, s1) \<Rightarrow> (writeError 500 ''failed to save session'', s1)
         | (Inr _, s1) \<Rightarrow>
             (setSessionCookie E r plainToken maxSessionDuration (writeJSON status (JUserToken (toUserResponse u) plainToken)), s1)))"

definition postRegister :: "http_env \<Rightarrow> registerRequest option \<Rightarrow> http_request \<Rightarrow> site \<Rightarrow> http_response \<times> site" where
  "postRegister E body r s = (case body of
      None \<Rightarrow> (writeError 400 ''invalid request body'', s)
    | Some req \<Rightarrow>
        let email = TrimSpace (rr_Email req); username = TrimSpace (rr_Username req)
        in if email = [] then (writeError 400 ''email is required'', s)
           else if \<not> he_mail_ok E email then (writeError 400 ''invalid email address'', s)
           else if username = [] then (writeError 400 ''username is required'', s)
           else if length (rr_Password req) < 8 then (writeError 400 ''password must be at least 8 characters'', s)
           else (case HashPassword E (rr_Password req) of
              Inl e \<Rightarrow> (writeError 500 ''failed to secure password'', s)
            | Inr passwordHash \<Rightarrow>
                (case CreateUser (he_uuid E) email username (rr_Name req) passwordHash ''user'' s of
                   (Inl e, s1) \<Rightarrow>
                     (if errors_Is e ErrDuplicate then writeError 409 ''user with this email or username already exists''
                      else writeError 500 ''failed to create user'', s1)
                 | (Inr _, s1) \<Rightarrow> start_session E r 201
                     \<lparr> u_ID = he_uuid E, u_Email = email, u_Username = username, u_Name = rr_Name req, u_Phone = [],
                       u_Address = [], u_GSTNumber = [], u_PasswordHash = [], u_Role = ''user'', u_Active = True,
                       u_MaxIPs = 0, u_BrokerIPLimits = [], u_TotpSecret = None, u_TotpEnabled = False,
                       u_CreatedAt = 0, u_UpdatedAt = 0 \<rparr> s1)))"

record loginRequest =
  lr_Email :: string
  lr_Password :: string

definition postLogin :: "http_env \<Rightarrow> loginRequest option \<Rightarrow> http_request \<Rightarrow> site \<Rightarrow> http_response \<times> site" where
  "postLogin E body r s = (case body of
      None \<Rightarrow> (writeError 400 ''invalid request body'', s)
    | Some req \<Rightarrow>
        let email = TrimSpace (lr_Email req)
        in if email = [] \<or> lr_Password req = [] then (writeError 400 ''email and password are required'', s)
           else (case GetUserByEmail email s of
              (Inl e, s1) \<Rightarrow>
                (if errors_Is e ErrNotFound then writeError 401 ''invalid email or password''
                 else writeError 500 ''authentication error'', s1)
            | (Inr user, s1) \<Rightarrow>
                if \<not> CheckPassword E (lr_Password req) (u_PasswordHash user) then (writeError 401 ''invalid email or password'', s1)
                else if \<not> u_Active user then
                  (writeError 403 ''Your account has been suspended. Please contact your administrator.'', s1)
                else start_session E r 200 user s1))"

definition postLogout :: "http_env \<Rightarrow> http_request \<Rightarrow> site \<Rightarrow> http_response \<times> site" where
  "postLogout E r s =
     (let plainToken = extractToken r;
          s1 = (if plainToken \<noteq> [] then snd (DeleteSession (HashSessionToken plainToken) s) else s)
      in (clearSessionCookie E r (writeJSON 200 (JStatus ''ok'')), s1))"

definition getMe :: "User option \<Rightarrow> site \<Rightarrow> http_response \<times> site" where
  "getMe ctx s = (case ctx of
      None \<Rightarrow> (writeError 401 ''unauthenticated'', s)
    | Some user \<Rightarrow> (case GetUserByID (u_ID user) s of
          (Inl e, s1) \<Rightarrow> (writeJSON 200 (JUser (toUserResponse user)), s1)
        | (Inr dbUser, s1) \<Rightarrow> (writeJSON 200 (JUser (toUserResponse dbUser)), s1)))"

section \<open>Profile and password\<close>

record updateProfileRequest =
  pr_Email :: string
  pr_Username :: string
  pr_Name :: string
  pr_Phone :: string
  pr_Address :: string
  pr_GSTNumber :: string

definition is_digit :: "char \<Rightarrow> bool" where
  "is_digit c \<longleftrightarrow> (let n = of_char c :: nat in 48 \<le> n \<and> n \<le> 57)"

definition is_upper :: "char \<Rightarrow> bool" where
  "is_upper c \<longleftrightarrow> (let n = of_char c :: nat in 65 \<le> n \<and> n \<le> 90)"

definition cleanPhone :: "string \<Rightarrow> string" where
  "cleanPhone phone =
     (let s = filter is_digit phone
      in if HasPrefix s ''91'' \<and> length s = 12 then drop 2 s
         else if HasPrefix s ''0'' \<and> length s = 11 then drop 1 s else s)"

text \<open>The two regular expressions, one class of characters per position.\<close>

definition matches_classes :: "(char \<Rightarrow> bool) list \<Rightarrow> string \<Rightarrow> bool" where
  "matches_classes ps s \<longleftrightarrow> list_all2 (\<lambda>p c. p c) ps s"

definition indianPhoneRegex :: "string \<Rightarrow> bool" where
  "indianPhoneRegex = matches_classes ((\<lambda>c. c \<in> set ''6789'') # replicate 9 is_digit)"

definition gstRegex :: "string \<Rightarrow> bool" where
  "gstRegex = matches_classes (replicate 2 is_digit @ replicate 5 is_upper @ replicate 4 is_digit @ [is_upper]
     @ [\<lambda>c. is_digit c \<and> c \<noteq> CHR ''0'' \<or> is_upper c] @ [\<lambda>c. c = CHR ''Z''] @ [\<lambda>c. is_digit c \<or> is_upper c])"

definition normalizedPhone :: "string \<Rightarrow> string option" where
  "normalizedPhone raw =
     (let phone = TrimSpace raw
      in if phone = [] then Some []
         else if indianPhoneRegex (cleanPhone phone) then Some (''+91'' @ cleanPhone phone) else None)"

definition putUserProfile ::
  "http_env \<Rightarrow> User option \<Rightarrow> updateProfileRequest option \<Rightarrow> site \<Rightarrow> http_response \<times> site" where
  "putUserProfile E ctx body s = (case ctx of
      None \<Rightarrow> (writeError 401 ''unauthorized'', s)
    | Some user \<Rightarrow> (case body of
        None \<Rightarrow> (writeError 400 ''invalid request body'', s)
      | Some req \<Rightarrow>
          let email = TrimSpace (pr_Email req); username = TrimSpace (pr_Username req); name = TrimSpace (pr_Name req);
              address = TrimSpace (pr_Address req); gst = ToUpper (TrimSpace (pr_GSTNumber req))
          in if email = [] then (writeError 400 ''email is required'', s)
             else if \<not> he_mail_ok E email then (writeError 400 ''invalid email address'', s)
             else if username = [] then (writeError 400 ''username is required'', s)
             else (case normalizedPhone (pr_Phone req) of
                None \<Rightarrow> (writeError 400 ''invalid phone number: must be a 10-digit Indian mobile number'', s)
              | Some phone \<Rightarrow>
                  if gst \<noteq> [] \<and> \<not> gstRegex gst then (writeError 400 ''invalid GSTIN format'', s)
                  else (case UpdateUserProfile (u_ID user) email username name phone address gst s of
                     (Inl e, s1) \<Rightarrow>
                       (if errors_Is e ErrDuplicate then writeError 409 ''user with this email or username already exists''
                        else writeError 500 ''failed to update profile'', s1)
                   | (Inr _, s1) \<Rightarrow> (case GetUserByID (u_ID user) s1 of
                         (Inl e, s2) \<Rightarrow> (writeJSON 200 (JUser (toUserResponse
                            ((session_user user)\<lparr> u_Email := email, u_Username := username, u_Name := name, u_Phone := phone,
                               u_Address := address, u_GSTNumber := gst \<rparr>))), s2)
                       | (Inr updatedUser, s2) \<Rightarrow> (writeJSON 200 (JUser (toUserResponse updatedUser)), s2))))))"

record updatePasswordRequest =
  pw_OldPassword :: string
  pw_NewPassword :: string

definition postUserPassword ::
  "http_env \<Rightarrow> User option \<Rightarrow> updatePasswordRequest option \<Rightarrow> http_request \<Rightarrow> site \<Rightarrow> http_response \<times> site" where
  "postUserPassword E ctx body r s = (case ctx of
      None \<Rightarrow> (writeError 401 ''unauthorized'', s)
    | Some user \<Rightarrow> (case body of
        None \<Rightarrow> (writeError 400 ''invalid request body'', s)
      | Some req \<Rightarrow>
          if pw_OldPassword req = [] \<or> pw_NewPassword req = [] then
            (writeError 400 ''current password and new password are required'', s)
          else if length (pw_NewPassword req) < 8 then (writeError 400 ''new password must be at least 8 characters'', s)
          else (case GetUserByID (u_ID user) s of
             (Inl e, s1) \<Rightarrow> (writeError 500 ''failed to retrieve user'', s1)
           | (Inr dbUser, s1) \<Rightarrow>
               if \<not> CheckPassword E (pw_OldPassword req) (u_PasswordHash dbUser) then
                 (writeError 401 ''incorrect current password'', s1)
               else (case HashPassword E (pw_NewPassword req) of
                  Inl e \<Rightarrow> (writeError 500 ''failed to hash password'', s1)
                | Inr newHash \<Rightarrow> (case UpdateUserPassword (u_ID user) newHash s1 of
                      (Inl e, s2) \<Rightarrow> (writeError 500 ''failed to update password'', s2)
                    | (Inr _, s2) \<Rightarrow>
                        let plainToken = extractToken r;
                            s3 = (if plainToken \<noteq> [] then snd (DeleteOtherSessions (u_ID user) (HashSessionToken plainToken) s2) else s2)
                        in (writeJSON 200 (JStatus ''ok''), s3))))))"

section \<open>Middlewares\<close>

text \<open>The user that a request is admitted with, or the response that ends it.\<close>

datatype admission = Public | Admitted User | Refused http_response

definition public_path :: "string \<Rightarrow> bool" where
  "public_path path \<longleftrightarrow> path = ''/healthz'' \<or> path = ''/broker-callback'' \<or> HasPrefix path ''/broker-callback/''
     \<or> path = ''/api/v1/auth/login'' \<or> path = ''/api/v1/auth/register''"

definition touched_expiry :: "gotime \<Rightarrow> Session \<Rightarrow> gotime" where
  "touched_expiry now x =
     (if ss_CreatedAt x \<noteq> 0 \<and> now + sessionDuration > ss_CreatedAt x + maxSessionDuration
      then ss_CreatedAt x + maxSessionDuration else now + sessionDuration)"

definition authMiddleware :: "http_request \<Rightarrow> site \<Rightarrow> admission \<times> site" where
  "authMiddleware r s =
     (if public_path (rq_path r) \<or> \<not> HasPrefix (rq_path r) ''/api/'' then (Public, s)
      else
        let plainToken = extractToken r
        in if plainToken = [] then (Refused (writeError 401 ''unauthorized''), s)
           else
             let tokenHash = HashSessionToken plainToken
             in (case GetSessionWithUser tokenHash s of
                  (Inl e, s1) \<Rightarrow> (Refused (writeError 401 ''unauthorized''), s1)
                | (Inr swu, s1) \<Rightarrow>
                    let x = swu_Session swu; now = site_now s1
                    in if ss_ExpiresAt x < now then (Refused (writeError 401 ''unauthorized''), s1)
                       else if ss_CreatedAt x \<noteq> 0 \<and> now - ss_CreatedAt x \<ge> maxSessionDuration then
                         (Refused (writeError 401 ''session expired''), s1)
                       else if \<not> u_Active (swu_User swu) then (Refused (writeError 401 ''account deactivated''), s1)
                       else
                         let s2 = (if now - ss_LastSeenAt x > sessionTouchWindow
                                   then snd (TouchSession tokenHash (touched_expiry now x) s1) else s1)
                         in (Admitted (swu_User swu), s2)))"

definition requireAdminMiddleware :: "User option \<Rightarrow> http_response option" where
  "requireAdminMiddleware ctx = (case ctx of
      None \<Rightarrow> Some (writeError 401 ''unauthorized'')
    | Some user \<Rightarrow> if u_Role user \<noteq> RoleAdmin then Some (writeError 403 ''forbidden: admin privileges required'') else None)"

section \<open>Administration of users\<close>

text \<open>
  The path's identifier is \<open>None\<close> when it does not parse; a query value is \<open>None\<close> when it is absent
  or not a number.
\<close>

record createAdminUserRequest =
  ca_Email :: string
  ca_Username :: string
  ca_Name :: string
  ca_Password :: string
  ca_Role :: string

record patchAdminUserRequest =
  pa_Role :: "string option"
  pa_Active :: "bool option"
  pa_MaxIPs :: "int option"
  pa_BrokerIPLimits :: "(string \<times> int) list option"

definition single_quoted :: "string \<Rightarrow> string" where
  "single_quoted x = [CHR 0x27] @ x @ [CHR 0x27]"

definition role_error :: string where
  "role_error = ''role must be either '' @ single_quoted ''admin'' @ '' or '' @ single_quoted ''user''"

definition getAdminUsers :: "int option \<Rightarrow> int option \<Rightarrow> site \<Rightarrow> http_response \<times> site" where
  "getAdminUsers rawLimit rawOffset s =
     (let l0 = (case rawLimit of Some n \<Rightarrow> if n > 0 then n else 20 | None \<Rightarrow> 20); l1 = (if l0 > 50 then 50 else l0);
          offset = (case rawOffset of Some n \<Rightarrow> if n \<ge> 0 then n else 0 | None \<Rightarrow> 0)
      in (case ListUsers l1 offset s of
            (Inl e, s1) \<Rightarrow> (writeError 500 (''failed to list users: '' @ err_Error e), s1)
          | (Inr (us, tot), s1) \<Rightarrow> (writeJSON 200 (JUsers us tot l1 offset), s1)))"

definition postAdminUser :: "http_env \<Rightarrow> createAdminUserRequest option \<Rightarrow> site \<Rightarrow> http_response \<times> site" where
  "postAdminUser E body s = (case body of
      None \<Rightarrow> (writeError 400 ''invalid request body'', s)
    | Some req \<Rightarrow>
        let email = ToLower (TrimSpace (ca_Email req)); username = ToLower (TrimSpace (ca_Username req));
            name = (if TrimSpace (ca_Name req) = [] then username else TrimSpace (ca_Name req));
            role0 = ToLower (TrimSpace (ca_Role req)); role = (if role0 = [] then RoleUser else role0)
        in if email = [] \<or> \<not> Contains email ''@'' then (writeError 400 ''valid email is required'', s)
           else if username = [] then (writeError 400 ''username is required'', s)
           else if length (ca_Password req) < 8 then (writeError 400 ''password must be at least 8 characters'', s)
           else if role \<noteq> RoleAdmin \<and> role \<noteq> RoleUser then (writeError 400 role_error, s)
           else (case HashPassword E (ca_Password req) of
              Inl e \<Rightarrow> (writeError 500 ''failed to hash password'', s)
            | Inr hash \<Rightarrow> (case CreateUser (he_uuid E) email username name hash role s of
                  (Inl e, s1) \<Rightarrow>
                    (if errors_Is e ErrDuplicate then writeError 409 ''email or username already in use''
                     else writeError 500 (''failed to create user: '' @ err_Error e), s1)
                | (Inr _, s1) \<Rightarrow> (writeJSON 201 (JUserID (he_uuid E)), s1))))"

text \<open>The sum is an \<open>int\<close>; the loop returns at the first negative limit.\<close>

definition limits_error :: "int option \<Rightarrow> (string \<times> int) list option \<Rightarrow> string option" where
  "limits_error maxIPs limits = (case (maxIPs, limits) of
      (Some n, Some ls) \<Rightarrow>
        if n \<ge> 0 then
          if list_ex (\<lambda>(b, l). l < 0) ls then Some ''broker IP limits cannot be negative''
          else
            let tot = fold (\<lambda>(b, l) acc. wrap64 (acc + l)) ls 0
            in if tot \<noteq> n then Some (''sum of broker IP limits ('' @ show_int tot @ '') does not match total max IPs ('' @ show_int n @ '')'') else None
        else None
    | _ \<Rightarrow> None)"

definition patchAdminUser :: "uuid option \<Rightarrow> patchAdminUserRequest option \<Rightarrow> site \<Rightarrow> http_response \<times> site" where
  "patchAdminUser pathID body s = (case pathID of
      None \<Rightarrow> (writeError 400 ''invalid user id'', s)
    | Some userID \<Rightarrow> (case body of
        None \<Rightarrow> (writeError 400 ''invalid request body'', s)
      | Some req \<Rightarrow>
          let roleVal = (case pa_Role req of None \<Rightarrow> [] | Some x \<Rightarrow> ToLower (TrimSpace x))
          in if pa_Role req \<noteq> None \<and> roleVal \<noteq> RoleAdmin \<and> roleVal \<noteq> RoleUser then (writeError 400 role_error, s)
             else (case GetUserByID userID s of
                (Inl e, s1) \<Rightarrow>
                  (if errors_Is e ErrNotFound then writeError 404 ''user not found''
                   else writeError 500 (''failed to inspect user: '' @ err_Error e), s1)
              | (Inr targetUser, s1) \<Rightarrow>
                  if (case pa_MaxIPs req of Some n \<Rightarrow> n < -1 | None \<Rightarrow> False) then
                    (writeError 400 ''maxIPs must be -1 (unlimited) or non-negative'', s1)
                  else (case limits_error (pa_MaxIPs req) (pa_BrokerIPLimits req) of
                     Some msg \<Rightarrow> (writeError 400 msg, s1)
                   | None \<Rightarrow>
                       if u_Role targetUser = RoleAdmin \<and> pa_Active req = Some False then
                         (writeError 400 ''admin accounts cannot be suspended'', s1)
                       else (case UpdateUserRoleAndStatus userID roleVal (pa_Active req) (pa_MaxIPs req) (pa_BrokerIPLimits req) s1 of
                          (Inl e, s2) \<Rightarrow>
                            (if errors_Is e ErrNotFound then writeError 404 ''user not found''
                             else writeError 500 (''failed to update user: '' @ err_Error e), s2)
                        | (Inr _, s2) \<Rightarrow> (writeJSON 200 (JStatus ''ok''), s2))))))"

definition getAdminUserSessions :: "uuid option \<Rightarrow> site \<Rightarrow> http_response \<times> site" where
  "getAdminUserSessions pathID s = (case pathID of
      None \<Rightarrow> (writeError 400 ''invalid user id'', s)
    | Some userID \<Rightarrow> (case ListUserSessions userID s of
          (Inl e, s1) \<Rightarrow> (writeError 500 (''failed to list user sessions: '' @ err_Error e), s1)
        | (Inr xs, s1) \<Rightarrow> (writeJSON 200 (JSessions xs), s1)))"

definition deleteAdminUserSessions :: "uuid option \<Rightarrow> site \<Rightarrow> http_response \<times> site" where
  "deleteAdminUserSessions pathID s = (case pathID of
      None \<Rightarrow> (writeError 400 ''invalid user id'', s)
    | Some userID \<Rightarrow> (case RevokeAllUserSessions userID s of
          (Inl e, s1) \<Rightarrow> (writeError 500 (''failed to revoke sessions: '' @ err_Error e), s1)
        | (Inr n, s1) \<Rightarrow> (writeJSON 200 (JRevoked n), s1)))"

end
