(* ===== verification/Auth_Thms.thy ===== *)
theory Auth_Thms
  imports Auth_Api
begin

text \<open>
  What the authentication of the API guarantees: the invariant of users and sessions over every
  history of requests, who is admitted, what logging out and changing a password revoke, and
  that the account quota is the one the limits describe.
\<close>

section \<open>The invariant\<close>

definition wf_session :: "site \<Rightarrow> Session \<Rightarrow> bool" where
  "wf_session s x \<longleftrightarrow> 0 < ss_CreatedAt x \<and> ss_CreatedAt x \<le> site_now s \<and> ss_LastSeenAt x \<le> site_now s
     \<and> ss_ExpiresAt x \<le> ss_CreatedAt x + maxSessionDuration \<and> ss_ExpiresAt x \<le> ss_LastSeenAt x + sessionDuration
     \<and> ss_UserID x \<in> set (map u_ID (si_users s))"

definition wf_site :: "site \<Rightarrow> bool" where
  "wf_site s \<longleftrightarrow> 0 < site_now s \<and> distinct (map u_ID (si_users s)) \<and> distinct (map (ToLower \<circ> u_Email) (si_users s))
     \<and> distinct (map (ToLower \<circ> u_Username) (si_users s)) \<and> distinct (map ss_TokenHash (si_sessions s))
     \<and> list_all (wf_session s) (si_sessions s)"

lemmas durations_auth = sessionDuration_def maxSessionDuration_def sessionTouchWindow_def durations

definition with_faults :: "go_error option list \<Rightarrow> site \<Rightarrow> site" where
  "with_faults fs s = s\<lparr> si_db := (si_db s)\<lparr> faults := fs \<rparr> \<rparr>"

lemma with_faults_simps [simp]:
  "site_now (with_faults fs s) = site_now s" "wf_session (with_faults fs s) = wf_session s" "wf_site (with_faults fs s) = wf_site s"
  "find_user i (with_faults fs s) = find_user i s" "si_users (with_faults fs s) = si_users s"
  "si_sessions (with_faults fs s) = si_sessions s" "faults (si_db s) = [] \<Longrightarrow> with_faults [] s = s"
  by (simp_all add: with_faults_def site_now_def wf_session_def[abs_def] wf_site_def find_user_def)

lemma site_call_cases:
  obtains (failed) e fs where "site_call body s = (Inl e, with_faults fs s)" | (ran) fs where "site_call body s = body (with_faults fs s)"
proof (cases "faults (si_db s)")
  case Nil
  then have "site_call body s = body (with_faults [] s)" by (simp add: site_call_def)
  then show thesis by (rule ran)
next
  case (Cons f fs)
  show thesis
  proof (cases f)
    case None
    then have "site_call body s = body (with_faults fs s)" using Cons by (simp add: site_call_def with_faults_def)
    then show thesis by (rule ran)
  next
    case (Some e)
    then have "site_call body s = (Inl e, with_faults fs s)" using Cons by (simp add: site_call_def with_faults_def)
    then show thesis by (rule failed)
  qed
qed

lemma site_call_plain: "faults (si_db s) = [] \<Longrightarrow> site_call body s = body s"
  by (simp add: site_call_def)

text \<open>Operations that keep the invariant and do not move the clock.\<close>

definition keeps_site :: "(site \<Rightarrow> 'a \<times> site) \<Rightarrow> bool" where
  "keeps_site f \<longleftrightarrow> (\<forall>s r s'. wf_site s \<longrightarrow> f s = (r, s') \<longrightarrow> wf_site s' \<and> site_now s' = site_now s)"

lemma keeps_siteD: "keeps_site f \<Longrightarrow> f s = (r, s') \<Longrightarrow> wf_site s \<Longrightarrow> wf_site s' \<and> site_now s' = site_now s"
  by (auto simp: keeps_site_def)

lemma keeps_snd: "keeps_site f \<Longrightarrow> wf_site s \<Longrightarrow> wf_site (snd (f s)) \<and> site_now (snd (f s)) = site_now s"
  by (cases "f s") (auto simp: keeps_site_def)

lemma keeps_site_call:
  assumes "\<And>s. wf_site s \<Longrightarrow> wf_site (snd (body s)) \<and> site_now (snd (body s)) = site_now s"
  shows "keeps_site (site_call body)"
  unfolding keeps_site_def
proof (intro allI impI)
  fix s r s' assume s: "wf_site s" "site_call body s = (r, s')"
  show "wf_site s' \<and> site_now s' = site_now s"
  proof (cases body s rule: site_call_cases)
    case (failed e fs)
    then show ?thesis using s by auto
  next
    case (ran fs)
    have "s' = snd (body (with_faults fs s))" using arg_cong[OF s(2), of snd] unfolding ran by simp
    then show ?thesis using assms[of "with_faults fs s"] s(1) by simp
  qed
qed

lemma keeps_case:
  assumes "keeps_site f" "\<And>e. keeps_site (g e)" "\<And>x. keeps_site (h x)"
  shows "keeps_site (\<lambda>s. case f s of (Inl e, s1) \<Rightarrow> g e s1 | (Inr x, s1) \<Rightarrow> h x s1)"
  unfolding keeps_site_def
proof (intro allI impI)
  fix s r s' assume s: "wf_site s" "(case f s of (Inl e, s1) \<Rightarrow> g e s1 | (Inr x, s1) \<Rightarrow> h x s1) = (r, s')"
  obtain q s1 where f: "f s = (q, s1)" by (rule prod.exhaust)
  note step = keeps_siteD[OF assms(1) f s(1)]
  show "wf_site s' \<and> site_now s' = site_now s"
    using s(2) f step keeps_siteD[OF assms(2), of _ s1 r s'] keeps_siteD[OF assms(3), of _ s1 r s'] by (cases q) simp_all
qed

lemma keeps_return: "keeps_site (\<lambda>s. (r, s))"
  by (simp add: keeps_site_def)

lemma find_user_ex: "find_user i s \<noteq> None \<longleftrightarrow> i \<in> set (map u_ID (si_users s))"
  by (auto simp: find_user_def find_None_iff)

subsection \<open>Store operations\<close>

lemma keeps_queries:
  "keeps_site (GetUserByEmail email)" "keeps_site (GetUserByUsername email)" "keeps_site (GetUserByID i)"
  "keeps_site (GetSessionWithUser h)" "keeps_site (ListUserSessions i)"
  unfolding GetUserByEmail_def GetUserByUsername_def GetUserByID_def GetSessionWithUser_def ListUserSessions_def
  by (rule keeps_site_call; simp)+

lemma wf_upd_user:
  assumes "wf_site s" "\<And>u. u_ID (f u) = u_ID u"
    and "distinct (map (ToLower \<circ> u_Email) (update_where (\<lambda>u. u_ID u = i) f (si_users s)))"
    and "distinct (map (ToLower \<circ> u_Username) (update_where (\<lambda>u. u_ID u = i) f (si_users s)))"
  shows "wf_site (upd_user i f s) \<and> site_now (upd_user i f s) = site_now s"
proof -
  let ?us = "update_where (\<lambda>u. u_ID u = i) f (si_users s)"
  have ids: "map u_ID ?us = map u_ID (si_users s)" using assms(2) by (rule map_update_where)
  have "wf_session (upd_user i f s) = wf_session s"
    unfolding wf_session_def[abs_def] upd_user_def site_now_def by (simp add: ids del: set_map)
  then show ?thesis using assms ids by (simp add: wf_site_def upd_user_def site_now_def)
qed

lemma distinct_update_one:
  assumes "distinct (map u_ID us)" "distinct (map key us)" "\<And>u. u_ID u = i \<Longrightarrow> key (f u) = k"
    and "\<And>u. u \<in> set us \<Longrightarrow> u_ID u \<noteq> i \<Longrightarrow> key u \<noteq> k"
  shows "distinct (map key (update_where (\<lambda>u. u_ID u = i) f us))"
  using assms
proof (induction us)
  case (Cons v us)
  have IH: "distinct (map key (update_where (\<lambda>u. u_ID u = i) f us))" using Cons by simp
  show ?case
  proof (cases "u_ID v = i")
    case True
    then have "i \<notin> u_ID ` set us" using Cons.prems(1) by simp
    then have "\<forall>u\<in>set us. u_ID u \<noteq> i" by blast
    then have "update_where (\<lambda>u. u_ID u = i) f us = us" by (auto simp: update_where_def intro: map_idI)
    moreover have "k \<notin> key ` set us" using Cons.prems(4) \<open>\<forall>u\<in>set us. u_ID u \<noteq> i\<close> by auto
    ultimately show ?thesis using Cons.prems True by (simp add: update_where_def)
  next
    case False
    have "key v \<notin> set (map key (update_where (\<lambda>u. u_ID u = i) f us))"
      using Cons.prems False by (auto simp: update_where_def split: if_splits)
    then show ?thesis using IH False by (simp add: update_where_def del: set_map)
  qed
qed (simp add: update_where_def)

lemma wf_siteD:
  assumes "wf_site s"
  shows "distinct (map u_ID (si_users s))" "distinct (map (ToLower \<circ> u_Email) (si_users s))"
    "distinct (map (ToLower \<circ> u_Username) (si_users s))" "distinct (map ss_TokenHash (si_sessions s))"
    "x \<in> set (si_sessions s) \<Longrightarrow> wf_session s x" "0 < site_now s"
  using assms by (simp_all add: wf_site_def list_all_iff)

lemma wf_upd_user_same:
  assumes "wf_site s" "\<And>u. u_ID (f u) = u_ID u" "\<And>u. u_Email (f u) = u_Email u" "\<And>u. u_Username (f u) = u_Username u"
  shows "wf_site (upd_user i f s) \<and> site_now (upd_user i f s) = site_now s"
proof -
  have "map (ToLower \<circ> u_Email) (update_where (\<lambda>u. u_ID u = i) f (si_users s)) = map (ToLower \<circ> u_Email) (si_users s)"
    "map (ToLower \<circ> u_Username) (update_where (\<lambda>u. u_ID u = i) f (si_users s)) = map (ToLower \<circ> u_Username) (si_users s)"
    using assms(3,4) by (auto intro!: map_update_where)
  then show ?thesis using wf_siteD[OF assms(1)] by (intro wf_upd_user[OF assms(1,2)]) simp_all
qed

lemma login_free:
  "\<not> login_taken i email username s \<Longrightarrow> u \<in> set (si_users s) \<Longrightarrow> u_ID u \<noteq> i \<Longrightarrow>
   ToLower (u_Email u) \<noteq> ToLower email \<and> ToLower (u_Username u) \<noteq> ToLower username"
  by (auto simp: login_taken_def list_ex_iff)

lemma keeps_users:
  "keeps_site (UpdateUserPassword i h)" "keeps_site (UpdateUserRoleAndStatus i role act ips lims)"
  "keeps_site (UpdateUserProfile i email username name phone address gst)"
  "keeps_site (CreateUser i email username name hash role)"
proof -
  show "keeps_site (UpdateUserPassword i h)" unfolding UpdateUserPassword_def by (rule keeps_site_call) (simp add: wf_upd_user_same)
  show "keeps_site (UpdateUserRoleAndStatus i role act ips lims)"
    unfolding UpdateUserRoleAndStatus_def by (rule keeps_site_call) (simp add: wf_upd_user_same)
  show "keeps_site (UpdateUserProfile i email username name phone address gst)"
    unfolding UpdateUserProfile_def
  proof (rule keeps_site_call)
    fix s assume s: "wf_site s"
    let ?f = "\<lambda>u. u\<lparr> u_Email := email, u_Username := username, u_Name := name, u_Phone := phone, u_Address := address,
      u_GSTNumber := gst, u_UpdatedAt := site_now s \<rparr>"
    have "wf_site (upd_user i ?f s) \<and> site_now (upd_user i ?f s) = site_now s" if "\<not> (find_user i s \<noteq> None \<and> login_taken i email username s)"
    proof (cases "find_user i s = None")
      case True
      then have "update_where (\<lambda>u. u_ID u = i) ?f (si_users s) = si_users s"
        by (auto simp: update_where_def find_user_def find_None_iff intro: map_idI)
      then have "upd_user i ?f s = s" by (simp add: upd_user_def)
      then show ?thesis using s by simp
    next
      case False
      then have free: "\<not> login_taken i email username s" using that by simp
      show ?thesis
        by (rule wf_upd_user[OF s]) (simp, (rule distinct_update_one[OF wf_siteD(1)[OF s]], use wf_siteD[OF s] login_free[OF free] in auto)+)
    qed
    then show "wf_site (snd (if find_user i s \<noteq> None \<and> login_taken i email username s then (Inl ErrDuplicate, s) else (Inr (), upd_user i ?f s)))
      \<and> site_now (snd (if find_user i s \<noteq> None \<and> login_taken i email username s then (Inl ErrDuplicate, s) else (Inr (), upd_user i ?f s))) = site_now s"
      using s by simp
  qed
  show "keeps_site (CreateUser i email username name hash role)"
    unfolding CreateUser_def
  proof (rule keeps_site_call)
    fix s assume s: "wf_site s"
    let ?s = "s\<lparr> si_users := si_users s @ [new_user i email username name hash role (site_now s)] \<rparr>"
    have "wf_site ?s" if new: "find_user i s = None" "\<not> login_taken i email username s"
    proof -
      have other: "u_ID u \<noteq> i" if "u \<in> set (si_users s)" for u using new(1) that find_user_ex[of i s] by auto
      then have "ToLower email \<notin> (ToLower \<circ> u_Email) ` set (si_users s)" "ToLower username \<notin> (ToLower \<circ> u_Username) ` set (si_users s)"
        using login_free[OF new(2)] by force+
      then show ?thesis using s other by (auto simp: wf_site_def wf_session_def list_all_iff new_user_def site_now_def)
    qed
    then show "wf_site (snd (if find_user i s \<noteq> None \<or> login_taken i email username s then (Inl ErrDuplicate, s) else (Inr (), ?s)))
      \<and> site_now (snd (if find_user i s \<noteq> None \<or> login_taken i email username s then (Inl ErrDuplicate, s) else (Inr (), ?s))) = site_now s"
      using s by (auto simp: site_now_def)
  qed
qed

lemma keeps_drop:
  "keeps_site (site_call (\<lambda>s. (Inr (g s), snd (drop_sessions (P s) s))))"
  by (rule keeps_site_call) (auto simp: drop_sessions_def wf_site_def wf_session_def list_all_iff site_now_def distinct_map_filter)

lemma keeps_deletes:
  "keeps_site (DeleteSession h)" "keeps_site (DeleteOtherSessions i h)" "keeps_site DeleteExpiredSessions"
  "keeps_site (RevokeAllUserSessions i)"
  using keeps_drop[of "\<lambda>s. ()"] keeps_drop[of "\<lambda>s. fst (drop_sessions (\<lambda>x. ss_ExpiresAt x \<le> site_now s) s)"]
    keeps_drop[of "\<lambda>s. fst (drop_sessions (\<lambda>x. ss_UserID x = i) s)"]
  by (simp_all add: DeleteSession_def DeleteOtherSessions_def DeleteExpiredSessions_def RevokeAllUserSessions_def case_prod_beta)

lemma CreateSession_keeps:
  assumes "wf_site s" "CreateSession h i ip ua t s = (r, s')" "t \<le> site_now s + sessionDuration"
  shows "wf_site s' \<and> site_now s' = site_now s"
proof -
  let ?new = "\<lambda>s. \<lparr> ss_ID = si_next_session s, ss_TokenHash = h, ss_UserID = i, ss_IPAddress = nonempty ip,
      ss_UserAgent = nonempty ua, ss_ExpiresAt = t, ss_CreatedAt = site_now s, ss_LastSeenAt = site_now s \<rparr>"
  let ?body = "\<lambda>s. if list_ex (\<lambda>x. ss_TokenHash x = h) (si_sessions s) then (Inl pg_unique, s)
      else if find_user i s = None then (Inl pg_foreign, s)
      else (Inr (), s\<lparr> si_next_session := si_next_session s + 1, si_sessions := si_sessions s @ [?new s] \<rparr>)"
  have body: "wf_site (snd (?body t)) \<and> site_now (snd (?body t)) = site_now t" if "wf_site t" "site_now t = site_now s" for t
    using that assms(3) find_user_ex[of i t]
    by (auto simp: wf_site_def wf_session_def list_all_iff list_ex_iff site_now_def durations_auth)
  have "CreateSession h i ip ua t = site_call ?body" by (simp add: CreateSession_def)
  with assms(2) have run: "site_call ?body s = (r, s')" by simp
  show ?thesis
  proof (cases ?body s rule: site_call_cases)
    case (failed e fs)
    then show ?thesis using run assms(1) by auto
  next
    case (ran fs)
    have "s' = snd (?body (with_faults fs s))" using arg_cong[OF run, of snd] unfolding ran by simp
    then show ?thesis using body[of "with_faults fs s"] assms(1) by simp
  qed
qed

lemma TouchSession_keeps:
  assumes "wf_site s" "t \<le> site_now s + sessionDuration"
    and "\<And>x. x \<in> set (si_sessions s) \<Longrightarrow> ss_TokenHash x = h \<Longrightarrow> t \<le> ss_CreatedAt x + maxSessionDuration"
  shows "wf_site (snd (TouchSession h t s)) \<and> site_now (snd (TouchSession h t s)) = site_now s"
proof -
  let ?upd = "\<lambda>s. update_where (\<lambda>x. ss_TokenHash x = h) (\<lambda>x. x\<lparr> ss_LastSeenAt := site_now s, ss_ExpiresAt := t \<rparr>) (si_sessions s)"
  let ?body = "\<lambda>s. (Inr (), s\<lparr> si_sessions := ?upd s \<rparr>) :: unit result \<times> site"
  have "map ss_TokenHash (?upd s) = map ss_TokenHash (si_sessions s)" by (rule map_update_where) simp
  moreover have "x \<in> set (?upd s) \<Longrightarrow> wf_session s x" for x
    using wf_siteD(5)[OF assms(1)] assms(2,3) by (auto simp: update_where_def wf_session_def split: if_splits)
  ultimately have body: "wf_site (s\<lparr> si_sessions := ?upd s \<rparr>)"
    using assms(1) by (auto simp: wf_site_def list_all_iff site_now_def wf_session_def)
  have eq: "TouchSession h t = site_call ?body" by (simp add: TouchSession_def)
  show ?thesis
  proof (cases ?body s rule: site_call_cases)
    case (failed e fs)
    then show ?thesis unfolding eq failed using assms(1) by simp
  next
    case (ran fs)
    have "snd (?body (with_faults fs s)) = with_faults fs (s\<lparr> si_sessions := ?upd s \<rparr>)"
      by (simp add: with_faults_def site_now_def)
    then show ?thesis unfolding eq ran using body by simp (simp add: site_now_def)
  qed
qed

subsection \<open>Handlers\<close>

lemma keeps_if: "keeps_site f \<Longrightarrow> keeps_site g \<Longrightarrow> keeps_site (\<lambda>s. if b then f s else g s)"
  by (cases b) simp_all

lemma keeps_option: "keeps_site f \<Longrightarrow> (\<And>x. keeps_site (g x)) \<Longrightarrow> keeps_site (\<lambda>s. case v of None \<Rightarrow> f s | Some x \<Rightarrow> g x s)"
  by (cases v) simp_all

lemma keeps_sum: "(\<And>e. keeps_site (f e)) \<Longrightarrow> (\<And>x. keeps_site (g x)) \<Longrightarrow> keeps_site (\<lambda>s. case v of Inl e \<Rightarrow> f e s | Inr x \<Rightarrow> g x s)"
  by (cases v) simp_all

lemma keeps_prod: "(\<And>a b. keeps_site (f a b)) \<Longrightarrow> keeps_site (\<lambda>s. case v of (a, b) \<Rightarrow> f a b s)"
  by (cases v) simp

lemma keeps_effect: "keeps_site f \<Longrightarrow> keeps_site (\<lambda>s. (r, if b then snd (f s) else s))"
  using keeps_snd[of f] by (auto simp: keeps_site_def[of "\<lambda>s. (r, if b then snd (f s) else s)"])

lemma keeps_start_session: "keeps_site (start_session E r status u)"
  unfolding keeps_site_def
proof (intro allI impI)
  fix s q s' assume s: "wf_site s" "start_session E r status u s = (q, s')"
  show "wf_site s' \<and> site_now s' = site_now s"
  proof (cases "GenerateSessionToken E")
    case (Inl e)
    then show ?thesis using s by (auto simp: start_session_def)
  next
    case (Inr tok)
    obtain plain hash where tok: "tok = (plain, hash)" by (rule prod.exhaust)
    obtain c s1 where c: "CreateSession hash (u_ID u) (clientIP r) (rq_user_agent r) (site_now s + sessionDuration) s = (c, s1)"
      by (rule prod.exhaust)
    then have "s' = s1" using s(2) Inr tok by (cases c) (auto simp: start_session_def)
    then show ?thesis using CreateSession_keeps[OF s(1) c] by simp
  qed
qed

lemmas keeps_intros = keeps_case keeps_return keeps_if keeps_option keeps_sum keeps_prod keeps_effect keeps_queries keeps_users
  keeps_deletes keeps_start_session

lemma keeps_auth_handlers:
  "keeps_site (postRegister E reg r)" "keeps_site (postLogin E lreq r)" "keeps_site (postLogout E r)" "keeps_site (getMe ctx)"
  "keeps_site (putUserProfile E ctx prof)" "keeps_site (postUserPassword E ctx pw r)"
  unfolding postRegister_def[abs_def] postLogin_def[abs_def] postLogout_def[abs_def] getMe_def[abs_def] putUserProfile_def[abs_def]
    postUserPassword_def[abs_def] Let_def
  by (intro keeps_intros)+

lemma keeps_admin_handlers:
  "keeps_site (postAdminUser E req)" "keeps_site (patchAdminUser i patch)" "keeps_site (getAdminUserSessions i)"
  "keeps_site (deleteAdminUserSessions i)"
  unfolding postAdminUser_def[abs_def] patchAdminUser_def[abs_def] getAdminUserSessions_def[abs_def] deleteAdminUserSessions_def[abs_def] Let_def
  by (intro keeps_intros)+

lemma GetSession_cases:
  assumes "GetSessionWithUser h s = (q, s')"
  obtains e where "q = Inl e"
  | x u fs where "q = Inr \<lparr> swu_Session = x, swu_User = session_user u \<rparr>" "s' = with_faults fs s" "x \<in> set (si_sessions s)" "ss_TokenHash x = h"
      "site_now s < ss_ExpiresAt x" "u \<in> set (si_users s)" "u_ID u = ss_UserID x"
proof (cases q)
  case (Inr w)
  let ?body = "\<lambda>s. (case find (\<lambda>x. ss_TokenHash x = h \<and> ss_ExpiresAt x > site_now s \<and> find_user (ss_UserID x) s \<noteq> None) (si_sessions s) of
        None \<Rightarrow> Inl ErrNotFound
      | Some x \<Rightarrow> Inr \<lparr> swu_Session = x, swu_User = session_user (the (find_user (ss_UserID x) s)) \<rparr>, s)"
  have run: "site_call ?body s = (Inr w, s')" using assms Inr by (simp add: GetSessionWithUser_def)
  show thesis
  proof (cases ?body s rule: site_call_cases)
    case (failed e fs)
    then show thesis using run by simp
  next
    case (ran fs)
    obtain x where x: "find (\<lambda>x. ss_TokenHash x = h \<and> ss_ExpiresAt x > site_now s \<and> find_user (ss_UserID x) s \<noteq> None) (si_sessions s) = Some x"
        "w = \<lparr> swu_Session = x, swu_User = session_user (the (find_user (ss_UserID x) s)) \<rparr>" "s' = with_faults fs s"
      using run unfolding ran by (auto split: option.splits)
    obtain u where u: "find_user (ss_UserID x) s = Some u" using find_Some_mem[OF x(1)] by auto
    have "u \<in> set (si_users s)" "u_ID u = ss_UserID x" using u find_Some_mem[of _ "si_users s" u] by (auto simp: find_user_def)
    then show thesis using that(2)[of x u fs] Inr x u find_Some_mem[OF x(1)] by simp
  qed
qed (use that in blast)

section \<open>Who is admitted\<close>

lemma touched_expiry_le: "touched_expiry now x \<le> now + sessionDuration"
  "0 < ss_CreatedAt x \<Longrightarrow> touched_expiry now x \<le> ss_CreatedAt x + maxSessionDuration"
  by (auto simp: touched_expiry_def)

lemma keeps_authMiddleware: "keeps_site (authMiddleware r)"
  unfolding keeps_site_def
proof (intro allI impI)
  fix s q s' assume s: "wf_site s" "authMiddleware r s = (q, s')"
  let ?h = "HashSessionToken (extractToken r)"
  obtain g s1 where g: "GetSessionWithUser ?h s = (g, s1)" by (rule prod.exhaust)
  note s1 = keeps_siteD[OF keeps_queries(4) g s(1)]
  show "wf_site s' \<and> site_now s' = site_now s"
  proof (cases rule: GetSession_cases[OF g])
    case (1 e)
    then show ?thesis using s s1 g by (auto simp: authMiddleware_def Let_def split: if_splits)
  next
    case (2 x u fs)
    have "t = x" if "t \<in> set (si_sessions s1)" "ss_TokenHash t = ?h" for t
      using that 2 wf_siteD(4)[OF s(1)] inj_onD[of ss_TokenHash "set (si_sessions s)" t x] by (simp add: distinct_map)
    moreover have "0 < ss_CreatedAt x" using wf_siteD(5)[OF s(1) 2(3)] by (simp add: wf_session_def)
    ultimately have "wf_site (snd (TouchSession ?h (touched_expiry (site_now s1) x) s1))
        \<and> site_now (snd (TouchSession ?h (touched_expiry (site_now s1) x) s1)) = site_now s1"
      using touched_expiry_le by (intro TouchSession_keeps) (use s1 in auto)
    then show ?thesis using s s1 g 2(1) by (auto simp: authMiddleware_def Let_def split: if_splits)
  qed
qed

lemma authMiddleware_admits:
  assumes "wf_site s" "authMiddleware r s = (Admitted u, s')"
  shows "\<exists>x v. x \<in> set (si_sessions s) \<and> v \<in> set (si_users s) \<and> ss_TokenHash x = HashSessionToken (extractToken r)
    \<and> u_ID v = ss_UserID x \<and> u = session_user v \<and> u_Active v
    \<and> site_now s < ss_CreatedAt x + maxSessionDuration \<and> site_now s < ss_LastSeenAt x + sessionDuration"
proof -
  let ?h = "HashSessionToken (extractToken r)"
  obtain g s1 where g: "GetSessionWithUser ?h s = (g, s1)" by (rule prod.exhaust)
  show ?thesis
  proof (cases rule: GetSession_cases[OF g])
    case (1 e)
    then show ?thesis using assms(2) g by (auto simp: authMiddleware_def Let_def split: if_splits)
  next
    case (2 x v fs)
    have x: "wf_session s x" by (rule wf_siteD(5)[OF assms(1) 2(3)])
    have "u = session_user v" "u_Active (session_user v)" "site_now s < ss_CreatedAt x + maxSessionDuration"
      using assms(2) g 2(1,2) x by (auto simp: authMiddleware_def Let_def wf_session_def split: if_splits)
    then show ?thesis using 2 x by (intro exI[of _ x] exI[of _ v]) (auto simp: wf_session_def session_user_def without_quota_def)
  qed
qed

text \<open>
  A history of the site: requests to the handlers and through the middleware with any
  environment, the clock, the clean-up of sessions, and any change of the other tables.
\<close>

inductive site_step :: "site \<Rightarrow> site \<Rightarrow> bool" where
  clock: "site_now s \<le> t \<Longrightarrow> site_step s (s\<lparr> si_db := (si_db s)\<lparr> db_now := t \<rparr> \<rparr>)"
| tables: "db_now d = site_now s \<Longrightarrow> site_step s (s\<lparr> si_db := d, si_proxies := ps \<rparr>)"
| register: "site_step s (snd (postRegister E reg r s))"
| login: "site_step s (snd (postLogin E lreq r s))"
| logout: "site_step s (snd (postLogout E r s))"
| profile: "site_step s (snd (putUserProfile E ctx prof s))"
| password: "site_step s (snd (postUserPassword E ctx pw r s))"
| admit: "site_step s (snd (authMiddleware r s))"
| create_user: "site_step s (snd (postAdminUser E new s))"
| patch_user: "site_step s (snd (patchAdminUser i patch s))"
| revoke: "site_step s (snd (deleteAdminUserSessions i s))"
| expire: "site_step s (snd (DeleteExpiredSessions s))"

definition new_site :: "db \<Rightarrow> site" where
  "new_site d = \<lparr> si_db = d, si_users = [], si_sessions = [], si_next_session = 1, si_proxies = [] \<rparr>"

lemma site_step_wf: "site_step s s' \<Longrightarrow> wf_site s \<Longrightarrow> wf_site s'"
proof (induction rule: site_step.induct)
  case (clock s t)
  then have "wf_session (s\<lparr> si_db := (si_db s)\<lparr> db_now := t \<rparr> \<rparr>) x" if "x \<in> set (si_sessions s)" for x
    using wf_siteD(5)[OF clock(2) that] by (auto simp: wf_session_def site_now_def)
  then show ?case using clock by (auto simp: wf_site_def list_all_iff site_now_def)
next
  case (tables d s ps)
  then show ?case by (auto simp: wf_site_def wf_session_def list_all_iff site_now_def)
qed (simp_all add: keeps_auth_handlers[THEN keeps_snd] keeps_admin_handlers[THEN keeps_snd] keeps_authMiddleware[THEN keeps_snd]
      keeps_deletes[THEN keeps_snd])

lemma site_run_wf: "site_step\<^sup>*\<^sup>* (new_site d) s \<Longrightarrow> 0 < db_now d \<Longrightarrow> wf_site s"
proof (induction rule: rtranclp_induct)
  case base
  then show ?case by (simp add: new_site_def wf_site_def site_now_def)
next
  case (step y z)
  then show ?case using site_step_wf by blast
qed

text \<open>
  C35 Nobody gets in without a live session: whatever requests the site has served, a request to the API is
  admitted as a user only if its token hashes to a session of that user in the table, the user is
  active, the session was opened less than seven days ago and was last seen less than three days
  ago. The role the request acts with is the one in the table of users.
\<close>
theorem admitted_session:
  assumes "site_step\<^sup>*\<^sup>* (new_site d) s" and "0 < db_now d" and "authMiddleware r s = (Admitted u, s')"
  shows "\<exists>x v. x \<in> set (si_sessions s) \<and> v \<in> set (si_users s) \<and> ss_TokenHash x = HashSessionToken (extractToken r)
    \<and> ss_UserID x = u_ID u \<and> u_ID v = u_ID u \<and> u_Role v = u_Role u \<and> u_Active v
    \<and> site_now s - ss_CreatedAt x < 7 * 24 * Hour \<and> site_now s - ss_LastSeenAt x < 3 * 24 * Hour"
  using authMiddleware_admits[OF site_run_wf[OF assms(1,2)] assms(3)]
  by (fastforce simp: durations_auth session_user_def without_quota_def)

section \<open>Passwords\<close>

text \<open>
  What bcrypt documents: a generated hash matches its password and, among passwords of at most 72
  bytes, no other.
\<close>

definition bcrypt_doc :: "bcrypt_pkg \<Rightarrow> bool" where
  "bcrypt_doc B \<longleftrightarrow> (\<forall>p h. bc_Generate B p = Inr h \<longrightarrow> h \<noteq> [] \<and> (\<forall>q. length q \<le> 72 \<longrightarrow> bc_Compare B h q = (q = p)))"

lemma HashPassword_checks:
  assumes "bcrypt_doc (he_bcrypt E)" "HashPassword E p = Inr h" "bc_Compare (he_bcrypt E') = bc_Compare (he_bcrypt E)" "length q \<le> 72"
  shows "CheckPassword E' q h \<longleftrightarrow> q = p"
  using assms by (auto simp: HashPassword_def CheckPassword_def bcrypt_doc_def split: if_splits)

definition api_request :: "http_request \<Rightarrow> bool" where
  "api_request r \<longleftrightarrow> HasPrefix (rq_path r) ''/api/'' \<and> \<not> public_path (rq_path r)"

definition password_changed :: "uuid \<Rightarrow> secret \<Rightarrow> http_request \<Rightarrow> site \<Rightarrow> site" where
  "password_changed i h r s =
     (let s2 = upd_user i (\<lambda>v. v\<lparr> u_PasswordHash := h, u_UpdatedAt := site_now s \<rparr>) s
      in if extractToken r = [] then s2
         else snd (drop_sessions (\<lambda>x. ss_UserID x = i \<and> ss_TokenHash x \<noteq> HashSessionToken (extractToken r)) s2))"

lemma postUserPassword_ok:
  assumes "postUserPassword E (Some u) (Some req) r s = (resp, s')" "rp_status resp = 200" "faults (si_db s) = []"
  shows "\<exists>h. HashPassword E (pw_NewPassword req) = Inr h \<and> s' = password_changed (u_ID u) h r s"
  using assms
  by (auto simp: postUserPassword_def writeError_def writeJSON_def GetUserByID_def UpdateUserPassword_def DeleteOtherSessions_def
      site_call_plain Let_def upd_user_def password_changed_def split: if_splits option.splits sum.splits)

lemma password_changed_simps:
  "si_users (password_changed i h r s) = si_users (upd_user i (\<lambda>v. v\<lparr> u_PasswordHash := h, u_UpdatedAt := site_now s \<rparr>) s)"
  "faults (si_db (password_changed i h r s)) = faults (si_db s)"
  "extractToken r \<noteq> [] \<Longrightarrow> x \<in> set (si_sessions (password_changed i h r s)) \<Longrightarrow> ss_UserID x = i \<Longrightarrow>
     ss_TokenHash x = HashSessionToken (extractToken r)"
  by (auto simp: password_changed_def drop_sessions_def upd_user_def Let_def)

lemma find_user_upd: "(\<And>v. u_ID (f v) = u_ID v) \<Longrightarrow> find_user j (upd_user i f s) = map_option (\<lambda>v. if u_ID v = i then f v else v) (find_user j s)"
  by (simp add: find_user_def upd_user_def find_update_where)

lemma find_unique: "v \<in> set xs \<Longrightarrow> P v \<Longrightarrow> (\<And>w. w \<in> set xs \<Longrightarrow> P w \<Longrightarrow> w = v) \<Longrightarrow> find P xs = Some v"
proof (induction xs)
  case (Cons a xs)
  show ?case
  proof (cases "P a")
    case True
    then show ?thesis using Cons.prems(3)[of a] by simp
  next
    case False
    then have "v \<in> set xs" using Cons.prems(1,2) by auto
    then show ?thesis using Cons.IH[OF _ Cons.prems(2)] Cons.prems(3) False by simp
  qed
qed simp

lemma find_user_in: "find_user i s = Some v \<Longrightarrow> v \<in> set (si_users s) \<and> u_ID v = i"
  using find_Some_mem[of "\<lambda>u. u_ID u = i" "si_users s" v] by (simp add: find_user_def)

lemma postLogin_eq:
  assumes "wf_site s" "faults (si_db s) = []" "v \<in> set (si_users s)" "ToLower (TrimSpace (lr_Email req)) = ToLower (u_Email v)"
    and "TrimSpace (lr_Email req) \<noteq> []" "lr_Password req \<noteq> []"
  shows "postLogin E (Some req) r s =
    (if \<not> CheckPassword E (lr_Password req) (u_PasswordHash v) then (writeError 401 ''invalid email or password'', s)
     else if \<not> u_Active v then (writeError 403 ''Your account has been suspended. Please contact your administrator.'', s)
     else start_session E r 200 (without_quota v) s)"
proof -
  have "w = v" if "w \<in> set (si_users s)" "ToLower (u_Email w) = ToLower (u_Email v)" for w
    using wf_siteD(2)[OF assms(1)] that assms(3) inj_onD[of "ToLower \<circ> u_Email" "set (si_users s)" w v] by (simp add: distinct_map)
  then have "find (\<lambda>u. ToLower (u_Email u) = ToLower (TrimSpace (lr_Email req))) (si_users s) = Some v"
    using assms(3,4) by (intro find_unique) auto
  then show ?thesis
    using assms(2,5,6) by (simp add: postLogin_def GetUserByEmail_def site_call_plain without_quota_def Let_def)
qed

lemma start_session_ok:
  assumes "faults (si_db s) = []" "GenerateSessionToken E = Inr (tok, h)" "h \<notin> set (map ss_TokenHash (si_sessions s))"
    and "find_user (u_ID u) s \<noteq> None"
  shows "rp_status (fst (start_session E r st u s)) = st \<and> rp_body (fst (start_session E r st u s)) = JUserToken (toUserResponse u) tok"
  using assms by (auto simp: start_session_def CreateSession_def site_call_plain setSessionCookie_def writeJSON_def list_ex_iff)

text \<open>
  The handler ignores an error of logging out the other sessions: when that statement fails after
  the new password was stored, it still answers 200 and every session stays as it was.
\<close>
theorem failed_logout_reported_as_success:
  assumes "faults (si_db s) = [None, None, Some e]" and "find_user (u_ID u) s = Some v"
    and "CheckPassword E (pw_OldPassword req) (u_PasswordHash v)" and "HashPassword E (pw_NewPassword req) = Inr h"
    and "pw_OldPassword req \<noteq> []" and "8 \<le> length (pw_NewPassword req)" and "extractToken r \<noteq> []"
  shows "rp_status (fst (postUserPassword E (Some u) (Some req) r s)) = 200
    \<and> si_sessions (snd (postUserPassword E (Some u) (Some req) r s)) = si_sessions s"
  using assms
  by (auto simp: postUserPassword_def GetUserByID_def UpdateUserPassword_def DeleteOtherSessions_def site_call_def Let_def
      writeJSON_def upd_user_def find_user_def without_quota_def update_where_def)

text \<open>
  C36 Changing the password takes effect at once when the database does not fail: after a successful
  change, a login with any password (of at most 72 bytes, the most that bcrypt reads) but the new one is
  refused, a login with the new one succeeds, and of the user's sessions only the one that
  made the change is still admitted. With a failing database the other sessions can survive a
  change that was answered with success, see \<open>failed_logout_reported_as_success\<close>.
\<close>
theorem password_change_effective:
  assumes "site_step\<^sup>*\<^sup>* (new_site d) s" and "0 < db_now d" and "faults (si_db s) = []" and "bcrypt_doc (he_bcrypt E)"
    and "postUserPassword E (Some u) (Some req) r s = (resp, s')" and "rp_status resp = 200" and "extractToken r \<noteq> []"
    and "bc_Compare (he_bcrypt E') = bc_Compare (he_bcrypt E)" and "find_user (u_ID u) s' = Some v"
    and "ToLower (TrimSpace (lr_Email l)) = ToLower (u_Email v)" and "TrimSpace (lr_Email l) \<noteq> []"
    and "length (lr_Password l) \<le> 72" and "lr_Password l \<noteq> []"
  shows "(lr_Password l \<noteq> pw_NewPassword req \<longrightarrow> rp_status (fst (postLogin E' (Some l) r2 s')) = 401)
    \<and> (lr_Password l = pw_NewPassword req \<longrightarrow> u_Active v \<longrightarrow> GenerateSessionToken E' = Inr (tok, h) \<longrightarrow>
        h \<notin> set (map ss_TokenHash (si_sessions s')) \<longrightarrow> rp_status (fst (postLogin E' (Some l) r2 s')) = 200)
    \<and> (authMiddleware r2 s' = (Admitted w, s2) \<longrightarrow> u_ID w = u_ID u \<longrightarrow>
        HashSessionToken (extractToken r2) = HashSessionToken (extractToken r))"
proof -
  note wf = site_run_wf[OF assms(1,2)]
  have wf': "wf_site s'" using keeps_siteD[OF keeps_auth_handlers(6) assms(5) wf] by blast
  obtain h0 where ok: "HashPassword E (pw_NewPassword req) = Inr h0" "s' = password_changed (u_ID u) h0 r s"
    using postUserPassword_ok[OF assms(5,6,3)] by blast
  have fl: "faults (si_db s') = []" using assms(3) by (simp add: ok(2) password_changed_simps)
  have v: "v \<in> set (si_users s')" "u_ID v = u_ID u" using find_user_in[OF assms(9)] by blast+
  let ?f = "\<lambda>v. v\<lparr> u_PasswordHash := h0, u_UpdatedAt := site_now s \<rparr>"
  have "find_user (u_ID u) s' = find_user (u_ID u) (upd_user (u_ID u) ?f s)"
    by (simp add: find_user_def ok(2) password_changed_simps)
  also have "\<dots> = map_option (\<lambda>v. if u_ID v = u_ID u then ?f v else v) (find_user (u_ID u) s)" by (rule find_user_upd) simp
  finally obtain v0 where v0: "find_user (u_ID u) s = Some v0" "v = (if u_ID v0 = u_ID u then ?f v0 else v0)"
    unfolding assms(9) by (cases "find_user (u_ID u) s") simp_all
  then have pw: "u_PasswordHash v = h0" using find_user_in[OF v0(1)] by simp
  note login = postLogin_eq[OF wf' fl v(1) assms(10,11,13), of E' r2]
  have check: "CheckPassword E' (lr_Password l) h0 \<longleftrightarrow> lr_Password l = pw_NewPassword req"
    using HashPassword_checks[OF assms(4) ok(1) assms(8,12)] .
  have started: "rp_status (fst (start_session E' r2 200 (without_quota v) s')) = 200"
    if "GenerateSessionToken E' = Inr (tok, h)" "h \<notin> set (map ss_TokenHash (si_sessions s'))"
  proof -
    have "find_user (u_ID (without_quota v)) s' \<noteq> None" using assms(9) v(2) by (simp add: without_quota_def)
    from start_session_ok[OF fl that this] show ?thesis by blast
  qed
  have other: "HashSessionToken (extractToken r2) = HashSessionToken (extractToken r)"
    if adm: "authMiddleware r2 s' = (Admitted w, s2)" "u_ID w = u_ID u"
  proof -
    obtain x y where x: "x \<in> set (si_sessions s')" "ss_TokenHash x = HashSessionToken (extractToken r2)" "u_ID y = ss_UserID x"
        "w = session_user y" using authMiddleware_admits[OF wf' adm(1)] by blast
    then have "ss_UserID x = u_ID u" using adm(2) by (simp add: session_user_def without_quota_def)
    then show ?thesis using password_changed_simps(3)[OF assms(7)] x(1,2) unfolding ok(2) by metis
  qed
  have "rp_status (fst (postLogin E' (Some l) r2 s')) = 401" if "lr_Password l \<noteq> pw_NewPassword req"
    using that unfolding login pw check by (simp add: writeError_def writeJSON_def)
  moreover have "postLogin E' (Some l) r2 s' = start_session E' r2 200 (without_quota v) s'" if "lr_Password l = pw_NewPassword req" "u_Active v"
    using that unfolding login pw check by simp
  ultimately show ?thesis using started other by presburger
qed

section \<open>Account quota\<close>

text \<open>
  The specification of the quota: the accounts of every broker fill its own slots first, what is left over
  takes general slots, and the number of accounts does not exceed the maximum.
\<close>

definition used :: "string \<Rightarrow> account_row list \<Rightarrow> int" where
  "used b rows = int (length (filter (\<lambda>a. ToLower (ar_broker a) = b) rows))"

definition overflow :: "(string \<times> int) list \<Rightarrow> account_row list \<Rightarrow> int" where
  "overflow limits rows = (\<Sum>b \<in> set (map (ToLower \<circ> ar_broker) rows). max 0 (used b rows - limit_of limits b))"

definition within_quota :: "int \<Rightarrow> (string \<times> int) list \<Rightarrow> account_row list \<Rightarrow> bool" where
  "within_quota maxIPs limits rows \<longleftrightarrow> int (length rows) \<le> maxIPs \<and> overflow limits rows \<le> limit_of limits ''general''"

lemma excess_overflow: "excess_used limits (broker_counts rows) = overflow limits rows"
proof -
  have "excess_used limits (broker_counts rows)
      = sum_list (map (\<lambda>b. max 0 (used b rows - limit_of limits b)) (remdups (map (ToLower \<circ> ar_broker) rows)))"
    by (auto simp: excess_used_def broker_counts_def used_def max_def comp_def intro!: arg_cong[where f = sum_list] map_cong)
  then show ?thesis by (simp add: overflow_def sum_list_distinct_conv_sum_set)
qed

lemma used_pos: "b \<notin> set (map (ToLower \<circ> ar_broker) rows) \<Longrightarrow> used b rows = 0"
  by (auto simp: used_def filter_empty_conv)

lemma overflow_over:
  assumes "\<And>b. 0 \<le> limit_of limits b" "finite B" "set (map (ToLower \<circ> ar_broker) rows) \<subseteq> B"
  shows "overflow limits rows = (\<Sum>b \<in> B. max 0 (used b rows - limit_of limits b))"
  unfolding overflow_def using assms used_pos[of _ rows] by (intro sum.mono_neutral_left) (auto simp: max_def intro: antisym)

lemma overflow_snoc:
  assumes "\<And>b. 0 \<le> limit_of limits b"
  shows "overflow limits (rows @ [a]) = overflow limits rows + (if used (ToLower (ar_broker a)) rows < limit_of limits (ToLower (ar_broker a)) then 0 else 1)"
proof -
  let ?t = "ToLower (ar_broker a)" and ?f = "\<lambda>rows b. max 0 (used b rows - limit_of limits b)"
  define B where "B = insert ?t (set (map (ToLower \<circ> ar_broker) rows))"
  have B: "finite B" "?t \<in> B" by (simp_all add: B_def)
  have other: "used b (rows @ [a]) = used b rows" if "b \<noteq> ?t" for b using that by (simp add: used_def)
  have one: "used ?t (rows @ [a]) = used ?t rows + 1" by (simp add: used_def)
  have "overflow limits (rows @ [a]) = (\<Sum>b \<in> B. ?f (rows @ [a]) b)" by (rule overflow_over[OF assms]) (auto simp: B_def)
  also have "\<dots> = ?f (rows @ [a]) ?t + (\<Sum>b \<in> B - {?t}. ?f (rows @ [a]) b)" using B by (rule sum.remove)
  also have "(\<Sum>b \<in> B - {?t}. ?f (rows @ [a]) b) = (\<Sum>b \<in> B - {?t}. ?f rows b)" using other by (intro sum.cong) auto
  also have "?f (rows @ [a]) ?t + (\<Sum>b \<in> B - {?t}. ?f rows b)
      = (\<Sum>b \<in> B. ?f rows b) + (if used ?t rows < limit_of limits ?t then 0 else 1)"
    using sum.remove[OF B, of "?f rows"] one by auto
  also have "(\<Sum>b \<in> B. ?f rows b) = overflow limits rows" by (rule overflow_over[OF assms, symmetric]) (auto simp: B_def)
  finally show ?thesis .
qed

lemma overflow_nonneg: "0 \<le> overflow limits rows"
  unfolding overflow_def by (rule sum_nonneg) simp

lemma map_of_pairs: "map_of (map (\<lambda>b. (b, f b)) bs) b = (if b \<in> set bs then Some (f b) else None)"
  by (induction bs) auto

lemma limit_counts: "limit_of (broker_counts rows) b = used b rows"
  using used_pos[of b rows] by (auto simp: limit_of_def broker_counts_def map_of_pairs used_def)

text \<open>
  C37 The quota check is exact: for a user with limits that are not negative and, unless the maximum
  is \<open>-1\<close>, accounts that are within the quota, another account of a broker is allowed if and only if
  the maximum is \<open>-1\<close> or the accounts with the new one are still within the quota. (No database
  failure; with one the check reports the error.)
\<close>
theorem CheckAccountQuota_exact:
  assumes "faults (si_db s) = []" and "find_user i s = Some u" and "\<And>b. 0 \<le> limit_of (u_BrokerIPLimits u) b"
    and "u_MaxIPs u \<noteq> -1 \<Longrightarrow> within_quota (u_MaxIPs u) (u_BrokerIPLimits u) (owned i s)" and "ToLower (ar_broker a) = target_broker broker"
  shows "CheckAccountQuota i broker s =
    (if u_MaxIPs u = -1 \<or> within_quota (u_MaxIPs u) (u_BrokerIPLimits u) (owned i s @ [a]) then Inr ()
     else Inl (if u_MaxIPs u \<le> int (length (owned i s)) then ErrAccountQuotaExceeded else ErrBrokerAccountQuotaExceeded), s)"
proof (cases "u_MaxIPs u = -1")
  case True
  then show ?thesis using assms(1,2) by (simp add: CheckAccountQuota_def site_call_plain)
next
  case False
  let ?rows = "owned i s" and ?l = "u_BrokerIPLimits u"
  note snoc = overflow_snoc[OF assms(3), of ?rows a, unfolded assms(5)]
  have general: "overflow ?l ?rows \<le> limit_of ?l ''general''" using assms(4)[OF False] by (simp add: within_quota_def)
  have fit: "within_quota (u_MaxIPs u) ?l (?rows @ [a]) \<longleftrightarrow> int (length ?rows) < u_MaxIPs u
      \<and> (used (target_broker broker) ?rows < limit_of ?l (target_broker broker) \<or> overflow ?l ?rows < limit_of ?l ''general'')"
    using snoc general by (auto simp: within_quota_def)
  have "0 \<le> used (target_broker broker) ?rows" by (simp add: used_def)
  then show ?thesis
    using assms(1,2) False fit overflow_nonneg[of ?l ?rows]
    by (auto simp: CheckAccountQuota_def site_call_plain Let_def limit_counts excess_overflow)
qed

section \<open>From registration to an admitted request\<close>

lemma start_session_admits:
  assumes "wf_site s" "faults (si_db s) = []" "he_rand E = Inr bytes" "length bytes = 32" "HashSessionToken (hex_bytes bytes) \<notin> set (map ss_TokenHash (si_sessions s))"
    and "find_user (u_ID u) s = Some v" "u_Active v" "api_request r'" "extractToken r' = hex_bytes bytes"
  shows "\<exists>s'. authMiddleware r' (snd (start_session E r st u s)) = (Admitted (session_user v), s')"
proof -
  let ?h = "HashSessionToken (hex_bytes bytes)" and ?s = "snd (start_session E r st u s)"
  define x where "x = \<lparr> ss_ID = si_next_session s, ss_TokenHash = ?h, ss_UserID = u_ID u, ss_IPAddress = nonempty (clientIP r),
      ss_UserAgent = nonempty (rq_user_agent r), ss_ExpiresAt = site_now s + sessionDuration, ss_CreatedAt = site_now s, ss_LastSeenAt = site_now s \<rparr>"
  have fresh: "\<not> list_ex (\<lambda>y. ss_TokenHash y = ?h) (si_sessions s)" using assms(5) by (force simp: list_ex_iff)
  have s: "?s = s\<lparr> si_next_session := si_next_session s + 1, si_sessions := si_sessions s @ [x] \<rparr>"
    using assms(2-4,6) fresh by (simp add: start_session_def GenerateSessionToken_def CreateSession_def site_call_plain x_def)
  have now: "site_now ?s = site_now s" "faults (si_db ?s) = []" "find_user (u_ID u) ?s = Some v"
    using assms(2,6) by (simp_all add: s site_now_def find_user_def)
  have "find (\<lambda>y. ss_TokenHash y = ?h \<and> ss_ExpiresAt y > site_now ?s \<and> find_user (ss_UserID y) ?s \<noteq> None) (si_sessions ?s) = Some x"
  proof (rule find_unique)
    show "ss_TokenHash x = ?h \<and> ss_ExpiresAt x > site_now ?s \<and> find_user (ss_UserID x) ?s \<noteq> None"
      using now by (simp add: x_def durations_auth)
  qed (use fresh in \<open>auto simp: s list_ex_iff\<close>)
  then have get: "GetSessionWithUser ?h ?s = (Inr \<lparr> swu_Session = x, swu_User = session_user v \<rparr>, ?s)"
    using now by (simp add: GetSessionWithUser_def site_call_plain x_def)
  have "length (hex_bytes bytes) \<noteq> 0" using assms(4) by simp
  then have "hex_bytes bytes \<noteq> []" by blast
  moreover have "u_Active (session_user v)" using assms(7) by (simp add: session_user_def without_quota_def)
  ultimately show ?thesis
    using assms(8,9) get now(1) by (simp add: authMiddleware_def api_request_def Let_def x_def durations_auth)
qed

lemma postRegister_ok:
  assumes "postRegister E (Some req) r s = (resp, s1)" "rp_status resp = 201" "faults (si_db s) = []"
  shows "\<exists>h. HashPassword E (rr_Password req) = Inr h \<and> faults (si_db s1) = [] \<and> find_user (he_uuid E) s1 =
    Some (new_user (he_uuid E) (TrimSpace (rr_Email req)) (TrimSpace (rr_Username req)) (rr_Name req) h ''user'' (site_now s))
    \<and> TrimSpace (rr_Email req) \<noteq> [] \<and> 8 \<le> length (rr_Password req)"
proof -
  let ?e = "TrimSpace (rr_Email req)" and ?u = "TrimSpace (rr_Username req)"
  have ok: "?e \<noteq> []" "he_mail_ok E ?e" "?u \<noteq> []" "8 \<le> length (rr_Password req)"
    using assms(1,2) by (auto simp: postRegister_def Let_def writeError_def writeJSON_def split: if_splits)
  then obtain h where h: "HashPassword E (rr_Password req) = Inr h"
    using assms(1,2) by (cases "HashPassword E (rr_Password req)") (auto simp: postRegister_def Let_def writeError_def writeJSON_def)
  let ?new = "new_user (he_uuid E) ?e ?u (rr_Name req) h ''user'' (site_now s)"
  let ?s = "s\<lparr> si_users := si_users s @ [?new] \<rparr>"
  have new: "find_user (he_uuid E) s = None" "CreateUser (he_uuid E) ?e ?u (rr_Name req) h ''user'' s = (Inr (), ?s)"
    using assms ok h by (auto simp: postRegister_def Let_def CreateUser_def site_call_plain writeError_def writeJSON_def split: if_splits)
  have u: "find_user (he_uuid E) ?s = Some ?new"
    using new(1) by (simp add: find_user_def find_None_iff, intro find_unique) (auto simp: new_user_def)
  obtain st usr where run: "start_session E r st usr ?s = (resp, s1)"
    using assms(1) ok h new(2) by (simp add: postRegister_def Let_def)
  have "si_users s1 = si_users ?s \<and> faults (si_db s1) = []"
    using arg_cong[OF run, of snd] assms(3)
    by (auto simp: start_session_def CreateSession_def site_call_plain split: sum.splits prod.splits if_splits)
  then show ?thesis using h ok u by (auto simp: find_user_def)
qed

text \<open>
  Registering works end to end: at any time after a successful registration, as long as the row of the user is
  unchanged, a login with the registered address, in any letter case, and password succeeds as the
  new user with the role of an ordinary user, and a request to the API with the issued token is
  admitted as that user.
\<close>
theorem register_then_login:
  assumes "site_step\<^sup>*\<^sup>* (new_site d) s" and "0 < db_now d" and "faults (si_db s) = []" and "bcrypt_doc (he_bcrypt E)"
    and "postRegister E (Some req) r s = (resp, s1)" and "rp_status resp = 201" and "length (rr_Password req) \<le> 72"
    and "site_step\<^sup>*\<^sup>* s1 t" and "find_user (he_uuid E) t = find_user (he_uuid E) s1" and "faults (si_db t) = []"
    and "bc_Compare (he_bcrypt E') = bc_Compare (he_bcrypt E)" and "he_rand E' = Inr bytes" and "length bytes = 32"
    and "HashSessionToken (hex_bytes bytes) \<notin> set (map ss_TokenHash (si_sessions t))"
    and "ToLower (TrimSpace (lr_Email l)) = ToLower (TrimSpace (rr_Email req))" and "lr_Password l = rr_Password req"
    and "api_request r3" and "extractToken r3 = hex_bytes bytes"
  shows "rp_status (fst (postLogin E' (Some l) r2 t)) = 200
    \<and> (\<exists>u s3. authMiddleware r3 (snd (postLogin E' (Some l) r2 t)) = (Admitted u, s3) \<and> u_ID u = he_uuid E \<and> u_Role u = RoleUser)"
proof -
  have "site_step\<^sup>*\<^sup>* (new_site d) s1" using rtranclp.rtrancl_into_rtrancl[OF assms(1)] register[of s E "Some req" r] assms(5) by simp
  then have wf: "wf_site t" using site_run_wf[OF rtranclp_trans[OF _ assms(8)] assms(2)] by blast
  obtain h where h: "HashPassword E (rr_Password req) = Inr h" "TrimSpace (rr_Email req) \<noteq> []" "8 \<le> length (rr_Password req)"
      "find_user (he_uuid E) t = Some (new_user (he_uuid E) (TrimSpace (rr_Email req)) (TrimSpace (rr_Username req)) (rr_Name req) h ''user'' (site_now s))"
    using postRegister_ok[OF assms(5,6,3)] unfolding assms(9) by blast
  let ?v = "new_user (he_uuid E) (TrimSpace (rr_Email req)) (TrimSpace (rr_Username req)) (rr_Name req) h ''user'' (site_now s)"
  have v: "?v \<in> set (si_users t)" "u_Active ?v" "u_ID ?v = he_uuid E" "u_PasswordHash ?v = h" "u_Role ?v = RoleUser"
    using find_user_in[OF h(4)] by (simp_all add: new_user_def RoleUser_def)
  have "TrimSpace (lr_Email l) \<noteq> []" using assms(15) h(2) ToLower_eq_Nil by metis
  then have email: "ToLower (TrimSpace (lr_Email l)) = ToLower (u_Email ?v)" "TrimSpace (lr_Email l) \<noteq> []" "lr_Password l \<noteq> []"
    using assms(15,16) h(3) by (auto simp: new_user_def)
  have "CheckPassword E' (lr_Password l) h" using HashPassword_checks[OF assms(4) h(1) assms(11)] assms(7,16) by simp
  then have login: "postLogin E' (Some l) r2 t = start_session E' r2 200 (without_quota ?v) t"
    using postLogin_eq[OF wf assms(10) v(1) email, of E' r2] v by simp
  have gen: "GenerateSessionToken E' = Inr (hex_bytes bytes, HashSessionToken (hex_bytes bytes))" using assms(12) by (simp add: GenerateSessionToken_def)
  have u: "find_user (u_ID (without_quota ?v)) t = Some ?v" using h(4) v(3) by (simp add: without_quota_def)
  have "rp_status (fst (start_session E' r2 200 (without_quota ?v) t)) = 200"
    using start_session_ok[OF assms(10) gen assms(14), of "without_quota ?v" r2 200] u by blast
  moreover obtain s3 where "authMiddleware r3 (snd (start_session E' r2 200 (without_quota ?v) t)) = (Admitted (session_user ?v), s3)"
    using start_session_admits[OF wf assms(10) assms(12-14) u v(2) assms(17,18)] by blast
  moreover have "u_ID (session_user ?v) = he_uuid E" "u_Role (session_user ?v) = RoleUser" using v by (simp_all add: session_user_def without_quota_def)
  ultimately show ?thesis unfolding login by blast
qed

text \<open>
  Logging out ends the session: when the database answers, the token that logged out is refused afterwards.
\<close>
theorem logout_revokes:
  assumes "faults (si_db s) = []" and "api_request r'" and "extractToken r' = extractToken r" and "extractToken r \<noteq> []"
  shows "fst (authMiddleware r' (snd (postLogout E r s))) = Refused (writeError 401 ''unauthorized'')"
proof -
  let ?s = "snd (postLogout E r s)" and ?h = "HashSessionToken (extractToken r)"
  have s: "?s = s\<lparr> si_sessions := filter (\<lambda>x. ss_TokenHash x \<noteq> ?h) (si_sessions s) \<rparr>"
    using assms(1,4) by (simp add: postLogout_def Let_def DeleteSession_def site_call_plain drop_sessions_def)
  have "find (\<lambda>x. ss_TokenHash x = ?h \<and> ss_ExpiresAt x > site_now ?s \<and> find_user (ss_UserID x) ?s \<noteq> None) (si_sessions ?s) = None"
    by (auto simp: find_None_iff s)
  then have "GetSessionWithUser ?h ?s = (Inl ErrNotFound, ?s)"
    using assms(1) by (simp add: GetSessionWithUser_def site_call_plain s)
  then show ?thesis using assms(2-4) by (simp add: authMiddleware_def api_request_def Let_def)
qed

section \<open>Witnesses\<close>

definition ex_bcrypt :: bcrypt_pkg where
  "ex_bcrypt = \<lparr> bc_Generate = (\<lambda>p. if length p \<le> 72 then Inr (CHR ''$'' # p) else Inl (Plain ''password too long'')),
     bc_Compare = (\<lambda>h q. h = CHR ''$'' # q) \<rparr>"

definition ex_env :: "int \<Rightarrow> uuid \<Rightarrow> http_env" where
  "ex_env n i = \<lparr> he_bcrypt = ex_bcrypt, he_mail_ok = (\<lambda>m. True), he_rand = Inr (replicate 32 n), he_uuid = i, he_cookie_secure = True \<rparr>"

definition ex_request :: "string \<Rightarrow> http_request" where
  "ex_request tok = \<lparr> rq_path = ''/api/v1/accounts'', rq_cookie = Some tok, rq_authorization = [], rq_forwarded_for = [],
     rq_real_ip = [], rq_remote_addr = ''10.0.0.1:443'', rq_forwarded_proto = [], rq_tls = True, rq_user_agent = [] \<rparr>"

definition ex_register :: registerRequest where
  "ex_register = \<lparr> rr_Email = ''a@b'', rr_Username = ''a'', rr_Password = ''password'', rr_Name = ''A'' \<rparr>"

definition ex_site :: site where
  "ex_site = new_site ex_db"

definition ex_tok :: "int \<Rightarrow> string" where
  "ex_tok n = hex_bytes (replicate 32 n)"

definition ex_env1 :: http_env where
  "ex_env1 = ex_env 1 ''u1''"

definition ex_user1 :: User where
  "ex_user1 = new_user ''u1'' ''a@b'' ''a'' ''A'' (CHR ''$'' # ''password'') ''user'' 1"

definition ex_session1 :: Session where
  "ex_session1 = \<lparr> ss_ID = 1, ss_TokenHash = HashSessionToken (ex_tok 1), ss_UserID = ''u1'', ss_IPAddress = Some ''10.0.0.1'',
     ss_UserAgent = None, ss_ExpiresAt = 1 + sessionDuration, ss_CreatedAt = 1, ss_LastSeenAt = 1 \<rparr>"

definition ex_site1 :: site where
  "ex_site1 = ex_site\<lparr> si_users := [ex_user1], si_sessions := [ex_session1], si_next_session := 2 \<rparr>"

lemma ex_trims: "TrimSpace ''a@b'' = ''a@b''" "TrimSpace ''a'' = ''a''" "clientIP (ex_request tok) = ''10.0.0.1''"
  "ToLower ''A@B'' = ''a@b''" "TrimSpace ''A@B'' = ''A@B''" "ToLower ''a@b'' = ''a@b''"
  by code_simp+

lemma ex_registered:
  "\<exists>resp. postRegister ex_env1 (Some ex_register) (ex_request []) ex_site = (resp, ex_site1) \<and> rp_status resp = 201"
  by (simp add: postRegister_def ex_env1_def ex_env_def ex_register_def ex_site_def new_site_def HashPassword_def ex_bcrypt_def CreateUser_def
      site_call_plain login_taken_def find_user_def start_session_def GenerateSessionToken_def CreateSession_def setSessionCookie_def
      writeJSON_def ex_site1_def ex_user1_def ex_session1_def ex_tok_def ex_trims site_now_def new_user_def nonempty_def Let_def)
     (simp add: ex_request_def)

lemma ex_site1_run: "site_step\<^sup>*\<^sup>* (new_site ex_db) ex_site1" "0 < db_now ex_db" "faults (si_db ex_site1) = []"
proof -
  obtain resp where "postRegister ex_env1 (Some ex_register) (ex_request []) ex_site = (resp, ex_site1)" using ex_registered by blast
  then show "site_step\<^sup>*\<^sup>* (new_site ex_db) ex_site1"
    using register[of ex_site ex_env1 "Some ex_register" "ex_request []"] by (simp add: ex_site_def)
qed (simp_all add: ex_site1_def ex_site_def new_site_def)

lemma ex_tok_token: "extractToken (ex_request (ex_tok n)) = ex_tok n" "api_request (ex_request tok)" "ex_tok n \<noteq> []"
proof -
  have "length (ex_tok n) \<noteq> 0" by (simp add: ex_tok_def)
  then show "ex_tok n \<noteq> []" by blast
  then show "extractToken (ex_request (ex_tok n)) = ex_tok n" by (simp add: extractToken_def ex_request_def)
  show "api_request (ex_request tok)" by (simp add: api_request_def ex_request_def public_path_def HasPrefix_def)
qed

lemma ex_admitted: "authMiddleware (ex_request (ex_tok 1)) ex_site1 = (Admitted (session_user ex_user1), ex_site1)"
  using ex_tok_token(1,3)[of 1] ex_tok_token(2)[of "ex_tok 1"]
  by (simp add: authMiddleware_def api_request_def Let_def GetSessionWithUser_def site_call_plain ex_site1_run(3) ex_site1_def ex_session1_def
      ex_user1_def find_user_def site_now_def ex_site_def new_site_def durations_auth session_user_def without_quota_def new_user_def)

theorem admitted_session_witness:
  "\<exists>x v. x \<in> set (si_sessions ex_site1) \<and> v \<in> set (si_users ex_site1) \<and> ss_TokenHash x = HashSessionToken (ex_tok 1)
    \<and> ss_UserID x = ''u1'' \<and> u_ID v = ''u1'' \<and> u_Active v \<and> site_now ex_site1 - ss_CreatedAt x < 7 * 24 * Hour"
  using admitted_session[OF ex_site1_run(1,2) ex_admitted] ex_tok_token(1)
  by (simp add: ex_user1_def new_user_def session_user_def without_quota_def) blast

theorem logout_revokes_witness:
  "fst (authMiddleware (ex_request (ex_tok 1)) (snd (postLogout ex_env1 (ex_request (ex_tok 1)) ex_site1)))
     = Refused (writeError 401 ''unauthorized'')"
  using logout_revokes[OF ex_site1_run(3) ex_tok_token(2)] ex_tok_token(1,3) by metis

lemma ex_bcrypt_doc: "bcrypt_doc (he_bcrypt ex_env1)"
  by (auto simp: bcrypt_doc_def ex_env1_def ex_env_def ex_bcrypt_def)

theorem register_then_login_witness:
  "rp_status (fst (postLogin (ex_env 2 ''x'') (Some \<lparr> lr_Email = ''A@B'', lr_Password = ''password'' \<rparr>) (ex_request [])
     (snd (postLogout ex_env1 (ex_request (ex_tok 1)) ex_site1)))) = 200"
proof -
  let ?t = "snd (postLogout ex_env1 (ex_request (ex_tok 1)) ex_site1)"
  obtain resp where reg: "postRegister ex_env1 (Some ex_register) (ex_request []) ex_site = (resp, ex_site1)" "rp_status resp = 201"
    using ex_registered by blast
  have t: "?t = ex_site1\<lparr> si_sessions := [] \<rparr>"
    using ex_tok_token(1,3)[of 1] ex_site1_run(3)
    by (simp add: postLogout_def Let_def DeleteSession_def site_call_plain drop_sessions_def ex_site1_def ex_session1_def)
  have run: "site_step\<^sup>*\<^sup>* ex_site1 ?t" using logout by blast
  have site: "site_step\<^sup>*\<^sup>* (new_site ex_db) ex_site" "faults (si_db ex_site) = []" by (simp_all add: ex_site_def new_site_def)
  have "rp_status (fst (postLogin (ex_env 2 ''x'') (Some \<lparr> lr_Email = ''A@B'', lr_Password = ''password'' \<rparr>) (ex_request []) ?t)) = 200
    \<and> (\<exists>u s3. authMiddleware (ex_request (ex_tok 2)) (snd (postLogin (ex_env 2 ''x'') (Some \<lparr> lr_Email = ''A@B'', lr_Password = ''password'' \<rparr>)
        (ex_request []) ?t)) = (Admitted u, s3) \<and> u_ID u = he_uuid ex_env1 \<and> u_Role u = RoleUser)"
  proof (rule register_then_login[OF site(1) ex_site1_run(2) site(2) ex_bcrypt_doc reg _ run, where bytes = "replicate 32 2"])
    show "extractToken (ex_request (ex_tok 2)) = hex_bytes (replicate 32 2)" using ex_tok_token(1)[of 2] by (simp add: ex_tok_def)
  qed (unfold t, use ex_tok_token(2) ex_site1_run(3) in \<open>simp_all add: ex_register_def find_user_def ex_env1_def ex_env_def ex_bcrypt_def ex_trims\<close>)
  then show ?thesis by blast
qed

definition ex_pw :: updatePasswordRequest where
  "ex_pw = \<lparr> pw_OldPassword = ''password'', pw_NewPassword = ''new password'' \<rparr>"

theorem password_change_effective_witness:
  "rp_status (fst (postLogin ex_env1 (Some \<lparr> lr_Email = ''A@B'', lr_Password = ''password'' \<rparr>) (ex_request [])
     (snd (postUserPassword ex_env1 (Some ex_user1) (Some ex_pw) (ex_request (ex_tok 1)) ex_site1)))) = 401"
proof -
  let ?s = "snd (postUserPassword ex_env1 (Some ex_user1) (Some ex_pw) (ex_request (ex_tok 1)) ex_site1)"
  let ?resp = "fst (postUserPassword ex_env1 (Some ex_user1) (Some ex_pw) (ex_request (ex_tok 1)) ex_site1)"
  have run: "?s = ex_site1\<lparr> si_users := [ex_user1\<lparr> u_PasswordHash := CHR ''$'' # ''new password'', u_UpdatedAt := 1 \<rparr>] \<rparr>" "rp_status ?resp = 200"
    using ex_tok_token(1,3)[of 1] ex_site1_run(3)
    by (simp_all add: postUserPassword_def ex_pw_def GetUserByID_def site_call_plain find_user_def UpdateUserPassword_def upd_user_def update_where_def
        DeleteOtherSessions_def drop_sessions_def Let_def ex_site1_def ex_session1_def ex_user1_def new_user_def ex_env1_def ex_env_def
        ex_bcrypt_def CheckPassword_def HashPassword_def writeJSON_def site_now_def ex_site_def new_site_def)
  have pair: "postUserPassword ex_env1 (Some ex_user1) (Some ex_pw) (ex_request (ex_tok 1)) ex_site1 = (?resp, ?s)" by simp
  have v: "find_user (u_ID ex_user1) ?s = Some (ex_user1\<lparr> u_PasswordHash := CHR ''$'' # ''new password'', u_UpdatedAt := 1 \<rparr>)"
    unfolding run by (simp add: find_user_def)
  have tok: "extractToken (ex_request (ex_tok 1)) \<noteq> []" using ex_tok_token(1,3)[of 1] by simp
  let ?l = "\<lparr> lr_Email = ''A@B'', lr_Password = ''password'' \<rparr>"
  have l: "ToLower (TrimSpace (lr_Email ?l)) = ToLower (u_Email (ex_user1\<lparr> u_PasswordHash := CHR ''$'' # ''new password'', u_UpdatedAt := 1 \<rparr>))"
      "TrimSpace (lr_Email ?l) \<noteq> []" "length (lr_Password ?l) \<le> 72" "lr_Password ?l \<noteq> []"
    by (simp_all add: ex_trims ex_user1_def new_user_def)
  show ?thesis
    using password_change_effective[OF ex_site1_run ex_bcrypt_doc pair run(2) tok refl v l] by (simp add: ex_pw_def)
qed

definition ex_quota_site :: site where
  "ex_quota_site = ex_site\<lparr> si_users := [ex_user1\<lparr> u_MaxIPs := 1, u_BrokerIPLimits := [(''kite'', 1)] \<rparr>] \<rparr>"

theorem CheckAccountQuota_exact_witness:
  "CheckAccountQuota ''u1'' ''kite'' ex_quota_site = (Inr (), ex_quota_site)"
proof -
  let ?u = "ex_user1\<lparr> u_MaxIPs := 1, u_BrokerIPLimits := [(''kite'', 1)] \<rparr>"
  have u: "faults (si_db ex_quota_site) = []" "find_user ''u1'' ex_quota_site = Some ?u" "0 \<le> limit_of (u_BrokerIPLimits ?u) b" "u_MaxIPs ?u \<noteq> -1" for b
    by (simp_all add: ex_quota_site_def ex_site_def new_site_def find_user_def ex_user1_def new_user_def limit_of_def)
  have own: "owned ''u1'' ex_quota_site = []"
    by (simp add: owned_def ex_quota_site_def ex_site_def new_site_def ex_db_def empty_db_def ex_account_def)
  have "target_broker ''kite'' = ''kite''" "ToLower ''kite'' = ''kite''" by code_simp+
  then show ?thesis
    using CheckAccountQuota_exact[OF u(1,2,3), of "ex_account ''f'' ''follower''" "''kite''"] own u(4)
    by (simp add: within_quota_def overflow_def used_def limit_of_def ex_account_def)
qed

end
