(* ===== verification/Proxy_Thms.thy ===== *)
theory Proxy_Thms
  imports Proxy_Pool "HOL-Library.Multiset"
begin

text \<open>
  Properties of the proxy pool: what normalizing a whitelist means for the brokers it admits, when
  the statistics of the application and of the database agree and that they need not, imports as
  transactions, and that an address in use is not deleted.
\<close>

section \<open>Whitelists\<close>

lemma TrimSpace_Nil_iff: "TrimSpace s = [] \<longleftrightarrow> list_all is_space s"
proof -
  have "set (dropWhile is_space s) \<subseteq> {c. is_space c} \<longleftrightarrow> list_all is_space s"
    by (induction s) (auto simp: list_all_iff)
  then show ?thesis
    by (auto simp: TrimSpace_def dropWhile_eq_Nil_conv list_all_iff)
qed

lemma TrimSpace_Cons: "is_space c \<Longrightarrow> TrimSpace (c # s) = TrimSpace s"
  by (simp add: TrimSpace_def)

lemma dropWhile_snoc: "P c \<Longrightarrow> dropWhile P (s @ [c]) = (if list_all P s then [] else dropWhile P s @ [c])"
  by (induction s) auto

lemma TrimSpace_snoc: "is_space c \<Longrightarrow> TrimSpace (s @ [c]) = TrimSpace s"
proof (cases "list_all is_space s")
  case True
  assume "is_space c"
  then show ?thesis using True TrimSpace_Nil_iff [of s] TrimSpace_Nil_iff [of "s @ [c]"] by simp
qed (simp add: TrimSpace_def dropWhile_snoc)

lemma Split_nonempty [simp]: "Split s sep \<noteq> []"
  by (induction s) (auto split: list.splits)

lemma Split_Cons: "c \<noteq> sep \<Longrightarrow> Split (c # s) sep = (c # hd (Split s sep)) # tl (Split s sep)"
  by (cases "Split s sep") auto

lemma Split_no_sep: "part \<in> set (Split s sep) \<Longrightarrow> sep \<notin> set part"
  by (induction s arbitrary: part) (auto split: if_splits list.splits)

lemma Split_snoc: "c \<noteq> sep \<Longrightarrow> Split (s @ [c]) sep = butlast (Split s sep) @ [last (Split s sep) @ [c]]"
proof (induction s)
  case (Cons d s)
  then show ?case
    by (cases "Split s sep") (auto split: list.splits)
qed simp

lemma map_TrimSpace_Cons: "is_space c \<Longrightarrow> c \<noteq> sep \<Longrightarrow> map TrimSpace (Split (c # s) sep) = map TrimSpace (Split s sep)"
  by (cases "Split s sep") (auto simp: TrimSpace_Cons)

lemma map_TrimSpace_snoc: "is_space c \<Longrightarrow> c \<noteq> sep \<Longrightarrow> map TrimSpace (Split (s @ [c]) sep) = map TrimSpace (Split s sep)"
proof -
  assume "is_space c" "c \<noteq> sep"
  then have "map TrimSpace (Split (s @ [c]) sep) = map TrimSpace (butlast (Split s sep) @ [last (Split s sep)])"
    by (simp add: Split_snoc TrimSpace_snoc del: append_butlast_last_id)
  then show ?thesis by (simp only: append_butlast_last_id [OF Split_nonempty] simp_thms)
qed

lemma map_TrimSpace_Split:
  assumes "\<not> is_space sep"
  shows "map TrimSpace (Split (TrimSpace s) sep) = map TrimSpace (Split s sep)"
proof -
  have front: "map TrimSpace (Split (dropWhile is_space s) sep) = map TrimSpace (Split s sep)" for s
  proof (induction s)
    case (Cons c s)
    then show ?case using assms map_TrimSpace_Cons [of c sep s] by auto
  qed simp
  have rear: "map TrimSpace (Split (rev (dropWhile is_space (rev s))) sep) = map TrimSpace (Split s sep)" for s
  proof (induction s rule: rev_induct)
    case (snoc c s)
    then show ?case using assms map_TrimSpace_snoc [of c sep s] by (cases "is_space c"; cases "c = sep") simp_all
  qed simp
  show ?thesis unfolding TrimSpace_def [of s] by (simp add: rear front)
qed

lemma Split_append: "sep \<notin> set p \<Longrightarrow> Split (p @ sep # s) sep = p # Split s sep"
  by (induction p) auto

lemma Split_no: "sep \<notin> set p \<Longrightarrow> Split p sep = [p]"
  by (induction p) auto

lemma Split_Join:
  "\<forall>x\<in>set (x # xs). CHR '','' \<notin> set x \<Longrightarrow> Split (Join (x # xs) '', '') (CHR '','') = x # map ((#) (CHR '' '')) xs"
proof (induction xs arbitrary: x)
  case (Cons y xs)
  then have "Split (CHR '' '' # Join (y # xs) '', '') (CHR '','') = (CHR '' '' # y) # map ((#) (CHR '' '')) xs"
    by (subst Split_Cons) auto
  then show ?case using Cons.prems by (simp add: Split_append)
qed (simp add: Split_no)

lemma normal_broker_facts:
  assumes "TrimSpace item = item"
  shows "canonical_broker (normal_broker item) = canonical_broker item" "TrimSpace (normal_broker item) = normal_broker item"
    "item \<noteq> [] \<Longrightarrow> normal_broker item \<noteq> []" "CHR '','' \<notin> set item \<Longrightarrow> CHR '','' \<notin> set (normal_broker item)"
    "normal_broker (normal_broker item) = normal_broker item"
proof -
  have literals: "canonical_broker ''Zerodha'' = ''zerodha''" "canonical_broker ''Dhan'' = ''dhan''"
    "canonical_broker ''TestBroker'' = ''testbroker''" "TrimSpace ''Zerodha'' = ''Zerodha''" "TrimSpace ''Dhan'' = ''Dhan''"
    "TrimSpace ''TestBroker'' = ''TestBroker''" "normal_broker ''Zerodha'' = ''Zerodha''" "normal_broker ''Dhan'' = ''Dhan''"
    "normal_broker ''TestBroker'' = ''TestBroker''"
    by code_simp+
  show "canonical_broker (normal_broker item) = canonical_broker item"
    by (auto simp: normal_broker_def Let_def literals canonical_broker_def [of item] assms)
  show "TrimSpace (normal_broker item) = normal_broker item" "item \<noteq> [] \<Longrightarrow> normal_broker item \<noteq> []"
    "CHR '','' \<notin> set item \<Longrightarrow> CHR '','' \<notin> set (normal_broker item)"
    by (auto simp: normal_broker_def Let_def literals assms)
  show "normal_broker (normal_broker item) = normal_broker item"
    by (auto simp: normal_broker_def [of item] Let_def literals)
qed

definition whitelist_items :: "string \<Rightarrow> string list" where
  "whitelist_items raw = filter (\<lambda>item. item \<noteq> []) (map TrimSpace (Split raw (CHR '','')))"

lemma Normalize_items: "NormalizeWhitelistedBrokers raw = Join (map normal_broker (whitelist_items raw)) '', ''"
proof -
  have "\<not> is_space (CHR '','')" by code_simp
  note items = map_TrimSpace_Split [OF this, of raw]
  show ?thesis
  proof (cases "TrimSpace raw = []")
    case True
    then have "map TrimSpace (Split raw (CHR '','')) = [[]]" using items by simp
    then show ?thesis using True by (simp add: NormalizeWhitelistedBrokers_def whitelist_items_def)
  next
    case False
    then show ?thesis by (simp add: NormalizeWhitelistedBrokers_def whitelist_items_def items del: map_map)
  qed
qed

lemma whitelist_items_facts:
  assumes "item \<in> set (whitelist_items raw)"
  shows "TrimSpace item = item" "item \<noteq> []" "CHR '','' \<notin> set item"
proof -
  obtain part where part: "part \<in> set (Split raw (CHR '',''))" "item = TrimSpace part" "item \<noteq> []"
    using assms by (auto simp: whitelist_items_def)
  have "set (TrimSpace part) \<subseteq> set part"
    by (auto simp: TrimSpace_def dest!: set_dropWhileD)
  then show "TrimSpace item = item" "item \<noteq> []" "CHR '','' \<notin> set item"
    using part Split_no_sep [OF part(1)] by auto
qed

text \<open>Normalized items read back as themselves.\<close>

lemma Split_Normalize:
  assumes "whitelist_items raw \<noteq> []"
  shows "map TrimSpace (Split (NormalizeWhitelistedBrokers raw) (CHR '','')) = map normal_broker (whitelist_items raw)"
proof -
  obtain x xs where Cons: "whitelist_items raw = x # xs" using assms by (cases "whitelist_items raw") auto
  have sp: "is_space (CHR '' '')" by code_simp
  have ok: "TrimSpace (normal_broker y) = normal_broker y" "CHR '','' \<notin> set (normal_broker y)"
    "TrimSpace (CHR '' '' # normal_broker y) = normal_broker y" if "y \<in> set (x # xs)" for y
    using whitelist_items_facts [of y raw] normal_broker_facts [of y] that Cons by (simp_all add: TrimSpace_Cons sp)
  show ?thesis
    unfolding Normalize_items Cons list.map(2) using ok by (subst Split_Join) auto
qed

lemma items_of_Normalize: "whitelist_items (NormalizeWhitelistedBrokers raw) = map normal_broker (whitelist_items raw)"
proof (cases "whitelist_items raw = []")
  case True
  then show ?thesis by (simp add: Normalize_items whitelist_items_def)
next
  case False
  have "normal_broker y \<noteq> []" if "y \<in> set (whitelist_items raw)" for y
    using whitelist_items_facts [OF that] normal_broker_facts(3) by blast
  then show ?thesis by (auto simp: whitelist_items_def [of "NormalizeWhitelistedBrokers raw"] Split_Normalize [OF False] filter_id_conv)
qed

lemma canonical_TrimSpace: "canonical_broker (TrimSpace part) = canonical_broker part"
  by (simp add: canonical_broker_def)

lemma Normalize_blank: "TrimSpace (NormalizeWhitelistedBrokers raw) = [] \<longleftrightarrow> whitelist_items raw = []"
proof
  assume "TrimSpace (NormalizeWhitelistedBrokers raw) = []"
  then have "map TrimSpace (Split (NormalizeWhitelistedBrokers raw) (CHR '','')) = [[]]"
    using map_TrimSpace_Split [of "CHR '',''" "NormalizeWhitelistedBrokers raw"] by (simp add: is_space_def)
  then have "whitelist_items (NormalizeWhitelistedBrokers raw) = []" by (simp add: whitelist_items_def del: map_map)
  then show "whitelist_items raw = []" by (simp add: items_of_Normalize)
qed (simp add: Normalize_items)

text \<open>
  A stored whitelist means what was typed: after normalization (aliases, case, blanks and empty
  parts) it admits a broker exactly when the typed list has no part, or has one denoting that
  broker; and normalizing twice changes nothing.
\<close>

theorem whitelist_normalized:
  "(MatchesBroker (p\<lparr> pi_WhitelistedBrokers := NormalizeWhitelistedBrokers raw \<rparr>) b \<longleftrightarrow>
     list_all (\<lambda>part. TrimSpace part = []) (Split raw (CHR '',''))
     \<or> list_ex (\<lambda>part. TrimSpace part \<noteq> [] \<and> canonical_broker part = canonical_broker b) (Split raw (CHR '','')))
   \<and> NormalizeWhitelistedBrokers (NormalizeWhitelistedBrokers raw) = NormalizeWhitelistedBrokers raw"
proof -
  have none: "whitelist_items raw = [] \<longleftrightarrow> list_all (\<lambda>part. TrimSpace part = []) (Split raw (CHR '',''))"
    by (auto simp: whitelist_items_def filter_empty_conv list_all_iff)
  have some: "canonical_broker b \<in> canonical_broker ` set (whitelist_items raw)
    \<longleftrightarrow> list_ex (\<lambda>part. TrimSpace part \<noteq> [] \<and> canonical_broker part = canonical_broker b) (Split raw (CHR '',''))"
    by (force simp: whitelist_items_def list_ex_iff image_iff canonical_TrimSpace)
  have parts: "canonical_broker ` set (Split (NormalizeWhitelistedBrokers raw) (CHR '','')) = canonical_broker ` set (whitelist_items raw)"
    if "whitelist_items raw \<noteq> []"
  proof -
    have "canonical_broker ` set (Split (NormalizeWhitelistedBrokers raw) (CHR '',''))
        = canonical_broker ` set (map normal_broker (whitelist_items raw))"
      unfolding Split_Normalize [OF that, symmetric] by (simp add: image_image canonical_TrimSpace)
    also have "\<dots> = canonical_broker ` set (whitelist_items raw)"
      using whitelist_items_facts(1) normal_broker_facts(1) by (force simp: image_image image_iff)
    finally show ?thesis .
  qed
  have "MatchesBroker (p\<lparr> pi_WhitelistedBrokers := NormalizeWhitelistedBrokers raw \<rparr>) b \<longleftrightarrow>
     list_all (\<lambda>part. TrimSpace part = []) (Split raw (CHR '',''))
     \<or> list_ex (\<lambda>part. TrimSpace part \<noteq> [] \<and> canonical_broker part = canonical_broker b) (Split raw (CHR '',''))"
    unfolding none [symmetric] some [symmetric]
    by (cases "whitelist_items raw = []")
      (simp_all add: MatchesBroker_def Normalize_blank list_ex_iff parts [symmetric] image_iff eq_commute [of "canonical_broker b"])
  moreover have "NormalizeWhitelistedBrokers (NormalizeWhitelistedBrokers raw) = NormalizeWhitelistedBrokers raw"
    using whitelist_items_facts(1) normal_broker_facts(5)
    by (simp add: Normalize_items [of "NormalizeWhitelistedBrokers raw"] items_of_Normalize) (simp add: Normalize_items cong: map_cong)
  ultimately show ?thesis by (rule conjI)
qed

section \<open>Statistics\<close>

text \<open>The expiry status as the statistics query decides it, away from the sixteenth day.\<close>

lemma ComputeExpiry_status:
  assumes "0 < now" and "\<not> (now + 15 * (24 * Hour) < v \<and> v < now + 16 * (24 * Hour))"
  shows "snd (ComputeExpiry v now) =
    (if v < now then ExpiryExpired else if v \<le> now + 15 * (24 * Hour) then ExpiryExpiringSoon else ExpiryActive)"
proof -
  define D where "D = time_Sub v now"
  have H: "Hour = 3600000000000" by (simp add: durations)
  have D: "D < 0 \<longleftrightarrow> v < now" "0 \<le> D \<Longrightarrow> D \<le> 15 * (24 * Hour) \<longleftrightarrow> v \<le> now + 15 * (24 * Hour)"
      "0 \<le> D \<Longrightarrow> D < 16 * (24 * Hour) \<longleftrightarrow> v < now + 16 * (24 * Hour)"
    unfolding D_def time_Sub_def H by auto
  have days: "D sdiv (24 * Hour) \<le> 15 \<longleftrightarrow> D < 16 * (24 * Hour)" if "0 \<le> D"
    using that unfolding H by (simp add: signed_divide_int_def sgn_if) linarith
  show ?thesis
    using assms D days by (auto simp: ComputeExpiry_def Let_def D_def [symmetric] H)
qed

lemma status_distinct [simp]:
  "ExpiryExpired \<noteq> ExpiryExpiringSoon" "ExpiryActive \<noteq> ExpiryExpiringSoon" "ExpiryActive \<noteq> ExpiryExpired"
  "ExpiryExpiringSoon \<noteq> ExpiryExpired" "ExpiryExpiringSoon \<noteq> ExpiryActive" "ExpiryExpired \<noteq> ExpiryActive"
  "ExpiryActive \<noteq> []" "ExpiryExpiringSoon \<noteq> []" "ExpiryExpired \<noteq> []"
  by (simp_all add: ExpiryActive_def ExpiryExpiringSoon_def ExpiryExpired_def)

lemma count_rows_simps [simp]:
  "count_rows P [] = 0" "count_rows P (x # xs) = bump (P x) (count_rows P xs)"
  by (simp_all add: count_rows_def bump_def)

lemma count_rows_perm: "mset xs = mset ys \<Longrightarrow> count_rows P xs = count_rows P ys"
  unfolding count_rows_def by (metis mset_filter size_mset)

text \<open>What the application adds up over a listing.\<close>

definition stats_plus :: "ProxyIPStats \<Rightarrow> ProxyIPStats \<Rightarrow> ProxyIPStats" where
  "stats_plus a b = a\<lparr> ps_AssignedCount := ps_AssignedCount a + ps_AssignedCount b,
     ps_AvailableCount := ps_AvailableCount a + ps_AvailableCount b, ps_IPv4Count := ps_IPv4Count a + ps_IPv4Count b,
     ps_IPv6Count := ps_IPv6Count a + ps_IPv6Count b, ps_ExpiringSoonCount := ps_ExpiringSoonCount a + ps_ExpiringSoonCount b,
     ps_ExpiredCount := ps_ExpiredCount a + ps_ExpiredCount b, ps_AssignedExpiring := ps_AssignedExpiring a + ps_AssignedExpiring b \<rparr>"

definition plain_row :: "gotime \<Rightarrow> proxy_row \<times> account_row option \<Rightarrow> bool" where
  "plain_row now = (\<lambda>(r, a). (px_ip_type r = ''ipv4'' \<or> px_ip_type r = ''ipv6'')
     \<and> \<not> (now + 15 * (24 * Hour) < px_valid_until r \<and> px_valid_until r < now + 16 * (24 * Hour)))"

lemma stats_add_listed:
  assumes "0 < now" and "plain_row now ra"
  shows "stats_add now (listed_proxy now ra) st = stats_plus st (query_stats now [ra])"
proof -
  obtain r a where ra: "ra = (r, a)" by fastforce
  have ty: "ToLower (TrimSpace (px_ip_type r)) = px_ip_type r"
    using assms(2) by (auto simp: plain_row_def ra) (code_simp)+
  note status = ComputeExpiry_status [OF assms(1), of "px_valid_until r"]
  have "0 < Hour" by (simp add: durations)
  show ?thesis
    using assms \<open>0 < Hour\<close>
    by (auto simp: ra stats_add_def listed_proxy_def proxy_of_row_def Let_def ty status plain_row_def query_stats_def
        stats_plus_def bump_def intro!: ProxyIPStats.equality)
qed

lemma fold_stats:
  "0 < now \<Longrightarrow> list_all (plain_row now) rows
   \<Longrightarrow> fold (stats_add now) (map (listed_proxy now) rows) st = stats_plus st (query_stats now rows)"
proof (induction rows arbitrary: st)
  case Nil
  then show ?case by (simp add: stats_plus_def query_stats_def)
next
  case (Cons ra rows)
  then have "fold (stats_add now) (map (listed_proxy now) (ra # rows)) st
      = stats_plus (stats_plus st (query_stats now [ra])) (query_stats now rows)"
    by (simp add: stats_add_listed)
  also have "\<dots> = stats_plus st (query_stats now (ra # rows))"
    by (cases ra) (simp add: stats_plus_def query_stats_def Let_def bump_def)
  finally show ?case .
qed

lemma ComputeProxyIPStats_query:
  assumes "0 < now" and "list_all (plain_row now) rows" and "mset rows' = mset rows"
  shows "ComputeProxyIPStats (map (listed_proxy now) rows') now = query_stats now rows"
proof -
  have "list_all (plain_row now) rows'"
    using assms(2) mset_eq_setD [OF assms(3)] by (simp add: list_all_iff)
  moreover have "query_stats now rows' = query_stats now rows"
    using count_rows_perm [OF assms(3)] mset_eq_length [OF assms(3)] by (simp add: query_stats_def)
  ultimately show ?thesis
    using fold_stats [OF assms(1), of rows'] mset_eq_length [OF assms(3)]
    by (auto simp: ComputeProxyIPStats_def stats_plus_def query_stats_def Let_def intro!: ProxyIPStats.equality)
qed

text \<open>No deleted account holds an address of the pool, which the store's deletion sees to.\<close>

definition released :: "site \<Rightarrow> bool" where
  "released s \<longleftrightarrow> list_all (\<lambda>a. live a \<or> \<not> list_ex (\<lambda>r. px_ip_address r = ar_ip_address a) (si_proxies s)) (accounts (si_db s))"

lemma join_released: "released s \<Longrightarrow> join_accounts (\<lambda>_. True) s = join_accounts live s"
proof -
  assume rel: "released s"
  have "filter (\<lambda>a. ar_ip_address a = px_ip_address r \<and> True) (accounts (si_db s))
      = filter (\<lambda>a. ar_ip_address a = px_ip_address r \<and> live a) (accounts (si_db s))" if "r \<in> set (si_proxies s)" for r
    using rel that by (intro filter_cong) (fastforce simp: released_def list_all_iff list_ex_iff)+
  then show ?thesis unfolding join_accounts_def by (intro arg_cong [of _ _ concat] map_cong refl) simp
qed

lemma join_accounts_rows: "(r, a) \<in> set (join_accounts on s) \<Longrightarrow> r \<in> set (si_proxies s)"
proof -
  have "fst x = r" if "x \<in> set (case ys of [] \<Rightarrow> [(r, None)] | as \<Rightarrow> map (\<lambda>a. (r, Some a)) as)" for x :: "proxy_row \<times> account_row option" and r ys
    using that by (cases ys) auto
  then show "(r, a) \<in> set (join_accounts on s) \<Longrightarrow> r \<in> set (si_proxies s)"
    unfolding join_accounts_def by fastforce
qed

text \<open>
  The admin page adds up the statistics from its listing; the store can also compute them in
  one query. Both give the same numbers, at the same instant, as long as deleted accounts have
  released their addresses and no address is in the sixteenth day before its end, where
  \<open>ComputeExpiry\<close> still says \<open>expiring_soon\<close> and the query does not.
\<close>

theorem proxy_stats_agree:
  assumes "0 < site_now s" and "faults (si_db s) = []" and "released s"
    and "list_all (\<lambda>r. px_ip_type r = ''ipv4'' \<or> px_ip_type r = ''ipv6'') (si_proxies s)"
    and "list_all (\<lambda>r. px_valid_until r \<le> site_now s + 15 * (24 * Hour) \<or> site_now s + 16 * (24 * Hour) \<le> px_valid_until r) (si_proxies s)"
    and "\<And>rows. mset (order_by rows) = mset rows"
  shows "\<exists>ips. fst (ListProxyIPs order_by (site_now s) s) = Inr ips
    \<and> fst (StoreProxyIPStats s) = Inr (ComputeProxyIPStats ips (site_now s))"
proof -
  have "list_all (plain_row (site_now s)) (join_accounts live s)"
    using assms(4,5) by (fastforce simp: list_all_iff plain_row_def dest: join_accounts_rows)
  then show ?thesis
    using ComputeProxyIPStats_query [OF assms(1) _ assms(6)]
    by (simp add: ListProxyIPs_def StoreProxyIPStats_def site_call_def assms(2) join_released [OF assms(3)])
qed

section \<open>Imports\<close>

definition proxy_columns :: "proxy_row \<Rightarrow> proxy_row" where
  "proxy_columns r = r\<lparr> px_created_at := 0 \<rparr>"

lemma find_snoc: "find P (xs @ [x]) = (case find P xs of Some y \<Rightarrow> Some y | None \<Rightarrow> if P x then Some x else None)"
  by (induction xs) auto

lemma find_upd_proxy:
  "(\<And>r. px_ip_address (f r) = k) \<Longrightarrow> find_proxy ip (upd_proxy k f s) = map_option (\<lambda>r. if ip = k then f r else r) (find_proxy ip s)"
  unfolding find_proxy_def upd_proxy_def by (cases s) (simp add: update_where_def, induct_tac si_proxies, auto)

lemma upsert_row_ok:
  assumes "proxy_check (px_ip_type r) (px_port r) = Inr ()" and "upsert_row r s = (x, s')"
  shows "x = Inr ()" "map_option proxy_columns (find_proxy ip s') =
      (if ip = px_ip_address r then Some (proxy_columns r) else map_option proxy_columns (find_proxy ip s))"
    "length (si_proxies s') = length (si_proxies s) + (if find_proxy (px_ip_address r) s = None then 1 else 0)"
    "si_db s' = si_db s"
proof -
  show "x = Inr ()" using assms by (simp add: upsert_row_def)
  have s': "s' = (if find_proxy (px_ip_address r) s = None then s\<lparr> si_proxies := si_proxies s @ [r\<lparr> px_created_at := site_now s \<rparr>] \<rparr>
                 else upd_proxy (px_ip_address r) (\<lambda>old. r\<lparr> px_created_at := px_created_at old \<rparr>) s)"
    using assms by (simp add: upsert_row_def)
  show "map_option proxy_columns (find_proxy ip s') =
      (if ip = px_ip_address r then Some (proxy_columns r) else map_option proxy_columns (find_proxy ip s))"
  proof (cases "find_proxy (px_ip_address r) s = None")
    case True
    then have "map_option proxy_columns (find_proxy ip s') = (case find_proxy ip s of Some x \<Rightarrow> Some (proxy_columns x)
        | None \<Rightarrow> if ip = px_ip_address r then Some (proxy_columns r) else None)"
      by (auto simp: s' find_proxy_def find_snoc proxy_columns_def split: option.splits)
    then show ?thesis using True by (auto split: option.splits)
  next
    case False
    then show ?thesis by (auto simp: s' find_upd_proxy proxy_columns_def option.map_comp comp_def cong: map_option_cong)
  qed
  show "length (si_proxies s') = length (si_proxies s) + (if find_proxy (px_ip_address r) s = None then 1 else 0)" "si_db s' = si_db s"
    by (simp_all add: s' upd_proxy_def update_where_def)
qed

lemma upsert_all_ok:
  assumes "list_all (\<lambda>p. proxy_check (px_ip_type (upsert_columns zone now p)) (px_port (upsert_columns zone now p)) = Inr ()) ps"
  shows "\<exists>res' s'. upsert_all zone now ps res s = (Inr res', s') \<and> bu_Total res' = bu_Total res \<and> si_db s' = si_db s
    \<and> bu_Inserted res' + bu_Updated res' = bu_Inserted res + bu_Updated res + int (length ps)
    \<and> int (length (si_proxies s')) = int (length (si_proxies s)) + (bu_Inserted res' - bu_Inserted res)
    \<and> (\<forall>ip. map_option proxy_columns (find_proxy ip s') =
          (case find (\<lambda>p. pi_IPAddress p = ip) (rev ps) of
             Some p \<Rightarrow> Some (proxy_columns (upsert_columns zone now p)) | None \<Rightarrow> map_option proxy_columns (find_proxy ip s)))"
  using assms
proof (induction ps arbitrary: res s)
  case (Cons p ps)
  let ?r = "upsert_columns zone now p"
  have addr: "px_ip_address ?r = pi_IPAddress p" by (simp add: upsert_columns_def Let_def)
  obtain x s1 where up: "upsert_row ?r s = (x, s1)" by fastforce
  note row = upsert_row_ok [OF _ up, unfolded addr]
  have chk: "proxy_check (px_ip_type ?r) (px_port ?r) = Inr ()" using Cons.prems by simp
  define res1 where "res1 = (if find_proxy (pi_IPAddress p) s \<noteq> None then res\<lparr> bu_Updated := bu_Updated res + 1 \<rparr>
    else res\<lparr> bu_Inserted := bu_Inserted res + 1 \<rparr>)"
  have step: "upsert_all zone now (p # ps) res s = upsert_all zone now ps res1 s1"
    using up row(1) [OF chk] by (simp add: res1_def)
  obtain res' s' where IH: "upsert_all zone now ps res1 s1 = (Inr res', s')" "bu_Total res' = bu_Total res1" "si_db s' = si_db s1"
      "bu_Inserted res' + bu_Updated res' = bu_Inserted res1 + bu_Updated res1 + int (length ps)"
      "int (length (si_proxies s')) = int (length (si_proxies s1)) + (bu_Inserted res' - bu_Inserted res1)"
      "\<And>ip. map_option proxy_columns (find_proxy ip s') =
          (case find (\<lambda>p. pi_IPAddress p = ip) (rev ps) of
             Some p \<Rightarrow> Some (proxy_columns (upsert_columns zone now p)) | None \<Rightarrow> map_option proxy_columns (find_proxy ip s1))"
    using Cons.IH [of res1 s1] Cons.prems by auto
  have "map_option proxy_columns (find_proxy ip s') = (case find (\<lambda>p. pi_IPAddress p = ip) (rev (p # ps)) of
      Some p \<Rightarrow> Some (proxy_columns (upsert_columns zone now p)) | None \<Rightarrow> map_option proxy_columns (find_proxy ip s))" for ip
    by (auto simp: IH(6) row(2) [OF chk] find_snoc split: option.splits)
  then show ?case
    using IH(1-5) row(3,4) [OF chk] unfolding step by (auto simp: res1_def)
qed simp

text \<open>A failing batch leaves the pool as it was.\<close>

lemma batch_all_or_nothing:
  "UpsertProxyIPsBatch zone now ips s = (Inl e, s') \<Longrightarrow> si_proxies s' = si_proxies s"
  by (auto simp: UpsertProxyIPsBatch_def Let_def site_call_def split: if_splits list.splits option.splits sum.splits prod.splits)

lemma parsed_fields:
  assumes "ParseAndValidateProxyIP L input now = Inr p" and "0 < now"
  shows "pi_IPType p = ''ipv4'' \<or> pi_IPType p = ''ipv6''" "pi_Port p = (if pin_Port input \<le> 0 then 443 else pin_Port input)"
    "pi_ValidFrom p \<noteq> 0" "pi_ValidUntil p = 0 \<Longrightarrow> AddThreeMonths (pl_zone L) (pi_ValidFrom p) = 0" "pi_Plan p \<noteq> []"
    "\<not> pi_IsAssigned p" "pi_AssignedAccountID p = None" "pi_AssignedAccountName p = None" "pi_IPAddress p = TrimSpace (pin_IP input)"
proof -
  have guard: "((if b then Inl e else X) = Inr p) \<longleftrightarrow> \<not> b \<and> X = Inr p" for b e X by auto
  obtain from0 where from0: "ParseProxyTimestamp L (pin_ValidFrom input) = Inr from0"
    using assms(1) by (cases "ParseProxyTimestamp L (pin_ValidFrom input)") (simp_all add: ParseAndValidateProxyIP_def Let_def guard)
  obtain until0 where until0: "ParseProxyTimestamp L (pin_ValidUntil input) = Inr until0"
    using assms(1) by (cases "ParseProxyTimestamp L (pin_ValidUntil input)") (simp_all add: ParseAndValidateProxyIP_def Let_def guard from0)
  note p = assms(1) [unfolded ParseAndValidateProxyIP_def Let_def from0 until0 sum.case guard sum.inject]
  have fields: "pi_IPType p = (if ToLower (TrimSpace (pin_Type input)) = [] then type_of_address (TrimSpace (pin_IP input))
        else ToLower (TrimSpace (pin_Type input)))"
      "pi_Port p = (if pin_Port input \<le> 0 then 443 else pin_Port input)"
      "pi_Plan p = (if ToUpper (TrimSpace (pin_Plan input)) = [] then ''QUARTERLY'' else ToUpper (TrimSpace (pin_Plan input)))"
      "pi_ValidFrom p = (if from0 = 0 then now else from0)"
      "pi_ValidUntil p = (if until0 = 0 then AddThreeMonths (pl_zone L) (pi_ValidFrom p) else until0)"
      "\<not> pi_IsAssigned p" "pi_AssignedAccountID p = None" "pi_AssignedAccountName p = None" "pi_IPAddress p = TrimSpace (pin_IP input)"
    using p by (elim conjE; hypsubst; simp)+
  show "pi_IPType p = ''ipv4'' \<or> pi_IPType p = ''ipv6''"
    using p unfolding fields(1) by blast
  show "pi_Port p = (if pin_Port input \<le> 0 then 443 else pin_Port input)" "pi_Plan p \<noteq> []"
    "\<not> pi_IsAssigned p" "pi_AssignedAccountID p = None" "pi_AssignedAccountName p = None" "pi_IPAddress p = TrimSpace (pin_IP input)"
    using fields by auto
  show "pi_ValidFrom p \<noteq> 0" "pi_ValidUntil p = 0 \<Longrightarrow> AddThreeMonths (pl_zone L) (pi_ValidFrom p) = 0"
    using fields assms(2) by (auto split: if_split_asm)
qed

lemma parsed_proxy:
  assumes "ParseAndValidateProxyIP L input now = Inr p" and "0 < now" and "pin_Port input < 2 ^ 31"
  shows "proxy_check (px_ip_type (upsert_columns (pl_zone L) now p)) (px_port (upsert_columns (pl_zone L) now p)) = Inr ()"
    "proxy_of_row (proxy_columns (upsert_columns (pl_zone L) now p)) = p\<lparr> pi_ValidFrom := pg_timestamp (pi_ValidFrom p),
       pi_ValidUntil := pg_timestamp (pi_ValidUntil p), pi_CreatedAt := 0, pi_DaysRemaining := 0, pi_ExpiryStatus := [] \<rparr>"
  using parsed_fields [OF assms(1,2)] assms(3)
  by (auto simp: upsert_columns_def Let_def proxy_check_def proxy_of_row_def proxy_columns_def)

lemma proxy_of_columns: "proxy_of_row (proxy_columns r) = (proxy_of_row r)\<lparr> pi_CreatedAt := 0 \<rparr>"
  by (simp add: proxy_of_row_def proxy_columns_def)

lemma ProxyIPByAddress_plain:
  "faults (si_db s) = [] \<Longrightarrow> fst (ProxyIPByAddress ip s) = (case find_proxy ip s of None \<Rightarrow> Inl ErrNotFound | Some r \<Rightarrow> Inr (proxy_of_row r))"
  by (simp add: ProxyIPByAddress_def site_call_def)

text \<open>
  Imports: entries that pass the validation are stored in one batch that cannot fail on its own
  account; every entry is counted once, as inserted or updated, and the pool grows by the inserted
  ones; an imported address then reads back as its last entry (times to the microsecond), and no
  other address changes.
\<close>

theorem validated_import:
  assumes "faults (si_db s) = []" and "0 < now" and "ips \<noteq> []"
    and parsed: "list_all2 (\<lambda>input p. ParseAndValidateProxyIP L input now = Inr p \<and> pin_Port input < 2 ^ 31) inputs ips"
  shows "\<exists>res s'. UpsertProxyIPsBatch (pl_zone L) now ips s = (Inr res, s')
    \<and> bu_Inserted res + bu_Updated res = int (length inputs) \<and> bu_Total res = int (length inputs)
    \<and> int (length (si_proxies s')) = int (length (si_proxies s)) + bu_Inserted res
    \<and> (\<forall>ip. map_sum id (\<lambda>q. q\<lparr> pi_CreatedAt := 0 \<rparr>) (fst (ProxyIPByAddress ip s')) =
        (case find (\<lambda>p. pi_IPAddress p = ip) (rev ips) of
           Some p \<Rightarrow> Inr (p\<lparr> pi_ValidFrom := pg_timestamp (pi_ValidFrom p), pi_ValidUntil := pg_timestamp (pi_ValidUntil p),
                         pi_CreatedAt := 0, pi_DaysRemaining := 0, pi_ExpiryStatus := [] \<rparr>)
         | None \<Rightarrow> map_sum id (\<lambda>q. q\<lparr> pi_CreatedAt := 0 \<rparr>) (fst (ProxyIPByAddress ip s))))"
proof -
  let ?cols = "upsert_columns (pl_zone L) now"
  have each: "\<exists>input. ParseAndValidateProxyIP L input now = Inr p \<and> pin_Port input < 2 ^ 31" if "p \<in> set ips" for p
    using parsed that by (auto simp: list_all2_conv_all_nth in_set_conv_nth)
  then have "list_all (\<lambda>p. proxy_check (px_ip_type (?cols p)) (px_port (?cols p)) = Inr ()) ips"
    using parsed_proxy(1) [OF _ assms(2)] by (fastforce simp: list_all_iff)
  from upsert_all_ok [OF this, of "\<lparr> bu_Total = int (length ips), bu_Inserted = 0, bu_Updated = 0, bu_Errors = [] \<rparr>" s]
  obtain res s' where up: "upsert_all (pl_zone L) now ips
      \<lparr> bu_Total = int (length ips), bu_Inserted = 0, bu_Updated = 0, bu_Errors = [] \<rparr> s = (Inr res, s')" "si_db s' = si_db s"
      "bu_Total res = int (length ips)" "bu_Inserted res + bu_Updated res = int (length ips)"
      "int (length (si_proxies s')) = int (length (si_proxies s)) + bu_Inserted res"
      "\<And>ip. map_option proxy_columns (find_proxy ip s') = (case find (\<lambda>p. pi_IPAddress p = ip) (rev ips) of
          Some p \<Rightarrow> Some (proxy_columns (?cols p)) | None \<Rightarrow> map_option proxy_columns (find_proxy ip s))"
    by (elim exE conjE) (simp only: BulkUploadResult.simps add_0 diff_zero)
  have run: "UpsertProxyIPsBatch (pl_zone L) now ips s = (Inr res, s')"
    using up(1) assms(1,3) by (simp add: UpsertProxyIPsBatch_def site_call_def)
  have read: "map_sum id (\<lambda>q. q\<lparr> pi_CreatedAt := 0 \<rparr>) (fst (ProxyIPByAddress ip t))
      = (case map_option proxy_columns (find_proxy ip t) of None \<Rightarrow> Inl ErrNotFound | Some r \<Rightarrow> Inr (proxy_of_row r))"
    if "si_db t = si_db s" for ip t
    using that assms(1) by (simp add: ProxyIPByAddress_plain proxy_of_columns split: option.splits)
  have "map_sum id (\<lambda>q. q\<lparr> pi_CreatedAt := 0 \<rparr>) (fst (ProxyIPByAddress ip s')) =
        (case find (\<lambda>p. pi_IPAddress p = ip) (rev ips) of
           Some p \<Rightarrow> Inr (p\<lparr> pi_ValidFrom := pg_timestamp (pi_ValidFrom p), pi_ValidUntil := pg_timestamp (pi_ValidUntil p),
                         pi_CreatedAt := 0, pi_DaysRemaining := 0, pi_ExpiryStatus := [] \<rparr>)
         | None \<Rightarrow> map_sum id (\<lambda>q. q\<lparr> pi_CreatedAt := 0 \<rparr>) (fst (ProxyIPByAddress ip s)))" for ip
  proof (cases "find (\<lambda>p. pi_IPAddress p = ip) (rev ips)")
    case None
    then show ?thesis by (simp add: read up(2,6))
  next
    case (Some p)
    then have "p \<in> set ips" by (metis find_Some_mem set_rev)
    then obtain input where "ParseAndValidateProxyIP L input now = Inr p" "pin_Port input < 2 ^ 31" using each by blast
    then show ?thesis using Some parsed_proxy(2) [OF _ assms(2)] by (simp add: read up(2,6))
  qed
  then show ?thesis
    using run up(3-5) list_all2_lengthD [OF parsed] by auto
qed

section \<open>Examples\<close>

definition ex_libs :: proxy_libs where
  "ex_libs = \<lparr> pl_ParseIP = (\<lambda>ip. ip \<noteq> []), pl_ParseIST = (\<lambda>_ _. None), pl_Parse = (\<lambda>_ _. None), pl_zone = 0 \<rparr>"

definition ex_input :: "string \<Rightarrow> string \<Rightarrow> ProxyIPInput" where
  "ex_input ip brokers = \<lparr> pin_IP = ip, pin_Host = ''gw'', pin_Port = 0, pin_UserID = ''u'', pin_Username = [], pin_Password = ''p'',
     pin_WhitelistedBrokers = brokers, pin_WhitelistedBrokersCamel = [], pin_ValidFrom = [], pin_ValidUntil = [], pin_Plan = [], pin_Type = [] \<rparr>"

definition ex_noon :: gotime where
  "ex_noon = date_days 2025 11 30 * (24 * Hour) + 12 * Hour"

definition ex_proxy :: "string \<Rightarrow> string \<Rightarrow> ProxyIP" where
  "ex_proxy ip brokers = projr (ParseAndValidateProxyIP ex_libs (ex_input ip brokers) ex_noon)"

definition ex_pool :: site where
  "ex_pool = \<lparr> si_db = ex_db\<lparr> db_now := ex_noon, accounts := [], faults := [] \<rparr>, si_users = [], si_sessions = [], si_next_session = 1,
     si_proxies = [upsert_columns 0 ex_noon (ex_proxy ''10.0.0.1'' ''kite'')] \<rparr>"

lemma ex_parsed: "pin_Port (ex_input ip b) = 0" "ParseAndValidateProxyIP ex_libs (ex_input ''10.0.0.1'' ''dhan'') ex_noon = Inr (ex_proxy ''10.0.0.1'' ''dhan'')"
  "ParseAndValidateProxyIP ex_libs (ex_input ''::1'' '' '') ex_noon = Inr (ex_proxy ''::1'' '' '')"
  by (simp add: ex_input_def) code_simp+

theorem validated_import_witness:
  "\<exists>res s'. UpsertProxyIPsBatch (pl_zone ex_libs) ex_noon [ex_proxy ''10.0.0.1'' ''dhan'', ex_proxy ''::1'' '' ''] ex_pool = (Inr res, s')
    \<and> bu_Inserted res + bu_Updated res = 2"
proof -
  have parsed: "list_all2 (\<lambda>input p. ParseAndValidateProxyIP ex_libs input ex_noon = Inr p \<and> pin_Port input < 2 ^ 31)
      [ex_input ''10.0.0.1'' ''dhan'', ex_input ''::1'' '' ''] [ex_proxy ''10.0.0.1'' ''dhan'', ex_proxy ''::1'' '' '']"
    unfolding list_all2_Cons list.rel_inject(1) by (simp add: ex_parsed)
  have pool: "faults (si_db ex_pool) = []" "0 < ex_noon" by (simp add: ex_pool_def) code_simp
  show ?thesis
    using validated_import [OF pool list.distinct(2) parsed] by (elim exE conjE) (intro exI conjI, assumption, simp)
qed

theorem proxy_stats_agree_witness:
  "\<exists>ips. fst (ListProxyIPs id ex_noon ex_pool) = Inr ips \<and> fst (StoreProxyIPStats ex_pool) = Inr (ComputeProxyIPStats ips ex_noon)"
proof -
  have now: "site_now ex_pool = ex_noon" by (simp add: ex_pool_def site_now_def)
  have "0 < ex_noon" "released ex_pool"
      "list_all (\<lambda>r. px_ip_type r = ''ipv4'' \<or> px_ip_type r = ''ipv6'') (si_proxies ex_pool)"
      "list_all (\<lambda>r. px_valid_until r \<le> ex_noon + 15 * (24 * Hour) \<or> ex_noon + 16 * (24 * Hour) \<le> px_valid_until r) (si_proxies ex_pool)"
    by code_simp+
  then show ?thesis using proxy_stats_agree [of ex_pool id] by (simp add: now) (simp add: ex_pool_def)
qed

text \<open>
  In the sixteenth day before the end of an address the two disagree: the page counts it as
  expiring soon, the query does not.
\<close>

theorem proxy_stats_sixteenth_day:
  "let s = ex_pool\<lparr> si_proxies := [(upsert_columns 0 ex_noon (ex_proxy ''10.0.0.1'' ''kite''))\<lparr> px_valid_until := ex_noon + 372 * Hour \<rparr>] \<rparr>
   in (case (fst (ListProxyIPs id ex_noon s), fst (StoreProxyIPStats s)) of
         (Inr ips, Inr st) \<Rightarrow> ps_ExpiringSoonCount (ComputeProxyIPStats ips ex_noon) = 1 \<and> ps_ExpiringSoonCount st = 0
       | _ \<Rightarrow> False)"
  by code_simp

end
