(* ===== verification/Proxy_Api.thy ===== *)
theory Proxy_Api
  imports Http Proxy_Thms "HOL-Library.List_Lexorder" "HOL-Library.Char_ord" "HOL-Library.Product_Lexorder"
begin

text \<open>
  The handlers of the proxy pool (\<open>httpapi/admin_proxy_ips.go\<close>, \<open>httpapi/proxy_ips.go\<close>): listing and
  statistics, imports, updates, deletion, the probes and the addresses offered for an account. A
  path or query value is an argument as the router passes it; the connectivity probe is an
  argument, which the requests run in parallel on separate entries.
\<close>

section \<open>Administration\<close>

definition getAdminProxyIPs :: "proxy_order \<Rightarrow> string \<Rightarrow> string \<Rightarrow> site \<Rightarrow> http_response \<times> site" where
  "getAdminProxyIPs order_by status ty s = (case ListProxyIPs order_by (site_now s) s of
      (Inl e, s1) \<Rightarrow> (writeError 500 ''failed to list proxy IPs'', s1)
    | (Inr ips, s1) \<Rightarrow>
        let stats = ComputeProxyIPStats ips (site_now s); statusFilter = ToLower (TrimSpace status); typeFilter = ToLower (TrimSpace ty)
        in (writeJSON 200 (JProxyIPs (filter (\<lambda>ip. (statusFilter = [] \<or> ToLower (pi_ExpiryStatus ip) = statusFilter)
                \<and> (typeFilter = [] \<or> ToLower (pi_IPType ip) = typeFilter)) ips) stats), s1))"

fun import_errors :: "proxy_libs \<Rightarrow> gotime \<Rightarrow> nat \<Rightarrow> ProxyIPInput list \<Rightarrow> string list" where
  "import_errors L now idx [] = []"
| "import_errors L now idx (x # xs) = (case ParseAndValidateProxyIP L x now of
      Inl e \<Rightarrow> (''item '' @ show_nat idx @ '' ('' @ pin_IP x @ ''): '' @ err_Error e) # import_errors L now (Suc idx) xs
    | Inr _ \<Rightarrow> import_errors L now (Suc idx) xs)"

definition valid_imports :: "proxy_libs \<Rightarrow> gotime \<Rightarrow> ProxyIPInput list \<Rightarrow> ProxyIP list" where
  "valid_imports L now inputs = List.map_filter (\<lambda>x. case ParseAndValidateProxyIP L x now of Inl _ \<Rightarrow> None | Inr p \<Rightarrow> Some p) inputs"

definition postAdminProxyIPsBulk :: "proxy_libs \<Rightarrow> ProxyIPInput list option \<Rightarrow> site \<Rightarrow> http_response \<times> site" where
  "postAdminProxyIPsBulk L body s = (case body of
      None \<Rightarrow> (writeError 400 ''invalid request body: expected array of proxy IP objects'', s)
    | Some inputs \<Rightarrow>
        let now = site_now s; validIPs = valid_imports L now inputs;
            result = \<lparr> bu_Total = int (length inputs), bu_Inserted = 0, bu_Updated = 0, bu_Errors = import_errors L now 0 inputs \<rparr>
        in if validIPs = [] then (writeJSON 200 (JBulkUpload result), s)
           else (case UpsertProxyIPsBatch (pl_zone L) now validIPs s of
              (Inl e, s1) \<Rightarrow> (writeError 500 (''failed to save batch proxy IPs: '' @ err_Error e), s1)
            | (Inr res, s1) \<Rightarrow> (writeJSON 200 (JBulkUpload (result\<lparr> bu_Inserted := bu_Inserted res, bu_Updated := bu_Updated res,
                  bu_Errors := bu_Errors result @ bu_Errors res \<rparr>)), s1)))"

definition postAdminProxyIP :: "proxy_libs \<Rightarrow> ProxyIPInput option \<Rightarrow> site \<Rightarrow> http_response \<times> site" where
  "postAdminProxyIP L body s = (case body of
      None \<Rightarrow> (writeError 400 ''invalid request body: expected proxy IP object'', s)
    | Some input \<Rightarrow> (case ParseAndValidateProxyIP L input (site_now s) of
        Inl e \<Rightarrow> (writeError 400 (err_Error e), s)
      | Inr p \<Rightarrow> (case UpsertProxyIP (pl_zone L) (site_now s) p s of
            (Inl e, s1) \<Rightarrow> (writeError 500 (''failed to save proxy IP: '' @ err_Error e), s1)
          | (Inr _, s1) \<Rightarrow> (writeJSON 201 (JProxyIP p), s1))))"

record patchProxyIPRequest =
  pp_ValidUntil :: "string option"
  pp_Password :: string
  pp_Plan :: string

definition patchAdminProxyIP :: "proxy_libs \<Rightarrow> string \<Rightarrow> patchProxyIPRequest option \<Rightarrow> site \<Rightarrow> http_response \<times> site" where
  "patchAdminProxyIP L ip body s =
     (if ip = [] then (writeError 400 ''missing ip parameter'', s)
      else (case body of
         None \<Rightarrow> (writeError 400 ''invalid request body'', s)
       | Some req \<Rightarrow>
           (case (case pp_ValidUntil req of Some v \<Rightarrow> if v \<noteq> [] then ParseProxyTimestamp L v else Inr 0 | None \<Rightarrow> Inr 0) of
              Inl e \<Rightarrow> (writeError 400 (''invalid validUntil date: '' @ err_Error e), s)
            | Inr validUntilTime \<Rightarrow> (case UpdateProxyIP ip validUntilTime (pp_Password req) (pp_Plan req) s of
                  (Inl e, s1) \<Rightarrow>
                    (if errors_Is e ErrNotFound then writeError 404 ''proxy IP not found''
                     else writeError 500 (''failed to update proxy IP: '' @ err_Error e), s1)
                | (Inr _, s1) \<Rightarrow> (writeJSON 200 (JStatus ''ok''), s1)))))"

text \<open>\<open>same\<close> compares two addresses that parse, as \<open>net.IP.Equal\<close> does.\<close>

definition putAdminProxyIP ::
  "proxy_libs \<Rightarrow> (string \<Rightarrow> string \<Rightarrow> bool) \<Rightarrow> string \<Rightarrow> ProxyIPInput option \<Rightarrow> site \<Rightarrow> http_response \<times> site" where
  "putAdminProxyIP L same routeIPStr body s =
     (if routeIPStr = [] then (writeError 400 ''missing ip parameter'', s)
      else if \<not> pl_ParseIP L (TrimSpace routeIPStr) then (writeError 400 (''invalid route IP address format: '' @ quoted routeIPStr), s)
      else (case body of
         None \<Rightarrow> (writeError 400 ''invalid request body: expected proxy IP object'', s)
       | Some input \<Rightarrow>
           let cleanInputIP = TrimSpace (pin_IP input)
           in if cleanInputIP = [] then (writeError 400 ''IP address is required in JSON'', s)
              else if \<not> pl_ParseIP L cleanInputIP then (writeError 400 (''invalid IP address format in JSON: '' @ quoted cleanInputIP), s)
              else if \<not> same cleanInputIP (TrimSpace routeIPStr) then
                (writeError 400 (''IP in JSON ('' @ pin_IP input @ '') does not match IP being updated ('' @ routeIPStr @ '')''), s)
              else (case ParseAndValidateProxyIP L input (site_now s) of
                 Inl e \<Rightarrow> (writeError 400 (err_Error e), s)
               | Inr p0 \<Rightarrow>
                   let p = p0\<lparr> pi_IPAddress := routeIPStr \<rparr>
                   in (case UpdateProxyIPFull (pl_zone L) (site_now s) p s of
                         (Inl e, s1) \<Rightarrow>
                           (if errors_Is e ErrNotFound then writeError 404 ''proxy IP not found''
                            else writeError 500 (''failed to update proxy IP: '' @ err_Error e), s1)
                       | (Inr _, s1) \<Rightarrow> (writeJSON 200 (JProxyIP p), s1)))))"

definition deleteAdminProxyIP :: "string \<Rightarrow> site \<Rightarrow> http_response \<times> site" where
  "deleteAdminProxyIP ip s =
     (if ip = [] then (writeError 400 ''missing ip parameter'', s)
      else (case DeleteProxyIP ip s of
         (Inl e, s1) \<Rightarrow>
           (if errors_Is e ErrConflict then writeError 409 ''cannot delete proxy IP: assigned to an active account''
            else if errors_Is e ErrNotFound then writeError 404 ''proxy IP not found''
            else writeError 500 (''failed to delete proxy IP: '' @ err_Error e), s1)
       | (Inr _, s1) \<Rightarrow> (writeJSON 200 (JStatus ''ok''), s1)))"

section \<open>Probes\<close>

type_synonym proxy_tester = "ProxyIP \<Rightarrow> ProxyTestResult"

definition postAdminProxyIPTest :: "proxy_tester \<Rightarrow> string \<Rightarrow> site \<Rightarrow> http_response \<times> site" where
  "postAdminProxyIPTest tester ip s =
     (if ip = [] then (writeError 400 ''missing ip parameter'', s)
      else (case ProxyIPByAddress ip s of
         (Inl e, s1) \<Rightarrow>
           (if errors_Is e ErrNotFound then writeError 404 ''proxy IP not found''
            else writeError 500 (''failed to load proxy IP: '' @ err_Error e), s1)
       | (Inr p, s1) \<Rightarrow> (writeJSON 200 (JProxyTest (tester p)), s1)))"

definition test_targets :: "ProxyIP list \<Rightarrow> ProxyIP list" where
  "test_targets ips = (let assigned = filter pi_IsAssigned ips in if assigned = [] then ips else assigned)"

definition test_summary :: "ProxyTestResult list \<Rightarrow> BulkProxyTestSummary" where
  "test_summary results =
     (let n = int (length results); ok = int (length (filter ptr_Success results))
      in \<lparr> bt_TotalTested = n, bt_SuccessCount = ok, bt_FailureCount = n - ok,
           bt_AvgLatencyMs = (if n > 0 then wrap64 (sum_list (map ptr_LatencyMs results)) sdiv n else 0), bt_Results = results \<rparr>)"

definition postAdminProxyIPsTestAll :: "proxy_order \<Rightarrow> proxy_tester \<Rightarrow> site \<Rightarrow> http_response \<times> site" where
  "postAdminProxyIPsTestAll order_by tester s = (case ListProxyIPs order_by (site_now s) s of
      (Inl e, s1) \<Rightarrow> (writeError 500 (''failed to load proxy IPs: '' @ err_Error e), s1)
    | (Inr ips, s1) \<Rightarrow>
        let targets = test_targets ips
        in if targets = [] then (writeJSON 200 (JProxyTests (test_summary [])), s1)
           else (writeJSON 200 (JProxyTests (test_summary (map tester targets))), s1))"

section \<open>Addresses for an account\<close>

definition getProxyIPs :: "proxy_order \<Rightarrow> site \<Rightarrow> http_response \<times> site" where
  "getProxyIPs order_by s = (case ListProxyIPs order_by (site_now s) s of
      (Inl e, s1) \<Rightarrow> (writeError 500 ''failed to list proxy IPs'', s1)
    | (Inr ips, s1) \<Rightarrow> (writeJSON 200 (JPoolIPs (map (\<lambda>ip. \<lparr> pir_IPAddress = pi_IPAddress ip, pir_IPType = pi_IPType ip, pir_Host = pi_Host ip,
          pir_Port = pi_Port ip, pir_ValidFrom = pi_ValidFrom ip, pir_ValidUntil = pi_ValidUntil ip, pir_Plan = pi_Plan ip,
          pir_IsAssigned = pi_IsAssigned ip, pir_AssignedAccountID = pi_AssignedAccountID ip, pir_AssignedAccountName = pi_AssignedAccountName ip \<rparr>) ips)), s1))"

definition available_item :: "ProxyIP \<Rightarrow> availableIPResponse" where
  "available_item ip = \<lparr> air_IPAddress = pi_IPAddress ip, air_IPType = pi_IPType ip, air_Host = pi_Host ip, air_Port = pi_Port ip,
     air_WhitelistedBrokers = pi_WhitelistedBrokers ip, air_ValidFrom = pi_ValidFrom ip, air_ValidUntil = pi_ValidUntil ip, air_Plan = pi_Plan ip \<rparr>"

text \<open>The addresses that admit the broker, those made for it before the unrestricted ones, each by address.\<close>

definition for_broker :: "string \<Rightarrow> ProxyIP list \<Rightarrow> ProxyIP list" where
  "for_broker broker ips = sort_key (\<lambda>ip. (BrokerPriority ip broker, pi_IPAddress ip)) (filter (\<lambda>ip. MatchesBroker ip broker) ips)"

definition getAvailableProxyIPs :: "(string \<Rightarrow> uuid option) \<Rightarrow> proxy_order \<Rightarrow> string \<Rightarrow> string \<Rightarrow> site \<Rightarrow> http_response \<times> site" where
  "getAvailableProxyIPs parse_uuid order_by rawID rawBroker s =
     (if rawID \<noteq> [] \<and> parse_uuid rawID = None then (writeError 400 ''invalid accountId query parameter'', s)
      else (case AvailableProxyIPs order_by [] (if rawID = [] then None else parse_uuid rawID) s of
         (Inl e, s1) \<Rightarrow> (writeError 500 ''failed to list available proxy IPs'', s1)
       | (Inr ips0, s1) \<Rightarrow>
           let broker = TrimSpace rawBroker; ips = (if broker \<noteq> [] then for_broker broker ips0 else ips0)
           in (writeJSON 200 (JAvailable (map available_item (filter (\<lambda>ip. pi_IPType ip = ''ipv4'') ips))
                  (map available_item (filter (\<lambda>ip. pi_IPType ip = ''ipv6'') ips))), s1)))"

section \<open>The bulk probe\<close>

text \<open>
  The probe of all addresses never uses a stored password, because the listing it starts from
  does not read it; the probe of one address does.
\<close>

theorem test_all_without_password:
  "postAdminProxyIPsTestAll order_by tester s = postAdminProxyIPsTestAll order_by (\<lambda>p. tester (p\<lparr> pi_Password := [] \<rparr>)) s"
  "fst (postAdminProxyIPTest (\<lambda>p. \<lparr> ptr_IPAddress = pi_IPAddress p, ptr_Success = (pi_Password p = ''p''), ptr_LatencyMs = 0, ptr_EgressIP = [], ptr_Error = [] \<rparr>)
     ''10.0.0.1'' ex_pool) = writeJSON 200 (JProxyTest \<lparr> ptr_IPAddress = ''10.0.0.1'', ptr_Success = True, ptr_LatencyMs = 0, ptr_EgressIP = [], ptr_Error = [] \<rparr>)"
proof -
  have blank: "p\<lparr> pi_Password := [] \<rparr> = p" if "ListProxyIPs order_by now s = (Inr ips, s1)" "p \<in> set (test_targets ips)" for now ips s1 p
  proof -
    have "p \<in> set ips" using that(2) by (auto simp: test_targets_def Let_def split: if_splits)
    then show ?thesis using that(1)
      by (auto simp: ListProxyIPs_def site_call_def listed_proxy_def Let_def split: list.splits option.splits prod.splits)
  qed
  show "postAdminProxyIPsTestAll order_by tester s = postAdminProxyIPsTestAll order_by (\<lambda>p. tester (p\<lparr> pi_Password := [] \<rparr>)) s"
    unfolding postAdminProxyIPsTestAll_def
    using blank by (auto simp: Let_def split: prod.split sum.split cong: map_cong)
  show "fst (postAdminProxyIPTest (\<lambda>p. \<lparr> ptr_IPAddress = pi_IPAddress p, ptr_Success = (pi_Password p = ''p''), ptr_LatencyMs = 0, ptr_EgressIP = [], ptr_Error = [] \<rparr>)
     ''10.0.0.1'' ex_pool) = writeJSON 200 (JProxyTest \<lparr> ptr_IPAddress = ''10.0.0.1'', ptr_Success = True, ptr_LatencyMs = 0, ptr_EgressIP = [], ptr_Error = [] \<rparr>)"
    by code_simp
qed

end
