(* ===== verification/Secrets.thy ===== *)
theory Secrets
  imports Http Idempotency
begin

text \<open>
  Stored secrets and broker tokens: base64 (\<open>encoding/base64\<close>), the encryption of credentials
  (\<open>internal/crypto/cipher.go\<close>) and the claims of a Dhan access token (\<open>internal/dhan/jwt.go\<close>).
  A byte string is a list of characters. AES-GCM (\<open>Seal\<close> and \<open>Open\<close> under a key and a nonce) and the
  decoding of the JSON claims are arguments.
\<close>

section \<open>Base64\<close>

definition alphabet_std :: string where
  "alphabet_std = ''ABCDEFGHIJKLMNOPQRSTUVWXYZabcdefghijklmnopqrstuvwxyz0123456789+/''"

definition alphabet_url :: string where
  "alphabet_url = ''ABCDEFGHIJKLMNOPQRSTUVWXYZabcdefghijklmnopqrstuvwxyz0123456789-_''"

definition digit :: "string \<Rightarrow> nat \<Rightarrow> char" where
  "digit alphabet n = alphabet ! n"

fun digit_value :: "string \<Rightarrow> char \<Rightarrow> nat option" where
  "digit_value [] c = None"
| "digit_value (a # as) c = (if a = c then Some 0 else map_option Suc (digit_value as c))"

text \<open>The encoding without padding, three bytes at a time.\<close>

fun EncodeRaw :: "string \<Rightarrow> string \<Rightarrow> string" where
  "EncodeRaw al (a # b # c # s) =
     (let x = of_char a; y = of_char b; z = of_char c :: nat
      in digit al (x div 4) # digit al (x mod 4 * 16 + y div 16) # digit al (y mod 16 * 4 + z div 64) # digit al (z mod 64) # EncodeRaw al s)"
| "EncodeRaw al [a, b] =
     (let x = of_char a; y = of_char b :: nat in [digit al (x div 4), digit al (x mod 4 * 16 + y div 16), digit al (y mod 16 * 4)])"
| "EncodeRaw al [a] = (let x = of_char a :: nat in [digit al (x div 4), digit al (x mod 4 * 16)])"
| "EncodeRaw al [] = []"

definition padding :: "nat \<Rightarrow> string" where
  "padding n = replicate ((4 - n mod 4) mod 4) (CHR ''='')"

definition EncodeToString :: "string \<Rightarrow> string \<Rightarrow> string" where
  "EncodeToString al s = (let e = EncodeRaw al s in e @ padding (length e))"

text \<open>Decoding four digits at a time; the unused bits of a last group are ignored, as the package does.\<close>

fun decode_digits :: "nat list \<Rightarrow> string option" where
  "decode_digits (x # y # z # w # ds) =
     map_option (\<lambda>s. char_of (x * 4 + y div 16) # char_of (y mod 16 * 16 + z div 4) # char_of (z mod 4 * 64 + w) # s) (decode_digits ds)"
| "decode_digits [x, y, z] = Some [char_of (x * 4 + y div 16), char_of (y mod 16 * 16 + z div 4)]"
| "decode_digits [x, y] = Some [char_of (x * 4 + y div 16)]"
| "decode_digits [x] = None"
| "decode_digits [] = Some []"

fun digit_values :: "string \<Rightarrow> string \<Rightarrow> nat list option" where
  "digit_values al [] = Some []"
| "digit_values al (c # s) = (case digit_value al c of
      None \<Rightarrow> None | Some n \<Rightarrow> map_option ((#) n) (digit_values al s))"

definition skip_newlines :: "string \<Rightarrow> string" where
  "skip_newlines s = filter (\<lambda>c. c \<noteq> CHR 0x0A \<and> c \<noteq> CHR 0x0D) s"

definition err_base64 :: go_error where
  "err_base64 = Plain ''illegal base64 data''"

definition decode_raw :: "string \<Rightarrow> string \<Rightarrow> string result" where
  "decode_raw al s = (case Option.bind (digit_values al s) decode_digits of None \<Rightarrow> Inl err_base64 | Some b \<Rightarrow> Inr b)"

definition DecodeRawString :: "string \<Rightarrow> string \<Rightarrow> string result" where
  "DecodeRawString al s = decode_raw al (skip_newlines s)"

text \<open>With padding the length is a multiple of four and at most two padding characters end it.\<close>

definition strip_padding :: "string \<Rightarrow> string" where
  "strip_padding t =
     (if t \<noteq> [] \<and> last t = CHR ''='' then
        (if butlast t \<noteq> [] \<and> last (butlast t) = CHR ''='' then butlast (butlast t) else butlast t)
      else t)"

definition DecodeString :: "string \<Rightarrow> string \<Rightarrow> string result" where
  "DecodeString al s =
     (let t = skip_newlines s in if length t mod 4 \<noteq> 0 then Inl err_base64 else decode_raw al (strip_padding t))"

section \<open>Credentials\<close>

record gcm_pkg =
  gcm_Seal :: "int list \<Rightarrow> string \<Rightarrow> string \<Rightarrow> string"
  gcm_Open :: "int list \<Rightarrow> string \<Rightarrow> string \<Rightarrow> string option"

record crypto_env =
  ce_key :: string
  ce_gcm :: gcm_pkg
  ce_nonce :: "string result"

definition ErrMissingEncryptionKey :: go_error where
  "ErrMissingEncryptionKey = Plain ''crypto: ENCRYPTION_KEY environment variable is required''"

definition getKey :: "crypto_env \<Rightarrow> int list result" where
  "getKey E = (if ce_key E = [] then Inl ErrMissingEncryptionKey else Inr (Sum256 (ce_key E)))"

definition nonceSize :: nat where "nonceSize = 12"

definition Encrypt :: "crypto_env \<Rightarrow> string \<Rightarrow> secret result" where
  "Encrypt E plaintext =
     (if plaintext = [] then Inr []
      else (case getKey E of
         Inl e \<Rightarrow> Inl e
       | Inr key \<Rightarrow> (case ce_nonce E of
            Inl e \<Rightarrow> Inl (errorf ''nonce generation'' e)
          | Inr nonce \<Rightarrow> Inr (EncodeToString alphabet_std (nonce @ gcm_Seal (ce_gcm E) key nonce plaintext)))))"

definition Decrypt :: "crypto_env \<Rightarrow> secret \<Rightarrow> string result" where
  "Decrypt E encodedCiphertext =
     (if encodedCiphertext = [] then Inr []
      else (case getKey E of
         Inl e \<Rightarrow> Inl e
       | Inr key \<Rightarrow> (case DecodeString alphabet_std encodedCiphertext of
            Inl e \<Rightarrow> Inl (errorf ''base64 decode'' e)
          | Inr raw \<Rightarrow>
              if length raw < nonceSize then Inl (Plain ''ciphertext too short'')
              else (case gcm_Open (ce_gcm E) key (take nonceSize raw) (drop nonceSize raw) of
                 None \<Rightarrow> Inl (Plain ''decrypt: cipher: message authentication failed'')
               | Some plaintext \<Rightarrow> Inr plaintext))))"

section \<open>Dhan access tokens\<close>

record DhanClaims =
  dc_DhanClientID :: string
  dc_ExpiresAt :: gotime
  dc_Exp :: int

text \<open>The JSON decoder's result: the client id and the expiry in seconds, zero values for absent ones.\<close>

type_synonym claims_decoder = "string \<Rightarrow> (string \<times> int) result"

definition unix_time :: "int \<Rightarrow> gotime" where
  "unix_time n = 62135596800 * Second + n * Second"

definition ParseDhanJWT :: "claims_decoder \<Rightarrow> string \<Rightarrow> DhanClaims result" where
  "ParseDhanJWT unmarshal token =
     (let parts = Split (TrimSpace token) (CHR ''.'')
      in if length parts \<noteq> 3 then Inl (Plain ''invalid jwt: expected 3 dot-separated segments'')
         else (case (case DecodeRawString alphabet_url (parts ! 1) of
                  Inr b \<Rightarrow> Inr b | Inl _ \<Rightarrow> DecodeString alphabet_url (parts ! 1)) of
                 Inl e \<Rightarrow> Inl (errorf ''decode jwt payload'' e)
               | Inr payload \<Rightarrow> (case unmarshal payload of
                    Inl e \<Rightarrow> Inl (errorf ''unmarshal jwt payload'' e)
                  | Inr (client, expiry) \<Rightarrow>
                      if TrimSpace client = [] then Inl (Plain ''jwt missing dhanClientId claim'')
                      else Inr \<lparr> dc_DhanClientID = client, dc_ExpiresAt = (if expiry > 0 then unix_time expiry else 0), dc_Exp = expiry \<rparr>)))"

section \<open>Round trips\<close>

lemma digit_value_std: "n < 64 \<Longrightarrow> digit_value alphabet_std (digit alphabet_std n) = Some n"
  and digit_value_url: "n < 64 \<Longrightarrow> digit_value alphabet_url (digit alphabet_url n) = Some n"
proof -
  have "list_all (\<lambda>n. digit_value alphabet_std (digit alphabet_std n) = Some n) [0..<64]"
    "list_all (\<lambda>n. digit_value alphabet_url (digit alphabet_url n) = Some n) [0..<64]" by code_simp+
  then show "n < 64 \<Longrightarrow> digit_value alphabet_std (digit alphabet_std n) = Some n"
    "n < 64 \<Longrightarrow> digit_value alphabet_url (digit alphabet_url n) = Some n" by (auto simp: list_all_iff)
qed

lemma byte_digits:
  fixes x y z :: nat
  assumes "x < 256" "y < 256" "z < 256"
  shows "x div 4 < 64" "x mod 4 * 16 + y div 16 < 64" "y mod 16 * 4 + z div 64 < 64"
    "x mod 4 * 16 < 64" "y mod 16 * 4 < 64" "z mod 64 < 64"
proof -
  have "x div 4 < 64" "y div 16 < 16" "z div 64 < 4" using assms by (simp_all add: less_mult_imp_div_less)
  moreover have "x mod 4 < 4" "y mod 16 < 16" "z mod 64 < 64" by simp_all
  ultimately show "x div 4 < 64" "x mod 4 * 16 + y div 16 < 64" "y mod 16 * 4 + z div 64 < 64"
    "x mod 4 * 16 < 64" "y mod 16 * 4 < 64" "z mod 64 < 64" by linarith+
qed

lemma digits_byte:
  fixes x y z :: nat
  assumes "x < 256" "y < 256" "z < 256"
  shows "x div 4 * 4 + (x mod 4 * 16 + y div 16) div 16 = x" "(x mod 4 * 16 + y div 16) mod 16 * 16 + (y mod 16 * 4 + z div 64) div 4 = y"
    "(y mod 16 * 4 + z div 64) mod 4 * 64 + z mod 64 = z"
    "x div 4 * 4 + x mod 4 * 16 div 16 = x" "(x mod 4 * 16 + y div 16) mod 16 * 16 + y mod 16 * 4 div 4 = y"
proof -
  have "y div 16 < 16" "z div 64 < 4" using assms by (simp_all add: less_mult_imp_div_less)
  then have "(x mod 4 * 16 + y div 16) div 16 = x mod 4" "(x mod 4 * 16 + y div 16) mod 16 = y div 16"
      "(y mod 16 * 4 + z div 64) div 4 = y mod 16" "(y mod 16 * 4 + z div 64) mod 4 = z div 64"
    by simp_all
  then show "x div 4 * 4 + (x mod 4 * 16 + y div 16) div 16 = x" "(x mod 4 * 16 + y div 16) mod 16 * 16 + (y mod 16 * 4 + z div 64) div 4 = y"
    "(y mod 16 * 4 + z div 64) mod 4 * 64 + z mod 64 = z"
    "x div 4 * 4 + x mod 4 * 16 div 16 = x" "(x mod 4 * 16 + y div 16) mod 16 * 16 + y mod 16 * 4 div 4 = y"
    by (simp_all add: div_mult_mod_eq)
qed

text \<open>An alphabet whose 64 digits are read back.\<close>

definition alphabet_ok :: "string \<Rightarrow> bool" where
  "alphabet_ok al \<longleftrightarrow> (\<forall>n<64. digit_value al (digit al n) = Some n)"

lemma alphabets_ok: "alphabet_ok alphabet_std" "alphabet_ok alphabet_url"
  by (simp_all add: alphabet_ok_def digit_value_std digit_value_url)

lemma char_byte: "of_char c < (256::nat)"
  by simp

lemma decode_EncodeRaw:
  "alphabet_ok al \<Longrightarrow> \<exists>ds. digit_values al (EncodeRaw al s) = Some ds \<and> decode_digits ds = Some s"
proof (induction al s rule: EncodeRaw.induct)
  case (1 al a b c s)
  then obtain ds where "digit_values al (EncodeRaw al s) = Some ds" "decode_digits ds = Some s" by blast
  then show ?case
    using 1(2) byte_digits [of "of_char a" "of_char b" "of_char c", OF char_byte char_byte char_byte] digits_byte [of "of_char a" "of_char b" "of_char c", OF char_byte char_byte char_byte]
    by (simp add: alphabet_ok_def Let_def del: One_nat_def)
next
  case (2 al a b)
  then show ?case
    using byte_digits [of "of_char a" "of_char b" "of_char b", OF char_byte char_byte char_byte] digits_byte [of "of_char a" "of_char b" "of_char b", OF char_byte char_byte char_byte]
    by (simp add: alphabet_ok_def Let_def del: One_nat_def)
next
  case (3 al a)
  then show ?case
    using byte_digits [of "of_char a" "of_char a" "of_char a", OF char_byte char_byte char_byte] digits_byte [of "of_char a" "of_char a" "of_char a", OF char_byte char_byte char_byte]
    by (simp add: alphabet_ok_def Let_def del: One_nat_def)
qed simp

definition plain_char :: "char \<Rightarrow> bool" where
  "plain_char c \<longleftrightarrow> c \<noteq> CHR ''='' \<and> c \<noteq> CHR 0x0A \<and> c \<noteq> CHR 0x0D"

lemma plain_digits: "n < 64 \<Longrightarrow> plain_char (digit alphabet_std n)" "n < 64 \<Longrightarrow> plain_char (digit alphabet_url n)"
proof -
  have "list_all (\<lambda>n. plain_char (digit alphabet_std n)) [0..<64]" "list_all (\<lambda>n. plain_char (digit alphabet_url n)) [0..<64]"
    by code_simp+
  then show "n < 64 \<Longrightarrow> plain_char (digit alphabet_std n)" "n < 64 \<Longrightarrow> plain_char (digit alphabet_url n)"
    by (auto simp: list_all_iff)
qed

lemma EncodeRaw_shape:
  "(\<And>n. n < 64 \<Longrightarrow> plain_char (digit al n)) \<Longrightarrow> list_all plain_char (EncodeRaw al s) \<and> length (EncodeRaw al s) mod 4 \<noteq> 1
    \<and> (EncodeRaw al s = [] \<longleftrightarrow> s = [])"
proof (induction al s rule: EncodeRaw.induct)
  case (1 al a b c s)
  then have "list_all plain_char (EncodeRaw al s)" "length (EncodeRaw al s) mod 4 \<noteq> 1" by blast+
  then show ?case
    using 1(2) byte_digits [of "of_char a" "of_char b" "of_char c", OF char_byte char_byte char_byte] by (simp add: Let_def del: One_nat_def)
next
  case (2 al a b)
  then show ?case using byte_digits [of "of_char a" "of_char b" "of_char b", OF char_byte char_byte char_byte] by (simp add: Let_def del: One_nat_def)
next
  case (3 al a)
  then show ?case using byte_digits [of "of_char a" "of_char a" "of_char a", OF char_byte char_byte char_byte] by (simp add: Let_def del: One_nat_def)
qed simp

lemma skip_newlines_encoded: "list_all plain_char e \<Longrightarrow> skip_newlines (e @ padding n) = e @ padding n"
  by (induction e) (auto simp: skip_newlines_def padding_def plain_char_def filter_id_conv)

lemma strip_padded:
  assumes "list_all plain_char e" and "length e mod 4 \<noteq> 1"
  shows "strip_padding (e @ padding (length e)) = e"
proof -
  have e: "last e \<noteq> CHR ''=''" if "e \<noteq> []" using assms(1) that by (auto simp: list_all_iff plain_char_def)
  have "length e mod 4 = 0 \<or> length e mod 4 = 2 \<or> length e mod 4 = 3" using assms(2) by presburger
  then have "padding (length e) = [] \<or> padding (length e) = ''=='' \<or> padding (length e) = ''=''"
    by (elim disjE) (simp_all add: padding_def numeral_2_eq_2)
  then show ?thesis
    using e by (cases "e = []") (auto simp: strip_padding_def butlast_append padding_def)
qed

lemma padded_length: "length (e @ padding (length e)) mod 4 = 0"
proof -
  have "(n + (4 - n mod 4) mod 4) mod 4 = 0" for n :: nat
  proof -
    have "n mod 4 < 4" by simp
    then have "n mod 4 + (4 - n mod 4) = 4" by linarith
    moreover have "(n + (4 - n mod 4) mod 4) mod 4 = (n mod 4 + (4 - n mod 4)) mod 4" by (simp only: mod_simps)
    ultimately show ?thesis by (simp only:) simp
  qed
  then show ?thesis by (simp add: padding_def)
qed

lemma Decode_Encode: "DecodeString alphabet_std (EncodeToString alphabet_std s) = Inr s"
  "DecodeRawString alphabet_url (EncodeRaw alphabet_url s) = Inr s"
proof -
  let ?e = "EncodeRaw alphabet_std s" and ?u = "EncodeRaw alphabet_url s"
  have shape: "list_all plain_char ?e" "length ?e mod 4 \<noteq> 1" "list_all plain_char ?u"
    using EncodeRaw_shape [of alphabet_std s] EncodeRaw_shape [of alphabet_url s] plain_digits by blast+
  have dec: "decode_raw alphabet_std ?e = Inr s" "decode_raw alphabet_url ?u = Inr s"
    using decode_EncodeRaw [OF alphabets_ok(1), of s] decode_EncodeRaw [OF alphabets_ok(2), of s] by (auto simp: decode_raw_def)
  show "DecodeString alphabet_std (EncodeToString alphabet_std s) = Inr s"
    unfolding DecodeString_def EncodeToString_def Let_def
    by (simp only: skip_newlines_encoded [OF shape(1)] padded_length strip_padded [OF shape(1,2)] dec simp_thms if_False)
  have "skip_newlines ?u = ?u" using skip_newlines_encoded [OF shape(3), of 0] by (simp add: padding_def)
  then show "DecodeRawString alphabet_url ?u = Inr s" by (simp add: DecodeRawString_def dec)
qed

text \<open>
  Stored credentials can be read back: what \<open>Encrypt\<close> returned for a secret \<open>Decrypt\<close> turns into
  that secret under the same key, whatever nonce was drawn and whatever later nonces are. The
  hypotheses are those of AES-GCM: \<open>Open\<close> undoes \<open>Seal\<close> for the same key and nonce, and the nonce
  has its twelve bytes.
\<close>

theorem credentials_roundtrip:
  assumes "\<And>key nonce plain. gcm_Open (ce_gcm E) key nonce (gcm_Seal (ce_gcm E) key nonce plain) = Some plain"
    and "\<And>nonce. ce_nonce E = Inr nonce \<Longrightarrow> length nonce = 12"
    and "Encrypt E plaintext = Inr stored" and "ce_key E' = ce_key E" and "ce_gcm E' = ce_gcm E"
  shows "Decrypt E' stored = Inr plaintext"
proof (cases "plaintext = []")
  case True
  then show ?thesis using assms(3) by (simp add: Encrypt_def Decrypt_def)
next
  case False
  then obtain key nonce where key: "getKey E = Inr key" "ce_nonce E = Inr nonce"
      and stored: "stored = EncodeToString alphabet_std (nonce @ gcm_Seal (ce_gcm E) key nonce plaintext)"
    using assms(3) by (auto simp: Encrypt_def split: sum.splits)
  have len: "length nonce = 12" using assms(2) key(2) by blast
  then have "stored \<noteq> []"
    using EncodeRaw_shape [of alphabet_std "nonce @ gcm_Seal (ce_gcm E) key nonce plaintext"] plain_digits
    by (auto simp: stored EncodeToString_def Let_def)
  moreover have "getKey E' = Inr key" using key assms(4) by (auto simp: getKey_def split: if_splits)
  ultimately show ?thesis
    using len assms(1) unfolding Decrypt_def stored by (simp add: Decode_Encode nonceSize_def assms(5))
qed

definition ex_crypto :: crypto_env where
  "ex_crypto = \<lparr> ce_key = ''k'', ce_gcm = \<lparr> gcm_Seal = (\<lambda>_ _ p. rev p @ ''tag''), gcm_Open = (\<lambda>_ _ c. Some (drop 3 (rev c))) \<rparr>,
     ce_nonce = Inr ''nonce-nonce!'' \<rparr>"

theorem credentials_roundtrip_witness:
  "\<exists>stored. Encrypt ex_crypto ''JBSWY3DP'' = Inr stored \<and> Decrypt ex_crypto stored = Inr ''JBSWY3DP''"
proof -
  obtain stored where st: "Encrypt ex_crypto ''JBSWY3DP'' = Inr stored"
    by (simp add: Encrypt_def getKey_def ex_crypto_def)
  have "Decrypt ex_crypto stored = Inr ''JBSWY3DP''"
    by (rule credentials_roundtrip [OF _ _ st]) (auto simp: ex_crypto_def)
  then show ?thesis using st by blast
qed

end
