(* ===== verification/Accounts_Api.thy ===== *)
theory Accounts_Api
  imports Proxy_Api Secrets Accounts_Inv
begin

text \<open>
  The account handlers (\<open>httpapi/accounts.go\<close>): listing, creation, the field-by-field \<open>PATCH\<close>, deletion
  and removal from a group. A handler runs on the site and on the log of what it asks of the
  running server: worker registration, eviction of cached broker clients, tickers, portfolio
  syncs and the imbalance computation, whose errors it ignores. Every early return of the code is an
  \<open>Inl\<close> response. The \<open>account_env\<close> holds the parsers of third-party packages, the new identifier, the
  encryption environment, the orders of queries and which services are installed; the two
  encryptions of a request draw separate nonces.
\<close>

section \<open>State and environment\<close>

datatype hook =
    RegisterFollower uuid
  | UnregisterFollower uuid
  | EvictClient uuid
  | StartMaster uuid
  | StopMaster uuid
  | SyncAccountPortfolio uuid
  | DiffGroup uuid

record hook_set =
  hs_followerRegistrar :: bool
  hs_brokerEvicter :: bool
  hs_tickerMgr :: bool
  hs_syncer :: bool
  hs_rebalanceSvc :: bool

record account_env =
  ae_uuid :: uuid
  ae_parse_uuid :: "string \<Rightarrow> uuid option"
  ae_decimal :: "string \<Rightarrow> decimal option"
  ae_addr :: "string \<Rightarrow> bool"
  ae_crypto :: crypto_env
  ae_crypto_totp :: crypto_env
  ae_claims :: claims_decoder
  ae_rows :: row_order
  ae_followers :: "GroupFollower list \<Rightarrow> GroupFollower list"
  ae_hooks :: hook_set

record api =
  ap_site :: site
  ap_log :: "hook list"

type_synonym 'a step = "api \<Rightarrow> (http_response + 'a) \<times> api"

fun installed :: "hook_set \<Rightarrow> hook \<Rightarrow> bool" where
  "installed H (RegisterFollower _) = hs_followerRegistrar H"
| "installed H (UnregisterFollower _) = hs_followerRegistrar H"
| "installed H (EvictClient _) = hs_brokerEvicter H"
| "installed H (StartMaster _) = hs_tickerMgr H"
| "installed H (StopMaster _) = hs_tickerMgr H"
| "installed H (SyncAccountPortfolio _) = hs_syncer H"
| "installed H (DiffGroup _) = hs_rebalanceSvc H"

definition notify :: "account_env \<Rightarrow> hook \<Rightarrow> api \<Rightarrow> api" where
  "notify E h x = (if installed (ae_hooks E) h then x\<lparr> ap_log := ap_log x @ [h] \<rparr> else x)"

definition notify_if :: "bool \<Rightarrow> account_env \<Rightarrow> hook \<Rightarrow> api \<Rightarrow> api" where
  "notify_if b E h x = (if b then notify E h x else x)"

definition api_then :: "(http_response + 'a) \<times> api \<Rightarrow> ('a \<Rightarrow> 'b step) \<Rightarrow> (http_response + 'b) \<times> api" where
  "api_then r k = (case r of (Inl w, x) \<Rightarrow> (Inl w, x) | (Inr a, x) \<Rightarrow> k a x)"

definition respond :: "(http_response + http_response) \<times> api \<Rightarrow> http_response \<times> api" where
  "respond r = (case r of (Inl w, x) \<Rightarrow> (w, x) | (Inr w, x) \<Rightarrow> (w, x))"

text \<open>A store call whose error ends the request with the given response, and one whose error is kept.\<close>

definition call_store :: "(site \<Rightarrow> 'a result \<times> site) \<Rightarrow> (go_error \<Rightarrow> http_response) \<Rightarrow> 'a step" where
  "call_store f on_error x = (case f (ap_site x) of
      (Inl e, s) \<Rightarrow> (Inl (on_error e), x\<lparr> ap_site := s \<rparr>) | (Inr a, s) \<Rightarrow> (Inr a, x\<lparr> ap_site := s \<rparr>))"

definition try_store :: "(site \<Rightarrow> 'a result \<times> site) \<Rightarrow> 'a result step" where
  "try_store f x = (case f (ap_site x) of (r, s) \<Rightarrow> (Inr r, x\<lparr> ap_site := s \<rparr>))"

section \<open>Listing\<close>

definition omit_empty :: "string \<Rightarrow> string option" where
  "omit_empty v = (if v \<noteq> [] then Some v else None)"

definition toAccountResponse :: "Account \<Rightarrow> accountResponse" where
  "toAccountResponse a = \<lparr> are_ID = acc_ID a, are_Name = acc_Name a, are_Role = acc_Role a, are_Broker = acc_Broker a,
     are_BrokerAccountID = acc_BrokerAccountID a, are_ApiKey = omit_empty (acc_ApiKey a), are_ApiSecret = omit_empty (acc_ApiSecret a),
     are_IP = omit_empty (acc_IPAddress a), are_GroupID = acc_GroupID a, are_GroupName = acc_GroupName a, are_MasterID = acc_MasterID a,
     are_CloneFactor = acc_CloneFactor a, are_MaxQtyPerOrder = acc_MaxQtyPerOrder a, are_Enabled = acc_Enabled a, are_Active = acc_Active a,
     are_Status = acc_Status a, are_AuthStatus = omit_empty (acc_AuthStatus a),
     are_AuthError = (if acc_AuthError a \<noteq> [] then Some (SanitizeAuthError (acc_AuthError a)) else None) \<rparr>"

fun parse_ids :: "(string \<Rightarrow> uuid option) \<Rightarrow> string list \<Rightarrow> uuid list option" where
  "parse_ids parse [] = Some []"
| "parse_ids parse (p # ps) = (case parse (TrimSpace p) of
      None \<Rightarrow> None | Some i \<Rightarrow> map_option ((#) i) (parse_ids parse ps))"

definition getAccounts :: "account_env \<Rightarrow> uuid option \<Rightarrow> string \<Rightarrow> api \<Rightarrow> http_response \<times> api" where
  "getAccounts E u raw x =
     (case (if raw = [] then Some None else map_option Some (parse_ids (ae_parse_uuid E) (Split raw (CHR '','')))) of
        None \<Rightarrow> (writeError 400 ''invalid id in ids filter'', x)
      | Some ids \<Rightarrow> respond (api_then (call_store (on_db (Accounts (ae_rows E) u ids)) (\<lambda>_. writeError 500 ''failed to list accounts'') x)
          (\<lambda>accs x. (Inr (writeJSON 200 (JAccounts (map toAccountResponse accs))), x))))"

section \<open>Shared checks\<close>

definition validateIP :: "account_env \<Rightarrow> string option \<Rightarrow> string \<Rightarrow> string + string" where
  "validateIP E raw role =
     (let val = (case raw of None \<Rightarrow> [] | Some r \<Rightarrow> TrimSpace r)
      in if role = ''follower'' \<and> val = [] then Inl ''ip is required for follower accounts''
         else if val = [] then Inr []
         else if \<not> ae_addr E val then Inl ''invalid IP address: must be a valid IPv4 or IPv6 address''
         else Inr val)"

definition registered_proxy :: "string \<Rightarrow> ProxyIP step" where
  "registered_proxy ip = call_store (ProxyIPByAddress ip) (\<lambda>e.
     if errors_Is e ErrNotFound then writeError 400 ''IP address is not registered in proxy pool''
     else writeError 500 ''failed to check proxy IP'')"

definition whitelist_error :: "string \<Rightarrow> ProxyIP \<Rightarrow> string \<Rightarrow> http_response" where
  "whitelist_error ip p broker = writeError 400 (''proxy IP '' @ ip @ '' is whitelisted for '' @ pi_WhitelistedBrokers p @ '', not '' @ broker)"

definition nonblank :: "string option \<Rightarrow> string option" where
  "nonblank v = (case v of None \<Rightarrow> None | Some t \<Rightarrow> if TrimSpace t = [] then None else Some (TrimSpace t))"

definition encrypt_step :: "crypto_env \<Rightarrow> string \<Rightarrow> string option \<Rightarrow> secret step" where
  "encrypt_step C what v x = (case nonblank v of
      None \<Rightarrow> (Inr [], x)
    | Some t \<Rightarrow> (case Encrypt C t of Inl e \<Rightarrow> (Inl (writeError 500 (''failed to encrypt '' @ what)), x) | Inr c \<Rightarrow> (Inr c, x)))"

text \<open>The checks on a Dhan token: it decodes, names the account's client and has not expired.\<close>

definition dhan_token :: "account_env \<Rightarrow> string \<Rightarrow> string \<Rightarrow> gotime option step" where
  "dhan_token E token clientID x = (case ParseDhanJWT (ae_claims E) token of
      Inl e \<Rightarrow> (Inl (writeError 400 (''invalid Dhan access token: '' @ err_Error e)), x)
    | Inr claims \<Rightarrow>
        if dc_DhanClientID claims \<noteq> clientID then
          (Inl (writeError 400 (''access token belongs to Dhan client ID '' @ dc_DhanClientID claims @ '', but account is configured for '' @ clientID)), x)
        else if dc_ExpiresAt claims \<noteq> 0 \<and> dc_ExpiresAt claims < site_now (ap_site x) then
          (Inl (writeError 400 ''access token is already expired''), x)
        else (Inr (if dc_ExpiresAt claims \<noteq> 0 then Some (dc_ExpiresAt claims) else None), x))"

definition follow_link :: "uuid \<Rightarrow> GroupDetail \<Rightarrow> decimal \<Rightarrow> int option \<Rightarrow> FollowLink" where
  "follow_link i g cloneFactor maxQty = \<lparr> fl_FollowerID = i, fl_GroupID = gd_GroupID g, fl_MasterID = gd_MasterID g, fl_CloneFactor = cloneFactor,
     fl_MaxQtyPerOrder = (case maxQty of None \<Rightarrow> 0 | Some q \<Rightarrow> q), fl_Enabled = True, fl_EffectiveFrom = 0, fl_Status = [], fl_AuthStatus = [] \<rparr>"

section \<open>Creation\<close>

record postAccountRequest =
  po_Name :: string
  po_Role :: string
  po_Broker :: string
  po_BrokerAccountID :: string
  po_ApiKey :: string
  po_ApiSecret :: string
  po_AccessToken :: "string option"
  po_Password :: "string option"
  po_TotpSecret :: "string option"
  po_IP :: "string option"
  po_IPAddress :: "string option"
  po_CloneFactor :: "string option"
  po_CapitalRatio :: "string option"
  po_MaxQtyPerOrder :: "int option"
  po_GroupID :: "string option"
  po_MasterID :: "string option"

definition check_quota :: "User option \<Rightarrow> string \<Rightarrow> unit step" where
  "check_quota u broker x = (case u of
      None \<Rightarrow> (Inr (), x)
    | Some usr \<Rightarrow> call_store (CheckAccountQuota (u_ID usr) broker) (\<lambda>e.
        if errors_Is e ErrAccountQuotaExceeded \<or> errors_Is e ErrBrokerAccountQuotaExceeded then writeError 403 (err_Error e)
        else writeError 500 (''failed to check account quota: '' @ err_Error e)) x)"

definition account_address :: "account_env \<Rightarrow> postAccountRequest \<Rightarrow> string \<Rightarrow> string step" where
  "account_address E req broker x =
     (case validateIP E (case po_IP req of Some ip \<Rightarrow> Some ip | None \<Rightarrow> po_IPAddress req) (po_Role req) of
        Inl msg \<Rightarrow> (Inl (writeError 400 msg), x)
      | Inr ip \<Rightarrow>
          if ip = [] then (Inr [], x)
          else api_then (registered_proxy ip x) (\<lambda>p x. if \<not> MatchesBroker p broker then (Inl (whitelist_error ip p broker), x) else (Inr ip, x)))"

definition resolve_group :: "account_env \<Rightarrow> uuid option \<Rightarrow> string \<Rightarrow> string \<Rightarrow> string \<Rightarrow> string \<Rightarrow> GroupDetail option step" where
  "resolve_group E u raw invalid missing failed x = (case ae_parse_uuid E raw of
      None \<Rightarrow> (Inl (writeError 400 invalid), x)
    | Some g \<Rightarrow> api_then (call_store (on_db (GroupDetail_of (ae_followers E) u g))
        (\<lambda>e. if errors_Is e ErrNotFound then writeError 400 missing else writeError 500 failed) x) (\<lambda>d x. (Inr (Some d), x)))"

text \<open>The clone factor and the group of a new follower.\<close>

definition follower_terms :: "account_env \<Rightarrow> uuid option \<Rightarrow> postAccountRequest \<Rightarrow> (decimal \<times> GroupDetail option) step" where
  "follower_terms E u req x =
     (if po_Role req \<noteq> ''follower'' then (Inr (1, None), x)
      else
        let rawCF = nonblank (case po_CloneFactor req of Some c \<Rightarrow> Some c | None \<Rightarrow> po_CapitalRatio req);
            cf = (case rawCF of None \<Rightarrow> Some 1 | Some r \<Rightarrow> (case ae_decimal E r of None \<Rightarrow> None | Some c \<Rightarrow> if c \<le> 0 then None else Some c))
        in (case cf of
              None \<Rightarrow> (Inl (writeError 400 ''invalid cloneFactor''), x)
            | Some cloneFactor \<Rightarrow>
                api_then (case nonblank (po_GroupID req) of
                   Some g \<Rightarrow> resolve_group E u g ''invalid groupId'' ''group not found'' ''failed to resolve group'' x
                 | None \<Rightarrow> (case nonblank (po_MasterID req) of
                      Some m \<Rightarrow> resolve_group E u m ''invalid masterId'' ''selected master has no group; create a group first''
                                 ''failed to resolve master group'' x
                    | None \<Rightarrow> (Inr None, x)))
                  (\<lambda>g x. (Inr (cloneFactor, g), x))))"

definition create_error :: "string \<Rightarrow> go_error \<Rightarrow> http_response" where
  "create_error ip e =
     (if errors_Is e ErrIPAlreadyAssigned then writeError 409 (''IP address '' @ ip @ '' is already assigned to another account'')
      else if errors_Is e ErrDuplicate then writeError 409 ''an account with this brokerAccountId already exists''
      else writeError 500 ''failed to create account'')"

text \<open>The session a new account starts with, and the status it is shown with.\<close>

definition initial_session ::
  "uuid \<Rightarrow> string \<Rightarrow> string option \<Rightarrow> gotime option \<Rightarrow> bool \<Rightarrow> string step" where
  "initial_session i broker token dhanExpiresAt credentials x =
     (case token of
        Some t \<Rightarrow>
          let dhan = (broker = ''dhan'');
              expiresAt = (if \<not> dhan then None else if dhanExpiresAt = None then Some (site_now (ap_site x) + 24 * Hour) else dhanExpiresAt)
          in api_then (call_store (on_db (SetAccountAccessToken i t expiresAt (if dhan then ''pending'' else ''authenticated'') []))
               (\<lambda>_. writeError 500 ''failed to set access token'') x) (\<lambda>_ x. (Inr (if dhan then ''pending'' else ''ok''), x))
      | None \<Rightarrow>
          if credentials \<or> broker = ''testbroker'' then
            api_then (try_store (on_db (SetAccountAccessToken i [] None ''pending'' [])) x) (\<lambda>_ x. (Inr ''pending'', x))
          else (Inr ''ok'', x))"

definition attach_follower ::
  "account_env \<Rightarrow> uuid \<Rightarrow> postAccountRequest \<Rightarrow> decimal \<Rightarrow> GroupDetail option \<Rightarrow> accountResponse \<Rightarrow> accountResponse step" where
  "attach_follower E i req cloneFactor grp resp x =
     (if po_Role req \<noteq> ''follower'' then (Inr resp, x)
      else api_then (case grp of
           None \<Rightarrow> (Inr resp, x)
         | Some g \<Rightarrow> api_then (call_store (on_db (CreateFollowLink (follow_link i g cloneFactor (po_MaxQtyPerOrder req))))
               (\<lambda>_. writeError 500 ''account created but failed to attach to group'') x)
             (\<lambda>_ x. (Inr (resp\<lparr> are_MasterID := (if gd_MasterID g \<noteq> uuid_Nil then Some (gd_MasterID g) else None),
                  are_GroupID := (if gd_GroupID g \<noteq> uuid_Nil then Some (gd_GroupID g) else None),
                  are_GroupName := omit_empty (gd_GroupName g), are_CloneFactor := Some cloneFactor,
                  are_MaxQtyPerOrder := po_MaxQtyPerOrder req \<rparr>), x)))
        (\<lambda>resp x. (Inr resp, notify E (RegisterFollower i) x)))"

definition create_account ::
  "account_env \<Rightarrow> User option \<Rightarrow> postAccountRequest \<Rightarrow> string \<Rightarrow> http_response step" where
  "create_account E u req broker x =
     (let brokerID = TrimSpace (po_BrokerAccountID req); name0 = TrimSpace (po_Name req); name = (if name0 = [] then brokerID else name0);
          apiKey = TrimSpace (po_ApiKey req); apiSecret = TrimSpace (po_ApiSecret req); token = nonblank (po_AccessToken req);
          uid = map_option u_ID u
      in api_then (check_quota u broker x) (\<lambda>_ x.
         api_then (account_address E req broker x) (\<lambda>ip x.
         api_then (follower_terms E uid req x) (\<lambda>(cloneFactor, grp) x.
         api_then (encrypt_step (ae_crypto E) ''password'' (po_Password req) x) (\<lambda>encPass x.
         api_then (encrypt_step (ae_crypto_totp E) ''totp secret'' (po_TotpSecret req) x) (\<lambda>encTotp x.
         api_then (if broker = ''dhan'' then (case if token = None then None else po_AccessToken req of
               Some t \<Rightarrow> dhan_token E t brokerID x | None \<Rightarrow> (Inr None, x)) else (Inr None, x))
           (\<lambda>dhanExpiresAt x.
         api_then (call_store (on_db (CreateAccountWithCredentials uid (ae_uuid E) name (po_Role req) broker brokerID apiKey apiSecret ip encPass encTotp))
           (create_error ip) x) (\<lambda>i x.
         api_then (initial_session i broker token dhanExpiresAt (encPass \<noteq> [] \<and> encTotp \<noteq> []) x) (\<lambda>initialStatus x.
         api_then (attach_follower E i req cloneFactor grp
             \<lparr> are_ID = i, are_Name = name, are_Role = po_Role req, are_Broker = broker, are_BrokerAccountID = brokerID,
               are_ApiKey = omit_empty apiKey, are_ApiSecret = omit_empty apiSecret, are_IP = omit_empty ip, are_GroupID = None, are_GroupName = None,
               are_MasterID = None, are_CloneFactor = None, are_MaxQtyPerOrder = None, are_Enabled = True, are_Active = True,
               are_Status = initialStatus, are_AuthStatus = None, are_AuthError = None \<rparr>
             (notify_if (encPass \<noteq> [] \<and> encTotp \<noteq> [] \<or> broker = ''dhan'' \<and> token \<noteq> None \<or> broker = ''testbroker'') E (SyncAccountPortfolio i) x))
           (\<lambda>resp x. (Inr (writeJSON 201 (JAccount resp)), x)))))))))))"

definition postAccount :: "account_env \<Rightarrow> User option \<Rightarrow> postAccountRequest option \<Rightarrow> api \<Rightarrow> http_response \<times> api" where
  "postAccount E u body x = (case body of
      None \<Rightarrow> (writeError 400 ''malformed JSON body'', x)
    | Some req \<Rightarrow>
        let broker = ToLower (TrimSpace (po_Broker req))
        in if broker \<noteq> ''kite'' \<and> broker \<noteq> ''testbroker'' \<and> broker \<noteq> ''dhan'' then
             (writeError 400 (''broker must be '' @ quoted ''kite'' @ '', '' @ quoted ''dhan'' @ '', or '' @ quoted ''testbroker''), x)
           else if po_Role req \<noteq> ''master'' \<and> po_Role req \<noteq> ''follower'' then
             (writeError 400 (''role must be '' @ quoted ''master'' @ '' or '' @ quoted ''follower''), x)
           else if po_BrokerAccountID req = [] then (writeError 400 ''brokerAccountId is required'', x)
           else respond (create_account E u req broker x))"

section \<open>The field-by-field update\<close>

record patchAccountRequest =
  pt_Name :: "string option"
  pt_Enabled :: "bool option"
  pt_Active :: "bool option"
  pt_CloneFactor :: "string option"
  pt_CapitalRatio :: "string option"
  pt_MaxQtyPerOrder :: "int option"
  pt_Status :: "string option"
  pt_IP :: "string option"
  pt_IPAddress :: "string option"
  pt_ApiKey :: "string option"
  pt_ApiSecret :: "string option"
  pt_AccessToken :: "string option"
  pt_Password :: "string option"
  pt_TotpSecret :: "string option"
  pt_GroupID :: "string option"

text \<open>The response object collected so far and whether a field was updated.\<close>

type_synonym patch_acc = "(string \<times> field) list \<times> bool"

definition put_field :: "string \<Rightarrow> field \<Rightarrow> (string \<times> field) list \<Rightarrow> (string \<times> field) list" where
  "put_field k v resp = (k, v) # filter (\<lambda>(k', _). k' \<noteq> k) resp"

definition writePatchStoreError :: "go_error \<Rightarrow> http_response" where
  "writePatchStoreError e =
     (if errors_Is e ErrNotFound then writeError 404 ''account not found'' else writeError 500 ''failed to update account'')"

definition patch_store :: "(db \<Rightarrow> unit result \<times> db) \<Rightarrow> unit step" where
  "patch_store f = call_store (on_db f) writePatchStoreError"

definition role_or_empty :: "uuid \<Rightarrow> string step" where
  "role_or_empty i x = api_then (try_store (on_db (AccountRole i)) x) (\<lambda>r x. (Inr (case r of Inl _ \<Rightarrow> [] | Inr role \<Rightarrow> role), x))"

definition role_required :: "uuid \<Rightarrow> string \<Rightarrow> string step" where
  "role_required i failed = call_store (on_db (AccountRole i)) (\<lambda>e.
     if errors_Is e ErrNotFound then writeError 404 ''account not found'' else writeError 500 failed)"

text \<open>One plain column: set it, show it.\<close>

definition patch_column :: "'a option \<Rightarrow> ('a \<Rightarrow> db \<Rightarrow> unit result \<times> db) \<Rightarrow> string \<Rightarrow> ('a \<Rightarrow> field) \<Rightarrow> patch_acc \<Rightarrow> patch_acc step" where
  "patch_column v f k show_v acc x = (case v of
      None \<Rightarrow> (Inr acc, x)
    | Some a \<Rightarrow> api_then (patch_store (f a) x) (\<lambda>_ x. (Inr (put_field k (show_v a) (fst acc), True), x)))"

definition patch_active :: "account_env \<Rightarrow> uuid \<Rightarrow> patchAccountRequest \<Rightarrow> patch_acc \<Rightarrow> patch_acc step" where
  "patch_active E i req acc x = (case pt_Active req of
      None \<Rightarrow> (Inr acc, x)
    | Some active \<Rightarrow>
        api_then (patch_store (SetAccountActive i active) x) (\<lambda>_ x.
        api_then (role_or_empty i x) (\<lambda>role x.
          let x = notify_if (role = ''master'') E (if active then StartMaster i else StopMaster i) x;
              resp = put_field ''active'' (FBool active) (fst acc)
          in if active then (Inr (resp, True), notify_if (role = ''follower'') E (RegisterFollower i) x)
             else api_then (if role = ''follower'' then
                    api_then (patch_store (SetFollowLinkEnabled i False) x)
                      (\<lambda>_ x. (Inr (put_field ''enabled'' (FBool False) resp), notify E (UnregisterFollower i) x))
                  else (Inr resp, x))
               (\<lambda>resp x. (Inr (resp, True), notify E (EvictClient i) x)))))"

text \<open>
  The imbalance of the group is computed in a goroutine that the request starts (\<open>ComputeGroupDiff\<close>, which writes the
  group's imbalance flag); the request itself only starts it.
\<close>

definition patch_enabled :: "account_env \<Rightarrow> uuid \<Rightarrow> patchAccountRequest \<Rightarrow> patch_acc \<Rightarrow> patch_acc step" where
  "patch_enabled E i req acc x = (case pt_Enabled req of
      None \<Rightarrow> (Inr acc, x)
    | Some enabled \<Rightarrow>
        api_then (patch_store (SetFollowLinkEnabled i enabled) x) (\<lambda>_ x.
          let resp = put_field ''enabled'' (FBool enabled) (fst acc)
          in api_then (if enabled then
                api_then (patch_store (SetAccountActive i True) x)
                  (\<lambda>_ x. (Inr (put_field ''active'' (FBool True) resp), notify E (RegisterFollower i) x))
              else (Inr resp, notify E (UnregisterFollower i) x)) (\<lambda>resp x.
            if hs_rebalanceSvc (ae_hooks E) then
              api_then (try_store (on_db (ResolveMasterID i)) x) (\<lambda>r x.
                (Inr (resp, True), case r of Inl _ \<Rightarrow> x | Inr masterID \<Rightarrow> notify E (DiffGroup masterID) x))
            else (Inr (resp, True), x))))"

definition move_factor :: "account_env \<Rightarrow> patchAccountRequest \<Rightarrow> decimal" where
  "move_factor E req = (case nonblank (pt_CloneFactor req) of
      None \<Rightarrow> 1
    | Some c \<Rightarrow> (case ae_decimal E c of Some p \<Rightarrow> if p > 0 then p else 1 | None \<Rightarrow> 1))"

definition patch_group :: "account_env \<Rightarrow> uuid option \<Rightarrow> uuid \<Rightarrow> patchAccountRequest \<Rightarrow> patch_acc \<Rightarrow> patch_acc step" where
  "patch_group E u i req acc x = (case pt_GroupID req of
      None \<Rightarrow> (Inr acc, x)
    | Some raw \<Rightarrow>
        api_then (role_required i ''failed to check account role'' x) (\<lambda>role x.
          if role \<noteq> ''follower'' then (Inl (writeError 400 ''group can only be set on follower accounts''), x)
          else if TrimSpace raw = [] then
            api_then (try_store (on_db (DeleteFollowLink i)) x) (\<lambda>r x.
              if (case r of Inl e \<Rightarrow> \<not> errors_Is e ErrNotFound | Inr _ \<Rightarrow> False) then (Inl (writeError 500 ''failed to detach from group''), x)
              else (Inr (put_field ''groupName'' FNull (put_field ''masterId'' FNull (put_field ''groupId'' FNull (fst acc))), True), x))
          else api_then (resolve_group E u (TrimSpace raw) ''invalid groupId'' ''group not found'' ''failed to resolve group'' x) (\<lambda>grp x.
            (case grp of
               None \<Rightarrow> (Inr acc, x)
             | Some g \<Rightarrow>
                 api_then (try_store (on_db (DeleteFollowLink i)) x) (\<lambda>_ x.
                   let cf = move_factor E req
                   in api_then (call_store (on_db (CreateFollowLink (follow_link i g cf (pt_MaxQtyPerOrder req))))
                        (\<lambda>_. writeError 500 ''failed to attach account to group'') x)
                      (\<lambda>_ x. (Inr (put_field ''maxQtyPerOrder'' (case pt_MaxQtyPerOrder req of None \<Rightarrow> FNull | Some q \<Rightarrow> FInt q)
                           (put_field ''cloneFactor'' (FDecimal cf) (put_field ''masterId'' (FString (gd_MasterID g))
                           (put_field ''groupName'' (FString (gd_GroupName g)) (put_field ''groupId'' (FString (gd_GroupID g)) (fst acc))))), True), x)))))))"

definition applyFollowLinkTerms :: "account_env \<Rightarrow> uuid option \<Rightarrow> uuid \<Rightarrow> patchAccountRequest \<Rightarrow> (string \<times> field) list step" where
  "applyFollowLinkTerms E u i req x =
     api_then (call_store (on_db (Accounts (ae_rows E) u (Some [i]))) (\<lambda>_. writeError 500 ''failed to update account'') x) (\<lambda>accs x.
       (case accs of
          [] \<Rightarrow> (Inl (writeError 404 ''account not found''), x)
        | current # _ \<Rightarrow>
            if acc_Role current = ''master'' then
              (Inl (writeError 400 ''cloneFactor/maxQtyPerOrder only apply to follower accounts''), x)
            else
              let cfInput = (case pt_CloneFactor req of Some c \<Rightarrow> Some c | None \<Rightarrow> pt_CapitalRatio req);
                  parsed = (case cfInput of None \<Rightarrow> None | Some c \<Rightarrow> ae_decimal E c);
                  maxQty = (case pt_MaxQtyPerOrder req of Some q \<Rightarrow> Some q | None \<Rightarrow> acc_MaxQtyPerOrder current)
              in if cfInput \<noteq> None \<and> (case parsed of None \<Rightarrow> True | Some c \<Rightarrow> c \<le> 0) then (Inl (writeError 400 ''invalid cloneFactor''), x)
                 else (case (if cfInput \<noteq> None then parsed else acc_CloneFactor current) of
                    None \<Rightarrow> (Inl (writeError 400 ''account has no cloneFactor to update''), x)
                  | Some cloneFactor \<Rightarrow>
                      api_then (patch_store (UpdateFollowLinkTerms i cloneFactor maxQty) x) (\<lambda>_ x.
                        (Inr ((case pt_MaxQtyPerOrder req of None \<Rightarrow> [] | Some q \<Rightarrow> [(''maxQtyPerOrder'', FInt q)])
                            @ (case cfInput of None \<Rightarrow> [] | Some c \<Rightarrow> [(''cloneFactor'', FString c)])), x)))))"

definition patch_terms :: "account_env \<Rightarrow> uuid option \<Rightarrow> uuid \<Rightarrow> patchAccountRequest \<Rightarrow> patch_acc \<Rightarrow> patch_acc step" where
  "patch_terms E u i req acc x =
     (if (pt_CloneFactor req \<noteq> None \<or> pt_CapitalRatio req \<noteq> None \<or> pt_MaxQtyPerOrder req \<noteq> None) \<and> pt_GroupID req = None then
        api_then (applyFollowLinkTerms E u i req x) (\<lambda>linkResp x.
          (Inr (fold (\<lambda>(k, v). put_field k v) linkResp (fst acc), True), x))
      else (Inr acc, x))"

definition patch_status :: "uuid \<Rightarrow> patchAccountRequest \<Rightarrow> patch_acc \<Rightarrow> patch_acc step" where
  "patch_status i req acc x = (case pt_Status req of
      None \<Rightarrow> (Inr acc, x)
    | Some raw \<Rightarrow> (case ParseAccountStatus raw of
        Inl e \<Rightarrow> (Inl (writeError 400 (err_Error e)), x)
      | Inr status \<Rightarrow> api_then (patch_store (SetAccountStatus i status) x)
          (\<lambda>_ x. (Inr (put_field ''status'' (FString (ToAPI status)) (fst acc), True), x))))"

text \<open>The new address must be in the pool and admit the broker of the account, if the user sees the account.\<close>

definition patch_address_check :: "account_env \<Rightarrow> uuid option \<Rightarrow> uuid \<Rightarrow> string \<Rightarrow> unit step" where
  "patch_address_check E u i ip x =
     (if ip = [] then (Inr (), x)
      else api_then (registered_proxy ip x) (\<lambda>p x.
        api_then (call_store (on_db (Accounts (ae_rows E) u (Some [i]))) (\<lambda>_. writeError 500 ''failed to check account broker'') x) (\<lambda>accs x.
          (case accs of
             [] \<Rightarrow> (Inr (), x)
           | a # _ \<Rightarrow> if acc_Broker a \<noteq> [] \<and> \<not> MatchesBroker p (acc_Broker a) then (Inl (whitelist_error ip p (acc_Broker a)), x)
                      else (Inr (), x)))))"

definition patch_ip :: "account_env \<Rightarrow> uuid option \<Rightarrow> uuid \<Rightarrow> patchAccountRequest \<Rightarrow> patch_acc \<Rightarrow> patch_acc step" where
  "patch_ip E u i req acc x =
     (if pt_IP req = None \<and> pt_IPAddress req = None then (Inr acc, x)
      else api_then (role_required i ''failed to get account role'' x) (\<lambda>role x.
        (case validateIP E (case pt_IP req of Some ip \<Rightarrow> Some ip | None \<Rightarrow> pt_IPAddress req) role of
           Inl msg \<Rightarrow> (Inl (writeError 400 msg), x)
         | Inr ip \<Rightarrow>
             api_then (patch_address_check E u i ip x) (\<lambda>_ x.
             api_then (call_store (on_db (SetAccountIPAddress i ip)) (\<lambda>e.
                 if errors_Is e ErrIPAlreadyAssigned then writeError 409 (''IP address '' @ ip @ '' is already assigned to another account'')
                 else writePatchStoreError e) x)
               (\<lambda>_ x. (Inr (put_field ''ip'' (FString ip) (fst acc), True), notify_if (role = ''follower'') E (RegisterFollower i) x))))))"

definition patch_credentials :: "account_env \<Rightarrow> uuid \<Rightarrow> patchAccountRequest \<Rightarrow> patch_acc \<Rightarrow> patch_acc step" where
  "patch_credentials E i req acc x =
     (if pt_Password req = None \<and> pt_TotpSecret req = None then (Inr acc, x)
      else api_then (encrypt_step (ae_crypto E) ''password'' (pt_Password req) x) (\<lambda>encPass x.
        api_then (encrypt_step (ae_crypto_totp E) ''totp secret'' (pt_TotpSecret req) x) (\<lambda>encTotp x.
        api_then (patch_store (SetAccountEncryptedCredentials i encPass encTotp) x)
          (\<lambda>_ x. (Inr (put_field ''credentials'' (FString ''updated'') (fst acc), True), x)))))"

definition patch_token :: "account_env \<Rightarrow> uuid option \<Rightarrow> uuid \<Rightarrow> patchAccountRequest \<Rightarrow> patch_acc \<Rightarrow> patch_acc step" where
  "patch_token E u i req acc x = (case pt_AccessToken req of
      None \<Rightarrow> (Inr acc, x)
    | Some raw \<Rightarrow>
        let tokenStr = TrimSpace raw
        in api_then (try_store (on_db (Accounts (ae_rows E) u (Some [i]))) x) (\<lambda>r x.
           let dhan = (case r of Inr (a # _) \<Rightarrow> if ToLower (acc_Broker a) = ''dhan'' then Some a else None | _ \<Rightarrow> None)
           in api_then (case dhan of
                None \<Rightarrow> (Inr None, x)
              | Some a \<Rightarrow> if tokenStr \<noteq> [] then dhan_token E tokenStr (acc_BrokerAccountID a) x
                          else (Inr (Some (site_now (ap_site x) + 24 * Hour)), x)) (\<lambda>expiresAt x.
              let authStatus = (if dhan \<noteq> None then ''pending'' else ''authenticated'')
              in api_then (patch_store (SetAccountAccessToken i tokenStr expiresAt authStatus []) x) (\<lambda>_ x.
                 api_then (role_or_empty i x) (\<lambda>role x.
                   let resp = put_field ''accessToken'' (FString ''updated'') (fst acc)
                   in (Inr (if authStatus = ''pending'' then put_field ''status'' (FString ''pending'') resp else resp, True),
                       notify_if (role = ''follower'') E (RegisterFollower i) x))))))"

text \<open>The cached broker client is dropped when the address or a credential was in the request.\<close>

definition patch_evict :: "account_env \<Rightarrow> uuid \<Rightarrow> patchAccountRequest \<Rightarrow> api \<Rightarrow> api" where
  "patch_evict E i req x =
     (if pt_IP req \<noteq> None \<or> pt_ApiKey req \<noteq> None \<or> pt_ApiSecret req \<noteq> None \<or> pt_Password req \<noteq> None \<or> pt_TotpSecret req \<noteq> None
         \<or> pt_AccessToken req \<noteq> None
      then notify E (SyncAccountPortfolio i) (notify E (EvictClient i) x) else x)"

definition patch_steps :: "account_env \<Rightarrow> uuid option \<Rightarrow> uuid \<Rightarrow> patchAccountRequest \<Rightarrow> (patch_acc \<Rightarrow> patch_acc step) list" where
  "patch_steps E u i req =
     [patch_column (pt_Name req) (SetAccountName i) ''name'' FString, patch_active E i req, patch_enabled E i req, patch_group E u i req,
      patch_terms E u i req, patch_status i req, patch_ip E u i req,
      patch_column (map_option TrimSpace (pt_ApiKey req)) (SetAccountAPIKey i) ''apiKey'' FString,
      patch_column (map_option TrimSpace (pt_ApiSecret req)) (SetAccountAPISecret i) ''apiSecret'' FString,
      patch_credentials E i req, patch_token E u i req]"

fun run_steps :: "(patch_acc \<Rightarrow> patch_acc step) list \<Rightarrow> patch_acc \<Rightarrow> patch_acc step" where
  "run_steps [] acc x = (Inr acc, x)"
| "run_steps (f # fs) acc x = api_then (f acc x) (run_steps fs)"

definition patch_required :: string where
  "patch_required = Join (map quoted [''name'', ''enabled'', ''active'', ''cloneFactor'', ''maxQtyPerOrder'', ''status'', ''ip'', ''apiKey'', ''apiSecret'',
     ''accessToken'', ''password'']) '', '' @ '', or '' @ quoted ''totpSecret'' @ '' is required''"

definition patchAccount :: "account_env \<Rightarrow> uuid option \<Rightarrow> uuid option \<Rightarrow> patchAccountRequest option \<Rightarrow> api \<Rightarrow> http_response \<times> api" where
  "patchAccount E u pathID body x = (case pathID of
      None \<Rightarrow> (writeError 400 ''invalid account id'', x)
    | Some i \<Rightarrow> (case body of
        None \<Rightarrow> (writeError 400 ''malformed JSON body'', x)
      | Some req \<Rightarrow> respond (api_then (run_steps (patch_steps E u i req) ([], False) x) (\<lambda>(resp, updated) x.
          let x = patch_evict E i req x
          in if \<not> updated then (Inr (writeError 400 patch_required), x)
             else (Inr (writeJSON 200 (JFields resp)), x)))))"

section \<open>Deletion\<close>

definition deleteAccount :: "account_env \<Rightarrow> uuid option \<Rightarrow> api \<Rightarrow> http_response \<times> api" where
  "deleteAccount E pathID x = (case pathID of
      None \<Rightarrow> (writeError 400 ''invalid account id'', x)
    | Some i \<Rightarrow> respond (api_then (call_store (on_db (DeleteAccount i)) (\<lambda>e.
          if errors_Is e ErrConflict then writeError 409 ''account is still referenced by a group or order history; remove it from its group first''
          else if errors_Is e ErrNotFound then writeError 404 ''account not found''
          else writeError 500 ''failed to delete account'') x)
        (\<lambda>_ x. (Inr (writeJSON 204 JNoContent), notify E (UnregisterFollower i) (notify E (StopMaster i) (notify E (EvictClient i) x))))))"

definition deleteAccountGroup :: "account_env \<Rightarrow> uuid option \<Rightarrow> api \<Rightarrow> http_response \<times> api" where
  "deleteAccountGroup E pathID x = (case pathID of
      None \<Rightarrow> (writeError 400 ''invalid account id'', x)
    | Some i \<Rightarrow> respond (api_then (call_store (on_db (DeleteFollowLink i)) (\<lambda>e.
          if errors_Is e ErrNotFound then writeError 404 ''account is not attached to a group''
          else writeError 500 ''failed to remove account from group'') x)
        (\<lambda>_ x. (Inr (writeJSON 204 JNoContent), notify E (UnregisterFollower i) x))))"

end
