(* ===== verification/Accounts_Thms.thy ===== *)
theory Accounts_Thms
  imports Accounts_Api
begin

text \<open>
  Properties of the account handlers. What a \<open>PATCH\<close> leaves alone is shown once, for any view of the
  site that the store operations it calls keep, in four locales of growing sets of operations;
  the views interpreted are the rows of everything else, the addresses and roles of the
  accounts, and the credentials of one account.
\<close>

section \<open>Steps that keep a view of the site\<close>

definition keeps_op :: "(site \<Rightarrow> 'v) \<Rightarrow> (site \<Rightarrow> 'a \<times> site) \<Rightarrow> bool" where
  "keeps_op V f \<longleftrightarrow> (\<forall>s. V (snd (f s)) = V s)"

definition keeps_view :: "(site \<Rightarrow> 'v) \<Rightarrow> (api \<Rightarrow> 'a \<times> api) \<Rightarrow> bool" where
  "keeps_view V f \<longleftrightarrow> (\<forall>x. V (ap_site (snd (f x))) = V (ap_site x))"

lemma ap_site_notify [simp]: "ap_site (notify E h x) = ap_site x" "ap_site (notify_if b E h x) = ap_site x"
  by (simp_all add: notify_def notify_if_def)

lemma view_then: "keeps_view V f \<Longrightarrow> (\<And>a. keeps_view V (g a)) \<Longrightarrow> keeps_view V (\<lambda>x. api_then (f x) g)"
proof -
  assume f: "keeps_view V f" and g: "\<And>a. keeps_view V (g a)"
  have "V (ap_site (snd (api_then (f x) g))) = V (ap_site x)" for x
  proof -
    have "V (ap_site (snd (f x))) = V (ap_site x)" using f by (simp add: keeps_view_def)
    moreover have "V (ap_site (snd (g a y))) = V (ap_site y)" for a y using g by (simp add: keeps_view_def)
    ultimately show ?thesis by (cases "f x"; cases "fst (f x)") (simp_all add: api_then_def)
  qed
  then show ?thesis by (simp add: keeps_view_def)
qed

lemma view_respond: "keeps_view V f \<Longrightarrow> keeps_view V (\<lambda>x. respond (f x))"
proof -
  have "snd (respond r) = snd r" for r by (cases r; cases "fst r") (simp_all add: respond_def)
  then show "keeps_view V f \<Longrightarrow> keeps_view V (\<lambda>x. respond (f x))" by (simp add: keeps_view_def)
qed

lemma view_return: "(\<And>x. ap_site (h x) = ap_site x) \<Longrightarrow> keeps_view V (\<lambda>x. (r x, h x))"
  by (simp add: keeps_view_def)

lemma view_if: "keeps_view V f \<Longrightarrow> keeps_view V g \<Longrightarrow> keeps_view V (\<lambda>x. if b then f x else g x)"
  by (simp add: keeps_view_def)

lemma view_option: "keeps_view V f \<Longrightarrow> (\<And>a. keeps_view V (g a)) \<Longrightarrow> keeps_view V (\<lambda>x. case v of None \<Rightarrow> f x | Some a \<Rightarrow> g a x)"
  by (cases v) simp_all

lemma view_sum: "(\<And>e. keeps_view V (f e)) \<Longrightarrow> (\<And>a. keeps_view V (g a)) \<Longrightarrow> keeps_view V (\<lambda>x. case v of Inl e \<Rightarrow> f e x | Inr a \<Rightarrow> g a x)"
  by (cases v) simp_all

lemma view_list: "keeps_view V f \<Longrightarrow> (\<And>a as. keeps_view V (g a as)) \<Longrightarrow> keeps_view V (\<lambda>x. case v of [] \<Rightarrow> f x | a # as \<Rightarrow> g a as x)"
  by (cases v) simp_all

lemma view_prod: "(\<And>a b. keeps_view V (f a b)) \<Longrightarrow> keeps_view V (\<lambda>x. case v of (a, b) \<Rightarrow> f a b x)"
  by (cases v) simp

lemma view_call: "keeps_op V f \<Longrightarrow> keeps_view V (call_store f e)"
proof -
  have "ap_site (snd (call_store f e x)) = snd (f (ap_site x))" for x
    by (cases "f (ap_site x)"; cases "fst (f (ap_site x))") (simp_all add: call_store_def)
  then show "keeps_op V f \<Longrightarrow> keeps_view V (call_store f e)" by (simp add: keeps_op_def keeps_view_def)
qed

lemma view_try: "keeps_op V f \<Longrightarrow> keeps_view V (try_store f)"
  by (simp add: keeps_op_def keeps_view_def try_store_def case_prod_beta)

lemma view_notified: "keeps_view V f \<Longrightarrow> (\<And>x. ap_site (h x) = ap_site x) \<Longrightarrow> keeps_view V (\<lambda>x. f (h x))"
  by (simp add: keeps_view_def)

lemmas view_intros = view_then view_respond view_if view_option view_sum view_list view_prod view_call view_try

lemma not_found_query:
  "db_call (\<lambda>d. case q d of None \<Rightarrow> (Inl ErrNotFound, d) | Some a \<Rightarrow> (Inr (f a), d))
   = db_call (\<lambda>d. (case q d of None \<Rightarrow> Inl ErrNotFound | Some a \<Rightarrow> Inr (f a), d))"
  by (intro arg_cong [of _ _ db_call] ext) (simp split: option.splits)

lemma op_return: "keeps_op V (on_db (\<lambda>d. (r d, d)))"
  by (simp add: keeps_op_def on_db_def)

lemma op_case:
  assumes "keeps_op V (on_db f)" and "\<And>e. keeps_op V (on_db (g e))" and "\<And>a. keeps_op V (on_db (h a))"
  shows "keeps_op V (on_db (\<lambda>d. case f d of (Inl e, d1) \<Rightarrow> g e d1 | (Inr a, d1) \<Rightarrow> h a d1))"
proof -
  have "V (snd (on_db (\<lambda>d. case f d of (Inl e, d1) \<Rightarrow> g e d1 | (Inr a, d1) \<Rightarrow> h a d1) s)) = V s" for s
  proof (cases "f (si_db s)")
    case (Pair r d)
    then have f: "V (s\<lparr> si_db := d \<rparr>) = V s" using assms(1) [unfolded keeps_op_def, rule_format, of s] by (simp add: on_db_def)
    have "V (snd (on_db (g e) (s\<lparr> si_db := d \<rparr>))) = V (s\<lparr> si_db := d \<rparr>)" "V (snd (on_db (h a) (s\<lparr> si_db := d \<rparr>))) = V (s\<lparr> si_db := d \<rparr>)" for e a
      using assms(2,3) by (simp_all add: keeps_op_def)
    then show ?thesis using f by (cases r) (simp_all add: on_db_def Pair case_prod_beta)
  qed
  then show ?thesis by (simp add: keeps_op_def)
qed

lemma op_then: "keeps_op V (on_db f) \<Longrightarrow> (\<And>a. keeps_op V (on_db (g a))) \<Longrightarrow> keeps_op V (on_db (\<lambda>d. db_then (f d) g))"
  unfolding db_then_def by (intro op_case op_return)

lemma op_if: "keeps_op V (on_db f) \<Longrightarrow> keeps_op V (on_db g) \<Longrightarrow> keeps_op V (on_db (\<lambda>d. if b then f d else g d))"
  by (cases b) simp_all

lemma op_call:
  assumes "\<And>s fs. V (s\<lparr> si_db := (si_db s)\<lparr> faults := fs \<rparr> \<rparr>) = V s" and "\<And>s. V (s\<lparr> si_db := snd (body (si_db s)) \<rparr>) = V s"
  shows "keeps_op V (on_db (db_call body))"
proof -
  have "V (snd (on_db (db_call body) s)) = V s" for s
  proof (cases "faults (si_db s)")
    case Nil
    then show ?thesis using assms(2) [of s] by (simp add: on_db_def db_call_def case_prod_beta)
  next
    case (Cons ft fs)
    then show ?thesis
      using assms(1) [where s = s and fs = fs] assms(2) [of "s\<lparr> si_db := (si_db s)\<lparr> faults := fs \<rparr> \<rparr>"]
      by (cases ft) (simp_all add: on_db_def db_call_def case_prod_beta)
  qed
  then show ?thesis by (simp add: keeps_op_def)
qed

lemma run_steps_keep: "(\<And>f acc. f \<in> set fs \<Longrightarrow> keeps_view V (f acc)) \<Longrightarrow> keeps_view V (run_steps fs acc)"
proof (induction fs arbitrary: acc)
  case Nil
  then show ?case by (simp add: keeps_view_def)
next
  case (Cons f fs)
  have "keeps_view V (\<lambda>x. api_then (f acc x) (run_steps fs))"
    using Cons by (intro view_then) auto
  then show ?case by (simp add: keeps_view_def)
qed

section \<open>What an update of one account keeps\<close>

lemma follow_link_follower [simp]: "fl_FollowerID (follow_link j g c q) = j"
  by (simp add: follow_link_def)

text \<open>A view that does not show the pending faults: queries and checks keep it.\<close>

locale fault_blind =
  fixes V :: "site \<Rightarrow> 'v"
  assumes faults: "\<And>s fs. V (s\<lparr> si_db := (si_db s)\<lparr> faults := fs \<rparr> \<rparr>) = V s"
begin

lemma query: "keeps_op V (on_db (db_call (\<lambda>d. (q d, d))))"
  by (rule op_call [OF faults]) simp

lemma reads:
  "keeps_op V (on_db (AccountRole j))" "keeps_op V (on_db (Accounts order_by u ids))" "keeps_op V (on_db (GroupDetail_of order_f u j))"
  "keeps_op V (ProxyIPByAddress ip)"
proof -
  show "keeps_op V (on_db (AccountRole j))" unfolding AccountRole_def not_found_query by (rule query)
  show "keeps_op V (on_db (Accounts order_by u ids))" unfolding Accounts_def by (rule query)
  show "keeps_op V (on_db (GroupDetail_of order_f u j))"
    unfolding GroupDetail_of_def by (intro op_then query op_return) (auto intro!: op_then query op_return split: prod.split)
  show "keeps_op V (ProxyIPByAddress ip)"
    by (auto simp: keeps_op_def ProxyIPByAddress_def site_call_def faults split: list.splits option.splits)
qed

lemma resolve_master: "keeps_op V (on_db (ResolveMasterID j))"
proof -
  have "ResolveMasterID j = (\<lambda>d0. db_then (db_call (\<lambda>d. (Inr (map_option ar_role (find (\<lambda>a. ar_id a = j \<and> live a) (accounts d))), d)) d0)
      (\<lambda>role d1. if role = Some ''master'' then (Inr j, d1)
         else db_call (\<lambda>d. (case master_for_follower j d of None \<Rightarrow> Inl ErrNotFound | Some m \<Rightarrow> Inr m, d)) d1))"
    unfolding ResolveMasterID_def db_then_def not_found_query [where q = "master_for_follower j" and f = "\<lambda>m. m"] by simp
  moreover have "keeps_op V (on_db (\<lambda>d. if b then (r, d) else db_call (\<lambda>d. (q d, d)) d))" for b r and q :: "db \<Rightarrow> uuid result"
    using query [of q] by (simp add: keeps_op_def on_db_def)
  ultimately show ?thesis by (simp only:) (intro op_then query)
qed

lemma address_check: "keeps_view V (patch_address_check E u j ip)"
  unfolding patch_address_check_def registered_proxy_def
  by (intro view_intros reads view_return; simp)

lemma token_check: "keeps_view V (dhan_token E t c)" "keeps_view V (encrypt_step C w v)" "keeps_view V (role_required j m)"
    "keeps_view V (role_or_empty j)"
proof -
  show "keeps_view V (dhan_token E t c)" "keeps_view V (encrypt_step C w v)"
    by (simp_all add: keeps_view_def dhan_token_def encrypt_step_def split: sum.splits option.splits)
  show "keeps_view V (role_required j m)" "keeps_view V (role_or_empty j)"
    unfolding role_required_def role_or_empty_def by (intro view_intros reads view_return; simp)+
qed

lemma terms_step: "keeps_view V (follower_terms E u req)"
  unfolding follower_terms_def resolve_group_def Let_def
  by (intro view_intros reads view_return; simp)

lemma quota_step: "keeps_view V (check_quota u broker)"
proof -
  have call: "V (snd (site_call (\<lambda>s. (f s, s)) s)) = V s" for f :: "site \<Rightarrow> 'q result" and s
    by (simp add: site_call_def faults split: list.split option.split)
  have "keeps_op V (CheckAccountQuota i b)" for i b
    unfolding keeps_op_def CheckAccountQuota_def
    by (auto simp: Let_def case_prod_beta split: sum.split option.split) (metis call prod.collapse)+
  then show ?thesis unfolding check_quota_def by (intro view_intros view_return; simp)
qed

lemma account_address_step: "keeps_view V (account_address E req broker)"
  unfolding account_address_def registered_proxy_def
  by (intro view_intros reads view_return; simp)

end

text \<open>A view that the plain updates of account \<open>i\<close> keep.\<close>

locale plain_ops = fault_blind V for V :: "site \<Rightarrow> 'v" +
  fixes i :: uuid
  assumes name: "\<And>n. keeps_op V (on_db (SetAccountName i n))"
    and active: "\<And>b. keeps_op V (on_db (SetAccountActive i b))"
    and enabled: "\<And>b. keeps_op V (on_db (SetFollowLinkEnabled i b))"
    and terms: "\<And>c q. keeps_op V (on_db (UpdateFollowLinkTerms i c q))"
    and status: "\<And>st. keeps_op V (on_db (SetAccountStatus i st))"
begin

lemma plain_steps:
  "keeps_view V (patch_column (pt_Name req) (SetAccountName i) k FString acc)" "keeps_view V (patch_active E i req acc)"
  "keeps_view V (patch_enabled E i req acc)" "keeps_view V (patch_terms E u i req acc)" "keeps_view V (patch_status i req acc)"
  unfolding patch_column_def patch_active_def patch_enabled_def patch_terms_def patch_status_def applyFollowLinkTerms_def patch_store_def
    role_or_empty_def Let_def
  by (intro view_intros reads resolve_master name active enabled terms status view_return view_notified;
      simp add: ap_site_notify split: sum.splits)+

lemma no_credential_steps:
  "keeps_view V (patch_column None f k sh acc)"
  "pt_Password req = None \<Longrightarrow> pt_TotpSecret req = None \<Longrightarrow> keeps_view V (patch_credentials E i req acc)"
  "pt_AccessToken req = None \<Longrightarrow> keeps_view V (patch_token E u i req acc)"
  "pt_IP req = None \<Longrightarrow> pt_IPAddress req = None \<Longrightarrow> keeps_view V (patch_ip E u i req acc)"
  by (simp_all add: keeps_view_def patch_column_def patch_credentials_def patch_token_def patch_ip_def)

end

text \<open>A view that attaching and detaching the account keeps.\<close>

locale link_ops = plain_ops +
  assumes unlink: "keeps_op V (on_db (DeleteFollowLink i))"
    and link: "\<And>l. fl_FollowerID l = i \<Longrightarrow> keeps_op V (on_db (CreateFollowLink l))"
begin

lemma group_step: "keeps_view V (patch_group E u i req acc)"
  unfolding patch_group_def resolve_group_def role_required_def Let_def
  by (intro view_intros reads unlink link view_return; simp)

end

text \<open>A view that updates of the credentials keep too.\<close>

locale credential_ops = plain_ops +
  assumes key: "\<And>k. keeps_op V (on_db (SetAccountAPIKey i k))"
    and secret: "\<And>k. keeps_op V (on_db (SetAccountAPISecret i k))"
    and credentials: "\<And>p t. keeps_op V (on_db (SetAccountEncryptedCredentials i p t))"
    and token: "\<And>t e a m. keeps_op V (on_db (SetAccountAccessToken i t e a m))"
begin

lemma credential_steps:
  "keeps_view V (patch_column v (SetAccountAPIKey i) k FString acc)" "keeps_view V (patch_column v (SetAccountAPISecret i) k FString acc)"
  "keeps_view V (patch_credentials E i req acc)"
  unfolding patch_column_def patch_credentials_def patch_store_def
  by (intro view_intros key secret credentials token_check view_return; simp)+

lemma token_step: "keeps_view V (patch_token E u i req acc)"
  unfolding patch_token_def patch_store_def Let_def
  by (intro view_intros token reads token_check view_return; simp)

end

text \<open>A view that a change of the address keeps as well, and one that all columns keep.\<close>

locale column_ops = credential_ops +
  assumes address: "\<And>ip. keeps_op V (on_db (SetAccountIPAddress i ip))"
begin

lemma ip_step: "keeps_view V (patch_ip E u i req acc)"
  unfolding patch_ip_def
  by (intro view_intros address address_check token_check view_return; simp)

end

text \<open>A view that links and credentials keep, and one that the whole update keeps.\<close>

locale account_ops = link_ops + credential_ops

locale address_ops = link_ops + column_ops
begin

lemma patch_keeps: "keeps_view V (patchAccount E u (Some i) body)"
proof -
  have "keeps_view V (run_steps (patch_steps E u i req) acc)" for req acc
    by (rule run_steps_keep)
       (auto simp: patch_steps_def plain_steps group_step credential_steps token_step ip_step)
  moreover have "ap_site (patch_evict E i req x) = ap_site x" for req x by (simp add: patch_evict_def)
  then have "keeps_view V (case a of (resp, updated) \<Rightarrow> \<lambda>x. if \<not> updated then (Inr (writeError 400 patch_required), patch_evict E i req x)
      else (Inr (writeJSON 200 (JFields resp)), patch_evict E i req x))" for a :: patch_acc and req
    by (cases a) (simp add: keeps_view_def)
  ultimately show ?thesis
    unfolding patchAccount_def option.case Let_def
    by (intro view_option view_respond view_then view_return; simp)
qed

end

section \<open>An update touches one account only\<close>

lemma filter_not_update_where: "(\<And>a. P a \<Longrightarrow> P (f a)) \<Longrightarrow> filter (\<lambda>a. \<not> P a) (update_where P f xs) = filter (\<lambda>a. \<not> P a) xs"
  by (induction xs) (auto simp: update_where_def)

text \<open>Everything but account \<open>i\<close>, its follow link and the pending faults.\<close>

definition others :: "uuid \<Rightarrow> site \<Rightarrow> account_row list \<times> link_row list \<times> db \<times> site" where
  "others i s = (filter (\<lambda>a. \<not> ar_id a = i) (accounts (si_db s)), filter (\<lambda>l. \<not> lk_follower_id l = i) (follow_links (si_db s)),
     (si_db s)\<lparr> accounts := [], follow_links := [], faults := [] \<rparr>, s\<lparr> si_db := empty_db [] [] \<rparr>)"

lemma others_body:
  "others i (s\<lparr> si_db := (si_db s)\<lparr> faults := fs \<rparr> \<rparr>) = others i s"
  "(\<And>a. ar_id a = i \<Longrightarrow> ar_id (f a) = i) \<Longrightarrow> others i (s\<lparr> si_db := upd_account i f (si_db s) \<rparr>) = others i s"
  "(\<And>l. lk_follower_id l = i \<Longrightarrow> lk_follower_id (g l) = i) \<Longrightarrow>
    others i (s\<lparr> si_db := (si_db s)\<lparr> follow_links := update_where (\<lambda>l. lk_follower_id l = i) g (follow_links (si_db s)) \<rparr> \<rparr>) = others i s"
  "others i (s\<lparr> si_db := (si_db s)\<lparr> follow_links := filter (\<lambda>l. lk_follower_id l \<noteq> i) (follow_links (si_db s)) \<rparr> \<rparr>) = others i s"
  "lk_follower_id l = i \<Longrightarrow> others i (s\<lparr> si_db := (si_db s)\<lparr> follow_links := follow_links (si_db s) @ [l] \<rparr> \<rparr>) = others i s"
  by (simp_all add: others_def upd_account_def filter_not_update_where)

interpretation patch_others: address_ops "others i" i
proof
  note calls = op_call [of "others i", OF others_body(1)]
  show "others i (s\<lparr> si_db := (si_db s)\<lparr> faults := fs \<rparr> \<rparr>) = others i s" for s fs by (rule others_body)
  show "keeps_op (others i) (on_db (SetAccountName i n))" "keeps_op (others i) (on_db (SetAccountAPIKey i n))"
    "keeps_op (others i) (on_db (SetAccountAPISecret i n))" "keeps_op (others i) (on_db (SetAccountEncryptedCredentials i n t))"
    "keeps_op (others i) (on_db (SetAccountAccessToken i n e t m))" "keeps_op (others i) (on_db (SetAccountIPAddress i n))" for n t e m
    unfolding SetAccountName_def SetAccountAPIKey_def SetAccountAPISecret_def SetAccountEncryptedCredentials_def
      SetAccountAccessToken_def SetAccountIPAddress_def set_account_def
    by (rule calls; simp add: others_body)+
  show "keeps_op (others i) (on_db (SetAccountStatus i st))" for st
    using calls [of "\<lambda>d. if find_account i d = None then (Inl ErrNotFound, d) else if \<not> status_check st then (Inl pg_check, d)
        else (Inr (), upd_account i (\<lambda>a. a\<lparr> ar_status := st \<rparr>) d)"]
    by (simp add: others_body keeps_op_def on_db_def SetAccountStatus_def)
  show "keeps_op (others i) (on_db (DeleteFollowLink i))" "keeps_op (others i) (on_db (UpdateFollowLinkTerms i c q))" for c q
    unfolding DeleteFollowLink_def UpdateFollowLinkTerms_def by (rule calls; simp add: others_body)+
  show "keeps_op (others i) (on_db (SetFollowLinkEnabled i b))" "keeps_op (others i) (on_db (SetAccountActive i b))" for b
    unfolding SetFollowLinkEnabled_def SetAccountActive_def
    by (rule calls; simp add: others_def upd_account_def filter_not_update_where Let_def)+
  show "keeps_op (others i) (on_db (CreateFollowLink l))" if "fl_FollowerID l = i" for l
    unfolding CreateFollowLink_def Let_def using that
    by (intro op_if op_case op_return calls; simp add: others_body)
qed

text \<open>
  C39 The statements that an update of one account runs in the API handler change that account's row and its
  follow link, and nothing else: no other account, no other follower's link, no group, order, user, session or
  proxy, whatever fields are sent, wherever it stops and whatever database calls fail. The work that the
  request starts beside it is in the log of hooks and not part of this: the portfolio sync, the workers and feeds,
  and the recomputation of the group's imbalance, which writes that flag of the group.
\<close>

theorem patch_touches_only_its_account:
  "others i (ap_site (snd (patchAccount E u (Some i) body x))) = others i (ap_site x)"
  using patch_others.patch_keeps by (simp add: keeps_view_def)

section \<open>Addresses come from the pool\<close>

definition address_view :: "site \<Rightarrow> (uuid \<times> string \<times> bool \<times> string) list \<times> string list" where
  "address_view s = (map (\<lambda>a. (ar_id a, ar_role a, live a, ar_ip_address a)) (accounts (si_db s)), map px_ip_address (si_proxies s))"

definition pooled :: "string \<Rightarrow> site \<Rightarrow> bool" where
  "pooled ip s \<longleftrightarrow> ip \<in> set (map px_ip_address (si_proxies s))"

text \<open>Live accounts use addresses of the pool, and live followers have one.\<close>

definition addressed :: "site \<Rightarrow> bool" where
  "addressed s \<longleftrightarrow> distinct (map ar_id (accounts (si_db s)))
     \<and> (\<forall>a \<in> set (accounts (si_db s)). live a \<longrightarrow> (ar_ip_address a = [] \<or> pooled (ar_ip_address a) s)
          \<and> (ar_role a = ''follower'' \<longrightarrow> ar_ip_address a \<noteq> []))"

lemma addressed_cong:
  assumes "address_view s' = address_view s"
  shows "addressed s' = addressed s" "pooled ip s' = pooled ip s"
proof -
  have view: "addressed t \<longleftrightarrow> distinct (map fst (fst (address_view t)))
      \<and> list_all (\<lambda>(i, r, l, ip). l \<longrightarrow> (ip = [] \<or> ip \<in> set (snd (address_view t))) \<and> (r = ''follower'' \<longrightarrow> ip \<noteq> [])) (fst (address_view t))"
    "pooled ip t \<longleftrightarrow> ip \<in> set (snd (address_view t))" for t ip
    by (auto simp: addressed_def address_view_def pooled_def list_all_iff comp_def)
  show "addressed s' = addressed s" "pooled ip s' = pooled ip s" unfolding view assms by (rule refl)+
qed

lemma address_body:
  "address_view (s\<lparr> si_db := (si_db s)\<lparr> faults := fs \<rparr> \<rparr>) = address_view s"
  "(\<And>a. ar_id (f a) = ar_id a \<and> ar_role (f a) = ar_role a \<and> ar_deleted_at (f a) = ar_deleted_at a \<and> ar_ip_address (f a) = ar_ip_address a)
    \<Longrightarrow> address_view (s\<lparr> si_db := upd_account i f (si_db s) \<rparr>) = address_view s"
  "address_view (s\<lparr> si_db := (si_db s)\<lparr> follow_links := ls \<rparr> \<rparr>) = address_view s"
  by (simp_all add: address_view_def upd_account_def map_update_where live_def)

lemma addressed_faults [simp]:
  "addressed (s\<lparr> si_db := (si_db s)\<lparr> faults := fs \<rparr> \<rparr>) = addressed s" "pooled ip (s\<lparr> si_db := (si_db s)\<lparr> faults := fs \<rparr> \<rparr>) = pooled ip s"
  by (rule addressed_cong [OF address_body(1)])+

interpretation patch_address: account_ops address_view i
proof
  note calls = op_call [of address_view, OF address_body(1)]
  show "address_view (s\<lparr> si_db := (si_db s)\<lparr> faults := fs \<rparr> \<rparr>) = address_view s" for s fs by (rule address_body)
  show "keeps_op address_view (on_db (SetAccountName i n))" "keeps_op address_view (on_db (SetAccountAPIKey i n))"
    "keeps_op address_view (on_db (SetAccountAPISecret i n))" "keeps_op address_view (on_db (SetAccountEncryptedCredentials i n t))"
    "keeps_op address_view (on_db (SetAccountAccessToken i n e t m))" for n t e m
    unfolding SetAccountName_def SetAccountAPIKey_def SetAccountAPISecret_def SetAccountEncryptedCredentials_def
      SetAccountAccessToken_def set_account_def
    by (rule calls; simp add: address_body)+
  show "keeps_op address_view (on_db (SetAccountStatus i st))" for st
    unfolding SetAccountStatus_def by (intro op_if op_return calls; simp add: address_body)
  show "keeps_op address_view (on_db (DeleteFollowLink i))" "keeps_op address_view (on_db (UpdateFollowLinkTerms i c q))" for c q
    unfolding DeleteFollowLink_def UpdateFollowLinkTerms_def by (rule calls; simp add: address_body)+
  show "keeps_op address_view (on_db (SetFollowLinkEnabled i b))" "keeps_op address_view (on_db (SetAccountActive i b))" for b
    unfolding SetFollowLinkEnabled_def SetAccountActive_def
    by (rule calls; simp add: address_view_def upd_account_def map_update_where live_def Let_def)+
  show "keeps_op address_view (on_db (CreateFollowLink l))" for l
    unfolding CreateFollowLink_def Let_def by (intro op_if op_case op_return calls; simp add: address_body)
qed

subsection \<open>The operations on addresses\<close>

lemma on_db_call:
  obtains (failed) e fs where "on_db (db_call body) s = (Inl e, s\<lparr> si_db := (si_db s)\<lparr> faults := fs \<rparr> \<rparr>)"
  | (ran) fs where "on_db (db_call body) s = on_db body (s\<lparr> si_db := (si_db s)\<lparr> faults := fs \<rparr> \<rparr>)"
proof (cases "faults (si_db s)")
  case Nil
  have "(si_db s)\<lparr> faults := faults (si_db s) \<rparr> = si_db s" by simp
  then have "s\<lparr> si_db := (si_db s)\<lparr> faults := [] \<rparr> \<rparr> = s" unfolding Nil by simp
  moreover have "on_db (db_call body) s = on_db body s" using Nil by (simp add: on_db_def db_call_def)
  ultimately show thesis by (intro ran [of "[]"]) (simp only:)
next
  case (Cons ft fs)
  then show thesis
    by (cases ft) (auto simp: on_db_def db_call_def case_prod_beta intro: failed ran)
qed

lemma addressed_update:
  assumes "addressed s" and "\<And>a. ar_id (f a) = ar_id a"
    and "\<And>a. a \<in> set (accounts (si_db s)) \<Longrightarrow> ar_id a = i \<Longrightarrow> live (f a) \<Longrightarrow>
      (ar_ip_address (f a) = [] \<or> pooled (ar_ip_address (f a)) s) \<and> (ar_role (f a) = ''follower'' \<longrightarrow> ar_ip_address (f a) \<noteq> [])"
  shows "addressed (s\<lparr> si_db := upd_account i f (si_db s) \<rparr>)"
  using assms by (auto simp: addressed_def upd_account_def pooled_def update_where_def comp_def if_distrib [of ar_id] cong: if_cong)

lemma SetAccountIPAddress_addressed:
  assumes "addressed s" and "a \<in> set (accounts (si_db s))" "ar_id a = i" "live a"
    and "ip = [] \<or> pooled ip s" and "ar_role a = ''follower'' \<Longrightarrow> ip \<noteq> []"
  shows "addressed (snd (on_db (SetAccountIPAddress i ip) s))"
proof -
  have same: "b = a" if "b \<in> set (accounts (si_db s))" "ar_id b = i" for b
    using assms(1-3) that by (auto simp: addressed_def distinct_map inj_on_def)
  let ?body = "\<lambda>d. if find_account i d = None then (Inl ErrNotFound, d) else if ip_taken d i ip then (Inl ErrIPAlreadyAssigned, d)
     else (Inr (), upd_account i (\<lambda>a. a\<lparr> ar_ip_address := ip \<rparr>) d)"
  show ?thesis
    unfolding SetAccountIPAddress_def
  proof (cases ?body s rule: on_db_call)
    case (failed e fs)
    then show "addressed (snd (on_db (db_call ?body) s))" using assms(1) by simp
  next
    case (ran fs)
    let ?s = "s\<lparr> si_db := (si_db s)\<lparr> faults := fs \<rparr> \<rparr>"
    have s: "addressed ?s" "pooled ip ?s = pooled ip s" using assms(1) by simp_all
    have "addressed (?s\<lparr> si_db := upd_account i (\<lambda>a. a\<lparr> ar_ip_address := ip \<rparr>) (si_db ?s) \<rparr>)"
    proof (rule addressed_update [OF s(1)])
      fix b assume b: "b \<in> set (accounts (si_db ?s))" "ar_id b = i"
      then have "b = a" by (intro same) simp_all
      then show "(ar_ip_address (b\<lparr> ar_ip_address := ip \<rparr>) = [] \<or> pooled (ar_ip_address (b\<lparr> ar_ip_address := ip \<rparr>)) ?s)
          \<and> (ar_role (b\<lparr> ar_ip_address := ip \<rparr>) = ''follower'' \<longrightarrow> ar_ip_address (b\<lparr> ar_ip_address := ip \<rparr>) \<noteq> [])"
        using assms(5,6) s(2) by simp
    qed simp
    then show "addressed (snd (on_db (db_call ?body) s))" unfolding ran using s(1) by (simp add: on_db_def)
  qed
qed

text \<open>The pool admits the address and role that an account is to get.\<close>

definition fits :: "string \<Rightarrow> string \<Rightarrow> site \<Rightarrow> bool" where
  "fits role ip s \<longleftrightarrow> (ip = [] \<or> pooled ip s) \<and> (role = ''follower'' \<longrightarrow> ip \<noteq> [])"

lemma fits_cong: "address_view s' = address_view s \<Longrightarrow> fits role ip s' = fits role ip s"
  using addressed_cong(2) [of s' s ip] by (simp add: fits_def)

lemma fits_faults [simp]: "fits role ip (s\<lparr> si_db := (si_db s)\<lparr> faults := fs \<rparr> \<rparr>) = fits role ip s"
  by (rule fits_cong [OF address_body(1)])

lemma addressed_call:
  assumes "addressed s" and "\<And>fs. addressed (snd (on_db body (s\<lparr> si_db := (si_db s)\<lparr> faults := fs \<rparr> \<rparr>)))"
  shows "addressed (snd (on_db (db_call body) s))"
proof (cases body s rule: on_db_call)
  case (failed e fs)
  then show ?thesis using assms(1) by simp
next
  case (ran fs)
  then show ?thesis using assms(2) by simp
qed

lemma on_db_case:
  "on_db (\<lambda>d. case f d of (Inl e, d1) \<Rightarrow> g e d1 | (Inr a, d1) \<Rightarrow> h a d1) s =
   (case on_db f s of (Inl e, s1) \<Rightarrow> on_db (g e) s1 | (Inr a, s1) \<Rightarrow> on_db (h a) s1)"
  by (simp add: on_db_def case_prod_beta split: sum.splits)

lemma on_db_simps: "on_db (Pair r) s = (r, s)"
  "on_db (\<lambda>d. if c then f d else g d) s = (if c then on_db f s else on_db g s)"
  by (simp_all add: on_db_def)

lemma addressed_new:
  assumes "addressed s" and "fits (ar_role a) (ar_ip_address a) s" and "\<not> account_exists (si_db s) (ar_id a)"
  shows "addressed (s\<lparr> si_db := (si_db s)\<lparr> accounts := accounts (si_db s) @ [a] \<rparr> \<rparr>)"
  using assms by (auto simp: addressed_def fits_def pooled_def account_exists_def)

lemma addressed_reactivated:
  assumes "addressed s" and "fits role ip s"
  shows "addressed (s\<lparr> si_db := upd_account j (reactivated n role k sec ip p t) (si_db s) \<rparr>)"
  by (rule addressed_update [OF assms(1)]) (use assms(2) in \<open>simp_all add: reactivated_def fits_def\<close>)

lemma Create_addressed:
  assumes "addressed s" and "fits role ip s"
  shows "addressed (snd (on_db (CreateAccountWithCredentials u i n role b bu k sec ip p t) s))"
proof -
  let ?q = "db_call (\<lambda>d. (Inr (find (\<lambda>a. ar_broker a = b \<and> ar_broker_user_id a = bu) (accounts d)), d))"
  obtain r s1 where q: "on_db ?q s = (r, s1)" by fastforce
  have "address_view (snd (on_db ?q s)) = address_view s"
    by (rule patch_address.query [unfolded keeps_op_def, rule_format])
  then have view: "address_view s1 = address_view s" unfolding q by simp
  have s1: "addressed s1" "fits role ip s1" using assms addressed_cong(1) [OF view] fits_cong [OF view] by simp_all
  have call: "addressed (snd (on_db (db_call body) s1))"
    if "\<And>t. addressed t \<Longrightarrow> fits role ip t \<Longrightarrow> addressed (snd (on_db body t))" for body :: "db \<Rightarrow> uuid result \<times> db"
    by (rule addressed_call) (use s1 that in simp_all)
  show ?thesis
  proof (cases r)
    case (Inl e)
    then show ?thesis using q s1 unfolding CreateAccountWithCredentials_def on_db_case by (simp add: on_db_simps)
  next
    case (Inr found)
    show ?thesis
    proof (cases found)
      case None
      have "addressed (snd (on_db (db_call (\<lambda>d.
            if \<not> valid_role role then (Inl pg_enum, d)
            else if account_exists d i then (Inl ErrDuplicate, d)
            else if list_ex (\<lambda>a. ar_broker a = b \<and> ar_broker_user_id a = bu) (accounts d) then (Inl ErrDuplicate, d)
            else if ip_taken d i ip then (Inl ErrIPAlreadyAssigned, d)
            else (Inr i, d\<lparr> accounts := accounts d @ [new_account u i n role b bu k sec ip p t] \<rparr>))) s1))"
        by (rule call) (simp add: on_db_def addressed_new new_account_def)
      then show ?thesis
        using q Inr None unfolding CreateAccountWithCredentials_def on_db_case by simp
    next
      case (Some existing)
      have "addressed (snd (on_db (db_call (\<lambda>d.
            if \<not> valid_role role then (Inl pg_enum, d)
            else if \<not> list_ex (\<lambda>a. ar_id a = ar_id existing \<and> \<not> live a) (accounts d) then (Inl err_no_rows, d)
            else if ip_taken d (ar_id existing) ip then (Inl ErrIPAlreadyAssigned, d)
            else (Inr (ar_id existing), upd_account (ar_id existing) (reactivated n role k sec ip p t) d))) s1))"
        by (rule call) (simp add: on_db_def addressed_reactivated)
      then show ?thesis
        using q Inr Some s1 unfolding CreateAccountWithCredentials_def on_db_case by (simp add: on_db_simps)
    qed
  qed
qed

lemma Delete_addressed:
  assumes "addressed s"
  shows "addressed (snd (on_db (DeleteAccount i) s))"
  unfolding DeleteAccount_def
proof (rule addressed_call [OF assms])
  fix fs
  let ?s = "s\<lparr> si_db := (si_db s)\<lparr> faults := fs \<rparr> \<rparr>"
  let ?f = "\<lambda>now a. if live a then a\<lparr> ar_deleted_at := Some now, ar_ip_address := [], ar_active := False \<rparr> else a"
  have upd: "addressed (t\<lparr> si_db := upd_account i (?f d) (si_db t) \<rparr>)" if "addressed t" for t d
    by (rule addressed_update [OF that]) (use that in \<open>auto simp: live_def addressed_def split: if_splits\<close>)
  have view: "addressed (?s\<lparr> si_db := d \<rparr>)" if "accounts d = accounts (si_db s)" for d
    using assms that by (simp add: addressed_def pooled_def)
  have clear: "addressed (?s\<lparr> si_db := upd_account i (?f e) d \<rparr>)" if "accounts d = accounts (si_db s)" for d e
    using upd [OF view [OF that], of e] by simp
  show "addressed (snd (on_db (\<lambda>d. case find (\<lambda>a. ar_id a = i \<and> live a) (accounts d) of
       None \<Rightarrow> (Inl ErrNotFound, d)
     | Some acc \<Rightarrow>
         let mine = map gp_id (filter (\<lambda>g. gp_master_id g = i) (groups d));
             clear = (\<lambda>d. upd_account i (\<lambda>a. if live a then a\<lparr> ar_deleted_at := Some (db_now d), ar_ip_address := [],
                                        ar_active := False \<rparr> else a)
                       (d\<lparr> account_positions := filter (\<lambda>p. ap_account_id p \<noteq> i) (account_positions d) \<rparr>))
         in if ar_role acc = ''master'' then
              if list_ex (\<lambda>l. lk_group_id l \<in> set mine) (follow_links d) then (Inl ErrConflict, d)
              else (Inr (), clear (d\<lparr> groups := filter (\<lambda>g. gp_master_id g \<noteq> i) (groups d) \<rparr>))
            else if list_ex (\<lambda>l. lk_follower_id l = i) (follow_links d) then (Inl ErrConflict, d)
            else (Inr (), clear d)) ?s))"
    using view clear assms by (auto simp: on_db_def Let_def split: option.split)
qed

subsection \<open>The handlers\<close>

text \<open>
  A request that started in a state satisfying \<open>P\<close> ends early in one satisfying the invariant, and
  otherwise goes on with a result and a state that \<open>Q\<close> describes.
\<close>

definition guarded :: "(site \<Rightarrow> bool) \<Rightarrow> (site \<Rightarrow> bool) \<Rightarrow> 'a step \<Rightarrow> ('a \<Rightarrow> site \<Rightarrow> bool) \<Rightarrow> bool" where
  "guarded I P f Q \<longleftrightarrow> (\<forall>x. P (ap_site x) \<longrightarrow> (case f x of (Inl _, y) \<Rightarrow> I (ap_site y) | (Inr a, y) \<Rightarrow> Q a (ap_site y)))"

definition closed_under :: "(site \<Rightarrow> 'v) \<Rightarrow> (site \<Rightarrow> bool) \<Rightarrow> (site \<Rightarrow> bool) \<Rightarrow> bool" where
  "closed_under V I P \<longleftrightarrow> (\<forall>s s'. V s' = V s \<longrightarrow> P s \<longrightarrow> P s' \<and> I s')"

abbreviation triple :: "(site \<Rightarrow> bool) \<Rightarrow> 'a step \<Rightarrow> ('a \<Rightarrow> site \<Rightarrow> bool) \<Rightarrow> bool" where
  "triple \<equiv> guarded addressed"

abbreviation view_closed :: "(site \<Rightarrow> bool) \<Rightarrow> bool" where
  "view_closed \<equiv> closed_under address_view addressed"

lemma guarded_then: "guarded I P f Q \<Longrightarrow> (\<And>a. guarded I (Q a) (g a) R) \<Longrightarrow> guarded I P (\<lambda>x. api_then (f x) g) R"
  by (fastforce simp: guarded_def api_then_def split: prod.splits sum.splits)

lemma guarded_view: "closed_under V I P \<Longrightarrow> keeps_view V f \<Longrightarrow> guarded I P f (\<lambda>_. P)"
  unfolding guarded_def keeps_view_def closed_under_def
  by (auto simp: case_prod_beta split: sum.split)

lemma guarded_return: "(\<And>s. P s \<Longrightarrow> Q a s) \<Longrightarrow> (\<And>x. ap_site (h x) = ap_site x) \<Longrightarrow> guarded I P (\<lambda>x. (Inr a, h x)) Q"
  by (simp add: guarded_def)

lemma guarded_stop: "(\<And>s. P s \<Longrightarrow> I s) \<Longrightarrow> guarded I P (\<lambda>x. (Inl w, x)) Q"
  by (simp add: guarded_def)

lemma guarded_if: "(b \<Longrightarrow> guarded I P f Q) \<Longrightarrow> (\<not> b \<Longrightarrow> guarded I P g Q) \<Longrightarrow> guarded I P (\<lambda>x. if b then f x else g x) Q"
  by (cases b) simp_all

lemma guarded_call: "(\<And>s. P s \<Longrightarrow> I (snd (f s)) \<and> (\<forall>a s'. f s = (Inr a, s') \<longrightarrow> Q a s')) \<Longrightarrow> guarded I P (call_store f e) Q"
  by (fastforce simp: guarded_def call_store_def split: prod.splits sum.splits)

lemma guarded_call_end: "(\<And>s. P s \<Longrightarrow> I (snd (f s))) \<Longrightarrow> guarded I P (call_store f e) (\<lambda>_. I)"
  by (rule guarded_call) (metis snd_conv)

lemma guarded_prod: "(\<And>a b. guarded I P (f a b) Q) \<Longrightarrow> guarded I P (case v of (a, b) \<Rightarrow> f a b) Q"
  by (cases v) simp

lemma guarded_conseq: "guarded I P f Q \<Longrightarrow> (\<And>a s. Q a s \<Longrightarrow> Q' a s) \<Longrightarrow> guarded I P f Q'"
  by (fastforce simp: guarded_def split: prod.splits sum.splits)

lemma guarded_steps:
  "(\<And>f acc. f \<in> set fs \<Longrightarrow> guarded I I (f acc) (\<lambda>_. I)) \<Longrightarrow> guarded I I (run_steps fs acc) (\<lambda>_. I)"
proof (induction fs arbitrary: acc)
  case Nil
  then show ?case by (simp add: guarded_def)
next
  case (Cons f fs)
  have "guarded I I (\<lambda>x. api_then (f acc x) (run_steps fs)) (\<lambda>_. I)"
    using Cons by (intro guarded_then [of I I "f acc" "\<lambda>_. I"]) auto
  then show ?case by (simp add: guarded_def)
qed

lemma guarded_end: "guarded I P f (\<lambda>_. I) \<Longrightarrow> P (ap_site x) \<Longrightarrow> I (ap_site (snd (f x)))"
  by (cases "f x"; cases "fst (f x)") (auto simp: guarded_def)

lemma guarded_respond: "guarded I P f (\<lambda>_. I) \<Longrightarrow> P (ap_site x) \<Longrightarrow> I (ap_site (snd (respond (f x))))"
  using guarded_end [of I P f x] by (cases "f x"; cases "fst (f x)") (simp_all add: respond_def)

lemma view_closed_simps: "view_closed addressed" "view_closed (\<lambda>s. addressed s \<and> fits role ip s)"
  "view_closed (\<lambda>s. addressed s \<and> (\<exists>a \<in> set (accounts (si_db s)). ar_id a = i \<and> live a \<and> ar_role a = role))"
  "view_closed (\<lambda>s. addressed s \<and> fits role ip s \<and> (\<exists>a \<in> set (accounts (si_db s)). ar_id a = i \<and> live a \<and> ar_role a = role))"
proof -
  have has: "(\<exists>a \<in> set (accounts (si_db s)). ar_id a = i \<and> live a \<and> ar_role a = role)
      \<longleftrightarrow> (\<exists>ip. (i, role, True, ip) \<in> set (fst (address_view s)))" for s
    by (auto simp: address_view_def)
  show "view_closed addressed" "view_closed (\<lambda>s. addressed s \<and> fits role ip s)"
    unfolding closed_under_def using addressed_cong(1) fits_cong by blast+
  show "view_closed (\<lambda>s. addressed s \<and> (\<exists>a \<in> set (accounts (si_db s)). ar_id a = i \<and> live a \<and> ar_role a = role))"
    "view_closed (\<lambda>s. addressed s \<and> fits role ip s \<and> (\<exists>a \<in> set (accounts (si_db s)). ar_id a = i \<and> live a \<and> ar_role a = role))"
    unfolding closed_under_def has using addressed_cong(1) fits_cong by (metis (no_types, lifting))+
qed

definition has_role :: "uuid \<Rightarrow> string \<Rightarrow> site \<Rightarrow> bool" where
  "has_role i role s \<longleftrightarrow> (\<exists>a \<in> set (accounts (si_db s)). ar_id a = i \<and> live a \<and> ar_role a = role)"

lemmas view_closed_rules = view_closed_simps [folded has_role_def]

lemma triple_role: "triple addressed (role_required i m) (\<lambda>role s. addressed s \<and> has_role i role s)"
  unfolding role_required_def
proof (rule guarded_call)
  fix s assume s: "addressed s"
  let ?body = "\<lambda>d :: db. case find (\<lambda>a. ar_id a = i \<and> live a) (accounts d) of None \<Rightarrow> (Inl ErrNotFound, d) | Some a \<Rightarrow> (Inr (ar_role a), d)"
  show "addressed (snd (on_db (AccountRole i) s)) \<and> (\<forall>role s'. on_db (AccountRole i) s = (Inr role, s') \<longrightarrow> addressed s' \<and> has_role i role s')"
    unfolding AccountRole_def
  proof (cases ?body s rule: on_db_call)
    case (failed e fs)
    then show "addressed (snd (on_db (db_call ?body) s)) \<and> (\<forall>role s'. on_db (db_call ?body) s = (Inr role, s') \<longrightarrow> addressed s' \<and> has_role i role s')"
      using s by simp
  next
    case (ran fs)
    then show "addressed (snd (on_db (db_call ?body) s)) \<and> (\<forall>role s'. on_db (db_call ?body) s = (Inr role, s') \<longrightarrow> addressed s' \<and> has_role i role s')"
      using s by (auto simp: on_db_def has_role_def split: option.splits dest!: find_Some_mem)
  qed
qed

lemma find_proxy_pooled: "find_proxy ip s \<noteq> None \<longleftrightarrow> pooled ip s"
  by (auto simp: find_proxy_def pooled_def find_None_iff)

lemma triple_registered: "view_closed P \<Longrightarrow> triple P (registered_proxy ip) (\<lambda>_ s. P s \<and> pooled ip s)"
  unfolding registered_proxy_def
proof (rule guarded_call)
  fix s assume P: "view_closed P" "P s"
  have same: "P (s\<lparr> si_db := (si_db s)\<lparr> faults := fs \<rparr> \<rparr>)" "addressed s" for fs
    using P address_body(1) [where s = s and fs = fs] unfolding closed_under_def by blast+
  show "addressed (snd (ProxyIPByAddress ip s)) \<and> (\<forall>a s'. ProxyIPByAddress ip s = (Inr a, s') \<longrightarrow> P s' \<and> pooled ip s')"
    using same P(2) find_proxy_pooled
    by (auto simp: ProxyIPByAddress_def site_call_def split: list.splits option.splits)
qed

lemma validateIP_ok: "validateIP E raw role = Inr ip \<Longrightarrow> role = ''follower'' \<Longrightarrow> ip \<noteq> []"
  by (auto simp: validateIP_def Let_def split: if_splits)

lemma pooled_closed: "view_closed P \<Longrightarrow> view_closed (\<lambda>s. P s \<and> pooled ip s)"
  unfolding closed_under_def using addressed_cong(2) by blast

lemma triple_check:
  assumes "view_closed P"
  shows "triple P (patch_address_check E u i ip) (\<lambda>_ s. P s \<and> (ip = [] \<or> pooled ip s))"
proof -
  have rest: "keeps_view address_view (\<lambda>x. api_then (call_store (on_db (Accounts (ae_rows E) u (Some [i])))
        (\<lambda>_. writeError 500 ''failed to check account broker'') x) (\<lambda>accs x. case accs of [] \<Rightarrow> (Inr (), x)
           | a # _ \<Rightarrow> if acc_Broker a \<noteq> [] \<and> \<not> MatchesBroker p (acc_Broker a) then (Inl (whitelist_error ip p (acc_Broker a)), x)
                      else (Inr (), x)))" for p
    by (intro view_intros patch_address.reads view_return; simp)
  show ?thesis
    unfolding patch_address_check_def
    by (intro guarded_if guarded_return guarded_then [OF triple_registered [OF assms]]
        guarded_conseq [OF guarded_view [OF pooled_closed [OF assms] rest]]; simp)
qed

lemma triple_patch_ip: "triple addressed (patch_ip E u i req acc) (\<lambda>_. addressed)"
proof -
  let ?raw = "case pt_IP req of Some ip \<Rightarrow> Some ip | None \<Rightarrow> pt_IPAddress req"
  have set_ip: "triple (\<lambda>s. (addressed s \<and> has_role i role s) \<and> (ip = [] \<or> pooled ip s)) (call_store (on_db (SetAccountIPAddress i ip)) e) (\<lambda>_. addressed)"
    if "validateIP E ?raw role = Inr ip" for role ip e
    using SetAccountIPAddress_addressed validateIP_ok [OF that] by (intro guarded_call_end) (force simp: has_role_def)
  have "triple (\<lambda>s. addressed s \<and> has_role i role s) (\<lambda>x. case validateIP E ?raw role of
      Inl msg \<Rightarrow> (Inl (writeError 400 msg), x)
    | Inr ip \<Rightarrow> api_then (patch_address_check E u i ip x) (\<lambda>_ x.
             api_then (call_store (on_db (SetAccountIPAddress i ip)) (\<lambda>e.
                 if errors_Is e ErrIPAlreadyAssigned then writeError 409 (''IP address '' @ ip @ '' is already assigned to another account'')
                 else writePatchStoreError e) x)
               (\<lambda>_ x. (Inr (put_field ''ip'' (FString ip) (fst acc), True), notify_if (role = ''follower'') E (RegisterFollower i) x)))) (\<lambda>_. addressed)" for role
  proof (cases "validateIP E ?raw role")
    case (Inr ip)
    then show ?thesis
      by (simp only: sum.case)
         (intro guarded_then [OF triple_check [OF view_closed_rules(3)]] guarded_then [OF set_ip] guarded_return; simp)
  qed (simp add: guarded_def)
  then show ?thesis
    unfolding patch_ip_def by (intro guarded_if guarded_return guarded_then [OF triple_role]; simp)
qed

lemma patchAccount_addressed: "addressed (ap_site x) \<Longrightarrow> addressed (ap_site (snd (patchAccount E u pathID body x)))"
proof (cases "(pathID, body)")
  assume x: "addressed (ap_site x)"
  case (Pair p b)
  show ?thesis
  proof (cases "p = None \<or> b = None")
    case False
    then obtain i req where ib: "pathID = Some i" "body = Some req" using Pair by auto
    note keep = guarded_view [OF view_closed_rules(1)]
    have "triple addressed (run_steps (patch_steps E u i req) ([], False)) (\<lambda>_. addressed)"
      by (rule guarded_steps)
         (auto simp: patch_steps_def triple_patch_ip keep patch_address.plain_steps patch_address.group_step
           patch_address.credential_steps patch_address.token_step)
    moreover have "triple addressed (\<lambda>x. (case a of (resp, updated) \<Rightarrow> (\<lambda>x. let x = patch_evict E i req x
          in if \<not> updated then (Inr (writeError 400 patch_required), x) else (Inr (writeJSON 200 (JFields resp)), x))) x) (\<lambda>_. addressed)" for a
      by (auto simp: guarded_def patch_evict_def Let_def split: prod.split)
    ultimately show ?thesis
      using x unfolding patchAccount_def ib option.case
      by (intro guarded_respond [of addressed addressed] guarded_then [of addressed addressed _ "\<lambda>_. addressed"]) simp_all
  qed (use Pair x in \<open>auto simp: patchAccount_def split: option.splits\<close>)
qed

lemma deletes_addressed:
  assumes "addressed (ap_site x)"
  shows "addressed (ap_site (snd (deleteAccount E pathID x)))" "addressed (ap_site (snd (deleteAccountGroup E pathID x)))"
proof -
  have del: "triple addressed (call_store (on_db (DeleteAccount i)) e) (\<lambda>_. addressed)" for i e
    by (rule guarded_call_end) (rule Delete_addressed)
  have unlink: "triple addressed (call_store (on_db (DeleteFollowLink i)) e) (\<lambda>_. addressed)" for i e
    by (intro guarded_view [of address_view] view_closed_rules(1) view_call patch_address.unlink)
  show "addressed (ap_site (snd (deleteAccount E pathID x)))"
    unfolding deleteAccount_def using assms
    by (cases pathID) (auto intro!: guarded_respond [of addressed addressed] guarded_then [OF del] guarded_return)
  show "addressed (ap_site (snd (deleteAccountGroup E pathID x)))"
    unfolding deleteAccountGroup_def using assms
    by (cases pathID) (auto intro!: guarded_respond [of addressed addressed] guarded_then [OF unlink] guarded_return)
qed

lemma triple_address:
  "triple addressed (account_address E req broker) (\<lambda>ip s. addressed s \<and> fits (po_Role req) ip s)"
proof (cases "validateIP E (case po_IP req of Some ip \<Rightarrow> Some ip | None \<Rightarrow> po_IPAddress req) (po_Role req)")
  case (Inr ip)
  have follower: "po_Role req = ''follower'' \<Longrightarrow> ip \<noteq> []" using validateIP_ok [OF Inr] .
  have "triple (\<lambda>s. addressed s \<and> pooled ip s) (\<lambda>x. if \<not> MatchesBroker p broker then (Inl (whitelist_error ip p broker), x) else (Inr ip, x))
      (\<lambda>ip s. addressed s \<and> fits (po_Role req) ip s)" for p
    using follower by (auto simp: guarded_def fits_def)
  then have "triple addressed (\<lambda>x. api_then (registered_proxy ip x)
      (\<lambda>p x. if \<not> MatchesBroker p broker then (Inl (whitelist_error ip p broker), x) else (Inr ip, x))) (\<lambda>ip s. addressed s \<and> fits (po_Role req) ip s)"
    by (intro guarded_then [OF triple_registered [OF view_closed_rules(1)]])
  moreover have "triple addressed (\<lambda>x. (Inr [], x)) (\<lambda>ip s. addressed s \<and> fits (po_Role req) ip s)" if "ip = []"
    using that follower by (auto simp: guarded_def fits_def)
  ultimately show ?thesis unfolding account_address_def Inr sum.case by (intro guarded_if)
qed (simp add: account_address_def guarded_def)

lemma view_session: "keeps_view address_view (initial_session i broker token e c)"
proof (cases token)
  case None
  then show ?thesis
    unfolding initial_session_def option.case None
    by (intro view_if view_then view_try patch_address.token view_return; simp)
next
  case (Some t)
  have "keeps_view address_view (\<lambda>x. api_then (call_store (on_db (SetAccountAccessToken i t exp
      (if broker = ''dhan'' then ''pending'' else ''authenticated'') [])) (\<lambda>_. writeError 500 ''failed to set access token'') x)
      (\<lambda>_ x. (Inr (if broker = ''dhan'' then ''pending'' else ''ok''), x)))" for exp
    by (intro view_then view_call patch_address.token view_return) simp
  then show ?thesis by (simp add: keeps_view_def initial_session_def Let_def Some)
qed

lemma view_attach: "keeps_view address_view (attach_follower E i req c grp resp)"
  unfolding attach_follower_def
  by (intro view_intros patch_address.link view_return; simp)

lemma create_account_addressed: "triple addressed (create_account E u req broker) (\<lambda>_. addressed)"
proof -
  note keep0 = guarded_view [OF view_closed_rules(1)] and keep = guarded_view [OF view_closed_rules(2)]
  have create: "triple (\<lambda>s. addressed s \<and> fits (po_Role req) ip s)
      (call_store (on_db (CreateAccountWithCredentials uid i n (po_Role req) b bu k sec ip p t)) e) (\<lambda>_. addressed)" for uid i n b bu k sec ip p t e
    by (rule guarded_call_end) (simp add: Create_addressed)
  have dhan: "keeps_view address_view (\<lambda>x. if broker = ''dhan'' then (case tok of Some t \<Rightarrow> dhan_token E t bid x | None \<Rightarrow> (Inr None, x)) else (Inr None, x))" for tok bid
    by (intro view_if view_option patch_address.token_check view_return; simp)
  have attach: "keeps_view address_view (\<lambda>x. attach_follower E i req c grp resp (notify_if b E h x))" for i c grp resp b h
    using view_attach [of E i req c grp resp] by (simp add: keeps_view_def)
  show ?thesis
    unfolding create_account_def Let_def
    by (rule guarded_then [OF keep0 [OF patch_address.quota_step]], rule guarded_then [OF triple_address], rule guarded_then [OF keep [OF patch_address.terms_step]],
        rule guarded_prod, (rule guarded_then [OF keep [OF patch_address.token_check(2)]])+, rule guarded_then [OF keep [OF dhan]],
        rule guarded_then [OF create], rule guarded_then [OF keep0 [OF view_session]], rule guarded_then [OF keep0 [OF attach]])
       (simp add: guarded_def)
qed

lemma postAccount_addressed: "addressed (ap_site x) \<Longrightarrow> addressed (ap_site (snd (postAccount E u body x)))"
  using guarded_respond [OF create_account_addressed]
  by (cases body) (simp_all add: postAccount_def Let_def)

subsection \<open>The pool\<close>

definition grows :: "site \<Rightarrow> site \<Rightarrow> bool" where
  "grows s s' \<longleftrightarrow> accounts (si_db s') = accounts (si_db s) \<and> (\<forall>ip. pooled ip s \<longrightarrow> pooled ip s')"

lemma grows_addressed: "grows s s' \<Longrightarrow> addressed s \<Longrightarrow> addressed s'"
  by (auto simp: grows_def addressed_def)

lemma grows_refl [simp]: "grows s s"
  by (simp add: grows_def)

lemma grows_trans: "grows s s' \<Longrightarrow> grows s' s'' \<Longrightarrow> grows s s''"
  by (simp add: grows_def)

lemma grows_call: "(\<And>s. grows s (snd (body s))) \<Longrightarrow> grows s (snd (site_call body s))"
proof -
  assume body: "\<And>s. grows s (snd (body s))"
  have "grows s (s\<lparr> si_db := (si_db s)\<lparr> faults := fs \<rparr> \<rparr>)" for fs by (simp add: grows_def pooled_def)
  then show ?thesis
    using body by (auto simp: site_call_def intro: grows_trans split: list.split option.split)
qed

lemma grows_upd_proxy: "(\<And>r. px_ip_address r = k \<Longrightarrow> px_ip_address (f r) = k) \<Longrightarrow> grows s (upd_proxy k f s)"
  by (simp add: grows_def pooled_def upd_proxy_def map_update_where)

lemma grows_upsert: "grows s (snd (upsert_row r s))"
proof -
  have "grows s (s\<lparr> si_proxies := si_proxies s @ rs \<rparr>)" for rs by (auto simp: grows_def pooled_def)
  then show ?thesis by (auto simp: upsert_row_def split: sum.split intro: grows_upd_proxy)
qed

lemma grows_upsert_all: "grows s (snd (upsert_all zone now ps res s))"
proof (induction ps arbitrary: res s)
  case (Cons p ps)
  then show ?case using grows_upsert [of s "upsert_columns zone now p"]
    by (auto simp: Let_def case_prod_beta split: sum.split intro: grows_trans)
qed simp

lemma grows_store:
  "grows s (snd (UpsertProxyIP zone now p s))" "grows s (snd (UpsertProxyIPsBatch zone now ips s))" "grows s (snd (UpdateProxyIP ip v pw pl s))"
  "grows s (snd (UpdateProxyIPFull zone now p s))"
proof -
  show "grows s (snd (UpsertProxyIP zone now p s))" unfolding UpsertProxyIP_def by (intro grows_call grows_upsert)
  show "grows s (snd (UpsertProxyIPsBatch zone now ips s))"
    unfolding UpsertProxyIPsBatch_def Let_def using grows_upsert_all [of _ zone now ips]
    by (auto intro!: grows_call split: prod.split sum.split) (metis snd_conv)
  show "grows s (snd (UpdateProxyIP ip v pw pl s))" unfolding UpdateProxyIP_def
    by (intro grows_call) (simp add: grows_upd_proxy)
  have "px_ip_address (upsert_columns zone now q) = pi_IPAddress q" for q by (simp add: upsert_columns_def Let_def)
  then show "grows s (snd (UpdateProxyIPFull zone now p s))" unfolding UpdateProxyIPFull_def Let_def
    by (intro grows_call) (simp add: grows_upd_proxy split: sum.split)
qed

lemma grows_handlers:
  "grows s (snd (postAdminProxyIPsBulk L inputs s))" "grows s (snd (postAdminProxyIP L input s))" "grows s (snd (patchAdminProxyIP L ip preq s))"
  "grows s (snd (putAdminProxyIP L same ip input s))"
  unfolding postAdminProxyIPsBulk_def postAdminProxyIP_def patchAdminProxyIP_def putAdminProxyIP_def Let_def
  by (simp_all add: grows_store case_prod_beta split: option.split sum.split)

lemma delete_addressed: "addressed s \<Longrightarrow> addressed (snd (deleteAdminProxyIP ip s))"
proof -
  assume s: "addressed s"
  have gone: "addressed (s\<lparr> si_proxies := filter (\<lambda>r. px_ip_address r \<noteq> ip) (si_proxies s) \<rparr>)"
      "addressed (s\<lparr> si_db := (si_db s)\<lparr> faults := fs \<rparr>, si_proxies := filter (\<lambda>r. px_ip_address r \<noteq> ip) (si_proxies s) \<rparr>)"
    if "\<not> list_ex (\<lambda>a. ar_ip_address a = ip \<and> live a) (accounts (si_db s))" for fs
    using s that by (auto simp: addressed_def pooled_def list_ex_iff)
  have "addressed (snd (DeleteProxyIP ip s))"
    using s by (auto simp: DeleteProxyIP_def site_call_def gone split: list.split option.split)
  then show ?thesis by (simp add: deleteAdminProxyIP_def s case_prod_beta split: sum.split)
qed

subsection \<open>Histories of requests\<close>

text \<open>Requests on accounts and on the pool, one after the other, and anything else that leaves roles, addresses and the pool alone.\<close>

inductive api_step :: "api \<Rightarrow> api \<Rightarrow> bool" where
  post: "api_step x (snd (postAccount E u body x))"
| patch: "api_step x (snd (patchAccount E v pathID preq x))"
| delete: "api_step x (snd (deleteAccount E pathID x))"
| ungroup: "api_step x (snd (deleteAccountGroup E pathID x))"
| pool_bulk: "api_step x (x\<lparr> ap_site := snd (postAdminProxyIPsBulk L inputs (ap_site x)) \<rparr>)"
| pool_post: "api_step x (x\<lparr> ap_site := snd (postAdminProxyIP L input (ap_site x)) \<rparr>)"
| pool_patch: "api_step x (x\<lparr> ap_site := snd (patchAdminProxyIP L ip pool_req (ap_site x)) \<rparr>)"
| pool_put: "api_step x (x\<lparr> ap_site := snd (putAdminProxyIP L same ip input (ap_site x)) \<rparr>)"
| pool_delete: "api_step x (x\<lparr> ap_site := snd (deleteAdminProxyIP ip (ap_site x)) \<rparr>)"
| other: "address_view s = address_view (ap_site x) \<Longrightarrow> api_step x \<lparr> ap_site = s, ap_log = lg \<rparr>"

lemma api_step_addressed: "api_step x x' \<Longrightarrow> addressed (ap_site x) \<Longrightarrow> addressed (ap_site x')"
proof (induction rule: api_step.induct)
  case (other s x lg)
  then show ?case using addressed_cong(1) [OF other.hyps] by simp
qed (auto simp: postAccount_addressed patchAccount_addressed deletes_addressed delete_addressed intro: grows_addressed grows_handlers)

lemma api_run_addressed: "api_step\<^sup>*\<^sup>* x x' \<Longrightarrow> addressed (ap_site x) \<Longrightarrow> addressed (ap_site x')"
  by (induction rule: rtranclp_induct) (auto intro: api_step_addressed)

text \<open>
  C38 Orders leave through an address the operator registered: after any history of requests on
  accounts and on the proxy pool, started from a site without accounts, every live account with
  an address has one of the pool, and every live follower has one. Creation and updates check it,
  reactivation included, and an address in use is not deleted.
\<close>

theorem addresses_from_pool:
  assumes "api_step\<^sup>*\<^sup>* x x'" and "accounts (si_db (ap_site x)) = []"
    and "a \<in> set (accounts (si_db (ap_site x')))" and "live a"
  shows "(ar_ip_address a = [] \<or> find_proxy (ar_ip_address a) (ap_site x') \<noteq> None) \<and> (ar_role a = ''follower'' \<longrightarrow> ar_ip_address a \<noteq> [])"
proof -
  have "addressed (ap_site x)" using assms(2) by (simp add: addressed_def)
  then have "addressed (ap_site x')" by (rule api_run_addressed [OF assms(1)])
  then show ?thesis using assms(3,4) by (auto simp: addressed_def find_proxy_pooled simp del: not_None_eq)
qed

section \<open>Cached broker clients\<close>

text \<open>Steps that end a request early only with an error response.\<close>

definition fails_with_error :: "'a step \<Rightarrow> bool" where
  "fails_with_error f \<longleftrightarrow> (\<forall>x w y. f x = (Inl w, y) \<longrightarrow> 400 \<le> rp_status w)"

lemma status_writes [simp]: "rp_status (writeError n m) = n" "rp_status (writeJSON n b) = n"
  by (simp_all add: writeError_def writeJSON_def)

lemma error_then: "fails_with_error f \<Longrightarrow> (\<And>a. fails_with_error (g a)) \<Longrightarrow> fails_with_error (\<lambda>x. api_then (f x) g)"
  unfolding fails_with_error_def api_then_def by (auto split: prod.splits sum.splits)

lemma error_if: "fails_with_error f \<Longrightarrow> fails_with_error g \<Longrightarrow> fails_with_error (\<lambda>x. if b then f x else g x)"
  by (cases b) simp_all

lemma error_option: "fails_with_error f \<Longrightarrow> (\<And>a. fails_with_error (g a)) \<Longrightarrow> fails_with_error (\<lambda>x. case v of None \<Rightarrow> f x | Some a \<Rightarrow> g a x)"
  by (cases v) simp_all

lemma error_sum: "(\<And>e. fails_with_error (f e)) \<Longrightarrow> (\<And>a. fails_with_error (g a)) \<Longrightarrow> fails_with_error (\<lambda>x. case v of Inl e \<Rightarrow> f e x | Inr a \<Rightarrow> g a x)"
  by (cases v) simp_all

lemma error_list: "fails_with_error f \<Longrightarrow> (\<And>a as. fails_with_error (g a as)) \<Longrightarrow> fails_with_error (\<lambda>x. case v of [] \<Rightarrow> f x | a # as \<Rightarrow> g a as x)"
  by (cases v) simp_all

lemma error_ends: "fails_with_error (\<lambda>x. (Inr (a x), h x))" "400 \<le> rp_status w \<Longrightarrow> fails_with_error (\<lambda>x. (Inl w, h x))"
  "(\<And>e. 400 \<le> rp_status (on_error e)) \<Longrightarrow> fails_with_error (call_store f on_error)" "fails_with_error (try_store f)"
  by (auto simp: fails_with_error_def call_store_def try_store_def split: prod.splits sum.splits)

lemmas error_intros = error_then error_if error_option error_sum error_list error_ends

lemma patch_store_status: "400 \<le> rp_status (writePatchStoreError e)"
  by (simp add: writePatchStoreError_def)

lemma error_shared: "fails_with_error (dhan_token E t c)" "fails_with_error (encrypt_step C k v)" "fails_with_error (role_required i m)"
  "fails_with_error (role_or_empty i)" "fails_with_error (registered_proxy ip)" "fails_with_error (resolve_group E u r a b c)"
  "fails_with_error (patch_store f)"
proof -
  show "fails_with_error (dhan_token E t c)" "fails_with_error (encrypt_step C k v)"
    by (auto simp: fails_with_error_def dhan_token_def encrypt_step_def split: sum.splits option.splits if_splits)
  show "fails_with_error (role_required i m)" "fails_with_error (role_or_empty i)" "fails_with_error (registered_proxy ip)"
      "fails_with_error (resolve_group E u r a b c)" "fails_with_error (patch_store f)"
    unfolding role_required_def role_or_empty_def registered_proxy_def resolve_group_def patch_store_def
    by (intro error_intros patch_store_status; simp)+
qed

lemma error_store_after: "fails_with_error (\<lambda>x. patch_store f (h x))"
  using error_shared(7) by (simp add: fails_with_error_def)

lemma error_steps: "f \<in> set (patch_steps E u i req) \<Longrightarrow> fails_with_error (f acc)"
proof -
  have "fails_with_error (patch_column v f k sh acc)" for v :: "string option" and f k sh
    unfolding patch_column_def by (intro error_intros error_shared)
  moreover have "fails_with_error (patch_active E i req acc)" "fails_with_error (patch_enabled E i req acc)" "fails_with_error (patch_group E u i req acc)"
      "fails_with_error (patch_status i req acc)" "fails_with_error (patch_credentials E i req acc)" "fails_with_error (patch_token E u i req acc)"
    unfolding patch_active_def patch_enabled_def patch_group_def patch_status_def patch_credentials_def patch_token_def Let_def
    by (intro error_intros error_shared error_store_after; simp)+
  moreover have "fails_with_error (patch_terms E u i req acc)" "fails_with_error (patch_ip E u i req acc)"
    unfolding patch_terms_def applyFollowLinkTerms_def patch_ip_def patch_address_check_def whitelist_error_def Let_def
    by (intro error_intros error_shared; simp add: patch_store_status)+
  ultimately show "f \<in> set (patch_steps E u i req) \<Longrightarrow> fails_with_error (f acc)"
    by (auto simp: patch_steps_def)
qed

lemma error_run: "(\<And>f acc. f \<in> set fs \<Longrightarrow> fails_with_error (f acc)) \<Longrightarrow> fails_with_error (run_steps fs acc)"
proof (induction fs arbitrary: acc)
  case Nil
  then show ?case by (simp add: fails_with_error_def)
next
  case (Cons f fs)
  have "fails_with_error (\<lambda>x. api_then (f acc x) (run_steps fs))" using Cons by (intro error_then) auto
  then show ?case by (simp add: fails_with_error_def)
qed

text \<open>What a cached broker client of account \<open>i\<close> was built from.\<close>

definition client_view :: "uuid \<Rightarrow> site \<Rightarrow> (string \<times> secret \<times> secret \<times> secret \<times> secret \<times> secret) list" where
  "client_view i s = map (\<lambda>a. (ar_ip_address a, ar_api_key a, ar_api_secret a, ar_encrypted_password a, ar_encrypted_totp_secret a, ar_access_token a))
     (filter (\<lambda>a. ar_id a = i) (accounts (si_db s)))"

lemma client_update:
  "(\<And>a. ar_id (f a) = ar_id a \<and> ar_ip_address (f a) = ar_ip_address a \<and> ar_api_key (f a) = ar_api_key a \<and> ar_api_secret (f a) = ar_api_secret a
     \<and> ar_encrypted_password (f a) = ar_encrypted_password a \<and> ar_encrypted_totp_secret (f a) = ar_encrypted_totp_secret a
     \<and> ar_access_token (f a) = ar_access_token a)
   \<Longrightarrow> client_view i (s\<lparr> si_db := upd_account j f (si_db s) \<rparr>) = client_view i s"
  unfolding client_view_def upd_account_def update_where_def by (simp add: filter_map comp_def if_distrib cong: if_cong)

interpretation patch_client: link_ops "client_view i" i
proof
  have db: "client_view i (s\<lparr> si_db := d \<rparr>) = client_view i s" if "accounts d = accounts (si_db s)" for s d
    using that by (simp add: client_view_def)
  then have faults: "client_view i (s\<lparr> si_db := (si_db s)\<lparr> faults := fs \<rparr> \<rparr>) = client_view i s" for s fs by simp
  note calls = op_call [of "client_view i", OF faults]
  show "client_view i (s\<lparr> si_db := (si_db s)\<lparr> faults := fs \<rparr> \<rparr>) = client_view i s" for s fs by (rule faults)
  show "keeps_op (client_view i) (on_db (SetAccountName i n))" for n
    unfolding SetAccountName_def set_account_def by (rule calls) (simp add: client_update)
  show "keeps_op (client_view i) (on_db (SetAccountStatus i st))" for st
    unfolding SetAccountStatus_def by (intro op_if op_return calls; simp add: client_update)
  show "keeps_op (client_view i) (on_db (DeleteFollowLink i))" "keeps_op (client_view i) (on_db (UpdateFollowLinkTerms i c q))" for c q
    unfolding DeleteFollowLink_def UpdateFollowLinkTerms_def by (rule calls; simp add: db)+
  have active: "client_view i (s\<lparr> si_db := upd_account i (\<lambda>a. a\<lparr> ar_active := b \<rparr>) d \<rparr>) = client_view i (s\<lparr> si_db := d \<rparr>)" for s d b
    using client_update [where f = "\<lambda>a. a\<lparr> ar_active := b \<rparr>" and s = "s\<lparr> si_db := d \<rparr>" and j = i and i = i] by simp
  have links: "client_view i (s\<lparr> si_db := d\<lparr> follow_links := ls \<rparr> \<rparr>) = client_view i (s\<lparr> si_db := d \<rparr>)" for s d ls
    by (simp add: client_view_def)
  show "keeps_op (client_view i) (on_db (SetFollowLinkEnabled i b))" "keeps_op (client_view i) (on_db (SetAccountActive i b))" for b
    unfolding SetFollowLinkEnabled_def SetAccountActive_def by (rule calls; simp add: active links Let_def)+
  show "keeps_op (client_view i) (on_db (CreateFollowLink l))" for l
    unfolding CreateFollowLink_def Let_def by (intro op_if op_case op_return calls; simp add: db)
qed

lemma patch_evict_logs:
  "pt_IP req \<noteq> None \<or> pt_ApiKey req \<noteq> None \<or> pt_ApiSecret req \<noteq> None \<or> pt_Password req \<noteq> None \<or> pt_TotpSecret req \<noteq> None \<or> pt_AccessToken req \<noteq> None
   \<Longrightarrow> hs_brokerEvicter (ae_hooks E) \<Longrightarrow> EvictClient i \<in> set (ap_log (patch_evict E i req x))"
  by (auto simp: patch_evict_def notify_def)

text \<open>
  A broker client is built from an account's address, keys, credentials and token and then
  cached. When an update succeeds and has changed any of them, the cached client is evicted, so
  the next order uses the new ones; provided an address is sent as \<open>ip\<close>.
\<close>

theorem patch_evicts_client:
  assumes "patchAccount E u (Some i) (Some req) x = (w, y)" and "rp_status w = 200"
    and "client_view i (ap_site y) \<noteq> client_view i (ap_site x)"
    and "pt_IPAddress req = None \<or> pt_IP req \<noteq> None" and "hs_brokerEvicter (ae_hooks E)"
  shows "EvictClient i \<in> set (ap_log y)"
proof -
  let ?run = "run_steps (patch_steps E u i req) ([], False)"
  obtain r z where run: "?run x = (r, z)" by fastforce
  have "fails_with_error ?run" by (intro error_run error_steps)
  then have "400 \<le> rp_status w'" if "r = Inl w'" for w' using run that unfolding fails_with_error_def by blast
  then have "\<exists>acc. r = Inr acc"
    using assms(1,2) run by (cases r) (auto simp: patchAccount_def respond_def api_then_def)
  then obtain resp updated where r: "r = Inr (resp, updated)" by auto
  have y: "y = patch_evict E i req z"
    using assms(1) run r by (auto simp: patchAccount_def respond_def api_then_def Let_def split: if_splits)
  show ?thesis
  proof (cases "pt_IP req \<noteq> None \<or> pt_ApiKey req \<noteq> None \<or> pt_ApiSecret req \<noteq> None \<or> pt_Password req \<noteq> None \<or> pt_TotpSecret req \<noteq> None \<or> pt_AccessToken req \<noteq> None")
    case True
    then show ?thesis unfolding y using patch_evict_logs assms(5) by blast
  next
    case False
    then have none: "pt_IP req = None" "pt_IPAddress req = None" "pt_ApiKey req = None" "pt_ApiSecret req = None" "pt_Password req = None"
        "pt_TotpSecret req = None" "pt_AccessToken req = None" using assms(4) by auto
    have "keeps_view (client_view i) ?run"
      by (rule run_steps_keep)
         (auto simp: patch_steps_def none patch_client.plain_steps patch_client.group_step patch_client.no_credential_steps)
    then have "client_view i (ap_site z) = client_view i (ap_site x)" using run by (metis keeps_view_def snd_conv)
    moreover have "ap_site y = ap_site z" by (simp add: y patch_evict_def)
    ultimately show ?thesis using assms(3) by simp
  qed
qed

section \<open>Refused requests\<close>

text \<open>Everything that is stored; the pending faults are not.\<close>

definition stored :: "site \<Rightarrow> site" where
  "stored s = s\<lparr> si_db := (si_db s)\<lparr> faults := [] \<rparr> \<rparr>"

interpretation stored: fault_blind stored
  by unfold_locales (simp add: stored_def)

definition refuses :: "'a step \<Rightarrow> bool" where
  "refuses f \<longleftrightarrow> (\<forall>x w y. f x = (Inl w, y) \<longrightarrow> rp_status w < 500 \<longrightarrow> stored (ap_site y) = stored (ap_site x))"

definition fatal :: "'a step \<Rightarrow> bool" where
  "fatal f \<longleftrightarrow> (\<forall>x w y. f x = (Inl w, y) \<longrightarrow> 500 \<le> rp_status w)"

lemma refuses_then: "keeps_view stored f \<Longrightarrow> (\<And>a. refuses (g a)) \<Longrightarrow> refuses (\<lambda>x. api_then (f x) g)"
  unfolding refuses_def keeps_view_def api_then_def
  by (auto split: prod.splits sum.splits) (metis snd_conv)+

lemma refuses_then_fatal: "refuses f \<Longrightarrow> (\<And>a. fatal (g a)) \<Longrightarrow> refuses (\<lambda>x. api_then (f x) g)"
  unfolding refuses_def fatal_def api_then_def by (auto split: prod.splits sum.splits) (meson not_le)+

lemma refuses_prod: "(\<And>a b. refuses (f a b)) \<Longrightarrow> refuses (case v of (a, b) \<Rightarrow> f a b)"
  by (cases v) simp

lemma fatal_rules:
  "fatal f \<Longrightarrow> (\<And>a. fatal (g a)) \<Longrightarrow> fatal (\<lambda>x. api_then (f x) g)" "fatal (\<lambda>x. (Inr (v x), h x))" "fatal (try_store c)"
  "(\<And>e. 500 \<le> rp_status (on_error e)) \<Longrightarrow> fatal (call_store q on_error)"
  by (auto simp: fatal_def api_then_def try_store_def call_store_def split: prod.splits sum.splits)

lemma Create_error_stored:
  assumes "on_db (CreateAccountWithCredentials u i n role b bu k sec ip p t) s = (Inl e, s')"
  shows "stored s' = stored s"
  using assms
  by (auto simp: CreateAccountWithCredentials_def on_db_def db_call_def stored_def split: prod.splits sum.splits option.splits list.splits if_splits)

lemma fatal_session: "fatal (initial_session i broker token e c)"
proof (cases token)
  case None
  then show ?thesis by (auto simp: fatal_def api_then_def try_store_def initial_session_def split: prod.splits if_splits)
next
  case (Some t)
  have "fatal (\<lambda>x. api_then (call_store (on_db (SetAccountAccessToken i t exp
      (if broker = ''dhan'' then ''pending'' else ''authenticated'') [])) (\<lambda>_. writeError 500 ''failed to set access token'') x)
      (\<lambda>_ x. (Inr (if broker = ''dhan'' then ''pending'' else ''ok''), x)))" for exp
    by (intro fatal_rules) simp
  then show ?thesis by (simp add: fatal_def initial_session_def Let_def Some)
qed

lemma fatal_attach: "fatal (attach_follower E i req c grp resp)"
proof (cases grp)
  case None
  then show ?thesis unfolding attach_follower_def option.case by (cases "po_Role req = ''follower''") (auto intro!: fatal_rules simp: fatal_def api_then_def)
next
  case (Some g)
  then show ?thesis unfolding attach_follower_def option.case by (cases "po_Role req = ''follower''") (auto intro!: fatal_rules)
qed

lemma create_account_refuses: "refuses (create_account E u req broker)"
proof -
  have create: "refuses (call_store (on_db (CreateAccountWithCredentials uid i n role b bu k sec ip p t)) e)" for uid i n role b bu k sec ip p t e
    by (auto simp: refuses_def call_store_def Create_error_stored split: prod.splits sum.splits)
  have dhan: "keeps_view stored (\<lambda>x. if broker = ''dhan'' then (case tok of Some t \<Rightarrow> dhan_token E t bid x | None \<Rightarrow> (Inr None, x)) else (Inr None, x))" for tok bid
    by (intro view_if view_option stored.token_check view_return; simp)
  have attach: "fatal (\<lambda>x. attach_follower E i req c grp resp (notify_if b E h x))" for i c grp resp b h
    using fatal_attach [of E i req c grp resp] by (simp add: fatal_def)
  show ?thesis
    unfolding create_account_def Let_def
    by (rule refuses_then [OF stored.quota_step], rule refuses_then [OF stored.account_address_step], rule refuses_then [OF stored.terms_step],
        rule refuses_prod, (rule refuses_then [OF stored.token_check(2)])+, rule refuses_then [OF dhan], rule refuses_then_fatal [OF create],
        rule fatal_rules(1) [OF fatal_session], rule fatal_rules(1) [OF attach], rule fatal_rules(2))
qed

text \<open>
  A request to create an account that is refused creates nothing: with a status below 500 other
  than 201 (a malformed field, the quota, an address that is not registered, not for this broker or taken,
  an unknown group, a foreign or expired token, a duplicate) every table is as it was.
\<close>

theorem refused_creates_nothing:
  assumes "postAccount E u body x = (w, y)" and "rp_status w < 500" and "rp_status w \<noteq> 201"
  shows "stored (ap_site y) = stored (ap_site x)"
proof -
  have "stored (ap_site y) = stored (ap_site x)" if "respond (create_account E u req broker x) = (w, y)" for req broker
  proof (cases "create_account E u req broker x")
    case (Pair r z)
    show ?thesis
    proof (cases r)
      case (Inl w')
      then show ?thesis
        using that Pair assms(2) create_account_refuses [of E u req broker] by (auto simp: respond_def refuses_def)
    next
      case (Inr w')
      have "rp_status w' = 201" using Pair Inr
        by (auto simp: create_account_def Let_def api_then_def split: prod.splits sum.splits)
      then show ?thesis using that Pair Inr assms(3) by (simp add: respond_def)
    qed
  qed
  then show ?thesis
    using assms(1) by (auto simp: postAccount_def Let_def split: option.splits if_splits)
qed

section \<open>Examples\<close>

definition ex_hooks :: hook_set where
  "ex_hooks = \<lparr> hs_followerRegistrar = True, hs_brokerEvicter = True, hs_tickerMgr = True, hs_syncer = True, hs_rebalanceSvc = False \<rparr>"

definition ex_account_env :: account_env where
  "ex_account_env = \<lparr> ae_uuid = ''n'', ae_parse_uuid = Some, ae_decimal = (\<lambda>_. Some 1), ae_addr = (\<lambda>_. True), ae_crypto = ex_crypto,
     ae_crypto_totp = ex_crypto, ae_claims = (\<lambda>_. Inr (''c'', 0)), ae_rows = id, ae_followers = id, ae_hooks = ex_hooks \<rparr>"

definition ex_owned :: "uuid \<Rightarrow> string \<Rightarrow> string \<Rightarrow> account_row" where
  "ex_owned i role ip = new_account (Some ''u1'') i i role ''kite'' i ''k'' ''s'' ip [] []"

definition ex_proxy_row :: "string \<Rightarrow> proxy_row" where
  "ex_proxy_row ip = \<lparr> px_ip_address = ip, px_ip_type = ''ipv4'', px_host = ''gw'', px_port = 443, px_username = ''u'', px_password = ''p'',
     px_whitelisted_brokers = [], px_valid_from = 1, px_valid_until = 2, px_plan = ''QUARTERLY'', px_created_at = 1 \<rparr>"

definition ex_api :: "go_error option list \<Rightarrow> api" where
  "ex_api fs = \<lparr> ap_site = \<lparr> si_db = (empty_db [ex_owned ''m'' ''master'' [], ex_owned ''f'' ''follower'' ''1.1.1.1''] [])\<lparr>
       groups := [\<lparr> gp_id = ''g'', gp_user_id = Some ''u1'', gp_name = ''g'', gp_master_id = ''m'', gp_has_imbalance = False \<rparr>],
       follow_links := [\<lparr> lk_follower_id = ''f'', lk_group_id = ''g'', lk_clone_factor = 1, lk_max_qty_per_order = None, lk_enabled = True,
         lk_effective_from = 1 \<rparr>], faults := fs \<rparr>,
     si_users = [], si_sessions = [], si_next_session = 1, si_proxies = [ex_proxy_row ''1.1.1.1'', ex_proxy_row ''2.2.2.2''] \<rparr>, ap_log = [] \<rparr>"

definition ex_patch :: patchAccountRequest where
  "ex_patch = \<lparr> pt_Name = None, pt_Enabled = None, pt_Active = None, pt_CloneFactor = None, pt_CapitalRatio = None, pt_MaxQtyPerOrder = None,
     pt_Status = None, pt_IP = None, pt_IPAddress = None, pt_ApiKey = None, pt_ApiSecret = None, pt_AccessToken = None, pt_Password = None,
     pt_TotpSecret = None, pt_GroupID = None \<rparr>"



text \<open>
  So a user who owns nothing and cannot see the accounts of another user renames and stops an account of theirs,
  and deletes it.
\<close>

theorem foreign_account_changed:
  "let (listed, _) = getAccounts ex_account_env (Some ''u2'') [] (ex_api []);
       (w, y) = patchAccount ex_account_env (Some ''u2'') (Some ''m'') (Some (ex_patch\<lparr> pt_Name := Some ''mine'', pt_Active := Some False \<rparr>)) (ex_api []);
       (w1, y1) = deleteAccountGroup ex_account_env (Some ''f'') y;
       (w2, y2) = deleteAccount ex_account_env (Some ''m'') y1
   in rp_body listed = JAccounts [] \<and> rp_status w = 200 \<and> StopMaster ''m'' \<in> set (ap_log y)
      \<and> map_option (\<lambda>a. (ar_name a, ar_active a)) (find_account ''m'' (si_db (ap_site y))) = Some (''mine'', False)
      \<and> rp_status w2 = 204 \<and> map_option live (find_account ''m'' (si_db (ap_site y2))) = Some False"
  by code_simp

text \<open>
  An address sent as \<open>ipAddress\<close>, which the request also accepts, is stored, but the broker client built
  for the old address stays cached.
\<close>

theorem stale_client_after_ipAddress:
  "let (w, y) = patchAccount ex_account_env (Some ''u1'') (Some ''f'') (Some (ex_patch\<lparr> pt_IPAddress := Some ''2.2.2.2'' \<rparr>)) (ex_api [])
   in rp_status w = 200 \<and> map_option ar_ip_address (find_account ''f'' (si_db (ap_site y))) = Some ''2.2.2.2'' \<and> EvictClient ''f'' \<notin> set (ap_log y)"
  by code_simp

text \<open>
  Moving a follower to a group removes its old link before the new one is made: when the second
  statement fails the request reports a failure and the follower has no group.
\<close>

theorem failed_move_detaches_follower:
  "let (w, y) = patchAccount ex_account_env (Some ''u1'') (Some ''f'') (Some (ex_patch\<lparr> pt_GroupID := Some ''g'' \<rparr>))
         (ex_api [None, None, None, None, None, Some (NetTimeout ''connection reset'')])
   in rp_status w = 500 \<and> length (follow_links (si_db (ap_site (ex_api [])))) = 1 \<and> follow_links (si_db (ap_site y)) = []"
  by code_simp

theorem patch_evicts_client_witness:
  "let (w, y) = patchAccount ex_account_env (Some ''u1'') (Some ''f'') (Some (ex_patch\<lparr> pt_IP := Some ''2.2.2.2'' \<rparr>)) (ex_api [])
   in rp_status w = 200 \<and> EvictClient ''f'' \<in> set (ap_log y)"
proof -
  let ?req = "ex_patch\<lparr> pt_IP := Some ''2.2.2.2'' \<rparr>"
  obtain w y where wy: "patchAccount ex_account_env (Some ''u1'') (Some ''f'') (Some ?req) (ex_api []) = (w, y)" by fastforce
  have "case patchAccount ex_account_env (Some ''u1'') (Some ''f'') (Some ?req) (ex_api []) of (w, y) \<Rightarrow>
      rp_status w = 200 \<and> client_view ''f'' (ap_site y) \<noteq> client_view ''f'' (ap_site (ex_api []))" by code_simp
  then have "rp_status w = 200" "client_view ''f'' (ap_site y) \<noteq> client_view ''f'' (ap_site (ex_api []))" unfolding wy by simp_all
  moreover have "pt_IPAddress ?req = None \<or> pt_IP ?req \<noteq> None" "hs_brokerEvicter (ae_hooks ex_account_env)"
    by (simp_all add: ex_account_env_def ex_hooks_def)
  ultimately show ?thesis using patch_evicts_client [OF wy] wy by simp
qed

definition ex_post :: postAccountRequest where
  "ex_post = \<lparr> po_Name = [], po_Role = ''follower'', po_Broker = ''kite'', po_BrokerAccountID = ''AB1'', po_ApiKey = ''k'', po_ApiSecret = ''s'',
     po_AccessToken = None, po_Password = None, po_TotpSecret = None, po_IP = Some ''2.2.2.2'', po_IPAddress = None, po_CloneFactor = None,
     po_CapitalRatio = None, po_MaxQtyPerOrder = None, po_GroupID = None, po_MasterID = None \<rparr>"

theorem refused_creates_nothing_witness:
  "let (w, y) = postAccount ex_account_env None (Some (ex_post\<lparr> po_IP := Some ''1.1.1.1'' \<rparr>)) (ex_api [])
   in rp_status w = 409 \<and> stored (ap_site y) = stored (ap_site (ex_api []))"
proof -
  let ?post = "postAccount ex_account_env None (Some (ex_post\<lparr> po_IP := Some ''1.1.1.1'' \<rparr>)) (ex_api [])"
  obtain w y where wy: "?post = (w, y)" by fastforce
  have "rp_status (fst ?post) = 409" by code_simp
  then show ?thesis using refused_creates_nothing [OF wy] wy by simp
qed

definition ex_api0 :: api where
  "ex_api0 = (ex_api [])\<lparr> ap_site := (ap_site (ex_api []))\<lparr> si_db := empty_db [] [], si_proxies := [ex_proxy_row ''2.2.2.2''] \<rparr> \<rparr>"

definition ex_api1 :: api where
  "ex_api1 = snd (postAccount ex_account_env None (Some ex_post) ex_api0)"

theorem addresses_from_pool_witness:
  "\<exists>a \<in> set (accounts (si_db (ap_site ex_api1))). live a \<and> ar_role a = ''follower'' \<and> find_proxy (ar_ip_address a) (ap_site ex_api1) \<noteq> None"
proof -
  have run: "api_step\<^sup>*\<^sup>* ex_api0 ex_api1" unfolding ex_api1_def by (rule r_into_rtranclp) (rule api_step.post)
  have none: "accounts (si_db (ap_site ex_api0)) = []" by code_simp
  have "list_ex (\<lambda>a. live a \<and> ar_role a = ''follower'') (accounts (si_db (ap_site ex_api1)))" by code_simp
  then obtain a where a: "a \<in> set (accounts (si_db (ap_site ex_api1)))" "live a" "ar_role a = ''follower''" by (auto simp: list_ex_iff)
  then show ?thesis using addresses_from_pool [OF run none a(1,2)] by blast
qed

end
