(* ===== verification/Adapters.thy ===== *)
theory Adapters
  imports Squareoff Calendar
begin

text \<open>
  The broker adapters: Zerodha (\<open>kite/broker.go\<close>), Dhan (\<open>dhan/broker.go\<close>) and the test broker
  (\<open>internal/testbroker/broker.go\<close>). An adapter turns the client of a broker, a record of the calls
  it offers, into the record of operations \<open>BrokerOps\<close> that the services trade with. Orders and
  positions of a client are records of the fields the adapters read; the JSON of a
  client's order is a field of its own.
\<close>

section \<open>Zerodha\<close>

record kite_order =
  ko_OrderID :: string
  ko_Exchange :: string
  ko_TradingSymbol :: string
  ko_InstrumentToken :: int
  ko_TransactionType :: string
  ko_Product :: string
  ko_OrderType :: string
  ko_Status :: string
  ko_StatusMessage :: string
  ko_Quantity :: float64
  ko_FilledQuantity :: float64
  ko_Price :: float64
  ko_TriggerPrice :: float64
  ko_AveragePrice :: float64
  ko_OrderTimestamp :: gotime
  ko_Tag :: string
  ko_json :: json

record kite_position =
  kpo_Exchange :: string
  kpo_Tradingsymbol :: string
  kpo_Product :: string
  kpo_Quantity :: int
  kpo_AveragePrice :: float64
  kpo_LastPrice :: float64
  kpo_M2M :: float64
  kpo_PnL :: float64

text \<open>The order parameters of Zerodha, with the automatic market protection as a flag.\<close>

record kite_params = OrderParams +
  kp_AutoProtection :: bool

record 's kite_API =
  ka_PlaceOrder :: "string \<Rightarrow> kite_params \<Rightarrow> 's \<Rightarrow> OrderResponse result \<times> 's"
  ka_GetOrders :: "'s \<Rightarrow> kite_order list result \<times> 's"
  ka_GetOrderHistory :: "string \<Rightarrow> 's \<Rightarrow> kite_order list result \<times> 's"
  ka_GetPositions :: "'s \<Rightarrow> kite_position list result \<times> 's"
  ka_CancelOrder :: "string \<Rightarrow> string \<Rightarrow> 's \<Rightarrow> OrderResponse result \<times> 's"

text \<open>The conversion of a \<open>float64\<close> to an \<open>int\<close> drops the fraction.\<close>

definition float_int :: "float64 \<Rightarrow> int" where
  "float_int x = (if x < 0 then - \<lfloor>- x\<rfloor> else \<lfloor>x\<rfloor>)"

definition kite_toBrokerOrder :: "kite_order \<Rightarrow> Order" where
  "kite_toBrokerOrder k = \<lparr> bo_OrderID = ko_OrderID k, bo_Exchange = ko_Exchange k, bo_Tradingsymbol = ko_TradingSymbol k,
     bo_TransactionType = ko_TransactionType k, bo_Product = ko_Product k, bo_OrderType = ko_OrderType k, bo_Status = ko_Status k,
     bo_StatusMessage = ko_StatusMessage k, bo_Quantity = float_int (ko_Quantity k), bo_FilledQuantity = float_int (ko_FilledQuantity k),
     bo_Price = ko_Price k, bo_TriggerPrice = ko_TriggerPrice k, bo_AveragePrice = ko_AveragePrice k,
     bo_OrderTimestamp = ko_OrderTimestamp k, bo_Tag = ko_Tag k, bo_RawPayload = RawJson (ko_json k) \<rparr>"

definition posMtm :: "float64 \<Rightarrow> float64 \<Rightarrow> float64" where
  "posMtm pnl m2m = (if pnl = 0 \<and> m2m \<noteq> 0 then m2m else pnl)"

definition kite_toPosition :: "kite_position \<Rightarrow> Position" where
  "kite_toPosition p = \<lparr> ps_Exchange = kpo_Exchange p, ps_Tradingsymbol = kpo_Tradingsymbol p, ps_Product = kpo_Product p,
     ps_Quantity = kpo_Quantity p, ps_AveragePrice = kpo_AveragePrice p, ps_LastPrice = kpo_LastPrice p,
     ps_M2M = posMtm (kpo_PnL p) (kpo_M2M p), ps_PnL = kpo_PnL p \<rparr>"

text \<open>A call of the client whose error is wrapped and whose result is converted.\<close>

definition adapt :: "(go_error \<Rightarrow> go_error) \<Rightarrow> ('a \<Rightarrow> 'b) \<Rightarrow> 'a result \<times> 's \<Rightarrow> 'b result \<times> 's" where
  "adapt wrap conv r = map_prod (map_sum wrap conv) id r"

definition regular_if_empty :: "string \<Rightarrow> string" where
  "regular_if_empty variety = (if variety = [] then ''regular'' else variety)"

definition kite_PlaceOrder :: "bool \<Rightarrow> 's kite_API \<Rightarrow> string \<Rightarrow> OrderParams \<Rightarrow> 's \<Rightarrow> OrderResponse result \<times> 's" where
  "kite_PlaceOrder proxied api variety p s =
     (if \<not> proxied then (Inl (errorf ''kite place order'' ErrUnproxiedNotAllowed), s)
      else adapt (errorf ''kite place order'') id (ka_PlaceOrder api (regular_if_empty variety)
        (OrderParams.extend p \<lparr> kp_AutoProtection = (op_OrderType p = ''MARKET'' \<or> op_OrderType p = ''SL-M'') \<rparr>) s))"

definition kite_GetOrders :: "'s kite_API \<Rightarrow> 's \<Rightarrow> Order list result \<times> 's" where
  "kite_GetOrders api s = adapt (errorf ''kite get orders'') (map kite_toBrokerOrder) (ka_GetOrders api s)"

definition kite_GetOrderHistory :: "'s kite_API \<Rightarrow> string \<Rightarrow> 's \<Rightarrow> Order list result \<times> 's" where
  "kite_GetOrderHistory api i s = adapt (errorf ''kite get order history'') (map kite_toBrokerOrder) (ka_GetOrderHistory api i s)"

definition kite_GetPositions :: "'s kite_API \<Rightarrow> 's \<Rightarrow> Position list result \<times> 's" where
  "kite_GetPositions api s = adapt (errorf ''kite get positions'') (map kite_toPosition) (ka_GetPositions api s)"

definition kite_GetOpenOrders :: "'s kite_API \<Rightarrow> 's \<Rightarrow> Order list result \<times> 's" where
  "kite_GetOpenOrders api s = adapt (errorf ''kite get orders'')
     (\<lambda>os. map kite_toBrokerOrder (filter (\<lambda>k. ko_Status k = ''OPEN'' \<or> ko_Status k = ''TRIGGER PENDING'') os)) (ka_GetOrders api s)"

definition kite_CancelOrder :: "bool \<Rightarrow> 's kite_API \<Rightarrow> string \<Rightarrow> string \<Rightarrow> 's \<Rightarrow> OrderResponse result \<times> 's" where
  "kite_CancelOrder proxied api variety i s =
     (if \<not> proxied then (Inl (errorf ''kite cancel order'' ErrUnproxiedNotAllowed), s)
      else adapt (errorf ''kite cancel order'') id (ka_CancelOrder api (regular_if_empty variety) i s))"

definition kite_broker :: "bool \<Rightarrow> 's kite_API \<Rightarrow> 's BrokerOps" where
  "kite_broker proxied api = \<lparr> bk_PlaceOrder = kite_PlaceOrder proxied api, bk_GetPositions = kite_GetPositions api,
     bk_GetOpenOrders = kite_GetOpenOrders api, bk_GetOrders = kite_GetOrders api, bk_GetOrderHistory = kite_GetOrderHistory api,
     bk_CancelOrder = kite_CancelOrder proxied api \<rparr>"

section \<open>Dhan\<close>

record dhan_order =
  do_OrderID :: string
  do_CorrelationID :: string
  do_OrderStatus :: string
  do_TransactionType :: string
  do_ExchangeSegment :: string
  do_ProductType :: string
  do_OrderType :: string
  do_TradingSymbol :: string
  do_Quantity :: int
  do_FilledQty :: int
  do_Price :: decimal
  do_TriggerPrice :: decimal
  do_AverageTradedPrice :: decimal
  do_CreateTime :: string
  do_OmsErrorDescription :: string
  do_json :: json

record dhan_position =
  dpo_ExchangeSegment :: string
  dpo_TradingSymbol :: string
  dpo_ProductType :: string
  dpo_NetQty :: int
  dpo_BuyAvg :: decimal
  dpo_RealizedProfit :: decimal
  dpo_UnrealizedProfit :: decimal

record dhan_request =
  dr_TransactionType :: string
  dr_ExchangeSegment :: string
  dr_ProductType :: string
  dr_OrderType :: string
  dr_Validity :: string
  dr_TradingSymbol :: string
  dr_SecurityID :: string
  dr_Quantity :: int
  dr_Price :: decimal
  dr_TriggerPrice :: decimal
  dr_CorrelationID :: string

record 's dhan_API =
  dh_PlaceOrder :: "dhan_request \<Rightarrow> 's \<Rightarrow> OrderResponse result \<times> 's"
  dh_GetPositions :: "'s \<Rightarrow> dhan_position list result \<times> 's"
  dh_GetOrders :: "'s \<Rightarrow> dhan_order list result \<times> 's"
  dh_GetOrderByID :: "string \<Rightarrow> 's \<Rightarrow> dhan_order option result \<times> 's"
  dh_CancelOrder :: "string \<Rightarrow> 's \<Rightarrow> OrderResponse result \<times> 's"

type_synonym 's security_lookup = "string \<Rightarrow> string \<Rightarrow> 's \<Rightarrow> (string \<times> string \<times> int) result \<times> 's"

definition translateError :: "go_error \<Rightarrow> go_error" where
  "translateError err =
     (let msg = ToLower (err_Error err); as = (\<lambda>sentinel. Wrapf [] sentinel ('': '' @ err_Error err))
      in if Contains msg ''401'' \<or> Contains msg ''unauthorized'' \<or> Contains msg ''token expired'' \<or> Contains msg ''invalid token'' then as ErrAuthExpired
         else if Contains msg ''404'' \<or> Contains msg ''not found'' then as ErrNotFound
         else if Contains msg ''unreachable'' \<or> Contains msg ''connection refused'' \<or> Contains msg ''timeout'' then as ErrBrokerUnreachable
         else err)"

definition mapProduct :: "string \<Rightarrow> string" where
  "mapProduct product =
     (let p = ToUpper (TrimSpace product)
      in if p = ''CNC'' then ''CNC''
         else if p = ''MIS'' \<or> p = ''INTRADAY'' then ''INTRADAY''
         else if p = ''NRML'' \<or> p = ''MARGIN'' then ''MARGIN''
         else if p = ''MTF'' then ''MTF'' else if p = ''CO'' then ''CO'' else if p = ''BO'' then ''BO''
         else ''INTRADAY'')"

definition mapOrderType :: "string \<Rightarrow> string" where
  "mapOrderType orderType =
     (let t = ToUpper (TrimSpace orderType)
      in if t = ''MARKET'' then ''MARKET''
         else if t = ''LIMIT'' then ''LIMIT''
         else if t = ''SL'' \<or> t = ''STOP_LOSS'' then ''STOP_LOSS''
         else if t = ''SL-M'' \<or> t = ''SLM'' \<or> t = ''STOP_LOSS_MARKET'' then ''STOP_LOSS_MARKET''
         else ''MARKET'')"

definition dhan_exchange :: "string \<Rightarrow> string" where
  "dhan_exchange segment =
     (let ex = (if HasPrefix segment ''BSE'' then ''BSE'' else if HasPrefix segment ''MCX'' then ''MCX'' else ''NSE'')
      in if Contains segment ''FNO'' \<and> ex = ''NSE'' then ''NFO'' else ex)"

definition dhan_request_of :: "string \<Rightarrow> string \<Rightarrow> OrderParams \<Rightarrow> dhan_request" where
  "dhan_request_of exSegment secID p = \<lparr> dr_TransactionType = ToUpper (TrimSpace (op_TransactionType p)), dr_ExchangeSegment = exSegment,
     dr_ProductType = mapProduct (op_Product p), dr_OrderType = mapOrderType (op_OrderType p), dr_Validity = ''DAY'',
     dr_TradingSymbol = op_Tradingsymbol p, dr_SecurityID = secID, dr_Quantity = wrap32 (op_Quantity p),
     dr_Price = (if op_Price p > 0 then op_Price p else 0), dr_TriggerPrice = (if op_TriggerPrice p > 0 then op_TriggerPrice p else 0),
     dr_CorrelationID = op_Tag p \<rparr>"

definition dhan_PlaceOrder ::
  "bool \<Rightarrow> 's dhan_API \<Rightarrow> 's security_lookup option \<Rightarrow> string \<Rightarrow> OrderParams \<Rightarrow> 's \<Rightarrow> OrderResponse result \<times> 's" where
  "dhan_PlaceOrder proxied api resolver variety p s =
     (if \<not> proxied then (Inl (errorf ''dhan place order'' ErrUnproxiedNotAllowed), s)
      else (case resolver of
         None \<Rightarrow> (Inl (Wrapf ''dhan place order: '' ErrNotFound '': instrument resolver not configured''), s)
       | Some lookup \<Rightarrow> (case lookup (op_Exchange p) (op_Tradingsymbol p) s of
             (Inl e, s1) \<Rightarrow> (Inl (errorf ''dhan place order'' e), s1)
           | (Inr (exSegment, secID, lot), s1) \<Rightarrow>
               adapt (\<lambda>e. errorf ''dhan place order'' (translateError e)) id (dh_PlaceOrder api (dhan_request_of exSegment secID p) s1))))"

definition dhan_toBrokerOrder :: "time_parser \<Rightarrow> dhan_order \<Rightarrow> Order" where
  "dhan_toBrokerOrder parse d =
     (let status = ToUpper (TrimSpace (do_OrderStatus d))
      in \<lparr> bo_OrderID = do_OrderID d, bo_Exchange = dhan_exchange (do_ExchangeSegment d), bo_Tradingsymbol = do_TradingSymbol d,
           bo_TransactionType = do_TransactionType d, bo_Product = do_ProductType d, bo_OrderType = do_OrderType d,
           bo_Status = (if status = ''TRADED'' then ''COMPLETE'' else if status = ''PENDING'' \<or> status = ''TRANSIT'' then ''OPEN'' else status),
           bo_StatusMessage = do_OmsErrorDescription d, bo_Quantity = do_Quantity d, bo_FilledQuantity = do_FilledQty d,
           bo_Price = do_Price d, bo_TriggerPrice = do_TriggerPrice d, bo_AveragePrice = do_AverageTradedPrice d,
           bo_OrderTimestamp = ParseIST parse (do_CreateTime d), bo_Tag = do_CorrelationID d, bo_RawPayload = RawJson (do_json d) \<rparr>)"

definition dhan_error :: "string \<Rightarrow> go_error \<Rightarrow> go_error" where
  "dhan_error ctx e = errorf ctx (translateError e)"

definition dhan_GetOrders :: "time_parser \<Rightarrow> 's dhan_API \<Rightarrow> 's \<Rightarrow> Order list result \<times> 's" where
  "dhan_GetOrders parse api s = adapt (dhan_error ''dhan get orders'') (map (dhan_toBrokerOrder parse)) (dh_GetOrders api s)"

definition dhan_GetOpenOrders :: "time_parser \<Rightarrow> 's dhan_API \<Rightarrow> 's \<Rightarrow> Order list result \<times> 's" where
  "dhan_GetOpenOrders parse api s = adapt (dhan_error ''dhan get open orders'')
     (\<lambda>os. map (dhan_toBrokerOrder parse) (filter (\<lambda>d. ToUpper (TrimSpace (do_OrderStatus d)) \<in> {''PENDING'', ''TRANSIT'', ''OPEN''}) os))
     (dh_GetOrders api s)"

definition dhan_GetOrderHistory :: "time_parser \<Rightarrow> 's dhan_API \<Rightarrow> string \<Rightarrow> 's \<Rightarrow> Order list result \<times> 's" where
  "dhan_GetOrderHistory parse api i s = adapt (dhan_error ''dhan get order history'')
     (\<lambda>r. case r of None \<Rightarrow> [] | Some d \<Rightarrow> [dhan_toBrokerOrder parse d]) (dh_GetOrderByID api i s)"

definition dhan_toPosition :: "dhan_position \<Rightarrow> Position" where
  "dhan_toPosition p = \<lparr> ps_Exchange = dhan_exchange (dpo_ExchangeSegment p), ps_Tradingsymbol = dpo_TradingSymbol p, ps_Product = dpo_ProductType p,
     ps_Quantity = dpo_NetQty p, ps_AveragePrice = dpo_BuyAvg p, ps_LastPrice = 0, ps_M2M = dpo_UnrealizedProfit p,
     ps_PnL = dpo_RealizedProfit p + dpo_UnrealizedProfit p \<rparr>"

definition dhan_GetPositions :: "'s dhan_API \<Rightarrow> 's \<Rightarrow> Position list result \<times> 's" where
  "dhan_GetPositions api s = adapt (dhan_error ''dhan get positions'') (map dhan_toPosition) (dh_GetPositions api s)"

definition dhan_CancelOrder :: "bool \<Rightarrow> 's dhan_API \<Rightarrow> string \<Rightarrow> string \<Rightarrow> 's \<Rightarrow> OrderResponse result \<times> 's" where
  "dhan_CancelOrder proxied api variety i s =
     (if \<not> proxied then (Inl (errorf ''dhan cancel order'' ErrUnproxiedNotAllowed), s)
      else adapt (dhan_error ''dhan cancel order'') id (dh_CancelOrder api i s))"

definition dhan_broker :: "bool \<Rightarrow> 's dhan_API \<Rightarrow> 's security_lookup option \<Rightarrow> time_parser \<Rightarrow> 's BrokerOps" where
  "dhan_broker proxied api resolver parse = \<lparr> bk_PlaceOrder = dhan_PlaceOrder proxied api resolver, bk_GetPositions = dhan_GetPositions api,
     bk_GetOpenOrders = dhan_GetOpenOrders parse api, bk_GetOrders = dhan_GetOrders parse api,
     bk_GetOrderHistory = dhan_GetOrderHistory parse api, bk_CancelOrder = dhan_CancelOrder proxied api \<rparr>"

section \<open>Test broker\<close>

record test_order =
  tbo_OrderID :: string
  tbo_Exchange :: string
  tbo_Tradingsymbol :: string
  tbo_TransactionType :: string
  tbo_Product :: string
  tbo_OrderType :: string
  tbo_Status :: string
  tbo_StatusMessage :: string
  tbo_Quantity :: int
  tbo_FilledQuantity :: int
  tbo_Price :: float64
  tbo_TriggerPrice :: float64
  tbo_AveragePrice :: float64
  tbo_OrderTimestamp :: string
  tbo_Tag :: string
  tbo_json :: json

record 's test_API =
  ta_PlaceOrder :: "string \<Rightarrow> OrderParams \<Rightarrow> 's \<Rightarrow> OrderResponse result \<times> 's"
  ta_GetOrders :: "'s \<Rightarrow> test_order list result \<times> 's"
  ta_GetPositions :: "'s \<Rightarrow> kite_position list result \<times> 's"
  ta_CancelOrder :: "string \<Rightarrow> string \<Rightarrow> 's \<Rightarrow> OrderResponse result \<times> 's"

text \<open>The order time, read with \<open>time.Parse\<close> (\<open>parse\<close>) in one of two layouts.\<close>

definition toTestBrokerOrder :: "time_parser \<Rightarrow> test_order \<Rightarrow> Order" where
  "toTestBrokerOrder parse t = \<lparr> bo_OrderID = tbo_OrderID t, bo_Exchange = tbo_Exchange t, bo_Tradingsymbol = tbo_Tradingsymbol t,
     bo_TransactionType = tbo_TransactionType t, bo_Product = tbo_Product t, bo_OrderType = tbo_OrderType t, bo_Status = tbo_Status t,
     bo_StatusMessage = tbo_StatusMessage t, bo_Quantity = tbo_Quantity t, bo_FilledQuantity = tbo_FilledQuantity t,
     bo_Price = tbo_Price t, bo_TriggerPrice = tbo_TriggerPrice t, bo_AveragePrice = tbo_AveragePrice t,
     bo_OrderTimestamp = (if tbo_OrderTimestamp t = [] then 0
       else (case first_Some (\<lambda>layout. parse layout (tbo_OrderTimestamp t)) [''2006-01-02 15:04:05'', ''2006-01-02T15:04:05Z07:00''] of
          Some x \<Rightarrow> x | None \<Rightarrow> 0)),
     bo_Tag = tbo_Tag t, bo_RawPayload = RawJson (tbo_json t) \<rparr>"

definition test_broker :: "bool \<Rightarrow> 's test_API \<Rightarrow> time_parser \<Rightarrow> 's BrokerOps" where
  "test_broker proxied api parse = \<lparr>
     bk_PlaceOrder = (\<lambda>variety p s. if \<not> proxied then (Inl (errorf ''testbroker place order'' ErrUnproxiedNotAllowed), s)
       else adapt (errorf ''testbroker place order'') id (ta_PlaceOrder api variety p s)),
     bk_GetPositions = (\<lambda>s. adapt (errorf ''testbroker get positions'') (map kite_toPosition) (ta_GetPositions api s)),
     bk_GetOpenOrders = (\<lambda>s. adapt (errorf ''testbroker get orders'')
       (\<lambda>os. map (toTestBrokerOrder parse) (filter (\<lambda>t. tbo_Status t = ''OPEN'') os)) (ta_GetOrders api s)),
     bk_GetOrders = (\<lambda>s. adapt (errorf ''testbroker get orders'') (map (toTestBrokerOrder parse)) (ta_GetOrders api s)),
     bk_GetOrderHistory = (\<lambda>i s. adapt (errorf ''testbroker get order history'')
       (\<lambda>os. map (toTestBrokerOrder parse) (filter (\<lambda>t. tbo_OrderID t = i) os)) (ta_GetOrders api s)),
     bk_CancelOrder = (\<lambda>variety i s. if \<not> proxied then (Inl (errorf ''testbroker cancel order'' ErrUnproxiedNotAllowed), s)
       else adapt (errorf ''testbroker cancel order'') id (ta_CancelOrder api (regular_if_empty variety) i s)) \<rparr>"

section \<open>A handle without a proxy\<close>

text \<open>
  A handle that refuses every order and every cancellation without a call of the broker. A
  square-off through it reports no cancelled order and no closed position, and its orders are
  none.
\<close>

locale refusing_handle =
  fixes b :: "'s BrokerOps"
  assumes place_refused: "\<exists>e. bk_PlaceOrder b variety p s = (Inl e, s) \<and> errors_Is e ErrUnproxiedNotAllowed"
    and cancel_refused: "\<exists>e. bk_CancelOrder b variety i s = (Inl e, s) \<and> errors_Is e ErrUnproxiedNotAllowed"
begin

lemma cancels_nothing: "cancel_open b symbols os n s = (n, s)"
proof (induction os)
  case (Cons o1 os)
  obtain e where "bk_CancelOrder b ''regular'' (bo_OrderID o1) s = (Inl e, s)" using cancel_refused by blast
  then show ?case using Cons by simp
qed simp

lemma closes_nothing:
  "sr_Orders (fst (close_position S a role b p res s)) = sr_Orders res"
  "sr_PositionsSquaredOff (fst (close_position S a role b p res s)) = sr_PositionsSquaredOff res"
  "sr_CancelledOrders (fst (close_position S a role b p res s)) = sr_CancelledOrders res"
proof -
  have "\<exists>e. bk_PlaceOrder b ''regular'' q t = (Inl e, t)" for q t using place_refused by blast
  then obtain err where refused: "bk_PlaceOrder b ''regular'' q t = (Inl (err q t), t)" for q t by metis
  show "sr_Orders (fst (close_position S a role b p res s)) = sr_Orders res"
    "sr_PositionsSquaredOff (fst (close_position S a role b p res s)) = sr_PositionsSquaredOff res"
    "sr_CancelledOrders (fst (close_position S a role b p res s)) = sr_CancelledOrders res"
    by (simp_all add: close_position_def refused Let_def split: prod.split sum.split)
qed

lemma closes_none:
  "close_positions S a role symbols b ps res s = (res', s') \<Longrightarrow>
     sr_Orders res' = sr_Orders res \<and> sr_PositionsSquaredOff res' = sr_PositionsSquaredOff res \<and> sr_CancelledOrders res' = sr_CancelledOrders res"
proof (induction ps arbitrary: res s)
  case (Cons p ps)
  obtain r1 s1 where one: "close_position S a role b p res s = (r1, s1)" by fastforce
  show ?case
    using Cons.IH Cons.prems closes_nothing [of S a role p res s] one
    by (auto split: if_splits)
qed simp

end

text \<open>The same for a square-off whose session retry may resolve another handle, as long as that one refuses, too.\<close>

lemma square_off_inert:
  assumes "refusing_handle b" and "\<And>t b' t'. ts_ResolveBroker S a t = (Inr b', t') \<Longrightarrow> refusing_handle b'"
    and "square_off_with S a role symbols b s = (Inr res, s')"
  shows "sr_Orders res = [] \<and> sr_PositionsSquaredOff res = 0 \<and> sr_CancelledOrders res = 0"
proof -
  have h: "refusing_handle (fst (snd (positions_with_retry S a b t)))" for t
    using assms(1,2) by (auto simp: positions_with_retry_def split: prod.split sum.split option.split)
  have start: "(case bk_GetOpenOrders b s of (Inl err, s1) \<Rightarrow> (0, s1) | (Inr os, s1) \<Rightarrow> cancel_open b symbols os 0 s1) = (0, snd (bk_GetOpenOrders b s))"
    by (simp add: refusing_handle.cancels_nothing [OF assms(1)] split: prod.split sum.split)
  show ?thesis
    using assms(3) h [of "snd (bk_GetOpenOrders b s)"]
    by (auto simp: square_off_with_def start new_square_result_def Let_def split: prod.splits sum.splits if_splits
        dest!: refusing_handle.closes_none)
qed

lemma unproxied_refusing:
  "refusing_handle (kite_broker False kapi)"
  "refusing_handle (dhan_broker False dapi resolver parse)"
  "refusing_handle (test_broker False tapi parse)"
  by (unfold_locales; simp add: kite_broker_def kite_PlaceOrder_def kite_CancelOrder_def dhan_broker_def dhan_PlaceOrder_def
      dhan_CancelOrder_def test_broker_def)+

interpretation kite_direct: refusing_handle "kite_broker False api" for api
  by (rule unproxied_refusing)

interpretation dhan_direct: refusing_handle "dhan_broker False api resolver parse" for api resolver parse
  by (rule unproxied_refusing)

interpretation test_direct: refusing_handle "test_broker False api parse" for api parse
  by (rule unproxied_refusing)

end
