(* ===== verification/Callbacks.thy ===== *)
theory Callbacks
  imports Adapters Idempotency Queues
begin

text \<open>
  How order events of the brokers enter the server: the postback webhooks of Zerodha
  (\<open>kite/callback\<close>) and Dhan (\<open>dhan/callback\<close>), the router in front of them (\<open>callback/router.go\<close>) and
  the order feeds of the masters (\<open>kite/callback/ticker.go\<close>, \<open>dhan/ws/ticker.go\<close>). They put fills and
  updates on the two queues that the consumers of theory \<open>Listener\<close> drain. A JSON decoder and the
  parser of times are arguments.
\<close>

section \<open>State and requests\<close>

record ingress =
  ig_db :: db
  ig_fills :: "MasterFill Queue"
  ig_updates :: "OrderUpdate Queue"

record callback_request =
  cq_query :: string
  cq_header :: string
  cq_path :: string
  cq_body :: string

type_synonym callback_handler = "callback_request \<Rightarrow> ingress \<Rightarrow> int \<times> ingress"

text \<open>A publication whose error is only logged.\<close>

definition publish_fill :: "MasterFill \<Rightarrow> ingress \<Rightarrow> ingress" where
  "publish_fill fill s = s\<lparr> ig_fills := snd (Publish fill (ig_fills s)) \<rparr>"

definition publish_update :: "OrderUpdate \<Rightarrow> ingress \<Rightarrow> ingress" where
  "publish_update upd s = s\<lparr> ig_updates := snd (Publish upd (ig_updates s)) \<rparr>"

text \<open>The lookup of both webhooks: by broker and user, then by user alone.\<close>

definition lookup_account :: "string \<Rightarrow> string \<Rightarrow> db \<Rightarrow> (uuid \<times> string \<times> string) result \<times> db" where
  "lookup_account broker userID d = (case AccountByBrokerAndUserID broker userID d of
      (Inl e, d1) \<Rightarrow> if errors_Is e ErrNotFound then AccountByBrokerUserID userID d1 else (Inl e, d1)
    | (Inr r, d1) \<Rightarrow> (Inr r, d1))"

section \<open>Zerodha\<close>

definition VerifyChecksum :: "string \<Rightarrow> string \<Rightarrow> string \<Rightarrow> string \<Rightarrow> bool" where
  "VerifyChecksum apiSecret orderID orderTimestamp checksum \<longleftrightarrow> hex_bytes (Sum256 (orderID @ orderTimestamp @ apiSecret)) = checksum"

definition kite_ToMasterFill :: "kite_order \<Rightarrow> uuid \<Rightarrow> MasterFill" where
  "kite_ToMasterFill k masterID =
     (let price = (if ko_OrderType k = ''LIMIT'' \<and> ko_Price k \<le> 0 \<and> ko_AveragePrice k > 0 then ko_AveragePrice k else ko_Price k)
      in \<lparr> mf_ID = 0, mf_MasterID = masterID, mf_BrokerOrderID = ko_OrderID k, mf_Exchange = ko_Exchange k,
           mf_Tradingsymbol = ko_TradingSymbol k, mf_InstrumentToken = ko_InstrumentToken k, mf_TransactionType = ko_TransactionType k,
           mf_Product = ko_Product k, mf_OrderType = ko_OrderType k, mf_FilledQuantity = float_int (ko_FilledQuantity k),
           mf_Price = price, mf_TriggerPrice = ko_TriggerPrice k, mf_AveragePrice = ko_AveragePrice k, mf_Status = ko_Status k,
           mf_OrderTimestamp = ko_OrderTimestamp k, mf_RawPayload = RawJson (ko_json k), mf_Tag = ko_Tag k, mf_ReceivedAt = 0,
           mf_DispatchState = [], mf_DispatchedAt = None \<rparr>)"

definition kite_ToOrderUpdate :: "kite_order \<Rightarrow> uuid \<Rightarrow> OrderUpdate" where
  "kite_ToOrderUpdate k followerID = \<lparr> ou_FollowerID = followerID, ou_BrokerOrderID = ko_OrderID k, ou_Tradingsymbol = ko_TradingSymbol k,
     ou_Exchange = ko_Exchange k, ou_Product = ko_Product k, ou_TransactionType = ko_TransactionType k, ou_OrderType = ko_OrderType k,
     ou_Quantity = float_int (ko_Quantity k), ou_Status = ko_Status k, ou_FilledQuantity = float_int (ko_FilledQuantity k),
     ou_AveragePrice = ko_AveragePrice k, ou_OrderTimestamp = ko_OrderTimestamp k, ou_Tag = ko_Tag k, ou_RawPayload = RawJson (ko_json k) \<rparr>"

record postbackPayload =
  pb_Order :: kite_order
  pb_UserID :: string
  pb_Checksum :: string

definition kite_ServeHTTP :: "(string \<Rightarrow> postbackPayload option) \<Rightarrow> callback_handler" where
  "kite_ServeHTTP decode req s = (case decode (cq_body req) of
      None \<Rightarrow> (400, s)
    | Some p \<Rightarrow> (case lookup_account ''kite'' (pb_UserID p) (ig_db s) of
        (Inl e, d) \<Rightarrow> (200, s\<lparr> ig_db := d \<rparr>)
      | (Inr (i, role, apiSecret), d) \<Rightarrow>
          let s1 = s\<lparr> ig_db := d \<rparr>; k = pb_Order p
          in if \<not> VerifyChecksum apiSecret (ko_OrderID k) (format_ist (ko_OrderTimestamp k)) (pb_Checksum p) then (200, s1)
             else if \<not> IsTerminal (ko_Status k) then (200, s1)
             else if role = ''master'' then (200, publish_fill (kite_ToMasterFill k i) s1)
             else if role = ''follower'' then (200, publish_update (kite_ToOrderUpdate k i) s1)
             else (200, s1)))"

text \<open>The order feed of a master; the hook runs when the connection comes back.\<close>

record 's MasterTicker =
  mt_masterID :: uuid
  mt_catchUp :: "('s \<Rightarrow> 's) option"
  mt_connectCount :: int

definition kite_handleOrderUpdate :: "uuid \<Rightarrow> kite_order \<Rightarrow> ingress \<Rightarrow> ingress" where
  "kite_handleOrderUpdate masterID k s = (if \<not> IsTerminal (ko_Status k) then s else publish_fill (kite_ToMasterFill k masterID) s)"

definition handleConnect :: "'s MasterTicker \<Rightarrow> 's \<Rightarrow> 's MasterTicker \<times> 's" where
  "handleConnect t s =
     (let count = mt_connectCount t + 1
      in (t\<lparr> mt_connectCount := count \<rparr>, case mt_catchUp t of Some hook \<Rightarrow> if count > 1 then hook s else s | None \<Rightarrow> s))"

section \<open>Dhan\<close>

text \<open>The fields that the webhook and the feed share, and the rest of the webhook's payload.\<close>

record dhan_event =
  de_OrderID :: string
  de_CorrelationID :: string
  de_OrderStatus :: string
  de_TransactionType :: string
  de_ExchangeSegment :: string
  de_ProductType :: string
  de_OrderType :: string
  de_TradingSymbol :: string
  de_SecurityID :: string
  de_Quantity :: int
  de_FilledQty :: int
  de_Price :: decimal
  de_TriggerPrice :: decimal
  de_AverageTradedPrice :: decimal
  de_CreateTime :: string

record dhanPostbackPayload = dhan_event +
  dp_DhanClientID :: string
  dp_DhanClientIDAlt :: string
  dp_UpdateTime :: string

definition dhan_payload_json :: "dhanPostbackPayload \<Rightarrow> json" where
  "dhan_payload_json p = JObj [(''dhanClientId'', JStr (dp_DhanClientID p)), (''dhan_client_id'', JStr (dp_DhanClientIDAlt p)),
     (''orderId'', JStr (de_OrderID p)), (''correlationId'', JStr (de_CorrelationID p)), (''orderStatus'', JStr (de_OrderStatus p)),
     (''transactionType'', JStr (de_TransactionType p)), (''exchangeSegment'', JStr (de_ExchangeSegment p)),
     (''productType'', JStr (de_ProductType p)), (''orderType'', JStr (de_OrderType p)), (''tradingSymbol'', JStr (de_TradingSymbol p)),
     (''securityId'', JStr (de_SecurityID p)), (''quantity'', JNum (of_int (de_Quantity p))), (''filledQty'', JNum (of_int (de_FilledQty p))),
     (''price'', JDecStr (de_Price p)), (''triggerPrice'', JDecStr (de_TriggerPrice p)),
     (''averageTradedPrice'', JDecStr (de_AverageTradedPrice p)), (''createTime'', JStr (de_CreateTime p)), (''updateTime'', JStr (dp_UpdateTime p))]"

definition MapTerminalStatus :: "string \<Rightarrow> string" where
  "MapTerminalStatus rawStatus =
     (let s = ToUpper (TrimSpace rawStatus)
      in if s = ''TRADED'' then TerminalComplete
         else if s = ''REJECTED'' then TerminalRejected
         else if s = ''CANCELLED'' \<or> s = ''CANCELED'' then TerminalCancelled
         else s)"

type_synonym symbol_resolver = "string \<Rightarrow> string \<Rightarrow> (string \<times> string) result"

definition dhan_symbol :: "symbol_resolver option \<Rightarrow> 'a dhan_event_scheme \<Rightarrow> string \<times> string" where
  "dhan_symbol R e =
     (let (ex, symb) = (case R of
            Some resolve \<Rightarrow> if de_ExchangeSegment e \<noteq> [] \<and> de_SecurityID e \<noteq> [] then
                (case resolve (de_ExchangeSegment e) (de_SecurityID e) of Inl _ \<Rightarrow> ([], []) | Inr r \<Rightarrow> r) else ([], [])
          | None \<Rightarrow> ([], []))
      in (if ex = [] then dhan_exchange (de_ExchangeSegment e) else ex, if symb = [] then de_TradingSymbol e else symb))"

text \<open>What the payload leaves open is read from the clock and the limit price.\<close>

record dhan_env =
  dn_parse :: time_parser
  dn_now :: gotime
  dn_resolver :: "symbol_resolver option"

definition dhan_time :: "dhan_env \<Rightarrow> 'a dhan_event_scheme \<Rightarrow> gotime" where
  "dhan_time E e = (let ts = ParseIST (dn_parse E) (de_CreateTime e) in if ts = 0 then dn_now E else ts)"

definition dhan_avg :: "'a dhan_event_scheme \<Rightarrow> decimal" where
  "dhan_avg e = (if de_AverageTradedPrice e = 0 \<and> de_Price e \<noteq> 0 then de_Price e else de_AverageTradedPrice e)"

definition dhan_fill :: "dhan_env \<Rightarrow> uuid \<Rightarrow> string \<Rightarrow> json \<Rightarrow> 'a dhan_event_scheme \<Rightarrow> MasterFill" where
  "dhan_fill E masterID status raw e = \<lparr> mf_ID = 0, mf_MasterID = masterID, mf_BrokerOrderID = de_OrderID e,
     mf_Exchange = fst (dhan_symbol (dn_resolver E) e), mf_Tradingsymbol = snd (dhan_symbol (dn_resolver E) e), mf_InstrumentToken = 0,
     mf_TransactionType = de_TransactionType e, mf_Product = de_ProductType e, mf_OrderType = de_OrderType e,
     mf_FilledQuantity = de_FilledQty e, mf_Price = de_Price e, mf_TriggerPrice = de_TriggerPrice e, mf_AveragePrice = dhan_avg e,
     mf_Status = status, mf_OrderTimestamp = dhan_time E e, mf_RawPayload = RawJson raw, mf_Tag = de_CorrelationID e, mf_ReceivedAt = 0,
     mf_DispatchState = [], mf_DispatchedAt = None \<rparr>"

definition dhan_update :: "dhan_env \<Rightarrow> uuid \<Rightarrow> string \<Rightarrow> json \<Rightarrow> 'a dhan_event_scheme \<Rightarrow> OrderUpdate" where
  "dhan_update E followerID status raw e = \<lparr> ou_FollowerID = followerID, ou_BrokerOrderID = de_OrderID e,
     ou_Tradingsymbol = snd (dhan_symbol (dn_resolver E) e), ou_Exchange = fst (dhan_symbol (dn_resolver E) e), ou_Product = de_ProductType e,
     ou_TransactionType = de_TransactionType e, ou_OrderType = de_OrderType e, ou_Quantity = de_Quantity e, ou_Status = status,
     ou_FilledQuantity = de_FilledQty e, ou_AveragePrice = dhan_avg e, ou_OrderTimestamp = dhan_time E e, ou_Tag = de_CorrelationID e,
     ou_RawPayload = RawJson raw \<rparr>"

definition dhan_ServeHTTP :: "dhan_env \<Rightarrow> (string \<Rightarrow> dhanPostbackPayload option) \<Rightarrow> callback_handler" where
  "dhan_ServeHTTP E decode req s = (case decode (cq_body req) of
      None \<Rightarrow> (400, s)
    | Some p \<Rightarrow>
        let clientID = (if TrimSpace (dp_DhanClientID p) = [] then TrimSpace (dp_DhanClientIDAlt p) else TrimSpace (dp_DhanClientID p))
        in (case lookup_account ''dhan'' clientID (ig_db s) of
              (Inl e, d) \<Rightarrow> (200, s\<lparr> ig_db := d \<rparr>)
            | (Inr (i, role, apiSecret), d) \<Rightarrow>
                let s1 = s\<lparr> ig_db := d \<rparr>; status = MapTerminalStatus (de_OrderStatus p); raw = dhan_payload_json p
                in if \<not> IsTerminal status then (200, s1)
                   else if role = ''master'' then (200, publish_fill (dhan_fill E i status raw p) s1)
                   else if role = ''follower'' then (200, publish_update (dhan_update E i status raw p) s1)
                   else (200, s1)))"

definition dhan_handleOrderUpdate :: "dhan_env \<Rightarrow> uuid \<Rightarrow> dhan_event \<Rightarrow> json \<Rightarrow> ingress \<Rightarrow> ingress" where
  "dhan_handleOrderUpdate E masterID e raw s =
     (let status = ToUpper (TrimSpace (de_OrderStatus e))
      in if status = ''TRADED'' then publish_fill (dhan_fill E masterID TerminalComplete raw e) s
         else if status = ''REJECTED'' then publish_fill (dhan_fill E masterID TerminalRejected raw e) s
         else if status = ''CANCELLED'' \<or> status = ''CANCELED'' then publish_fill (dhan_fill E masterID TerminalCancelled raw e) s
         else s)"

section \<open>The router\<close>

definition DefaultMaxBodyBytes :: int where
  "DefaultMaxBodyBytes = 1024 * 1024"

record AdaptiveRouter =
  rt_handlers :: "(string \<times> callback_handler) list"
  rt_default :: "callback_handler option"
  rt_MaxBodyBytes :: int

definition NewAdaptiveRouter :: AdaptiveRouter where
  "NewAdaptiveRouter = \<lparr> rt_handlers = [], rt_default = None, rt_MaxBodyBytes = DefaultMaxBodyBytes \<rparr>"

definition Router_Register :: "string \<Rightarrow> callback_handler \<Rightarrow> AdaptiveRouter \<Rightarrow> AdaptiveRouter" where
  "Router_Register broker h r = r\<lparr> rt_handlers := (ToLower (TrimSpace broker), h) # rt_handlers r \<rparr>"

definition SetDefault :: "callback_handler \<Rightarrow> AdaptiveRouter \<Rightarrow> AdaptiveRouter" where
  "SetDefault h r = r\<lparr> rt_default := Some h \<rparr>"

definition getHandler :: "AdaptiveRouter \<Rightarrow> string \<Rightarrow> callback_handler option" where
  "getHandler r broker =
     (let b = ToLower (TrimSpace broker); look = map_of (rt_handlers r)
      in (case look b of
            Some h \<Rightarrow> Some h
          | None \<Rightarrow> if b = ''zerodha'' then look ''kite'' else if b = ''kite'' then look ''zerodha''
                   else if b = ''kotak'' then look ''kotakneo'' else if b = ''kotakneo'' then look ''kotak'' else None))"

definition json_key :: "string \<Rightarrow> string" where
  "json_key k = CHR 0x22 # k @ [CHR 0x22]"

definition fingerprintPayload :: "string \<Rightarrow> string" where
  "fingerprintPayload body =
     (let has = (\<lambda>k. Contains body (json_key k))
      in if body = [] then []
         else if has ''groww_order_id'' then ''groww''
         else if has ''dhanClientId'' \<or> has ''dhan_client_id'' then ''dhan''
         else if has ''nOrdNo'' \<and> has ''trdSym'' then ''kotakneo''
         else if has ''AppOrderID'' \<and> has ''ExchangeInstrumentID'' then ''symphony''
         else if has ''uniqueorderid'' \<and> has ''filledshares'' then ''angelone''
         else if has ''checksum'' \<and> has ''user_id'' then ''kite''
         else [])"

text \<open>An explicitly named broker: its handler, or the request is acknowledged and dropped.\<close>

definition serve_named :: "AdaptiveRouter \<Rightarrow> string \<Rightarrow> callback_handler" where
  "serve_named r broker req s = (case getHandler r broker of Some h \<Rightarrow> h req s | None \<Rightarrow> (200, s))"

definition sub_path :: "string \<Rightarrow> string" where
  "sub_path path = (if HasPrefix path ''/broker-callback/'' then takeWhile (\<lambda>c. c \<noteq> CHR ''/'') (drop 17 path) else [])"

definition Router_ServeHTTP :: "AdaptiveRouter \<Rightarrow> callback_handler" where
  "Router_ServeHTTP r req s =
     (if cq_query req \<noteq> [] then serve_named r (cq_query req) req s
      else if cq_header req \<noteq> [] then serve_named r (cq_header req) req s
      else if sub_path (cq_path req) \<noteq> [] then serve_named r (sub_path (cq_path req)) req s
      else
        let maxBytes = (if rt_MaxBodyBytes r \<le> 0 then DefaultMaxBodyBytes else rt_MaxBodyBytes r);
            broker = fingerprintPayload (cq_body req);
            fallback = (case rt_default r of Some h \<Rightarrow> h req s | None \<Rightarrow> (200, s))
        in if int (length (cq_body req)) > maxBytes then (400, s)
           else if broker \<noteq> [] then (case getHandler r broker of Some h \<Rightarrow> h req s | None \<Rightarrow> fallback)
           else fallback)"

text \<open>The router as the server builds it.\<close>

definition postbackRouter ::
  "dhan_env \<Rightarrow> (string \<Rightarrow> postbackPayload option) \<Rightarrow> (string \<Rightarrow> dhanPostbackPayload option) \<Rightarrow> AdaptiveRouter" where
  "postbackRouter E dk dd =
     (let kitePostback = kite_ServeHTTP dk; dhanPostback = dhan_ServeHTTP E dd
      in SetDefault kitePostback (Router_Register ''dhan'' dhanPostback (Router_Register ''zerodha'' kitePostback
           (Router_Register ''kite'' kitePostback NewAdaptiveRouter))))"

end
