(* ===== verification/Callbacks_Thms.thy ===== *)
theory Callbacks_Thms
  imports Callbacks
begin

text \<open>
  What the webhooks let in: a Zerodha postback only with the checksum of the account it is for, a
  terminal one exactly once, and the same fill by every path of delivery; and that the
  Dhan webhook takes an unsigned event for any account.
\<close>

section \<open>Lookups\<close>

lemma by_user_found:
  "AccountByBrokerUserID u d = (Inr (i, role, sec), d') \<Longrightarrow>
     (\<exists>a \<in> set (accounts d). live a \<and> ar_broker_user_id a = u \<and> ar_id a = i \<and> ar_role a = role \<and> ar_api_secret a = sec)"
  by (fastforce simp: AccountByBrokerUserID_def db_call_def split: list.splits option.splits dest: find_Some_mem)

lemma by_broker_found:
  "AccountByBrokerAndUserID b u d = (Inr (i, role, sec), d') \<Longrightarrow>
     (\<exists>a \<in> set (accounts d). live a \<and> ar_broker_user_id a = u \<and> ar_id a = i \<and> ar_role a = role \<and> ar_api_secret a = sec)"
  by (fastforce simp: AccountByBrokerAndUserID_def db_call_def split: list.splits option.splits dest: find_Some_mem)

lemma by_broker_accounts: "accounts (snd (AccountByBrokerAndUserID b u d)) = accounts d"
  by (simp add: AccountByBrokerAndUserID_def db_call_def split: list.splits option.splits)

lemma lookup_found:
  assumes "lookup_account b u d = (Inr (i, role, sec), d')"
  shows "\<exists>a \<in> set (accounts d). live a \<and> ar_broker_user_id a = u \<and> ar_id a = i \<and> ar_role a = role \<and> ar_api_secret a = sec"
proof (cases "AccountByBrokerAndUserID b u d")
  case (Pair r d1)
  show ?thesis
  proof (cases r)
    case (Inl e)
    then have "AccountByBrokerUserID u d1 = (Inr (i, role, sec), d')" and "accounts d1 = accounts d"
      using assms Pair by_broker_accounts [of b u d] by (auto simp: lookup_account_def split: if_splits)
    then show ?thesis using by_user_found by metis
  next
    case (Inr x)
    then have "AccountByBrokerAndUserID b u d = (Inr (i, role, sec), d1)"
      using assms Pair by (auto simp: lookup_account_def)
    then show ?thesis by (rule by_broker_found)
  qed
qed

section \<open>Publication\<close>

lemma Publish_cases:
  "snd (Publish x q) = q \<or> ch_buf (q_ch (snd (Publish x q))) = ch_buf (q_ch q) @ [x]"
  by (simp add: Publish_def chan_send_def)

lemma Publish_room:
  "Queue_Len q < Queue_Cap q \<Longrightarrow> snd (Publish x q) = q\<lparr> q_ch := (q_ch q)\<lparr> ch_buf := ch_buf (q_ch q) @ [x] \<rparr> \<rparr>"
  by (simp add: Publish_def chan_send_def Queue_Len_def Queue_Cap_def)

text \<open>
  C26 A Zerodha postback that puts anything on a queue carries the checksum made with the secret of
  a live account with that user name, has a terminal status, and what it adds is one event, for that
  account and from that payload: a fill when the account is a master, an update when it is a
  follower.
\<close>

theorem postback_authenticated:
  assumes "kite_ServeHTTP decode req s = (w, s')" and "ig_fills s' \<noteq> ig_fills s \<or> ig_updates s' \<noteq> ig_updates s"
  shows "\<exists>p a. decode (cq_body req) = Some p \<and> a \<in> set (accounts (ig_db s)) \<and> live a \<and> ar_broker_user_id a = pb_UserID p
    \<and> pb_Checksum p = hex_bytes (Sum256 (ko_OrderID (pb_Order p) @ format_ist (ko_OrderTimestamp (pb_Order p)) @ ar_api_secret a))
    \<and> IsTerminal (ko_Status (pb_Order p))
    \<and> (ar_role a = ''master'' \<and> ig_updates s' = ig_updates s
         \<and> ch_buf (q_ch (ig_fills s')) = ch_buf (q_ch (ig_fills s)) @ [kite_ToMasterFill (pb_Order p) (ar_id a)]
       \<or> ar_role a = ''follower'' \<and> ig_fills s' = ig_fills s
         \<and> ch_buf (q_ch (ig_updates s')) = ch_buf (q_ch (ig_updates s)) @ [kite_ToOrderUpdate (pb_Order p) (ar_id a)])"
proof -
  obtain p where p: "decode (cq_body req) = Some p" using assms by (cases "decode (cq_body req)") (auto simp: kite_ServeHTTP_def)
  obtain r d where look: "lookup_account ''kite'' (pb_UserID p) (ig_db s) = (r, d)" by fastforce
  obtain i role sec where r: "r = Inr (i, role, sec)"
    using assms p look by (cases r) (auto simp: kite_ServeHTTP_def)
  obtain a where a: "a \<in> set (accounts (ig_db s))" "live a" "ar_broker_user_id a = pb_UserID p" "ar_id a = i" "ar_role a = role" "ar_api_secret a = sec"
    using lookup_found look r by blast
  have "VerifyChecksum sec (ko_OrderID (pb_Order p)) (format_ist (ko_OrderTimestamp (pb_Order p))) (pb_Checksum p) \<and> IsTerminal (ko_Status (pb_Order p))
    \<and> (role = ''master'' \<and> s' = publish_fill (kite_ToMasterFill (pb_Order p) i) (s\<lparr> ig_db := d \<rparr>)
      \<or> role = ''follower'' \<and> s' = publish_update (kite_ToOrderUpdate (pb_Order p) i) (s\<lparr> ig_db := d \<rparr>))"
    using assms p look r by (auto simp: kite_ServeHTTP_def Let_def split: if_splits)
  then have sum: "pb_Checksum p = hex_bytes (Sum256 (ko_OrderID (pb_Order p) @ format_ist (ko_OrderTimestamp (pb_Order p)) @ ar_api_secret a))"
      "IsTerminal (ko_Status (pb_Order p))"
    and out: "ar_role a = ''master'' \<and> s' = publish_fill (kite_ToMasterFill (pb_Order p) (ar_id a)) (s\<lparr> ig_db := d \<rparr>)
      \<or> ar_role a = ''follower'' \<and> s' = publish_update (kite_ToOrderUpdate (pb_Order p) (ar_id a)) (s\<lparr> ig_db := d \<rparr>)"
    using a(4-6) by (auto simp: VerifyChecksum_def)
  show ?thesis
    using p a(1-3) sum out assms(2) Publish_cases [of "kite_ToMasterFill (pb_Order p) (ar_id a)" "ig_fills s"]
      Publish_cases [of "kite_ToOrderUpdate (pb_Order p) (ar_id a)" "ig_updates s"]
    by (intro exI [of _ p] exI [of _ a]) (auto simp: publish_fill_def publish_update_def)
qed

section \<open>Routing\<close>

lemma router_handlers:
  "getHandler (postbackRouter E dk dd) ''dhan'' = Some (dhan_ServeHTTP E dd)"
  "getHandler (postbackRouter E dk dd) ''kite'' = Some (kite_ServeHTTP dk)"
  "rt_default (postbackRouter E dk dd) = Some (kite_ServeHTTP dk)"
  "rt_MaxBodyBytes (postbackRouter E dk dd) = 1024 * 1024"
proof -
  have names: "ToLower (TrimSpace ''dhan'') = ''dhan''" "ToLower (TrimSpace ''kite'') = ''kite''" "ToLower (TrimSpace ''zerodha'') = ''zerodha''"
    by code_simp+
  show "getHandler (postbackRouter E dk dd) ''dhan'' = Some (dhan_ServeHTTP E dd)"
    "getHandler (postbackRouter E dk dd) ''kite'' = Some (kite_ServeHTTP dk)"
    "rt_default (postbackRouter E dk dd) = Some (kite_ServeHTTP dk)"
    "rt_MaxBodyBytes (postbackRouter E dk dd) = 1024 * 1024"
    by (simp_all add: postbackRouter_def getHandler_def Router_Register_def SetDefault_def NewAdaptiveRouter_def DefaultMaxBodyBytes_def names Let_def)
qed

lemma no_other_handler:
  "b \<in> {''groww'', ''kotakneo'', ''symphony'', ''angelone''} \<Longrightarrow> getHandler (postbackRouter E dk dd) b = None"
proof -
  have names: "ToLower (TrimSpace ''dhan'') = ''dhan''" "ToLower (TrimSpace ''kite'') = ''kite''" "ToLower (TrimSpace ''zerodha'') = ''zerodha''"
    "ToLower (TrimSpace ''groww'') = ''groww''" "ToLower (TrimSpace ''kotakneo'') = ''kotakneo''" "ToLower (TrimSpace ''symphony'') = ''symphony''"
    "ToLower (TrimSpace ''angelone'') = ''angelone''"
    by code_simp+
  show "b \<in> {''groww'', ''kotakneo'', ''symphony'', ''angelone''} \<Longrightarrow> getHandler (postbackRouter E dk dd) b = None"
    by (auto simp: postbackRouter_def getHandler_def Router_Register_def SetDefault_def NewAdaptiveRouter_def names Let_def)
qed

lemma unnamed_goes_to_kite:
  assumes "cq_query req = []" and "cq_header req = []" and "sub_path (cq_path req) = []" and "length (cq_body req) \<le> 1048576"
    and "\<not> Contains (cq_body req) (json_key ''dhanClientId'')" and "\<not> Contains (cq_body req) (json_key ''dhan_client_id'')"
  shows "Router_ServeHTTP (postbackRouter E dk dd) req s = kite_ServeHTTP dk req s"
proof -
  have "fingerprintPayload (cq_body req) \<in> {[], ''kite'', ''groww'', ''kotakneo'', ''symphony'', ''angelone''}"
    using assms(5,6) by (simp add: fingerprintPayload_def Let_def)
  then have "(case getHandler (postbackRouter E dk dd) (fingerprintPayload (cq_body req)) of Some h \<Rightarrow> h req s | None \<Rightarrow> kite_ServeHTTP dk req s)
      = kite_ServeHTTP dk req s \<or> fingerprintPayload (cq_body req) = []"
    using no_other_handler router_handlers(2) by auto
  then show ?thesis using assms(1-4) by (auto simp: Router_ServeHTTP_def router_handlers Let_def)
qed

text \<open>
  A signed postback of a finished order of a master is delivered: sent to the webhook without a
  broker name and without the marks of a Dhan payload, with the checksum of the account it is
  looked up for, it is acknowledged and its fill is put at the end of the queue, as long as the
  queue has room.
\<close>

theorem postback_delivered:
  assumes "cq_query req = []" and "cq_header req = []" and "sub_path (cq_path req) = []" and "length (cq_body req) \<le> 1048576"
    and "\<not> Contains (cq_body req) (json_key ''dhanClientId'')" and "\<not> Contains (cq_body req) (json_key ''dhan_client_id'')"
    and "dk (cq_body req) = Some p" and "lookup_account ''kite'' (pb_UserID p) (ig_db s) = (Inr (i, ''master'', secret), d)"
    and "pb_Checksum p = hex_bytes (Sum256 (ko_OrderID (pb_Order p) @ format_ist (ko_OrderTimestamp (pb_Order p)) @ secret))"
    and "IsTerminal (ko_Status (pb_Order p))" and "Queue_Len (ig_fills s) < Queue_Cap (ig_fills s)"
  shows "\<exists>s'. Router_ServeHTTP (postbackRouter E dk dd) req s = (200, s')
    \<and> ch_buf (q_ch (ig_fills s')) = ch_buf (q_ch (ig_fills s)) @ [kite_ToMasterFill (pb_Order p) i] \<and> ig_updates s' = ig_updates s"
  unfolding unnamed_goes_to_kite [OF assms(1-6)]
  using assms(7-11) by (simp add: kite_ServeHTTP_def VerifyChecksum_def publish_fill_def Publish_room Let_def)

section \<open>One fill by every path\<close>

lemma inserted_duplicate:
  assumes "InsertMasterFill f d = (Inr i, d1)" and "faults d1 = []" and "is_json (mf_RawPayload g)"
    and "mf_MasterID g = mf_MasterID f" and "mf_BrokerOrderID g = mf_BrokerOrderID f"
    and "mf_FilledQuantity g = mf_FilledQuantity f" and "mf_Status g = mf_Status f"
  shows "InsertMasterFill g d1 = (Inl ErrDuplicate, d1)"
proof -
  have "(mf_MasterID f, mf_BrokerOrderID f, wrap32 (mf_FilledQuantity f), mf_Status f) \<in> set (map fill_key (master_fills d1))"
    using assms(1) by (auto simp: InsertMasterFill_def db_call_def fill_key_def fill_row_def Let_def split: list.splits option.splits if_splits)
  then show ?thesis
    using assms(2-) by (simp add: InsertMasterFill_def db_call_def fill_key_def fill_row_def Let_def)
qed

text \<open>
  The fills that one order of a master becomes: through the webhook or the feed, and through the
  order book that the reconciliation reads. For Dhan the event and the listed order are the same order
  when they agree on its number, quantity and status.
\<close>

definition kite_deliveries :: "uuid \<Rightarrow> kite_order \<Rightarrow> MasterFill list" where
  "kite_deliveries m k = [kite_ToMasterFill k m, ToMasterFill (kite_toBrokerOrder k) m]"

definition same_dhan_order :: "dhan_event \<Rightarrow> dhan_order \<Rightarrow> bool" where
  "same_dhan_order e d \<longleftrightarrow> do_OrderID d = de_OrderID e \<and> do_FilledQty d = de_FilledQty e \<and> do_OrderStatus d = de_OrderStatus e"

definition dhan_deliveries :: "dhan_env \<Rightarrow> uuid \<Rightarrow> json \<Rightarrow> dhan_event \<Rightarrow> dhan_order \<Rightarrow> MasterFill list" where
  "dhan_deliveries E m raw e d =
     [dhan_fill E m (MapTerminalStatus (de_OrderStatus e)) raw e, ToMasterFill (dhan_toBrokerOrder (dn_parse E) d) m]"

text \<open>
  However a finished order of a master is delivered, it is one fill: once the store has accepted the
  fill from the webhook, the feed or the reconciliation, the fill of the same order from any of
  them is refused as a duplicate and changes nothing; for Dhan this holds for every spelling of the status but
  \<open>CANCELED\<close>.
\<close>

theorem delivery_paths_agree:
  assumes "f \<in> set (kite_deliveries m k) \<and> g \<in> set (kite_deliveries m k)
    \<or> same_dhan_order e o1 \<and> IsTerminal (MapTerminalStatus (de_OrderStatus e)) \<and> ToUpper (TrimSpace (de_OrderStatus e)) \<noteq> ''CANCELED''
      \<and> f \<in> set (dhan_deliveries E m raw e o1) \<and> g \<in> set (dhan_deliveries E m raw e o1)"
    and "InsertMasterFill f d = (Inr i, d1)" and "faults d1 = []"
  shows "InsertMasterFill g d1 = (Inl ErrDuplicate, d1)"
proof -
  have status: "bo_Status (dhan_toBrokerOrder parse o1) = MapTerminalStatus (de_OrderStatus e)"
    if "same_dhan_order e o1" "IsTerminal (MapTerminalStatus (de_OrderStatus e))" "ToUpper (TrimSpace (de_OrderStatus e)) \<noteq> ''CANCELED''" for parse
    using that by (auto simp: dhan_toBrokerOrder_def MapTerminalStatus_def same_dhan_order_def IsTerminal_def Let_def split: if_splits)
  have "is_json (mf_RawPayload g) \<and> mf_MasterID g = mf_MasterID f \<and> mf_BrokerOrderID g = mf_BrokerOrderID f
    \<and> mf_FilledQuantity g = mf_FilledQuantity f \<and> mf_Status g = mf_Status f"
    using assms(1) status [of "dn_parse E"]
    by (auto simp: kite_deliveries_def kite_ToMasterFill_def ToMasterFill_def kite_toBrokerOrder_def order_raw_def
        dhan_deliveries_def dhan_fill_def Let_def same_dhan_order_def dhan_toBrokerOrder_def)
  then show ?thesis using inserted_duplicate [OF assms(2,3)] by simp
qed

section \<open>Examples\<close>

definition ex_master :: account_row where
  "ex_master = new_account None ''m'' ''m'' ''master'' ''kite'' ''ZM1'' ''k'' ''sec'' [] [] []"

definition ex_ingress :: ingress where
  "ex_ingress = \<lparr> ig_db = (empty_db [ex_master] [])\<lparr> db_now := 1 \<rparr>, ig_fills = Queue_New 1024, ig_updates = Queue_New 1024 \<rparr>"

definition ex_kite_order :: kite_order where
  "ex_kite_order = \<lparr> ko_OrderID = ''7'', ko_Exchange = ''NFO'', ko_TradingSymbol = ''X'', ko_InstrumentToken = 1, ko_TransactionType = ''BUY'',
     ko_Product = ''NRML'', ko_OrderType = ''MARKET'', ko_Status = ''COMPLETE'', ko_StatusMessage = [], ko_Quantity = 50, ko_FilledQuantity = 50,
     ko_Price = 0, ko_TriggerPrice = 0, ko_AveragePrice = 100, ko_OrderTimestamp = 63860000000 * Second, ko_Tag = [], ko_json = JObj [] \<rparr>"

definition ex_postback :: "string \<Rightarrow> postbackPayload" where
  "ex_postback c = \<lparr> pb_Order = ex_kite_order, pb_UserID = ''ZM1'', pb_Checksum = c \<rparr>"

definition ex_dhan_env :: dhan_env where
  "ex_dhan_env = \<lparr> dn_parse = (\<lambda>_ _. None), dn_now = 5, dn_resolver = None \<rparr>"

definition ex_dhan_event :: dhan_event where
  "ex_dhan_event = \<lparr> de_OrderID = ''9'', de_CorrelationID = [], de_OrderStatus = ''TRADED'', de_TransactionType = ''BUY'', de_ExchangeSegment = ''NSE_FNO'',
     de_ProductType = ''MARGIN'', de_OrderType = ''MARKET'', de_TradingSymbol = ''X'', de_SecurityID = [], de_Quantity = 50, de_FilledQty = 50,
     de_Price = 0, de_TriggerPrice = 0, de_AverageTradedPrice = 100, de_CreateTime = [] \<rparr>"

definition ex_dhan_payload :: dhanPostbackPayload where
  "ex_dhan_payload = dhan_event.extend ex_dhan_event \<lparr> dp_DhanClientID = ''ZM1'', dp_DhanClientIDAlt = [], dp_UpdateTime = [] \<rparr>"

definition ex_callback :: "string \<Rightarrow> callback_request" where
  "ex_callback q = \<lparr> cq_query = q, cq_header = [], cq_path = ''/broker-callback'', cq_body = ''{}'' \<rparr>"

definition ex_signed :: postbackPayload where
  "ex_signed = ex_postback (hex_bytes (Sum256 (''7'' @ format_ist (63860000000 * Second) @ ''sec'')))"

lemma ex_signed_fields [simp]:
  "pb_Order ex_signed = ex_kite_order" "pb_UserID ex_signed = ''ZM1''"
  "pb_Checksum ex_signed = hex_bytes (Sum256 (ko_OrderID ex_kite_order @ format_ist (ko_OrderTimestamp ex_kite_order) @ ''sec''))"
  by (simp_all add: ex_signed_def ex_postback_def ex_kite_order_def)

lemma ex_lookup: "lookup_account ''kite'' ''ZM1'' (ig_db ex_ingress) = (Inr (''m'', ''master'', ''sec''), ig_db ex_ingress)"
  by code_simp

lemma ex_ingress [simp]:
  "ko_Status ex_kite_order = ''COMPLETE''" "accounts (ig_db ex_ingress) = [ex_master]" "ar_id ex_master = ''m''"
  "ig_fills ex_ingress = Queue_New 1024" "ig_updates ex_ingress = Queue_New 1024"
  by (simp_all add: ex_kite_order_def ex_ingress_def empty_db_def ex_master_def new_account_def)

theorem postback_authenticated_witness:
  "ch_buf (q_ch (ig_fills (snd (kite_ServeHTTP (\<lambda>_. Some ex_signed) (ex_callback []) ex_ingress)))) = [kite_ToMasterFill ex_kite_order ''m'']"
proof -
  let ?s = "publish_fill (kite_ToMasterFill ex_kite_order ''m'') ex_ingress"
  have run: "kite_ServeHTTP (\<lambda>_. Some ex_signed) (ex_callback []) ex_ingress = (200, ?s)"
    by (simp add: kite_ServeHTTP_def ex_lookup VerifyChecksum_def IsTerminal_def Let_def)
  have "ig_fills ?s \<noteq> ig_fills ex_ingress"
    by (simp add: publish_fill_def Publish_def chan_send_def Queue_New_def make_chan_def)
  with postback_authenticated [OF run]
  show ?thesis unfolding run by (auto simp: Queue_New_def make_chan_def publish_fill_def)
qed

theorem postback_delivered_witness:
  "\<exists>s'. Router_ServeHTTP (postbackRouter ex_dhan_env (\<lambda>_. Some ex_signed) (\<lambda>_. None)) (ex_callback []) ex_ingress = (200, s')
    \<and> ch_buf (q_ch (ig_fills s')) = [kite_ToMasterFill ex_kite_order ''m''] \<and> ig_updates s' = ig_updates ex_ingress"
proof -
  have req: "cq_query (ex_callback []) = []" "cq_header (ex_callback []) = []" "sub_path (cq_path (ex_callback [])) = []"
    "length (cq_body (ex_callback [])) \<le> 1048576" "\<not> Contains (cq_body (ex_callback [])) (json_key ''dhanClientId'')"
    "\<not> Contains (cq_body (ex_callback [])) (json_key ''dhan_client_id'')"
    by (simp_all add: ex_callback_def sub_path_def HasPrefix_def json_key_def)
  show ?thesis
    using postback_delivered [OF req, where dk = "\<lambda>_. Some ex_signed" and p = ex_signed and s = ex_ingress and i = "''m''" and secret = "''sec''"
        and d = "ig_db ex_ingress" and E = ex_dhan_env and dd = "\<lambda>_. None"]
    by (simp add: ex_lookup IsTerminal_def Queue_Len_def Queue_Cap_def Queue_New_def make_chan_def)
qed

theorem delivery_paths_agree_witness:
  "let d1 = snd (InsertMasterFill (kite_ToMasterFill ex_kite_order ''m'') (ig_db ex_ingress))
   in InsertMasterFill (ToMasterFill (kite_toBrokerOrder ex_kite_order) ''m'') d1 = (Inl ErrDuplicate, d1)"
proof -
  have first: "InsertMasterFill (kite_ToMasterFill ex_kite_order ''m'') (ig_db ex_ingress)
      = (Inr 1, snd (InsertMasterFill (kite_ToMasterFill ex_kite_order ''m'') (ig_db ex_ingress)))"
    and "faults (snd (InsertMasterFill (kite_ToMasterFill ex_kite_order ''m'') (ig_db ex_ingress))) = []"
    by (simp_all add: InsertMasterFill_def db_call_def ex_ingress_def empty_db_def kite_ToMasterFill_def Let_def account_exists_def)
  then show ?thesis
    using delivery_paths_agree [OF _ first, where m = "''m''" and k = ex_kite_order and g = "ToMasterFill (kite_toBrokerOrder ex_kite_order) ''m''"]
    by (simp add: kite_deliveries_def Let_def)
qed

text \<open>The lookup finds an account for every user name that some live account of any broker has.\<close>

lemma lookup_any_broker:
  assumes "faults d = []" "b \<in> set (accounts d)" "live b" "ar_broker_user_id b = u"
  shows "\<exists>a \<in> set (accounts d). live a \<and> ar_broker_user_id a = u
    \<and> lookup_account broker u d = (Inr (ar_id a, ar_role a, ar_api_secret a), d)"
proof -
  have "find (\<lambda>a. ar_broker_user_id a = u \<and> live a) (accounts d) \<noteq> None" using assms(2-4) by (auto simp: find_None_iff)
  then obtain a where a: "find (\<lambda>a. ar_broker_user_id a = u \<and> live a) (accounts d) = Some a" by blast
  show ?thesis
  proof (cases "find (\<lambda>a. ToLower (ar_broker a) = ToLower broker \<and> ar_broker_user_id a = u \<and> live a) (accounts d)")
    case None
    then show ?thesis using a assms(1) find_Some_mem [OF a]
      by (auto simp: lookup_account_def AccountByBrokerAndUserID_def AccountByBrokerUserID_def db_call_def)
  next
    case (Some a')
    then show ?thesis using assms(1) find_Some_mem [OF Some]
      by (auto simp: lookup_account_def AccountByBrokerAndUserID_def db_call_def)
  qed
qed

text \<open>
  C34 The webhook of Dhan checks no signature and falls back to the accounts of other brokers: every request that names
  \<open>dhan\<close> and carries the user name of a live account of any broker and a terminal status, and no secret, is
  acknowledged, and the event it describes is put on a queue for a live account with that user name,
  as a fill when the account is a master and as an update when it is a follower (no database failure, queues
  with room).
\<close>

theorem unsigned_postback_accepted:
  assumes "cq_query req = ''dhan''" and "dd (cq_body req) = Some p"
    and "TrimSpace (dp_DhanClientID p) = u" and "u \<noteq> []" and "IsTerminal (MapTerminalStatus (de_OrderStatus p))"
    and "faults (ig_db s) = []" and "b \<in> set (accounts (ig_db s))" and "live b" and "ar_broker_user_id b = u"
    and "Queue_Len (ig_fills s) < Queue_Cap (ig_fills s)" and "Queue_Len (ig_updates s) < Queue_Cap (ig_updates s)"
  shows "\<exists>a s'. a \<in> set (accounts (ig_db s)) \<and> live a \<and> ar_broker_user_id a = u
    \<and> Router_ServeHTTP (postbackRouter E dk dd) req s = (200, s')
    \<and> (ar_role a = ''master'' \<longrightarrow> ig_updates s' = ig_updates s \<and> ch_buf (q_ch (ig_fills s')) = ch_buf (q_ch (ig_fills s))
         @ [dhan_fill E (ar_id a) (MapTerminalStatus (de_OrderStatus p)) (dhan_payload_json p) p])
    \<and> (ar_role a = ''follower'' \<longrightarrow> ig_fills s' = ig_fills s \<and> ch_buf (q_ch (ig_updates s')) = ch_buf (q_ch (ig_updates s))
         @ [dhan_update E (ar_id a) (MapTerminalStatus (de_OrderStatus p)) (dhan_payload_json p) p])"
proof -
  obtain a where a: "a \<in> set (accounts (ig_db s))" "live a" "ar_broker_user_id a = u"
      "lookup_account ''dhan'' u (ig_db s) = (Inr (ar_id a, ar_role a, ar_api_secret a), ig_db s)"
    using lookup_any_broker [OF assms(6-9)] by blast
  have "Router_ServeHTTP (postbackRouter E dk dd) req s = dhan_ServeHTTP E dd req s"
    using assms(1) by (simp add: Router_ServeHTTP_def serve_named_def router_handlers)
  then show ?thesis using a assms(2-5,10,11)
    by (intro exI [of _ a] exI [of _ "snd (dhan_ServeHTTP E dd req s)"])
       (auto simp: dhan_ServeHTTP_def publish_fill_def publish_update_def Publish_room Let_def)
qed

theorem unsigned_postback_accepted_witness:
  "\<exists>s'. Router_ServeHTTP (postbackRouter ex_dhan_env (\<lambda>_. None) (\<lambda>_. Some ex_dhan_payload)) (ex_callback ''dhan'') ex_ingress = (200, s')
     \<and> ch_buf (q_ch (ig_fills s')) = [dhan_fill ex_dhan_env ''m'' TerminalComplete (dhan_payload_json ex_dhan_payload) ex_dhan_payload]"
proof -
  let ?req = "ex_callback ''dhan''" and ?dd = "\<lambda>_::string. Some ex_dhan_payload"
  have u: "TrimSpace (dp_DhanClientID ex_dhan_payload) = ''ZM1''" and st: "MapTerminalStatus (de_OrderStatus ex_dhan_payload) = TerminalComplete"
    by code_simp+
  have m: "ex_master \<in> set (accounts (ig_db ex_ingress))" "live ex_master" "ar_broker_user_id ex_master = ''ZM1''" "ar_role ex_master = ''master''"
    "faults (ig_db ex_ingress) = []" by (simp_all add: ex_master_def new_account_def live_def ex_ingress_def empty_db_def)
  have q: "cq_query ?req = ''dhan''" "IsTerminal (MapTerminalStatus (de_OrderStatus ex_dhan_payload))" "''ZM1'' \<noteq> []"
    by (simp_all add: ex_callback_def st IsTerminal_def)
  have room: "Queue_Len (ig_fills ex_ingress) < Queue_Cap (ig_fills ex_ingress)" "Queue_Len (ig_updates ex_ingress) < Queue_Cap (ig_updates ex_ingress)"
    "ch_buf (q_ch (ig_fills ex_ingress)) = []"
    by (simp_all add: Queue_Len_def Queue_Cap_def Queue_New_def make_chan_def)
  have dd: "?dd (cq_body ?req) = Some ex_dhan_payload" by simp
  from unsigned_postback_accepted [where req = ?req and dd = ?dd, OF q(1) dd u q(3,2) m(5,1,2,3) room(1,2), of ex_dhan_env "\<lambda>_. None"]
  show ?thesis using m(4) by (auto simp: st Queue_New_def make_chan_def)
qed

text \<open>The same with a Zerodha master, whose own webhook drops the event with a wrong checksum.\<close>

theorem forged_fill_of_zerodha_master:
  "(let router = postbackRouter ex_dhan_env (\<lambda>_. Some (ex_postback ''wrong'')) (\<lambda>_. Some ex_dhan_payload);
        forged = Router_ServeHTTP router (ex_callback ''dhan'') ex_ingress;
        signed = Router_ServeHTTP router (ex_callback ''kite'') ex_ingress
    in fst forged = 200
       \<and> map (\<lambda>f. (mf_MasterID f, mf_Status f, mf_FilledQuantity f)) (ch_buf (q_ch (ig_fills (snd forged)))) = [(''m'', TerminalComplete, 50)]
       \<and> fst signed = 200 \<and> ig_fills (snd signed) = ig_fills ex_ingress)"
proof -
  have "\<not> VerifyChecksum sec i t ''wrong''" for sec i t
  proof -
    have "length (hex_bytes (Sum256 (i @ t @ sec))) \<noteq> length ''wrong''" by (simp add: length_Sum256)
    then show ?thesis by (auto simp: VerifyChecksum_def simp del: hex_bytes_length)
  qed
  moreover have "lookup_account ''kite'' (pb_UserID (ex_postback ''wrong'')) (ig_db ex_ingress) = (Inr (''m'', ''master'', ''sec''), ig_db ex_ingress)"
    by code_simp
  ultimately have "kite_ServeHTTP (\<lambda>_. Some (ex_postback ''wrong'')) (ex_callback ''kite'') ex_ingress = (200, ex_ingress)"
    by (simp add: kite_ServeHTTP_def ex_postback_def Let_def)
  moreover have "(let forged = dhan_ServeHTTP ex_dhan_env (\<lambda>_. Some ex_dhan_payload) (ex_callback ''dhan'') ex_ingress
    in fst forged = 200
       \<and> map (\<lambda>f. (mf_MasterID f, mf_Status f, mf_FilledQuantity f)) (ch_buf (q_ch (ig_fills (snd forged)))) = [(''m'', TerminalComplete, 50)])"
    by code_simp
  ultimately show ?thesis
    by (simp add: Router_ServeHTTP_def serve_named_def router_handlers ex_callback_def Let_def)
qed

end
