(* ===== verification/Tickers.thy ===== *)
theory Tickers
  imports Accounts_View Accounts_Inv
begin

text \<open>
  The manager of the masters' order feeds (\<open>ticker/manager.go\<close>) with the factories of the three brokers. A
  feed that was created is an entry in the list of instances, which records what \<open>Start\<close> and \<open>Stop\<close>
  did to it; the map of the manager points into that list. The calls do only part of their work under
  the manager's lock: \<open>StartMaster\<close> looks, creates a ticker, registers it under the lock and starts it in a
  goroutine; \<open>StopMaster\<close> and \<open>Shutdown\<close> remove entries under the lock and stop the tickers after it. What
  a call still has to do to a ticker outside the lock is a task of the manager, and \<open>ticker_step\<close> interleaves
  the locked parts and the tasks of concurrent calls with everything else. A ticker whose context was
  cancelled does not stream, also when its \<open>Start\<close> runs after that: \<open>ServeWithContext\<close> of the websocket
  libraries ends with its context.
\<close>

section \<open>Instances and factories\<close>

record ticker_instance =
  ti_master :: uuid
  ti_token :: string
  ti_started :: bool
  ti_stopped :: bool
  ti_stop_result :: "unit result"

text \<open>\<open>CreateTicker\<close>: an error, no ticker when credentials are missing, or the credentials it connects with.\<close>

type_synonym ticker_factory = "account_row \<Rightarrow> (string option) result"

definition kite_CreateTicker :: ticker_factory where
  "kite_CreateTicker auth = Inr (if ar_api_key auth = [] \<or> ar_access_token auth = [] then None else Some (ar_access_token auth))"

definition dhan_CreateTicker :: ticker_factory where
  "dhan_CreateTicker auth =
     (let clientID = (if TrimSpace (ar_broker_user_id auth) = [] then TrimSpace (ar_api_key auth) else TrimSpace (ar_broker_user_id auth));
          token = TrimSpace (ar_access_token auth)
      in Inr (if clientID = [] \<or> token = [] then None else Some token))"

definition test_CreateTicker :: ticker_factory where
  "test_CreateTicker auth = Inr (if ar_api_key auth = [] \<or> ar_access_token auth = [] then None else Some (ar_access_token auth))"

text \<open>The work on an instance that is under way: the goroutine that starts it, the call that stops it.\<close>

datatype ticker_task = RunStart nat | RunStop nat

record Manager =
  mg_factories :: "(string \<times> ticker_factory) list"
  mg_tickers :: "(uuid \<times> nat) list"
  mg_instances :: "ticker_instance list"
  mg_tasks :: "ticker_task list"

definition NewManager :: Manager where
  "NewManager = \<lparr> mg_factories = [], mg_tickers = [], mg_instances = [], mg_tasks = [] \<rparr>"

definition RegisterFactory :: "string \<Rightarrow> ticker_factory \<Rightarrow> Manager \<Rightarrow> Manager" where
  "RegisterFactory brokerName f m = m\<lparr> mg_factories := (ToLower (TrimSpace brokerName), f) # mg_factories m \<rparr>"

definition ActiveCount :: "Manager \<Rightarrow> int" where
  "ActiveCount m = int (length (mg_tickers m))"

definition ActiveMasterIDs :: "Manager \<Rightarrow> uuid list" where
  "ActiveMasterIDs m = map fst (mg_tickers m)"

section \<open>Operations\<close>

definition unsupported_broker :: "string \<Rightarrow> uuid \<Rightarrow> go_error" where
  "unsupported_broker brokerKey masterID = Plain (''ticker_mgr: unsupported broker '' @ Quote brokerKey @ '' for master '' @ masterID)"

text \<open>
  The part before the registration: \<open>None\<close> when there is nothing to start. \<open>stop_result\<close> is what stopping the
  new ticker will return.
\<close>

definition start_prepare :: "unit result \<Rightarrow> uuid \<Rightarrow> Manager \<Rightarrow> db \<Rightarrow> ticker_instance option result \<times> db" where
  "start_prepare stop_result masterID m d =
     (if map_of (mg_tickers m) masterID \<noteq> None then (Inr None, d)
      else (case MasterActive masterID d of
         (Inl e, d1) \<Rightarrow> (Inl (errorf ''check master active'' e), d1)
       | (Inr active, d1) \<Rightarrow>
           if \<not> active then (Inr None, d1)
           else (case AccountAuthInfo masterID d1 of
              (Inl e, d2) \<Rightarrow> (Inl (errorf ''load account auth info'' e), d2)
            | (Inr auth, d2) \<Rightarrow>
                let key0 = ToLower (TrimSpace (ar_broker auth)); brokerKey = (if key0 = [] then ''zerodha'' else key0)
                in (case map_of (mg_factories m) brokerKey of
                      None \<Rightarrow> (Inl (unsupported_broker brokerKey masterID), d2)
                    | Some factory \<Rightarrow> (case factory auth of
                          Inl e \<Rightarrow> (Inl (errorf (''create ticker for broker '' @ Quote brokerKey) e), d2)
                        | Inr None \<Rightarrow> (Inr None, d2)
                        | Inr (Some token) \<Rightarrow> (Inr (Some \<lparr> ti_master = masterID, ti_token = token, ti_started = False, ti_stopped = False,
                             ti_stop_result = stop_result \<rparr>), d2))))))"

text \<open>
  The registration under the lock: the goroutine of a registered ticker has yet to start it, and a
  second ticker of the master has yet to be stopped.
\<close>

definition start_commit :: "ticker_instance \<Rightarrow> Manager \<Rightarrow> Manager" where
  "start_commit t m =
     (let n = length (mg_instances m); m1 = m\<lparr> mg_instances := mg_instances m @ [t] \<rparr>
      in if map_of (mg_tickers m) (ti_master t) \<noteq> None then m1\<lparr> mg_tasks := RunStop n # mg_tasks m \<rparr>
         else m1\<lparr> mg_tickers := (ti_master t, n) # mg_tickers m, mg_tasks := RunStart n # mg_tasks m \<rparr>)"

definition upd_instance :: "nat \<Rightarrow> (ticker_instance \<Rightarrow> ticker_instance) \<Rightarrow> Manager \<Rightarrow> Manager" where
  "upd_instance n f m = m\<lparr> mg_instances := (mg_instances m)[n := f (mg_instances m ! n)] \<rparr>"

fun run_task :: "ticker_task \<Rightarrow> Manager \<Rightarrow> Manager" where
  "run_task (RunStart n) m = (upd_instance n (\<lambda>t. t\<lparr> ti_started := True \<rparr>) m)\<lparr> mg_tasks := remove1 (RunStart n) (mg_tasks m) \<rparr>"
| "run_task (RunStop n) m = (upd_instance n (\<lambda>t. t\<lparr> ti_stopped := True \<rparr>) m)\<lparr> mg_tasks := remove1 (RunStop n) (mg_tasks m) \<rparr>"

text \<open>A whole call: it stops a second ticker itself and leaves the start of a registered one to the goroutine.\<close>

definition Manager_StartMaster :: "unit result \<Rightarrow> uuid \<Rightarrow> Manager \<Rightarrow> db \<Rightarrow> unit result \<times> Manager \<times> db" where
  "Manager_StartMaster stop_result masterID m d = (case start_prepare stop_result masterID m d of
      (Inl e, d1) \<Rightarrow> (Inl e, m, d1)
    | (Inr None, d1) \<Rightarrow> (Inr (), m, d1)
    | (Inr (Some t), d1) \<Rightarrow>
        (let m1 = start_commit t m
         in (Inr (), if map_of (mg_tickers m) (ti_master t) \<noteq> None then run_task (RunStop (length (mg_instances m))) m1 else m1, d1)))"

text \<open>The part of \<open>StopMaster\<close> under the lock, and the whole call.\<close>

definition stop_begin :: "uuid \<Rightarrow> Manager \<Rightarrow> Manager" where
  "stop_begin masterID m = (case map_of (mg_tickers m) masterID of
      None \<Rightarrow> m
    | Some n \<Rightarrow> m\<lparr> mg_tickers := filter (\<lambda>(i, _). i \<noteq> masterID) (mg_tickers m), mg_tasks := RunStop n # mg_tasks m \<rparr>)"

definition Manager_StopMaster :: "uuid \<Rightarrow> Manager \<Rightarrow> unit result \<times> Manager" where
  "Manager_StopMaster masterID m = (case map_of (mg_tickers m) masterID of
      None \<Rightarrow> (Inr (), m)
    | Some n \<Rightarrow> (ti_stop_result (mg_instances m ! n), run_task (RunStop n) (stop_begin masterID m)))"

definition RestartMaster :: "unit result \<Rightarrow> uuid \<Rightarrow> Manager \<Rightarrow> db \<Rightarrow> unit result \<times> Manager \<times> db" where
  "RestartMaster stop_result masterID m d = Manager_StartMaster stop_result masterID (snd (Manager_StopMaster masterID m)) d"

fun start_all :: "unit result \<Rightarrow> uuid list \<Rightarrow> Manager \<Rightarrow> db \<Rightarrow> Manager \<times> db" where
  "start_all stop_result [] m d = (m, d)"
| "start_all stop_result (i # is) m d = (case Manager_StartMaster stop_result i m d of (_, m1, d1) \<Rightarrow> start_all stop_result is m1 d1)"

definition SyncActiveMasters ::
  "(group_row list \<Rightarrow> group_row list) \<Rightarrow> unit result \<Rightarrow> Manager \<Rightarrow> db \<Rightarrow> unit result \<times> Manager \<times> db" where
  "SyncActiveMasters order_by stop_result m d = (case Groups order_by None d of
      (Inl e, d1) \<Rightarrow> (Inl (errorf ''load groups'' e), m, d1)
    | (Inr gs, d1) \<Rightarrow> (case start_all stop_result (map gs_MasterID gs) m d1 of (m1, d2) \<Rightarrow> (Inr (), m1, d2)))"

text \<open>The part of \<open>Shutdown\<close> under the lock, and the whole call.\<close>

definition shutdown_begin :: "Manager \<Rightarrow> Manager" where
  "shutdown_begin m = m\<lparr> mg_tickers := [], mg_tasks := map (\<lambda>(_, n). RunStop n) (mg_tickers m) @ mg_tasks m \<rparr>"

definition Manager_Shutdown :: "Manager \<Rightarrow> Manager" where
  "Manager_Shutdown m = fold (\<lambda>(_, n). run_task (RunStop n)) (mg_tickers m) (shutdown_begin m)"

text \<open>The manager as the server sets it up.\<close>

definition tickerManager :: Manager where
  "tickerManager = RegisterFactory ''testbroker'' test_CreateTicker (RegisterFactory ''dhan'' dhan_CreateTicker
     (RegisterFactory ''zerodha'' kite_CreateTicker (RegisterFactory ''kite'' kite_CreateTicker NewManager)))"

section \<open>Concurrent calls\<close>

text \<open>
  A state of the manager, the database and the tickers that running calls have created and not
  registered yet. A task that is under way is done at any later time.
\<close>

inductive ticker_step :: "Manager \<times> db \<times> ticker_instance list \<Rightarrow> Manager \<times> db \<times> ticker_instance list \<Rightarrow> bool" where
  t_prepare: "start_prepare r i m d = (Inr (Some t), d') \<Longrightarrow> ticker_step (m, d, ts) (m, d', t # ts)"
| t_commit: "t \<in> set ts \<Longrightarrow> ticker_step (m, d, ts) (start_commit t m, d, remove1 t ts)"
| t_stop: "ticker_step (m, d, ts) (stop_begin i m, d, ts)"
| t_shutdown: "ticker_step (m, d, ts) (shutdown_begin m, d, ts)"
| t_task: "k \<in> set (mg_tasks m) \<Longrightarrow> ticker_step (m, d, ts) (run_task k m, d, ts)"
| t_factory: "ticker_step (m, d, ts) (RegisterFactory b f m, d, ts)"
| t_db: "ticker_step (m, d, ts) (m, d', ts)"

text \<open>An instance that has been started and not stopped.\<close>

definition streaming :: "ticker_instance \<Rightarrow> bool" where
  "streaming t \<longleftrightarrow> ti_started t \<and> \<not> ti_stopped t"

text \<open>
  The map has one entry per master; an entry points to an instance of that master that nobody has stopped or
  is stopping and that is started or about to be; every other instance has been stopped or is
  being stopped.
\<close>

definition registered :: "Manager \<Rightarrow> uuid \<Rightarrow> nat \<Rightarrow> bool" where
  "registered m i n \<longleftrightarrow> n < length (mg_instances m) \<and> ti_master (mg_instances m ! n) = i \<and> \<not> ti_stopped (mg_instances m ! n)
     \<and> RunStop n \<notin> set (mg_tasks m) \<and> (ti_started (mg_instances m ! n) \<or> RunStart n \<in> set (mg_tasks m))"

definition wf_manager :: "Manager \<Rightarrow> bool" where
  "wf_manager m \<longleftrightarrow> distinct (map fst (mg_tickers m))
     \<and> (\<forall>i n. (i, n) \<in> set (mg_tickers m) \<longrightarrow> registered m i n)
     \<and> (\<forall>n < length (mg_instances m). ti_stopped (mg_instances m ! n) \<or> RunStop n \<in> set (mg_tasks m)
          \<or> (ti_master (mg_instances m ! n), n) \<in> set (mg_tickers m))
     \<and> (\<forall>n. RunStart n \<in> set (mg_tasks m) \<or> RunStop n \<in> set (mg_tasks m) \<longrightarrow> n < length (mg_instances m))"

lemma wf_managerD:
  assumes "wf_manager m"
  shows "distinct (map fst (mg_tickers m))"
    and "(i, n) \<in> set (mg_tickers m) \<Longrightarrow> registered m i n"
    and "n < length (mg_instances m) \<Longrightarrow> \<not> ti_stopped (mg_instances m ! n) \<Longrightarrow> RunStop n \<notin> set (mg_tasks m) \<Longrightarrow>
      (ti_master (mg_instances m ! n), n) \<in> set (mg_tickers m)"
    and "RunStart n \<in> set (mg_tasks m) \<or> RunStop n \<in> set (mg_tasks m) \<Longrightarrow> n < length (mg_instances m)"
  using assms unfolding wf_manager_def by blast+

lemma wf_manager_new: "wf_manager NewManager"
  by (simp add: wf_manager_def NewManager_def)

lemma wf_manager_factory: "wf_manager (RegisterFactory b f m) = wf_manager m"
  by (simp add: wf_manager_def RegisterFactory_def registered_def)

lemma wf_manager_commit:
  assumes "wf_manager m" and "\<not> ti_stopped t"
  shows "wf_manager (start_commit t m)"
proof -
  note D = wf_managerD [OF assms(1)]
  let ?n = "length (mg_instances m)"
  have fresh: "RunStart ?n \<notin> set (mg_tasks m)" "RunStop ?n \<notin> set (mg_tasks m)" using D(4) by blast+
  have old: "registered m i n \<Longrightarrow> n \<noteq> ?n" for i n by (simp add: registered_def)
  have ext: "registered m i n \<Longrightarrow> registered (m\<lparr> mg_instances := mg_instances m @ [t], mg_tasks := k # mg_tasks m, mg_tickers := ts \<rparr>) i n"
    if "k = RunStart ?n \<or> k = RunStop ?n" for i n k ts
    using that by (auto simp: registered_def nth_append)
  show ?thesis
  proof (cases "map_of (mg_tickers m) (ti_master t)")
    case None
    then have key: "ti_master t \<notin> fst ` set (mg_tickers m)" by (simp add: map_of_eq_None_iff)
    have "registered (start_commit t m) i n" if "(i, n) \<in> set (mg_tickers (start_commit t m))" for i n
      using that None D(2) ext [of "RunStart ?n"] fresh assms(2)
      by (auto simp: start_commit_def Let_def registered_def nth_append)
    then show ?thesis using D(1,3,4) key None fresh
      by (auto simp: wf_manager_def start_commit_def Let_def nth_append less_Suc_eq)
  next
    case (Some n)
    have "registered (start_commit t m) i n" if "(i, n) \<in> set (mg_tickers m)" for i n
      using D(2) [OF that] Some by (auto simp: start_commit_def Let_def registered_def nth_append)
    then show ?thesis using D(1,3,4) Some
      by (auto simp: wf_manager_def start_commit_def Let_def nth_append less_Suc_eq)
  qed
qed

text \<open>Removing an entry leaves its instance to the call that stops it.\<close>

lemma wf_manager_stop:
  assumes "wf_manager m"
  shows "wf_manager (stop_begin i m)"
proof (cases "map_of (mg_tickers m) i")
  case None
  then show ?thesis using assms by (simp add: stop_begin_def)
next
  case (Some n)
  note D = wf_managerD [OF assms]
  have n: "(i, n) \<in> set (mg_tickers m)" using Some by (rule map_of_SomeD)
  have other: "registered (stop_begin i m) j k" if "(j, k) \<in> set (mg_tickers m)" "j \<noteq> i" for j k
    using D(2) [OF that(1)] D(2) [OF n] that(2) Some by (auto simp: stop_begin_def registered_def)
  have rest: "mg_tickers (stop_begin i m) = filter (\<lambda>(j, _). j \<noteq> i) (mg_tickers m)" "mg_instances (stop_begin i m) = mg_instances m"
      "mg_tasks (stop_begin i m) = RunStop n # mg_tasks m" using Some by (simp_all add: stop_begin_def)
  have mine: "k = n" if "(i, k) \<in> set (mg_tickers m)" for k
    using D(1) n that by (metis Some_eq_map_of_iff option.inject)
  have "ti_stopped (mg_instances m ! k) \<or> RunStop k \<in> set (RunStop n # mg_tasks m)
      \<or> (ti_master (mg_instances m ! k), k) \<in> set (filter (\<lambda>(j, _). j \<noteq> i) (mg_tickers m))" if "k < length (mg_instances m)" for k
    using D(3) [OF that] mine [of k] by (cases "ti_master (mg_instances m ! k) = i") auto
  moreover have "n < length (mg_instances m)" using D(2) [OF n] by (simp add: registered_def)
  ultimately show ?thesis using D(1,4) other unfolding wf_manager_def rest by (auto simp: distinct_map_filter)
qed

lemma wf_manager_shutdown:
  assumes "wf_manager m"
  shows "wf_manager (shutdown_begin m)"
proof -
  note D = wf_managerD [OF assms]
  have tasks: "RunStop n \<in> set (mg_tasks (shutdown_begin m)) \<longleftrightarrow> RunStop n \<in> set (mg_tasks m) \<or> n \<in> snd ` set (mg_tickers m)"
      "RunStart n \<in> set (mg_tasks (shutdown_begin m)) \<longleftrightarrow> RunStart n \<in> set (mg_tasks m)" for n
    by (auto simp: shutdown_begin_def rev_image_eqI)
  have "n < length (mg_instances m)" if "n \<in> snd ` set (mg_tickers m)" for n
    using that D(2) by (fastforce simp: registered_def)
  moreover have "ti_stopped (mg_instances m ! n) \<or> RunStop n \<in> set (mg_tasks m) \<or> n \<in> snd ` set (mg_tickers m)"
    if "n < length (mg_instances m)" for n
    using D(3) [OF that] by (metis image_eqI snd_conv)
  moreover have "mg_tickers (shutdown_begin m) = []" "mg_instances (shutdown_begin m) = mg_instances m"
    by (simp_all add: shutdown_begin_def)
  ultimately show ?thesis using D(4) unfolding wf_manager_def tasks by auto
qed

lemma run_task_facts [simp]:
  "mg_tickers (run_task k m) = mg_tickers m" "length (mg_instances (run_task k m)) = length (mg_instances m)"
  "mg_tasks (run_task k m) = remove1 k (mg_tasks m)"
  by (cases k; simp add: upd_instance_def)+

lemma run_task_instance:
  "mg_instances (run_task k m) ! n = (if n < length (mg_instances m) \<and> k = RunStart n then (mg_instances m ! n)\<lparr> ti_started := True \<rparr>
     else if n < length (mg_instances m) \<and> k = RunStop n then (mg_instances m ! n)\<lparr> ti_stopped := True \<rparr> else mg_instances m ! n)"
proof -
  have upd: "mg_instances (upd_instance i f m) ! n = (if i = n \<and> n < length (mg_instances m) then f (mg_instances m ! n) else mg_instances m ! n)" for i f
    by (cases "i < length (mg_instances m)") (auto simp: upd_instance_def list_update_beyond)
  show ?thesis by (cases k) (auto simp: upd)
qed

lemma run_task_flags:
  assumes "n < length (mg_instances m)"
  shows "ti_started (mg_instances (run_task k m) ! n) \<longleftrightarrow> ti_started (mg_instances m ! n) \<or> k = RunStart n"
    and "ti_stopped (mg_instances (run_task k m) ! n) \<longleftrightarrow> ti_stopped (mg_instances m ! n) \<or> k = RunStop n"
  using assms unfolding run_task_instance by simp_all

lemma run_task_master [simp]: "ti_master (mg_instances (run_task k m) ! n) = ti_master (mg_instances m ! n)"
  unfolding run_task_instance by simp

lemmas [simp del] = run_task.simps

lemma wf_manager_task:
  assumes "wf_manager m" and "k \<in> set (mg_tasks m)"
  shows "wf_manager (run_task k m)"
proof -
  note D = wf_managerD [OF assms(1)]
  have sub: "x \<in> set (remove1 k (mg_tasks m)) \<Longrightarrow> x \<in> set (mg_tasks m)" for x using set_remove1_subset by fast
  have "registered (run_task k m) i n" if "(i, n) \<in> set (mg_tickers m)" for i n
  proof -
    have r: "registered m i n" using D(2) [OF that] .
    then have "k \<noteq> RunStop n" "n < length (mg_instances m)" using assms(2) by (auto simp: registered_def)
    then show ?thesis using r sub by (cases "k = RunStart n") (auto simp: registered_def run_task_flags)
  qed
  moreover have "ti_stopped (mg_instances (run_task k m) ! n) \<or> RunStop n \<in> set (mg_tasks (run_task k m))
      \<or> (ti_master (mg_instances (run_task k m) ! n), n) \<in> set (mg_tickers (run_task k m))" if "n < length (mg_instances m)" for n
    using D(3) [OF that] that by (cases "k = RunStop n") (auto simp: run_task_flags)
  ultimately show ?thesis using D(1,4) sub unfolding wf_manager_def by auto
qed

lemma prepared_fresh: "start_prepare r i m d = (Inr (Some t), d') \<Longrightarrow> \<not> ti_stopped t"
  by (auto simp: start_prepare_def Let_def split: if_splits prod.splits sum.splits option.splits)

definition sound_state :: "Manager \<times> db \<times> ticker_instance list \<Rightarrow> bool" where
  "sound_state x \<longleftrightarrow> wf_manager (fst x) \<and> list_all (\<lambda>t. \<not> ti_stopped t) (snd (snd x))"

lemma ticker_step_wf: "ticker_step x y \<Longrightarrow> sound_state x \<Longrightarrow> sound_state y"
proof (induction rule: ticker_step.induct)
  case (t_commit t ts m d)
  then have "wf_manager (start_commit t m)" by (intro wf_manager_commit) (auto simp: sound_state_def list_all_iff)
  then show ?case using t_commit set_remove1_subset [of t ts] by (auto simp: sound_state_def list_all_iff)
qed (auto simp: sound_state_def wf_manager_factory prepared_fresh wf_manager_shutdown wf_manager_stop wf_manager_task)

lemma ticker_run_wf: "ticker_step\<^sup>*\<^sup>* x y \<Longrightarrow> sound_state x \<Longrightarrow> sound_state y"
  by (induction rule: rtranclp_induct) (auto intro: ticker_step_wf)

text \<open>A whole shutdown stops the instances of the map.\<close>

lemma stop_all:
  "length (mg_instances (fold (\<lambda>(_, n). run_task (RunStop n)) ts m)) = length (mg_instances m)"
  by (induction ts arbitrary: m) auto

lemma stop_all_stopped:
  "k < length (mg_instances m) \<Longrightarrow> ti_stopped (mg_instances (fold (\<lambda>(_, n). run_task (RunStop n)) ts m) ! k)
     \<longleftrightarrow> ti_stopped (mg_instances m ! k) \<or> k \<in> snd ` set ts"
proof (induction ts arbitrary: m)
  case (Cons t ts)
  obtain i n where "t = (i, n)" by (cases t)
  then show ?case using Cons by (auto simp: run_task_flags)
qed simp

lemma shutdown_stops:
  "k < length (mg_instances m) \<Longrightarrow> ti_stopped (mg_instances (Manager_Shutdown m) ! k)
     \<longleftrightarrow> ti_stopped (mg_instances m ! k) \<or> k \<in> snd ` set (mg_tickers m)"
  using stop_all_stopped [of k "shutdown_begin m"] by (simp add: Manager_Shutdown_def shutdown_begin_def)


definition ex_feed_db :: db where
  "ex_feed_db = empty_db [(new_account None ''m'' ''m'' ''master'' ''kite'' ''Z1'' ''k'' ''s'' [] [] [])\<lparr> ar_access_token := ''t'' \<rparr>] []"

definition ex_feed :: ticker_instance where
  "ex_feed = \<lparr> ti_master = ''m'', ti_token = ''t'', ti_started = False, ti_stopped = False, ti_stop_result = Inr () \<rparr>"

lemma ex_prepare: "start_prepare (Inr ()) ''m'' tickerManager ex_feed_db = (Inr (Some ex_feed), ex_feed_db)"
  by code_simp

lemma ex_feed_run:
  "ticker_step\<^sup>*\<^sup>* (tickerManager, ex_feed_db, []) (run_task (RunStart 0) (start_commit ex_feed tickerManager), ex_feed_db, [])"
proof -
  let ?m = "start_commit ex_feed tickerManager"
  have "ticker_step (tickerManager, ex_feed_db, []) (tickerManager, ex_feed_db, [ex_feed])"
    using ex_prepare by (rule t_prepare)
  moreover have "ticker_step (tickerManager, ex_feed_db, [ex_feed]) (?m, ex_feed_db, [])"
    using t_commit [of ex_feed "[ex_feed]" tickerManager ex_feed_db] by simp
  moreover have "ticker_step (?m, ex_feed_db, []) (run_task (RunStart 0) ?m, ex_feed_db, [])"
  proof (rule t_task)
    show "RunStart 0 \<in> set (mg_tasks ?m)" by code_simp
  qed
  ultimately show ?thesis by (meson rtranclp.rtrancl_refl rtranclp.rtrancl_into_rtrancl)
qed


text \<open>
  Two feeds of one master can be connected at the same time: a restart that comes while a stop has removed the
  entry and not yet stopped its ticker connects a second feed, and a fill of that time arrives twice.
\<close>

theorem feeds_overlap:
  "\<exists>m. ticker_step\<^sup>*\<^sup>* (tickerManager, ex_feed_db, []) (m, ex_feed_db, []) \<and> map streaming (mg_instances m) = [True, True]
     \<and> map ti_master (mg_instances m) = [''m'', ''m'']"
proof -
  let ?m1 = "stop_begin ''m'' (run_task (RunStart 0) (start_commit ex_feed tickerManager))"
  let ?m2 = "start_commit ex_feed ?m1"
  have "ticker_step\<^sup>*\<^sup>* (tickerManager, ex_feed_db, []) (?m1, ex_feed_db, [])"
    by (rule rtranclp.rtrancl_into_rtrancl [OF ex_feed_run t_stop])
  moreover have "ticker_step (?m1, ex_feed_db, []) (?m1, ex_feed_db, [ex_feed])"
  proof (rule t_prepare)
    show "start_prepare (Inr ()) ''m'' ?m1 ex_feed_db = (Inr (Some ex_feed), ex_feed_db)" by code_simp
  qed
  moreover have "ticker_step (?m1, ex_feed_db, [ex_feed]) (?m2, ex_feed_db, [])"
    using t_commit [of ex_feed "[ex_feed]" ?m1 ex_feed_db] by simp
  moreover have "ticker_step (?m2, ex_feed_db, []) (run_task (RunStart 1) ?m2, ex_feed_db, [])"
  proof (rule t_task)
    show "RunStart 1 \<in> set (mg_tasks ?m2)" by code_simp
  qed
  moreover have "map streaming (mg_instances (run_task (RunStart 1) ?m2)) = [True, True]
      \<and> map ti_master (mg_instances (run_task (RunStart 1) ?m2)) = [''m'', ''m'']" by code_simp
  ultimately show ?thesis by (meson rtranclp.rtrancl_into_rtrancl)
qed

text \<open>
  A start that has read an active master registers its feed even when the master is deactivated and
  stopped in between: the stop finds no feed, and the deactivated master streams.
\<close>

theorem feed_of_inactive_master:
  "let (r, d) = start_prepare (Inr ()) ''m'' tickerManager ex_feed_db;
       d1 = snd (SetAccountActive ''m'' False d);
       m1 = snd (Manager_StopMaster ''m'' tickerManager);
       m2 = run_task (RunStart 0) (start_commit ex_feed m1)
   in r = Inr (Some ex_feed) \<and> fst (MasterActive ''m'' d1) = Inr False \<and> map streaming (mg_instances m2) = [True]"
  by code_simp

end
