(* ===== verification/Wiring.thy ===== *)
theory Wiring
  imports WorkerPool Adapters Tickers Accounts_Api
begin

text \<open>
  How the server connects accounts, broker clients, workers and order feeds (\<open>cmd/server/main.go\<close>): the broker
  registry, the resolver that builds a client for an account, the registration of followers
  with the worker pool and what follows a token refresh. A client is described by the account data it is built from;
  \<open>client_ops\<close> gives its operations over the network clients of the brokers. The client of the test broker keeps only
  whether the account has a proxy: it sends its requests directly. The portfolio syncers act on the tables
  only: the hook that the Kite syncer calls after a headless login is \<open>OnTokenRefreshed\<close>, a step of its own. In the code
  a login during the resolution of a client calls the hook while the pool's mutex is held, and the hook's
  eviction waits for that mutex for ever; the model describes resolutions that return.
\<close>

section \<open>Clients\<close>

datatype client =
    FakeClient
  | KiteClient BrokerAccount
  | DhanClient string BrokerAccount
  | TestClient bool string string

text \<open>The account data of a client that connects with its proxy, and the access token of every client.\<close>

fun client_account :: "client \<Rightarrow> BrokerAccount option" where
  "client_account FakeClient = None"
| "client_account (KiteClient acc) = Some acc"
| "client_account (DhanClient _ acc) = Some acc"
| "client_account (TestClient _ _ _) = None"

fun client_token :: "client \<Rightarrow> string" where
  "client_token FakeClient = []"
| "client_token (KiteClient acc) = ba_AccessToken acc"
| "client_token (DhanClient _ acc) = ba_AccessToken acc"
| "client_token (TestClient _ _ token) = token"

definition IsProxied :: "BrokerAccount \<Rightarrow> bool" where
  "IsProxied acc \<longleftrightarrow> ba_ProxyHost acc \<noteq> []"

text \<open>The broker of an account without keys (\<open>kite/fake\<close>, zero value): it sends nothing and reports success.\<close>

definition fake_broker :: "'s BrokerOps" where
  "fake_broker = \<lparr> bk_PlaceOrder = (\<lambda>variety p s. (Inr \<lparr> or_OrderID = [] \<rparr>, s)), bk_GetPositions = (\<lambda>s. (Inr [], s)),
     bk_GetOpenOrders = (\<lambda>s. (Inr [], s)), bk_GetOrders = (\<lambda>s. (Inr [], s)), bk_GetOrderHistory = (\<lambda>i s. (Inr [], s)),
     bk_CancelOrder = (\<lambda>variety i s. (Inr \<lparr> or_OrderID = i \<rparr>, s)) \<rparr>"

text \<open>The third-party clients, each connected with the data of an account.\<close>

record 's networks =
  nw_kite :: "BrokerAccount \<Rightarrow> 's kite_API"
  nw_dhan :: "string \<Rightarrow> BrokerAccount \<Rightarrow> 's dhan_API"
  nw_test :: "string \<Rightarrow> string \<Rightarrow> 's test_API"
  nw_instruments :: "'s security_lookup"
  nw_parse :: time_parser

fun client_ops :: "'s networks \<Rightarrow> client \<Rightarrow> 's BrokerOps" where
  "client_ops N FakeClient = fake_broker"
| "client_ops N (KiteClient acc) = kite_broker (IsProxied acc) (nw_kite N acc)"
| "client_ops N (DhanClient i acc) = dhan_broker (IsProxied acc) (nw_dhan N i acc) (Some (nw_instruments N)) (nw_parse N)"
| "client_ops N (TestClient proxied key token) = test_broker proxied (nw_test N key token) (nw_parse N)"

section \<open>The registry\<close>

text \<open>
  What \<open>url.Parse\<close> says about the proxy URL of an account, the portfolio syncers of the two brokers and the
  imbalance computation of a group.
\<close>

record wiring =
  we_proxy_url :: "BrokerAccount \<Rightarrow> go_error option"
  we_kiteSyncer :: "uuid \<Rightarrow> site \<Rightarrow> unit result \<times> site"
  we_dhanSyncer :: "uuid \<Rightarrow> site \<Rightarrow> unit result \<times> site"
  we_diff :: "uuid \<Rightarrow> site \<Rightarrow> site"

definition kiteBrokerFactory :: "wiring \<Rightarrow> (client, site) Factory" where
  "kiteBrokerFactory W acc s = (case if IsProxied acc then we_proxy_url W acc else None of
      Some e \<Rightarrow> (Inl (errorf ''create proxy http client'' (errorf ''bad proxy config'' e)), s)
    | None \<Rightarrow> (Inr (KiteClient acc), s))"

definition dhanBrokerFactory :: "(client, site) Factory" where
  "dhanBrokerFactory acc s =
     (Inr (DhanClient (if ba_BrokerAccountID acc = [] then ba_ApiKey acc else ba_BrokerAccountID acc) acc), s)"

definition test_CreateBroker :: "(client, site) Factory" where
  "test_CreateBroker acc s = (Inr (TestClient (IsProxied acc) (ba_ApiKey acc) (ba_AccessToken acc)), s)"

definition brokerRegistry :: "wiring \<Rightarrow> (client, site) Registry" where
  "brokerRegistry W = Registry_Register ''testbroker'' test_CreateBroker (Registry_Register ''dhan'' dhanBrokerFactory
     (Registry_Register ''zerodha'' (kiteBrokerFactory W) (Registry_Register ''kite'' (kiteBrokerFactory W) NewRegistry)))"

section \<open>The resolver\<close>

definition multiBrokerSyncer :: "wiring \<Rightarrow> uuid \<Rightarrow> site \<Rightarrow> unit result \<times> site" where
  "multiBrokerSyncer W i s = (case on_db (AccountAuthInfo i) s of
      (Inl e, s1) \<Rightarrow> (Inl e, s1)
    | (Inr auth, s1) \<Rightarrow> if ToLower (ar_broker auth) = ''dhan'' then we_dhanSyncer W i s1 else we_kiteSyncer W i s1)"

definition stale_session :: "account_row \<Rightarrow> gotime \<Rightarrow> bool" where
  "stale_session auth now \<longleftrightarrow>
     (ar_access_token auth = [] \<or> ar_auth_status auth = ''error'' \<or> (case ar_token_expires_at auth of None \<Rightarrow> False | Some t \<Rightarrow> \<not> now < t))
     \<and> ar_encrypted_password auth \<noteq> [] \<and> ar_encrypted_totp_secret auth \<noteq> []"

text \<open>A stale session is refreshed first; when that fails the data read before is used.\<close>

definition refresh_auth :: "wiring \<Rightarrow> uuid \<Rightarrow> account_row \<Rightarrow> site \<Rightarrow> account_row \<times> site" where
  "refresh_auth W i auth s =
     (if \<not> stale_session auth (site_now s) then (auth, s)
      else (case multiBrokerSyncer W i s of
         (Inl e, s1) \<Rightarrow> (auth, s1)
       | (Inr _, s1) \<Rightarrow> (case on_db (AccountAuthInfo i) s1 of (Inl e, s2) \<Rightarrow> (auth, s2) | (Inr fresh, s2) \<Rightarrow> (fresh, s2))))"

definition broker_account :: "uuid \<Rightarrow> account_row \<Rightarrow> BrokerAccount" where
  "broker_account i auth = \<lparr> ba_ID = i, ba_Role = ar_role auth, ba_Broker = ar_broker auth, ba_BrokerAccountID = ar_broker_user_id auth,
     ba_ApiKey = ar_api_key auth, ba_ApiSecret = ar_api_secret auth, ba_AccessToken = ar_access_token auth,
     ba_IPAddress = ar_ip_address auth, ba_ProxyHost = [], ba_ProxyPort = 0, ba_ProxyUsername = [], ba_ProxyPassword = [] \<rparr>"

definition through_proxy :: "ProxyIP \<Rightarrow> BrokerAccount \<Rightarrow> BrokerAccount" where
  "through_proxy p acc = acc\<lparr> ba_ProxyHost := pi_Host p, ba_ProxyPort := pi_Port p, ba_ProxyUsername := pi_Username p,
     ba_ProxyPassword := pi_Password p \<rparr>"

definition proxy_error :: "account_row \<Rightarrow> uuid \<Rightarrow> go_error \<Rightarrow> go_error" where
  "proxy_error auth i = errorf (''resolve proxy IP '' @ ar_ip_address auth @ '' for '' @ ar_role auth @ '' '' @ i)"

definition attach_proxy :: "uuid \<Rightarrow> account_row \<Rightarrow> site \<Rightarrow> BrokerAccount result \<times> site" where
  "attach_proxy i auth s =
     (let acc = broker_account i auth
      in if ar_role auth = ''follower'' \<and> ar_ip_address auth = [] then (Inl (errorf (''follower account '' @ i) ErrIPRequired), s)
         else if ar_role auth = ''follower'' \<or> ar_role auth = ''master'' \<and> ar_ip_address auth \<noteq> [] then
           (case ProxyIPByAddress (ar_ip_address auth) s of
              (Inl e, s1) \<Rightarrow> (Inl (proxy_error auth i e), s1)
            | (Inr p, s1) \<Rightarrow> (Inr (through_proxy p acc), s1))
         else (Inr acc, s))"

definition serverBrokerResolver :: "wiring \<Rightarrow> uuid \<Rightarrow> site \<Rightarrow> client result \<times> site" where
  "serverBrokerResolver W i s = (case on_db (AccountAuthInfo i) s of
      (Inl e, s1) \<Rightarrow> (Inl (errorf ''load account auth info'' e), s1)
    | (Inr auth0, s1) \<Rightarrow>
        if ar_api_key auth0 = [] \<and> ar_access_token auth0 = [] then (Inr FakeClient, s1)
        else (case refresh_auth W i auth0 s1 of (auth, s2) \<Rightarrow>
          (case attach_proxy i auth s2 of
             (Inl e, s3) \<Rightarrow> (Inl e, s3)
           | (Inr acc, s3) \<Rightarrow> Registry_Create (brokerRegistry W) acc s3)))"

section \<open>The running server\<close>

text \<open>
  The site, the cached clients, the worker pool with the client each worker was registered with, and
  the order feeds.
\<close>

record runtime =
  rn_site :: site
  rn_clients :: "client AccountPool"
  rn_pool :: Pool
  rn_worker :: "uuid \<rightharpoonup> client"
  rn_tickers :: Manager

definition accountPool :: "wiring \<Rightarrow> uuid \<Rightarrow> runtime \<Rightarrow> client result \<times> runtime" where
  "accountPool W i x = (case ResolveBroker (serverBrokerResolver W) i (rn_clients x) (rn_site x) of
      (r, p, s) \<Rightarrow> (r, x\<lparr> rn_clients := p, rn_site := s \<rparr>))"

definition register_worker :: "uuid \<Rightarrow> client \<Rightarrow> runtime \<Rightarrow> runtime" where
  "register_worker i c x = x\<lparr> rn_pool := Register i 16 (rn_pool x), rn_worker := (rn_worker x)(i \<mapsto> c) \<rparr>"

definition RegisterFollowerWorker :: "wiring \<Rightarrow> uuid \<Rightarrow> runtime \<Rightarrow> unit result \<times> runtime" where
  "RegisterFollowerWorker W i x = (case accountPool W i x of
      (Inl e, x1) \<Rightarrow> (Inl e, x1)
    | (Inr c, x1) \<Rightarrow> (Inr (), register_worker i c x1))"

definition UnregisterFollowerWorker :: "uuid \<Rightarrow> runtime \<Rightarrow> runtime" where
  "UnregisterFollowerWorker i x = x\<lparr> rn_pool := Unregister i (rn_pool x), rn_worker := (rn_worker x)(i := None) \<rparr>"

definition evict_client :: "uuid \<Rightarrow> runtime \<Rightarrow> runtime" where
  "evict_client i x = x\<lparr> rn_clients := Evict i (rn_clients x) \<rparr>"

text \<open>At boot: a follower whose client cannot be built is skipped.\<close>

fun register_all :: "wiring \<Rightarrow> uuid list \<Rightarrow> int \<Rightarrow> runtime \<Rightarrow> int \<times> runtime" where
  "register_all W [] n x = (n, x)"
| "register_all W (i # is) n x = (case RegisterFollowerWorker W i x of
      (Inl _, x1) \<Rightarrow> register_all W is n x1
    | (Inr _, x1) \<Rightarrow> register_all W is (n + 1) x1)"

fun register_groups ::
  "wiring \<Rightarrow> (GroupFollower list \<Rightarrow> GroupFollower list) \<Rightarrow> uuid list \<Rightarrow> int \<Rightarrow> runtime \<Rightarrow> int result \<times> runtime" where
  "register_groups W order_by [] n x = (Inr n, x)"
| "register_groups W order_by (g # gs) n x = (case on_db (GroupDetail_of order_by None g) (rn_site x) of
      (Inl e, s) \<Rightarrow> (Inl e, x\<lparr> rn_site := s \<rparr>)
    | (Inr detail, s) \<Rightarrow> (case register_all W (map gf_AccountID (gd_Followers detail)) n (x\<lparr> rn_site := s \<rparr>) of
        (n1, x1) \<Rightarrow> register_groups W order_by gs n1 x1))"

definition registerFollowers ::
  "wiring \<Rightarrow> (group_row list \<Rightarrow> group_row list) \<Rightarrow> (GroupFollower list \<Rightarrow> GroupFollower list) \<Rightarrow> runtime \<Rightarrow> int result \<times> runtime" where
  "registerFollowers W order_groups order_by x = (case on_db (Groups order_groups None) (rn_site x) of
      (Inl e, s) \<Rightarrow> (Inl e, x\<lparr> rn_site := s \<rparr>)
    | (Inr gs, s) \<Rightarrow> register_groups W order_by (map gs_MasterID gs) 0 (x\<lparr> rn_site := s \<rparr>))"

text \<open>The hook of the portfolio syncer and of the Dhan token renewer. \<open>stop_result\<close> is what stopping a new feed will return.\<close>

definition handleTokenRefreshed :: "wiring \<Rightarrow> unit result \<Rightarrow> uuid \<Rightarrow> runtime \<Rightarrow> unit result \<times> runtime" where
  "handleTokenRefreshed W stop_result i x = (case on_db (AccountRole i) (rn_site x) of
      (Inl e, s) \<Rightarrow> (Inl e, x\<lparr> rn_site := s \<rparr>)
    | (Inr role, s) \<Rightarrow>
        if role = ''master'' then
          (case RestartMaster stop_result i (rn_tickers x) (si_db s) of
             (r, m, d) \<Rightarrow> (r, x\<lparr> rn_site := s\<lparr> si_db := d \<rparr>, rn_tickers := m \<rparr>))
        else if role = ''follower'' then RegisterFollowerWorker W i (x\<lparr> rn_site := s \<rparr>)
        else (Inr (), x\<lparr> rn_site := s \<rparr>))"

definition OnTokenRefreshed :: "wiring \<Rightarrow> unit result \<Rightarrow> uuid \<Rightarrow> runtime \<Rightarrow> unit result \<times> runtime" where
  "OnTokenRefreshed W stop_result i x = handleTokenRefreshed W stop_result i (evict_client i x)"

text \<open>What a handler asks of the running server; a failed registration is only logged.\<close>

fun run_hook :: "wiring \<Rightarrow> unit result \<Rightarrow> hook \<Rightarrow> runtime \<Rightarrow> runtime" where
  "run_hook W r (RegisterFollower i) x = snd (RegisterFollowerWorker W i x)"
| "run_hook W r (UnregisterFollower i) x = UnregisterFollowerWorker i x"
| "run_hook W r (EvictClient i) x = evict_client i x"
| "run_hook W r (StartMaster i) x = (case Manager_StartMaster r i (rn_tickers x) (si_db (rn_site x)) of
      (_, m, d) \<Rightarrow> x\<lparr> rn_tickers := m, rn_site := (rn_site x)\<lparr> si_db := d \<rparr> \<rparr>)"
| "run_hook W r (StopMaster i) x = x\<lparr> rn_tickers := snd (Manager_StopMaster i (rn_tickers x)) \<rparr>"
| "run_hook W r (SyncAccountPortfolio i) x = x\<lparr> rn_site := snd (multiBrokerSyncer W i (rn_site x)) \<rparr>"
| "run_hook W r (DiffGroup i) x = x\<lparr> rn_site := we_diff W i (rn_site x) \<rparr>"

end
