(* ===== verification/Wiring_Thms.thy ===== *)
theory Wiring_Thms
  imports Wiring Accounts_Thms
begin

text \<open>
  What the wiring guarantees: an order to Zerodha or Dhan leaves the server only through the proxy of its
  own account, a refreshed token reaches the worker, and the exceptions the code has.
\<close>

section \<open>The resolver\<close>

lemma auth_info:
  assumes "on_db (AccountAuthInfo i) s = (r, s1)"
  shows "accounts (si_db s1) = accounts (si_db s) \<and> si_proxies s1 = si_proxies s \<and> site_now s1 = site_now s
    \<and> (\<forall>a. r = Inr a \<longrightarrow> find (\<lambda>a. ar_id a = i \<and> live a) (accounts (si_db s)) = Some a)"
proof -
  let ?body = "\<lambda>d. case find (\<lambda>a. ar_id a = i \<and> live a) (accounts d) of None \<Rightarrow> (Inl ErrNotFound, d) | Some a \<Rightarrow> (Inr a, d)"
  have *: "on_db (db_call ?body) s = (r, s1)" using assms by (simp add: AccountAuthInfo_def)
  show ?thesis
  proof (cases rule: on_db_call [of ?body s])
    case (failed e fs)
    then show ?thesis using * by (auto simp: site_now_def)
  next
    case (ran fs)
    then show ?thesis using * by (auto simp: on_db_def site_now_def split: option.splits)
  qed
qed

lemma find_row: "find P xs = Some x \<Longrightarrow> x \<in> set xs \<and> P x"
  by (auto simp: find_Some_iff)

lemma refresh_auth_row:
  assumes "refresh_auth W i auth s = (auth', s')" and "find (\<lambda>a. ar_id a = i \<and> live a) xs = Some auth"
  shows "ar_id auth' = i \<and> live auth' \<and> (auth' = auth \<or> auth' \<in> set (accounts (si_db s')))"
proof -
  have fresh: "a \<in> set (accounts (si_db t')) \<and> ar_id a = i \<and> live a" if "on_db (AccountAuthInfo i) t = (Inr a, t')" for t a t'
  proof -
    have "find (\<lambda>a. ar_id a = i \<and> live a) (accounts (si_db t')) = Some a" using auth_info [OF that] by simp
    from find_row [OF this] show ?thesis by simp
  qed
  have old: "ar_id auth = i \<and> live auth" using find_row [OF assms(2)] by simp
  show ?thesis
  proof (cases "stale_session auth (site_now s)")
    case True
    then show ?thesis using assms(1) old fresh
      by (auto simp: refresh_auth_def simp del: split_paired_All split: prod.splits sum.splits)
  qed (use assms(1) old in \<open>simp add: refresh_auth_def\<close>)
qed

text \<open>The columns of a proxy row that a client connects with.\<close>

definition connects_through :: "BrokerAccount \<Rightarrow> proxy_row \<Rightarrow> bool" where
  "connects_through acc x \<longleftrightarrow> ba_ProxyHost acc = px_host x \<and> ba_ProxyPort acc = px_port x
     \<and> ba_ProxyUsername acc = px_username x \<and> ba_ProxyPassword acc = px_password x"

text \<open>The columns of an account that a client authenticates with.\<close>

definition signs_in_as :: "BrokerAccount \<Rightarrow> account_row \<Rightarrow> bool" where
  "signs_in_as acc a \<longleftrightarrow> ba_ID acc = ar_id a \<and> ba_ApiKey acc = ar_api_key a \<and> ba_ApiSecret acc = ar_api_secret a
     \<and> ba_AccessToken acc = ar_access_token a \<and> ba_BrokerAccountID acc = ar_broker_user_id a"

lemma proxy_read:
  assumes "ProxyIPByAddress ip s = (r, s1)"
  shows "accounts (si_db s1) = accounts (si_db s) \<and> si_proxies s1 = si_proxies s
    \<and> (\<forall>p. r = Inr p \<longrightarrow> (\<exists>x \<in> set (si_proxies s). px_ip_address x = ip \<and> p = proxy_of_row x))"
  using assms unfolding ProxyIPByAddress_def
  by (auto simp: site_call_def find_proxy_def split: list.splits option.splits dest!: find_row)

lemma attach_proxy_spec:
  assumes "attach_proxy i auth s = (Inr acc, s1)" and "ar_id auth = i"
  shows "accounts (si_db s1) = accounts (si_db s) \<and> si_proxies s1 = si_proxies s \<and> signs_in_as acc auth
    \<and> (IsProxied acc \<longrightarrow> (\<exists>x \<in> set (si_proxies s). px_ip_address x = ar_ip_address auth \<and> connects_through acc x))"
proof -
  consider (direct) "acc = broker_account i auth" "s1 = s"
    | (proxied) p where "ProxyIPByAddress (ar_ip_address auth) s = (Inr p, s1)" "acc = through_proxy p (broker_account i auth)"
    using assms(1) by (auto simp: attach_proxy_def Let_def split: if_splits prod.splits sum.splits)
  then show ?thesis
  proof cases
    case direct
    then show ?thesis using assms(2) by (simp add: signs_in_as_def broker_account_def IsProxied_def)
  next
    case proxied
    then obtain x where "x \<in> set (si_proxies s)" "px_ip_address x = ar_ip_address auth" "p = proxy_of_row x"
      using proxy_read by blast
    then show ?thesis using proxied proxy_read [OF proxied(1)] assms(2)
      by (auto simp: signs_in_as_def broker_account_def through_proxy_def proxy_of_row_def connects_through_def intro!: bexI [of _ x])
  qed
qed

text \<open>The clients that the factories build from the data of an account.\<close>

definition built_from :: "client \<Rightarrow> BrokerAccount \<Rightarrow> bool" where
  "built_from c acc \<longleftrightarrow> client_account c = Some acc \<or> c = TestClient (IsProxied acc) (ba_ApiKey acc) (ba_AccessToken acc)"

lemma registry_client:
  assumes "Registry_Create (brokerRegistry W) acc s = (Inr c, s1)"
  shows "built_from c acc \<and> s1 = s"
  using assms
  by (auto simp: Registry_Create_def brokerRegistry_def Registry_Register_def NewRegistry_def kiteBrokerFactory_def dhanBrokerFactory_def
      test_CreateBroker_def built_from_def Let_def split: if_splits option.splits)

lemma built_token: "built_from c acc \<Longrightarrow> client_token c = ba_AccessToken acc"
  by (cases c) (auto simp: built_from_def)

text \<open>A client of an account without a proxy leaves the network alone.\<close>

lemma unproxied_sends_nothing:
  assumes "c = FakeClient \<or> built_from c acc \<and> \<not> IsProxied acc"
  shows "snd (bk_PlaceOrder (client_ops N c) variety p t) = t \<and> snd (bk_CancelOrder (client_ops N c) variety i t) = t"
  using assms
  by (cases c) (auto simp: built_from_def fake_broker_def kite_broker_def kite_PlaceOrder_def kite_CancelOrder_def dhan_broker_def
      dhan_PlaceOrder_def dhan_CancelOrder_def test_broker_def)

text \<open>What the resolver built a client from.\<close>

lemma resolved_client:
  assumes "serverBrokerResolver W i s = (Inr c, s')" and "c \<noteq> FakeClient"
  obtains acc a where "built_from c acc" "a \<in> set (accounts (si_db s)) \<union> set (accounts (si_db s'))" "ar_id a = i" "live a"
    "signs_in_as acc a" "IsProxied acc \<longrightarrow> (\<exists>x \<in> set (si_proxies s'). px_ip_address x = ar_ip_address a \<and> connects_through acc x)"
proof -
  obtain auth0 s1 auth s2 acc s3 where r: "on_db (AccountAuthInfo i) s = (Inr auth0, s1)" "refresh_auth W i auth0 s1 = (auth, s2)"
    "attach_proxy i auth s2 = (Inr acc, s3)" "Registry_Create (brokerRegistry W) acc s3 = (Inr c, s')"
    using assms by (auto simp: serverBrokerResolver_def split: prod.splits sum.splits if_splits)
  have f: "find (\<lambda>a. ar_id a = i \<and> live a) (accounts (si_db s)) = Some auth0" using auth_info [OF r(1)] by simp
  have a: "ar_id auth = i" "live auth" "auth = auth0 \<or> auth \<in> set (accounts (si_db s2))" using refresh_auth_row [OF r(2) f] by auto
  have "built_from c acc" "s' = s3" using registry_client [OF r(4)] by auto
  then show ?thesis using that [of acc auth] a find_row [OF f] attach_proxy_spec [OF r(3) a(1)] by auto
qed


definition ex_wiring :: wiring where
  "ex_wiring = \<lparr> we_proxy_url = (\<lambda>_. None), we_kiteSyncer = (\<lambda>_ s. (Inr (), s)), we_dhanSyncer = (\<lambda>_ s. (Inr (), s)), we_diff = (\<lambda>_ s. s) \<rparr>"

text \<open>A network that counts the requests.\<close>

definition ex_networks :: "nat networks" where
  "ex_networks = \<lparr>
     nw_kite = (\<lambda>_. \<lparr> ka_PlaceOrder = (\<lambda>_ _ n. (Inr \<lparr> or_OrderID = ''o'' \<rparr>, Suc n)), ka_GetOrders = (\<lambda>n. (Inr [], n)),
       ka_GetOrderHistory = (\<lambda>_ n. (Inr [], n)), ka_GetPositions = (\<lambda>n. (Inr [], n)), ka_CancelOrder = (\<lambda>_ i n. (Inr \<lparr> or_OrderID = i \<rparr>, Suc n)) \<rparr>),
     nw_dhan = (\<lambda>_ _. \<lparr> dh_PlaceOrder = (\<lambda>_ n. (Inr \<lparr> or_OrderID = ''o'' \<rparr>, Suc n)), dh_GetPositions = (\<lambda>n. (Inr [], n)),
       dh_GetOrders = (\<lambda>n. (Inr [], n)), dh_GetOrderByID = (\<lambda>_ n. (Inr None, n)), dh_CancelOrder = (\<lambda>i n. (Inr \<lparr> or_OrderID = i \<rparr>, Suc n)) \<rparr>),
     nw_test = (\<lambda>_ _. \<lparr> ta_PlaceOrder = (\<lambda>_ _ n. (Inr \<lparr> or_OrderID = ''o'' \<rparr>, Suc n)), ta_GetOrders = (\<lambda>n. (Inr [], n)),
       ta_GetPositions = (\<lambda>n. (Inr [], n)), ta_CancelOrder = (\<lambda>_ i n. (Inr \<lparr> or_OrderID = i \<rparr>, Suc n)) \<rparr>),
     nw_instruments = (\<lambda>_ _ n. (Inr (''NSE_EQ'', ''1'', 1), n)), nw_parse = (\<lambda>_ _. None) \<rparr>"

definition ex_trader :: client where
  "ex_trader = KiteClient (through_proxy (proxy_of_row (ex_proxy_row ''1.1.1.1'')) (broker_account ''f'' (ex_owned ''f'' ''follower'' ''1.1.1.1'')))"


section \<open>Workers and cached clients over time\<close>

text \<open>
  The steps of the running server on clients, workers and feeds, in any order; the tables of the
  site may change in any way between them.
\<close>

inductive runtime_step :: "wiring \<Rightarrow> runtime \<Rightarrow> runtime \<Rightarrow> bool" for W where
  rs_site: "runtime_step W x (x\<lparr> rn_site := s \<rparr>)"
| rs_resolve: "runtime_step W x (snd (accountPool W i x))"
| rs_refresh: "runtime_step W x (snd (OnTokenRefreshed W r i x))"
| rs_hook: "runtime_step W x (run_hook W r h x)"

text \<open>The client was built by the resolver for the account it is kept for.\<close>

definition built_for :: "wiring \<Rightarrow> uuid \<Rightarrow> client \<Rightarrow> bool" where
  "built_for W i c \<longleftrightarrow> (\<exists>s s'. serverBrokerResolver W i s = (Inr c, s'))"

definition wf_runtime :: "wiring \<Rightarrow> runtime \<Rightarrow> bool" where
  "wf_runtime W x \<longleftrightarrow> (\<forall>i c. ap_brokers (rn_clients x) i = Some c \<or> rn_worker x i = Some c \<longrightarrow> built_for W i c)
     \<and> (\<forall>i. rn_worker x i = None \<longleftrightarrow> p_workers (rn_pool x) i = None)"

lemma wf_accountPool:
  assumes "wf_runtime W x" and "accountPool W i x = (r, x1)"
  shows "wf_runtime W x1 \<and> (\<forall>c. r = Inr c \<longrightarrow> built_for W i c \<and> ap_brokers (rn_clients x1) i = Some c) \<and> rn_pool x1 = rn_pool x"
proof (cases "ap_brokers (rn_clients x) i")
  case None
  obtain q s1 where q: "serverBrokerResolver W i (rn_site x) = (q, s1)" by fastforce
  show ?thesis
  proof (cases q)
    case (Inr c)
    then have "built_for W i c" using q by (auto simp: built_for_def)
    then show ?thesis using assms None q Inr by (auto simp: accountPool_def ResolveBroker_def wf_runtime_def split: if_splits)
  qed (use assms None q in \<open>auto simp: accountPool_def ResolveBroker_def wf_runtime_def\<close>)
next
  case (Some c)
  then show ?thesis using assms by (auto simp: accountPool_def ResolveBroker_def wf_runtime_def)
qed

lemma workers_Register: "p_workers (Register i n p) j = None \<longleftrightarrow> j \<noteq> i \<and> p_workers p j = None"
  by (auto simp: Register_def cancel_def upd_g_def Let_def split: option.splits if_splits)

lemma workers_Unregister: "p_workers (Unregister i p) j = None \<longleftrightarrow> j = i \<or> p_workers p j = None"
  by (auto simp: Unregister_def cancel_def upd_g_def Let_def split: option.splits if_splits)

lemma wf_register:
  assumes "wf_runtime W x"
  shows "wf_runtime W (snd (RegisterFollowerWorker W i x))"
proof -
  obtain r x1 where r: "accountPool W i x = (r, x1)" by fastforce
  note P = wf_accountPool [OF assms r]
  show ?thesis
  proof (cases r)
    case (Inr c)
    then show ?thesis using P r by (simp add: RegisterFollowerWorker_def register_worker_def wf_runtime_def workers_Register)
  qed (use P r in \<open>simp add: RegisterFollowerWorker_def\<close>)
qed

lemma wf_runtime_parts [simp]: "wf_runtime W (x\<lparr> rn_site := s \<rparr>) = wf_runtime W x" "wf_runtime W (x\<lparr> rn_tickers := m \<rparr>) = wf_runtime W x"
  by (simp_all add: wf_runtime_def)

lemma wf_evict: "wf_runtime W x \<Longrightarrow> wf_runtime W (evict_client i x)"
  by (simp add: wf_runtime_def evict_client_def Evict_def)

lemma wf_unregister: "wf_runtime W x \<Longrightarrow> wf_runtime W (UnregisterFollowerWorker i x)"
  by (auto simp: wf_runtime_def UnregisterFollowerWorker_def workers_Unregister split: if_splits)

lemma wf_refreshed: "wf_runtime W x \<Longrightarrow> wf_runtime W (snd (handleTokenRefreshed W r i x))"
  by (simp add: handleTokenRefreshed_def wf_register split: prod.split sum.split)

lemma wf_hook: "wf_runtime W x \<Longrightarrow> wf_runtime W (run_hook W r h x)"
  by (cases h) (simp_all add: wf_register wf_unregister wf_evict split: prod.split)

lemma runtime_step_wf: "runtime_step W x y \<Longrightarrow> wf_runtime W x \<Longrightarrow> wf_runtime W y"
proof (induction rule: runtime_step.induct)
  case (rs_resolve x i)
  then show ?case using wf_accountPool by (metis prod.collapse)
qed (simp_all add: OnTokenRefreshed_def wf_refreshed wf_evict wf_hook)

lemma runtime_run_wf: "(runtime_step W)\<^sup>*\<^sup>* x y \<Longrightarrow> wf_runtime W x \<Longrightarrow> wf_runtime W y"
  by (induction rule: rtranclp_induct) (auto intro: runtime_step_wf)

definition new_runtime :: "site \<Rightarrow> runtime" where
  "new_runtime s = \<lparr> rn_site = s, rn_clients = NewAccountPool, rn_pool = NewPool, rn_worker = Map.empty, rn_tickers = tickerManager \<rparr>"

lemma wf_new_runtime: "wf_runtime W (new_runtime s)"
  by (simp add: wf_runtime_def new_runtime_def NewAccountPool_def NewPool_def)

text \<open>
  Whatever sequence of registrations, evictions, token refreshes and changes of the
  tables the server goes through, an account is only ever served by clients built for it: the worker pool has a
  worker for a follower exactly when it has a client for it, and each client that a worker or the cache
  holds for an account was built from data of this account, and sends orders only when that has a proxy.
\<close>

theorem clients_belong_to_accounts:
  assumes "(runtime_step W)\<^sup>*\<^sup>* (new_runtime s) x"
    and "rn_worker x i = Some c \<or> ap_brokers (rn_clients x) i = Some c"
  shows "(rn_worker x j = None \<longleftrightarrow> p_workers (rn_pool x) j = None)
    \<and> (c = FakeClient \<or> (\<exists>acc. built_from c acc \<and> ba_ID acc = i \<and>
         (\<forall>N variety p t. snd (bk_PlaceOrder (client_ops N c) variety p t) \<noteq> (t :: 't) \<longrightarrow> IsProxied acc)))"
proof -
  have wf: "wf_runtime W x" using runtime_run_wf [OF assms(1) wf_new_runtime] .
  then have "built_for W i c" using assms(2) by (auto simp: wf_runtime_def)
  then obtain s0 s1 where r: "serverBrokerResolver W i s0 = (Inr c, s1)" unfolding built_for_def by blast
  have "\<exists>acc. built_from c acc \<and> ba_ID acc = i" if "c \<noteq> FakeClient"
    using resolved_client [OF r that] by (metis signs_in_as_def)
  then show ?thesis using wf unproxied_sends_nothing [of c _ _ _ _ _ undefined] unfolding wf_runtime_def by metis
qed

definition ex_running :: runtime where
  "ex_running = run_hook ex_wiring (Inr ()) (RegisterFollower ''f'') (new_runtime (ap_site (ex_api [])))"

theorem clients_belong_to_accounts_witness:
  "(rn_worker ex_running ''m'' = None \<longleftrightarrow> p_workers (rn_pool ex_running) ''m'' = None)
   \<and> (\<exists>acc. built_from ex_trader acc \<and> ba_ID acc = ''f'')"
proof -
  have run: "(runtime_step ex_wiring)\<^sup>*\<^sup>* (new_runtime (ap_site (ex_api []))) ex_running"
    unfolding ex_running_def by (rule r_into_rtranclp, rule rs_hook)
  have w: "rn_worker ex_running ''f'' = Some ex_trader" by code_simp
  show ?thesis using clients_belong_to_accounts [OF run disjI1 [OF w], where 't = nat and j = "''m''"] by (auto simp: ex_trader_def)
qed

section \<open>Token refresh\<close>

lemma account_role:
  assumes "on_db (AccountRole i) s = (Inr role, s1)"
  shows "accounts (si_db s1) = accounts (si_db s) \<and> site_now s1 = site_now s
    \<and> (\<exists>a. find (\<lambda>a. ar_id a = i \<and> live a) (accounts (si_db s)) = Some a \<and> role = ar_role a)"
proof -
  let ?body = "\<lambda>d. case find (\<lambda>a. ar_id a = i \<and> live a) (accounts d) of None \<Rightarrow> (Inl ErrNotFound, d) | Some a \<Rightarrow> (Inr (ar_role a), d)"
  have *: "on_db (db_call ?body) s = (Inr role, s1)" using assms by (simp add: AccountRole_def)
  show ?thesis
  proof (cases rule: on_db_call [of ?body s])
    case (failed e fs)
    then show ?thesis using * by simp
  next
    case (ran fs)
    then show ?thesis using * by (auto simp: on_db_def site_now_def split: option.splits)
  qed
qed

text \<open>A session that is not stale is used as it is stored.\<close>

lemma resolver_current:
  assumes "serverBrokerResolver W i s = (Inr c, s')" and "find (\<lambda>a. ar_id a = i \<and> live a) (accounts (si_db s)) = Some a"
    and "\<not> stale_session a (site_now s)" and "ar_access_token a \<noteq> []"
  shows "\<exists>acc. built_from c acc \<and> signs_in_as acc a"
proof -
  obtain auth0 s1 where r0: "on_db (AccountAuthInfo i) s = (Inr auth0, s1)"
    using assms(1) by (auto simp: serverBrokerResolver_def split: prod.splits sum.splits)
  then have [simp]: "auth0 = a" "site_now s1 = site_now s" using auth_info [OF r0] assms(2) by auto
  obtain acc s3 where r: "attach_proxy i a s1 = (Inr acc, s3)" "Registry_Create (brokerRegistry W) acc s3 = (Inr c, s')"
    using assms(1,3,4) r0 by (auto simp: serverBrokerResolver_def refresh_auth_def split: prod.splits sum.splits if_splits)
  then show ?thesis using attach_proxy_spec [OF r(1)] registry_client [OF r(2)] find_row [OF assms(2)] by auto
qed

text \<open>What registering a follower does to the pool.\<close>

lemma Register_effect:
  fixes p :: Pool
  defines "n \<equiv> length (p_gs p)"
  shows "p_workers (Register i b p) = (p_workers p)(i \<mapsto> n)" and "p_gs (Register i b p) ! n = new_goroutine i b"
    and "p_workers p i = Some old \<Longrightarrow> old < n \<Longrightarrow> g_cancelled (p_gs (Register i b p) ! old)"
    and "p_workers p i \<noteq> Some k \<Longrightarrow> k < n \<Longrightarrow> p_gs (Register i b p) ! k = p_gs p ! k"
  by (auto simp: n_def Register_def cancel_def upd_g_def Let_def nth_append split: option.split)

text \<open>
  C32 A refreshed token takes effect: when the hook of a token refresh succeeds for a follower with a
  valid session, the worker and the cache of the follower hold the same client, built with the key and
  token stored now; the worker is a new goroutine, not cancelled and with an empty channel and no job, the old
  goroutine of the follower, when it had one, has been cancelled, and all others are as before.
\<close>

theorem token_refresh_takes_effect:
  assumes "OnTokenRefreshed W r i x = (Inr (), x')"
    and "find (\<lambda>a. ar_id a = i \<and> live a) (accounts (si_db (rn_site x))) = Some a" and "ar_role a = ''follower''"
    and "\<not> stale_session a (site_now (rn_site x))" and "ar_access_token a \<noteq> []"
  shows "(\<exists>c. rn_worker x' i = Some c \<and> ap_brokers (rn_clients x') i = Some c \<and> client_token c = ar_access_token a
      \<and> (\<forall>acc. client_account c = Some acc \<longrightarrow> signs_in_as acc a))
    \<and> (let n = length (p_gs (rn_pool x)); g = p_gs (rn_pool x') ! n
       in p_workers (rn_pool x') = (p_workers (rn_pool x))(i \<mapsto> n) \<and> g_follower g = i \<and> \<not> g_cancelled g \<and> \<not> g_exited g
          \<and> g_ch g = make_chan 16 \<and> h_accepted g = [] \<and> h_placed g = []
          \<and> (\<forall>old < n. p_workers (rn_pool x) i = Some old \<longrightarrow> g_cancelled (p_gs (rn_pool x') ! old))
          \<and> (\<forall>k < n. p_workers (rn_pool x) i \<noteq> Some k \<longrightarrow> p_gs (rn_pool x') ! k = p_gs (rn_pool x) ! k))"
proof -
  let ?x = "evict_client i x"
  obtain s where s: "on_db (AccountRole i) (rn_site ?x) = (Inr (ar_role a), s)"
  proof -
    obtain q s where q: "on_db (AccountRole i) (rn_site ?x) = (q, s)" by fastforce
    then obtain role where role: "q = Inr role" using assms(1) by (cases q) (auto simp: OnTokenRefreshed_def handleTokenRefreshed_def)
    then show ?thesis using that q account_role [OF q [unfolded role]] assms(2) by (auto simp: evict_client_def)
  qed
  let ?y = "?x\<lparr> rn_site := s \<rparr>"
  have db: "accounts (si_db s) = accounts (si_db (rn_site x))" "site_now s = site_now (rn_site x)"
    using account_role [OF s] by (simp_all add: evict_client_def)
  have reg: "RegisterFollowerWorker W i ?y = (Inr (), x')"
    using assms(1,3) s by (simp add: OnTokenRefreshed_def handleTokenRefreshed_def)
  have empty: "ap_brokers (rn_clients ?y) i = None" by (simp add: evict_client_def Evict_def)
  obtain c s' where c: "serverBrokerResolver W i s = (Inr c, s')"
    and x': "x' = register_worker i c (?y\<lparr> rn_clients := (rn_clients ?y)\<lparr> ap_brokers := (ap_brokers (rn_clients ?y))(i \<mapsto> c) \<rparr>, rn_site := s' \<rparr>)"
    using reg empty by (auto simp: RegisterFollowerWorker_def accountPool_def ResolveBroker_def split: prod.splits sum.splits)
  obtain acc where acc: "built_from c acc" "signs_in_as acc a" using resolver_current [OF c, of a] assms(2,4,5) db by auto
  then have "client_token c = ar_access_token a" "\<forall>acc. client_account c = Some acc \<longrightarrow> signs_in_as acc a"
    using built_token [OF acc(1)] by (auto simp: built_from_def signs_in_as_def)
  moreover have "rn_pool x' = Register i 16 (rn_pool x)" using x' by (simp add: register_worker_def evict_client_def)
  ultimately show ?thesis using x' Register_effect [where p = "rn_pool x" and i = i and b = 16]
    by (simp add: Let_def register_worker_def evict_client_def new_goroutine_def)
qed

definition put_token :: "string \<Rightarrow> site \<Rightarrow> site" where
  "put_token token s = snd (on_db (SetAccountAccessToken ''f'' token None ''authenticated'' []) s)"

definition ex_trading :: runtime where
  "ex_trading = run_hook ex_wiring (Inr ()) (RegisterFollower ''f'') (new_runtime (put_token ''old'' (ap_site (ex_api []))))"

theorem token_refresh_takes_effect_witness:
  "map_option client_token (rn_worker ex_trading ''f'') = Some ''old''
   \<and> map_option client_token (rn_worker (snd (OnTokenRefreshed ex_wiring (Inr ()) ''f''
       (ex_trading\<lparr> rn_site := put_token ''new'' (rn_site ex_trading) \<rparr>))) ''f'') = Some ''new''"
proof -
  let ?x = "ex_trading\<lparr> rn_site := put_token ''new'' (rn_site ex_trading) \<rparr>"
  let ?a = "(ex_owned ''f'' ''follower'' ''1.1.1.1'')\<lparr> ar_access_token := ''new'', ar_auth_status := ''authenticated'' \<rparr>"
  have ok: "fst (OnTokenRefreshed ex_wiring (Inr ()) ''f'' ?x) = Inr ()" by code_simp
  then have run: "OnTokenRefreshed ex_wiring (Inr ()) ''f'' ?x = (Inr (), snd (OnTokenRefreshed ex_wiring (Inr ()) ''f'' ?x))"
    by (metis prod.collapse)
  have row: "find (\<lambda>a. ar_id a = ''f'' \<and> live a) (accounts (si_db (rn_site ?x))) = Some ?a" by code_simp
  have role: "ar_role ?a = ''follower''" and fresh: "\<not> stale_session ?a (site_now (rn_site ?x))" and token: "ar_access_token ?a \<noteq> []"
    by code_simp+
  have old: "map_option client_token (rn_worker ex_trading ''f'') = Some ''old''" by code_simp
  from token_refresh_takes_effect [OF run row role fresh token] show ?thesis using old by auto
qed

section \<open>Where the wiring falls short\<close>

text \<open>A request that carries only an access token runs one step.\<close>

lemma token_patch_steps:
  "run_steps (patch_steps E u i (ex_patch\<lparr> pt_AccessToken := Some raw \<rparr>)) acc x
   = api_then (patch_token E u i (ex_patch\<lparr> pt_AccessToken := Some raw \<rparr>) acc x) (\<lambda>acc x. (Inr acc, x))"
  by (simp add: patch_steps_def patch_column_def patch_active_def patch_enabled_def patch_group_def patch_terms_def patch_status_def
      patch_ip_def patch_credentials_def api_then_def ex_patch_def split: prod.split sum.split)

lemma find_upd_account:
  assumes "find (\<lambda>a. ar_id a = i \<and> live a) (accounts d) = Some a" "\<And>a. ar_id (f a) = ar_id a" "\<And>a. live (f a) = live a"
  shows "find (\<lambda>a. ar_id a = i \<and> live a) (accounts (upd_account i f d)) = Some (f a)"
proof -
  have "find (\<lambda>a. ar_id a = i \<and> live a) (update_where (\<lambda>a. ar_id a = i) f xs) = map_option f (find (\<lambda>a. ar_id a = i \<and> live a) xs)" for xs
    by (induction xs) (simp_all add: update_where_def assms(2,3))
  then show ?thesis using assms(1) by (simp add: upd_account_def)
qed

text \<open>The one step of such a request, without a database failure.\<close>

lemma token_patch:
  assumes "faults (si_db (ap_site x)) = []" "find (\<lambda>a. ar_id a = i \<and> live a) (accounts (si_db (ap_site x))) = Some a"
    "ar_role a = ''follower''" "hs_followerRegistrar (ae_hooks E)"
    "patch_token E u i (ex_patch\<lparr> pt_AccessToken := Some raw \<rparr>) acc x = (Inr acc', y)"
  shows "snd acc' \<and> ap_log y = ap_log x @ [RegisterFollower i]
    \<and> (\<exists>a'. find (\<lambda>a. ar_id a = i \<and> live a) (accounts (si_db (ap_site y))) = Some a' \<and> ar_access_token a' = TrimSpace raw)"
proof -
  let ?f = "\<lambda>k t st a. a\<lparr> ar_access_token := k, ar_token_expires_at := t, ar_auth_status := st, ar_auth_error := [] \<rparr>"
  let ?x = "\<lambda>k t st. x\<lparr> ap_site := (ap_site x)\<lparr> si_db := upd_account i (?f k t st) (si_db (ap_site x)) \<rparr> \<rparr>"
  obtain as where r: "on_db (Accounts (ae_rows E) u (Some [i])) (ap_site x) = (Inr as, ap_site x)"
    using assms(1) by (simp add: on_db_def Accounts_def db_call_def)
  have row: "find (\<lambda>a. ar_id a = i \<and> live a) (accounts (upd_account i (?f k t st) (si_db (ap_site x)))) = Some (?f k t st a)" for k t st
    by (rule find_upd_account [OF assms(2)]) (simp_all add: live_def)
  have set: "patch_store (SetAccountAccessToken i k t st []) x = (Inr (), ?x k t st)" for k t st
    using assms(1) find_row [OF assms(2)]
    by (auto simp: patch_store_def call_store_def on_db_def SetAccountAccessToken_def set_account_def db_call_def find_account_def find_None_iff)
  have role: "role_or_empty i (?x k t st) = (Inr ''follower'', ?x k t st)" for k t st
    using assms(1,3) row
    by (simp add: role_or_empty_def try_store_def api_then_def on_db_def AccountRole_def db_call_def upd_account_def)
  have "\<exists>t st. snd acc' \<and> y = notify E (RegisterFollower i) (?x (TrimSpace raw) t st)"
    using assms(5) r
    by (auto simp: patch_token_def try_store_def api_then_def Let_def set role ex_patch_def dhan_token_def notify_if_def
        split: option.splits list.splits if_splits sum.splits)
  then obtain t st where "snd acc'" "y = notify E (RegisterFollower i) (?x (TrimSpace raw) t st)" by blast
  then show ?thesis using assms(4) row by (simp add: notify_def)
qed



text \<open>
  An account without a key and a token gets the fake broker: every order is answered with success and an empty order
  id, and nothing is sent.
\<close>

theorem keyless_orders_vanish:
  assumes "find (\<lambda>a. ar_id a = i \<and> live a) (accounts (si_db s)) = Some a" and "ar_api_key a = []" and "ar_access_token a = []"
    and "faults (si_db s) = []"
  shows "\<exists>c. serverBrokerResolver W i s = (Inr c, s) \<and> bk_PlaceOrder (client_ops N c) variety p t = (Inr \<lparr> or_OrderID = [] \<rparr>, t)"
  using assms by (simp add: serverBrokerResolver_def AccountAuthInfo_def on_db_def db_call_def fake_broker_def)

end
