(* ===== verification/Groups_Api.thy ===== *)
theory Groups_Api
  imports Accounts_Api
begin

text \<open>
  The group handlers (\<open>httpapi/groups.go\<close>): listing, creation, rename and change of the master, deletion and
  attaching a follower. State, environment and log are those of theory \<open>Accounts_Api\<close>. A path parameter is
  \<open>None\<close> when it is no identifier, a body is \<open>None\<close> when it is no JSON of the request's type.
\<close>

section \<open>Reading\<close>

definition getGroups :: "account_env \<Rightarrow> (group_row list \<Rightarrow> group_row list) \<Rightarrow> uuid option \<Rightarrow> api \<Rightarrow> http_response \<times> api" where
  "getGroups E order_by u x = respond (api_then
     (call_store (on_db (Groups order_by u)) (\<lambda>_. writeError 500 ''failed to list groups'') x)
     (\<lambda>gs x. (Inr (writeJSON 200 (JGroups gs)), x)))"

definition getGroupDetail :: "account_env \<Rightarrow> uuid option \<Rightarrow> uuid option \<Rightarrow> api \<Rightarrow> http_response \<times> api" where
  "getGroupDetail E u pathID x = (case pathID of
      None \<Rightarrow> (writeError 400 ''invalid group id'', x)
    | Some i \<Rightarrow> respond (api_then (call_store (on_db (GroupDetail_of (ae_followers E) u i)) (\<lambda>e.
          if errors_Is e ErrNotFound then writeError 404 ''group not found'' else writeError 500 ''failed to load group'') x)
        (\<lambda>detail x. (Inr (writeJSON 200 (JGroup detail)), x))))"

section \<open>Changing groups\<close>

text \<open>The account of a request that must have a given role.\<close>

definition check_role :: "uuid \<Rightarrow> string \<Rightarrow> string \<Rightarrow> string \<Rightarrow> unit step" where
  "check_role i role failed invalid x = api_then (try_store (on_db (AccountRole i)) x) (\<lambda>r x. (case r of
      Inl e \<Rightarrow> (Inl (if errors_Is e ErrNotFound then writeError 400 invalid else writeError 500 failed), x)
    | Inr actual \<Rightarrow> if actual \<noteq> role then (Inl (writeError 400 invalid), x) else (Inr (), x)))"

definition check_master :: "account_env \<Rightarrow> string \<Rightarrow> uuid step" where
  "check_master E raw x = (case ae_parse_uuid E raw of
      None \<Rightarrow> (Inl (writeError 400 ''invalid masterId''), x)
    | Some m \<Rightarrow> api_then (check_role m ''master'' ''failed to validate masterId'' ''invalid masterId: account must have master role'' x)
        (\<lambda>_ x. (Inr m, x)))"

record postGroupRequest =
  pg_Name :: string
  pg_MasterID :: string

definition postGroup :: "account_env \<Rightarrow> uuid option \<Rightarrow> postGroupRequest option \<Rightarrow> api \<Rightarrow> http_response \<times> api" where
  "postGroup E u body x = (case body of
      None \<Rightarrow> (writeError 400 ''malformed JSON body'', x)
    | Some req \<Rightarrow>
        if pg_Name req = [] then (writeError 400 ''name is required'', x)
        else respond (api_then (check_master E (pg_MasterID req) x) (\<lambda>masterID x.
          api_then (call_store (on_db (CreateGroup u (ae_uuid E) (pg_Name req) masterID)) (\<lambda>e.
              if errors_Is e ErrDuplicate then writeError 409 ''master account is already assigned to a group''
              else writeError 500 ''failed to create group'') x)
            (\<lambda>_ x. (Inr (writeJSON 201 (JFields [(''id'', FString (ae_uuid E)), (''name'', FString (pg_Name req)),
               (''masterId'', FString (pg_MasterID req))])), x)))))"

record patchGroupRequest =
  pgr_Name :: "string option"
  pgr_MasterID :: "string option"

definition update_error :: "go_error \<Rightarrow> http_response" where
  "update_error e =
     (if errors_Is e ErrNotFound then writeError 404 ''group not found''
      else if errors_Is e ErrMasterHasOpenPositions then writeError 409 ''cannot swap master: master has open positions''
      else if errors_Is e ErrDuplicate then writeError 409 ''new master account is already assigned to another group''
      else writeError 500 ''failed to update group'')"

definition patchGroup :: "account_env \<Rightarrow> uuid option \<Rightarrow> uuid option \<Rightarrow> patchGroupRequest option \<Rightarrow> api \<Rightarrow> http_response \<times> api" where
  "patchGroup E u pathID body x = (case pathID of
      None \<Rightarrow> (writeError 400 ''invalid group id'', x)
    | Some i \<Rightarrow> (case body of
        None \<Rightarrow> (writeError 400 ''malformed JSON body'', x)
      | Some req \<Rightarrow> respond (api_then (case pgr_MasterID req of
             None \<Rightarrow> (Inr None, x)
           | Some raw \<Rightarrow> api_then (check_master E raw x) (\<lambda>m x. (Inr (Some m), x)))
          (\<lambda>masterIDPtr x. api_then (call_store (on_db (UpdateGroup u i (pgr_Name req) masterIDPtr)) update_error x)
             (\<lambda>_ x. (Inr (writeJSON 200 (JStatus ''ok'')), x))))))"

definition deleteGroup :: "account_env \<Rightarrow> uuid option \<Rightarrow> api \<Rightarrow> http_response \<times> api" where
  "deleteGroup E pathID x = (case pathID of
      None \<Rightarrow> (writeError 400 ''invalid group id'', x)
    | Some i \<Rightarrow> respond (api_then (call_store (on_db (DeleteGroup i)) (\<lambda>e.
          if errors_Is e ErrConflict then writeError 409 ''group has follower accounts attached; detach them first''
          else if errors_Is e ErrNotFound then writeError 404 ''group not found''
          else writeError 500 ''failed to delete group'') x)
        (\<lambda>_ x. (Inr (writeJSON 204 JNoContent), x))))"

section \<open>Attaching a follower\<close>

record postGroupFollowerRequest =
  gfr_AccountID :: string
  gfr_CloneFactor :: string
  gfr_CapitalRatio :: string
  gfr_MaxQtyPerOrder :: "int option"

definition clone_factor :: "account_env \<Rightarrow> postGroupFollowerRequest \<Rightarrow> decimal option" where
  "clone_factor E req =
     (let cf0 = TrimSpace (gfr_CloneFactor req); cf1 = (if cf0 = [] then TrimSpace (gfr_CapitalRatio req) else cf0);
          cfStr = (if cf1 = [] then ''1'' else cf1)
      in (case ae_decimal E cfStr of None \<Rightarrow> None | Some c \<Rightarrow> if c \<le> 0 then None else Some c))"

text \<open>The target is a group or a master; a group that is not found is left to the foreign key.\<close>

definition link_target :: "account_env \<Rightarrow> uuid option \<Rightarrow> uuid \<Rightarrow> (uuid \<times> uuid) step" where
  "link_target E u targetID x =
     api_then (try_store (on_db (AccountRole targetID)) x) (\<lambda>targetRole x.
       if (case targetRole of Inl _ \<Rightarrow> False | Inr role \<Rightarrow> role \<noteq> ''master'') then
         (Inl (writeError 400 ''invalid masterId: account is not a master''), x)
       else api_then (try_store (on_db (GroupDetail_of (ae_followers E) u targetID)) x) (\<lambda>detail x. (case detail of
          Inl e \<Rightarrow> if \<not> errors_Is e ErrNotFound then (Inl (writeError 500 ''failed to resolve group''), x)
                   else (Inr (targetID, if targetRole = Inr ''master'' then targetID else uuid_Nil), x)
        | Inr g \<Rightarrow> (Inr (if gd_GroupID g = uuid_Nil then targetID else gd_GroupID g,
             if gd_MasterID g = uuid_Nil \<and> targetRole = Inr ''master'' then targetID else gd_MasterID g), x))))"

definition postGroupFollower ::
  "account_env \<Rightarrow> uuid option \<Rightarrow> uuid option \<Rightarrow> postGroupFollowerRequest option \<Rightarrow> api \<Rightarrow> http_response \<times> api" where
  "postGroupFollower E u pathID body x = (case pathID of
      None \<Rightarrow> (writeError 400 ''invalid group/master id'', x)
    | Some targetID \<Rightarrow> (case body of
        None \<Rightarrow> (writeError 400 ''malformed JSON body'', x)
      | Some req \<Rightarrow> (case ae_parse_uuid E (gfr_AccountID req) of
          None \<Rightarrow> (writeError 400 ''invalid accountId'', x)
        | Some accountID \<Rightarrow> (case clone_factor E req of
            None \<Rightarrow> (writeError 400 ''invalid cloneFactor'', x)
          | Some cloneFactor \<Rightarrow> respond (api_then (link_target E u targetID x) (\<lambda>(linkGroupID, linkMasterID) x.
              api_then (check_role accountID ''follower'' ''failed to validate accountId'' ''invalid accountId'' x) (\<lambda>_ x.
              api_then (call_store (on_db (CreateFollowLink \<lparr> fl_FollowerID = accountID, fl_GroupID = linkGroupID, fl_MasterID = linkMasterID,
                  fl_CloneFactor = cloneFactor, fl_MaxQtyPerOrder = (case gfr_MaxQtyPerOrder req of None \<Rightarrow> 0 | Some q \<Rightarrow> q), fl_Enabled = True,
                  fl_EffectiveFrom = 0, fl_Status = [], fl_AuthStatus = [] \<rparr>)) (\<lambda>e.
                    if errors_Is e ErrDuplicate then writeError 409 ''account is already attached to a group''
                    else writeError 500 ''failed to attach account to group'') x)
                (\<lambda>_ x. (Inr (writeJSON 201 JNoContent), notify E (RegisterFollower accountID) x)))))))))"

end
