(* ===== verification/Groups_Thms.thy ===== *)
theory Groups_Thms
  imports Groups_Api Accounts_Thms
begin

text \<open>
  Properties of the group handlers together with the account handlers: masters and followers stay apart,
  so that copying never loops, and what the handlers answer.
\<close>

section \<open>Masters and followers stay apart\<close>

definition role_view :: "site \<Rightarrow> (uuid \<times> string \<times> bool) list \<times> (uuid \<times> uuid) list \<times> uuid list" where
  "role_view s = (map (\<lambda>a. (ar_id a, ar_role a, live a)) (accounts (si_db s)), map (\<lambda>g. (gp_id g, gp_master_id g)) (groups (si_db s)),
     map lk_follower_id (follow_links (si_db s)))"

definition role_in :: "uuid \<Rightarrow> string \<Rightarrow> db \<Rightarrow> bool" where
  "role_in i role d \<longleftrightarrow> (\<exists>a \<in> set (accounts d). ar_id a = i \<and> live a \<and> ar_role a = role)"

text \<open>Followers that are linked are live accounts with the role of a follower, masters of groups live accounts with that of a master.\<close>

definition apart :: "db \<Rightarrow> bool" where
  "apart d \<longleftrightarrow> distinct (map ar_id (accounts d)) \<and> (\<forall>l \<in> set (follow_links d). role_in (lk_follower_id l) ''follower'' d)
     \<and> (\<forall>g \<in> set (groups d). role_in (gp_master_id g) ''master'' d)"

lemma role_cong:
  assumes "role_view s' = role_view s"
  shows "apart (si_db s') = apart (si_db s)" "role_in i role (si_db s') = role_in i role (si_db s)"
proof -
  have view: "role_in i role (si_db t) \<longleftrightarrow> (i, role, True) \<in> set (fst (role_view t))" for i role t
    by (auto simp: role_in_def role_view_def image_iff)
  have "apart (si_db t) \<longleftrightarrow> distinct (map fst (fst (role_view t))) \<and> (\<forall>f \<in> set (snd (snd (role_view t))). (f, ''follower'', True) \<in> set (fst (role_view t)))
      \<and> (\<forall>m \<in> set (map snd (fst (snd (role_view t)))). (m, ''master'', True) \<in> set (fst (role_view t)))" for t
    unfolding apart_def view by (simp add: role_view_def comp_def)
  then show "apart (si_db s') = apart (si_db s)" "role_in i role (si_db s') = role_in i role (si_db s)" using assms by (simp_all add: view)
qed

lemma role_body:
  "role_view (s\<lparr> si_db := (si_db s)\<lparr> faults := fs \<rparr> \<rparr>) = role_view s"
  "(\<And>a. ar_id (f a) = ar_id a \<and> ar_role (f a) = ar_role a \<and> ar_deleted_at (f a) = ar_deleted_at a)
    \<Longrightarrow> role_view (s\<lparr> si_db := upd_account i f (si_db s) \<rparr>) = role_view s"
  "(\<And>l. lk_follower_id (g l) = lk_follower_id l) \<Longrightarrow>
    role_view (s\<lparr> si_db := (si_db s)\<lparr> follow_links := update_where P g (follow_links (si_db s)) \<rparr> \<rparr>) = role_view s"
  by (simp_all add: role_view_def upd_account_def map_update_where live_def)

interpretation patch_roles: column_ops role_view i
proof
  note calls = op_call [of role_view, OF role_body(1)]
  show "role_view (s\<lparr> si_db := (si_db s)\<lparr> faults := fs \<rparr> \<rparr>) = role_view s" for s fs by (rule role_body)
  show "keeps_op role_view (on_db (SetAccountName i n))" "keeps_op role_view (on_db (SetAccountAPIKey i n))"
    "keeps_op role_view (on_db (SetAccountAPISecret i n))" "keeps_op role_view (on_db (SetAccountEncryptedCredentials i n t))"
    "keeps_op role_view (on_db (SetAccountAccessToken i n e t m))" "keeps_op role_view (on_db (SetAccountIPAddress i n))" for n t e m
    unfolding SetAccountName_def SetAccountAPIKey_def SetAccountAPISecret_def SetAccountEncryptedCredentials_def
      SetAccountAccessToken_def SetAccountIPAddress_def set_account_def
    by (rule calls; simp add: role_body)+
  show "keeps_op role_view (on_db (SetAccountStatus i st))" for st
    unfolding SetAccountStatus_def by (intro op_if op_return calls; simp add: role_body)
  show "keeps_op role_view (on_db (UpdateFollowLinkTerms i c q))" for c q
    unfolding UpdateFollowLinkTerms_def by (rule calls; simp add: role_body)
  show "keeps_op role_view (on_db (SetFollowLinkEnabled i b))" "keeps_op role_view (on_db (SetAccountActive i b))" for b
    unfolding SetFollowLinkEnabled_def SetAccountActive_def
    by (rule calls; simp add: role_view_def upd_account_def map_update_where live_def Let_def)+
qed

abbreviation roles :: "site \<Rightarrow> bool" where
  "roles s \<equiv> apart (si_db s)"

lemma role_closed: "closed_under role_view roles roles" "closed_under role_view roles (\<lambda>s. roles s \<and> role_in i role (si_db s))"
  unfolding closed_under_def using role_cong by blast+

subsection \<open>Store operations\<close>

lemma role_simps [simp]:
  "apart (d\<lparr> faults := fs \<rparr>) = apart d" "role_in i role (d\<lparr> faults := fs \<rparr>) = role_in i role d"
  "role_in i role (d\<lparr> follow_links := ls \<rparr>) = role_in i role d" "role_in i role (d\<lparr> groups := gs \<rparr>) = role_in i role d"
  "apart (d\<lparr> account_positions := ps \<rparr>) = apart d" "role_in i role (d\<lparr> account_positions := ps \<rparr>) = role_in i role d"
  by (simp_all add: apart_def role_in_def)

lemma si_db_on_db [simp]: "si_db (snd (on_db f s)) = snd (f (si_db s))"
  by (simp add: on_db_def case_prod_beta)

text \<open>What holds of the body, whatever faults are pending, and of a failed call holds of the call.\<close>

lemma db_callI: "(\<And>fs. Q (body (d\<lparr> faults := fs \<rparr>))) \<Longrightarrow> (\<And>e fs. Q (Inl e, d\<lparr> faults := fs \<rparr>)) \<Longrightarrow> Q (db_call body d)"
  by (rule db_call_cases [of body d]) auto

lemma db_query: "db_call (\<lambda>d. (q d, d)) d = (r, d1) \<Longrightarrow> \<exists>fs. d1 = d\<lparr> faults := fs \<rparr> \<and> (r = q (d\<lparr> faults := fs \<rparr>) \<or> (\<exists>e. r = Inl e))"
  by (rule db_call_cases [of "\<lambda>d. (q d, d)" d]) auto

lemma apart_call: "apart d \<Longrightarrow> (\<And>fs. apart (snd (body (d\<lparr> faults := fs \<rparr>)))) \<Longrightarrow> apart (snd (db_call body d))"
  by (rule db_callI) simp_all

lemma apart_then: "apart (snd r) \<Longrightarrow> (\<And>a d. r = (Inr a, d) \<Longrightarrow> apart d \<Longrightarrow> apart (snd (g a d))) \<Longrightarrow> apart (snd (db_then r g))"
  by (cases r; cases "fst r") (auto simp: db_then_def)

lemma role_of_account:
  assumes "AccountRole i d = (r, d')"
  shows "apart d' = apart d" "role_in j rl d' = role_in j rl d" "r = Inr role \<Longrightarrow> role_in i role d"
proof -
  let ?body = "\<lambda>d. case find (\<lambda>a. ar_id a = i \<and> live a) (accounts d) of None \<Rightarrow> (Inl ErrNotFound, d) | Some a \<Rightarrow> (Inr (ar_role a), d)"
  have *: "db_call ?body d = (r, d')" using assms by (simp add: AccountRole_def)
  have "(\<exists>fs. d' = d\<lparr> faults := fs \<rparr>) \<and> (\<forall>role. r = Inr role \<longrightarrow> role_in i role d)"
  proof (cases rule: db_call_cases [of ?body d])
    case (1 fs)
    then show ?thesis using * by (auto simp: role_in_def split: option.splits dest!: find_Some_mem)
  next
    case (2 e fs)
    then show ?thesis using * by auto
  qed
  then show "apart d' = apart d" "role_in j rl d' = role_in j rl d" "r = Inr role \<Longrightarrow> role_in i role d" using assms by auto
qed

lemma apart_unlink: "apart d \<Longrightarrow> apart (snd (DeleteFollowLink i d))"
  unfolding DeleteFollowLink_def by (rule apart_call) (auto simp: apart_def role_in_def)

lemma role_unlink: "role_in j role (snd (DeleteFollowLink i d)) = role_in j role d"
  unfolding DeleteFollowLink_def by (rule db_callI) simp_all

lemma apart_link:
  assumes "apart d" and "role_in (fl_FollowerID l) ''follower'' d"
  shows "apart (snd (CreateFollowLink l d))"
proof -
  have ins: "apart (snd (db_call (\<lambda>d. if \<not> 0 < numeric6 (fl_CloneFactor l) then (Inl pg_check, d)
            else if fl_FollowerID l \<in> set (map lk_follower_id (follow_links d)) then (Inl ErrDuplicate, d)
            else if \<not> account_exists d (fl_FollowerID l) \<or> groupID \<notin> set (map gp_id (groups d))
              then (Inl ErrConflict, d)
            else (Inr (), d\<lparr> follow_links := follow_links d @ [\<lparr> lk_follower_id = fl_FollowerID l,
                    lk_group_id = groupID, lk_clone_factor = numeric6 (fl_CloneFactor l),
                    lk_max_qty_per_order = nullableMaxQty (fl_MaxQtyPerOrder l),
                    lk_enabled = fl_Enabled l, lk_effective_from = db_now d \<rparr>] \<rparr>)) t))"
    if "apart t" "role_in (fl_FollowerID l) ''follower'' t" for groupID t
    using that by (intro apart_call) (auto simp: apart_def)
  show ?thesis
    unfolding CreateFollowLink_def Let_def using assms ins
    by (auto split: prod.split sum.split dest!: db_query)
qed

lemma role_unique: "apart d \<Longrightarrow> role_in i r d \<Longrightarrow> a \<in> set (accounts d) \<Longrightarrow> ar_id a = i \<Longrightarrow> live a \<and> ar_role a = r"
  by (auto simp: apart_def role_in_def distinct_map inj_on_def)

lemma role_other: "(\<And>a. ar_id (f a) = ar_id a) \<Longrightarrow> j \<noteq> i \<Longrightarrow> role_in j role (upd_account i f d) = role_in j role d"
  by (auto simp: role_in_def upd_account_def update_where_def split: if_splits)

text \<open>An update of an account that no link and no group refers to.\<close>

lemma apart_update:
  assumes "apart d" and "\<And>a. ar_id (f a) = ar_id a"
    and "\<And>l. l \<in> set (follow_links d) \<Longrightarrow> lk_follower_id l \<noteq> i" and "\<And>g. g \<in> set (groups d) \<Longrightarrow> gp_master_id g \<noteq> i"
  shows "apart (upd_account i f d)"
proof -
  have "map ar_id (update_where (\<lambda>a. ar_id a = i) f (accounts d)) = map ar_id (accounts d)"
    using assms(2) by (simp add: map_update_where)
  then show ?thesis
    using assms(1,3,4) role_other [of f _ i _ d, OF assms(2)]
    by (simp add: apart_def) (auto simp: upd_account_def)
qed

lemma apart_delete: "apart d \<Longrightarrow> apart (snd (DeleteAccount i d))"
  unfolding DeleteAccount_def
proof (rule apart_call)
  fix fs assume d: "apart d"
  let ?d = "d\<lparr> faults := fs \<rparr>"
  let ?f = "\<lambda>now a. if live a then a\<lparr> ar_deleted_at := Some now, ar_ip_address := [], ar_active := False \<rparr> else a"
  have follower: "lk_follower_id l \<noteq> i" if "l \<in> set (follow_links d)" "a \<in> set (accounts d)" "ar_id a = i" "ar_role a = ''master''" for l a
    using role_unique [OF d _ that(2)] d that by (fastforce simp: apart_def)
  have master: "gp_master_id g \<noteq> i" if "g \<in> set (groups d)" "a \<in> set (accounts d)" "ar_id a = i" "ar_role a \<noteq> ''master''" for g a
    using role_unique [OF d _ that(2)] d that by (fastforce simp: apart_def)
  have gone: "apart (?d\<lparr> groups := filter (\<lambda>g. gp_master_id g \<noteq> i) (groups d) \<rparr>)" using d by (auto simp: apart_def)
  have "apart (upd_account i (?f now) (?d\<lparr> groups := filter (\<lambda>g. gp_master_id g \<noteq> i) (groups d), account_positions := ps \<rparr>))"
    if "a \<in> set (accounts d)" "ar_id a = i" "ar_role a = ''master''" for a now ps
    using gone follower [OF _ that] by (intro apart_update) (auto simp: live_def)
  moreover have "apart (upd_account i (?f now) (?d\<lparr> account_positions := ps \<rparr>))"
    if "a \<in> set (accounts d)" "ar_id a = i" "ar_role a \<noteq> ''master''" "\<not> list_ex (\<lambda>l. lk_follower_id l = i) (follow_links d)" for a now ps
    using d master [OF _ that(1-3)] that(4) by (intro apart_update) (auto simp: live_def list_ex_iff)
  ultimately show "apart (snd (case find (\<lambda>a. ar_id a = i \<and> live a) (accounts ?d) of
       None \<Rightarrow> (Inl ErrNotFound, ?d)
     | Some acc \<Rightarrow>
         let mine = map gp_id (filter (\<lambda>g. gp_master_id g = i) (groups ?d));
             clear = (\<lambda>d. upd_account i (\<lambda>a. if live a then a\<lparr> ar_deleted_at := Some (db_now d), ar_ip_address := [],
                                        ar_active := False \<rparr> else a)
                       (d\<lparr> account_positions := filter (\<lambda>p. ap_account_id p \<noteq> i) (account_positions d) \<rparr>))
         in if ar_role acc = ''master'' then
              if list_ex (\<lambda>l. lk_group_id l \<in> set mine) (follow_links ?d) then (Inl ErrConflict, ?d)
              else (Inr (), clear (?d\<lparr> groups := filter (\<lambda>g. gp_master_id g \<noteq> i) (groups ?d) \<rparr>))
            else if list_ex (\<lambda>l. lk_follower_id l = i) (follow_links ?d) then (Inl ErrConflict, ?d)
            else (Inr (), clear ?d)))"
    using d by (simp add: Let_def split: option.split) (use find_Some_mem in fastforce)
qed

lemma apart_create:
  assumes "apart d"
  shows "apart (snd (CreateAccountWithCredentials u i n role b bu k sec ip p t d))"
    and "fst (CreateAccountWithCredentials u i n role b bu k sec ip p t d) = Inr j
      \<Longrightarrow> role_in j role (snd (CreateAccountWithCredentials u i n role b bu k sec ip p t d))"
proof -
  let ?ok = "\<lambda>r. apart (snd r) \<and> (\<forall>j. fst r = Inr j \<longrightarrow> role_in j role (snd r))"
  have new: "?ok (db_call (\<lambda>d.
            if \<not> valid_role role then (Inl pg_enum, d)
            else if account_exists d i then (Inl ErrDuplicate, d)
            else if list_ex (\<lambda>a. ar_broker a = b \<and> ar_broker_user_id a = bu) (accounts d) then (Inl ErrDuplicate, d)
            else if ip_taken d i ip then (Inl ErrIPAlreadyAssigned, d)
            else (Inr i, d\<lparr> accounts := accounts d @ [new_account u i n role b bu k sec ip p t] \<rparr>)) d1)" if "apart d1" for d1
    using that by (intro db_callI [where d = d1 and Q = ?ok])
      (auto simp: apart_def role_in_def account_exists_def new_account_def live_def list_ex_iff)
  have old: "?ok (db_call (\<lambda>d.
            if \<not> valid_role role then (Inl pg_enum, d)
            else if \<not> list_ex (\<lambda>a. ar_id a = e \<and> \<not> live a) (accounts d) then (Inl err_no_rows, d)
            else if ip_taken d e ip then (Inl ErrIPAlreadyAssigned, d)
            else (Inr e, upd_account e (reactivated n role k sec ip p t) d)) d1)" if "apart d1" for d1 e
  proof (rule db_callI [where d = d1 and Q = ?ok])
    fix fs
    let ?d = "d1\<lparr> faults := fs \<rparr>"
    have d: "apart ?d" using that by simp
    have "apart (upd_account e (reactivated n role k sec ip p t) ?d) \<and> role_in e role (upd_account e (reactivated n role k sec ip p t) ?d)"
      if a: "a \<in> set (accounts ?d)" "ar_id a = e" "\<not> live a" for a
    proof
      have "\<not> role_in e r ?d" for r using role_unique [OF d _ a(1,2)] a(3) by blast
      then show "apart (upd_account e (reactivated n role k sec ip p t) ?d)"
        using d by (intro apart_update) (auto simp: apart_def reactivated_def)
      show "role_in e role (upd_account e (reactivated n role k sec ip p t) ?d)"
        using a by (auto simp: role_in_def upd_account_def update_where_def reactivated_def live_def intro!: bexI [of _ "reactivated n role k sec ip p t a"])
    qed
    then show "?ok ((\<lambda>d. if \<not> valid_role role then (Inl pg_enum, d)
            else if \<not> list_ex (\<lambda>a. ar_id a = e \<and> \<not> live a) (accounts d) then (Inl err_no_rows, d)
            else if ip_taken d e ip then (Inl ErrIPAlreadyAssigned, d)
            else (Inr e, upd_account e (reactivated n role k sec ip p t) d)) ?d)"
      using d by (auto simp: list_ex_iff)
  qed (use that in simp)
  have "?ok (CreateAccountWithCredentials u i n role b bu k sec ip p t d)"
    unfolding CreateAccountWithCredentials_def using assms new old
    by (auto split: prod.split sum.split option.split dest!: db_query)
  then show "apart (snd (CreateAccountWithCredentials u i n role b bu k sec ip p t d))"
    "fst (CreateAccountWithCredentials u i n role b bu k sec ip p t d) = Inr j
      \<Longrightarrow> role_in j role (snd (CreateAccountWithCredentials u i n role b bu k sec ip p t d))" by blast+
qed

lemma apart_new_group: "apart d \<Longrightarrow> role_in m ''master'' d \<Longrightarrow> apart (snd (CreateGroup u i n m d))"
  unfolding CreateGroup_def by (rule apart_call) (auto simp: apart_def)

lemma apart_drop_group: "apart d \<Longrightarrow> apart (snd (DeleteGroup i d))"
  unfolding DeleteGroup_def by (rule apart_call) (auto simp: apart_def)

lemma apart_masters:
  "apart d \<Longrightarrow> role_in m ''master'' d \<Longrightarrow> apart (upd_group_master i m d)"
  by (auto simp: apart_def upd_group_master_def update_where_def role_in_def)

lemma role_masters [simp]: "role_in j role (upd_group_master i m d) = role_in j role d"
  by (simp add: upd_group_master_def)

lemma apart_change:
  assumes "apart d" and "role_in m ''master'' d" and "role_in c ''master'' d"
  shows "apart (snd (change_master g c m d))"
proof -
  have swap: "apart (snd (swap_masters g m o1 c e))" "apart (snd (set_master g m e))"
    if "apart e" "role_in m ''master'' e" "role_in c ''master'' e" for o1 e
    unfolding swap_masters_def set_master_def Let_def using that by (auto intro!: apart_call apart_masters)
  show ?thesis
    unfolding change_master_def db_then_def using assms swap
    by (auto split: prod.split sum.split option.split dest!: db_query)
qed

lemma apart_rename: "apart d \<Longrightarrow> apart (snd (rename_group g n d))"
  unfolding rename_group_def by (rule apart_call) (auto simp: apart_def update_where_def)

lemma role_rename: "role_in j role (snd (rename_group g n d)) = role_in j role d"
  unfolding rename_group_def
  by (rule db_callI [where Q = "\<lambda>r. role_in j role (snd r) = role_in j role d"]) (auto simp: role_in_def)

lemma apart_update_group:
  assumes "apart d" and "\<And>m. mo = Some m \<Longrightarrow> role_in m ''master'' d"
  shows "apart (snd (UpdateGroup u i no mo d))"
proof -
  have info: "role_in (gp_master_id g) ''master'' d" if "group_info u i d = Some g" for g
    using assms(1) that by (auto simp: group_info_def apart_def dest!: find_Some_mem)
  have tail: "apart (snd (case mo of None \<Rightarrow> (Inr (), e) | Some m \<Rightarrow> if m = gp_master_id g then (Inr (), e)
      else change_master (gp_id g) (gp_master_id g) m e))"
    if "apart e" "\<And>j role. role_in j role e = role_in j role d" "group_info u i d = Some g" for e g
    using that assms(2) info [OF that(3)] by (auto intro!: apart_change split: option.split)
  have named: "apart e \<Longrightarrow> apart (snd (case no of None \<Rightarrow> (Inr (), e) | Some n \<Rightarrow> rename_group g n e))"
    "role_in j role (snd (case no of None \<Rightarrow> (Inr (), e) | Some n \<Rightarrow> rename_group g n e)) = role_in j role e" for e g j role
    by (simp_all add: role_rename apart_rename split: option.split)
  show ?thesis
    unfolding UpdateGroup_def
  proof (rule apart_then)
    show "apart (snd (db_call (\<lambda>d. (case group_info u i d of None \<Rightarrow> Inl ErrNotFound | Some g \<Rightarrow> Inr g, d)) d))"
      using assms(1) by (intro apart_call) simp_all
    fix g d1 assume q: "db_call (\<lambda>d. (case group_info u i d of None \<Rightarrow> Inl ErrNotFound | Some g \<Rightarrow> Inr g, d)) d = (Inr g, d1)"
    have "group_info u i (d\<lparr> faults := ft \<rparr>) = group_info u i d" for ft by (simp add: group_info_def find_account_def)
    then obtain fs where d1: "d1 = d\<lparr> faults := fs \<rparr>" and g: "group_info u i d = Some g"
      using db_query [OF q] by (auto split: option.splits)
    let ?r = "case no of None \<Rightarrow> (Inr (), d1) | Some n \<Rightarrow> rename_group (gp_id g) n d1"
    show "apart (snd (db_then ?r (\<lambda>_ d2. case mo of None \<Rightarrow> (Inr (), d2) | Some m \<Rightarrow> if m = gp_master_id g then (Inr (), d2)
        else change_master (gp_id g) (gp_master_id g) m d2)))"
    proof (rule apart_then)
      show "apart (snd ?r)" using named(1) [of d1 "gp_id g"] assms(1) d1 by simp
      fix a d2 assume "?r = (Inr a, d2)" "apart d2"
      then show "apart (snd (case mo of None \<Rightarrow> (Inr (), d2) | Some m \<Rightarrow> if m = gp_master_id g then (Inr (), d2)
          else change_master (gp_id g) (gp_master_id g) m d2))"
        using named(2) [of _ _ d1 "gp_id g"] d1 g by (intro tail) auto
    qed
  qed
qed

subsection \<open>The handlers\<close>

lemma guarded_role:
  "guarded roles roles (role_required i m) (\<lambda>role s. roles s \<and> role_in i role (si_db s))"
  unfolding role_required_def
  by (rule guarded_call) (use role_of_account in \<open>fastforce simp: on_db_def split: prod.splits\<close>)

lemma guarded_check:
  assumes "closed_under role_view roles P"
  shows "guarded roles P (check_role i role failed invalid) (\<lambda>_ s. P s \<and> role_in i role (si_db s))"
proof -
  have "guarded roles P (try_store (on_db (AccountRole i))) (\<lambda>r s. P s \<and> roles s \<and> (\<forall>role. r = Inr role \<longrightarrow> role_in i role (si_db s)))"
    unfolding guarded_def
  proof (intro allI impI)
    fix x :: api assume P: "P (ap_site x)"
    have keep: "role_view (snd (on_db (AccountRole i) (ap_site x))) = role_view (ap_site x)"
      using patch_roles.reads(1) by (simp add: keeps_op_def)
    then have ok: "P (snd (on_db (AccountRole i) (ap_site x)))" "roles (snd (on_db (AccountRole i) (ap_site x)))"
      using P assms keep unfolding closed_under_def by blast+
    show "case try_store (on_db (AccountRole i)) x of (Inl _, y) \<Rightarrow> roles (ap_site y)
        | (Inr r, y) \<Rightarrow> P (ap_site y) \<and> roles (ap_site y) \<and> (\<forall>role. r = Inr role \<longrightarrow> role_in i role (si_db (ap_site y)))"
      using ok role_of_account [of i "si_db (ap_site x)"]
      by (cases "AccountRole i (si_db (ap_site x))") (auto simp: try_store_def on_db_def)
  qed
  moreover have "guarded roles (\<lambda>s. P s \<and> roles s \<and> (\<forall>role. r = Inr role \<longrightarrow> role_in i role (si_db s))) (\<lambda>x. case r of
      Inl e \<Rightarrow> (Inl (if errors_Is e ErrNotFound then writeError 400 invalid else writeError 500 failed), x)
    | Inr actual \<Rightarrow> if actual \<noteq> role then (Inl (writeError 400 invalid), x) else (Inr (), x)) (\<lambda>_ s. P s \<and> role_in i role (si_db s))" for r
    by (cases r) (auto simp: guarded_def)
  ultimately show ?thesis unfolding check_role_def by (rule guarded_then)
qed

lemma guarded_attach:
  "guarded roles (\<lambda>s. roles s \<and> role_in (fl_FollowerID l) ''follower'' (si_db s)) (call_store (on_db (CreateFollowLink l)) e) (\<lambda>_. roles)"
  by (rule guarded_call_end) (simp add: apart_link)

lemma guarded_detach:
  "guarded roles (\<lambda>s. roles s \<and> role_in i role (si_db s)) (try_store (on_db (DeleteFollowLink i))) (\<lambda>_ s. roles s \<and> role_in i role (si_db s))"
  by (auto simp: guarded_def try_store_def on_db_def split: prod.split) (metis apart_unlink snd_conv role_unlink)+

lemma guarded_patch_group: "guarded roles roles (patch_group E u i req acc) (\<lambda>_. roles)"
proof (cases "pt_GroupID req")
  case None
  then show ?thesis by (simp add: patch_group_def guarded_def)
next
  case (Some raw)
  let ?P = "\<lambda>role s. roles s \<and> role_in i role (si_db s)"
  have stop: "guarded roles (?P role) (\<lambda>x. if b then (Inl w, x) else (Inr a, x)) (\<lambda>_. roles)" for role b w and a :: patch_acc
    by (simp add: guarded_def)
  have resolve: "guarded roles (?P role) (resolve_group E u g inv missing failed) (\<lambda>_. ?P role)" for role g inv missing failed
    unfolding resolve_group_def by (intro guarded_view [OF role_closed(2)] view_option view_then view_call patch_roles.reads view_return; simp)
  have move: "guarded roles (?P ''follower'') (\<lambda>x. case grp of
               None \<Rightarrow> (Inr acc, x)
             | Some g \<Rightarrow>
                 api_then (try_store (on_db (DeleteFollowLink i)) x) (\<lambda>_ x.
                   let cf = move_factor E req
                   in api_then (call_store (on_db (CreateFollowLink (follow_link i g cf (pt_MaxQtyPerOrder req))))
                        (\<lambda>_. writeError 500 ''failed to attach account to group'') x)
                      (\<lambda>_ x. (Inr (put_field ''maxQtyPerOrder'' (case pt_MaxQtyPerOrder req of None \<Rightarrow> FNull | Some q \<Rightarrow> FInt q)
                           (put_field ''cloneFactor'' (FDecimal cf) (put_field ''masterId'' (FString (gd_MasterID g))
                           (put_field ''groupName'' (FString (gd_GroupName g)) (put_field ''groupId'' (FString (gd_GroupID g)) (fst acc))))), True), x)))) (\<lambda>_. roles)" for grp
  proof (cases grp)
    case (Some g)
    have attach: "guarded roles (?P ''follower'') (call_store (on_db (CreateFollowLink (follow_link i g c q))) e) (\<lambda>_. roles)" for c q e
      using guarded_attach [of "follow_link i g c q"] by simp
    show ?thesis
      unfolding Some option.case Let_def
      by (rule guarded_then [OF guarded_detach], rule guarded_then [OF attach], rule guarded_return) simp_all
  qed (simp add: guarded_def)
  show ?thesis
    unfolding patch_group_def Some option.case
    by (rule guarded_then [OF guarded_role], intro guarded_if, simp add: guarded_def,
        rule guarded_then [OF guarded_detach], rule stop, rule guarded_then [OF resolve], simp, rule move)
qed

lemma patchAccount_apart: "roles (ap_site x) \<Longrightarrow> roles (ap_site (snd (patchAccount E u pathID body x)))"
proof (cases "pathID = None \<or> body = None")
  assume x: "roles (ap_site x)"
  case False
  then obtain i req where ib: "pathID = Some i" "body = Some req" by auto
  note keep = guarded_view [OF role_closed(1)]
  have "guarded roles roles (run_steps (patch_steps E u i req) ([], False)) (\<lambda>_. roles)"
    by (rule guarded_steps)
       (auto simp: patch_steps_def guarded_patch_group keep patch_roles.plain_steps patch_roles.credential_steps patch_roles.token_step patch_roles.ip_step)
  moreover have "guarded roles roles (\<lambda>x. (case a of (resp, updated) \<Rightarrow> (\<lambda>x. let x = patch_evict E i req x
        in if \<not> updated then (Inr (writeError 400 patch_required), x) else (Inr (writeJSON 200 (JFields resp)), x))) x) (\<lambda>_. roles)" for a
    by (auto simp: guarded_def patch_evict_def Let_def split: prod.split)
  ultimately show ?thesis
    using x unfolding patchAccount_def ib option.case
    by (intro guarded_respond [of roles roles] guarded_then [of roles roles _ "\<lambda>_. roles"]) simp_all
qed (auto simp: patchAccount_def split: option.splits)

lemma deletes_apart:
  assumes "roles (ap_site x)"
  shows "roles (ap_site (snd (deleteAccount E pathID x)))" "roles (ap_site (snd (deleteAccountGroup E pathID x)))"
proof -
  have del: "guarded roles roles (call_store (on_db (DeleteAccount i)) e) (\<lambda>_. roles)" for i e
    by (rule guarded_call_end) (simp add: apart_delete)
  have unlink: "guarded roles roles (call_store (on_db (DeleteFollowLink i)) e) (\<lambda>_. roles)" for i e
    by (rule guarded_call_end) (simp add: apart_unlink)
  show "roles (ap_site (snd (deleteAccount E pathID x)))"
    unfolding deleteAccount_def using assms
    by (cases pathID) (auto intro!: guarded_respond [of roles roles] guarded_then [OF del] guarded_return)
  show "roles (ap_site (snd (deleteAccountGroup E pathID x)))"
    unfolding deleteAccountGroup_def using assms
    by (cases pathID) (auto intro!: guarded_respond [of roles roles] guarded_then [OF unlink] guarded_return)
qed

lemma session_roles: "keeps_view role_view (initial_session i broker token e c)"
proof (cases token)
  case None
  then show ?thesis
    unfolding initial_session_def option.case None
    by (intro view_if view_then view_try patch_roles.token view_return; simp)
next
  case (Some t)
  have "keeps_view role_view (\<lambda>x. api_then (call_store (on_db (SetAccountAccessToken i t exp
      (if broker = ''dhan'' then ''pending'' else ''authenticated'') [])) (\<lambda>_. writeError 500 ''failed to set access token'') x)
      (\<lambda>_ x. (Inr (if broker = ''dhan'' then ''pending'' else ''ok''), x)))" for exp
    by (intro view_then view_call patch_roles.token view_return) simp
  then show ?thesis by (simp add: keeps_view_def initial_session_def Let_def Some)
qed

lemma guarded_create: "guarded roles roles (create_account E u req broker) (\<lambda>_. roles)"
proof -
  note keep = guarded_view [OF role_closed(1)]
  let ?P = "\<lambda>i s. roles s \<and> role_in i (po_Role req) (si_db s)"
  have dhan: "keeps_view role_view (\<lambda>x. if broker = ''dhan'' then (case tok of Some t \<Rightarrow> dhan_token E t bid x | None \<Rightarrow> (Inr None, x)) else (Inr None, x))" for tok bid
    by (intro view_if view_option patch_roles.token_check view_return; simp)
  have create: "guarded roles roles (call_store (on_db (CreateAccountWithCredentials uid i n (po_Role req) b bu k sec ip p t)) e) ?P" for uid i n b bu k sec ip p t e
  proof (rule guarded_call)
    fix s assume s: "roles s"
    note new = apart_create [OF s, of uid i n "po_Role req" b bu k sec ip p t]
    then show "roles (snd (on_db (CreateAccountWithCredentials uid i n (po_Role req) b bu k sec ip p t) s)) \<and>
        (\<forall>a s'. on_db (CreateAccountWithCredentials uid i n (po_Role req) b bu k sec ip p t) s = (Inr a, s') \<longrightarrow> ?P a s')"
      by (cases "CreateAccountWithCredentials uid i n (po_Role req) b bu k sec ip p t (si_db s)") (auto simp: on_db_def)
  qed
  have link: "guarded roles (?P i) (call_store (on_db (CreateFollowLink (follow_link i g c q))) e) (\<lambda>_. roles)" if "po_Role req = ''follower''" for i g c q e
    using guarded_attach [of "follow_link i g c q"] that by simp
  have attach: "guarded roles (?P i) (attach_follower E i req c grp resp) (\<lambda>_. roles)" for i c grp resp
  proof (cases "po_Role req = ''follower''")
    case True
    have "guarded roles (?P i) (\<lambda>x. case grp of
           None \<Rightarrow> (Inr resp, x)
         | Some g \<Rightarrow> api_then (call_store (on_db (CreateFollowLink (follow_link i g c (po_MaxQtyPerOrder req))))
               (\<lambda>_. writeError 500 ''account created but failed to attach to group'') x)
             (\<lambda>_ x. (Inr (resp\<lparr> are_MasterID := (if gd_MasterID g \<noteq> uuid_Nil then Some (gd_MasterID g) else None),
                  are_GroupID := (if gd_GroupID g \<noteq> uuid_Nil then Some (gd_GroupID g) else None),
                  are_GroupName := omit_empty (gd_GroupName g), are_CloneFactor := Some c,
                  are_MaxQtyPerOrder := po_MaxQtyPerOrder req \<rparr>), x))) (\<lambda>_. roles)"
    proof (cases grp)
      case (Some g)
      show ?thesis unfolding Some option.case by (rule guarded_then [OF link [OF True]], rule guarded_return) simp_all
    qed (simp add: guarded_def)
    from guarded_then [OF this, of "\<lambda>resp x. (Inr resp, notify E (RegisterFollower i) x)" "\<lambda>_. roles"]
    show ?thesis using True by (simp add: attach_follower_def [abs_def] guarded_return [of roles "\<lambda>_. roles"])
  qed (simp add: attach_follower_def guarded_def)
  have attached: "guarded roles (?P i) (\<lambda>x. attach_follower E i req c grp resp (notify_if b E h x)) (\<lambda>_. roles)" for i c grp resp b h
    using attach [of i c grp resp] by (simp add: guarded_def)
  show ?thesis
    unfolding create_account_def Let_def
    by (rule guarded_then [OF keep [OF patch_roles.quota_step]], rule guarded_then [OF keep [OF patch_roles.account_address_step]],
        rule guarded_then [OF keep [OF patch_roles.terms_step]], rule guarded_prod, (rule guarded_then [OF keep [OF patch_roles.token_check(2)]])+,
        rule guarded_then [OF keep [OF dhan]], rule guarded_then [OF create], rule guarded_then [OF guarded_view [OF role_closed(2) session_roles]],
        rule guarded_then [OF attached])
       (simp add: guarded_def)
qed

lemma postAccount_apart: "roles (ap_site x) \<Longrightarrow> roles (ap_site (snd (postAccount E u body x)))"
  using guarded_respond [OF guarded_create] by (cases body) (simp_all add: postAccount_def Let_def)

lemma guarded_master: "guarded roles roles (check_master E raw) (\<lambda>m s. roles s \<and> role_in m ''master'' (si_db s))"
proof (cases "ae_parse_uuid E raw")
  case (Some m)
  then show ?thesis
    unfolding check_master_def Some option.case
    by (intro guarded_then [OF guarded_check [OF role_closed(1)]]) (simp add: guarded_def)
qed (simp add: check_master_def guarded_def)

lemma postGroup_apart: "roles (ap_site x) \<Longrightarrow> roles (ap_site (snd (postGroup E u body x)))"
proof (cases body)
  assume x: "roles (ap_site x)"
  case (Some req)
  have "guarded roles (\<lambda>s. roles s \<and> role_in m ''master'' (si_db s)) (call_store (on_db (CreateGroup u i n m)) e) (\<lambda>_. roles)" for i n m e
    by (rule guarded_call_end) (simp add: apart_new_group)
  then show ?thesis
    using x unfolding postGroup_def Some option.case
    by (auto intro!: guarded_respond [of roles roles] guarded_then [OF guarded_master] guarded_then [of _ _ "call_store _ _" "\<lambda>_. roles"] guarded_return)
qed (simp add: postGroup_def)

lemma patchGroup_apart: "roles (ap_site x) \<Longrightarrow> roles (ap_site (snd (patchGroup E u pathID body x)))"
proof (cases "pathID = None \<or> body = None")
  assume x: "roles (ap_site x)"
  case False
  then obtain i req where ib: "pathID = Some i" "body = Some req" by auto
  let ?Q = "\<lambda>mo s. roles s \<and> (\<forall>m. mo = Some m \<longrightarrow> role_in m ''master'' (si_db s))"
  have target: "guarded roles roles (\<lambda>x. case pgr_MasterID req of None \<Rightarrow> (Inr None, x)
           | Some raw \<Rightarrow> api_then (check_master E raw x) (\<lambda>m x. (Inr (Some m), x))) ?Q"
  proof (cases "pgr_MasterID req")
    case (Some raw)
    then show ?thesis by simp (rule guarded_then [OF guarded_master], rule guarded_return, simp_all)
  qed (simp add: guarded_def)
  have update: "guarded roles (?Q mo) (call_store (on_db (UpdateGroup u i no mo)) e) (\<lambda>_. roles)" for no mo e
    by (rule guarded_call_end) (simp add: apart_update_group)
  have "guarded roles roles (\<lambda>x. api_then (case pgr_MasterID req of None \<Rightarrow> (Inr None, x)
           | Some raw \<Rightarrow> api_then (check_master E raw x) (\<lambda>m x. (Inr (Some m), x)))
          (\<lambda>masterIDPtr x. api_then (call_store (on_db (UpdateGroup u i (pgr_Name req) masterIDPtr)) update_error x)
             (\<lambda>_ x. (Inr (writeJSON 200 (JStatus ''ok'')), x)))) (\<lambda>_. roles)"
    by (rule guarded_then [OF target], rule guarded_then [OF update], rule guarded_return) simp_all
  then show ?thesis unfolding patchGroup_def ib option.case by (rule guarded_respond) (rule x)
qed (auto simp: patchGroup_def split: option.splits)

lemma deleteGroup_apart: "roles (ap_site x) \<Longrightarrow> roles (ap_site (snd (deleteGroup E pathID x)))"
proof -
  assume x: "roles (ap_site x)"
  have "guarded roles roles (call_store (on_db (DeleteGroup i)) e) (\<lambda>_. roles)" for i e
    by (rule guarded_call_end) (simp add: apart_drop_group)
  then have "guarded roles roles (\<lambda>x. api_then (call_store (on_db (DeleteGroup i)) e x) (\<lambda>_ x. (Inr w, x))) (\<lambda>_. roles)" for i e w
    by (rule guarded_then) (simp add: guarded_def)
  then show ?thesis
    unfolding deleteGroup_def using x by (cases pathID) (auto intro!: guarded_respond [of roles roles])
qed

lemma postGroupFollower_apart: "roles (ap_site x) \<Longrightarrow> roles (ap_site (snd (postGroupFollower E u pathID body x)))"
proof -
  assume x: "roles (ap_site x)"
  have target: "keeps_view role_view (link_target E u t)" for t
    unfolding link_target_def by (intro view_then view_if view_sum view_try patch_roles.reads view_return; simp)
  have attach: "guarded roles (\<lambda>s. roles s \<and> role_in i ''follower'' (si_db s)) (call_store (on_db (CreateFollowLink l)) e) (\<lambda>_. roles)"
    if "fl_FollowerID l = i" for i l e
    using guarded_attach [of l e] that by simp
  have step: "guarded roles roles (\<lambda>x. api_then (link_target E u t x) (\<lambda>(linkGroupID, linkMasterID) x.
      api_then (check_role i ''follower'' m1 m2 x) (\<lambda>_ x. api_then (call_store (on_db (CreateFollowLink (l linkGroupID linkMasterID))) e x)
        (\<lambda>_ x. (Inr w, notify E h x))))) (\<lambda>_. roles)" if "\<And>g m. fl_FollowerID (l g m) = i" for t i m1 m2 l e w h
    by (rule guarded_then [OF guarded_view [OF role_closed(1) target]], rule guarded_prod, rule guarded_then [OF guarded_check [OF role_closed(1)]],
        rule guarded_then [OF attach [OF that]], rule guarded_return) simp_all
  show ?thesis
    unfolding postGroupFollower_def using x
    by (auto split: option.split intro!: guarded_respond [of roles roles] step)
qed

subsection \<open>Histories of requests\<close>

text \<open>Requests on accounts and groups, one after the other, and anything else that leaves roles, groups and links alone.\<close>

inductive desk_step :: "api \<Rightarrow> api \<Rightarrow> bool" where
  account_post: "desk_step x (snd (postAccount E user abody x))"
| account_patch: "desk_step x (snd (patchAccount E u pathID pbody x))"
| account_delete: "desk_step x (snd (deleteAccount E pathID x))"
| account_ungroup: "desk_step x (snd (deleteAccountGroup E pathID x))"
| group_post: "desk_step x (snd (postGroup E u gbody x))"
| group_patch: "desk_step x (snd (patchGroup E u pathID mbody x))"
| group_delete: "desk_step x (snd (deleteGroup E pathID x))"
| group_attach: "desk_step x (snd (postGroupFollower E u pathID fbody x))"
| desk_other: "role_view s = role_view (ap_site x) \<Longrightarrow> desk_step x \<lparr> ap_site = s, ap_log = lg \<rparr>"

lemma desk_step_apart: "desk_step x x' \<Longrightarrow> roles (ap_site x) \<Longrightarrow> roles (ap_site x')"
proof (induction rule: desk_step.induct)
  case (desk_other s x lg)
  then show ?case using role_cong(1) [OF desk_other.hyps] by simp
qed (simp_all add: postAccount_apart patchAccount_apart deletes_apart postGroup_apart patchGroup_apart deleteGroup_apart postGroupFollower_apart)

lemma desk_run_apart: "desk_step\<^sup>*\<^sup>* x x' \<Longrightarrow> roles (ap_site x) \<Longrightarrow> roles (ap_site x')"
  by (induction rule: rtranclp_induct) (blast intro: desk_step_apart)+

text \<open>
  C22 Copying never loops: after any history of requests on accounts and groups, started without
  accounts, groups and links, whatever database calls fail, the follower of every link is a live account with the
  role of a follower and the master of every group a live account with that of a master; so no
  account that copies orders is a master whose orders are copied. Deletion, reactivation with
  another role and the swap of masters keep it.
\<close>

theorem copying_never_loops:
  assumes "desk_step\<^sup>*\<^sup>* x x'"
    and "accounts (si_db (ap_site x)) = []" "groups (si_db (ap_site x)) = []" "follow_links (si_db (ap_site x)) = []"
    and "l \<in> set (follow_links (si_db (ap_site x')))" and "g \<in> set (groups (si_db (ap_site x')))"
  shows "(\<exists>a \<in> set (accounts (si_db (ap_site x'))). ar_id a = lk_follower_id l \<and> live a \<and> ar_role a = ''follower'')
    \<and> (\<exists>a \<in> set (accounts (si_db (ap_site x'))). ar_id a = gp_master_id g \<and> live a \<and> ar_role a = ''master'')
    \<and> lk_follower_id l \<noteq> gp_master_id g"
proof -
  have "roles (ap_site x)" using assms(2-4) by (simp add: apart_def)
  then have d: "roles (ap_site x')" by (rule desk_run_apart [OF assms(1)])
  have f: "role_in (lk_follower_id l) ''follower'' (si_db (ap_site x'))" and m: "role_in (gp_master_id g) ''master'' (si_db (ap_site x'))"
    using d assms(5,6) by (auto simp: apart_def)
  moreover have "lk_follower_id l \<noteq> gp_master_id g"
  proof
    assume same: "lk_follower_id l = gp_master_id g"
    obtain a where "a \<in> set (accounts (si_db (ap_site x')))" "ar_id a = lk_follower_id l" "ar_role a = ''follower''" using f by (auto simp: role_in_def)
    then show False using role_unique [OF d m, of a] same by simp
  qed
  ultimately show ?thesis by (simp add: role_in_def)
qed

definition ex_desk0 :: api where
  "ex_desk0 = \<lparr> ap_site = (ap_site (ex_api []))\<lparr> si_db := empty_db [] [] \<rparr>, ap_log = [] \<rparr>"

definition ex_desk1 :: api where
  "ex_desk1 = snd (postAccount (ex_account_env\<lparr> ae_uuid := ''m'' \<rparr>) None (Some (ex_post\<lparr> po_Role := ''master'', po_BrokerAccountID := ''M1'', po_IP := None \<rparr>)) ex_desk0)"

definition ex_desk2 :: api where
  "ex_desk2 = snd (postGroup (ex_account_env\<lparr> ae_uuid := ''g'' \<rparr>) None (Some \<lparr> pg_Name = ''G'', pg_MasterID = ''m'' \<rparr>) ex_desk1)"

definition ex_desk3 :: api where
  "ex_desk3 = snd (postAccount (ex_account_env\<lparr> ae_uuid := ''f'' \<rparr>) None (Some (ex_post\<lparr> po_GroupID := Some ''g'' \<rparr>)) ex_desk2)"

lemma ex_desk_rows:
  "map lk_follower_id (follow_links (si_db (ap_site ex_desk3))) = [''f'']" "map gp_master_id (groups (si_db (ap_site ex_desk3))) = [''m'']"
  by code_simp+

theorem copying_never_loops_witness:
  "\<exists>l g. l \<in> set (follow_links (si_db (ap_site ex_desk3))) \<and> g \<in> set (groups (si_db (ap_site ex_desk3)))
     \<and> lk_follower_id l = ''f'' \<and> gp_master_id g = ''m'' \<and> (\<exists>a \<in> set (accounts (si_db (ap_site ex_desk3))). ar_id a = ''f'' \<and> live a \<and> ar_role a = ''follower'')"
proof -
  have "desk_step ex_desk0 ex_desk1" "desk_step ex_desk1 ex_desk2" "desk_step ex_desk2 ex_desk3"
    unfolding ex_desk1_def ex_desk2_def ex_desk3_def by (rule account_post group_post)+
  then have run: "desk_step\<^sup>*\<^sup>* ex_desk0 ex_desk3" by (meson converse_rtranclp_into_rtranclp rtranclp.rtrancl_refl)
  have empty: "accounts (si_db (ap_site ex_desk0)) = []" "groups (si_db (ap_site ex_desk0)) = []" "follow_links (si_db (ap_site ex_desk0)) = []"
    by (simp_all add: ex_desk0_def empty_db_def)
  obtain l g where l: "l \<in> set (follow_links (si_db (ap_site ex_desk3)))" "lk_follower_id l = ''f''"
    and g: "g \<in> set (groups (si_db (ap_site ex_desk3)))" "gp_master_id g = ''m''"
    using ex_desk_rows by (cases "follow_links (si_db (ap_site ex_desk3))"; cases "groups (si_db (ap_site ex_desk3))") auto
  then show ?thesis using copying_never_loops [OF run empty l(1) g(1)] by metis
qed

text \<open>
  A follower is attached to a group by the id of the group only: the id of a master without a group, which
  the handler means to accept, ends in a failed insert.
\<close>

theorem attach_to_master_without_group:
  "let (w, y) = postGroupFollower ex_account_env None (Some ''m'')
         (Some \<lparr> gfr_AccountID = ''f'', gfr_CloneFactor = [], gfr_CapitalRatio = [], gfr_MaxQtyPerOrder = None \<rparr>)
         ((ex_api [])\<lparr> ap_site := (ap_site (ex_api []))\<lparr> si_db := (si_db (ap_site (ex_api [])))\<lparr> groups := [], follow_links := [] \<rparr> \<rparr> \<rparr>)
   in rp_status w = 500 \<and> follow_links (si_db (ap_site y)) = []"
  by code_simp

end
