(* ===== verification/Trade_Api.thy ===== *)
theory Trade_Api
  imports Recon Rebalance
begin

text \<open>
  The handlers that trade: the account actions (\<open>httpapi/actions.go\<close>), square-off (\<open>httpapi/squareoff.go\<close>), rebalance
  (\<open>httpapi/rebalance.go\<close>) and the kill switch (\<open>httpapi/admin_service.go\<close>). They are stated over the services as
  arguments, \<open>None\<close> when a service is not configured. A path parameter is \<open>None\<close> when it is no
  identifier, a body is \<open>None\<close> when it is malformed.
\<close>

section \<open>Responses\<close>

datatype trade_body =
    TError string
  | TAccepted string
  | TSquareOff SquareOffResult
  | TGroupDiff GroupRebalanceDiff
  | TDrift FollowerDrift
  | TRebalance RebalanceResult
  | TKillSwitch KillSwitchStatus
  | TStatus string

type_synonym trade_response = "int \<times> trade_body"

section \<open>The rebalance action\<close>

text \<open>\<open>LatestMasterFill\<close>: the first row of the master in the order of the query (\<open>order_by\<close>), without the columns it does not select.\<close>

definition stored_fill :: "mf_row \<Rightarrow> MasterFill" where
  "stored_fill r = \<lparr> mf_ID = mr_id r, mf_MasterID = mr_master_id r, mf_BrokerOrderID = mr_broker_order_id r, mf_Exchange = mr_exchange r,
     mf_Tradingsymbol = mr_tradingsymbol r, mf_InstrumentToken = mr_instrument_token r, mf_TransactionType = mr_transaction_type r,
     mf_Product = mr_product r, mf_OrderType = mr_order_type r, mf_FilledQuantity = mr_filled_quantity r, mf_Price = 0, mf_TriggerPrice = 0,
     mf_AveragePrice = mr_average_price r, mf_Status = mr_status r, mf_OrderTimestamp = mr_order_timestamp r, mf_RawPayload = mr_raw_payload r,
     mf_Tag = [], mf_ReceivedAt = 0, mf_DispatchState = [], mf_DispatchedAt = None \<rparr>"

definition LatestMasterFill :: "(mf_row list \<Rightarrow> mf_row list) \<Rightarrow> uuid \<Rightarrow> db \<Rightarrow> MasterFill result \<times> db" where
  "LatestMasterFill order_by masterID = db_call (\<lambda>d.
     (case order_by (filter (\<lambda>r. mr_master_id r = masterID) (master_fills d)) of [] \<Rightarrow> Inl ErrNotFound | r # _ \<Rightarrow> Inr (stored_fill r), d))"

definition rebalance_action ::
  "decimal_pkg \<Rightarrow> (string \<Rightarrow> string \<Rightarrow> int result) option \<Rightarrow> (mf_row list \<Rightarrow> mf_row list) \<Rightarrow> uuid \<Rightarrow> server \<Rightarrow> trade_response \<times> server" where
  "rebalance_action P resolver order_by i sv = (case with_db (ResolveMasterID i) sv of
      (Inl e, sv1) \<Rightarrow> (if errors_Is e ErrNotFound then (404, TError ''account not found'') else (500, TError ''failed to resolve master''), sv1)
    | (Inr masterID, sv1) \<Rightarrow> (case with_db (LatestMasterFill order_by masterID) sv1 of
        (Inl e, sv2) \<Rightarrow> (if errors_Is e ErrNotFound then (404, TError ''no master fill to rebalance from'')
          else (500, TError ''failed to load latest master fill''), sv2)
      | (Inr fill, sv2) \<Rightarrow> (case server_handle P resolver fill sv2 of
          (Inl e, sv3) \<Rightarrow> ((500, TError ''rebalance failed''), sv3)
        | (Inr _, sv3) \<Rightarrow> ((202, TAccepted ''rebalance''), sv3))))"

section \<open>Square-off and the actions\<close>

definition square_error :: "string \<Rightarrow> bool \<Rightarrow> go_error \<Rightarrow> trade_response" where
  "square_error missing disabled e =
     (if errors_Is e ErrNotFound then (404, TError missing)
      else if disabled \<and> errors_Is e ErrAccountDisabled then (400, TError (err_Error e))
      else (500, TError (err_Error e)))"

text \<open>A body is optional; \<open>Some None\<close> is one that does not parse.\<close>

definition postGroupSquareOff ::
  "(uuid \<Rightarrow> string list \<Rightarrow> 's \<Rightarrow> SquareOffResult result \<times> 's) option \<Rightarrow> uuid option \<Rightarrow> string list option option \<Rightarrow> 's \<Rightarrow> trade_response \<times> 's" where
  "postGroupSquareOff svc pathID body s = (case svc of
      None \<Rightarrow> ((501, TError ''square off service not configured''), s)
    | Some squareOff \<Rightarrow> (case pathID of
        None \<Rightarrow> ((400, TError ''invalid group id''), s)
      | Some groupID \<Rightarrow> (case body of
          Some None \<Rightarrow> ((400, TError ''malformed JSON body''), s)
        | _ \<Rightarrow> (case squareOff groupID (case body of Some (Some symbols) \<Rightarrow> symbols | _ \<Rightarrow> []) s of
            (Inl e, s1) \<Rightarrow> (square_error ''group not found'' False e, s1)
          | (Inr res, s1) \<Rightarrow> ((200, TSquareOff res), s1)))))"

definition postAccountSquareOff ::
  "(uuid \<Rightarrow> string list \<Rightarrow> 's \<Rightarrow> SquareOffResult result \<times> 's) option \<Rightarrow> uuid option \<Rightarrow> string list option option \<Rightarrow> 's \<Rightarrow> trade_response \<times> 's" where
  "postAccountSquareOff svc pathID body s = (case svc of
      None \<Rightarrow> ((501, TError ''square off service not configured''), s)
    | Some squareOff \<Rightarrow> (case pathID of
        None \<Rightarrow> ((400, TError ''invalid account id''), s)
      | Some accountID \<Rightarrow> (case body of
          Some None \<Rightarrow> ((400, TError ''malformed JSON body''), s)
        | _ \<Rightarrow> (case squareOff accountID (case body of Some (Some symbols) \<Rightarrow> symbols | _ \<Rightarrow> []) s of
            (Inl e, s1) \<Rightarrow> (square_error ''account not found'' True e, s1)
          | (Inr res, s1) \<Rightarrow> ((200, TSquareOff res), s1)))))"

record 's action_deps =
  ad_rebalance :: "uuid \<Rightarrow> 's \<Rightarrow> trade_response \<times> 's"
  ad_syncer :: "(uuid \<Rightarrow> 's \<Rightarrow> unit result \<times> 's) option"
  ad_squareOff :: "(uuid \<Rightarrow> string list \<Rightarrow> 's \<Rightarrow> SquareOffResult result \<times> 's) option"

definition postAction :: "'s action_deps \<Rightarrow> uuid option \<Rightarrow> string option \<Rightarrow> 's \<Rightarrow> trade_response \<times> 's" where
  "postAction D pathID body s = (case pathID of
      None \<Rightarrow> ((400, TError ''invalid account id''), s)
    | Some i \<Rightarrow> (case body of
        None \<Rightarrow> ((400, TError ''malformed JSON body''), s)
      | Some kind \<Rightarrow>
          if kind = ''rebalance'' then ad_rebalance D i s
          else if kind = ''sync_positions'' then
            (case ad_syncer D of
               None \<Rightarrow> ((202, TAccepted ''sync_positions''), s)
             | Some sync \<Rightarrow> (case sync i s of
                 (Inl e, s1) \<Rightarrow> ((500, TError (''sync failed: '' @ err_Error e)), s1)
               | (Inr _, s1) \<Rightarrow> ((202, TAccepted ''sync_positions''), s1)))
          else if kind = ''square_off'' then
            (case ad_squareOff D of
               None \<Rightarrow> ((501, TError ''square off service not configured''), s)
             | Some squareOff \<Rightarrow> (case squareOff i [] s of
                 (Inl e, s1) \<Rightarrow> (square_error ''account not found'' True e, s1)
               | (Inr res, s1) \<Rightarrow> ((200, TSquareOff res), s1)))
          else if kind = ''exit_open_orders'' then ((501, TError ''exit_open_orders is not implemented yet''), s)
          else ((400, TError ''unknown action type''), s)))"

section \<open>Rebalance\<close>

definition writeRebalanceError :: "go_error \<Rightarrow> trade_response" where
  "writeRebalanceError e =
     (if errors_Is e ErrNotFound then (404, TError (err_Error e))
      else if errors_Is e ErrAccountDisabled then (400, TError (err_Error e))
      else if errors_Is e ErrAuthExpired then (401, TError (err_Error e))
      else if errors_Is e ErrBrokerUnreachable then (502, TError (err_Error e))
      else (500, TError (err_Error e)))"

text \<open>The frame of the four handlers: the service, the path parameter, the call.\<close>

definition rebalance_call :: "(uuid \<Rightarrow> 's \<Rightarrow> 'r result \<times> 's) option \<Rightarrow> string \<Rightarrow> ('r \<Rightarrow> trade_body) \<Rightarrow> uuid option \<Rightarrow> 's \<Rightarrow> trade_response \<times> 's" where
  "rebalance_call svc invalid show_r pathID s = (case svc of
      None \<Rightarrow> ((501, TError ''rebalance service not configured''), s)
    | Some f \<Rightarrow> (case pathID of
        None \<Rightarrow> ((400, TError invalid), s)
      | Some i \<Rightarrow> (case f i s of (Inl e, s1) \<Rightarrow> (writeRebalanceError e, s1) | (Inr r, s1) \<Rightarrow> ((200, show_r r), s1))))"

definition getGroupRebalanceDiff :: "(uuid \<Rightarrow> 's \<Rightarrow> GroupRebalanceDiff result \<times> 's) option \<Rightarrow> uuid option \<Rightarrow> 's \<Rightarrow> trade_response \<times> 's" where
  "getGroupRebalanceDiff svc = rebalance_call svc ''invalid group id'' TGroupDiff"

definition getAccountRebalanceDiff :: "(uuid \<Rightarrow> 's \<Rightarrow> FollowerDrift result \<times> 's) option \<Rightarrow> uuid option \<Rightarrow> 's \<Rightarrow> trade_response \<times> 's" where
  "getAccountRebalanceDiff svc = rebalance_call svc ''invalid account id'' TDrift"

definition postAccountRebalance :: "(uuid \<Rightarrow> 's \<Rightarrow> RebalanceResult result \<times> 's) option \<Rightarrow> uuid option \<Rightarrow> 's \<Rightarrow> trade_response \<times> 's" where
  "postAccountRebalance svc = rebalance_call svc ''invalid account id'' TRebalance"

definition postGroupRebalance ::
  "(uuid \<Rightarrow> uuid list \<Rightarrow> 's \<Rightarrow> RebalanceResult result \<times> 's) option \<Rightarrow> uuid option \<Rightarrow> uuid list option option \<Rightarrow> 's \<Rightarrow> trade_response \<times> 's" where
  "postGroupRebalance svc pathID body s =
     (if svc \<noteq> None \<and> pathID \<noteq> None \<and> body = Some None then ((400, TError ''malformed JSON body''), s)
      else rebalance_call (map_option (\<lambda>f i. f i (case body of Some (Some ids) \<Rightarrow> ids | _ \<Rightarrow> [])) svc) ''invalid group id'' TRebalance pathID s)"

section \<open>The kill switch\<close>

definition postAdminKillSwitch :: "string option \<Rightarrow> (bool \<times> string) option \<Rightarrow> gotime \<Rightarrow> server \<Rightarrow> trade_response \<times> server" where
  "postAdminKillSwitch email body now sv = (case body of
      None \<Rightarrow> ((400, TError ''invalid request body''), sv)
    | Some (engaged, reason) \<Rightarrow>
        let e = SetKillSwitch engaged reason (case email of None \<Rightarrow> ''system'' | Some m \<Rightarrow> m) now (sv_engine sv)
        in ((200, TKillSwitch (Engine_KillSwitchStatus e)), sv\<lparr> sv_engine := e \<rparr>))"

definition getKillSwitchStatus :: "server \<Rightarrow> trade_response" where
  "getKillSwitchStatus sv = (200, TKillSwitch (Engine_KillSwitchStatus (sv_engine sv)))"

end
