(* ===== verification/Trade_Thms.thy ===== *)
theory Trade_Thms
  imports Trade_Api
begin

text \<open>
  What the trading handlers do to the copying: the rebalance action is a step of the server like the delivery of a
  fill, so the theorems about copying hold with it, except that the stored fill has lost the tag of a square-off; and an engaged
  kill switch stops copying for as long as nobody releases it.
\<close>

section \<open>The rebalance action\<close>

lemma db_reads: "db_call (\<lambda>d. (q d, d)) d = (r, d') \<Longrightarrow> \<exists>fs. d' = d\<lparr> faults := fs \<rparr>"
  by (rule db_call_cases [of "\<lambda>d. (q d, d)" d]) auto

lemma resolve_reads:
  assumes "ResolveMasterID i d = (r, d')"
  shows "\<exists>fs. d' = d\<lparr> faults := fs \<rparr>"
proof -
  have "db_call (\<lambda>d. case master_for_follower i d of None \<Rightarrow> (Inl ErrNotFound, d) | Some m \<Rightarrow> (Inr m, d)) e = (q, e') \<Longrightarrow> \<exists>fs. e' = e\<lparr> faults := fs \<rparr>"
    for e q e'
    by (rule db_call_cases [of "\<lambda>d. case master_for_follower i d of None \<Rightarrow> (Inl ErrNotFound, d) | Some m \<Rightarrow> (Inr m, d)" e])
       (auto split: option.splits)
  then show ?thesis
    using assms by (fastforce simp: ResolveMasterID_def split: prod.splits sum.splits if_splits dest: db_reads)
qed

lemma read_step:
  assumes "with_db f sv = (r, sv')" and "\<And>d' q. f (sv_db sv) = (q, d') \<Longrightarrow> \<exists>fs. d' = (sv_db sv)\<lparr> faults := fs \<rparr>"
  shows "server_step P sv sv'"
proof -
  obtain q d' where f: "f (sv_db sv) = (q, d')" by fastforce
  then obtain fs where d': "d' = (sv_db sv)\<lparr> faults := fs \<rparr>" using assms(2) by blast
  have "store_step (sv_db sv) d'" unfolding d' by (rule step_fault)
  moreover have "sv' = sv\<lparr> sv_db := d' \<rparr>" using assms(1) f by (simp add: with_db_def)
  ultimately show ?thesis using v_store by blast
qed

lemma action_run: "(server_step P)\<^sup>*\<^sup>* sv (snd (rebalance_action P resolver order_by i sv))"
proof -
  obtain r sv1 where one: "with_db (ResolveMasterID i) sv = (r, sv1)" by fastforce
  have s1: "server_step P sv sv1" by (rule read_step [OF one]) (rule resolve_reads)
  show ?thesis
  proof (cases r)
    case (Inl e)
    then show ?thesis using one s1 by (simp add: rebalance_action_def r_into_rtranclp)
  next
    case (Inr m)
    obtain q sv2 where two: "with_db (LatestMasterFill order_by m) sv1 = (q, sv2)" by fastforce
    have s2: "server_step P sv1 sv2" by (rule read_step [OF two]) (auto simp: LatestMasterFill_def dest: db_reads)
    show ?thesis
    proof (cases q)
      case (Inl e)
      then show ?thesis using one two Inr s1 s2 by (simp add: rebalance_action_def rtranclp.rtrancl_into_rtrancl r_into_rtranclp)
    next
      case (Inr fill)
      have "snd (rebalance_action P resolver order_by i sv) = snd (server_handle P resolver fill sv2)"
        using one two \<open>r = Inr m\<close> Inr by (simp add: rebalance_action_def split: prod.split sum.split)
      then show ?thesis using s1 s2 v_handle [of P sv2 resolver fill]
        by (metis r_into_rtranclp rtranclp.rtrancl_into_rtrancl)
    qed
  qed
qed

text \<open>
  The rebalance action can be clicked any number of times: after any history of the server,
  actions included, each job handed to a worker is for another fill or another follower, so the
  action only hands out orders that no earlier fan-out of the fill has made.
\<close>

theorem rebalance_action_copies_once:
  assumes "(\<lambda>sv sv'. server_step P sv sv' \<or> (\<exists>resolver i order_by. sv' = snd (rebalance_action P resolver order_by i sv)))\<^sup>*\<^sup>* (new_server instrs p) sv"
  shows "distinct (map (\<lambda>j. (job_MasterFillID j, job_FollowerID j)) (jobs_of (sv_outs (snd (rebalance_action P resolver order_by i sv)))))"
proof -
  have "(server_step P)\<^sup>*\<^sup>* (new_server instrs p) sv"
    using assms
  proof (induction rule: rtranclp_induct)
    case (step y z)
    then show ?case using action_run by (auto intro: rtranclp.rtrancl_into_rtrancl rtranclp_trans)
  qed simp
  then have "(server_step P)\<^sup>*\<^sup>* (new_server instrs p) (snd (rebalance_action P resolver order_by i sv))"
    using action_run by (rule rtranclp_trans)
  then show ?thesis using server_run_ok [OF _ new_server_ok] by (simp add: copied_once_def)
qed

section \<open>The kill switch\<close>

text \<open>
  The steps of the server other than a request to set the kill switch. The database may change in any way, so
  what the square-off and rebalance services store is part of it; the orders these services send go
  from them straight to the brokers and not through the engine or the pool's jobs.
\<close>

inductive unswitched_step :: "decimal_pkg \<Rightarrow> server \<Rightarrow> server \<Rightarrow> bool"
  for P where
  u_fill: "unswitched_step P sv (snd (MasterFillConsumer_Handle (server_consumer P resolver) fill sv))"
| u_handle: "unswitched_step P sv (snd (server_handle P resolver fill sv))"
| u_action: "unswitched_step P sv (snd (rebalance_action P resolver order_by i sv))"
| u_cache: "unswitched_step P sv (sv\<lparr> sv_engine := ClearLotSizeCache (sv_engine sv) \<rparr>)"
| u_db: "unswitched_step P sv (sv\<lparr> sv_db := d \<rparr>)"
| u_sync: "unswitched_step P sv (sv\<lparr> sv_syncs := as \<rparr>)"
| u_pool: "unswitched_step P sv (sv\<lparr> sv_pool := p \<rparr>)"

definition halted :: "outcome list \<Rightarrow> server \<Rightarrow> bool" where
  "halted outs sv \<longleftrightarrow> e_killSwitch (sv_engine sv) \<and> sv_outs sv = outs"

lemma halted_handle: "halted outs sv \<Longrightarrow> halted outs (snd (server_handle P resolver fill sv))"
  by (simp add: halted_def server_handle_def HandleMasterFill_def IsKillSwitchEngaged_def drop_fill_def server_deps_def server_store_def
      with_db_def split: prod.split)

lemma halted_db: "halted outs sv \<Longrightarrow> with_db f sv = (r, sv') \<Longrightarrow> halted outs sv'"
  by (auto simp: halted_def with_db_def split: prod.splits)

lemma halted_consumer: "halted outs sv \<Longrightarrow> halted outs (snd (MasterFillConsumer_Handle (server_consumer P resolver) fill sv))"
proof -
  assume h: "halted outs sv"
  obtain r sv1 where i: "with_db (InsertMasterFill fill) sv = (r, sv1)" by fastforce
  have one: "halted outs sv1" using halted_db [OF h i] .
  have sync: "halted outs (start_sync (mc_Syncer (server_consumer P resolver)) a sv) = halted outs sv" for a sv
    by (simp add: start_sync_def server_consumer_def halted_def)
  have two: "halted outs sv2" if "server_handle P resolver f sv1 = (q, sv2)" for f q sv2
    using halted_handle [OF one, of P resolver f] that by simp
  show ?thesis
  proof (cases r)
    case (Inl e)
    then show ?thesis using i one h by (simp add: MasterFillConsumer_Handle_def)
  next
    case (Inr k)
    obtain q sv2 where hd: "server_handle P resolver (fill\<lparr> mf_ID := k \<rparr>) sv1 = (q, sv2)" by fastforce
    then show ?thesis using i Inr two [OF hd] sync by (cases q) (simp_all add: MasterFillConsumer_Handle_def)
  qed
qed

lemma halted_action: "halted outs sv \<Longrightarrow> halted outs (snd (rebalance_action P resolver order_by i sv))"
proof -
  assume h: "halted outs sv"
  obtain r sv1 where one: "with_db (ResolveMasterID i) sv = (r, sv1)" by fastforce
  note h1 = halted_db [OF h one]
  show ?thesis
  proof (cases r)
    case (Inr m)
    obtain q sv2 where two: "with_db (LatestMasterFill order_by m) sv1 = (q, sv2)" by fastforce
    note h2 = halted_db [OF h1 two]
    show ?thesis
    proof (cases q)
      case (Inr fill)
      obtain z sv3 where three: "server_handle P resolver fill sv2 = (z, sv3)" by fastforce
      then have "halted outs sv3" using halted_handle [OF h2, of P resolver fill] by simp
      then show ?thesis using one two three \<open>r = Inr m\<close> Inr by (cases z) (simp_all add: rebalance_action_def)
    qed (use one two \<open>r = Inr m\<close> h2 in \<open>simp add: rebalance_action_def\<close>)
  qed (use one h1 in \<open>simp add: rebalance_action_def\<close>)
qed

lemma halted_run: "(unswitched_step P)\<^sup>*\<^sup>* sv sv' \<Longrightarrow> halted outs sv \<Longrightarrow> halted outs sv'"
proof (induction rule: rtranclp_induct)
  case (step y z)
  have "unswitched_step P y z \<Longrightarrow> halted outs y \<Longrightarrow> halted outs z"
    by (induction rule: unswitched_step.induct)
       (simp_all add: halted_consumer halted_handle halted_action, simp_all add: halted_def ClearLotSizeCache_def)
  then show ?case using step by blast
qed


section \<open>Examples\<close>


theorem rebalance_action_copies_once_witness:
  "distinct (map (\<lambda>j. (job_MasterFillID j, job_FollowerID j)) (jobs_of (sv_outs (snd (rebalance_action dec16 None id ''m'' ex_served_server)))))
   \<and> jobs_of (sv_outs ex_served_server) = [ex_served_job]"
proof -
  have "(\<lambda>sv sv'. server_step dec16 sv sv' \<or> (\<exists>resolver i order_by. sv' = snd (rebalance_action dec16 resolver order_by i sv)))\<^sup>*\<^sup>*
      (new_server [] (Register ''f'' 5 NewPool)) ex_served_server"
    using ex_served_run by (rule mono_rtranclp [rule_format, rotated]) blast
  from rebalance_action_copies_once [OF this] show ?thesis by (simp add: ex_served_server_def ex_served)
qed

text \<open>The database after the master's square-off fill was stored and dropped.\<close>

definition ex_square :: MasterFill where
  "ex_square = ex_fill\<lparr> mf_Tag := ''sqoff-m-1'' \<rparr>"

definition ex_square_db :: db where
  "ex_square_db = snd (SetMasterFillDispatchState 1 DispatchDispatched ex_sdb)"

lemma ex_square_reads:
  "InsertMasterFill ex_square ex_admin_db = (Inr 1, ex_sdb)"
  "SetMasterFillDispatchState 1 DispatchDispatched ex_sdb = (Inr (), ex_square_db)"
  "ResolveMasterID ''m'' ex_square_db = (Inr ''m'', ex_square_db)"
  "LatestMasterFill id ''m'' ex_square_db = (Inr (ex_fill\<lparr> mf_ID := 1 \<rparr>), ex_square_db)"
  "MasterActive ''m'' ex_square_db = (Inr True, ex_square_db)"
  "EnabledFollowLinks ''m'' ex_square_db = (Inr [\<lparr> fl_FollowerID = ''f'', fl_GroupID = ''g'', fl_MasterID = ''m'',
     fl_CloneFactor = 1, fl_MaxQtyPerOrder = 0, fl_Enabled = True, fl_EffectiveFrom = 1, fl_Status = ''active'',
     fl_AuthStatus = ''unauthenticated'' \<rparr>], ex_square_db)"
  by (simp_all add: ex_square_db_def ex_square_def ex_sdb_def InsertMasterFill_def SetMasterFillDispatchState_def ResolveMasterID_def LatestMasterFill_def
      stored_fill_def MasterActive_def EnabledFollowLinks_def db_call_def Let_def ex_admin_eq ex_admin_more ex_acct_def new_account_def live_def
      account_exists_def ex_fill_def enabled_link_def find_account_def fill_row_def update_where_def numeric4_def round_half_away_def wrap32_id in32_def
      List.map_filter_simps)

definition ex_square_db2 :: db where
  "ex_square_db2 = snd (InsertFollowerOrdersBatch [candidate_order (ex_fill\<lparr> mf_ID := 1 \<rparr>) 0 ex_cand] ex_square_db)"

lemma ex_square_batch:
  "InsertFollowerOrdersBatch [candidate_order (ex_fill\<lparr> mf_ID := 1 \<rparr>) 0 ex_cand] ex_square_db = (Inr [IdempotencyTag 1 ''f'' \<mapsto> 1], ex_square_db2)"
  "faults ex_square_db2 = []"
  by (simp_all add: ex_square_db2_def InsertFollowerOrdersBatch_def db_call_def Let_def candidate_order_def ex_cand_def ex_square_db_def ex_sdb_def
      SetMasterFillDispatchState_def update_where_def ex_admin_eq ex_admin_more order_refs_ok_def account_exists_def ex_acct_def new_account_def
      FollowerOrder_zero_def tag_taken_def pair_taken_def add_order_def order_row_def fill_row_def)

definition ex_squared :: server where
  "ex_squared = ex_server\<lparr> sv_db := ex_square_db, sv_syncs := [''m''] \<rparr>"

lemma ex_squared_eq: "MasterFillConsumer_Handle (server_consumer dec16 None) ex_square ex_server = (Inr (), ex_squared)"
proof -
  have sq: "mf_MasterID ex_square = ''m''" "mf_Status ex_square = ''COMPLETE''" "mf_Tag ex_square = ''sqoff-m-1''"
    by (simp_all add: ex_fill_def ex_square_def)
  show ?thesis unfolding MasterFillConsumer_Handle_def
    by (simp add: sq server_handle_def with_db_def HandleMasterFill_def IsKillSwitchEngaged_def server_deps_def server_store_def
        ex_square_reads new_server_def ex_server_def Engine_New_def HasPrefix_def drop_fill_def start_sync_def server_consumer_def ex_squared_def)
qed

lemma ex_rebalanced: "fst (fst (rebalance_action dec16 None id ''m'' ex_squared)) = 202"
proof -
  have cand: "candidate dec16 (ex_fill\<lparr> mf_ID := 1 \<rparr>) 0 \<lparr> fl_FollowerID = ''f'', fl_GroupID = ''g'', fl_MasterID = ''m'',
     fl_CloneFactor = 1, fl_MaxQtyPerOrder = 0, fl_Enabled = True, fl_EffectiveFrom = 1, fl_Status = ''active'',
     fl_AuthStatus = ''unauthenticated'' \<rparr> = ex_cand"
    by (simp add: candidate_def follower_qty_def ex_cand_def ex_fill_def)
  note eval = server_handle_def with_db_def HandleMasterFill_def IsKillSwitchEngaged_def server_deps_def server_store_def
    ex_square_reads fan_out_def ex_prices cand ex_square_batch server_dispatch_def Dispatch_def Register_def NewPool_def
    new_server_def ex_server_def Engine_New_def HasPrefix_def record_execution_def set_state_def new_goroutine_def chan_defs
    upd_g_def log_out_def Let_def rebalance_action_def ex_squared_def
  obtain d3 where d3: "SetMasterFillDispatchState 1 DispatchDispatched ex_square_db2 = (Inr (), d3)"
    by (simp add: SetMasterFillDispatchState_def db_call_def ex_square_batch(2))
  have fill: "mf_MasterID ex_fill = ''m''" "mf_Status ex_fill = ''COMPLETE''" "mf_Tag ex_fill = []" by (simp_all add: ex_fill_def)
  have tag: "cj_tag ex_cand = IdempotencyTag 1 ''f''" "cj_qty ex_cand = 10" "cj_followerID ex_cand = ''f''" by (simp_all add: ex_cand_def)
  show ?thesis by (simp add: eval fill tag d3)
qed

text \<open>A fill that the engine drops leaves the orders and the outcomes as they are.\<close>

lemma dropped_handle:
  assumes "dropped (sv_engine sv) fill"
  shows "\<exists>d'. server_handle P resolver fill sv = (Inr (), sv\<lparr> sv_db := d' \<rparr>) \<and> follower_orders d' = follower_orders (sv_db sv)"
proof -
  have "\<exists>st. HandleMasterFill P (server_deps resolver) fill (sv_engine sv) sv
      = drop_fill (server_deps resolver) (mf_ID fill) st (sv_engine sv) sv"
    using assms
    by (cases "IsKillSwitchEngaged (sv_engine sv)"; cases "mf_Status fill \<noteq> [] \<and> mf_Status fill \<noteq> TerminalComplete")
       (auto simp: HandleMasterFill_def dropped_def)
  then obtain st where st: "HandleMasterFill P (server_deps resolver) fill (sv_engine sv) sv
      = drop_fill (server_deps resolver) (mf_ID fill) st (sv_engine sv) sv" by blast
  obtain r d' where d': "SetMasterFillDispatchState (mf_ID fill) st (sv_db sv) = (r, d')" by fastforce
  show ?thesis
  proof (cases "mf_ID fill > 0")
    case True
    then have "server_handle P resolver fill sv = (Inr (), sv\<lparr> sv_db := d' \<rparr>)"
      using st d' by (simp add: server_handle_def drop_fill_def server_deps_def server_store_def with_db_def)
    then show ?thesis using write_frames(1) [OF d'] by blast
  next
    case False
    then show ?thesis using st by (intro exI [of _ "sv_db sv"]) (simp add: server_handle_def drop_fill_def)
  qed
qed

text \<open>
  C24 The rebalance action copies a square-off: the delivered fill of a master's square-off order carries a tag by
  which the engine drops it (nothing is copied), since the group's square-off closes the followers' positions itself; but
  the tag is not stored. When a user starts the action while this fill is the latest stored one of an active
  master, with the kill switch off, and the action is accepted, every enabled follower has a stored
  order for the square-off fill, and those that are new get the outcomes of a normal fan-out: a job for the
  decided quantity, a skip or a dead letter.
\<close>

theorem rebalance_copies_square_off:
  assumes "HasPrefix (mf_Tag f) ''sqoff''" and "\<not> e_killSwitch (sv_engine sv)"
    and "InsertMasterFill f (sv_db sv) = (Inr k, d1)"
    and "MasterFillConsumer_Handle (server_consumer P resolver) f sv = (r, sv1)" and "wf_admin (sv_db sv1)"
    and "ResolveMasterID i (sv_db sv1) = (Inr m, d2)"
    and "LatestMasterFill order_by m d2 = (Inr fill, d3)" and "mf_ID fill = k" and "mf_Status fill = [] \<or> mf_Status fill = TerminalComplete"
    and "MasterActive (mf_MasterID fill) d3 = (Inr True, d4)" and "EnabledFollowLinks (mf_MasterID fill) d4 = (Inr links, d5)"
    and "rebalance_action P resolver' order_by i sv1 = ((202, w), sv2)"
  shows "sv_outs sv1 = sv_outs sv \<and> follower_orders (sv_db sv1) = follower_orders (sv_db sv)
    \<and> (\<forall>l \<in> set links. \<exists>row \<in> set (follower_orders (sv_db sv2)). fr_idempotency_tag row = IdempotencyTag k (fl_FollowerID l))
    \<and> (\<exists>lot new. sv_outs sv2 = sv_outs sv @ new \<and> list_all2 (settled P fill lot (follower_orders (sv_db sv2)))
         (filter (\<lambda>l. IdempotencyTag k (fl_FollowerID l) \<notin> fr_idempotency_tag ` set (follower_orders (sv_db sv))) links) new)"
proof -
  have d1: "follower_orders d1 = follower_orders (sv_db sv)"
    using assms(3) by (auto simp: InsertMasterFill_def db_call_def Let_def split: list.splits option.splits if_splits)
  have "dropped (sv_engine (sv\<lparr> sv_db := d1 \<rparr>)) (f\<lparr> mf_ID := k \<rparr>)" using assms(1) by (simp add: dropped_def)
  then obtain d' where drop: "server_handle P resolver (f\<lparr> mf_ID := k \<rparr>) (sv\<lparr> sv_db := d1 \<rparr>) = (Inr (), sv\<lparr> sv_db := d' \<rparr>)"
      "follower_orders d' = follower_orders d1"
    using dropped_handle [of "sv\<lparr> sv_db := d1 \<rparr>" "f\<lparr> mf_ID := k \<rparr>" P resolver] by auto
  then have sv1: "sv_outs sv1 = sv_outs sv" "follower_orders (sv_db sv1) = follower_orders (sv_db sv)" "sv_engine sv1 = sv_engine sv"
    using assms(3,4) d1 by (auto simp: MasterFillConsumer_Handle_def with_db_def start_sync_def server_consumer_def)
  let ?sv = "sv1\<lparr> sv_db := d3 \<rparr>"
  have h: "server_handle P resolver' fill ?sv = (Inr (), sv2)"
    using assms(6,7,12) by (auto simp: rebalance_action_def with_db_def split: prod.splits sum.splits if_splits)
  obtain fs gs where fs: "d2 = (sv_db sv1)\<lparr> faults := fs \<rparr>" "d3 = d2\<lparr> faults := gs \<rparr>"
    using resolve_reads [OF assms(6)] assms(7) by (auto simp: LatestMasterFill_def dest!: db_reads)
  have "wf_admin d3" using assms(5) wf_admin_tables [of d3 "sv_db sv1"] fs by simp
  moreover have "\<not> dropped (sv_engine ?sv) fill"
    using assms(2,7,9) sv1(3) by (auto simp: dropped_def IsKillSwitchEngaged_def HasPrefix_def LatestMasterFill_def stored_fill_def db_call_def
        split: list.splits option.splits)
  ultimately show ?thesis
    using handle_settled [OF _ _ _ assms(11) h] assms(8,10) sv1 fs by (fastforce simp: tags_of_def)
qed

theorem rebalance_copies_square_off_witness:
  "\<exists>row \<in> set (follower_orders (sv_db (snd (rebalance_action dec16 None id ''m'' ex_squared)))). fr_idempotency_tag row = IdempotencyTag 1 ''f''"
proof -
  have tag: "HasPrefix (mf_Tag ex_square) ''sqoff''" by (simp add: ex_square_def HasPrefix_def)
  have off: "\<not> e_killSwitch (sv_engine ex_server)" by (simp add: ex_server_def new_server_def Engine_New_def)
  have ins: "InsertMasterFill ex_square (sv_db ex_server) = (Inr 1, ex_sdb)" using ex_square_reads(1) by (simp add: ex_server_def)
  have db: "sv_db ex_squared = ex_square_db" by (simp add: ex_squared_def)
  have "admin_tables ex_square_db = admin_tables ex_admin_db"
    using write_frames(1) [OF ex_square_reads(2)] by (simp add: admin_tables_def ex_sdb_def)
  from wf_admin_tables [OF this] have wf: "wf_admin (sv_db ex_squared)" using ex_server_ok(1) by (simp add: ex_server_def db)
  have m: "mf_MasterID (ex_fill\<lparr> mf_ID := 1 \<rparr>) = ''m''" "mf_ID (ex_fill\<lparr> mf_ID := 1 \<rparr>) = 1"
    "mf_Status (ex_fill\<lparr> mf_ID := 1 \<rparr>) = [] \<or> mf_Status (ex_fill\<lparr> mf_ID := 1 \<rparr>) = TerminalComplete" by (simp_all add: ex_fill_def)
  obtain w sv2 where act: "rebalance_action dec16 None id ''m'' ex_squared = ((202, w), sv2)"
    using ex_rebalanced by (metis prod.collapse)
  have res: "ResolveMasterID ''m'' (sv_db ex_squared) = (Inr ''m'', ex_square_db)" using ex_square_reads(3) by (simp add: db)
  from rebalance_copies_square_off [OF tag off ins ex_squared_eq wf res ex_square_reads(4) m(2,3)
      ex_square_reads(5) [folded m(1)] ex_square_reads(6) [folded m(1)] act]
  show ?thesis by (simp add: act)
qed

end
