(* ===== verification/Instruments.thy ===== *)
theory Instruments
  imports Callbacks "HOL-Library.AList"
begin

text \<open>
  The instrument master: its table in the store (\<open>store.go\<close>, \<open>instruments.sql\<close>), the cache in front of it
  (\<open>instrument/cache.go\<close>), the daily download (\<open>instrument/syncer.go\<close>) and Dhan's own index (\<open>dhan/resolver.go\<close>). The maps
  of the code are association lists with one entry per key, as their sizes matter. The response of a
  download, \<open>godhan.ParseInstruments\<close> and \<open>time.Parse\<close> are arguments; the records a \<open>csv.Reader\<close> yields are the body of a Zerodha response.
\<close>

section \<open>The table (store.go, queries/instruments.sql)\<close>

text \<open>\<open>RefreshedAt\<close> is set by the database only. An expiry is a time in UTC, as \<open>time.Parse\<close> gives it.\<close>

record Instrument =
  it_InstrumentToken :: int
  it_Broker :: string
  it_Exchange :: string
  it_Tradingsymbol :: string
  it_LotSize :: int
  it_TickSize :: decimal
  it_Segment :: string
  it_SecurityID :: string
  it_ExchangeSegment :: string
  it_Expiry :: "gotime option"

definition pg_range :: go_error where
  "pg_range = PgError ''22003'' ''numeric field overflow''"

definition pg_twice :: go_error where
  "pg_twice = PgError ''21000'' ''ON CONFLICT DO UPDATE command cannot affect row a second time''"

definition or_kite :: "string \<Rightarrow> string" where
  "or_kite b = (if b = [] then ''kite'' else b)"

definition utc_day :: "gotime \<Rightarrow> int" where
  "utc_day t = t div (24 * Hour)"

text \<open>The row of a statement; only the single upsert stores an empty segment as text.\<close>

definition instrument_row :: "string option \<Rightarrow> Instrument \<Rightarrow> instr_row" where
  "instrument_row segment i = \<lparr> in_instrument_token = it_InstrumentToken i, in_broker = or_kite (it_Broker i), in_exchange = it_Exchange i,
     in_tradingsymbol = it_Tradingsymbol i, in_lot_size = wrap32 (it_LotSize i), in_tick_size = numeric4 (it_TickSize i),
     in_segment = segment, in_security_id = nonempty (it_SecurityID i), in_exchange_segment = nonempty (it_ExchangeSegment i),
     in_expiry = map_option utc_day (it_Expiry i) \<rparr>"

definition batch_row :: "Instrument \<Rightarrow> instr_row" where
  "batch_row i = instrument_row (nonempty (it_Segment i)) i"

text \<open>A column \<open>numeric(10,4)\<close> has six digits before the point.\<close>

definition tick_fits :: "instr_row \<Rightarrow> bool" where
  "tick_fits r \<longleftrightarrow> \<bar>in_tick_size r\<bar> < 10 ^ 6"

definition upsert_instrument :: "instr_row \<Rightarrow> instr_row list \<Rightarrow> instr_row list" where
  "upsert_instrument r rows =
     (if in_instrument_token r \<in> set (map in_instrument_token rows)
      then update_where (\<lambda>q. in_instrument_token q = in_instrument_token r) (\<lambda>_. r) rows else rows @ [r])"

definition UpsertInstrument :: "Instrument \<Rightarrow> db \<Rightarrow> unit result \<times> db" where
  "UpsertInstrument i = db_call (\<lambda>d.
     let r = instrument_row (Some (it_Segment i)) i
     in if \<not> tick_fits r then (Inl pg_range, d) else (Inr (), d\<lparr> instruments := upsert_instrument r (instruments d) \<rparr>))"

definition PruneInstrumentsByBroker :: "string \<Rightarrow> db \<Rightarrow> int result \<times> db" where
  "PruneInstrumentsByBroker broker = db_call (\<lambda>d.
     (Inr (int (length (filter (\<lambda>r. in_broker r = broker) (instruments d)))),
      d\<lparr> instruments := filter (\<lambda>r. in_broker r \<noteq> broker) (instruments d) \<rparr>))"

definition VacuumInstruments :: "db \<Rightarrow> unit result \<times> db" where
  "VacuumInstruments = db_call (\<lambda>d. (Inr (), d))"

definition BatchInsertInstruments :: "Instrument list \<Rightarrow> db \<Rightarrow> unit result \<times> db" where
  "BatchInsertInstruments ins d =
     (if ins = [] then (Inr (), d)
      else db_call (\<lambda>d.
        let rows = map batch_row ins
        in if \<not> list_all tick_fits rows then (Inl pg_range, d)
           else if \<not> distinct (map in_instrument_token rows) then (Inl pg_twice, d)
           else (Inr (), d\<lparr> instruments := fold upsert_instrument rows (instruments d) \<rparr>)) d)"

text \<open>The first day of the month of a day and of the month after it.\<close>

definition month_start :: "int \<Rightarrow> int" where
  "month_start n = (let y = year_of n in date_days y (month_of y (n - days_before_year y)) 1)"

definition next_month_start :: "int \<Rightarrow> int" where
  "next_month_start n =
     (let y = year_of n; m = month_of y (n - days_before_year y)
      in if m < 12 then date_days y (m + 1) 1 else date_days (y + 1) 1 1)"

definition active_fo :: "int \<Rightarrow> instr_row \<Rightarrow> bool" where
  "active_fo today r = (case in_expiry r of None \<Rightarrow> False | Some x \<Rightarrow>
     (in_exchange r \<in> {''NFO'', ''BFO'', ''MCX''} \<or> in_exchange_segment r \<in> {Some ''NSE_FNO'', Some ''BSE_FNO'', Some ''MCX_COMM''})
     \<and> today \<le> x \<and> (month_start today \<le> x \<and> x < next_month_start today \<or> x \<le> today + 21))"

text \<open>\<open>COALESCE(column, '')\<close>\<close>

definition text_of :: "string option \<Rightarrow> string" where
  "text_of v = (case v of None \<Rightarrow> [] | Some s \<Rightarrow> s)"

definition active_instrument :: "instr_row \<Rightarrow> Instrument" where
  "active_instrument r = \<lparr> it_InstrumentToken = 0, it_Broker = in_broker r, it_Exchange = in_exchange r, it_Tradingsymbol = in_tradingsymbol r,
     it_LotSize = in_lot_size r, it_TickSize = 0, it_Segment = [], it_SecurityID = text_of (in_security_id r),
     it_ExchangeSegment = text_of (in_exchange_segment r), it_Expiry = map_option (\<lambda>x. x * (24 * Hour)) (in_expiry r) \<rparr>"

text \<open>\<open>ORDER BY expiry ASC, tradingsymbol ASC LIMIT 10000\<close>; the rank stands for the collation and the order of ties of the database.\<close>

definition ActiveFOInstrumentsForCache :: "(instr_row \<Rightarrow> int) \<Rightarrow> db \<Rightarrow> Instrument list result \<times> db" where
  "ActiveFOInstrumentsForCache rank = db_call (\<lambda>d.
     (Inr (map active_instrument (take 10000 (sort_key (\<lambda>r. the (in_expiry r)) (sort_key rank
        (filter (active_fo (ist_day (db_now d))) (instruments d)))))), d))"

definition InstrumentSecurityID :: "string \<Rightarrow> string \<Rightarrow> db \<Rightarrow> (string \<times> string \<times> int) result \<times> db" where
  "InstrumentSecurityID ex symb = db_call (\<lambda>d.
     case first_by (\<lambda>a b. expiry_before (ist_day (db_now d)) (in_expiry a) (in_expiry b))
            (filter (\<lambda>r. instr_matches ex symb r \<and> text_of (in_security_id r) \<noteq> []) (instruments d)) of
       None \<Rightarrow> (Inl ErrNotFound, d)
     | Some r \<Rightarrow> (Inr (text_of (in_security_id r), text_of (in_exchange_segment r), in_lot_size r), d))"

section \<open>The cache (instrument/cache.go)\<close>

record 's cache_store =
  cs_ActiveFO :: "'s \<Rightarrow> Instrument list result \<times> 's"
  cs_LotSize :: "string \<Rightarrow> string \<Rightarrow> 's \<Rightarrow> int result \<times> 's"
  cs_SecurityID :: "string \<Rightarrow> string \<Rightarrow> 's \<Rightarrow> (string \<times> string \<times> int) result \<times> 's"

record Info =
  nf_LotSize :: int
  nf_SecurityID :: string
  nf_ExchangeSegment :: string
  nf_Tradingsymbol :: string
  nf_Broker :: string

record Cache =
  ca_capacity :: int
  ca_entries :: "(string \<times> Info) list"
  ca_revSec :: "(string \<times> string) list"

definition NewCache :: "int \<Rightarrow> Cache" where
  "NewCache capacity = \<lparr> ca_capacity = (if capacity \<le> 0 then 10000 else capacity), ca_entries = [], ca_revSec = [] \<rparr>"

text \<open>\<open>strings.ToUpper(strings.TrimSpace(s))\<close>\<close>

definition canon :: "string \<Rightarrow> string" where
  "canon s = ToUpper (TrimSpace s)"

definition instrument_key :: "string \<Rightarrow> string \<Rightarrow> string" where
  "instrument_key ex symb = ex @ '':'' @ symb"

definition rev_key :: "string \<Rightarrow> string \<Rightarrow> string" where
  "rev_key segment secID = canon segment @ '':'' @ TrimSpace secID"

definition info_of :: "Instrument \<Rightarrow> Info" where
  "info_of i = \<lparr> nf_LotSize = it_LotSize i, nf_SecurityID = it_SecurityID i, nf_ExchangeSegment = it_ExchangeSegment i,
     nf_Tradingsymbol = it_Tradingsymbol i, nf_Broker = it_Broker i \<rparr>"

definition lot_info :: "int \<Rightarrow> Info" where
  "lot_info n = \<lparr> nf_LotSize = n, nf_SecurityID = [], nf_ExchangeSegment = [], nf_Tradingsymbol = [], nf_Broker = [] \<rparr>"

fun load_entries :: "int \<Rightarrow> Instrument list \<Rightarrow> (string \<times> Info) list \<Rightarrow> (string \<times> string) list
    \<Rightarrow> (string \<times> Info) list \<times> (string \<times> string) list" where
  "load_entries cap [] es rs = (es, rs)"
| "load_entries cap (i # ins) es rs =
     (if cap \<le> int (length es) then (es, rs)
      else let key = instrument_key (canon (it_Exchange i)) (canon (it_Tradingsymbol i));
               rs1 = (if it_ExchangeSegment i \<noteq> [] \<and> it_SecurityID i \<noteq> []
                      then AList.update (rev_key (it_ExchangeSegment i) (it_SecurityID i)) key rs else rs)
           in load_entries cap ins (if map_of es key \<noteq> None then es else AList.update key (info_of i) es) rs1)"

definition AutoLoadActiveFO :: "'s cache_store option \<Rightarrow> Cache \<Rightarrow> 's \<Rightarrow> unit result \<times> Cache \<times> 's" where
  "AutoLoadActiveFO store c s = (case store of
      None \<Rightarrow> (Inl (Plain ''cache store is nil''), c, s)
    | Some st \<Rightarrow> (case cs_ActiveFO st s of
        (Inl err, s1) \<Rightarrow> (Inl (errorf ''auto-load active fo'' err), c, s1)
      | (Inr ins, s1) \<Rightarrow> (case load_entries (ca_capacity c) ins [] [] of
          (es, rs) \<Rightarrow> (Inr (), c\<lparr> ca_entries := es, ca_revSec := rs \<rparr>, s1))))"

text \<open>The exchange of the derivatives for one of the cash market and the other way round.\<close>

definition alias_exchange :: "string \<Rightarrow> string option" where
  "alias_exchange ex =
     (if ex = ''NFO'' then Some ''NSE'' else if ex = ''NSE'' then Some ''NFO''
      else if ex = ''BFO'' then Some ''BSE'' else if ex = ''BSE'' then Some ''BFO'' else None)"

definition cached :: "Cache \<Rightarrow> string \<Rightarrow> string \<Rightarrow> Info option" where
  "cached c ex symb = map_of (ca_entries c) (instrument_key ex symb)"

definition cached_alias :: "Cache \<Rightarrow> string \<Rightarrow> string \<Rightarrow> Info option" where
  "cached_alias c ex symb = (case alias_exchange ex of None \<Rightarrow> None | Some a \<Rightarrow> cached c a symb)"

text \<open>An entry is added, or replaced, as long as the cache is not full.\<close>

definition remember :: "string \<Rightarrow> Info \<Rightarrow> Cache \<Rightarrow> Cache" where
  "remember key info c =
     (if int (length (ca_entries c)) < ca_capacity c then c\<lparr> ca_entries := AList.update key info (ca_entries c) \<rparr> else c)"

definition lot_or_missing :: "int \<Rightarrow> int result" where
  "lot_or_missing n = (if n \<le> 0 then Inl ErrNotFound else Inr n)"

definition empty_symbol :: go_error where
  "empty_symbol = Wrapf [] ErrNotFound '': empty exchange or symbol''"

definition ResolveLotSize :: "'s cache_store option \<Rightarrow> string \<Rightarrow> string \<Rightarrow> Cache \<Rightarrow> 's \<Rightarrow> int result \<times> Cache \<times> 's" where
  "ResolveLotSize store exchange tradingsymbol c s =
     (let ex = canon exchange; symb = canon tradingsymbol; key = instrument_key ex symb
      in if ex = [] \<or> symb = [] then (Inl empty_symbol, c, s)
         else (case (case cached c ex symb of Some info \<Rightarrow> Some info | None \<Rightarrow> cached_alias c ex symb) of
           Some info \<Rightarrow> (lot_or_missing (nf_LotSize info), c, s)
         | None \<Rightarrow> (case store of
             None \<Rightarrow> (Inl ErrNotFound, c, s)
           | Some st \<Rightarrow> (case cs_LotSize st ex symb s of
               (Inl err, s1) \<Rightarrow>
                 if errors_Is err ErrNotFound then (Inl ErrNotFound, remember key (lot_info 0) c, s1) else (Inl err, c, s1)
             | (Inr lotSize, s1) \<Rightarrow> (Inr lotSize, remember key (lot_info lotSize) c, s1)))))"

definition security_of :: "Info option \<Rightarrow> (string \<times> string \<times> int) option" where
  "security_of info = (case info of None \<Rightarrow> None | Some i \<Rightarrow>
     if nf_SecurityID i = [] then None else Some (nf_ExchangeSegment i, nf_SecurityID i, nf_LotSize i))"

definition remember_security :: "string \<Rightarrow> string \<Rightarrow> string \<Rightarrow> string \<Rightarrow> int \<Rightarrow> Cache \<Rightarrow> Cache" where
  "remember_security key rawSym secID exSeg lot c =
     (if int (length (ca_entries c)) < ca_capacity c
      then c\<lparr> ca_entries := AList.update key \<lparr> nf_LotSize = lot, nf_SecurityID = secID, nf_ExchangeSegment = exSeg,
                nf_Tradingsymbol = rawSym, nf_Broker = [] \<rparr> (ca_entries c),
              ca_revSec := (if exSeg \<noteq> [] then AList.update (rev_key exSeg secID) key (ca_revSec c) else ca_revSec c) \<rparr>
      else c)"

definition ResolveToSecurityID ::
  "'s cache_store option \<Rightarrow> string \<Rightarrow> string \<Rightarrow> Cache \<Rightarrow> 's \<Rightarrow> (string \<times> string \<times> int) result \<times> Cache \<times> 's" where
  "ResolveToSecurityID store exchange tradingsymbol c s =
     (let ex = canon exchange; rawSym = TrimSpace tradingsymbol; symb = ToUpper rawSym; key = instrument_key ex symb;
          missing = (Inl (Wrapf [] ErrNotFound ('': '' @ exchange @ '':'' @ tradingsymbol)))
      in if ex = [] \<or> symb = [] then (Inl empty_symbol, c, s)
         else (case security_of (cached c ex symb) of
           Some hit \<Rightarrow> (Inr hit, c, s)
         | None \<Rightarrow> (case security_of (cached_alias c ex symb) of
             Some hit \<Rightarrow> (Inr hit, c, s)
           | None \<Rightarrow> (case store of
               None \<Rightarrow> (missing, c, s)
             | Some st \<Rightarrow> (case cs_SecurityID st ex rawSym s of
                 (Inl err, s1) \<Rightarrow> (missing, c, s1)
               | (Inr (secID, exSeg, lot), s1) \<Rightarrow>
                   if secID = [] then (missing, c, s1)
                   else (Inr (exSeg, secID, lot), remember_security key rawSym secID exSeg lot c, s1))))))"

text \<open>\<open>strings.SplitN(key, ":", 2)\<close>, which has two parts if there is a colon.\<close>

definition split_key :: "string \<Rightarrow> (string \<times> string) option" where
  "split_key key = (case dropWhile (\<lambda>ch. ch \<noteq> CHR '':'') key of
      [] \<Rightarrow> None | _ # rest \<Rightarrow> Some (takeWhile (\<lambda>ch. ch \<noteq> CHR '':'') key, rest))"

definition ResolveToSymbol :: "Cache \<Rightarrow> symbol_resolver" where
  "ResolveToSymbol c exchangeSegment securityID =
     (let seg = canon exchangeSegment; secID = TrimSpace securityID;
          missing = Inl (Wrapf [] ErrNotFound ('': '' @ exchangeSegment @ '':'' @ securityID))
      in if seg = [] \<or> secID = [] then Inl (Wrapf [] ErrNotFound '': empty segment or securityId'')
         else (case map_of (ca_revSec c) (seg @ '':'' @ secID) of
           None \<Rightarrow> missing
         | Some key \<Rightarrow> (case split_key key of
             None \<Rightarrow> missing
           | Some (ex, symb) \<Rightarrow> (case map_of (ca_entries c) key of
               Some info \<Rightarrow> Inr (ex, if nf_Tradingsymbol info \<noteq> [] then nf_Tradingsymbol info else symb)
             | None \<Rightarrow> Inr (ex, symb)))))"

definition Cache_Count :: "Cache \<Rightarrow> int" where
  "Cache_Count c = int (length (ca_entries c))"

definition Cache_Capacity :: "Cache \<Rightarrow> int" where
  "Cache_Capacity c = ca_capacity c"

text \<open>The cache as \<open>main.go\<close> builds it, in front of the store, and as the lookup of the Dhan adapter.\<close>

definition db_cache_store :: "(instr_row \<Rightarrow> int) \<Rightarrow> db cache_store" where
  "db_cache_store rank = \<lparr> cs_ActiveFO = ActiveFOInstrumentsForCache rank, cs_LotSize = InstrumentLotSize,
     cs_SecurityID = InstrumentSecurityID \<rparr>"

definition cache_lookup :: "'s cache_store \<Rightarrow> (Cache \<times> 's) security_lookup" where
  "cache_lookup st ex symb cs = (case ResolveToSecurityID (Some st) ex symb (fst cs) (snd cs) of (r, c, s) \<Rightarrow> (r, (c, s)))"

section \<open>The daily download (instrument/syncer.go)\<close>

definition mapDhanExchangeSegment :: "string \<Rightarrow> string \<Rightarrow> string" where
  "mapDhanExchangeSegment exchange segment =
     (let exch = canon exchange; seg = canon segment
      in if exch = ''NSE'' then
           (if seg = ''D'' then ''NSE_FNO'' else if seg = ''C'' then ''NSE_CURRENCY'' else if seg = ''M'' then ''MCX_COMM'' else ''NSE_EQ'')
         else if exch = ''BSE'' then
           (if seg = ''D'' then ''BSE_FNO'' else if seg = ''C'' then ''BSE_CURRENCY'' else if seg = ''M'' then ''MCX_COMM'' else ''BSE_EQ'')
         else if exch = ''MCX'' then ''MCX_COMM''
         else if seg = ''D'' then exch @ ''_FNO'' else if seg = ''M'' then ''MCX_COMM'' else exch @ ''_EQ'')"

definition isDhanEquity :: "string \<Rightarrow> string \<Rightarrow> bool" where
  "isDhanEquity segment instrumentName \<longleftrightarrow>
     canon segment \<in> {''E'', ''G'', ''I''} \<or> canon instrumentName \<in> {''EQUITY'', ''INDEX''}"

text \<open>A record of Dhan's list as \<open>godhan.ParseInstruments\<close> returns it.\<close>

record scrip =
  sc_Exchange :: string
  sc_Segment :: string
  sc_InstrumentName :: string
  sc_SecurityID :: string
  sc_TradingSymbol :: string
  sc_LotSize :: float64
  sc_ExpiryDate :: string

text \<open>The value of \<open>strconv.ParseInt(s, 10, 64)\<close> and of \<open>strconv.Atoi\<close> without the error: 0 for a text that is no number, the
  nearest bound for a number out of range.\<close>

definition decimal_digit :: "char \<Rightarrow> bool" where
  "decimal_digit ch \<longleftrightarrow> 48 \<le> (of_char ch :: nat) \<and> (of_char ch :: nat) \<le> 57"

definition digits_value :: "string \<Rightarrow> int option" where
  "digits_value ds =
     (if ds = [] \<or> \<not> list_all decimal_digit ds then None else Some (foldl (\<lambda>n ch. 10 * n + (of_char ch - 48)) 0 ds))"

definition ParseInt :: "string \<Rightarrow> int" where
  "ParseInt s =
     (let minus = HasPrefix s ''-''; ds = (if minus \<or> HasPrefix s ''+'' then tl s else s)
      in case digits_value ds of None \<Rightarrow> 0
         | Some n \<Rightarrow> if minus then max (- (2 ^ 63)) (- n) else min (2 ^ 63 - 1) n)"

definition at_least_one :: "int \<Rightarrow> int" where
  "at_least_one lot = (if lot \<le> 0 then 1 else lot)"

text \<open>\<open>int(f)\<close> for a float that fits: the fraction is cut off.\<close>

definition truncate_float :: "float64 \<Rightarrow> int" where
  "truncate_float x = wrap64 (if 0 \<le> x then \<lfloor>x\<rfloor> else - \<lfloor>- x\<rfloor>)"

definition dhan_token_base :: int where
  "dhan_token_base = 1000000000000"

definition scrip_token :: "nat \<Rightarrow> string \<Rightarrow> int" where
  "scrip_token n secID =
     (let token = wrap64 (dhan_token_base + ParseInt secID)
      in if token \<le> dhan_token_base then dhan_token_base + int (n + 1) else token)"

definition dhan_expiry :: "time_parser \<Rightarrow> string \<Rightarrow> gotime option" where
  "dhan_expiry parse date =
     (if date = [] then None else first_Some (\<lambda>layout. parse layout date) [''2006-01-02 15:04:05'', ''2006-01-02''])"

definition derivative_exchange :: "string \<Rightarrow> string \<Rightarrow> string" where
  "derivative_exchange exchange segment =
     (if segment = ''D'' \<and> exchange = ''NSE'' then ''NFO'' else if segment = ''D'' \<and> exchange = ''BSE'' then ''BFO'' else exchange)"

text \<open>The number of instruments mapped so far serves as the token of one without a numeric id.\<close>

definition scrip_instrument :: "time_parser \<Rightarrow> nat \<Rightarrow> scrip \<Rightarrow> Instrument" where
  "scrip_instrument parse n i = \<lparr> it_InstrumentToken = scrip_token n (sc_SecurityID i), it_Broker = ''dhan'',
     it_Exchange = derivative_exchange (canon (sc_Exchange i)) (TrimSpace (sc_Segment i)), it_Tradingsymbol = TrimSpace (sc_TradingSymbol i),
     it_LotSize = at_least_one (truncate_float (sc_LotSize i)), it_TickSize = 0, it_Segment = TrimSpace (sc_Segment i),
     it_SecurityID = sc_SecurityID i, it_ExchangeSegment = mapDhanExchangeSegment (sc_Exchange i) (sc_Segment i),
     it_Expiry = dhan_expiry parse (sc_ExpiryDate i) \<rparr>"

fun dhan_instruments :: "time_parser \<Rightarrow> scrip list \<Rightarrow> Instrument list \<Rightarrow> Instrument list" where
  "dhan_instruments parse [] acc = acc"
| "dhan_instruments parse (i # rest) acc =
     (if isDhanEquity (sc_Segment i) (sc_InstrumentName i) then dhan_instruments parse rest acc
      else dhan_instruments parse rest (acc @ [scrip_instrument parse (length acc) i]))"

record 's syncer_store =
  sy_Prune :: "string \<Rightarrow> 's \<Rightarrow> int result \<times> 's"
  sy_BatchInsert :: "Instrument list \<Rightarrow> 's \<Rightarrow> unit result \<times> 's"
  sy_Vacuum :: "'s \<Rightarrow> unit result \<times> 's"

definition chunkSize :: nat where
  "chunkSize = 5000"

function insert_chunks :: "'s syncer_store \<Rightarrow> string \<Rightarrow> Instrument list \<Rightarrow> nat \<Rightarrow> 's \<Rightarrow> unit result \<times> 's" where
  "insert_chunks st broker ins i s =
     (if i < length ins then
        let stop = min (i + chunkSize) (length ins)
        in (case sy_BatchInsert st (take (stop - i) (drop i ins)) s of
              (Inl err, s1) \<Rightarrow> (Inl (errorf (''batch insert '' @ broker @ '' instruments chunk ['' @ show_int (int i) @ '':'' @ show_int (int stop) @ '']'') err), s1)
            | (Inr _, s1) \<Rightarrow> insert_chunks st broker ins (i + chunkSize) s1)
      else (Inr (), s))"
  by pat_completeness auto
termination
  by (relation "measure (\<lambda>(st, broker, ins, i, s). length ins - i)") (auto simp: chunkSize_def)

declare insert_chunks.simps [simp del]

text \<open>The end of both syncs: delete the broker's rows, insert the new ones, vacuum, whose error is only logged.\<close>

definition replace_instruments :: "'s syncer_store \<Rightarrow> string \<Rightarrow> Instrument list \<Rightarrow> 's \<Rightarrow> unit result \<times> 's" where
  "replace_instruments st broker ins s = (case sy_Prune st broker s of
      (Inl err, s1) \<Rightarrow> (Inl (errorf (''prune '' @ broker @ '' instruments'') err), s1)
    | (Inr _, s1) \<Rightarrow> (case insert_chunks st broker ins 0 s1 of
        (Inl err, s2) \<Rightarrow> (Inl err, s2)
      | (Inr _, s2) \<Rightarrow> (Inr (), snd (sy_Vacuum st s2))))"

text \<open>The response of a request is its status and body, or the error of the client.\<close>

definition SyncDhan :: "('b \<Rightarrow> scrip list result) \<Rightarrow> time_parser \<Rightarrow> (int \<times> 'b) result \<Rightarrow> 's syncer_store \<Rightarrow> 's \<Rightarrow> unit result \<times> 's" where
  "SyncDhan ParseInstruments parse response st s = (case response of
      Inl err \<Rightarrow> (Inl (errorf ''fetch dhan scrips'' err), s)
    | Inr (status, body) \<Rightarrow>
        if status \<noteq> 200 then (Inl (Plain (''unexpected http status '' @ show_int status @ '' fetching dhan scrips'')), s)
        else (case ParseInstruments body of
            Inl err \<Rightarrow> (Inl (errorf ''parse dhan instruments'' err), s)
          | Inr raw \<Rightarrow>
              if raw = [] then (Inl (Plain ''dhan returned 0 instruments, skipping replacement''), s)
              else let ins = dhan_instruments parse raw []
                in if ins = [] then (Inl (Plain ''dhan returned 0 non-equity instruments, skipping replacement''), s)
                   else replace_instruments st ''dhan'' ins s))"

text \<open>What a \<open>csv.Reader\<close> yields: the header, the rows after it, and the error that ends them unless they end with the body. All rows
  are as long as the header. The map of the columns has the last index of a name, and 0 for one that is absent.\<close>

record csv_body =
  cv_header :: "string list result"
  cv_rows :: "string list list"
  cv_error :: "go_error option"

fun column_index :: "string \<Rightarrow> nat \<Rightarrow> string list \<Rightarrow> nat \<Rightarrow> nat" where
  "column_index name i [] found = found"
| "column_index name i (h # hs) found = column_index name (Suc i) hs (if TrimSpace h = name then i else found)"

definition column :: "string list \<Rightarrow> string \<Rightarrow> string list \<Rightarrow> string" where
  "column header name row = row ! column_index name 0 header 0"

definition kite_instrument :: "time_parser \<Rightarrow> (string \<Rightarrow> decimal) \<Rightarrow> string \<Rightarrow> string list \<Rightarrow> string list \<Rightarrow> Instrument" where
  "kite_instrument parse NewFromString exch header row =
     (let expiry = column header ''expiry'' row
      in \<lparr> it_InstrumentToken = ParseInt (column header ''instrument_token'' row), it_Broker = ''kite'', it_Exchange = exch,
           it_Tradingsymbol = column header ''tradingsymbol'' row, it_LotSize = at_least_one (ParseInt (column header ''lot_size'' row)),
           it_TickSize = NewFromString (column header ''tick_size'' row), it_Segment = column header ''segment'' row,
           it_SecurityID = [], it_ExchangeSegment = [], it_Expiry = (if expiry = [] then None else parse ''2006-01-02'' expiry) \<rparr>)"

definition read_kite :: "time_parser \<Rightarrow> (string \<Rightarrow> decimal) \<Rightarrow> string \<Rightarrow> (int \<times> csv_body) result \<Rightarrow> Instrument list result" where
  "read_kite parse NewFromString exch response = (case response of
      Inl err \<Rightarrow> Inl (errorf (''fetch kite instruments for '' @ exch) err)
    | Inr (status, body) \<Rightarrow>
        if status \<noteq> 200 then Inl (Plain (''unexpected http status '' @ show_int status @ '' fetching kite '' @ exch))
        else (case cv_header body of
            Inl err \<Rightarrow> Inl (errorf (''read kite header '' @ exch) err)
          | Inr header \<Rightarrow> (case cv_error body of
              Some err \<Rightarrow> Inl (errorf (''read kite row '' @ exch) err)
            | None \<Rightarrow> Inr (map (kite_instrument parse NewFromString exch header) (cv_rows body)))))"

fun read_exchanges :: "(string \<Rightarrow> Instrument list result) \<Rightarrow> string list \<Rightarrow> Instrument list result" where
  "read_exchanges read [] = Inr []"
| "read_exchanges read (e # es) = (case read e of
      Inl err \<Rightarrow> Inl err
    | Inr ins \<Rightarrow> (case read_exchanges read es of Inl err \<Rightarrow> Inl err | Inr rest \<Rightarrow> Inr (ins @ rest)))"

definition SyncKite ::
  "time_parser \<Rightarrow> (string \<Rightarrow> decimal) \<Rightarrow> (string \<Rightarrow> (int \<times> csv_body) result) \<Rightarrow> string list \<Rightarrow> 's syncer_store \<Rightarrow> 's \<Rightarrow> unit result \<times> 's" where
  "SyncKite parse NewFromString fetch exchanges st s =
     (case read_exchanges (\<lambda>e. read_kite parse NewFromString e (fetch e))
             (if exchanges = [] then [''MCX'', ''NFO'', ''BFO''] else exchanges) of
        Inl err \<Rightarrow> (Inl err, s)
      | Inr ins \<Rightarrow>
          if ins = [] then (Inl (Plain ''kite returned 0 instruments across exchanges, skipping replacement''), s)
          else replace_instruments st ''kite'' ins s)"

definition NextRunDuration :: "gotime \<Rightarrow> int \<Rightarrow> int \<Rightarrow> duration" where
  "NextRunDuration now targetHour targetMinute =
     (let nowIST = now + ist_offset;
          target = nowIST div (24 * Hour) * (24 * Hour) + targetHour * Hour + targetMinute * Minute
      in (if nowIST < target then target else target + 24 * Hour) - nowIST)"

definition db_syncer_store :: "db syncer_store" where
  "db_syncer_store = \<lparr> sy_Prune = PruneInstrumentsByBroker, sy_BatchInsert = BatchInsertInstruments, sy_Vacuum = VacuumInstruments \<rparr>"

text \<open>One run of the daily routine: the errors of the three parts are only logged.\<close>

definition daily_refresh :: "(db \<Rightarrow> unit result \<times> db) \<Rightarrow> (db \<Rightarrow> unit result \<times> db) \<Rightarrow> (instr_row \<Rightarrow> int) \<Rightarrow> Cache \<Rightarrow> db \<Rightarrow> Cache \<times> db" where
  "daily_refresh syncDhan syncKite rank c d =
     snd (AutoLoadActiveFO (Some (db_cache_store rank)) c (snd (syncKite (snd (syncDhan d)))))"

section \<open>Dhan's index (dhan/resolver.go)\<close>

record resolvedSecurity =
  rv_ExchangeSegment :: string
  rv_SecurityID :: string
  rv_LotSize :: int

record InstrumentResolver =
  ir_symbolToSec :: "string \<Rightarrow> resolvedSecurity option"
  ir_secToSymbol :: "string \<Rightarrow> (string \<times> string) option"

definition NewInstrumentResolver :: InstrumentResolver where
  "NewInstrumentResolver = \<lparr> ir_symbolToSec = Map.empty, ir_secToSymbol = Map.empty \<rparr>"

text \<open>\<open>MapExchangeSegment\<close> of this package has the text of the one of the syncer.\<close>

definition MapExchangeSegment :: "string \<Rightarrow> string \<Rightarrow> string" where
  "MapExchangeSegment = mapDhanExchangeSegment"

definition index_scrip :: "scrip \<Rightarrow> InstrumentResolver \<Rightarrow> InstrumentResolver" where
  "index_scrip i r =
     (let exSegment = MapExchangeSegment (sc_Exchange i) (sc_Segment i);
          sec = \<lparr> rv_ExchangeSegment = exSegment, rv_SecurityID = sc_SecurityID i, rv_LotSize = at_least_one (truncate_float (sc_LotSize i)) \<rparr>;
          rawSym = TrimSpace (sc_TradingSymbol i); cleanSym = ToUpper rawSym; cleanExch = canon (sc_Exchange i);
          m1 = (ir_symbolToSec r)(instrument_key cleanExch cleanSym \<mapsto> sec);
          m2 = (if sc_Segment i = ''D'' \<and> cleanExch = ''NSE'' then m1(instrument_key ''NFO'' cleanSym \<mapsto> sec) else m1);
          m3 = (if sc_Segment i = ''D'' \<and> cleanExch = ''BSE'' then m2(instrument_key ''BFO'' cleanSym \<mapsto> sec) else m2);
          canonicalExch = (if sc_Segment i = ''D'' \<and> cleanExch = ''NSE'' then ''NFO'' else cleanExch)
      in \<lparr> ir_symbolToSec = m3,
           ir_secToSymbol = (ir_secToSymbol r)(exSegment @ '':'' @ sc_SecurityID i \<mapsto> (canonicalExch, rawSym)) \<rparr>)"

definition LoadFromReader :: "scrip list result \<Rightarrow> InstrumentResolver \<Rightarrow> unit result \<times> InstrumentResolver" where
  "LoadFromReader parsed r = (case parsed of
      Inl err \<Rightarrow> (Inl (errorf ''parse dhan instruments'' err), r)
    | Inr scrips \<Rightarrow> (Inr (), fold index_scrip scrips NewInstrumentResolver))"

definition Resolver_ResolveToSecurityID :: "InstrumentResolver \<Rightarrow> string \<Rightarrow> string \<Rightarrow> (string \<times> string \<times> int) result" where
  "Resolver_ResolveToSecurityID r exchange tradingsymbol =
     (let ex = canon exchange; symb = canon tradingsymbol;
          answer = (\<lambda>sec. Inr (rv_ExchangeSegment sec, rv_SecurityID sec, rv_LotSize sec));
          missing = Inl (Wrapf [] ErrNotFound ('': '' @ exchange @ '':'' @ tradingsymbol));
          other = (if ex = ''NFO'' then ir_symbolToSec r (instrument_key ''NSE'' symb)
                   else if ex = ''NSE'' then ir_symbolToSec r (instrument_key ''NFO'' symb) else None)
      in if ex = [] \<or> symb = [] then Inl empty_symbol
         else (case ir_symbolToSec r (instrument_key ex symb) of
             Some sec \<Rightarrow> answer sec
           | None \<Rightarrow> (case other of Some sec \<Rightarrow> answer sec | None \<Rightarrow> missing)))"

definition Resolver_ResolveToSymbol :: "InstrumentResolver \<Rightarrow> symbol_resolver" where
  "Resolver_ResolveToSymbol r exchangeSegment securityID =
     (let seg = canon exchangeSegment; secID = TrimSpace securityID
      in if seg = [] \<or> secID = [] then Inl (Wrapf [] ErrNotFound '': empty segment or securityId'')
         else (case ir_secToSymbol r (seg @ '':'' @ secID) of
             Some symb \<Rightarrow> Inr symb
           | None \<Rightarrow> Inl (Wrapf [] ErrNotFound ('': '' @ exchangeSegment @ '':'' @ securityID))))"

end
