(* ===== verification/Instruments_Thms.thy ===== *)
theory Instruments_Thms
  imports Rebalance Instruments
begin

text \<open>
  Properties of the instrument master: the cache never answers with a lot size or a security that is
  not in the table and never outgrows its capacity, what a load of the cache does to two contracts that share a
  symbol, and what a download leaves in the table when it succeeds and when it does not.
\<close>

section \<open>Keys\<close>

lemma upper_char_idem [simp]: "upper_char (upper_char ch) = upper_char ch"
  by (cases "97 \<le> (of_char ch :: nat) \<and> (of_char ch :: nat) \<le> 122") (auto simp: upper_char_def Let_def)

lemma upper_char_space: "is_space (upper_char ch) = is_space ch"
  by (auto simp: upper_char_def is_space_def Let_def)

lemma ToUpper_TrimSpace: "ToUpper (TrimSpace s) = TrimSpace (ToUpper s)"
proof -
  have "is_space \<circ> upper_char = is_space" by (rule ext) (simp add: upper_char_space)
  then show ?thesis by (simp add: TrimSpace_def ToUpper_def rev_map dropWhile_map)
qed

lemma ToUpper_idem [simp]: "ToUpper (ToUpper s) = ToUpper s"
  by (simp add: ToUpper_def)

lemma canon_idem [simp]: "canon (canon s) = canon s"
  by (simp add: canon_def ToUpper_TrimSpace[symmetric])

lemma ToUpper_canon [simp]: "ToUpper (canon s) = canon s"
  by (simp add: canon_def)

lemma canon_upper: "ToUpper s = ToUpper t \<Longrightarrow> canon s = canon t"
  by (simp add: canon_def ToUpper_TrimSpace)

definition no_colon :: "string \<Rightarrow> bool" where
  "no_colon s \<longleftrightarrow> CHR '':'' \<notin> set s"

lemma split_instrument_key: "no_colon ex \<Longrightarrow> split_key (instrument_key ex symb) = Some (ex, symb)"
proof -
  assume "no_colon ex"
  then have "\<forall>ch \<in> set ex. ch \<noteq> CHR '':''" by (auto simp: no_colon_def)
  then show ?thesis by (simp add: split_key_def instrument_key_def takeWhile_append2)
qed

lemma instrument_key_inj: "no_colon a \<Longrightarrow> no_colon b \<Longrightarrow> instrument_key a x = instrument_key b y \<longleftrightarrow> a = b \<and> x = y"
  using split_instrument_key[of a x] split_instrument_key[of b y] by (metis option.inject prod.inject)

text \<open>The cash market an exchange belongs to, and the rows that are meant by an exchange and a symbol.\<close>

definition market :: "string \<Rightarrow> string" where
  "market ex = (if ex = ''NFO'' then ''NSE'' else if ex = ''BFO'' then ''BSE'' else ex)"

definition same_instrument :: "string \<Rightarrow> string \<Rightarrow> instr_row \<Rightarrow> bool" where
  "same_instrument ex symb r \<longleftrightarrow> market (canon (in_exchange r)) = market ex \<and> canon (in_tradingsymbol r) = symb"

lemma market_alias: "alias_exchange ex = Some a \<Longrightarrow> market a = market ex \<and> no_colon a"
  by (auto simp: alias_exchange_def market_def no_colon_def split: if_splits)

lemma canon_exchanges [simp]:
  "canon ''NSE'' = ''NSE''" "canon ''NFO'' = ''NFO''" "canon ''BSE'' = ''BSE''" "canon ''BFO'' = ''BFO''"
  by code_simp+

lemma matches_same:
  assumes "instr_matches (canon ex) symb r"
  shows "same_instrument (canon ex) (canon symb) r"
proof -
  have "in_tradingsymbol r = symb \<or> ToUpper (in_tradingsymbol r) = ToUpper symb" using assms unfolding instr_matches_def by blast
  then have "canon (in_tradingsymbol r) = canon symb" by (metis canon_upper)
  moreover have "in_exchange r = canon ex \<or> canon ex = ''NFO'' \<and> in_exchange r = ''NSE'' \<or> canon ex = ''NSE'' \<and> in_exchange r = ''NFO''
      \<or> canon ex = ''BFO'' \<and> in_exchange r = ''BSE'' \<or> canon ex = ''BSE'' \<and> in_exchange r = ''BFO''"
    using assms unfolding instr_matches_def by blast
  then have "market (canon (in_exchange r)) = market (canon ex)" by (elim disjE conjE) (simp_all add: market_def)
  ultimately show ?thesis by (simp add: same_instrument_def)
qed

section \<open>What the cache holds\<close>

definition security_row :: "instr_row \<Rightarrow> string \<times> string \<times> int" where
  "security_row r = (text_of (in_exchange_segment r), text_of (in_security_id r), in_lot_size r)"

definition valid_entry :: "instr_row list \<Rightarrow> string \<times> Info \<Rightarrow> bool" where
  "valid_entry rows e \<longleftrightarrow> (\<exists>ex symb. fst e = instrument_key ex symb \<and> no_colon ex
     \<and> (0 < nf_LotSize (snd e) \<longrightarrow> (\<exists>r \<in> set rows. same_instrument ex symb r \<and> in_lot_size r = nf_LotSize (snd e)))
     \<and> (nf_SecurityID (snd e) \<noteq> [] \<longrightarrow> (\<exists>r \<in> set rows. same_instrument ex symb r
          \<and> security_row r = (nf_ExchangeSegment (snd e), nf_SecurityID (snd e), nf_LotSize (snd e)))))"

definition valid_cache :: "instr_row list \<Rightarrow> Cache \<Rightarrow> bool" where
  "valid_cache rows c \<longleftrightarrow> list_all (valid_entry rows) (ca_entries c) \<and> int (length (ca_entries c)) \<le> ca_capacity c"

definition plain_rows :: "instr_row list \<Rightarrow> bool" where
  "plain_rows rows \<longleftrightarrow> list_all (\<lambda>r. no_colon (canon (in_exchange r))) rows"

lemma valid_update: "valid_entry rows (key, info) \<Longrightarrow> list_all (valid_entry rows) es \<Longrightarrow> list_all (valid_entry rows) (AList.update key info es)"
  by (induction es) auto

lemma length_update: "int (length es) < cap \<Longrightarrow> int (length (AList.update key info es)) \<le> cap"
proof -
  have "length (AList.update key info es) \<le> Suc (length es)" by (induction es) auto
  then show "int (length es) < cap \<Longrightarrow> int (length (AList.update key info es)) \<le> cap" by linarith
qed

lemma valid_remember: "valid_entry rows (key, info) \<Longrightarrow> valid_cache rows c \<Longrightarrow> valid_cache rows (remember key info c)"
  by (simp add: valid_cache_def remember_def valid_update length_update)

lemma valid_new: "valid_cache rows (NewCache cap)"
  by (simp add: valid_cache_def NewCache_def)

lemma cached_valid:
  assumes "valid_cache rows c" "cached c ex symb = Some info" "no_colon ex"
  shows "valid_entry rows (instrument_key ex symb, info)"
  using assms map_of_SomeD by (fastforce simp: cached_def valid_cache_def list_all_iff)

lemma entry_lot:
  assumes "valid_entry rows (instrument_key ex symb, info)" "no_colon ex" "0 < nf_LotSize info"
  shows "\<exists>r \<in> set rows. same_instrument ex symb r \<and> in_lot_size r = nf_LotSize info"
  using assms by (fastforce simp: valid_entry_def instrument_key_inj)

lemma entry_security:
  assumes "valid_entry rows (instrument_key ex symb, info)" "no_colon ex" "security_of (Some info) = Some hit"
  shows "\<exists>r \<in> set rows. same_instrument ex symb r \<and> security_row r = hit"
  using assms by (fastforce simp: valid_entry_def instrument_key_inj security_of_def split: if_splits)

lemma alias_same: "alias_exchange ex = Some a \<Longrightarrow> same_instrument a symb r = same_instrument ex symb r"
  by (simp add: same_instrument_def market_alias)

lemma load_valid:
  assumes "list_all (\<lambda>i. valid_entry rows (instrument_key (canon (it_Exchange i)) (canon (it_Tradingsymbol i)), info_of i)) ins"
    and "list_all (valid_entry rows) es" and "int (length es) \<le> cap"
  shows "list_all (valid_entry rows) (fst (load_entries cap ins es rs)) \<and> int (length (fst (load_entries cap ins es rs))) \<le> cap"
  using assms
  by (induction cap ins es rs rule: load_entries.induct) (simp_all add: Let_def valid_update length_update)

lemma active_valid:
  assumes "plain_rows rows" "r \<in> set rows"
  shows "valid_entry rows (instrument_key (canon (it_Exchange (active_instrument r))) (canon (it_Tradingsymbol (active_instrument r))),
    info_of (active_instrument r))"
  using assms unfolding valid_entry_def
  by (intro exI[of _ "canon (in_exchange r)"] exI[of _ "canon (in_tradingsymbol r)"])
     (auto simp: plain_rows_def list_all_iff active_instrument_def info_of_def same_instrument_def security_row_def)

text \<open>A history of the cache: it is loaded and asked, for exchanges without a colon in the name.\<close>

inductive cache_step :: "'s cache_store \<Rightarrow> Cache \<times> 's \<Rightarrow> Cache \<times> 's \<Rightarrow> bool" for st where
  k_load: "cache_step st (c, s) (snd (AutoLoadActiveFO (Some st) c s))"
| k_lot: "no_colon (canon ex) \<Longrightarrow> cache_step st (c, s) (snd (ResolveLotSize (Some st) ex symb c s))"
| k_security: "no_colon (canon ex) \<Longrightarrow> cache_step st (c, s) (snd (ResolveToSecurityID (Some st) ex symb c s))"

text \<open>
  What the cache relies on: the queries only read, and answer with rows of the table.
\<close>

locale instrument_master =
  fixes st :: "'s cache_store" and rows :: "'s \<Rightarrow> instr_row list"
  assumes active: "cs_ActiveFO st s = (ra, s') \<Longrightarrow>
      rows s' = rows s \<and> (\<forall>ins. ra = Inr ins \<longrightarrow> set ins \<subseteq> active_instrument ` set (rows s))"
    and lot: "cs_LotSize st ex symb s = (rl, s') \<Longrightarrow>
      rows s' = rows s \<and> (\<forall>n. rl = Inr n \<longrightarrow> (\<exists>r \<in> set (rows s). instr_matches ex symb r \<and> in_lot_size r = n))"
    and security: "cs_SecurityID st ex symb s = (rs, s') \<Longrightarrow>
      rows s' = rows s \<and> (\<forall>secID exSeg n. rs = Inr (secID, exSeg, n) \<longrightarrow>
        (\<exists>r \<in> set (rows s). instr_matches ex symb r \<and> security_row r = (exSeg, secID, n)))"
begin

lemma load_ok:
  assumes "AutoLoadActiveFO (Some st) c s = (r, c', s')" "valid_cache (rows s) c" "plain_rows (rows s)"
  shows "rows s' = rows s \<and> valid_cache (rows s) c'"
proof -
  obtain q t where q: "cs_ActiveFO st s = (q, t)" by fastforce
  note a = active[OF q]
  show ?thesis
  proof (cases q)
    case (Inr ins)
    have "0 \<le> ca_capacity c" using assms(2) by (simp add: valid_cache_def)
    then have "list_all (valid_entry (rows s)) (fst (load_entries (ca_capacity c) ins [] []))
        \<and> int (length (fst (load_entries (ca_capacity c) ins [] []))) \<le> ca_capacity c"
      using a Inr active_valid[OF assms(3)] by (intro load_valid) (auto simp: list_all_iff)
    then show ?thesis using assms(1) q Inr a by (auto simp: AutoLoadActiveFO_def valid_cache_def split: prod.splits)
  qed (use assms q a in \<open>auto simp: AutoLoadActiveFO_def\<close>)
qed

lemma lot_ok:
  assumes "ResolveLotSize (Some st) ex symb c s = (q, c', s')" "valid_cache (rows s) c" "no_colon (canon ex)"
  shows "rows s' = rows s \<and> valid_cache (rows s) c'
    \<and> (\<forall>n. q = Inr n \<longrightarrow> (\<exists>r \<in> set (rows s). same_instrument (canon ex) (canon symb) r \<and> in_lot_size r = n))"
proof (cases "canon ex = [] \<or> canon symb = []")
  case True
  then show ?thesis using assms by (auto simp: ResolveLotSize_def Let_def)
next
  case False
  let ?hit = "case cached c (canon ex) (canon symb) of Some info \<Rightarrow> Some info | None \<Rightarrow> cached_alias c (canon ex) (canon symb)"
  show ?thesis
  proof (cases ?hit)
    case (Some info)
    have "\<exists>r \<in> set (rows s). same_instrument (canon ex) (canon symb) r \<and> in_lot_size r = nf_LotSize info" if pos: "0 < nf_LotSize info"
    proof (cases "cached c (canon ex) (canon symb)")
      case None
      then obtain a where a: "alias_exchange (canon ex) = Some a" "cached c a (canon symb) = Some info"
        using Some by (auto simp: cached_alias_def split: option.splits)
      have "no_colon a" using market_alias[OF a(1)] by blast
      from entry_lot[OF cached_valid[OF assms(2) a(2) this] this pos] show ?thesis by (simp add: alias_same[OF a(1)])
    next
      case (Some i)
      then show ?thesis using \<open>?hit = Some info\<close> entry_lot[OF cached_valid[OF assms(2) _ assms(3)] assms(3) pos] by simp
    qed
    then show ?thesis using assms(1,2) False Some by (auto simp: ResolveLotSize_def Let_def lot_or_missing_def split: if_splits)
  next
    case None
    obtain rl t where rl: "cs_LotSize st (canon ex) (canon symb) s = (rl, t)" by fastforce
    note l = lot[OF rl]
    have valid: "valid_entry (rows s) (instrument_key (canon ex) (canon symb), lot_info n)"
      if "n = 0 \<or> (\<exists>r \<in> set (rows s). same_instrument (canon ex) (canon symb) r \<and> in_lot_size r = n)" for n
      using that assms(3) unfolding valid_entry_def
      by (intro exI[of _ "canon ex"] exI[of _ "canon symb"]) (auto simp: lot_info_def)
    have same: "\<exists>r \<in> set (rows s). same_instrument (canon ex) (canon symb) r \<and> in_lot_size r = n" if n: "rl = Inr n" for n
    proof -
      obtain r where "r \<in> set (rows s)" "instr_matches (canon ex) (canon symb) r" "in_lot_size r = n" using l n by blast
      then show ?thesis using matches_same[of ex "canon symb" r] by auto
    qed
    show ?thesis
      using assms(1,2) False None rl l valid same
      by (cases rl) (auto simp: ResolveLotSize_def Let_def intro!: valid_remember split: if_splits)
  qed
qed

lemma security_ok:
  assumes "ResolveToSecurityID (Some st) ex symb c s = (q, c', s')" "valid_cache (rows s) c" "no_colon (canon ex)"
  shows "rows s' = rows s \<and> valid_cache (rows s) c'
    \<and> (\<forall>hit. q = Inr hit \<longrightarrow> (\<exists>r \<in> set (rows s). same_instrument (canon ex) (canon symb) r \<and> security_row r = hit))"
proof (cases "canon ex = [] \<or> canon symb = []")
  case True
  then show ?thesis using assms by (auto simp: ResolveToSecurityID_def Let_def canon_def)
next
  case False
  note run = assms(1)[unfolded ResolveToSecurityID_def Let_def, folded canon_def]
  show ?thesis
  proof (cases "security_of (cached c (canon ex) (canon symb))")
    case (Some hit)
    then obtain info where i: "cached c (canon ex) (canon symb) = Some info" by (auto simp: security_of_def split: option.splits)
    show ?thesis using run False Some assms(2) entry_security[OF cached_valid[OF assms(2) i assms(3)] assms(3)] i by auto
  next
    case direct: None
    show ?thesis
    proof (cases "security_of (cached_alias c (canon ex) (canon symb))")
      case (Some hit)
      then obtain info a where i: "cached c a (canon symb) = Some info" "alias_exchange (canon ex) = Some a"
        by (auto simp: security_of_def cached_alias_def split: option.splits)
      have "no_colon a" using market_alias[OF i(2)] by blast
      from entry_security[OF cached_valid[OF assms(2) i(1) this] this, of hit] show ?thesis
        using run False direct Some assms(2) i by (auto simp: alias_same[OF i(2)] cached_alias_def)
    next
      case None
      obtain rl t where rl: "cs_SecurityID st (canon ex) (TrimSpace symb) s = (rl, t)" by fastforce
      note l = security[OF rl]
      show ?thesis
      proof (cases rl)
        case (Inl e)
        then show ?thesis using run False direct None rl l assms(2) by auto
      next
        case (Inr hit)
        obtain secID exSeg n where h: "hit = (secID, exSeg, n)" by (cases hit)
        obtain r where r: "r \<in> set (rows s)" "instr_matches (canon ex) (TrimSpace symb) r" "security_row r = (exSeg, secID, n)"
          using l Inr h by blast
        have same: "same_instrument (canon ex) (canon symb) r" using matches_same[OF r(2)] by (simp add: canon_def)
        have "in_lot_size r = n" using r(3) by (simp add: security_row_def)
        then have "valid_entry (rows s) (instrument_key (canon ex) (canon symb),
            \<lparr> nf_LotSize = n, nf_SecurityID = secID, nf_ExchangeSegment = exSeg, nf_Tradingsymbol = TrimSpace symb, nf_Broker = [] \<rparr>)"
          using r same assms(3) unfolding valid_entry_def
          by (intro exI[of _ "canon ex"] exI[of _ "canon symb"]) auto
        then have "valid_cache (rows s) (remember_security (instrument_key (canon ex) (canon symb)) (TrimSpace symb) secID exSeg n c)"
          using assms(2) by (simp add: valid_cache_def remember_security_def valid_update length_update)
        then show ?thesis using run False direct None rl l assms(2) Inr h r(1,3) same by (auto split: if_splits)
      qed
    qed
  qed
qed

lemma run_ok:
  assumes "(cache_step st)\<^sup>*\<^sup>* (NewCache cap, s) (c, s')" and "plain_rows (rows s)"
  shows "rows s' = rows s \<and> valid_cache (rows s) c"
proof -
  have "rows (snd z) = rows s \<and> valid_cache (rows s) (fst z)" if "(cache_step st)\<^sup>*\<^sup>* (NewCache cap, s) z" for z
    using that
  proof (induction rule: rtranclp_induct)
    case (step y z)
    from step.hyps(2) show ?case
    proof cases
      case (k_load c1 s1)
      then show ?thesis using step.IH assms(2) load_ok[of c1 s1] by (cases "AutoLoadActiveFO (Some st) c1 s1") auto
    next
      case (k_lot ex c1 s1 symb)
      then show ?thesis using step.IH lot_ok[of ex symb c1 s1] by (cases "ResolveLotSize (Some st) ex symb c1 s1") auto
    next
      case (k_security ex c1 s1 symb)
      then show ?thesis using step.IH security_ok[of ex symb c1 s1] by (cases "ResolveToSecurityID (Some st) ex symb c1 s1") auto
    qed
  qed (simp add: valid_new)
  from this[OF assms(1)] show ?thesis by simp
qed

end

text \<open>The queries of the store keep the contract.\<close>

lemma active_reads:
  "ActiveFOInstrumentsForCache rank d = (q, d') \<Longrightarrow>
    instruments d' = instruments d \<and> (\<forall>ins. q = Inr ins \<longrightarrow> set ins \<subseteq> active_instrument ` set (instruments d))"
  by (auto simp: ActiveFOInstrumentsForCache_def db_call_def dest!: in_set_takeD split: list.splits option.splits)

lemma lot_reads:
  "InstrumentLotSize ex symb d = (q, d') \<Longrightarrow>
    instruments d' = instruments d \<and> (\<forall>n. q = Inr n \<longrightarrow> (\<exists>r \<in> set (instruments d). instr_matches ex symb r \<and> in_lot_size r = n))"
  by (auto simp: InstrumentLotSize_def db_call_def split: list.splits option.splits dest!: first_by_mem)

lemma security_reads:
  "InstrumentSecurityID ex symb d = (q, d') \<Longrightarrow>
    instruments d' = instruments d \<and> (\<forall>secID exSeg n. q = Inr (secID, exSeg, n) \<longrightarrow>
      (\<exists>r \<in> set (instruments d). instr_matches ex symb r \<and> security_row r = (exSeg, secID, n)))"
  by (auto simp: InstrumentSecurityID_def db_call_def security_row_def split: list.splits option.splits dest!: first_by_mem)

interpretation im: instrument_master "db_cache_store rank" instruments for rank
  by unfold_locales (simp_all add: db_cache_store_def active_reads lot_reads security_reads)

section \<open>Answers of the cache\<close>

text \<open>
  C28 The cache invents nothing and stays within its bound: after any history of loads and lookups over a
  table, a lot size it answers is the one of a row with that symbol on that exchange or its derivative
  market, and it holds at most as many entries as its capacity.
\<close>

theorem lot_size_from_master:
  assumes "(cache_step (db_cache_store rank))\<^sup>*\<^sup>* (NewCache cap, d) (c, d')" and "plain_rows (instruments d)"
    and "no_colon (canon ex)" and "ResolveLotSize (Some (db_cache_store rank)) ex symb c d' = (Inr n, c', d'')"
  shows "(\<exists>r \<in> set (instruments d). same_instrument (canon ex) (canon symb) r \<and> in_lot_size r = n)
    \<and> Cache_Count c' \<le> Cache_Capacity c'"
proof -
  have run: "instruments d' = instruments d" "valid_cache (instruments d') c" using im.run_ok[OF assms(1,2)] by simp_all
  from im.lot_ok[OF assms(4) run(2) assms(3)] run(1) show ?thesis by (simp add: valid_cache_def Cache_Count_def Cache_Capacity_def)
qed

section \<open>What a load does\<close>

definition ins_key :: "Instrument \<Rightarrow> string" where
  "ins_key i = instrument_key (canon (it_Exchange i)) (canon (it_Tradingsymbol i))"

definition ins_rev :: "Instrument \<Rightarrow> string" where
  "ins_rev i = rev_key (it_ExchangeSegment i) (it_SecurityID i)"

definition has_rev :: "Instrument \<Rightarrow> bool" where
  "has_rev i \<longleftrightarrow> it_ExchangeSegment i \<noteq> [] \<and> it_SecurityID i \<noteq> []"

lemma length_update_Suc: "length (AList.update key v es) \<le> Suc (length es)"
  by (induction es) auto

lemma find_append: "find P (xs @ ys) = (case find P xs of Some x \<Rightarrow> Some x | None \<Rightarrow> find P ys)"
  by (induction xs) auto

lemma load_forward:
  "int (length es) + int (length ins) \<le> cap \<Longrightarrow> map_of (fst (load_entries cap ins es rs)) k
     = (case map_of es k of Some v \<Rightarrow> Some v | None \<Rightarrow> map_option info_of (find (\<lambda>i. ins_key i = k) ins))"
proof (induction cap ins es rs rule: load_entries.induct)
  case (2 cap i ins es rs)
  let ?es = "if map_of es (ins_key i) \<noteq> None then es else AList.update (ins_key i) (info_of i) es"
  have "int (length ?es) + int (length ins) \<le> cap" using 2(2) length_update_Suc[of "ins_key i" "info_of i" es] by auto
  then show ?case using 2 by (auto simp: Let_def ins_key_def[symmetric] update_conv split: option.splits)
qed (simp split: option.split)

lemma load_reverse:
  "int (length es) + int (length ins) \<le> cap \<Longrightarrow> map_of (snd (load_entries cap ins es rs)) k
     = (case find (\<lambda>i. has_rev i \<and> ins_rev i = k) (rev ins) of Some i \<Rightarrow> Some (ins_key i) | None \<Rightarrow> map_of rs k)"
proof (induction cap ins es rs rule: load_entries.induct)
  case (2 cap i ins es rs)
  let ?es = "if map_of es (ins_key i) \<noteq> None then es else AList.update (ins_key i) (info_of i) es"
  have "int (length ?es) + int (length ins) \<le> cap" using 2(2) length_update_Suc[of "ins_key i" "info_of i" es] by auto
  then show ?case using 2
    by (auto simp: Let_def ins_key_def[symmetric] ins_rev_def[symmetric] has_rev_def update_conv find_append split: option.splits)
qed simp

lemma find_map: "find P (map f xs) = map_option f (find (P \<circ> f) xs)"
  by (induction xs) auto

lemma find_least: "sorted (map f xs) \<Longrightarrow> find P xs = Some x \<Longrightarrow> y \<in> set xs \<Longrightarrow> P y \<Longrightarrow> f x \<le> f y"
  by (induction xs) (auto split: if_splits)

definition active_rows :: "db \<Rightarrow> instr_row list" where
  "active_rows d = filter (active_fo (ist_day (db_now d))) (instruments d)"

definition row_key :: "instr_row \<Rightarrow> string" where
  "row_key r = ins_key (active_instrument r)"

definition row_rev :: "instr_row \<Rightarrow> string" where
  "row_rev r = ins_rev (active_instrument r)"

definition expiry_order :: "(instr_row \<Rightarrow> int) \<Rightarrow> db \<Rightarrow> instr_row list" where
  "expiry_order rank d = sort_key (\<lambda>r. the (in_expiry r)) (sort_key rank (active_rows d))"

lemma set_expiry_order [simp]: "set (expiry_order rank d) = set (active_rows d)"
  by (simp add: expiry_order_def)

text \<open>All active rows fit: the query returns at most ten thousand, the cache keeps at most its capacity.\<close>

definition load_fits :: "Cache \<Rightarrow> db \<Rightarrow> bool" where
  "load_fits c d \<longleftrightarrow> length (active_rows d) \<le> 10000 \<and> int (length (active_rows d)) \<le> ca_capacity c"

lemma loaded:
  assumes "AutoLoadActiveFO (Some (db_cache_store rank)) c d = (Inr (), c', d')" "load_fits c d"
  shows "map_of (ca_entries c') k = map_option (info_of \<circ> active_instrument) (find (\<lambda>r. row_key r = k) (expiry_order rank d))"
    and "map_of (ca_revSec c') k = map_option row_key (find (\<lambda>r. has_rev (active_instrument r) \<and> row_rev r = k) (rev (expiry_order rank d)))"
proof -
  let ?xs = "map active_instrument (expiry_order rank d)"
  have len: "length (expiry_order rank d) = length (active_rows d)" by (simp add: expiry_order_def)
  obtain e where q: "ActiveFOInstrumentsForCache rank d = (Inr ?xs, e)"
  proof -
    obtain q e where q: "ActiveFOInstrumentsForCache rank d = (q, e)" by fastforce
    then have "q = Inr (map active_instrument (take 10000 (expiry_order rank d)))"
      using assms(1) by (auto simp: ActiveFOInstrumentsForCache_def AutoLoadActiveFO_def db_cache_store_def db_call_def expiry_order_def
          active_rows_def split: list.splits option.splits)
    then show ?thesis using that q len assms(2) by (simp add: load_fits_def)
  qed
  have fits: "int (length ([] :: (string \<times> Info) list)) + int (length ?xs) \<le> ca_capacity c" using assms(2) len by (simp add: load_fits_def)
  have c': "ca_entries c' = fst (load_entries (ca_capacity c) ?xs [] [])" "ca_revSec c' = snd (load_entries (ca_capacity c) ?xs [] [])"
    using assms(1) q by (auto simp: AutoLoadActiveFO_def db_cache_store_def split: prod.splits)
  show "map_of (ca_entries c') k = map_option (info_of \<circ> active_instrument) (find (\<lambda>r. row_key r = k) (expiry_order rank d))"
    using load_forward[OF fits, of "[]" k] by (simp add: c' find_map row_key_def[abs_def] comp_def option.map_comp)
  show "map_of (ca_revSec c') k = map_option row_key (find (\<lambda>r. has_rev (active_instrument r) \<and> row_rev r = k) (rev (expiry_order rank d)))"
    using load_reverse[OF fits, of "[]" k]
    by (simp add: c' find_map rev_map row_key_def[abs_def] row_rev_def comp_def split: option.splits)
qed

text \<open>A contract that Dhan can name: segment, id, exchange and symbol are not blank, and no other symbol has its segment and id.\<close>

definition nameable :: "db \<Rightarrow> instr_row \<Rightarrow> bool" where
  "nameable d b \<longleftrightarrow> canon (text_of (in_exchange_segment b)) \<noteq> [] \<and> TrimSpace (text_of (in_security_id b)) \<noteq> []
     \<and> canon (in_exchange b) \<noteq> [] \<and> canon (in_tradingsymbol b) \<noteq> []
     \<and> (\<forall>q \<in> set (active_rows d). row_rev q = row_rev b \<longrightarrow> row_key q = row_key b)
     \<and> (\<forall>q \<in> set (active_rows d). row_key q = row_key b \<longrightarrow> text_of (in_security_id q) \<noteq> [])"

lemma row_key_parts:
  "plain_rows rows \<Longrightarrow> a \<in> set rows \<Longrightarrow> b \<in> set rows \<Longrightarrow> row_key a = row_key b \<longleftrightarrow>
     canon (in_exchange a) = canon (in_exchange b) \<and> canon (in_tradingsymbol a) = canon (in_tradingsymbol b)"
  by (simp add: row_key_def ins_key_def active_instrument_def plain_rows_def list_all_iff instrument_key_inj)

lemma resolves_to_nearest:
  assumes "AutoLoadActiveFO (Some (db_cache_store rank)) c d = (Inr (), c', d')" and "load_fits c d" and "plain_rows (instruments d)"
    and "b \<in> set (active_rows d)" and "nameable d b"
  shows "\<exists>a ex symb. a \<in> set (active_rows d) \<and> row_key a = row_key b
    \<and> (\<forall>q \<in> set (active_rows d). row_key q = row_key b \<longrightarrow> the (in_expiry a) \<le> the (in_expiry q))
    \<and> ResolveToSymbol c' (text_of (in_exchange_segment b)) (text_of (in_security_id b)) = Inr (ex, symb)
    \<and> ResolveToSecurityID (Some (db_cache_store rank)) ex symb c' s = (Inr (security_row a), c', s)"
proof -
  note load = loaded[OF assms(1,2)]
  have sub: "set (active_rows d) \<subseteq> set (instruments d)" by (auto simp: active_rows_def)
  have "\<exists>r \<in> set (expiry_order rank d). row_key r = row_key b" using assms(4) by auto
  then obtain a where a: "find (\<lambda>r. row_key r = row_key b) (expiry_order rank d) = Some a"
    by (metis (mono_tags, lifting) find_None_iff option.exhaust)
  have mem: "a \<in> set (active_rows d)" "row_key a = row_key b" using find_Some_mem[OF a] by simp_all
  have least: "the (in_expiry a) \<le> the (in_expiry q)" if "q \<in> set (active_rows d)" "row_key q = row_key b" for q
    using find_least[of "\<lambda>r. the (in_expiry r)", OF _ a] that by (simp add: expiry_order_def)
  have fwd: "map_of (ca_entries c') (row_key b) = Some (info_of (active_instrument a))" using load(1) a by simp
  have "has_rev (active_instrument b)" using assms(5) by (auto simp: nameable_def has_rev_def active_instrument_def canon_def ToUpper_def)
  then have "\<exists>r \<in> set (rev (expiry_order rank d)). has_rev (active_instrument r) \<and> row_rev r = row_rev b" using assms(4) by auto
  then obtain r where r: "find (\<lambda>r. has_rev (active_instrument r) \<and> row_rev r = row_rev b) (rev (expiry_order rank d)) = Some r"
    by (metis (mono_tags, lifting) find_None_iff option.exhaust)
  have "row_key r = row_key b" using find_Some_mem[OF r] assms(5) by (simp add: nameable_def)
  then have rev: "map_of (ca_revSec c') (row_rev b) = Some (row_key b)" using load(2) r by simp
  let ?ex = "canon (in_exchange b)" and ?symb = "in_tradingsymbol a"
  have canon_a: "canon (in_exchange a) = ?ex" "canon ?symb = canon (in_tradingsymbol b)"
    using mem row_key_parts[OF assms(3)] sub assms(4) by (blast, blast)
  have plain: "no_colon ?ex" using assms(3,4) sub by (auto simp: plain_rows_def list_all_iff)
  have key: "row_key b = instrument_key ?ex (canon (in_tradingsymbol b))" by (simp add: row_key_def ins_key_def active_instrument_def)
  have "in_tradingsymbol a \<noteq> []" using canon_a(2) assms(5) by (auto simp: nameable_def canon_def ToUpper_def)
  then have "ResolveToSymbol c' (text_of (in_exchange_segment b)) (text_of (in_security_id b)) = Inr (?ex, ?symb)"
    using rev fwd assms(5) plain
    by (simp add: ResolveToSymbol_def Let_def nameable_def row_rev_def ins_rev_def rev_key_def active_instrument_def info_of_def key split_instrument_key)
  moreover have "security_of (cached c' ?ex (canon ?symb)) = Some (security_row a)"
    using fwd mem assms(5) by (auto simp: cached_def canon_a(2) key security_of_def info_of_def active_instrument_def security_row_def nameable_def)
  then have "ResolveToSecurityID (Some (db_cache_store rank)) ?ex ?symb c' s = (Inr (security_row a), c', s)"
    using assms(5) canon_a(2) by (simp add: ResolveToSecurityID_def Let_def nameable_def canon_def[of ?symb, symmetric])
  ultimately show ?thesis using mem least by blast
qed



section \<open>Two weekly contracts\<close>

definition ex_weekly :: "int \<Rightarrow> string \<Rightarrow> int \<Rightarrow> instr_row" where
  "ex_weekly token secID expiry = \<lparr> in_instrument_token = token, in_broker = ''dhan'', in_exchange = ''NFO'', in_tradingsymbol = ''NIFTY'',
     in_lot_size = 50, in_tick_size = 0, in_segment = Some ''D'', in_security_id = Some secID, in_exchange_segment = Some ''NSE_FNO'',
     in_expiry = Some expiry \<rparr>"

definition ex_weekly_db :: db where
  "ex_weekly_db = (empty_db [] [ex_weekly 1 ''101'' 739003, ex_weekly 2 ''102'' 739010])\<lparr> db_now := 739000 * (24 * Hour) \<rparr>"

abbreviation ex_weekly_store :: "db cache_store" where
  "ex_weekly_store \<equiv> db_cache_store in_instrument_token"

definition ex_weekly_cache :: Cache where
  "ex_weekly_cache = fst (snd (AutoLoadActiveFO (Some ex_weekly_store) (NewCache 10000) ex_weekly_db))"

lemma ex_weekly_load: "AutoLoadActiveFO (Some ex_weekly_store) (NewCache 10000) ex_weekly_db = (Inr (), ex_weekly_cache, ex_weekly_db)"
  unfolding ex_weekly_cache_def by code_simp

text \<open>
  A miss hides the other market: a currency contract is listed on NSE only. Once its symbol has been asked for on NFO, the cached
  miss also answers for NSE, where the table has the contract.
\<close>

definition ex_currency_db :: db where
  "ex_currency_db = empty_db [] [(ex_weekly 3 ''9'' 739003)\<lparr> in_exchange := ''NSE'', in_tradingsymbol := ''USDINR'', in_segment := Some ''C'',
     in_exchange_segment := Some ''NSE_CURRENCY'' \<rparr>]"

theorem miss_hides_other_market:
  "(let (r, c, d) = ResolveLotSize (Some ex_weekly_store) ''NFO'' ''USDINR'' (NewCache 10000) ex_currency_db
    in r = Inl ErrNotFound \<and> fst (ResolveLotSize (Some ex_weekly_store) ''NSE'' ''USDINR'' c d) = Inl ErrNotFound
       \<and> fst (InstrumentLotSize ''NSE'' ''USDINR'' d) = Inr 50)"
  by code_simp

section \<open>Downloads\<close>

lemma upsert_fresh:
  "distinct (map in_instrument_token rows) \<Longrightarrow> set (map in_instrument_token rows) \<inter> set (map in_instrument_token base) = {} \<Longrightarrow>
   fold upsert_instrument rows base = base @ rows"
proof (induction rows arbitrary: base)
  case (Cons r rows)
  have "upsert_instrument r base = base @ [r]" using Cons.prems(2) by (simp add: upsert_instrument_def)
  then show ?case using Cons by auto
qed simp

lemma scrip_token_above: "dhan_token_base < scrip_token n secID"
  by (simp add: scrip_token_def Let_def)

lemma dhan_instruments_inv:
  "list_all P acc \<Longrightarrow> (\<And>n i. P (scrip_instrument parse n i)) \<Longrightarrow> list_all P (dhan_instruments parse raw acc)"
  by (induction raw arbitrary: acc) auto

lemma dhan_rows:
  "list_all (\<lambda>i. dhan_token_base < it_InstrumentToken i \<and> it_Broker i = ''dhan'' \<and> it_TickSize i = 0) (dhan_instruments parse raw [])"
  by (rule dhan_instruments_inv) (simp_all add: scrip_instrument_def scrip_token_above)

lemma batch_row_sel [simp]:
  "in_instrument_token (batch_row i) = it_InstrumentToken i" "in_broker (batch_row i) = or_kite (it_Broker i)"
  "in_tick_size (batch_row i) = numeric4 (it_TickSize i)"
  by (simp_all add: batch_row_def instrument_row_def)

lemma batch_insert:
  assumes "BatchInsertInstruments ins d = (Inr (), d')" "set (map it_InstrumentToken ins) \<inter> set (map in_instrument_token (instruments d)) = {}"
  shows "instruments d' = instruments d @ map batch_row ins"
proof (cases "ins = []")
  case False
  have "distinct (map in_instrument_token (map batch_row ins)) \<Longrightarrow>
      fold upsert_instrument (map batch_row ins) (instruments d) = instruments d @ map batch_row ins"
    using assms(2) by (intro upsert_fresh) (auto simp: comp_def)
  then show ?thesis using assms(1) False
    by (auto simp: BatchInsertInstruments_def db_call_def Let_def comp_def split: list.splits option.splits if_splits)
qed (use assms(1) in \<open>simp add: BatchInsertInstruments_def\<close>)

lemma insert_chunks_all:
  assumes "insert_chunks db_syncer_store broker ins i d = (Inr (), d')"
    and "distinct (map it_InstrumentToken ins)" "set (map it_InstrumentToken ins) \<inter> set (map in_instrument_token F) = {}"
    and "instruments d = F @ map batch_row (take i ins)"
  shows "instruments d' = F @ map batch_row ins"
  using assms
proof (induction db_syncer_store broker ins i d rule: insert_chunks.induct)
  case (1 broker ins i d)
  show ?case
  proof (cases "i < length ins")
    case True
    let ?stop = "min (i + chunkSize) (length ins)"
    let ?chunk = "take (?stop - i) (drop i ins)"
    obtain q d1 where b: "BatchInsertInstruments ?chunk d = (q, d1)" by fastforce
    have rest: "insert_chunks db_syncer_store broker ins (i + chunkSize) d1 = (Inr (), d')" and q: "q = Inr ()"
      using "1.prems"(1) True b by (auto simp: insert_chunks.simps[of _ _ _ i] db_syncer_store_def Let_def split: sum.splits)
    have parts: "take i ins @ ?chunk = take (i + chunkSize) ins"
      using True by (simp add: take_add min_def)
    have "distinct (map it_InstrumentToken (take i ins @ ?chunk))" unfolding parts using "1.prems"(2) by (simp add: take_map[symmetric])
    then have "set (map it_InstrumentToken ?chunk) \<inter> set (map it_InstrumentToken (take i ins)) = {}" by auto
    moreover have "set (map it_InstrumentToken ?chunk) \<inter> set (map in_instrument_token F) = {}"
      using "1.prems"(3) set_take_subset set_drop_subset by fastforce
    ultimately have "instruments d1 = instruments d @ map batch_row ?chunk"
      using b[unfolded q] "1.prems"(4) by (intro batch_insert) (auto simp: comp_def)
    then have "instruments d1 = F @ map batch_row (take i ins @ ?chunk)" using "1.prems"(4) by simp
    then have "instruments d1 = F @ map batch_row (take (i + chunkSize) ins)" unfolding parts .
    with "1.hyps"[OF True refl _ _ rest "1.prems"(2,3)] b q show ?thesis by (auto simp: db_syncer_store_def)
  next
    case False
    then show ?thesis using "1.prems" by (simp add: insert_chunks.simps[of _ _ _ i])
  qed
qed

text \<open>The instruments a response of Dhan stands for.\<close>

definition downloaded :: "('b \<Rightarrow> scrip list result) \<Rightarrow> time_parser \<Rightarrow> (int \<times> 'b) result \<Rightarrow> Instrument list \<Rightarrow> bool" where
  "downloaded ParseInstruments parse response ins \<longleftrightarrow>
     (\<exists>body raw. response = Inr (200, body) \<and> ParseInstruments body = Inr raw \<and> ins = dhan_instruments parse raw [])"

lemma SyncDhan_downloaded:
  "downloaded ParseInstruments parse response ins \<Longrightarrow> ins \<noteq> [] \<Longrightarrow>
   SyncDhan ParseInstruments parse response st s = replace_instruments st ''dhan'' ins s"
  by (auto simp: downloaded_def SyncDhan_def Let_def)

text \<open>What the list should become: the records that are not equities, in order, each numbered by its position among them.\<close>

definition listed :: "time_parser \<Rightarrow> scrip list \<Rightarrow> Instrument list" where
  "listed parse raw = map (\<lambda>(n, i). scrip_instrument parse n i)
     (enumerate 0 (filter (\<lambda>i. \<not> isDhanEquity (sc_Segment i) (sc_InstrumentName i)) raw))"

lemma dhan_instruments_listed:
  "dhan_instruments parse raw acc = acc @ map (\<lambda>(n, i). scrip_instrument parse n i)
     (enumerate (length acc) (filter (\<lambda>i. \<not> isDhanEquity (sc_Segment i) (sc_InstrumentName i)) raw))"
  by (induction raw arbitrary: acc) auto

text \<open>
  C30 A download that succeeds replaces the broker's list and touches nothing else: when the other rows have tokens
  below Dhan's and the records that are not equities get different tokens, the table holds afterwards the rows of the other brokers as
  they were, followed by exactly one row for each record of the response that is not an equity, in the order of the response.
\<close>

theorem sync_replaces_master:
  assumes "response = Inr (200, body)" and "ParseInstruments body = Inr raw"
    and "SyncDhan ParseInstruments parse response db_syncer_store d = (Inr (), d')"
    and "\<forall>r \<in> set (instruments d). in_broker r \<noteq> ''dhan'' \<longrightarrow> in_instrument_token r \<le> dhan_token_base"
    and "distinct (map it_InstrumentToken (listed parse raw))"
  shows "instruments d' = filter (\<lambda>r. in_broker r \<noteq> ''dhan'') (instruments d) @ map batch_row (listed parse raw)"
proof -
  let ?F = "filter (\<lambda>r. in_broker r \<noteq> ''dhan'') (instruments d)" and ?ins = "listed parse raw"
  have down: "downloaded ParseInstruments parse response ?ins"
    using assms(1,2) dhan_instruments_listed [of parse raw "[]"] by (auto simp: downloaded_def listed_def)
  have ne: "?ins \<noteq> []" using down assms(3) by (auto simp: downloaded_def SyncDhan_def Let_def split: if_splits)
  have run: "replace_instruments db_syncer_store ''dhan'' ?ins d = (Inr (), d')"
    using assms(3)[unfolded SyncDhan_downloaded[OF down ne]] .
  obtain q d1 where p: "PruneInstrumentsByBroker ''dhan'' d = (q, d1)" by fastforce
  obtain q2 d2 where i: "insert_chunks db_syncer_store ''dhan'' ?ins 0 d1 = (q2, d2)" by fastforce
  have ok: "\<exists>k. q = Inr k" "q2 = Inr ()" "d' = snd (VacuumInstruments d2)"
    using run p i by (auto simp: replace_instruments_def db_syncer_store_def split: sum.splits prod.splits)
  have d1: "instruments d1 = ?F" using p ok(1) by (auto simp: PruneInstrumentsByBroker_def db_call_def split: list.splits option.splits)
  have "set (map it_InstrumentToken ?ins) \<inter> set (map in_instrument_token ?F) = {}"
    using down assms(4) dhan_rows by (fastforce simp: downloaded_def list_all_iff)
  then have "instruments d2 = ?F @ map batch_row ?ins" using insert_chunks_all[OF i[unfolded ok(2)] assms(5)] d1 by simp
  then show ?thesis using ok(3) by (auto simp: VacuumInstruments_def db_call_def split: list.splits option.splits)
qed

text \<open>
  C31 A download that fails has already deleted the list: the old rows go before the first new one is inserted, and not in
  one transaction. When two of the first five thousand records get the same token, which is the offset plus an id that need not
  be unique, the insert is refused and the table is left without any row of Dhan.
\<close>

theorem refused_sync_empties_master:
  assumes "downloaded ParseInstruments parse response ins" and "faults d = []"
    and "\<not> distinct (map it_InstrumentToken (take chunkSize ins))"
  shows "\<exists>e d'. SyncDhan ParseInstruments parse response db_syncer_store d = (Inl e, d') \<and> errors_Is e pg_twice
    \<and> instruments d' = filter (\<lambda>r. in_broker r \<noteq> ''dhan'') (instruments d)"
proof -
  let ?d1 = "d\<lparr> instruments := filter (\<lambda>r. in_broker r \<noteq> ''dhan'') (instruments d) \<rparr>"
  have ne: "ins \<noteq> []" using assms(3) by auto
  have prune: "PruneInstrumentsByBroker ''dhan'' d = (Inr (int (length (filter (\<lambda>r. in_broker r = ''dhan'') (instruments d)))), ?d1)"
    using assms(2) by (simp add: PruneInstrumentsByBroker_def db_call_def)
  have "list_all (\<lambda>i. tick_fits (batch_row i)) ins"
    using assms(1) dhan_rows by (fastforce simp: downloaded_def list_all_iff tick_fits_def numeric4_def round_half_away_def)
  then have "list_all tick_fits (map batch_row (take chunkSize ins))" by (auto simp: list_all_iff dest: in_set_takeD)
  moreover have "\<not> distinct (map in_instrument_token (map batch_row (take chunkSize ins)))" using assms(3) by (simp add: comp_def)
  moreover have "take chunkSize ins \<noteq> []" using ne by (simp add: chunkSize_def)
  ultimately have refused: "BatchInsertInstruments (take chunkSize ins) ?d1 = (Inl pg_twice, ?d1)"
    using assms(2) by (simp add: BatchInsertInstruments_def db_call_def Let_def)
  have "take (min chunkSize (length ins)) ins = take chunkSize ins" by (simp add: min_def)
  then have "\<exists>e. insert_chunks db_syncer_store ''dhan'' ins 0 ?d1 = (Inl e, ?d1) \<and> errors_Is e pg_twice"
    using ne refused by (simp add: insert_chunks.simps[of _ _ _ 0] db_syncer_store_def Let_def pg_twice_def)
  then show ?thesis unfolding SyncDhan_downloaded[OF assms(1) ne] replace_instruments_def
    using prune by (auto simp: db_syncer_store_def)
qed

section \<open>Witnesses\<close>

theorem lot_size_from_master_witness:
  "ResolveLotSize (Some ex_weekly_store) ''nfo'' ''nifty '' ex_weekly_cache ex_weekly_db = (Inr 50, ex_weekly_cache, ex_weekly_db)
   \<and> (\<exists>r \<in> set (instruments ex_weekly_db). same_instrument ''NFO'' ''NIFTY'' r \<and> in_lot_size r = 50)
   \<and> Cache_Count ex_weekly_cache \<le> Cache_Capacity ex_weekly_cache"
proof -
  have run: "(cache_step ex_weekly_store)\<^sup>*\<^sup>* (NewCache 10000, ex_weekly_db) (ex_weekly_cache, ex_weekly_db)"
    using k_load[of ex_weekly_store "NewCache 10000" ex_weekly_db] ex_weekly_load by auto
  have plain: "plain_rows (instruments ex_weekly_db)" "no_colon (canon ''nfo'')" by code_simp+
  have c: "canon ''nfo'' = ''NFO''" "canon ''nifty '' = ''NIFTY''" by code_simp+
  have hit: "ResolveLotSize (Some ex_weekly_store) ''nfo'' ''nifty '' ex_weekly_cache ex_weekly_db = (Inr 50, ex_weekly_cache, ex_weekly_db)"
    unfolding ex_weekly_cache_def by code_simp
  from lot_size_from_master[OF run plain hit] hit show ?thesis by (simp add: c)
qed



definition ex_scrip :: "string \<Rightarrow> scrip" where
  "ex_scrip secID = \<lparr> sc_Exchange = ''NSE'', sc_Segment = ''D'', sc_InstrumentName = ''FUTIDX'', sc_SecurityID = secID, sc_TradingSymbol = ''NIFTY'',
     sc_LotSize = 50, sc_ExpiryDate = [] \<rparr>"

theorem sync_replaces_master_witness:
  "instruments (snd (SyncDhan Inr (\<lambda>layout s. None) (Inr (200, [(ex_scrip ''6'')\<lparr> sc_Segment := ''E'' \<rparr>, ex_scrip ''7''])) db_syncer_store ex_weekly_db))
   = [batch_row (scrip_instrument (\<lambda>layout s. None) 0 (ex_scrip ''7''))]"
proof -
  let ?raw = "[(ex_scrip ''6'')\<lparr> sc_Segment := ''E'' \<rparr>, ex_scrip ''7'']"
  have "filter (\<lambda>i. \<not> isDhanEquity (sc_Segment i) (sc_InstrumentName i)) ?raw = [ex_scrip ''7'']" by code_simp
  then have listed: "listed (\<lambda>layout s. None) ?raw = [scrip_instrument (\<lambda>layout s. None) 0 (ex_scrip ''7'')]" by (simp add: listed_def)
  have "fst (SyncDhan Inr (\<lambda>layout s. None) (Inr (200, ?raw)) db_syncer_store ex_weekly_db) = Inr ()" by code_simp
  then obtain d' where run: "SyncDhan Inr (\<lambda>layout s. None) (Inr (200, ?raw)) db_syncer_store ex_weekly_db = (Inr (), d')"
    by (metis prod.collapse)
  show ?thesis
    using sync_replaces_master[OF refl refl run] run by (simp add: listed ex_weekly_db_def empty_db_def ex_weekly_def)
qed

theorem refused_sync_empties_master_witness:
  "\<exists>e d'. SyncDhan Inr (\<lambda>layout s. None) (Inr (200, [ex_scrip ''7'', ex_scrip ''7''])) db_syncer_store ex_weekly_db = (Inl e, d')
     \<and> errors_Is e pg_twice \<and> instruments d' = []"
proof -
  let ?ins = "dhan_instruments (\<lambda>layout s. None) [ex_scrip ''7'', ex_scrip ''7''] []"
  have down: "downloaded Inr (\<lambda>layout s. None) (Inr (200, [ex_scrip ''7'', ex_scrip ''7''])) ?ins" by (simp add: downloaded_def)
  have "faults ex_weekly_db = []" "\<not> distinct (map it_InstrumentToken (take chunkSize ?ins))" by code_simp+
  from refused_sync_empties_master[OF down this] show ?thesis by (simp add: ex_weekly_db_def empty_db_def ex_weekly_def)
qed

end
