(* ===== verification/Spec2Isabelle.thy ===== *)
theory Spec2Isabelle
  imports Rebalance Archive_Thms Auth_Thms Accounts_Thms Callbacks_Thms Wiring_Thms Groups_Thms Trade_Thms Instruments_Thms
begin

text \<open>
  EnvoyTrade copies the fills of master trading accounts to the follower accounts linked to them,
  and keeps the orders of the followers in a database. This development models the server
  (\<open>internal/\<close> and the wiring of \<open>cmd/server/main.go\<close>) and proves what makes it safe to run: a fill is
  copied to a follower at most once and in the right size, what the brokers report ends up on
  the right order, an account trades only through its own address, and the HTTP API lets in and
  changes only what it should.

  \<^bold>\<open>How the parts work together.\<close> A master's fill enters through the order feed of its account
  (\<open>ticker/manager.go\<close>) or a webhook (\<open>kite/callback\<close>, \<open>dhan/callback\<close>) and a queue, and reaches
  \<open>MasterFillConsumer.Handle\<close> (\<open>listener/listener.go\<close>), which stores it and calls
  \<open>Engine.HandleMasterFill\<close> (\<open>engine/engine.go\<close>). The engine reads the follow links, sizes an order per
  follower (\<open>domain/sizing.go\<close>), inserts all follower orders in one batch under tags derived from
  the fill (\<open>domain/idempotency.go\<close>) and hands one job per stored order to the worker pool
  (\<open>worker/pool.go\<close>), one goroutine and queue per follower. The worker places the order with the
  account's broker client (\<open>kite/broker.go\<close>, \<open>dhan/broker.go\<close>, \<open>testbroker\<close>) and records the outcome.
  Status updates of the followers' brokers reach \<open>FollowerStatusConsumer.Handle\<close>. The poller
  (\<open>recon/reconciler.go\<close>) backfills what was missed and settles old orders. Square-off and rebalance
  act on positions on demand. The archive moves old orders to files and back. Users administer
  accounts, groups, proxy addresses and the kill switch through \<open>httpapi\<close>; the handlers call back into
  the running server through hooks that \<open>main.go\<close> installs. All parts share the store
  (\<open>store/postgres\<close>).

  \<^bold>\<open>Theories: the trading core.\<close>
  \<^item> \<open>Prelude\<close>: Go integers (\<open>int\<close> with the 64-bit wrap-around written out), strings, times in
    nanoseconds, errors with wrapping, decimals as rationals with the package's rounding division as
    a parameter \<open>decimal_pkg\<close> whose documented behaviour is \<open>decimal_doc\<close>.
  \<^item> \<open>Sizing\<close>, \<open>Idempotency\<close>, \<open>Orders\<close>, \<open>Status\<close>: package \<open>domain\<close>. \<open>SizeOrder\<close> equals the exact
    rational specification on the system's inputs, is bounded by the intent and the cap and is the
    largest such lot multiple; tags are twenty lower-case hexadecimal digits of a SHA-256 that the theory computes;
    account statuses parse and print; sanitized errors leak nothing.
  \<^item> \<open>Queues\<close>: \<open>queue/memchan\<close>, a bounded channel, refined to a FIFO list.
  \<^item> \<open>Store\<close>, \<open>Store_Inv\<close>, \<open>Store_Thms\<close>: the order tables as lists of row records in a record \<open>db\<close>, one
    operation per method of \<open>store.go\<close>, with the constraints of the schema and a script of injected
    database errors. An operation returns its result or error and the new database; a failed
    transaction leaves the tables alone. The invariant is uniqueness of ids, tags and broker order
    ids and the references between rows; \<open>store_step\<close> collects the operations that change state.
  \<^item> \<open>Accounts_Store\<close>, \<open>Accounts_Inv\<close>, \<open>Accounts_View\<close>: accounts, groups and links
    (\<open>store.go\<close>, \<open>groups.go\<close>), their invariant over \<open>admin_step\<close>, and the rows shown to callers with
    the session state derived from the token's expiry.
  \<^item> \<open>Broker\<close>: broker types, conversions, registry and the pool that caches one client per account.
  \<^item> \<open>Worker\<close>, \<open>WorkerPool\<close>: placing one job with retries and panics, and the pool with its
    goroutines as a step relation \<open>sys_step\<close> under an arbitrary schedule.
  \<^item> \<open>Engine\<close>, \<open>Listener\<close>: the fan-out and the two consumers over records of the operations they
    call. The locales state what the engine relies on of the store.
  \<^item> \<open>Server\<close>: the store, engine, pool and consumers composed; \<open>server_step\<close> interleaves deliveries,
    administration, workers and kill switch, and the theorems about copying hold in every reachable state:
    no fill is copied twice, a stored fill is not taken again, and a fan-out gives every follower its outcome.
  \<^item> \<open>Recon\<close>: one pass of the poller; on the server a pass is a history of \<open>server_step\<close>s, so the
    theorems of \<open>Server\<close> carry over, and every order older than five minutes is settled.
  \<^item> \<open>Squareoff\<close>, \<open>Rebalance\<close>: the two services over broker handles as records of operations. The
    locales \<open>desk_reads\<close>, \<open>trading_desk\<close>, \<open>booked_desk\<close> and \<open>rebalance_desk\<close> state the contract of a desk that
    logs order requests; they are interpreted on the store's methods with an arbitrary script of
    broker replies. The orders sent close, or bring to target, exactly the positions.

  \<^bold>\<open>Theories: archive.\<close>
  \<^item> \<open>Calendar\<close>: the calendar arithmetic of \<open>time.Time\<close> and the layout in Indian Standard Time.
  \<^item> \<open>Archive\<close>, \<open>Archive_Thms\<close>: \<open>internal/archive\<close>; a file is the list of its rows, one per table and
    trading day. Archiving loses no row and restoring everything gives the tables back; the locale
    \<open>table_restore\<close> states what restoring one table promises.

  \<^bold>\<open>Theories: brokers and wiring.\<close>
  \<^item> \<open>Adapters\<close>: the operations of the three broker clients over the calls of their SDKs; the locale
    \<open>refusing_handle\<close> states what a client without a usable session or address answers.
  \<^item> \<open>Callbacks\<close>, \<open>Callbacks_Thms\<close>: the webhooks, their router and the handlers of the order feeds. A
    Zerodha postback is taken only with the checksum of its account, and both ways of delivery
    publish the same fill.
  \<^item> \<open>Tickers\<close>: the manager of the masters' feeds. What a call does under the lock, the start in a goroutine
    and the stop after the unlock are separate steps of a relation; a connected feed is the registered one of its
    master or is about to be stopped.
  \<^item> \<open>Wiring\<close>, \<open>Wiring_Thms\<close>: clients, workers and feeds as \<open>main.go\<close> connects them, in a record \<open>runtime\<close>; an order
    reaches Zerodha and Dhan only through the address of its account, and a refreshed token reaches the worker.
  \<^item> \<open>Instruments\<close>, \<open>Instruments_Thms\<close>: the instrument table, the cache in front of it, the daily download and Dhan's
    index. The locale \<open>instrument_master\<close> states what the cache relies on of the queries; it answers only with rows of
    the table, leads from a contract to the nearest one with its symbol, and a download replaces one broker's rows.

  \<^bold>\<open>Theories: HTTP API.\<close>
  \<^item> \<open>Http\<close>: requests, responses with the Go value each body encodes, and the environment of a call.
  \<^item> \<open>Site\<close>, \<open>Auth_Api\<close>, \<open>Auth_Thms\<close>: users, sessions and quotas in the store (\<open>auth.go\<close>), the
    handlers and both middlewares. Only live sessions are admitted, and changing a password
    ends the others when the database does not fail.
  \<^item> \<open>Proxy_Pool\<close>, \<open>Proxy_Thms\<close>, \<open>Proxy_Api\<close>: the rules of \<open>domain/proxy.go\<close>, the table of addresses and
    their handlers; imports are transactions and an address in use is not deleted.
  \<^item> \<open>Secrets\<close>: base64, credentials encrypted around AES-GCM, and the claims of Dhan tokens.
  \<^item> \<open>Accounts_Api\<close>, \<open>Accounts_Thms\<close>: the account handlers, with the hooks they call as a log. The locales
    from \<open>fault_blind\<close> to \<open>address_ops\<close> say which part of the state an operation leaves alone, and a \<open>PATCH\<close> is
    shown once to keep whatever its steps keep: other accounts, and the assignment of addresses.
  \<^item> \<open>Groups_Api\<close>, \<open>Groups_Thms\<close>: the group handlers; with the account handlers they keep masters and
    followers apart, so that copying never loops.
  \<^item> \<open>Trade_Api\<close>, \<open>Trade_Thms\<close>: actions, square-off, rebalance and kill switch; the rebalance action is
    a history of \<open>server_step\<close>s and an engaged switch stops all copying by the engine. The square-off and
    rebalance services do not look at the switch, in the code and in the model.

  \<^bold>\<open>Bounds and fuel.\<close> Loops are structural recursion or folds over the lists the code ranges over;
  the retry loop of the worker recurses on the remaining attempts and always returns. No
  definition uses fuel. Properties about sizes assume quantities of which the products fit an
  \<open>int64\<close>, a clone factor with the six decimals of its column and a lot size of the \<open>integer\<close> column.

  \<^bold>\<open>Parameters.\<close> Code outside the repository is an argument: the decimal division; bcrypt, AES-GCM and
  random bytes; the parsers of mail addresses, IP addresses, times, UUIDs, decimals and URLs; the JSON
  decoders; the SDK clients, replies and order books of the brokers; the probe of a proxy; the order in
  which a query without a total order returns rows, Go ranges over a map or goroutines finish; and
  the database's failures. So are the
  portfolio syncers and, in \<open>Wiring\<close>, the lookups that \<open>Instruments\<close> models.

  \<^bold>\<open>Limits.\<close> Requests of the API are handled one after another, and the hooks of a handler run
  after its statements: a race between the check and the act of two requests (quota, deletion of
  an address, choice of an address) is outside the model. Histories of \<open>server_step\<close> do not
  archive: an archived fill is no longer known, and its delivery would be copied as a new one. \<open>Archive_Thms\<close>
  shows what archiving changes in the tables. The recomputation of a group's imbalance, which a handler starts
  in the background, is an entry of its log of hooks. A session refresh inside the resolution of a client acts on
  the site only: the hook that a Kite refresh calls there, and the mutex of the pool that it would wait for, are not in
  the model. The stub that lets tests pass the
  authentication is left out. Panics inside the goroutines of square-off and rebalance, which
  the code turns into an error entry, and panics inside store calls during a placement do not occur in the model.
  The numeric columns of a follow link do not overflow, and the id sequences do not advance on a refused
  insert. Prices keep their value where the code passes them through a float (the Dhan client), and the days to an
  expiry are exact.

  \<^bold>\<open>Not modelled.\<close> Routing, static files and the read-only lists of orders and portfolio figures for the
  dashboard; the network clients of the brokers, headless login and the copy of positions
  into the database; telemetry, metrics and logging; the simulated exchange \<open>testbroker\<close>; the frontend. These are input and output around the
  modelled state, or tools of development.
\<close>

end
